(* ===== verification/Pool_Prelude.thy ===== *)
theory Pool_Prelude
  imports
    Complex_Main
    "HOL-Library.Char_ord"
    "HOL-Library.List_Lexorder"
    "HOL-Library.Product_Lexorder"
begin

text \<open>
  Shared vocabulary of the development: outcomes of fallible Python code as a sum type, SQL
  tables as lists of rows in rowid order with the keyed operations the store uses, the
  \<^verbatim>\<open>ORDER BY ... LIMIT 1\<close> selection, and the generic facts about them that the component
  theories rely on.
\<close>

named_theorems outcome_simps \<open>inversion of error-propagating expressions\<close>
named_theorems pool_defs \<open>definitions of the store's operations, unfolded by specification lemmas\<close>

section \<open>Outcomes\<close>

text \<open>
  A Python function that may raise is a function into \<open>'e + 'a\<close>: \<open>Inl e\<close> is the raised
  exception, \<open>Inr a\<close> the returned value. \<open>bindE\<close> is sequencing: the continuation runs only
  when the first part returns.
\<close>

definition bindE :: "'e + 'a \<Rightarrow> ('a \<Rightarrow> 'e + 'b) \<Rightarrow> 'e + 'b" where
  "bindE m f = (case m of Inl e \<Rightarrow> Inl e | Inr a \<Rightarrow> f a)"

text \<open>SQL's \<^verbatim>\<open>COALESCE(v, d)\<close> with a default that is not null.\<close>

definition coalesce :: "'a option \<Rightarrow> 'a \<Rightarrow> 'a option" where
  "coalesce v d = (case v of None \<Rightarrow> Some d | Some x \<Rightarrow> Some x)"

fun foldE :: "('r \<Rightarrow> 's \<Rightarrow> 'e + 's) \<Rightarrow> 'r list \<Rightarrow> 's \<Rightarrow> 'e + 's" where
  "foldE f [] s = Inr s"
| "foldE f (r # rs) s = bindE (f r s) (foldE f rs)"

section \<open>Tables\<close>

definition tbl_get :: "('r \<Rightarrow> 'k) \<Rightarrow> 'k \<Rightarrow> 'r list \<Rightarrow> 'r option" where
  "tbl_get key k rs = find (\<lambda>r. key r = k) rs"

definition tbl_upd :: "('r \<Rightarrow> 'k) \<Rightarrow> 'k \<Rightarrow> ('r \<Rightarrow> 'r) \<Rightarrow> 'r list \<Rightarrow> 'r list" where
  "tbl_upd key k f rs = map (\<lambda>r. if key r = k then f r else r) rs"

text \<open>
  \<open>first_min key rs\<close> is the row a query \<^verbatim>\<open>ORDER BY key, rowid LIMIT 1\<close> returns: the least
  key, and among equal keys the row that was inserted first.
\<close>

fun first_min :: "('r \<Rightarrow> 'k::linorder) \<Rightarrow> 'r list \<Rightarrow> 'r option" where
  "first_min key [] = None"
| "first_min key (r # rs) =
     (case first_min key rs of
        None \<Rightarrow> Some r
      | Some m \<Rightarrow> if key r \<le> key m then Some r else Some m)"

section \<open>Facts about outcomes\<close>

lemma bindE_simps [simp]:
  "bindE (Inl e) f = Inl e" "bindE (Inr a) f = f a"
  by (simp_all add: bindE_def)

lemma bindE_Inr [outcome_simps]:
  "bindE m f = Inr b \<longleftrightarrow> (\<exists>a. m = Inr a \<and> f a = Inr b)"
  by (cases m) auto

lemma bindE_Inl [outcome_simps]:
  "bindE m f = Inl e \<longleftrightarrow> m = Inl e \<or> (\<exists>a. m = Inr a \<and> f a = Inl e)"
  by (cases m) auto

lemma if_Inl_eq_Inr [outcome_simps]:
  "(if c then Inl e else x) = Inr y \<longleftrightarrow> \<not> c \<and> x = Inr y"
  by simp

text \<open>An invariant of every step of an error-propagating loop is an invariant of the loop.\<close>

lemma foldE_inv:
  assumes "foldE f rs s = Inr s'" and "P s"
    and "\<And>r s s'. r \<in> set rs \<Longrightarrow> P s \<Longrightarrow> f r s = Inr s' \<Longrightarrow> P s'"
  shows "P s'"
  using assms
proof (induction rs arbitrary: s)
  case Nil
  then show ?case by simp
next
  case (Cons r rs)
  from Cons.prems(1) obtain s1 where s1: "f r s = Inr s1" and rest: "foldE f rs s1 = Inr s'"
    by (auto simp: outcome_simps)
  have "P s1" using Cons.prems(2,3) s1 by (meson list.set_intros(1))
  with rest show ?case using Cons.IH Cons.prems(3) by (meson list.set_intros(2))
qed

text \<open>A loop whose every step returns, under a loop invariant, returns.\<close>

lemma foldE_total:
  assumes "P s"
    and "\<And>r s. r \<in> set rs \<Longrightarrow> P s \<Longrightarrow> \<exists>s'. f r s = Inr s' \<and> P s'"
  shows "\<exists>s'. foldE f rs s = Inr s' \<and> P s'"
  using assms
proof (induction rs arbitrary: s)
  case Nil
  then show ?case by simp
next
  case (Cons r rs)
  obtain s1 where "f r s = Inr s1" "P s1" using Cons.prems by (meson list.set_intros(1))
  moreover obtain s' where "foldE f rs s1 = Inr s'" "P s'"
    using Cons.IH [OF \<open>P s1\<close>] Cons.prems(2) by (meson list.set_intros(2))
  ultimately show ?case by simp
qed

section \<open>Facts about tables\<close>

lemma tbl_get_simps [simp]:
  "tbl_get key k [] = None"
  "tbl_get key k (r # rs) = (if key r = k then Some r else tbl_get key k rs)"
  by (simp_all add: tbl_get_def)

lemma tbl_get_Some: "tbl_get key k rs = Some r \<Longrightarrow> r \<in> set rs \<and> key r = k"
  by (induction rs) (auto simp: tbl_get_def split: if_splits)

lemma tbl_get_None: "tbl_get key k rs = None \<longleftrightarrow> k \<notin> key ` set rs"
  by (auto simp: tbl_get_def find_None_iff)

lemma tbl_get_iff:
  "distinct (map key rs) \<Longrightarrow> tbl_get key k rs = Some r \<longleftrightarrow> r \<in> set rs \<and> key r = k"
  by (induction rs) (auto simp: tbl_get_def image_iff)

lemma set_tbl_upd [simp]:
  "set (tbl_upd key k f rs) = (\<lambda>r. if key r = k then f r else r) ` set rs"
  by (auto simp: tbl_upd_def)

lemma length_tbl_upd [simp]: "length (tbl_upd key k f rs) = length rs"
  by (simp add: tbl_upd_def)

lemma map_tbl_upd_cong:
  "(\<And>r. key r = k \<Longrightarrow> g (f r) = g r) \<Longrightarrow> map g (tbl_upd key k f rs) = map g rs"
  by (induction rs) (auto simp: tbl_upd_def)

lemma filter_tbl_upd_other:
  "(\<And>r. r \<in> set rs \<Longrightarrow> key r = k \<Longrightarrow> \<not> P r \<and> \<not> P (f r)) \<Longrightarrow>
   filter P (tbl_upd key k f rs) = filter P rs"
  by (induction rs) (auto simp: tbl_upd_def)

lemma tbl_get_append:
  "tbl_get key k (rs @ ss) =
     (case tbl_get key k rs of None \<Rightarrow> tbl_get key k ss | Some r \<Rightarrow> Some r)"
  by (induction rs) (auto simp: tbl_get_def)

lemma tbl_get_upd:
  "(\<And>r. key r = k \<Longrightarrow> key (f r) = k) \<Longrightarrow>
   tbl_get key k' (tbl_upd key k f rs) =
     (if k' = k then map_option f (tbl_get key k rs) else tbl_get key k' rs)"
  by (induction rs) (auto simp: tbl_get_def tbl_upd_def)

text \<open>An update of one row keeps a partial unique index when its new entry is new.\<close>

lemma distinct_upd:
  assumes "distinct (map key rs)" "distinct (map g (filter P rs))" "r \<in> set rs"
    and "\<And>u. P (f r) \<Longrightarrow> u \<in> set rs \<Longrightarrow> P u \<Longrightarrow> u \<noteq> r \<Longrightarrow> g u \<noteq> g (f r)"
  shows "distinct (map g (filter P (tbl_upd key (key r) f rs)))"
  using assms
proof (induction rs)
  case (Cons x rs)
  show ?case
  proof (cases "x = r")
    case True
    have same: "tbl_upd key (key r) f rs = rs"
      using True Cons.prems(1) by (auto simp: tbl_upd_def intro!: map_idI) (metis imageI)
    have "g (f r) \<notin> g ` {u \<in> set rs. P u}" if "P (f r)"
      using True Cons.prems(1) Cons.prems(4) [OF that] by force
    with True same Cons.prems(2) show ?thesis by (auto simp: tbl_upd_def split: if_splits)
  next
    case False
    then have r: "r \<in> set rs" and kx: "key x \<noteq> key r" using Cons.prems(1,3) by auto
    have IH: "distinct (map g (filter P (tbl_upd key (key r) f rs)))"
      using Cons.IH Cons.prems r by (auto split: if_splits)
    have "g x \<noteq> g (if key y = key r then f y else y)"
      if "P x" "y \<in> set rs" "P (if key y = key r then f y else y)" for y
    proof (cases "key y = key r")
      case True
      then have "y = r" using that(2) r Cons.prems(1) by (auto simp: distinct_map inj_on_def)
      with True that(1,3) False Cons.prems(4) [of x] show ?thesis by simp
    next
      case False
      with that Cons.prems(2) show ?thesis by force
    qed
    then have "g x \<notin> g ` set (filter P (tbl_upd key (key r) f rs))" if "P x"
      using that unfolding tbl_upd_def by fastforce
    with IH kx show ?thesis by (simp add: tbl_upd_def)
  qed
qed (simp add: tbl_upd_def)

section \<open>Facts about the selection\<close>

lemma first_min_None [simp]: "first_min key rs = None \<longleftrightarrow> rs = []"
  by (cases rs) (auto split: option.splits)

lemma first_min_Some: "first_min key rs = Some r \<Longrightarrow> r \<in> set rs \<and> (\<forall>x\<in>set rs. key r \<le> key x)"
  by (induction rs arbitrary: r) (fastforce split: option.splits if_splits)+

text \<open>Among the rows of least key, the selected one has the smallest rowid.\<close>

lemma first_min_first:
  "first_min key rs = Some r \<Longrightarrow>
   \<exists>us vs. rs = us @ r # vs \<and> (\<forall>x\<in>set us. key r < key x) \<and> (\<forall>x\<in>set vs. key r \<le> key x)"
proof (induction rs arbitrary: r)
  case Nil
  then show ?case by simp
next
  case (Cons a rs)
  show ?case
  proof (cases "first_min key rs")
    case None
    with Cons.prems show ?thesis by (intro exI [of _ "[]"]) simp
  next
    case (Some m)
    note least = first_min_Some [OF Some]
    show ?thesis
    proof (cases "key a \<le> key m")
      case True
      with Cons.prems Some have "r = a" by simp
      with True least show ?thesis by (intro exI [of _ "[]"] exI [of _ rs]) auto
    next
      case False
      with Cons.prems Some have "r = m" by simp
      from Cons.IH [OF Some] obtain us vs where
        "rs = us @ m # vs" "\<forall>x\<in>set us. key m < key x" "\<forall>x\<in>set vs. key m \<le> key x" by blast
      with False \<open>r = m\<close> show ?thesis by (intro exI [of _ "a # us"] exI [of _ vs]) auto
    qed
  qed
qed

section \<open>Interface: a keyed SQL table inside a database\<close>

text \<open>
  What the store's code relies on whenever it selects or updates rows \<^verbatim>\<open>WHERE key = ?\<close>: the
  selected row belongs to the table and carries the key, an update rewrites exactly the rows
  with the key, and it touches no other table. Each table of the schema is an instance.
\<close>

locale keyed_table =
  fixes rows :: "'d \<Rightarrow> 'r list"
    and key :: "'r \<Rightarrow> 'k"
    and get :: "'k \<Rightarrow> 'd \<Rightarrow> 'r option"
    and upd :: "'k \<Rightarrow> ('r \<Rightarrow> 'r) \<Rightarrow> 'd \<Rightarrow> 'd"
  assumes get_rows: "get k d = tbl_get key k (rows d)"
    and rows_upd: "rows (upd k f d) = tbl_upd key k f (rows d)"
begin

lemma get_Some: "get k d = Some r \<Longrightarrow> r \<in> set (rows d) \<and> key r = k"
  unfolding get_rows by (rule tbl_get_Some)

lemma get_mem: "get k d = Some r \<Longrightarrow> r \<in> set (rows d)"
  using get_Some by blast

lemma get_key: "get k d = Some r \<Longrightarrow> key r = k"
  using get_Some by blast

lemma get_None: "get k d = None \<longleftrightarrow> k \<notin> key ` set (rows d)"
  by (simp add: get_rows tbl_get_None)

lemma get_iff: "distinct (map key (rows d)) \<Longrightarrow> get k d = Some r \<longleftrightarrow> r \<in> set (rows d) \<and> key r = k"
  unfolding get_rows by (rule tbl_get_iff)

lemma get_upd:
  "(\<And>r. key r = k \<Longrightarrow> key (f r) = k) \<Longrightarrow>
   get k' (upd k f d) = (if k' = k then map_option f (get k d) else get k' d)"
  unfolding get_rows rows_upd by (rule tbl_get_upd)

lemma keys_upd:
  "(\<And>r. key r = k \<Longrightarrow> key (f r) = k) \<Longrightarrow> map key (rows (upd k f d)) = map key (rows d)"
  unfolding rows_upd by (rule map_tbl_upd_cong) simp

lemma mem_upd: "r \<in> set (rows d) \<Longrightarrow> (if key r = k then f r else r) \<in> set (rows (upd k f d))"
  by (simp add: rows_upd)

end

end
