(* ===== verification/Sha256.thy ===== *)
theory Sha256
  imports Pool_Prelude "HOL-Library.Word"
begin

text \<open>
  SHA-256 (FIPS 180-4), as \<^verbatim>\<open>hashlib.sha256(text.encode()).hexdigest()\<close> computes it on ASCII
  text. The store derives task identities, branches, workspace keys and checkpoint digests
  from it. Words are 32 bits wide: additions wrap around.
\<close>

unbundle bit_operations_syntax

type_synonym w32 = "32 word"

text \<open>The constants of the standard: the first 32 bits of the fractional parts of the cube roots of the first
  64 primes, and of the square roots of the first eight. \<open>root_bits k n i r\<close> adds to \<open>r\<close> the binary digits of the
  integer \<open>k\<close>-th root of \<open>n\<close> below position \<open>i\<close>.\<close>

primrec root_bits :: "nat \<Rightarrow> nat \<Rightarrow> nat \<Rightarrow> nat \<Rightarrow> nat" where
  "root_bits k n 0 r = r"
| "root_bits k n (Suc i) r = root_bits k n i (if (r + 2 ^ i) ^ k \<le> n then r + 2 ^ i else r)"

definition root_fraction :: "nat \<Rightarrow> nat \<Rightarrow> w32" where
  "root_fraction k p = word_of_nat (root_bits k (p * 2 ^ (32 * k)) 37 0)"

definition first_primes :: "nat list" where
  "first_primes =
   [2, 3, 5, 7, 11, 13, 17, 19, 23, 29, 31, 37, 41, 43, 47, 53, 59, 61, 67, 71, 73, 79, 83, 89, 97, 101, 103, 107,
    109, 113, 127, 131, 137, 139, 149, 151, 157, 163, 167, 173, 179, 181, 191, 193, 197, 199, 211, 223, 227, 229,
    233, 239, 241, 251, 257, 263, 269, 271, 277, 281, 283, 293, 307, 311]"

definition sha_k :: "w32 list" where
  "sha_k = map (root_fraction 3) first_primes"

type_synonym sha_state = "w32 \<times> w32 \<times> w32 \<times> w32 \<times> w32 \<times> w32 \<times> w32 \<times> w32"

definition sha_init :: sha_state where
  "sha_init =
     (root_fraction 2 2, root_fraction 2 3, root_fraction 2 5, root_fraction 2 7,
      root_fraction 2 11, root_fraction 2 13, root_fraction 2 17, root_fraction 2 19)"

lemma root_bits_correct:
  assumes "r ^ k \<le> n" and "n < (r + 2 ^ i) ^ k"
  shows "root_bits k n i r ^ k \<le> n \<and> n < Suc (root_bits k n i r) ^ k"
  using assms by (induction i arbitrary: r) (simp_all add: not_le add.assoc mult_2 [symmetric])

definition sha_pad :: "nat list \<Rightarrow> nat list" where
  "sha_pad m =
     (let n = length m; z = (119 - n mod 64) mod 64
      in m @ 128 # replicate z 0 @ map (\<lambda>i. (8 * n) div 256 ^ i mod 256) [7, 6, 5, 4, 3, 2, 1, 0])"

fun be_words :: "nat list \<Rightarrow> w32 list" where
  "be_words (a # b # c # d # xs) =
     word_of_nat (a * 16777216 + b * 65536 + c * 256 + d) # be_words xs"
| "be_words _ = []"

definition rotr32 :: "nat \<Rightarrow> w32 \<Rightarrow> w32" where
  "rotr32 n x = drop_bit n x OR push_bit (32 - n) x"

text \<open>The message schedule, most recent word first: each new word looks 2, 7, 15 and 16 back.\<close>

definition sha_extend :: "w32 list \<Rightarrow> w32 list" where
  "sha_extend ws =
     (let x = ws ! 14; y = ws ! 1;
          s0 = rotr32 7 x XOR rotr32 18 x XOR drop_bit 3 x;
          s1 = rotr32 17 y XOR rotr32 19 y XOR drop_bit 10 y
      in (ws ! 15 + s0 + ws ! 6 + s1) # ws)"

definition sha_schedule :: "w32 list \<Rightarrow> w32 list" where
  "sha_schedule block = rev ((sha_extend ^^ 48) (rev block))"

fun sha_round :: "w32 \<times> w32 \<Rightarrow> sha_state \<Rightarrow> sha_state" where
  "sha_round (k, w) (a, b, c, d, e, f, g, h) =
     (let t1 = h + (rotr32 6 e XOR rotr32 11 e XOR rotr32 25 e)
                 + ((e AND f) XOR (NOT e AND g)) + k + w;
          t2 = (rotr32 2 a XOR rotr32 13 a XOR rotr32 22 a)
                 + ((a AND b) XOR (a AND c) XOR (b AND c))
      in (t1 + t2, a, b, c, d + t1, e, f, g))"

fun sha_add :: "sha_state \<Rightarrow> sha_state \<Rightarrow> sha_state" where
  "sha_add (a, b, c, d, e, f, g, h) (a', b', c', d', e', f', g', h') =
     (a + a', b + b', c + c', d + d', e + e', f + f', g + g', h + h')"

definition sha_block :: "w32 list \<Rightarrow> sha_state \<Rightarrow> sha_state" where
  "sha_block block st = sha_add st (fold sha_round (zip sha_k (sha_schedule block)) st)"

fun sha_blocks :: "nat \<Rightarrow> w32 list \<Rightarrow> sha_state \<Rightarrow> sha_state" where
  "sha_blocks 0 ws st = st"
| "sha_blocks (Suc n) ws st = sha_blocks n (drop 16 ws) (sha_block (take 16 ws) st)"

definition hex_digit :: "nat \<Rightarrow> char" where
  "hex_digit d = char_of (if d < 10 then 48 + d else 87 + d)"

definition hex_word :: "w32 \<Rightarrow> string" where
  "hex_word w = map (\<lambda>i. hex_digit (unat w div 16 ^ i mod 16)) [7, 6, 5, 4, 3, 2, 1, 0]"

definition sha256_hex :: "string \<Rightarrow> string" where
  "sha256_hex s =
     (let ws = be_words (sha_pad (map of_char s))
      in case sha_blocks (length ws div 16) ws sha_init of
           (a, b, c, d, e, f, g, h) \<Rightarrow> concat (map hex_word [a, b, c, d, e, f, g, h]))"

definition is_lower_hex :: "char \<Rightarrow> bool" where
  "is_lower_hex c \<longleftrightarrow> (let n = (of_char c :: nat) in 48 \<le> n \<and> n \<le> 57 \<or> 97 \<le> n \<and> n \<le> 102)"

lemma hex_digit_lower_hex: "d < 16 \<Longrightarrow> is_lower_hex (hex_digit d)"
  by (auto simp: is_lower_hex_def hex_digit_def Let_def)

lemma hex_word_lower_hex: "c \<in> set (hex_word w) \<Longrightarrow> is_lower_hex c"
  by (auto simp: hex_word_def intro!: hex_digit_lower_hex)

lemma length_hex_word [simp]: "length (hex_word w) = 8"
  by (simp add: hex_word_def)

lemma length_sha256_hex [simp]: "length (sha256_hex s) = 64"
  by (simp add: sha256_hex_def Let_def split: prod.splits)

lemma sha256_hex_lower_hex: "c \<in> set (sha256_hex s) \<Longrightarrow> is_lower_hex c"
  by (auto simp: sha256_hex_def Let_def split: prod.splits dest: hex_word_lower_hex)

end
