(* ===== verification/Py_Text.thy ===== *)
theory Py_Text
  imports Sha256
begin

text \<open>
  The text functions of \<^verbatim>\<open>app/store.py\<close> (lines 15-87): the Python string methods and regular
  expressions the store uses, on ASCII strings, the redaction of secrets, the canonical JSON
  text that is hashed into content digests, and the derived identities (task id, branch,
  workspace key).
\<close>

section \<open>Python string methods on ASCII text\<close>

abbreviation code :: "char \<Rightarrow> nat" where
  "code \<equiv> of_char"

definition py_isspace :: "char \<Rightarrow> bool" where
  "py_isspace c \<longleftrightarrow> 9 \<le> code c \<and> code c \<le> 13 \<or> 28 \<le> code c \<and> code c \<le> 32"

definition is_upper :: "char \<Rightarrow> bool" where
  "is_upper c \<longleftrightarrow> 65 \<le> code c \<and> code c \<le> 90"

definition is_lower :: "char \<Rightarrow> bool" where
  "is_lower c \<longleftrightarrow> 97 \<le> code c \<and> code c \<le> 122"

definition is_digit :: "char \<Rightarrow> bool" where
  "is_digit c \<longleftrightarrow> 48 \<le> code c \<and> code c \<le> 57"

definition is_alnum :: "char \<Rightarrow> bool" where
  "is_alnum c \<longleftrightarrow> is_upper c \<or> is_lower c \<or> is_digit c"

definition lower_char :: "char \<Rightarrow> char" where
  "lower_char c = (if is_upper c then char_of (code c + 32) else c)"

definition upper_char :: "char \<Rightarrow> char" where
  "upper_char c = (if is_lower c then char_of (code c - 32) else c)"

definition py_lower :: "string \<Rightarrow> string" where
  "py_lower = map lower_char"

definition py_upper :: "string \<Rightarrow> string" where
  "py_upper = map upper_char"

definition py_strip :: "string \<Rightarrow> string" where
  "py_strip s = rev (dropWhile py_isspace (rev (dropWhile py_isspace s)))"

definition starts_with :: "string \<Rightarrow> string \<Rightarrow> bool" where
  "starts_with p s \<longleftrightarrow> take (length p) s = p"

definition ends_with :: "string \<Rightarrow> string \<Rightarrow> bool" where
  "ends_with p s \<longleftrightarrow> starts_with (rev p) (rev s)"

fun has_infix :: "string \<Rightarrow> string \<Rightarrow> bool" where
  "has_infix p [] \<longleftrightarrow> p = []"
| "has_infix p (c # s) \<longleftrightarrow> starts_with p (c # s) \<or> has_infix p s"

fun show_nat :: "nat \<Rightarrow> string" where
  "show_nat n = (if n < 10 then [char_of (48 + n)] else show_nat (n div 10) @ [char_of (48 + n mod 10)])"

declare show_nat.simps [simp del]

definition show_int :: "int \<Rightarrow> string" where
  "show_int i = (if i < 0 then CHR ''-'' # show_nat (nat (- i)) else show_nat (nat i))"

text \<open>\<^verbatim>\<open>value or ""\<close> and \<^verbatim>\<open>(value or "").strip().lower() or None\<close> on optional text.\<close>

definition opt_text :: "string option \<Rightarrow> string" where
  "opt_text v = (case v of None \<Rightarrow> [] | Some s \<Rightarrow> s)"

definition text_or_none :: "string \<Rightarrow> string option" where
  "text_or_none s = (if s = [] then None else Some s)"

section \<open>The regular expressions, as \<open>fullmatch\<close> uses them\<close>

definition SHA40 :: "string \<Rightarrow> bool" where
  "SHA40 s \<longleftrightarrow> length s = 40 \<and> list_all is_lower_hex s"

definition SHA64 :: "string \<Rightarrow> bool" where
  "SHA64 s \<longleftrightarrow> length s = 64 \<and> list_all is_lower_hex s"

definition SAFE_ID :: "string \<Rightarrow> bool" where
  "SAFE_ID s \<longleftrightarrow> (case s of [] \<Rightarrow> False
     | c # cs \<Rightarrow> is_alnum c \<and> length cs \<le> 127 \<and>
         list_all (\<lambda>x. is_alnum x \<or> x \<in> set ''._:-'') cs)"

definition TASK_ID :: "string \<Rightarrow> bool" where
  "TASK_ID s \<longleftrightarrow> take 4 s = ''cwp-'' \<and> length s = 28 \<and> list_all is_lower_hex (drop 4 s)"

definition TARGET_BRANCH :: "string \<Rightarrow> bool" where
  "TARGET_BRANCH s \<longleftrightarrow> (case s of [] \<Rightarrow> False
     | c # cs \<Rightarrow> is_alnum c \<and> length cs \<le> 199 \<and>
         list_all (\<lambda>x. is_alnum x \<or> x \<in> set ''._/-'') cs)"

section \<open>Redaction\<close>

text \<open>
  \<^verbatim>\<open>re.sub\<close> scans from the left; at each position it tries the pattern and, on a match,
  emits the replacement and continues after the match, else copies one character. A matcher
  returns the replacement and the rest of the text; \<open>word\<close> says whether the character before
  the position is a word character, which decides \<^verbatim>\<open>\b\<close> in front of a letter.
\<close>

definition is_word :: "char \<Rightarrow> bool" where
  "is_word c \<longleftrightarrow> is_alnum c \<or> c = CHR ''_''"

text \<open>Case-insensitive literal: the matched text and the rest.\<close>

definition match_ci :: "string \<Rightarrow> string \<Rightarrow> (string \<times> string) option" where
  "match_ci lit s =
     (if length lit \<le> length s \<and> py_lower (take (length lit) s) = lit
      then Some (take (length lit) s, drop (length lit) s) else None)"

definition is_bearer_char :: "char \<Rightarrow> bool" where
  "is_bearer_char c \<longleftrightarrow> is_alnum c \<or> c \<in> set ''._~+/=-''"

definition match_BEARER :: "string \<Rightarrow> (string \<times> string) option" where
  "match_BEARER s =
     (case match_ci ''bearer'' s of
        None \<Rightarrow> None
      | Some (_, r) \<Rightarrow>
          (let sp = takeWhile py_isspace r; r1 = dropWhile py_isspace r;
               tok = takeWhile is_bearer_char r1
           in if sp = [] \<or> tok = [] then None
              else Some (''Bearer [REDACTED]'', dropWhile is_bearer_char r1)))"

text \<open>The alternatives of the keyword group, an optional \<^verbatim>\<open>_\<close> or \<^verbatim>\<open>-\<close> spelled out.\<close>

definition secret_words :: "string list" where
  "secret_words = [''token'', ''secret'', ''password'', ''passwd'', ''dsn'',
     ''connection_string'', ''connection-string'', ''connectionstring'',
     ''api_key'', ''api-key'', ''apikey'']"

fun match_any :: "string list \<Rightarrow> string \<Rightarrow> (string \<times> string) option" where
  "match_any [] s = None"
| "match_any (w # ws) s = (case match_ci w s of None \<Rightarrow> match_any ws s | Some r \<Rightarrow> Some r)"

definition is_secret_char :: "char \<Rightarrow> bool" where
  "is_secret_char c \<longleftrightarrow> \<not> py_isspace c \<and> c \<noteq> CHR '','' \<and> c \<noteq> CHR '';''"

definition match_SECRET :: "string \<Rightarrow> (string \<times> string) option" where
  "match_SECRET s =
     (case match_any secret_words s of
        None \<Rightarrow> None
      | Some (kw, r) \<Rightarrow>
          (case dropWhile py_isspace r of
             [] \<Rightarrow> None
           | c # r1 \<Rightarrow>
               (let r2 = dropWhile py_isspace r1; val = takeWhile is_secret_char r2
                in if c \<in> set '':='' \<and> val \<noteq> []
                   then Some (kw @ ''=[REDACTED]'', dropWhile is_secret_char r2)
                   else None)))"

text \<open>
  \<open>re_sub m w s\<close> is the scan. A match always consumes text (\<open>match_BEARER_consumes\<close>,
  \<open>match_SECRET_consumes\<close>), so the length test in front of the recursive call, which gives
  termination for an arbitrary matcher, never fails for the two patterns.
\<close>

fun re_sub :: "(string \<Rightarrow> (string \<times> string) option) \<Rightarrow> bool \<Rightarrow> string \<Rightarrow> string" where
  "re_sub m w [] = []"
| "re_sub m w (c # s) =
     (case (if w then None else m (c # s)) of
        None \<Rightarrow> c # re_sub m (is_word c) s
      | Some (rep, r) \<Rightarrow>
          if length r \<le> length s
          then rep @ re_sub m (is_word (last (take (length (c # s) - length r) (c # s)))) r
          else c # re_sub m (is_word c) s)"

definition sanitize :: "string \<Rightarrow> string" where
  "sanitize v = take 1000 (re_sub match_SECRET False (re_sub match_BEARER False v))"

section \<open>Canonical JSON\<close>

datatype json = JNull | JInt int | JStr string

definition json_escape_char :: "char \<Rightarrow> string" where
  "json_escape_char c =
     (if c = CHR 0x22 then [CHR 0x5C, CHR 0x22]
      else if c = CHR 0x5C then [CHR 0x5C, CHR 0x5C]
      else if code c = 10 then [CHR 0x5C, CHR ''n'']
      else if code c = 13 then [CHR 0x5C, CHR ''r'']
      else if code c = 9 then [CHR 0x5C, CHR ''t'']
      else if code c = 12 then [CHR 0x5C, CHR ''f'']
      else if code c = 8 then [CHR 0x5C, CHR ''b'']
      else if code c < 32 then CHR 0x5C # ''u00'' @ [hex_digit (code c div 16), hex_digit (code c mod 16)]
      else [c])"

definition json_quote :: "string \<Rightarrow> string" where
  "json_quote s = CHR 0x22 # concat (map json_escape_char s) @ [CHR 0x22]"

fun json_value :: "json \<Rightarrow> string" where
  "json_value JNull = ''null''"
| "json_value (JInt i) = show_int i"
| "json_value (JStr s) = json_quote s"

definition json_opt :: "string option \<Rightarrow> json" where
  "json_opt v = (case v of None \<Rightarrow> JNull | Some s \<Rightarrow> JStr s)"

text \<open>
  \<^verbatim>\<open>json.dumps(d, ensure_ascii=False, sort_keys=True, separators=(",", ":"))\<close> of a flat
  dictionary given as an association list, whose keys are sorted here.
\<close>

fun json_items :: "(string \<times> json) list \<Rightarrow> string" where
  "json_items [] = []"
| "json_items [(k, v)] = json_quote k @ '':'' @ json_value v"
| "json_items ((k, v) # kv # kvs) = json_quote k @ '':'' @ json_value v @ '','' @ json_items (kv # kvs)"

definition json_dumps :: "(string \<times> json) list \<Rightarrow> string" where
  "json_dumps d = ''{'' @ json_items (sort_key fst d) @ ''}''"

section \<open>Identities\<close>

definition identity :: "string \<Rightarrow> int \<Rightarrow> string \<Rightarrow> string" where
  "identity repository issue_number request_id =
     sha256_hex (py_lower (py_strip repository) @ ''|'' @ show_int issue_number @ ''|'' @ py_strip request_id)"

definition task_id :: "string \<Rightarrow> string" where
  "task_id key = ''cwp-'' @ take 24 key"

definition branch :: "int \<Rightarrow> string \<Rightarrow> string" where
  "branch issue_number request_id =
     ''codex/issue-'' @ show_int issue_number @ ''-'' @ take 10 (sha256_hex request_id)"

definition workspace :: "string \<Rightarrow> string \<Rightarrow> string" where
  "workspace repository task = ''worker-'' @ take 16 (sha256_hex (repository @ ''|'' @ task))"

definition PROTECTED_TARGET_BRANCHES :: "string list" where
  "PROTECTED_TARGET_BRANCHES = [''main'', ''master'', ''develop'']"

datatype branch_check = BranchOk string | BranchInvalid | BranchProtected

definition validate_target_branch :: "string \<Rightarrow> branch_check" where
  "validate_target_branch value =
     (let normalized = py_strip value in
      if normalized = [] \<or> \<not> TARGET_BRANCH normalized then BranchInvalid
      else if py_lower normalized \<in> set PROTECTED_TARGET_BRANCHES then BranchProtected
      else if has_infix ''..'' normalized \<or> has_infix ''//'' normalized
              \<or> ends_with ''/'' normalized \<or> ends_with ''.'' normalized \<or> ends_with ''.lock'' normalized
      then BranchInvalid
      else BranchOk normalized)"

section \<open>Facts about the text functions\<close>

lemma match_ci_length: "match_ci lit s = Some (m, r) \<Longrightarrow> length r + length lit = length s"
  by (auto simp: match_ci_def split: if_splits)

lemma match_any_length:
  "match_any ws s = Some (m, r) \<Longrightarrow> [] \<notin> set ws \<Longrightarrow> length r < length s"
proof (induction ws)
  case (Cons w ws)
  show ?case
  proof (cases "match_ci w s")
    case (Some mr)
    with Cons.prems have "length r + length w = length s" by (auto dest: match_ci_length)
    with Cons.prems show ?thesis by (cases w) auto
  qed (use Cons in auto)
qed simp

lemma match_BEARER_consumes: "match_BEARER s = Some (rep, r) \<Longrightarrow> length r < length s"
proof -
  assume "match_BEARER s = Some (rep, r)"
  then obtain m q where mq: "match_ci ''bearer'' s = Some (m, q)"
    and r: "r = dropWhile is_bearer_char (dropWhile py_isspace q)"
    by (auto simp: match_BEARER_def Let_def split: option.splits if_splits)
  have "length r \<le> length q"
    unfolding r by (meson le_trans length_dropWhile_le)
  with match_ci_length [OF mq] show ?thesis by simp
qed

lemma match_SECRET_consumes: "match_SECRET s = Some (rep, r) \<Longrightarrow> length r < length s"
proof -
  assume "match_SECRET s = Some (rep, r)"
  then obtain m q c r1 where mq: "match_any secret_words s = Some (m, q)"
    and q: "dropWhile py_isspace q = c # r1"
    and r: "r = dropWhile is_secret_char (dropWhile py_isspace r1)"
    by (auto simp: match_SECRET_def Let_def split: option.splits list.splits if_splits)
  have "length r \<le> length r1"
    unfolding r by (meson le_trans length_dropWhile_le)
  moreover have "length (c # r1) \<le> length q"
    using length_dropWhile_le [of py_isspace q] by (simp add: q)
  moreover have "length q < length s"
    by (rule match_any_length [OF mq]) (simp add: secret_words_def)
  ultimately show ?thesis by simp
qed

lemma sanitize_length: "length (sanitize v) \<le> 1000"
  by (simp add: sanitize_def)

lemma task_id_TASK_ID: "TASK_ID (task_id (identity r i q))"
  by (auto simp: TASK_ID_def task_id_def identity_def list_all_iff min_def
      dest!: in_set_takeD sha256_hex_lower_hex)

lemma py_lower_idem [simp]: "py_lower (py_lower s) = py_lower s"
proof -
  have "lower_char (lower_char c) = lower_char c" for c
    by (auto simp: lower_char_def is_upper_def)
  then show ?thesis by (simp add: py_lower_def)
qed

lemma validate_target_branch_safe:
  assumes "validate_target_branch v = BranchOk b"
  shows "TARGET_BRANCH b" "py_lower b \<notin> set PROTECTED_TARGET_BRANCHES"
    "\<not> has_infix ''..'' b" "\<not> has_infix ''//'' b" "\<not> ends_with ''.lock'' b"
  using assms by (auto simp: validate_target_branch_def Let_def split: if_splits)

lemma py_strip_idem: "py_strip (py_strip s) = py_strip s"
proof -
  define a where "a = dropWhile py_isspace s"
  have a: "a = py_strip s @ rev (takeWhile py_isspace (rev a))"
    unfolding py_strip_def a_def [symmetric]
    by (metis rev_append rev_rev_ident takeWhile_dropWhile_id)
  have "dropWhile py_isspace (py_strip s) = py_strip s"
  proof (cases "py_strip s")
    case (Cons x xs)
    with a have "hd a = x" "a \<noteq> []" by (metis append_Cons list.sel(1)) (use a Cons in auto)
    then have "\<not> py_isspace x" unfolding a_def by (metis hd_dropWhile)
    with Cons show ?thesis by simp
  qed simp
  moreover have "dropWhile py_isspace (rev (py_strip s)) = rev (py_strip s)"
    unfolding py_strip_def by simp
  ultimately show ?thesis unfolding py_strip_def [of "py_strip s"] by simp
qed

end
