(* ===== verification/Pool_Clock.thy ===== *)
theory Pool_Clock
  imports Pool_Prelude
begin

text \<open>
  Time in \<^verbatim>\<open>app/store.py\<close>: \<^verbatim>\<open>datetime\<close> values are microseconds on a common scale, and
  \<^verbatim>\<open>iso\<close> / \<^verbatim>\<open>parse_iso\<close> convert them to and from the ISO text of the SQL columns without
  loss. A column therefore holds the instant itself, but a comparison written in SQL compares
  the \<^emph>\<open>text\<close>. \<^verbatim>\<open>isoformat()\<close> prints the date and time to the second in fixed-width fields and
  omits the fraction when it is zero, so \<^verbatim>\<open>iso\<close> ends in \<^verbatim>\<open>Z\<close> or in \<^verbatim>\<open>.dddddd\<close> and \<^verbatim>\<open>Z\<close>. As \<^verbatim>\<open>.\<close>
  sorts before \<^verbatim>\<open>Z\<close>, a whole second sorts after every other instant of the same second.
\<close>

type_synonym timestamp = int

definition usec :: int where
  "usec = 1000000"

definition seconds :: "int \<Rightarrow> int" where
  "seconds n = n * usec"

text \<open>The sort key of the ISO text: the second, then the suffix (\<^verbatim>\<open>Z\<close> above every fraction).\<close>

definition iso_key :: "timestamp \<Rightarrow> int \<times> int" where
  "iso_key t = (t div usec, if t mod usec = 0 then usec else t mod usec)"

definition text_le :: "timestamp \<Rightarrow> timestamp \<Rightarrow> bool" where
  "text_le a b \<longleftrightarrow> iso_key a \<le> iso_key b"

text \<open>The suffix that \<^verbatim>\<open>iso\<close> prints after the seconds, as text.\<close>

primrec digits :: "nat \<Rightarrow> nat \<Rightarrow> string" where
  "digits 0 u = []"
| "digits (Suc n) u = char_of (48 + u div 10 ^ n mod 10 :: nat) # digits n u"

definition iso_suffix :: "nat \<Rightarrow> string" where
  "iso_suffix u = (if u = 0 then ''Z'' else ''.'' @ digits 6 u @ ''Z'')"

section \<open>The text order against the order of instants\<close>

lemma usec_split: "t = 1000000 * (t div usec) + t mod usec \<and> 0 \<le> t mod usec \<and> t mod usec < 1000000"
  by (simp add: usec_def)

lemma iso_key_inj: "iso_key a = iso_key b \<longleftrightarrow> a = b"
proof
  assume eq: "iso_key a = iso_key b"
  have bound: "t mod usec \<noteq> usec" for t
    using pos_mod_bound [of usec t] by (simp add: usec_def)
  have "a div usec = b div usec" using eq by (simp add: iso_key_def)
  moreover have "a mod usec = b mod usec"
    using eq bound [of a] bound [of b] by (simp only: iso_key_def prod.inject) (metis (full_types))
  ultimately have "a div usec = b div usec" "a mod usec = b mod usec" .
  then show "a = b" by (metis mult_div_mod_eq)
qed simp

lemma text_le_refl [simp]: "text_le t t"
  by (simp add: text_le_def)

lemma text_le_trans: "text_le a b \<Longrightarrow> text_le b c \<Longrightarrow> text_le a c"
  by (auto simp: text_le_def)

lemma text_le_total: "text_le a b \<or> text_le b a"
  by (auto simp: text_le_def)

lemma text_le_antisym: "text_le a b \<Longrightarrow> text_le b a \<Longrightarrow> a = b"
  by (simp add: text_le_def flip: iso_key_inj)

text \<open>Instants of different seconds are ordered alike.\<close>

lemma text_le_different_second:
  assumes "a div usec \<noteq> b div usec"
  shows "text_le a b \<longleftrightarrow> a < b"
proof -
  have "text_le a b \<longleftrightarrow> a div usec < b div usec"
    using assms by (auto simp: text_le_def iso_key_def less_eq_prod_def)
  with assms usec_split [of a] usec_split [of b] show ?thesis by linarith
qed

text \<open>Neither instant on a whole second: ordered alike.\<close>

lemma text_le_fractional:
  assumes "a mod usec \<noteq> 0" and "b mod usec \<noteq> 0"
  shows "text_le a b \<longleftrightarrow> a \<le> b"
proof -
  have "text_le a b \<longleftrightarrow> a div usec < b div usec \<or> a div usec = b div usec \<and> a mod usec \<le> b mod usec"
    using assms by (auto simp: text_le_def iso_key_def less_eq_prod_def)
  also have "\<dots> \<longleftrightarrow> a \<le> b"
    using usec_split [of a] usec_split [of b] by linarith
  finally show ?thesis .
qed

text \<open>The order is wrong by less than one second.\<close>

lemma text_le_within_second: "text_le a b \<Longrightarrow> a < b + usec"
proof -
  assume "text_le a b"
  then have "a div usec \<le> b div usec"
    by (auto simp: text_le_def iso_key_def less_eq_prod_def)
  with usec_split [of a] usec_split [of b] show ?thesis
    unfolding usec_def by linarith
qed

lemma text_le_if_second_earlier: "a + usec \<le> b \<Longrightarrow> text_le a b"
proof -
  assume "a + usec \<le> b"
  then have "a div usec < b div usec"
    using usec_split [of a] usec_split [of b] unfolding usec_def by linarith
  then show ?thesis by (simp add: text_le_def iso_key_def less_eq_prod_def)
qed

section \<open>The key orders as the text does\<close>

lemma char_of_less: "a < 208 \<Longrightarrow> b < 208 \<Longrightarrow> char_of (48 + a :: nat) < (char_of (48 + b) :: char) \<longleftrightarrow> a < b"
  by (simp add: less_char_def)

lemma length_digits [simp]: "length (digits n u) = n"
  by (induction n) simp_all

lemma digits_less: "digits n u @ s < digits n v @ s \<longleftrightarrow> u mod 10 ^ n < v mod 10 ^ n"
proof (induction n)
  case (Suc n)
  have split: "x mod 10 ^ Suc n = (x div 10 ^ n mod 10) * 10 ^ n + x mod 10 ^ n" for x :: nat
    using mod_mult2_eq [of x "10 ^ n" 10] by (simp add: mult.commute)
  let ?a = "u div 10 ^ n mod 10" and ?b = "v div 10 ^ n mod 10"
  have bound: "?a < 208" "?b < 208" using mod_less_divisor [of 10] by (simp_all add: less_trans [of _ 10])
  have "digits (Suc n) u @ s < digits (Suc n) v @ s \<longleftrightarrow> ?a < ?b \<or> ?a = ?b \<and> u mod 10 ^ n < v mod 10 ^ n"
    using Suc char_of_less [OF bound] char_of_less [OF bound(2,1)] by (auto simp: not_less_iff_gr_or_eq)
  also have "\<dots> \<longleftrightarrow> u mod 10 ^ Suc n < v mod 10 ^ Suc n"
  proof -
    have lt: "x mod 10 ^ n < 10 ^ n" for x :: nat by simp
    have mono: "p * 10 ^ n + x mod 10 ^ n < q * 10 ^ n + y mod 10 ^ n" if "p < q" for p q x y :: nat
    proof -
      have "p * 10 ^ n + x mod 10 ^ n < Suc p * 10 ^ n" using lt [of x] by simp
      also have "\<dots> \<le> q * 10 ^ n" using that by (intro mult_le_mono1) simp
      finally show ?thesis by simp
    qed
    show ?thesis unfolding split [of u] split [of v]
      using mono [of ?a ?b u v] mono [of ?b ?a v u] by (cases ?a ?b rule: linorder_cases) auto
  qed
  finally show ?case .
qed simp

lemma iso_suffix_order:
  assumes "u < 1000000" "v < 1000000"
  shows "iso_suffix u \<le> iso_suffix v \<longleftrightarrow> (if u = 0 then 1000000 else u) \<le> (if v = 0 then 1000000 else v)"
proof -
  have d: "digits 6 u @ ''Z'' < digits 6 v @ ''Z'' \<longleftrightarrow> u < v" "digits 6 v @ ''Z'' < digits 6 u @ ''Z'' \<longleftrightarrow> v < u"
    using assms by (simp_all add: digits_less)
  have nz: "CHR ''.'' < CHR ''Z''" by (simp add: less_char_def)
  show ?thesis
    using d assms nz unfolding iso_suffix_def linorder_not_less [symmetric, of "if u = 0 then ''Z'' else _"]
    by (auto simp: not_less [symmetric])
qed

lemma iso_key_orders_text:
  assumes "a div usec = b div usec"
  shows "text_le a b \<longleftrightarrow> iso_suffix (nat (a mod usec)) \<le> iso_suffix (nat (b mod usec))"
proof -
  have r: "0 \<le> t mod usec" "nat (t mod usec) < 1000000" "nat (t mod usec) = 0 \<longleftrightarrow> t mod usec = 0" for t
    using usec_split [of t] by auto
  have "text_le a b \<longleftrightarrow> (if a mod usec = 0 then usec else a mod usec) \<le> (if b mod usec = 0 then usec else b mod usec)"
    using assms by (simp add: text_le_def iso_key_def less_eq_prod_def)
  also have "\<dots> \<longleftrightarrow> (if nat (a mod usec) = 0 then 1000000 else nat (a mod usec)) \<le>
      (if nat (b mod usec) = 0 then 1000000 else nat (b mod usec))"
    using r [of a] r [of b] by (auto simp: usec_def nat_le_eq_zle)
  also have "\<dots> \<longleftrightarrow> iso_suffix (nat (a mod usec)) \<le> iso_suffix (nat (b mod usec))"
    by (rule iso_suffix_order [OF r(2) r(2), symmetric])
  finally show ?thesis .
qed

end
