(* ===== verification/Pool_Schema.thy ===== *)
theory Pool_Schema
  imports Py_Text Pool_Clock
begin

text \<open>
  The database of \<^verbatim>\<open>app/store.py\<close>: the tables of \<^verbatim>\<open>WorkerPoolStore._init\<close> as records, the SQL
  statements on them with the primary keys, unique indexes, checks, foreign keys and triggers
  of the schema, the transaction wrapper \<^verbatim>\<open>_tx\<close> and the store's configuration. A table is the
  list of its rows in rowid order; a statement that violates a constraint raises
  \<^verbatim>\<open>sqlite3.IntegrityError\<close>. Messages are the source's, without accents.
\<close>

section \<open>Values\<close>

datatype pool_error =
    ValueError string
  | NotFoundError string
  | ConflictError string
  | IntegrityError string

datatype task_state = Queued | Leased | Running | Validating | Blocked | Completed | Failed

datatype role = Builder | Validator

datatype profile = NORMAL | ESTUDO

datatype effect_state = EffNone | EffPending | EffConfirmed | EffNotApplied | EffUnknown

datatype effect_outcome = OutConfirmed | OutNotApplied

definition STATES :: "task_state list" where
  "STATES = [Queued, Leased, Running, Validating, Blocked, Completed, Failed]"

definition ACTIVE :: "task_state list" where
  "ACTIVE = [Leased, Running, Validating]"

section \<open>Rows\<close>

record worker_row =
  w_worker_id :: string
  w_host :: string
  w_role :: role
  w_profile :: profile
  w_capacity_score :: int
  w_controller_version :: "string option"
  w_rules_sha :: "string option"
  w_gateway_ok :: bool
  w_state_validated :: bool
  w_worktree_root :: "string option"
  w_registered_at :: timestamp
  w_last_heartbeat_at :: timestamp
  w_cpu_percent :: "rat option"
  w_memory_percent :: "rat option"
  w_correlation_id :: string

record lane_row =
  r_repository :: string
  r_enabled :: bool
  r_max_in_flight :: int
  r_builder_claim_count :: int
  r_validator_claim_count :: int
  r_last_builder_claimed_at :: "timestamp option"
  r_last_validator_claimed_at :: "timestamp option"
  r_updated_at :: timestamp

record task_row =
  t_task_id :: string
  t_repository :: string
  t_issue_number :: int
  t_request_id :: string
  t_idempotency_key :: string
  t_state :: task_state
  t_priority :: int
  t_branch :: string
  t_workspace_key :: string
  t_base_sha :: "string option"
  t_produced_sha :: "string option"
  t_builder_worker_id :: "string option"
  t_validator_worker_id :: "string option"
  t_leased_by :: "string option"
  t_lease_token :: "string option"
  t_lease_expires_at :: "timestamp option"
  t_lease_generation :: int
  t_attempt_id :: "string option"
  t_fencing_required :: bool
  t_attempt_count :: int
  t_max_attempts :: int
  t_blocked_reason :: "string option"
  t_last_error :: "string option"
  t_correlation_id :: string
  t_created_at :: timestamp
  t_updated_at :: timestamp
  t_last_material_progress_at :: timestamp
  t_completed_at :: "timestamp option"

record quarantine_row =
  q_task_id :: string
  q_idempotency_key :: string
  q_correlation_id :: string
  q_attempt_count :: int
  q_reason :: string
  q_quarantined_at :: timestamp

record control_row =
  k_enabled :: bool
  k_enabled_at :: "timestamp option"
  k_enabled_by_correlation_id :: "string option"

record attempt_row =
  a_attempt_id :: string
  a_task_id :: string
  a_lease_generation :: int
  a_worker_id :: string
  a_role :: role
  a_lease_started_at :: timestamp
  a_lease_expires_at :: timestamp
  a_ended_at :: "timestamp option"
  a_end_reason :: "string option"

record checkpoint_row =
  c_task_id :: string
  c_checkpoint_id :: string
  c_lease_generation :: int
  c_attempt_id :: string
  c_sequence :: int
  c_stage :: string
  c_artifact_kind :: "string option"
  c_artifact_ref :: "string option"
  c_artifact_sha256 :: "string option"
  c_next_action :: string
  c_effect_id :: "string option"
  c_effect_state :: effect_state
  c_effect_result_ref :: "string option"
  c_content_digest :: string
  c_correlation_id :: string
  c_created_at :: timestamp

record reconciliation_row =
  e_task_id :: string
  e_effect_id :: string
  e_lease_generation :: int
  e_outcome :: effect_outcome
  e_readback_ref :: string
  e_content_digest :: string
  e_correlation_id :: string
  e_created_at :: timestamp

record pool_db =
  workers :: "worker_row list"
  repository_lanes :: "lane_row list"
  affinity :: "(string \<times> string) list"
  tasks :: "task_row list"
  quarantine :: "quarantine_row list"
  pool_control :: "control_row option"
  task_attempts :: "attempt_row list"
  task_checkpoints :: "checkpoint_row list"
  effect_reconciliations :: "reconciliation_row list"

definition empty_db :: pool_db where
  "empty_db = \<lparr>workers = [], repository_lanes = [], affinity = [], tasks = [], quarantine = [],
     pool_control = None, task_attempts = [], task_checkpoints = [], effect_reconciliations = []\<rparr>"

section \<open>Configuration\<close>

record pool_config =
  heartbeat_ttl_seconds :: int
  default_lease_seconds :: int
  default_max_attempts :: int
  progress_stall_seconds :: int
  expected_rules_sha :: "string option"

definition make_config :: "int \<Rightarrow> int \<Rightarrow> int \<Rightarrow> int \<Rightarrow> string option \<Rightarrow> pool_error + pool_config" where
  "make_config ttl lease attempts stall rules =
     (let normalized_rules_sha = py_lower (py_strip (opt_text rules)) in
      if min (min ttl lease) (min attempts stall) < 1
      then Inl (ValueError ''timeouts e tentativas devem ser positivos'')
      else if normalized_rules_sha \<noteq> [] \<and> \<not> SHA40 normalized_rules_sha
      then Inl (ValueError ''expected_rules_sha invalido'')
      else Inr \<lparr>heartbeat_ttl_seconds = ttl, default_lease_seconds = lease,
                default_max_attempts = attempts, progress_stall_seconds = stall,
                expected_rules_sha = text_or_none normalized_rules_sha\<rparr>)"

section \<open>Transactions\<close>

text \<open>
  The body of a \<^verbatim>\<open>with self._tx() as db\<close> block is a function of the database; \<open>run_tx\<close> commits
  its result or, when it raises, rolls back. \<^verbatim>\<open>BEGIN IMMEDIATE\<close> serialises the writers, so the
  model runs transactions one after the other.
\<close>

type_synonym 'a pool_tx = "pool_db \<Rightarrow> pool_error + ('a \<times> pool_db)"

type_synonym 'a pool_op = "pool_db \<Rightarrow> (pool_error + 'a) \<times> pool_db"

definition run_tx :: "'a pool_tx \<Rightarrow> 'a pool_op" where
  "run_tx f db = (case f db of Inl e \<Rightarrow> (Inl e, db) | Inr (a, db') \<Rightarrow> (Inr a, db'))"

section \<open>Lookups\<close>

definition find_worker :: "string \<Rightarrow> pool_db \<Rightarrow> worker_row option" where
  "find_worker w db = tbl_get w_worker_id w (workers db)"

definition find_lane :: "string \<Rightarrow> pool_db \<Rightarrow> lane_row option" where
  "find_lane r db = tbl_get r_repository r (repository_lanes db)"

definition find_task :: "string \<Rightarrow> pool_db \<Rightarrow> task_row option" where
  "find_task tid db = tbl_get t_task_id tid (tasks db)"

definition find_attempt :: "string \<Rightarrow> pool_db \<Rightarrow> attempt_row option" where
  "find_attempt a db = tbl_get a_attempt_id a (task_attempts db)"

definition put_worker :: "string \<Rightarrow> (worker_row \<Rightarrow> worker_row) \<Rightarrow> pool_db \<Rightarrow> pool_db" where
  "put_worker w f db = db\<lparr>workers := tbl_upd w_worker_id w f (workers db)\<rparr>"

definition put_lane :: "string \<Rightarrow> (lane_row \<Rightarrow> lane_row) \<Rightarrow> pool_db \<Rightarrow> pool_db" where
  "put_lane r f db = db\<lparr>repository_lanes := tbl_upd r_repository r f (repository_lanes db)\<rparr>"

definition put_task :: "string \<Rightarrow> (task_row \<Rightarrow> task_row) \<Rightarrow> pool_db \<Rightarrow> pool_db" where
  "put_task tid f db = db\<lparr>tasks := tbl_upd t_task_id tid f (tasks db)\<rparr>"

definition put_attempt :: "string \<Rightarrow> (attempt_row \<Rightarrow> attempt_row) \<Rightarrow> pool_db \<Rightarrow> pool_db" where
  "put_attempt a f db = db\<lparr>task_attempts := tbl_upd a_attempt_id a f (task_attempts db)\<rparr>"

section \<open>Constraints of the task table\<close>

definition is_active :: "task_row \<Rightarrow> bool" where
  "is_active t \<longleftrightarrow> t_state t \<in> set ACTIVE"

definition idx_worker_active :: "task_row list \<Rightarrow> bool" where
  "idx_worker_active ts \<longleftrightarrow>
     distinct (map t_leased_by (filter (\<lambda>t. t_leased_by t \<noteq> None \<and> is_active t) ts))"

definition idx_workspace_active :: "task_row list \<Rightarrow> bool" where
  "idx_workspace_active ts \<longleftrightarrow>
     distinct (map (\<lambda>t. (t_repository t, t_workspace_key t)) (filter is_active ts))"

text \<open>The two triggers: when they abort the statement.\<close>

definition guard_fenced_task_admission :: "pool_db \<Rightarrow> task_row \<Rightarrow> bool" where
  "guard_fenced_task_admission db new \<longleftrightarrow>
     t_fencing_required new \<and> \<not> (case pool_control db of None \<Rightarrow> False | Some k \<Rightarrow> k_enabled k)"

definition guard_fenced_claim :: "task_row \<Rightarrow> task_row \<Rightarrow> bool" where
  "guard_fenced_claim old new \<longleftrightarrow>
     t_fencing_required old \<and> t_leased_by old = None \<and> t_leased_by new \<noteq> None \<and>
     (t_lease_generation new \<noteq> t_lease_generation old + 1 \<or> t_attempt_id new = None \<or>
      t_attempt_id new = Some (opt_text (t_attempt_id old)))"

section \<open>Statements\<close>

definition sql_update_task :: "string \<Rightarrow> (task_row \<Rightarrow> task_row) \<Rightarrow> pool_db \<Rightarrow> pool_error + pool_db" where
  "sql_update_task tid f db =
     (let db' = put_task tid f db in
      if list_ex (\<lambda>t. t_task_id t = tid \<and> guard_fenced_claim t (f t)) (tasks db)
      then Inl (IntegrityError ''fenced_claim_requires_generation_and_attempt'')
      else if \<not> idx_worker_active (tasks db')
      then Inl (IntegrityError ''UNIQUE idx_worker_active'')
      else if \<not> idx_workspace_active (tasks db')
      then Inl (IntegrityError ''UNIQUE idx_workspace_active'')
      else Inr db')"

definition sql_insert_task :: "task_row \<Rightarrow> pool_db \<Rightarrow> pool_error + pool_db" where
  "sql_insert_task t db =
     (if guard_fenced_task_admission db t
      then Inl (IntegrityError ''fenced_cutover_not_enabled'')
      else if t_task_id t \<in> t_task_id ` set (tasks db)
      then Inl (IntegrityError ''UNIQUE tasks.task_id'')
      else if t_idempotency_key t \<in> t_idempotency_key ` set (tasks db)
      then Inl (IntegrityError ''UNIQUE tasks.idempotency_key'')
      else Inr (db\<lparr>tasks := tasks db @ [t]\<rparr>))"

definition sql_insert_attempt :: "attempt_row \<Rightarrow> pool_db \<Rightarrow> pool_error + pool_db" where
  "sql_insert_attempt a db =
     (if a_lease_generation a < 1 then Inl (IntegrityError ''CHECK task_attempts.lease_generation'')
      else if a_attempt_id a \<in> a_attempt_id ` set (task_attempts db)
      then Inl (IntegrityError ''UNIQUE task_attempts.attempt_id'')
      else if (a_task_id a, a_lease_generation a)
              \<in> (\<lambda>x. (a_task_id x, a_lease_generation x)) ` set (task_attempts db)
      then Inl (IntegrityError ''UNIQUE task_attempts.task_id,lease_generation'')
      else if a_task_id a \<notin> t_task_id ` set (tasks db)
      then Inl (IntegrityError ''FOREIGN KEY task_attempts.task_id'')
      else Inr (db\<lparr>task_attempts := task_attempts db @ [a]\<rparr>))"

definition sql_insert_checkpoint :: "checkpoint_row \<Rightarrow> pool_db \<Rightarrow> pool_error + pool_db" where
  "sql_insert_checkpoint c db =
     (if c_lease_generation c < 1 then Inl (IntegrityError ''CHECK task_checkpoints.lease_generation'')
      else if c_sequence c < 1 then Inl (IntegrityError ''CHECK task_checkpoints.sequence'')
      else if (c_task_id c, c_checkpoint_id c)
              \<in> (\<lambda>x. (c_task_id x, c_checkpoint_id x)) ` set (task_checkpoints db)
      then Inl (IntegrityError ''UNIQUE task_checkpoints.task_id,checkpoint_id'')
      else if (c_task_id c, c_lease_generation c, c_sequence c)
              \<in> (\<lambda>x. (c_task_id x, c_lease_generation x, c_sequence x)) ` set (task_checkpoints db)
      then Inl (IntegrityError ''UNIQUE task_checkpoints.task_id,lease_generation,sequence'')
      else if c_task_id c \<notin> t_task_id ` set (tasks db)
      then Inl (IntegrityError ''FOREIGN KEY task_checkpoints.task_id'')
      else if c_attempt_id c \<notin> a_attempt_id ` set (task_attempts db)
      then Inl (IntegrityError ''FOREIGN KEY task_checkpoints.attempt_id'')
      else Inr (db\<lparr>task_checkpoints := task_checkpoints db @ [c]\<rparr>))"

definition sql_insert_reconciliation :: "reconciliation_row \<Rightarrow> pool_db \<Rightarrow> pool_error + pool_db" where
  "sql_insert_reconciliation e db =
     (if e_lease_generation e < 1 then Inl (IntegrityError ''CHECK effect_reconciliations.lease_generation'')
      else if (e_task_id e, e_effect_id e, e_lease_generation e)
              \<in> (\<lambda>x. (e_task_id x, e_effect_id x, e_lease_generation x)) ` set (effect_reconciliations db)
      then Inl (IntegrityError ''UNIQUE effect_reconciliations'')
      else if e_task_id e \<notin> t_task_id ` set (tasks db)
      then Inl (IntegrityError ''FOREIGN KEY effect_reconciliations.task_id'')
      else Inr (db\<lparr>effect_reconciliations := effect_reconciliations db @ [e]\<rparr>))"

definition new_lane :: "string \<Rightarrow> timestamp \<Rightarrow> lane_row" where
  "new_lane repository now =
     \<lparr>r_repository = repository, r_enabled = True, r_max_in_flight = 1, r_builder_claim_count = 0,
      r_validator_claim_count = 0, r_last_builder_claimed_at = None,
      r_last_validator_claimed_at = None, r_updated_at = now\<rparr>"

definition ensure_repository_lane :: "string \<Rightarrow> timestamp \<Rightarrow> pool_db \<Rightarrow> pool_db" where
  "ensure_repository_lane repository now db =
     (case find_lane repository db of
        Some _ \<Rightarrow> db
      | None \<Rightarrow> db\<lparr>repository_lanes := repository_lanes db @ [new_lane repository now]\<rparr>)"

text \<open>
  \<^verbatim>\<open>_init\<close> on a database that already has the current columns: the control row and the lane of
  every task exist afterwards.
\<close>

definition init_db :: "timestamp \<Rightarrow> pool_db \<Rightarrow> pool_db" where
  "init_db now db =
     (let db1 = (case pool_control db of
                   Some _ \<Rightarrow> db
                 | None \<Rightarrow> db\<lparr>pool_control := Some \<lparr>k_enabled = False, k_enabled_at = None,
                             k_enabled_by_correlation_id = None\<rparr>\<rparr>)
      in fold (\<lambda>t. ensure_repository_lane (t_repository t) now) (tasks db1) db1)"

section \<open>The tables as keyed tables\<close>

interpretation workers_tbl: keyed_table workers w_worker_id find_worker put_worker
  by unfold_locales (simp_all add: find_worker_def put_worker_def)

interpretation lanes_tbl: keyed_table repository_lanes r_repository find_lane put_lane
  by unfold_locales (simp_all add: find_lane_def put_lane_def)

interpretation tasks_tbl: keyed_table tasks t_task_id find_task put_task
  by unfold_locales (simp_all add: find_task_def put_task_def)

interpretation attempts_tbl: keyed_table task_attempts a_attempt_id find_attempt put_attempt
  by unfold_locales (simp_all add: find_attempt_def put_attempt_def)

section \<open>What the statements do\<close>

lemma run_tx_Inr [outcome_simps]: "run_tx f db = (Inr a, db') \<longleftrightarrow> f db = Inr (a, db')"
  by (auto simp: run_tx_def split: sum.splits)

lemma run_tx_Inl [outcome_simps]: "run_tx f db = (Inl e, db') \<longleftrightarrow> f db = Inl e \<and> db' = db"
  by (auto simp: run_tx_def split: sum.splits)

lemma sql_update_task_Inr:
  "sql_update_task tid f db = Inr db' \<Longrightarrow>
   db' = put_task tid f db \<and> idx_worker_active (tasks db') \<and> idx_workspace_active (tasks db') \<and>
   (\<forall>t\<in>set (tasks db). t_task_id t = tid \<longrightarrow> \<not> guard_fenced_claim t (f t))"
  by (auto simp: sql_update_task_def Let_def list_ex_iff split: if_splits)

lemma sql_insert_task_Inr:
  "sql_insert_task t db = Inr db' \<Longrightarrow>
   db' = db\<lparr>tasks := tasks db @ [t]\<rparr> \<and> t_task_id t \<notin> t_task_id ` set (tasks db) \<and>
   t_idempotency_key t \<notin> t_idempotency_key ` set (tasks db) \<and> \<not> guard_fenced_task_admission db t"
  by (auto simp: sql_insert_task_def split: if_splits)

lemma sql_insert_attempt_Inr:
  "sql_insert_attempt a db = Inr db' \<Longrightarrow>
   db' = db\<lparr>task_attempts := task_attempts db @ [a]\<rparr> \<and> 1 \<le> a_lease_generation a \<and>
   a_attempt_id a \<notin> a_attempt_id ` set (task_attempts db) \<and>
   (a_task_id a, a_lease_generation a) \<notin> (\<lambda>x. (a_task_id x, a_lease_generation x)) ` set (task_attempts db) \<and>
   a_task_id a \<in> t_task_id ` set (tasks db)"
  unfolding sql_insert_attempt_def by (auto split: if_splits)

lemma sql_insert_checkpoint_Inr:
  "sql_insert_checkpoint c db = Inr db' \<Longrightarrow>
   db' = db\<lparr>task_checkpoints := task_checkpoints db @ [c]\<rparr> \<and> 1 \<le> c_lease_generation c \<and> 1 \<le> c_sequence c \<and>
   (c_task_id c, c_checkpoint_id c) \<notin> (\<lambda>x. (c_task_id x, c_checkpoint_id x)) ` set (task_checkpoints db) \<and>
   (c_task_id c, c_lease_generation c, c_sequence c)
     \<notin> (\<lambda>x. (c_task_id x, c_lease_generation x, c_sequence x)) ` set (task_checkpoints db) \<and>
   c_task_id c \<in> t_task_id ` set (tasks db) \<and> c_attempt_id c \<in> a_attempt_id ` set (task_attempts db)"
  unfolding sql_insert_checkpoint_def by (auto split: if_splits)

lemma sql_insert_reconciliation_Inr:
  "sql_insert_reconciliation e db = Inr db' \<Longrightarrow>
   db' = db\<lparr>effect_reconciliations := effect_reconciliations db @ [e]\<rparr> \<and> 1 \<le> e_lease_generation e \<and>
   (e_task_id e, e_effect_id e, e_lease_generation e)
     \<notin> (\<lambda>x. (e_task_id x, e_effect_id x, e_lease_generation x)) ` set (effect_reconciliations db) \<and>
   e_task_id e \<in> t_task_id ` set (tasks db)"
  unfolding sql_insert_reconciliation_def by (auto split: if_splits)

text \<open>Field-by-field effect of the raw updates, for the simplifier.\<close>

lemma put_task_simps [simp]:
  "workers (put_task tid f db) = workers db"
  "repository_lanes (put_task tid f db) = repository_lanes db"
  "affinity (put_task tid f db) = affinity db"
  "tasks (put_task tid f db) = tbl_upd t_task_id tid f (tasks db)"
  "quarantine (put_task tid f db) = quarantine db"
  "pool_control (put_task tid f db) = pool_control db"
  "task_attempts (put_task tid f db) = task_attempts db"
  "task_checkpoints (put_task tid f db) = task_checkpoints db"
  "effect_reconciliations (put_task tid f db) = effect_reconciliations db"
  by (simp_all add: put_task_def)

lemma put_attempt_simps [simp]:
  "workers (put_attempt a g db) = workers db"
  "repository_lanes (put_attempt a g db) = repository_lanes db"
  "affinity (put_attempt a g db) = affinity db"
  "tasks (put_attempt a g db) = tasks db"
  "quarantine (put_attempt a g db) = quarantine db"
  "pool_control (put_attempt a g db) = pool_control db"
  "task_attempts (put_attempt a g db) = tbl_upd a_attempt_id a g (task_attempts db)"
  "task_checkpoints (put_attempt a g db) = task_checkpoints db"
  "effect_reconciliations (put_attempt a g db) = effect_reconciliations db"
  by (simp_all add: put_attempt_def)

lemma put_lane_simps [simp]:
  "workers (put_lane r h db) = workers db"
  "repository_lanes (put_lane r h db) = tbl_upd r_repository r h (repository_lanes db)"
  "affinity (put_lane r h db) = affinity db"
  "tasks (put_lane r h db) = tasks db"
  "quarantine (put_lane r h db) = quarantine db"
  "pool_control (put_lane r h db) = pool_control db"
  "task_attempts (put_lane r h db) = task_attempts db"
  "task_checkpoints (put_lane r h db) = task_checkpoints db"
  "effect_reconciliations (put_lane r h db) = effect_reconciliations db"
  by (simp_all add: put_lane_def)

lemma put_worker_simps [simp]:
  "workers (put_worker w h db) = tbl_upd w_worker_id w h (workers db)"
  "repository_lanes (put_worker w h db) = repository_lanes db"
  "affinity (put_worker w h db) = affinity db"
  "tasks (put_worker w h db) = tasks db"
  "quarantine (put_worker w h db) = quarantine db"
  "pool_control (put_worker w h db) = pool_control db"
  "task_attempts (put_worker w h db) = task_attempts db"
  "task_checkpoints (put_worker w h db) = task_checkpoints db"
  "effect_reconciliations (put_worker w h db) = effect_reconciliations db"
  by (simp_all add: put_worker_def)

lemma ensure_lane_simps [simp]:
  "workers (ensure_repository_lane r now db) = workers db"
  "affinity (ensure_repository_lane r now db) = affinity db"
  "tasks (ensure_repository_lane r now db) = tasks db"
  "quarantine (ensure_repository_lane r now db) = quarantine db"
  "pool_control (ensure_repository_lane r now db) = pool_control db"
  "task_attempts (ensure_repository_lane r now db) = task_attempts db"
  "task_checkpoints (ensure_repository_lane r now db) = task_checkpoints db"
  "effect_reconciliations (ensure_repository_lane r now db) = effect_reconciliations db"
  by (simp_all add: ensure_repository_lane_def split: option.splits)

lemma find_lane_ensure:
  "find_lane r' (ensure_repository_lane r now db) =
     (if find_lane r' db = None \<and> r' = r then Some (new_lane r now) else find_lane r' db)"
  by (auto simp: ensure_repository_lane_def find_lane_def tbl_get_append new_lane_def split: option.splits)

end
