(* ===== verification/Pool_Registry.thy ===== *)
theory Pool_Registry
  imports Pool_Schema
begin

text \<open>
  The registry of \<^verbatim>\<open>WorkerPoolStore\<close>: the fenced cut-over switch, workers and their heartbeats,
  repository lanes and worker affinities (\<^verbatim>\<open>app/store.py\<close>, lines 354-513). An operation returns
  the raised error or the result, and the database after it: a call that raises \<^emph>\<open>after\<close> its
  transaction has committed keeps the committed change.
\<close>

section \<open>Cut-over\<close>

definition fenced_cutover_status :: "pool_db \<Rightarrow> pool_error + control_row" where
  "fenced_cutover_status db =
     (case pool_control db of
        None \<Rightarrow> Inl (NotFoundError ''registro nao encontrado'')
      | Some k \<Rightarrow> Inr k)"

definition enable_fenced_cutover ::
  "timestamp \<Rightarrow> string \<Rightarrow> bool \<Rightarrow> bool \<Rightarrow> control_row pool_op" where
  "enable_fenced_cutover now correlation_id legacy_claimers_drained shared_queue_exclusive db =
     (let correlation_id = py_strip correlation_id in
      if correlation_id = [] then (Inl (ValueError ''correlation_id obrigatorio''), db)
      else if \<not> legacy_claimers_drained \<or> \<not> shared_queue_exclusive
      then (Inl (ValueError ''cutover cercado exige fila exclusiva e claimers antigos drenados''), db)
      else
        (let db' = db\<lparr>pool_control := map_option (\<lambda>k. k\<lparr>k_enabled := True,
                       k_enabled_at := coalesce (k_enabled_at k) now,
                       k_enabled_by_correlation_id := coalesce (k_enabled_by_correlation_id k) correlation_id\<rparr>)
                       (pool_control db)\<rparr>
         in (fenced_cutover_status db', db')))"

section \<open>Workers\<close>

definition parse_role :: "string \<Rightarrow> role option" where
  "parse_role s = (if s = ''builder'' then Some Builder
                   else if s = ''validator'' then Some Validator else None)"

definition parse_profile :: "string \<Rightarrow> profile option" where
  "parse_profile s = (if s = ''NORMAL'' then Some NORMAL
                      else if s = ''ESTUDO'' then Some ESTUDO else None)"

definition get_worker :: "string \<Rightarrow> pool_db \<Rightarrow> pool_error + worker_row" where
  "get_worker worker_id db =
     (case find_worker worker_id db of
        None \<Rightarrow> Inl (NotFoundError ''registro nao encontrado'')
      | Some w \<Rightarrow> Inr w)"

text \<open>\<^verbatim>\<open>INSERT ... ON CONFLICT(worker_id) DO UPDATE\<close>: the registration time and the load stay.\<close>

definition upsert_worker :: "worker_row \<Rightarrow> pool_db \<Rightarrow> pool_db" where
  "upsert_worker w db =
     (case find_worker (w_worker_id w) db of
        None \<Rightarrow> db\<lparr>workers := workers db @ [w]\<rparr>
      | Some _ \<Rightarrow> put_worker (w_worker_id w)
          (\<lambda>old. old\<lparr>w_host := w_host w, w_role := w_role w, w_profile := w_profile w,
             w_capacity_score := w_capacity_score w, w_controller_version := w_controller_version w,
             w_rules_sha := w_rules_sha w, w_gateway_ok := w_gateway_ok w,
             w_state_validated := w_state_validated w, w_worktree_root := w_worktree_root w,
             w_last_heartbeat_at := w_last_heartbeat_at w, w_correlation_id := w_correlation_id w\<rparr>) db)"

record worker_registration =
  g_worker_id :: string
  g_host :: string
  g_role :: string
  g_profile :: string
  g_capacity_score :: int
  g_controller_version :: "string option"
  g_rules_sha :: "string option"
  g_gateway_ok :: bool
  g_state_validated :: bool
  g_worktree_root :: "string option"
  g_correlation_id :: string

definition register_worker :: "timestamp \<Rightarrow> worker_registration \<Rightarrow> worker_row pool_op" where
  "register_worker now g db =
     (let rules_sha = text_or_none (py_lower (py_strip (opt_text (g_rules_sha g)))) in
      if py_strip (g_worker_id g) = [] \<or> py_strip (g_host g) = [] \<or> py_strip (g_correlation_id g) = []
      then (Inl (ValueError ''worker_id, host e correlation_id sao obrigatorios''), db)
      else case (parse_role (py_lower (g_role g)), parse_profile (py_upper (g_profile g))) of
        (Some role, Some profile) \<Rightarrow>
          if (case rules_sha of None \<Rightarrow> False | Some s \<Rightarrow> \<not> SHA40 s)
          then (Inl (ValueError ''rules_sha invalido''), db)
          else
            (let db' = upsert_worker
                   \<lparr>w_worker_id = py_strip (g_worker_id g), w_host = py_strip (g_host g), w_role = role,
                    w_profile = profile, w_capacity_score = g_capacity_score g,
                    w_controller_version = g_controller_version g, w_rules_sha = rules_sha,
                    w_gateway_ok = g_gateway_ok g, w_state_validated = g_state_validated g,
                    w_worktree_root = g_worktree_root g, w_registered_at = now,
                    w_last_heartbeat_at = now, w_cpu_percent = None, w_memory_percent = None,
                    w_correlation_id = py_strip (g_correlation_id g)\<rparr> db
             in (get_worker (g_worker_id g) db', db'))
      | _ \<Rightarrow> (Inl (ValueError ''role/profile invalido''), db))"

record heartbeat =
  h_correlation_id :: string
  h_profile :: "string option"
  h_cpu_percent :: "rat option"
  h_memory_percent :: "rat option"
  h_gateway_ok :: "bool option"
  h_state_validated :: "bool option"

definition profile_name :: "profile \<Rightarrow> string" where
  "profile_name p = (case p of NORMAL \<Rightarrow> ''NORMAL'' | ESTUDO \<Rightarrow> ''ESTUDO'')"

definition heartbeat_worker :: "timestamp \<Rightarrow> string \<Rightarrow> heartbeat \<Rightarrow> worker_row pool_op" where
  "heartbeat_worker now worker_id h db =
     (case get_worker worker_id db of
        Inl e \<Rightarrow> (Inl e, db)
      | Inr current \<Rightarrow>
          (let requested = opt_text (h_profile h) in
           case parse_profile (py_upper (if requested = [] then profile_name (w_profile current) else requested)) of
             None \<Rightarrow> (Inl (ValueError ''profile invalido''), db)
           | Some profile \<Rightarrow>
               (let db' = put_worker worker_id
                      (\<lambda>w. w\<lparr>w_profile := profile, w_last_heartbeat_at := now,
                         w_cpu_percent := h_cpu_percent h, w_memory_percent := h_memory_percent h,
                         w_gateway_ok := (case h_gateway_ok h of None \<Rightarrow> w_gateway_ok current | Some b \<Rightarrow> b),
                         w_state_validated :=
                           (case h_state_validated h of None \<Rightarrow> w_state_validated current | Some b \<Rightarrow> b),
                         w_correlation_id := h_correlation_id h\<rparr>) db
                in (get_worker worker_id db', db'))))"

section \<open>Repository lanes and affinities\<close>

definition validate_repository :: "string \<Rightarrow> pool_error + string" where
  "validate_repository repository =
     (let normalized = py_strip repository in
      if CHR ''/'' \<notin> set normalized \<or> starts_with ''/'' normalized \<or> ends_with ''/'' normalized
      then Inl (ValueError ''repository invalido'')
      else Inr normalized)"

definition get_repository :: "string \<Rightarrow> pool_db \<Rightarrow> pool_error + lane_row" where
  "get_repository repository db =
     bindE (validate_repository repository)
       (\<lambda>repository. case find_lane repository db of
          None \<Rightarrow> Inl (NotFoundError ''registro nao encontrado'')
        | Some r \<Rightarrow> Inr r)"

definition configure_repository :: "timestamp \<Rightarrow> string \<Rightarrow> bool \<Rightarrow> int \<Rightarrow> lane_row pool_op" where
  "configure_repository now repository enabled max_in_flight db =
     (case validate_repository repository of
        Inl e \<Rightarrow> (Inl e, db)
      | Inr repository \<Rightarrow>
          if max_in_flight < 1 \<or> 100 < max_in_flight
          then (Inl (ValueError ''max_in_flight invalido''), db)
          else
            (let db' = (case find_lane repository db of
                          None \<Rightarrow> db\<lparr>repository_lanes := repository_lanes db
                            @ [(new_lane repository now)\<lparr>r_enabled := enabled, r_max_in_flight := max_in_flight\<rparr>]\<rparr>
                        | Some _ \<Rightarrow> put_lane repository
                            (\<lambda>r. r\<lparr>r_enabled := enabled, r_max_in_flight := max_in_flight, r_updated_at := now\<rparr>) db)
             in (get_repository repository db', db')))"

fun validate_all :: "string list \<Rightarrow> pool_error + string list" where
  "validate_all [] = Inr []"
| "validate_all (r # rs) =
     bindE (validate_repository r) (\<lambda>n. bindE (validate_all rs) (\<lambda>ns. Inr (n # ns)))"

definition set_affinity :: "timestamp \<Rightarrow> string \<Rightarrow> string \<Rightarrow> pool_db \<Rightarrow> pool_db" where
  "set_affinity now worker_id repository db =
     (let db' = ensure_repository_lane repository now db
      in db'\<lparr>affinity := affinity db' @ [(worker_id, repository)]\<rparr>)"

definition replace_worker_affinities :: "timestamp \<Rightarrow> string \<Rightarrow> string list \<Rightarrow> string list pool_op" where
  "replace_worker_affinities now worker_id repositories db =
     (case get_worker worker_id db of
        Inl e \<Rightarrow> (Inl e, db)
      | Inr _ \<Rightarrow>
          case validate_all repositories of
            Inl e \<Rightarrow> (Inl e, db)
          | Inr valid \<Rightarrow>
              (let normalized = sort (remdups valid);
                   db0 = db\<lparr>affinity := filter (\<lambda>(w, _). w \<noteq> worker_id) (affinity db)\<rparr>
               in (Inr normalized, fold (set_affinity now worker_id) normalized db0)))"

definition worker_affinities :: "string \<Rightarrow> pool_db \<Rightarrow> pool_error + string list" where
  "worker_affinities worker_id db =
     bindE (get_worker worker_id db)
       (\<lambda>_. Inr (sort (map snd (filter (\<lambda>(w, _). w = worker_id) (affinity db)))))"

section \<open>What the registry operations leave alone\<close>

lemma fold_set_affinity_frame:
  "tasks (fold (set_affinity now w) rs db) = tasks db"
  "workers (fold (set_affinity now w) rs db) = workers db"
  "quarantine (fold (set_affinity now w) rs db) = quarantine db"
  "pool_control (fold (set_affinity now w) rs db) = pool_control db"
  "task_attempts (fold (set_affinity now w) rs db) = task_attempts db"
  "task_checkpoints (fold (set_affinity now w) rs db) = task_checkpoints db"
  "effect_reconciliations (fold (set_affinity now w) rs db) = effect_reconciliations db"
  "affinity (fold (set_affinity now w) rs db) = affinity db @ map (Pair w) rs"
  by (induction rs arbitrary: db) (simp_all add: set_affinity_def Let_def)

end
