(* ===== verification/Pool_Queue.thy ===== *)
theory Pool_Queue
  imports Pool_Registry
begin

text \<open>
  The queue of \<^verbatim>\<open>WorkerPoolStore\<close>: admission of tasks with idempotent replay, readiness of a
  worker, unresolved effects, recovery of expired leases, the progress watchdog and the
  reconciliation cycle (\<^verbatim>\<open>app/store.py\<close>, lines 515-739 and 899-909). Every operation takes the
  instant \<open>now\<close> that the clock shows while it runs.
\<close>

section \<open>Admission\<close>

record task_create =
  n_repository :: string
  n_issue_number :: int
  n_request_id :: string
  n_correlation_id :: string
  n_priority :: int
  n_base_sha :: "string option"
  n_max_attempts :: "int option"
  n_target_branch :: "string option"
  n_fencing_required :: bool

definition enqueue_branch :: "task_create \<Rightarrow> pool_error + string" where
  "enqueue_branch n =
     (case n_target_branch n of
        None \<Rightarrow> Inr (branch (n_issue_number n) (n_request_id n))
      | Some v \<Rightarrow>
          case validate_target_branch v of
            BranchOk b \<Rightarrow> Inr b
          | BranchInvalid \<Rightarrow> Inl (ValueError ''target_branch invalida'')
          | BranchProtected \<Rightarrow> Inl (ValueError ''target_branch protegida''))"

definition int_or :: "int option \<Rightarrow> int \<Rightarrow> int" where
  "int_or v d = (case v of None \<Rightarrow> d | Some i \<Rightarrow> if i = 0 then d else i)"

definition new_task :: "timestamp \<Rightarrow> task_create \<Rightarrow> string \<Rightarrow> string \<Rightarrow> int \<Rightarrow> task_row" where
  "new_task now n key task_branch attempts =
     \<lparr>t_task_id = task_id key, t_repository = py_strip (n_repository n),
      t_issue_number = n_issue_number n, t_request_id = py_strip (n_request_id n),
      t_idempotency_key = key, t_state = Queued, t_priority = n_priority n, t_branch = task_branch,
      t_workspace_key = workspace (n_repository n) (task_id key),
      t_base_sha = (case n_base_sha n of None \<Rightarrow> None
                    | Some b \<Rightarrow> if b = [] then None else Some (py_lower b)),
      t_produced_sha = None, t_builder_worker_id = None, t_validator_worker_id = None,
      t_leased_by = None, t_lease_token = None, t_lease_expires_at = None, t_lease_generation = 0,
      t_attempt_id = None, t_fencing_required = n_fencing_required n, t_attempt_count = 0,
      t_max_attempts = attempts, t_blocked_reason = None, t_last_error = None,
      t_correlation_id = py_strip (n_correlation_id n), t_created_at = now, t_updated_at = now,
      t_last_material_progress_at = now, t_completed_at = None\<rparr>"

definition enqueue_tx ::
  "timestamp \<Rightarrow> task_create \<Rightarrow> string \<Rightarrow> string \<Rightarrow> int \<Rightarrow> (task_row \<times> bool) pool_tx" where
  "enqueue_tx now n key task_branch attempts db =
     (if n_fencing_required n \<and> \<not> (case pool_control db of None \<Rightarrow> False | Some k \<Rightarrow> k_enabled k)
      then Inl (ConflictError ''fenced_cutover_not_enabled'')
      else
        (let db1 = ensure_repository_lane (py_strip (n_repository n)) now db in
         case find (\<lambda>t. t_idempotency_key t = key) (tasks db1) of
           Some row \<Rightarrow>
             if n_target_branch n \<noteq> None \<and> t_branch row \<noteq> task_branch
             then Inl (ConflictError ''target_branch divergente no replay'')
             else if t_fencing_required row \<noteq> n_fencing_required n
             then Inl (ConflictError ''fencing_required divergente no replay'')
             else Inr ((row, False), db1)
         | None \<Rightarrow>
             (let row = new_task now n key task_branch attempts
              in bindE (sql_insert_task row db1) (\<lambda>db2. Inr ((row, True), db2)))))"

definition enqueue_task :: "pool_config \<Rightarrow> timestamp \<Rightarrow> task_create \<Rightarrow> (task_row \<times> bool) pool_op" where
  "enqueue_task cfg now n db =
     (if CHR ''/'' \<notin> set (n_repository n) \<or> n_issue_number n < 1 \<or> py_strip (n_request_id n) = []
         \<or> py_strip (n_correlation_id n) = []
      then (Inl (ValueError ''identidade da task invalida''), db)
      else if opt_text (n_base_sha n) \<noteq> [] \<and> \<not> SHA40 (py_lower (opt_text (n_base_sha n)))
      then (Inl (ValueError ''base_sha invalido''), db)
      else case enqueue_branch n of
        Inl e \<Rightarrow> (Inl e, db)
      | Inr task_branch \<Rightarrow>
          (let key = identity (n_repository n) (n_issue_number n) (n_request_id n);
               attempts = int_or (n_max_attempts n) (default_max_attempts cfg)
           in if attempts < 1 then (Inl (ValueError ''max_attempts invalido''), db)
              else run_tx (enqueue_tx now n key task_branch attempts) db))"

section \<open>Readiness and quarantine\<close>

definition worker_busy :: "string \<Rightarrow> pool_db \<Rightarrow> bool" where
  "worker_busy worker_id db \<longleftrightarrow> list_ex (\<lambda>t. t_leased_by t = Some worker_id \<and> is_active t) (tasks db)"

definition stale_heartbeat :: "pool_config \<Rightarrow> timestamp \<Rightarrow> worker_row \<Rightarrow> bool" where
  "stale_heartbeat cfg now w \<longleftrightarrow> seconds (heartbeat_ttl_seconds cfg) < now - w_last_heartbeat_at w"

definition rules_divergent :: "pool_config \<Rightarrow> worker_row \<Rightarrow> bool" where
  "rules_divergent cfg w \<longleftrightarrow>
     expected_rules_sha cfg \<noteq> None \<and> w_rules_sha w \<noteq> expected_rules_sha cfg"

definition ready :: "pool_config \<Rightarrow> timestamp \<Rightarrow> string \<Rightarrow> role \<Rightarrow> pool_db \<Rightarrow> pool_error + worker_row" where
  "ready cfg now worker_id role db =
     (case find_worker worker_id db of
        None \<Rightarrow> Inl (NotFoundError (''worker nao encontrado: '' @ worker_id))
      | Some w \<Rightarrow>
          if w_role w \<noteq> role then Inl (ConflictError ''worker nao possui role'')
          else if w_profile w \<noteq> NORMAL then Inl (ConflictError ''worker esta em profile'')
          else if \<not> w_gateway_ok w \<or> \<not> w_state_validated w
          then Inl (ConflictError ''worker nao esta governado/pronto'')
          else if rules_divergent cfg w then Inl (ConflictError ''worker rules_sha divergente'')
          else if stale_heartbeat cfg now w then Inl (ConflictError ''worker esta offline/stale'')
          else if worker_busy worker_id db then Inl (ConflictError ''worker ja possui task ativa'')
          else Inr w)"

definition do_quarantine :: "task_row \<Rightarrow> string \<Rightarrow> timestamp \<Rightarrow> pool_db \<Rightarrow> pool_db" where
  "do_quarantine row reason stamp db =
     db\<lparr>quarantine := quarantine db @
       [\<lparr>q_task_id = t_task_id row, q_idempotency_key = t_idempotency_key row,
         q_correlation_id = t_correlation_id row, q_attempt_count = t_attempt_count row,
         q_reason = sanitize reason, q_quarantined_at = stamp\<rparr>]\<rparr>"

section \<open>Unresolved effects\<close>

text \<open>Whether an effect has been reconciled in a generation, and the order of checkpoints.\<close>

definition reconciled :: "pool_db \<Rightarrow> checkpoint_row \<Rightarrow> bool" where
  "reconciled db c \<longleftrightarrow>
     list_ex (\<lambda>e. e_task_id e = c_task_id c \<and> Some (e_effect_id e) = c_effect_id c
                  \<and> e_lease_generation e = c_lease_generation c) (effect_reconciliations db)"

definition later_checkpoint :: "checkpoint_row \<Rightarrow> checkpoint_row \<Rightarrow> bool" where
  "later_checkpoint l c \<longleftrightarrow>
     c_lease_generation c < c_lease_generation l \<or>
     c_lease_generation l = c_lease_generation c \<and> c_sequence c < c_sequence l"

definition superseded :: "pool_db \<Rightarrow> checkpoint_row \<Rightarrow> bool" where
  "superseded db c \<longleftrightarrow>
     list_ex (\<lambda>l. c_task_id l = c_task_id c \<and> c_effect_id l = c_effect_id c \<and> later_checkpoint l c)
       (task_checkpoints db)"

definition unresolved_checkpoint :: "pool_db \<Rightarrow> checkpoint_row \<Rightarrow> bool" where
  "unresolved_checkpoint db c \<longleftrightarrow>
     c_effect_id c \<noteq> None \<and>
     (c_effect_state c = EffUnknown \<and> \<not> reconciled db c \<or>
      c_effect_state c = EffPending \<and> \<not> reconciled db c \<and> \<not> superseded db c)"

definition has_unresolved_effect :: "pool_db \<Rightarrow> string \<Rightarrow> bool" where
  "has_unresolved_effect db tid \<longleftrightarrow>
     list_ex (\<lambda>c. c_task_id c = tid \<and> unresolved_checkpoint db c) (task_checkpoints db)"

definition require_resolved_effects :: "task_row \<Rightarrow> pool_db \<Rightarrow> pool_error + unit" where
  "require_resolved_effects row db =
     (if t_fencing_required row \<and> has_unresolved_effect db (t_task_id row)
      then Inl (ConflictError ''efeito requer reconciliacao antes da transicao'')
      else Inr ())"

section \<open>End of an attempt, recovery of expired leases\<close>

definition end_attempt :: "task_row \<Rightarrow> timestamp \<Rightarrow> string \<Rightarrow> pool_db \<Rightarrow> pool_db" where
  "end_attempt row stamp reason db =
     (case t_attempt_id row of
        None \<Rightarrow> db
      | Some a \<Rightarrow>
          if a = [] then db
          else put_attempt a (\<lambda>x. x\<lparr>a_ended_at := coalesce (a_ended_at x) stamp,
                                    a_end_reason := coalesce (a_end_reason x) reason\<rparr>) db)"

definition requeue_state :: "task_row \<Rightarrow> task_state" where
  "requeue_state t = (if opt_text (t_produced_sha t) \<noteq> [] then Validating else Queued)"

text \<open>The update that ends \<^verbatim>\<open>_recover\<close> and \<^verbatim>\<open>_recover_stalled\<close>: the lease is gone.\<close>

definition release_lease :: "task_state \<Rightarrow> string option \<Rightarrow> string \<Rightarrow> timestamp \<Rightarrow> task_row \<Rightarrow> task_row" where
  "release_lease state reason err stamp t =
     t\<lparr>t_state := state, t_leased_by := None, t_lease_token := None, t_lease_expires_at := None,
       t_attempt_id := None, t_blocked_reason := reason, t_last_error := Some err,
       t_updated_at := stamp\<rparr>"

definition effect_reason :: string where
  "effect_reason = ''effect_reconciliation_required''"

definition recover_row :: "timestamp \<Rightarrow> task_row \<Rightarrow> pool_db \<Rightarrow> pool_error + pool_db" where
  "recover_row stamp row db =
     (let (state, reason, err, db1) =
        (if t_fencing_required row \<and> has_unresolved_effect db (t_task_id row)
         then (Blocked, Some effect_reason, effect_reason, db)
         else if t_max_attempts row \<le> t_attempt_count row
         then (Failed, None, ''lease_expired_max_attempts'',
               do_quarantine row ''lease_expired_max_attempts'' stamp db)
         else (requeue_state row, None, ''lease_expired_recovered'', db))
      in sql_update_task (t_task_id row) (release_lease state reason err stamp)
           (end_attempt row stamp err db1))"

definition expired_rows :: "timestamp \<Rightarrow> pool_db \<Rightarrow> task_row list" where
  "expired_rows stamp db =
     filter (\<lambda>t. is_active t \<and> (case t_lease_expires_at t of None \<Rightarrow> False | Some e \<Rightarrow> text_le e stamp))
       (tasks db)"

definition recover :: "timestamp \<Rightarrow> nat pool_tx" where
  "recover now db =
     (let rows = expired_rows now db
      in bindE (foldE (recover_row now) rows db) (\<lambda>db'. Inr (length rows, db')))"

definition recover_expired_leases :: "timestamp \<Rightarrow> nat pool_op" where
  "recover_expired_leases now = run_tx (recover now)"

section \<open>The progress watchdog\<close>

definition affinity_allows :: "string \<Rightarrow> string \<Rightarrow> pool_db \<Rightarrow> bool" where
  "affinity_allows worker_id repository db \<longleftrightarrow>
     \<not> list_ex (\<lambda>(w, _). w = worker_id) (affinity db) \<or> (worker_id, repository) \<in> set (affinity db)"

definition worker_is_alternative ::
  "pool_config \<Rightarrow> timestamp \<Rightarrow> task_row \<Rightarrow> worker_row \<Rightarrow> pool_db \<Rightarrow> bool" where
  "worker_is_alternative cfg now row w db \<longleftrightarrow>
     t_leased_by row \<noteq> Some (w_worker_id w) \<and>
     w_role w = (if opt_text (t_produced_sha row) \<noteq> [] then Validator else Builder) \<and>
     w_profile w = NORMAL \<and>
     w_gateway_ok w \<and> w_state_validated w \<and>
     \<not> rules_divergent cfg w \<and>
     \<not> stale_heartbeat cfg now w \<and>
     \<not> worker_busy (w_worker_id w) db \<and>
     affinity_allows (w_worker_id w) (t_repository row) db"

record stall_counts =
  s_rerouted :: nat
  s_blocked :: nat
  s_failed :: nat

definition stall_row ::
  "pool_config \<Rightarrow> timestamp \<Rightarrow> worker_row list \<Rightarrow> task_row \<Rightarrow> stall_counts \<times> pool_db
   \<Rightarrow> pool_error + (stall_counts \<times> pool_db)" where
  "stall_row cfg now ws row s =
     (case s of (n, db) \<Rightarrow>
       let (state, reason, err, n1, db1) =
         (if t_fencing_required row \<and> has_unresolved_effect db (t_task_id row)
          then (Blocked, Some effect_reason, effect_reason, n\<lparr>s_blocked := Suc (s_blocked n)\<rparr>, db)
          else if t_max_attempts row \<le> t_attempt_count row
          then (Failed, None, ''material_progress_timeout_max_attempts'',
                n\<lparr>s_failed := Suc (s_failed n)\<rparr>,
                do_quarantine row ''material_progress_timeout_max_attempts'' now db)
          else if list_ex (\<lambda>w. worker_is_alternative cfg now row w db) ws
          then (requeue_state row, None, ''material_progress_timeout_rerouted'',
                n\<lparr>s_rerouted := Suc (s_rerouted n)\<rparr>, db)
          else (Blocked, Some ''material_progress_timeout_no_alternative'',
                ''material_progress_timeout_no_alternative'', n\<lparr>s_blocked := Suc (s_blocked n)\<rparr>, db))
       in bindE (sql_update_task (t_task_id row) (release_lease state reason err now)
                   (end_attempt row now err db1))
            (\<lambda>db2. Inr (n1, db2)))"

definition stalled_rows :: "pool_config \<Rightarrow> timestamp \<Rightarrow> pool_db \<Rightarrow> task_row list" where
  "stalled_rows cfg now db =
     filter (\<lambda>t. is_active t \<and>
       text_le (t_last_material_progress_at t) (now - seconds (progress_stall_seconds cfg))) (tasks db)"

definition recover_stalled :: "pool_config \<Rightarrow> timestamp \<Rightarrow> stall_counts pool_tx" where
  "recover_stalled cfg now db =
     foldE (stall_row cfg now (workers db)) (stalled_rows cfg now db)
       (\<lparr>s_rerouted = 0, s_blocked = 0, s_failed = 0\<rparr>, db)"

definition recover_stalled_tasks :: "pool_config \<Rightarrow> timestamp \<Rightarrow> stall_counts pool_op" where
  "recover_stalled_tasks cfg now = run_tx (recover_stalled cfg now)"

text \<open>One atomic reconciliation cycle: expired leases first, then stalled tasks.\<close>

definition reconcile :: "pool_config \<Rightarrow> timestamp \<Rightarrow> (nat \<times> stall_counts) pool_op" where
  "reconcile cfg now =
     run_tx (\<lambda>db. bindE (recover now db)
       (\<lambda>(n, db1). bindE (recover_stalled cfg now db1) (\<lambda>(c, db2). Inr ((n, c), db2))))"

end
