(* ===== verification/Pool_Claim.thy ===== *)
theory Pool_Claim
  imports Pool_Queue
begin

text \<open>
  \<^verbatim>\<open>WorkerPoolStore.claim_task\<close> (\<^verbatim>\<open>app/store.py\<close>, lines 741-873): the general claim, which first
  recovers expired and stalled tasks, the exact claim of one task id, and their fenced variant.
  The two \<^verbatim>\<open>uuid4\<close> values of a claim, the lease token and the attempt id, are arguments.
\<close>

record lease =
  l_task_id :: string
  l_lease_token :: string
  l_worker_id :: string
  l_role :: role
  l_lease_expires_at :: timestamp
  l_lease_generation :: int
  l_attempt_id :: string

section \<open>The two selections\<close>

definition active_count :: "string \<Rightarrow> pool_db \<Rightarrow> int" where
  "active_count repository db =
     int (length (filter (\<lambda>t. t_repository t = repository \<and> is_active t) (tasks db)))"

definition only_matches :: "string option \<Rightarrow> task_row \<Rightarrow> bool" where
  "only_matches only t \<longleftrightarrow> (case only of None \<Rightarrow> True | Some tid \<Rightarrow> t_task_id t = tid)"

definition builder_eligible :: "string \<Rightarrow> string option \<Rightarrow> bool \<Rightarrow> pool_db \<Rightarrow> task_row \<Rightarrow> lane_row \<Rightarrow> bool" where
  "builder_eligible worker_id only fencing db t r \<longleftrightarrow>
     t_state t = Queued \<and> t_fencing_required t = fencing \<and> r_enabled r \<and>
     affinity_allows worker_id (t_repository t) db \<and>
     active_count (t_repository t) db < r_max_in_flight r \<and> only_matches only t"

definition validator_eligible :: "string \<Rightarrow> string option \<Rightarrow> bool \<Rightarrow> pool_db \<Rightarrow> task_row \<Rightarrow> bool" where
  "validator_eligible worker_id only fencing db t \<longleftrightarrow>
     t_state t = Validating \<and> t_fencing_required t = fencing \<and> t_leased_by t = None \<and>
     t_produced_sha t \<noteq> None \<and> t_builder_worker_id t \<noteq> Some worker_id \<and>
     affinity_allows worker_id (t_repository t) db \<and> only_matches only t"

text \<open>\<^verbatim>\<open>JOIN repository_lanes r ON r.repository=t.repository\<close>, in rowid order of the tasks.\<close>

definition join_lanes :: "(task_row \<Rightarrow> lane_row \<Rightarrow> bool) \<Rightarrow> pool_db \<Rightarrow> (task_row \<times> lane_row) list" where
  "join_lanes P db =
     concat (map (\<lambda>t. case find_lane (t_repository t) db of
                        None \<Rightarrow> []
                      | Some r \<Rightarrow> if P t r then [(t, r)] else []) (tasks db))"

definition claimed_at_key :: "timestamp option \<Rightarrow> int \<times> int \<times> int" where
  "claimed_at_key v = (case v of None \<Rightarrow> (0, 0, 0) | Some t \<Rightarrow> (1, iso_key t))"

type_synonym claim_key = "int \<times> (int \<times> int \<times> int) \<times> string \<times> int \<times> (int \<times> int)"

definition builder_key :: "task_row \<times> lane_row \<Rightarrow> claim_key" where
  "builder_key tr = (case tr of (t, r) \<Rightarrow>
     (r_builder_claim_count r, claimed_at_key (r_last_builder_claimed_at r), r_repository r,
      t_priority t, iso_key (t_created_at t)))"

definition validator_key :: "task_row \<times> lane_row \<Rightarrow> claim_key" where
  "validator_key tr = (case tr of (t, r) \<Rightarrow>
     (r_validator_claim_count r, claimed_at_key (r_last_validator_claimed_at r), r_repository r,
      t_priority t, iso_key (t_updated_at t)))"

definition select_builder :: "string \<Rightarrow> string option \<Rightarrow> bool \<Rightarrow> pool_db \<Rightarrow> task_row option" where
  "select_builder worker_id only fencing db =
     map_option fst (first_min builder_key (join_lanes (builder_eligible worker_id only fencing db) db))"

definition select_validator :: "string \<Rightarrow> string option \<Rightarrow> bool \<Rightarrow> pool_db \<Rightarrow> task_row option" where
  "select_validator worker_id only fencing db =
     map_option fst
       (first_min validator_key (join_lanes (\<lambda>t _. validator_eligible worker_id only fencing db t) db))"

section \<open>The claim\<close>

record claim_request =
  m_worker_id :: string
  m_role :: string
  m_correlation_id :: string
  m_lease_seconds :: "int option"
  m_only_task_id :: "string option"
  m_fencing_required :: bool
  m_token :: string
  m_attempt_id :: string

definition claim_update ::
  "timestamp \<Rightarrow> role \<Rightarrow> claim_request \<Rightarrow> timestamp \<Rightarrow> task_row \<Rightarrow> task_row" where
  "claim_update now role m expires t =
     t\<lparr>t_state := (if role = Builder then Leased else Validating),
       t_leased_by := Some (m_worker_id m), t_lease_token := Some (m_token m),
       t_lease_expires_at := Some expires, t_attempt_count := t_attempt_count t + 1,
       t_validator_worker_id := (if role = Validator then Some (m_worker_id m) else t_validator_worker_id t),
       t_lease_generation := t_lease_generation t + 1, t_attempt_id := Some (m_attempt_id m),
       t_correlation_id := m_correlation_id m, t_updated_at := now, t_last_material_progress_at := now\<rparr>"

definition claim_lane :: "timestamp \<Rightarrow> role \<Rightarrow> lane_row \<Rightarrow> lane_row" where
  "claim_lane now role r =
     (if role = Builder
      then r\<lparr>r_last_builder_claimed_at := Some now, r_builder_claim_count := r_builder_claim_count r + 1,
             r_updated_at := now\<rparr>
      else r\<lparr>r_last_validator_claimed_at := Some now,
             r_validator_claim_count := r_validator_claim_count r + 1, r_updated_at := now\<rparr>)"

text \<open>The grant of one selected row, after the selection.\<close>

definition grant :: "timestamp \<Rightarrow> role \<Rightarrow> claim_request \<Rightarrow> int \<Rightarrow> task_row \<Rightarrow> (task_row \<times> lease) pool_tx" where
  "grant now role m ttl row db =
     (let expires = now + seconds ttl;
          wanted = (if role = Builder then Queued else Validating);
          row' = claim_update now role m expires row
      in if t_state row \<noteq> wanted \<or> t_leased_by row \<noteq> None
         then Inl (ConflictError ''task adquirida concorrentemente'')
         else bindE (sql_update_task (t_task_id row) (claim_update now role m expires) db)
           (\<lambda>db1. bindE
             (sql_insert_attempt
               \<lparr>a_attempt_id = m_attempt_id m, a_task_id = t_task_id row,
                a_lease_generation = t_lease_generation row', a_worker_id = m_worker_id m, a_role = role,
                a_lease_started_at = now, a_lease_expires_at = expires, a_ended_at = None,
                a_end_reason = None\<rparr>
               (put_lane (t_repository row) (claim_lane now role) db1))
             (\<lambda>db2. Inr ((row',
                \<lparr>l_task_id = t_task_id row, l_lease_token = m_token m, l_worker_id = m_worker_id m,
                 l_role = role, l_lease_expires_at = expires,
                 l_lease_generation = t_lease_generation row', l_attempt_id = m_attempt_id m\<rparr>), db2))))"

text \<open>The general claim recovers expired and stalled tasks first; the exact claim does not.\<close>

definition claim_prepare :: "pool_config \<Rightarrow> timestamp \<Rightarrow> claim_request \<Rightarrow> pool_db \<Rightarrow> pool_error + pool_db" where
  "claim_prepare cfg now m db =
     (if m_only_task_id m = None
      then bindE (recover now db)
             (\<lambda>(_, db1). bindE (recover_stalled cfg now db1) (\<lambda>(_, db2). Inr db2))
      else Inr db)"

definition select_task :: "role \<Rightarrow> claim_request \<Rightarrow> pool_db \<Rightarrow> task_row option" where
  "select_task role m db =
     (if role = Builder
      then select_builder (m_worker_id m) (m_only_task_id m) (m_fencing_required m) db
      else select_validator (m_worker_id m) (m_only_task_id m) (m_fencing_required m) db)"

definition claim_tx ::
  "pool_config \<Rightarrow> timestamp \<Rightarrow> role \<Rightarrow> int \<Rightarrow> claim_request \<Rightarrow> (task_row \<times> lease) option pool_tx" where
  "claim_tx cfg now role ttl m db =
     bindE (claim_prepare cfg now m db)
       (\<lambda>db3. bindE (ready cfg now (m_worker_id m) role db3)
         (\<lambda>_. case select_task role m db3 of
                None \<Rightarrow> Inr (None, db3)
              | Some row \<Rightarrow>
                  bindE (grant now role m ttl row db3) (\<lambda>(res, db4). Inr (Some res, db4))))"

definition claim_task :: "pool_config \<Rightarrow> timestamp \<Rightarrow> claim_request \<Rightarrow> (task_row \<times> lease) option pool_op" where
  "claim_task cfg now m db =
     (let ttl = int_or (m_lease_seconds m) (default_lease_seconds cfg) in
      case parse_role (py_lower (m_role m)) of
        None \<Rightarrow> (Inl (ValueError ''role/lease invalido''), db)
      | Some role \<Rightarrow>
          if ttl < 1 then (Inl (ValueError ''role/lease invalido''), db)
          else if (case m_only_task_id m of None \<Rightarrow> False | Some tid \<Rightarrow> \<not> TASK_ID tid)
          then (Inl (ValueError ''exact_task_id invalido''), db)
          else run_tx (claim_tx cfg now role ttl m) db)"

end
