(* ===== verification/Pool_Lease.thy ===== *)
theory Pool_Lease
  imports Pool_Claim
begin

text \<open>
  The operations of a worker that holds a lease (\<^verbatim>\<open>app/store.py\<close>, lines 875-1042): the lease
  check \<^verbatim>\<open>_lease\<close> and renew, start, submit, complete, fail and block.
\<close>

record lease_proof =
  p_task_id :: string
  p_worker_id :: string
  p_lease_token :: string
  p_lease_generation :: "int option"
  p_attempt_id :: "string option"

definition lease_check :: "timestamp \<Rightarrow> lease_proof \<Rightarrow> task_state list \<Rightarrow> pool_db \<Rightarrow> pool_error + task_row" where
  "lease_check now p allowed db =
     (case find_task (p_task_id p) db of
        None \<Rightarrow> Inl (NotFoundError (''task nao encontrada: '' @ p_task_id p))
      | Some row \<Rightarrow>
          if t_state row \<notin> set allowed then Inl (ConflictError ''estado invalido'')
          else if t_leased_by row \<noteq> Some (p_worker_id p) \<or> t_lease_token row \<noteq> Some (p_lease_token p)
          then Inl (ConflictError ''lease invalido'')
          else if t_fencing_required row \<and> (p_lease_generation p = None \<or> p_attempt_id p = None)
          then Inl (ConflictError ''fence obrigatorio'')
          else if (case p_lease_generation p of None \<Rightarrow> False | Some g \<Rightarrow> t_lease_generation row \<noteq> g)
          then Inl (ConflictError ''lease_generation invalida'')
          else if p_attempt_id p \<noteq> None \<and> t_attempt_id row \<noteq> p_attempt_id p
          then Inl (ConflictError ''attempt_id invalido'')
          else if (case t_lease_expires_at row of None \<Rightarrow> True | Some e \<Rightarrow> e \<le> now)
          then Inl (ConflictError ''lease expirado'')
          else Inr row)"

definition get_task :: "string \<Rightarrow> pool_db \<Rightarrow> pool_error + task_row" where
  "get_task tid db =
     (case find_task tid db of
        None \<Rightarrow> Inl (NotFoundError ''registro nao encontrado'')
      | Some t \<Rightarrow> Inr t)"

text \<open>A transaction followed by \<^verbatim>\<open>return self.get_task(task_id)\<close>.\<close>

definition tx_then_get :: "string \<Rightarrow> (pool_db \<Rightarrow> pool_error + pool_db) \<Rightarrow> task_row pool_op" where
  "tx_then_get tid f db =
     (case f db of Inl e \<Rightarrow> (Inl e, db) | Inr db' \<Rightarrow> (get_task tid db', db'))"

section \<open>Renewal and start\<close>

definition renew_tx :: "pool_config \<Rightarrow> timestamp \<Rightarrow> lease_proof \<Rightarrow> string \<Rightarrow> int option \<Rightarrow> pool_db \<Rightarrow> pool_error + pool_db" where
  "renew_tx cfg now p correlation_id lease_seconds db =
     bindE (lease_check now p ACTIVE db)
       (\<lambda>row. let expires = now + seconds (int_or lease_seconds (default_lease_seconds cfg)) in
          bindE (sql_update_task (p_task_id p)
                   (\<lambda>t. t\<lparr>t_lease_expires_at := Some expires, t_correlation_id := correlation_id,
                          t_updated_at := now\<rparr>) db)
            (\<lambda>db1. Inr (case t_attempt_id row of
                 None \<Rightarrow> db1
               | Some a \<Rightarrow> if a = [] then db1
                           else put_attempt a (\<lambda>x. x\<lparr>a_lease_expires_at := expires\<rparr>) db1)))"

definition renew_lease :: "pool_config \<Rightarrow> timestamp \<Rightarrow> lease_proof \<Rightarrow> string \<Rightarrow> int option \<Rightarrow> task_row pool_op" where
  "renew_lease cfg now p correlation_id lease_seconds =
     tx_then_get (p_task_id p) (renew_tx cfg now p correlation_id lease_seconds)"

definition start_update :: "timestamp \<Rightarrow> string \<Rightarrow> string \<Rightarrow> task_row \<Rightarrow> task_row" where
  "start_update now worker_id correlation_id t =
     t\<lparr>t_state := Running, t_builder_worker_id := Some worker_id, t_correlation_id := correlation_id,
       t_updated_at := now, t_last_material_progress_at := now\<rparr>"

definition start_tx :: "timestamp \<Rightarrow> lease_proof \<Rightarrow> string \<Rightarrow> pool_db \<Rightarrow> pool_error + pool_db" where
  "start_tx now p correlation_id db =
     bindE (lease_check now p [Leased] db)
       (\<lambda>_. bindE (get_worker (p_worker_id p) db)
         (\<lambda>w. if w_role w \<noteq> Builder then Inl (ConflictError ''somente Builder pode iniciar task'')
              else sql_update_task (p_task_id p) (start_update now (p_worker_id p) correlation_id) db))"

definition start_task :: "timestamp \<Rightarrow> lease_proof \<Rightarrow> string \<Rightarrow> task_row pool_op" where
  "start_task now p correlation_id = tx_then_get (p_task_id p) (start_tx now p correlation_id)"

section \<open>Hand-off to validation and completion\<close>

definition submit_update :: "timestamp \<Rightarrow> string \<Rightarrow> string \<Rightarrow> task_row \<Rightarrow> task_row" where
  "submit_update now produced_sha correlation_id t =
     t\<lparr>t_state := Validating, t_produced_sha := Some produced_sha, t_leased_by := None,
       t_lease_token := None, t_lease_expires_at := None, t_attempt_id := None,
       t_correlation_id := correlation_id, t_updated_at := now, t_last_material_progress_at := now\<rparr>"

definition submit_tx :: "timestamp \<Rightarrow> lease_proof \<Rightarrow> string \<Rightarrow> string \<Rightarrow> pool_db \<Rightarrow> pool_error + pool_db" where
  "submit_tx now p produced_sha correlation_id db =
     bindE (lease_check now p [Running] db)
       (\<lambda>row. if t_builder_worker_id row \<noteq> Some (p_worker_id p)
          then Inl (ConflictError ''builder divergente'')
          else bindE (require_resolved_effects row db)
            (\<lambda>_. sql_update_task (p_task_id p) (submit_update now produced_sha correlation_id)
                   (end_attempt row now ''validation_handoff'' db)))"

definition submit_for_validation :: "timestamp \<Rightarrow> lease_proof \<Rightarrow> string \<Rightarrow> string \<Rightarrow> task_row pool_op" where
  "submit_for_validation now p produced_sha correlation_id db =
     (let produced_sha = py_lower produced_sha in
      if \<not> SHA40 produced_sha then (Inl (ValueError ''produced_sha invalido''), db)
      else tx_then_get (p_task_id p) (submit_tx now p produced_sha correlation_id) db)"

definition complete_update :: "timestamp \<Rightarrow> string \<Rightarrow> task_row \<Rightarrow> task_row" where
  "complete_update now correlation_id t =
     t\<lparr>t_state := Completed, t_leased_by := None, t_lease_token := None, t_lease_expires_at := None,
       t_attempt_id := None, t_correlation_id := correlation_id, t_updated_at := now,
       t_completed_at := Some now, t_last_material_progress_at := now\<rparr>"

definition complete_tx :: "timestamp \<Rightarrow> lease_proof \<Rightarrow> string \<Rightarrow> pool_db \<Rightarrow> pool_error + pool_db" where
  "complete_tx now p correlation_id db =
     bindE (lease_check now p [Validating] db)
       (\<lambda>row. bindE (get_worker (p_worker_id p) db)
         (\<lambda>w. if w_role w \<noteq> Validator \<or> t_builder_worker_id row = Some (p_worker_id p)
            then Inl (ConflictError ''Validator independente obrigatorio'')
            else if opt_text (t_produced_sha row) = []
            then Inl (ConflictError ''task sem produced_sha'')
            else bindE (require_resolved_effects row db)
              (\<lambda>_. sql_update_task (p_task_id p) (complete_update now correlation_id)
                     (end_attempt row now ''completed'' db))))"

definition complete_task :: "timestamp \<Rightarrow> lease_proof \<Rightarrow> string \<Rightarrow> task_row pool_op" where
  "complete_task now p correlation_id = tx_then_get (p_task_id p) (complete_tx now p correlation_id)"

section \<open>Failure and block\<close>

definition fail_update :: "task_state \<Rightarrow> timestamp \<Rightarrow> string \<Rightarrow> string \<Rightarrow> task_row \<Rightarrow> task_row" where
  "fail_update state now reason correlation_id t =
     t\<lparr>t_state := state, t_leased_by := None, t_lease_token := None, t_lease_expires_at := None,
       t_attempt_id := None, t_last_error := Some reason, t_correlation_id := correlation_id,
       t_updated_at := now\<rparr>"

definition fail_tx :: "timestamp \<Rightarrow> lease_proof \<Rightarrow> string \<Rightarrow> string \<Rightarrow> pool_db \<Rightarrow> pool_error + pool_db" where
  "fail_tx now p correlation_id reason db =
     bindE (lease_check now p ACTIVE db)
       (\<lambda>row. bindE (require_resolved_effects row db)
         (\<lambda>_. let (state, db1) =
                (if t_max_attempts row \<le> t_attempt_count row
                 then (Failed, do_quarantine row reason now db)
                 else (requeue_state row, db))
              in sql_update_task (p_task_id p) (fail_update state now reason correlation_id)
                   (end_attempt row now ''failed_attempt'' db1)))"

definition fail_task :: "timestamp \<Rightarrow> lease_proof \<Rightarrow> string \<Rightarrow> string \<Rightarrow> task_row pool_op" where
  "fail_task now p correlation_id reason =
     (let cleaned = sanitize (py_strip reason);
          reason = (if cleaned = [] then ''worker_failure'' else cleaned)
      in tx_then_get (p_task_id p) (fail_tx now p correlation_id reason))"

definition block_update :: "timestamp \<Rightarrow> string \<Rightarrow> string \<Rightarrow> task_row \<Rightarrow> task_row" where
  "block_update now reason correlation_id t =
     t\<lparr>t_state := Blocked, t_leased_by := None, t_lease_token := None, t_lease_expires_at := None,
       t_attempt_id := None, t_blocked_reason := Some reason, t_correlation_id := correlation_id,
       t_updated_at := now, t_last_material_progress_at := now\<rparr>"

definition block_tx :: "timestamp \<Rightarrow> lease_proof \<Rightarrow> string \<Rightarrow> string \<Rightarrow> pool_db \<Rightarrow> pool_error + pool_db" where
  "block_tx now p correlation_id reason db =
     bindE (lease_check now p ACTIVE db)
       (\<lambda>row. let reason = (if t_fencing_required row \<and> has_unresolved_effect db (p_task_id p)
                            then effect_reason else reason)
          in sql_update_task (p_task_id p) (block_update now reason correlation_id)
               (end_attempt row now ''blocked'' db))"

definition block_task :: "timestamp \<Rightarrow> lease_proof \<Rightarrow> string \<Rightarrow> string \<Rightarrow> task_row pool_op" where
  "block_task now p correlation_id reason db =
     (let reason = sanitize (py_strip reason) in
      if reason = [] then (Inl (ValueError ''reason obrigatorio''), db)
      else tx_then_get (p_task_id p) (block_tx now p correlation_id reason) db)"

end
