(* ===== verification/Pool_Checkpoint.thy ===== *)
theory Pool_Checkpoint
  imports Pool_Lease
begin

text \<open>
  Recoverable checkpoints of fenced tasks, the reconciliation of effects by the separate
  authority, and the release of blocked tasks (\<^verbatim>\<open>app/store.py\<close>, lines 1044-1303).
\<close>

section \<open>Recording a checkpoint\<close>

definition parse_effect_state :: "string \<Rightarrow> effect_state option" where
  "parse_effect_state s =
     (if s = ''none'' then Some EffNone else if s = ''pending'' then Some EffPending
      else if s = ''confirmed'' then Some EffConfirmed else if s = ''not_applied'' then Some EffNotApplied
      else if s = ''unknown'' then Some EffUnknown else None)"

record checkpoint_request =
  i_task_id :: string
  i_worker_id :: string
  i_lease_token :: string
  i_lease_generation :: int
  i_attempt_id :: string
  i_checkpoint_id :: string
  i_sequence :: int
  i_stage :: string
  i_next_action :: string
  i_correlation_id :: string
  i_artifact_kind :: "string option"
  i_artifact_ref :: "string option"
  i_artifact_sha256 :: "string option"
  i_effect_id :: "string option"
  i_effect_state :: string
  i_effect_result_ref :: "string option"

definition opt_all :: "('a \<Rightarrow> bool) \<Rightarrow> 'a option \<Rightarrow> bool" where
  "opt_all P v \<longleftrightarrow> (case v of None \<Rightarrow> True | Some x \<Rightarrow> P x)"

text \<open>\<^verbatim>\<open>sanitize(v.strip()) if v else None\<close>\<close>

definition clean_ref :: "string option \<Rightarrow> string option" where
  "clean_ref v = (if opt_text v = [] then None else Some (sanitize (py_strip (opt_text v))))"

definition checkpoint_digest :: "checkpoint_row \<Rightarrow> string \<Rightarrow> string" where
  "checkpoint_digest c effect_name =
     sha256_hex (json_dumps
       [(''checkpoint_id'', JStr (c_checkpoint_id c)), (''sequence'', JInt (c_sequence c)),
        (''stage'', JStr (c_stage c)), (''artifact_kind'', json_opt (c_artifact_kind c)),
        (''artifact_ref'', json_opt (c_artifact_ref c)),
        (''artifact_sha256'', json_opt (c_artifact_sha256 c)),
        (''next_action'', JStr (c_next_action c)), (''effect_id'', json_opt (c_effect_id c)),
        (''effect_state'', JStr effect_name),
        (''effect_result_ref'', json_opt (c_effect_result_ref c))])"

text \<open>Validation and normalisation: the row that would be stored.\<close>

definition checkpoint_row_of :: "timestamp \<Rightarrow> checkpoint_request \<Rightarrow> pool_error + checkpoint_row" where
  "checkpoint_row_of now i =
     (if \<not> SAFE_ID (i_checkpoint_id i) then Inl (ValueError ''checkpoint_id invalido'')
      else if \<not> SAFE_ID (i_stage i) then Inl (ValueError ''stage invalido'')
      else if \<not> opt_all SAFE_ID (i_artifact_kind i) then Inl (ValueError ''artifact_kind invalido'')
      else if \<not> opt_all SAFE_ID (i_effect_id i) then Inl (ValueError ''effect_id invalido'')
      else case parse_effect_state (i_effect_state i) of
        None \<Rightarrow> Inl (ValueError ''effect_state invalido'')
      | Some st \<Rightarrow>
          if (st = EffNone) \<noteq> (i_effect_id i = None)
          then Inl (ValueError ''effect_id incompativel com effect_state'')
          else if i_sequence i < 1 then Inl (ValueError ''sequence invalida'')
          else
            (let sha = map_option (\<lambda>s. py_lower (py_strip s)) (i_artifact_sha256 i);
                 next_action = sanitize (py_strip (i_next_action i));
                 result_ref = clean_ref (i_effect_result_ref i);
                 correlation_id = py_strip (i_correlation_id i)
             in if \<not> opt_all SHA64 sha then Inl (ValueError ''artifact_sha256 invalido'')
                else if next_action = [] \<or> correlation_id = []
                then Inl (ValueError ''checkpoint incompleto'')
                else if st \<in> {EffConfirmed, EffNotApplied} \<and> opt_text result_ref = []
                then Inl (ValueError ''effect_result_ref obrigatorio para efeito resolvido'')
                else if st = EffNone \<and> result_ref \<noteq> None
                then Inl (ValueError ''effect_result_ref exige effect_id'')
                else
                  (let c = \<lparr>c_task_id = i_task_id i, c_checkpoint_id = i_checkpoint_id i,
                            c_lease_generation = i_lease_generation i, c_attempt_id = i_attempt_id i,
                            c_sequence = i_sequence i, c_stage = py_strip (i_stage i),
                            c_artifact_kind = i_artifact_kind i,
                            c_artifact_ref = clean_ref (i_artifact_ref i), c_artifact_sha256 = sha,
                            c_next_action = next_action, c_effect_id = i_effect_id i,
                            c_effect_state = st, c_effect_result_ref = result_ref,
                            c_content_digest = [], c_correlation_id = correlation_id,
                            c_created_at = now\<rparr>
                   in Inr (c\<lparr>c_content_digest := checkpoint_digest c (i_effect_state i)\<rparr>))))"

definition last_sequence :: "string \<Rightarrow> int \<Rightarrow> pool_db \<Rightarrow> int" where
  "last_sequence tid gen db =
     fold max (map c_sequence
       (filter (\<lambda>c. c_task_id c = tid \<and> c_lease_generation c = gen) (task_checkpoints db))) 0"

definition unresolved_unknown :: "string \<Rightarrow> string option \<Rightarrow> pool_db \<Rightarrow> bool" where
  "unresolved_unknown tid effect_id db \<longleftrightarrow>
     list_ex (\<lambda>c. c_task_id c = tid \<and> c_effect_id c = effect_id \<and> c_effect_state c = EffUnknown
                  \<and> \<not> reconciled db c) (task_checkpoints db)"

definition find_checkpoint :: "string \<Rightarrow> string \<Rightarrow> pool_db \<Rightarrow> checkpoint_row option" where
  "find_checkpoint tid cid db =
     find (\<lambda>c. c_task_id c = tid \<and> c_checkpoint_id c = cid) (task_checkpoints db)"

definition checkpoint_update :: "timestamp \<Rightarrow> string \<Rightarrow> task_row \<Rightarrow> task_row" where
  "checkpoint_update now correlation_id t =
     t\<lparr>t_last_material_progress_at := now, t_correlation_id := correlation_id, t_updated_at := now\<rparr>"

definition checkpoint_proof :: "checkpoint_request \<Rightarrow> lease_proof" where
  "checkpoint_proof i =
     \<lparr>p_task_id = i_task_id i, p_worker_id = i_worker_id i, p_lease_token = i_lease_token i,
      p_lease_generation = Some (i_lease_generation i), p_attempt_id = Some (i_attempt_id i)\<rparr>"

definition checkpoint_tx :: "timestamp \<Rightarrow> lease_proof \<Rightarrow> checkpoint_row \<Rightarrow> (checkpoint_row \<times> bool) pool_tx" where
  "checkpoint_tx now p c db =
     bindE (lease_check now p ACTIVE db)
       (\<lambda>row. if \<not> t_fencing_required row then Inl (ConflictError ''checkpoint exige task cercada'')
          else case find_checkpoint (c_task_id c) (c_checkpoint_id c) db of
            Some existing \<Rightarrow>
              if c_content_digest existing \<noteq> c_content_digest c
              then Inl (ConflictError ''checkpoint divergente no replay'')
              else Inr ((existing, False), db)
          | None \<Rightarrow>
              if c_effect_id c \<noteq> None \<and> unresolved_unknown (c_task_id c) (c_effect_id c) db
              then Inl (ConflictError ''efeito unknown exige reconciliacao independente'')
              else if c_sequence c \<noteq> last_sequence (c_task_id c) (c_lease_generation c) db + 1
              then Inl (ConflictError ''sequence de checkpoint invalida'')
              else bindE (sql_insert_checkpoint c db)
                (\<lambda>db1. bindE (sql_update_task (c_task_id c) (checkpoint_update now (c_correlation_id c)) db1)
                  (\<lambda>db2. Inr ((c, True), db2))))"

definition record_checkpoint :: "timestamp \<Rightarrow> checkpoint_request \<Rightarrow> (checkpoint_row \<times> bool) pool_op" where
  "record_checkpoint now i db =
     (case checkpoint_row_of now i of
        Inl e \<Rightarrow> (Inl e, db)
      | Inr c \<Rightarrow> run_tx (checkpoint_tx now (checkpoint_proof i) c) db)"

section \<open>Reading checkpoints\<close>

definition reconciliation_of :: "pool_db \<Rightarrow> checkpoint_row \<Rightarrow> reconciliation_row option" where
  "reconciliation_of db c =
     find (\<lambda>e. e_task_id e = c_task_id c \<and> Some (e_effect_id e) = c_effect_id c
               \<and> e_lease_generation e = c_lease_generation c) (effect_reconciliations db)"

definition newest_first :: "checkpoint_row \<Rightarrow> int \<times> int" where
  "newest_first c = (- c_lease_generation c, - c_sequence c)"

definition get_latest_checkpoint ::
  "string \<Rightarrow> pool_db \<Rightarrow> pool_error + (checkpoint_row \<times> reconciliation_row option) option" where
  "get_latest_checkpoint tid db =
     (case find_task tid db of
        None \<Rightarrow> Inl (NotFoundError (''task nao encontrada: '' @ tid))
      | Some _ \<Rightarrow>
          Inr (map_option (\<lambda>c. (c, reconciliation_of db c))
            (first_min newest_first (filter (\<lambda>c. c_task_id c = tid) (task_checkpoints db)))))"

record recovery_context =
  x_latest_checkpoint :: "(checkpoint_row \<times> reconciliation_row option) option"
  x_effects :: "(checkpoint_row \<times> reconciliation_row option) list"

definition get_recovery_context :: "string \<Rightarrow> pool_db \<Rightarrow> pool_error + recovery_context" where
  "get_recovery_context tid db =
     bindE (get_latest_checkpoint tid db)
       (\<lambda>latest.
          let effects = filter (\<lambda>c. c_task_id c = tid \<and> c_effect_id c \<noteq> None \<and> \<not> superseded db c)
                          (task_checkpoints db)
          in Inr \<lparr>x_latest_checkpoint = latest,
                  x_effects = map (\<lambda>c. (c, reconciliation_of db c))
                    (sort_key (\<lambda>c. opt_text (c_effect_id c)) effects)\<rparr>)"

section \<open>Reconciliation of an effect\<close>

definition parse_outcome :: "string \<Rightarrow> effect_outcome option" where
  "parse_outcome s = (if s = ''confirmed'' then Some OutConfirmed
                      else if s = ''not_applied'' then Some OutNotApplied else None)"

definition reconciliation_digest :: "string \<Rightarrow> int \<Rightarrow> string \<Rightarrow> string \<Rightarrow> string" where
  "reconciliation_digest effect_id gen outcome readback_ref =
     sha256_hex (json_dumps
       [(''effect_id'', JStr effect_id), (''lease_generation'', JInt gen),
        (''outcome'', JStr outcome), (''readback_ref'', JStr readback_ref)])"

definition find_reconciliation :: "string \<Rightarrow> string \<Rightarrow> int \<Rightarrow> pool_db \<Rightarrow> reconciliation_row option" where
  "find_reconciliation tid eid gen db =
     find (\<lambda>e. e_task_id e = tid \<and> e_effect_id e = eid \<and> e_lease_generation e = gen)
       (effect_reconciliations db)"

definition latest_effect_checkpoint :: "string \<Rightarrow> string \<Rightarrow> pool_db \<Rightarrow> checkpoint_row option" where
  "latest_effect_checkpoint tid eid db =
     first_min newest_first
       (filter (\<lambda>c. c_task_id c = tid \<and> c_effect_id c = Some eid) (task_checkpoints db))"

definition reconcile_effect_tx :: "reconciliation_row \<Rightarrow> (reconciliation_row \<times> bool) pool_tx" where
  "reconcile_effect_tx e db =
     (case find_task (e_task_id e) db of
        None \<Rightarrow> Inl (NotFoundError (''task nao encontrada: '' @ e_task_id e))
      | Some task \<Rightarrow>
          case find_reconciliation (e_task_id e) (e_effect_id e) (e_lease_generation e) db of
            Some existing \<Rightarrow>
              if e_content_digest existing \<noteq> e_content_digest e
              then Inl (ConflictError ''reconciliacao divergente no replay'')
              else Inr ((existing, False), db)
          | None \<Rightarrow>
              if \<not> t_fencing_required task then Inl (ConflictError ''reconciliacao exige task cercada'')
              else if t_state task \<noteq> Blocked \<or> t_blocked_reason task \<noteq> Some effect_reason
              then Inl (ConflictError ''task nao aguarda reconciliacao de efeito'')
              else case latest_effect_checkpoint (e_task_id e) (e_effect_id e) db of
                None \<Rightarrow> Inl (ConflictError ''efeito nao esta pendente de reconciliacao'')
              | Some latest \<Rightarrow>
                  if c_effect_state latest \<notin> {EffPending, EffUnknown}
                  then Inl (ConflictError ''efeito nao esta pendente de reconciliacao'')
                  else if c_lease_generation latest \<noteq> e_lease_generation e
                  then Inl (ConflictError ''lease_generation da reconciliacao divergente'')
                  else bindE (sql_insert_reconciliation e db) (\<lambda>db1. Inr ((e, True), db1)))"

definition reconcile_effect ::
  "timestamp \<Rightarrow> string \<Rightarrow> string \<Rightarrow> int \<Rightarrow> string \<Rightarrow> string \<Rightarrow> string \<Rightarrow> (reconciliation_row \<times> bool) pool_op" where
  "reconcile_effect now tid effect_id gen outcome readback_ref correlation_id db =
     (if \<not> SAFE_ID effect_id then (Inl (ValueError ''effect_id invalido''), db)
      else if gen < 1 then (Inl (ValueError ''lease_generation invalida''), db)
      else case parse_outcome outcome of
        None \<Rightarrow> (Inl (ValueError ''outcome de reconciliacao invalido''), db)
      | Some out \<Rightarrow>
          (let readback_ref = sanitize (py_strip readback_ref); correlation_id = py_strip correlation_id in
           if readback_ref = [] \<or> correlation_id = []
           then (Inl (ValueError ''reconciliacao incompleta''), db)
           else run_tx (reconcile_effect_tx
                  \<lparr>e_task_id = tid, e_effect_id = effect_id, e_lease_generation = gen, e_outcome = out,
                   e_readback_ref = readback_ref,
                   e_content_digest = reconciliation_digest effect_id gen outcome readback_ref,
                   e_correlation_id = correlation_id, e_created_at = now\<rparr>) db))"

section \<open>Requeue of a blocked task\<close>

definition requeue_update :: "timestamp \<Rightarrow> string \<Rightarrow> task_row \<Rightarrow> task_row" where
  "requeue_update now correlation_id t =
     t\<lparr>t_state := requeue_state t, t_blocked_reason := None, t_correlation_id := correlation_id,
       t_updated_at := now, t_last_material_progress_at := now\<rparr>"

definition requeue_tx :: "timestamp \<Rightarrow> string \<Rightarrow> string \<Rightarrow> pool_db \<Rightarrow> pool_error + pool_db" where
  "requeue_tx now tid correlation_id db =
     (case find_task tid db of
        None \<Rightarrow> Inl (NotFoundError (''task nao encontrada: '' @ tid))
      | Some row \<Rightarrow>
          if t_state row \<noteq> Blocked
          then Inl (ConflictError ''somente task bloqueada pode ser reenfileirada'')
          else if t_fencing_required row \<and> has_unresolved_effect db tid
          then Inl (ConflictError ''efeito requer reconciliacao'')
          else sql_update_task tid (requeue_update now correlation_id) db)"

definition requeue_blocked :: "timestamp \<Rightarrow> string \<Rightarrow> string \<Rightarrow> task_row pool_op" where
  "requeue_blocked now tid correlation_id = tx_then_get tid (requeue_tx now tid correlation_id)"

end
