(* ===== verification/Task_Lifecycle.thy ===== *)
theory Task_Lifecycle
  imports Pool_Checkpoint
begin

text \<open>
  The abstract specification of the store: the life of \<^emph>\<open>one\<close> task, as a state machine. Its
  state keeps what the lifecycle depends on (state, lease, generation, who built and who
  validates, the effects recorded and reconciled, the log of attempts) and drops the
  bookkeeping columns. Theory \<open>Pool_Refinement\<close> shows that every store operation moves every
  task by steps of this machine; the invariants are proved here once, by rule induction.
\<close>

section \<open>State\<close>

record life =
  lf_state :: task_state
  lf_fenced :: bool
  lf_holder :: "string option"
  lf_token :: "string option"
  lf_expires :: "timestamp option"
  lf_attempt :: "string option"
  lf_gen :: int
  lf_count :: int
  lf_max :: int
  lf_builder :: "string option"
  lf_validator :: "string option"
  lf_produced :: "string option"
  lf_reason :: "string option"
  lf_attempts :: "(string \<times> int \<times> bool) list" \<comment> \<open>attempt id, generation, still open\<close>
  lf_checkpoints :: "checkpoint_row list"
  lf_recs :: "reconciliation_row list"
  lf_quarantined :: nat

definition lf_reconciled :: "life \<Rightarrow> checkpoint_row \<Rightarrow> bool" where
  "lf_reconciled l c \<longleftrightarrow>
     (\<exists>e\<in>set (lf_recs l). Some (e_effect_id e) = c_effect_id c \<and> e_lease_generation e = c_lease_generation c)"

definition lf_superseded :: "life \<Rightarrow> checkpoint_row \<Rightarrow> bool" where
  "lf_superseded l c \<longleftrightarrow>
     (\<exists>x\<in>set (lf_checkpoints l). c_effect_id x = c_effect_id c \<and> later_checkpoint x c)"

definition lf_open_effect :: "life \<Rightarrow> checkpoint_row \<Rightarrow> bool" where
  "lf_open_effect l c \<longleftrightarrow> c_effect_id c \<noteq> None \<and> \<not> lf_reconciled l c \<and>
     (c_effect_state c = EffUnknown \<or> c_effect_state c = EffPending \<and> \<not> lf_superseded l c)"

definition lf_unresolved :: "life \<Rightarrow> bool" where
  "lf_unresolved l \<longleftrightarrow> (\<exists>c\<in>set (lf_checkpoints l). lf_open_effect l c)"

definition active_state :: "task_state \<Rightarrow> bool" where
  "active_state s \<longleftrightarrow> s \<in> {Leased, Running, Validating}"

definition resolved :: "life \<Rightarrow> bool" where
  "resolved l \<longleftrightarrow> \<not> (lf_fenced l \<and> lf_unresolved l)"

text \<open>
  The end of a lease: the task goes to state \<open>s\<close>, the lease columns are cleared and the open
  attempt is closed; \<open>q\<close> entries are added to the quarantine.
\<close>

definition released :: "task_state \<Rightarrow> string option \<Rightarrow> string option \<Rightarrow> nat \<Rightarrow> life \<Rightarrow> life" where
  "released s sha r q l = l\<lparr>lf_state := s, lf_produced := sha, lf_reason := r,
     lf_quarantined := lf_quarantined l + q,
     lf_holder := None, lf_token := None, lf_expires := None, lf_attempt := None,
     lf_attempts := map (\<lambda>(a, g, b). (a, g, b \<and> lf_attempt l \<noteq> Some a)) (lf_attempts l)\<rparr>"

definition granted :: "string \<Rightarrow> string \<Rightarrow> timestamp \<Rightarrow> string \<Rightarrow> life \<Rightarrow> life" where
  "granted w k e a l = l\<lparr>lf_holder := Some w, lf_token := Some k, lf_expires := Some e,
     lf_attempt := Some a, lf_gen := lf_gen l + 1, lf_count := lf_count l + 1,
     lf_attempts := lf_attempts l @ [(a, lf_gen l + 1, True)]\<rparr>"

definition back_to_queue :: "life \<Rightarrow> task_state" where
  "back_to_queue l = (if opt_text (lf_produced l) \<noteq> [] then Validating else Queued)"

definition life_init :: "life \<Rightarrow> bool" where
  "life_init l \<longleftrightarrow> lf_state l = Queued \<and> lf_holder l = None \<and> lf_token l = None \<and> lf_expires l = None \<and>
     lf_attempt l = None \<and> lf_gen l = 0 \<and> lf_count l = 0 \<and> lf_produced l = None \<and> lf_builder l = None \<and>
     lf_validator l = None \<and> lf_reason l = None \<and> lf_attempts l = [] \<and> lf_checkpoints l = [] \<and>
     lf_recs l = [] \<and> lf_quarantined l = 0"

section \<open>Steps\<close>

inductive life_step :: "life \<Rightarrow> life \<Rightarrow> bool" where
  grant_builder:
    "lf_state l = Queued \<Longrightarrow> lf_holder l = None \<Longrightarrow> a \<noteq> [] \<Longrightarrow> a \<notin> fst ` set (lf_attempts l) \<Longrightarrow>
     life_step l ((granted w k e a l)\<lparr>lf_state := Leased\<rparr>)"
| grant_validator:
    "lf_state l = Validating \<Longrightarrow> lf_holder l = None \<Longrightarrow> lf_produced l \<noteq> None \<Longrightarrow> lf_builder l \<noteq> Some w \<Longrightarrow>
     a \<noteq> [] \<Longrightarrow> a \<notin> fst ` set (lf_attempts l) \<Longrightarrow>
     life_step l ((granted w k e a l)\<lparr>lf_validator := Some w\<rparr>)"
| renew: "lf_holder l \<noteq> None \<Longrightarrow> life_step l (l\<lparr>lf_expires := Some e\<rparr>)"
| start: "lf_state l = Leased \<Longrightarrow> lf_holder l = Some w \<Longrightarrow>
     life_step l (l\<lparr>lf_state := Running, lf_builder := Some w\<rparr>)"
| submit: "lf_state l = Running \<Longrightarrow> lf_holder l = Some w \<Longrightarrow> lf_builder l = Some w \<Longrightarrow> resolved l \<Longrightarrow>
     SHA40 sha \<Longrightarrow> life_step l (released Validating (Some sha) (lf_reason l) 0 l)"
| complete: "lf_state l = Validating \<Longrightarrow> lf_holder l = Some w \<Longrightarrow> lf_builder l \<noteq> Some w \<Longrightarrow>
     lf_produced l \<noteq> None \<Longrightarrow> resolved l \<Longrightarrow> life_step l (released Completed (lf_produced l) (lf_reason l) 0 l)"
| retry: "active_state (lf_state l) \<Longrightarrow> resolved l \<Longrightarrow>
     life_step l (released (back_to_queue l) (lf_produced l) r 0 l)"
| give_up: "active_state (lf_state l) \<Longrightarrow> resolved l \<Longrightarrow> lf_max l \<le> lf_count l \<Longrightarrow>
     life_step l (released Failed (lf_produced l) r 1 l)"
| block: "active_state (lf_state l) \<Longrightarrow> (\<not> resolved l \<Longrightarrow> r = effect_reason) \<Longrightarrow>
     life_step l (released Blocked (lf_produced l) (Some r) 0 l)"
| checkpoint: "lf_fenced l \<Longrightarrow> active_state (lf_state l) \<Longrightarrow> lf_holder l \<noteq> None \<Longrightarrow>
     c_lease_generation c = lf_gen l \<Longrightarrow> opt_all SAFE_ID (c_effect_id c) \<Longrightarrow>
     (\<And>x. x \<in> set (lf_checkpoints l) \<Longrightarrow> c_lease_generation x = lf_gen l \<Longrightarrow> c_sequence x < c_sequence c) \<Longrightarrow>
     (\<And>x. x \<in> set (lf_checkpoints l) \<Longrightarrow> c_effect_id c \<noteq> None \<Longrightarrow> c_effect_id x = c_effect_id c \<Longrightarrow>
        c_effect_state x = EffUnknown \<Longrightarrow> lf_reconciled l x) \<Longrightarrow>
     life_step l (l\<lparr>lf_checkpoints := lf_checkpoints l @ [c]\<rparr>)"
| reconcile: "lf_fenced l \<Longrightarrow> lf_state l = Blocked \<Longrightarrow> lf_reason l = Some effect_reason \<Longrightarrow>
     life_step l (l\<lparr>lf_recs := lf_recs l @ [e]\<rparr>)"
| requeue: "lf_state l = Blocked \<Longrightarrow> resolved l \<Longrightarrow>
     life_step l (l\<lparr>lf_state := back_to_queue l, lf_reason := None\<rparr>)"

inductive_cases life_stepE: "life_step l l'"

section \<open>Invariants\<close>

definition lease_inv :: "life \<Rightarrow> bool" where
  "lease_inv l \<longleftrightarrow>
     (lf_token l = None \<longleftrightarrow> lf_holder l = None) \<and> (lf_expires l = None \<longleftrightarrow> lf_holder l = None) \<and>
     (lf_attempt l = None \<longleftrightarrow> lf_holder l = None) \<and>
     (lf_holder l \<noteq> None \<longrightarrow> active_state (lf_state l)) \<and>
     (lf_state l \<in> {Leased, Running} \<longrightarrow> lf_holder l \<noteq> None)"

definition duty_inv :: "life \<Rightarrow> bool" where
  "duty_inv l \<longleftrightarrow>
     (lf_state l \<in> {Queued, Leased, Running} \<longrightarrow> lf_produced l = None) \<and>
     (lf_state l \<in> {Validating, Completed} \<longrightarrow> lf_produced l \<noteq> None) \<and>
     lf_produced l \<noteq> Some [] \<and> (\<forall>s. lf_produced l = Some s \<longrightarrow> SHA40 s) \<and>
     (lf_produced l \<noteq> None \<longrightarrow> lf_builder l \<noteq> None) \<and>
     (lf_state l = Running \<longrightarrow> lf_builder l = lf_holder l) \<and>
     (lf_state l = Validating \<and> lf_holder l \<noteq> None \<longrightarrow>
        lf_validator l = lf_holder l \<and> lf_builder l \<noteq> lf_holder l) \<and>
     (lf_state l = Completed \<longrightarrow> lf_validator l \<noteq> None \<and> lf_validator l \<noteq> lf_builder l)"

definition effect_inv :: "life \<Rightarrow> bool" where
  "effect_inv l \<longleftrightarrow> (\<not> resolved l \<longrightarrow>
     lf_holder l \<noteq> None \<or> lf_state l = Blocked \<and> lf_reason l = Some effect_reason)"

definition attempt_inv :: "life \<Rightarrow> bool" where
  "attempt_inv l \<longleftrightarrow>
     lf_count l = lf_gen l \<and>
     map (\<lambda>x. fst (snd x)) (lf_attempts l) = map int [1..<Suc (nat (lf_gen l))] \<and> 0 \<le> lf_gen l \<and>
     (\<forall>(a, g, b)\<in>set (lf_attempts l). b \<longleftrightarrow> lf_attempt l = Some a) \<and>
     (\<forall>a. lf_attempt l = Some a \<longrightarrow> (a, lf_gen l, True) \<in> set (lf_attempts l)) \<and>
     distinct (map fst (lf_attempts l))"

definition quarantine_inv :: "life \<Rightarrow> bool" where
  "quarantine_inv l \<longleftrightarrow> lf_quarantined l = (if lf_state l = Failed then 1 else 0)"

definition checkpoint_inv :: "life \<Rightarrow> bool" where
  "checkpoint_inv l \<longleftrightarrow>
     (lf_checkpoints l \<noteq> [] \<longrightarrow> lf_fenced l) \<and>
     (\<forall>c\<in>set (lf_checkpoints l). c_lease_generation c \<le> lf_gen l) \<and>
     (\<forall>c\<in>set (lf_checkpoints l). c_effect_id c \<noteq> None \<and> c_effect_state c = EffUnknown \<and> \<not> lf_reconciled l c \<longrightarrow>
        \<not> lf_superseded l c)"

definition life_inv :: "life \<Rightarrow> bool" where
  "life_inv l \<longleftrightarrow> lease_inv l \<and> duty_inv l \<and> effect_inv l \<and> attempt_inv l \<and> quarantine_inv l \<and> checkpoint_inv l"

section \<open>Every step keeps the invariants\<close>

lemma released_simps [simp]:
  "lf_state (released s sha r q l) = s"
  "lf_fenced (released s sha r q l) = lf_fenced l"
  "lf_holder (released s sha r q l) = None"
  "lf_token (released s sha r q l) = None"
  "lf_expires (released s sha r q l) = None"
  "lf_attempt (released s sha r q l) = None"
  "lf_gen (released s sha r q l) = lf_gen l"
  "lf_count (released s sha r q l) = lf_count l"
  "lf_max (released s sha r q l) = lf_max l"
  "lf_builder (released s sha r q l) = lf_builder l"
  "lf_validator (released s sha r q l) = lf_validator l"
  "lf_produced (released s sha r q l) = sha"
  "lf_reason (released s sha r q l) = r"
  "lf_checkpoints (released s sha r q l) = lf_checkpoints l"
  "lf_recs (released s sha r q l) = lf_recs l"
  "lf_quarantined (released s sha r q l) = lf_quarantined l + q"
  by (simp_all add: released_def)

lemma granted_simps [simp]:
  "lf_state (granted w k e a l) = lf_state l" "lf_fenced (granted w k e a l) = lf_fenced l"
  "lf_holder (granted w k e a l) = Some w" "lf_token (granted w k e a l) = Some k"
  "lf_expires (granted w k e a l) = Some e" "lf_attempt (granted w k e a l) = Some a"
  "lf_gen (granted w k e a l) = lf_gen l + 1" "lf_count (granted w k e a l) = lf_count l + 1"
  "lf_max (granted w k e a l) = lf_max l" "lf_builder (granted w k e a l) = lf_builder l"
  "lf_validator (granted w k e a l) = lf_validator l" "lf_produced (granted w k e a l) = lf_produced l"
  "lf_reason (granted w k e a l) = lf_reason l" "lf_checkpoints (granted w k e a l) = lf_checkpoints l"
  "lf_recs (granted w k e a l) = lf_recs l" "lf_quarantined (granted w k e a l) = lf_quarantined l"
  by (simp_all add: granted_def)

lemma lf_cong:
  "lf_recs l' = lf_recs l \<Longrightarrow> lf_reconciled l' = lf_reconciled l"
  "lf_checkpoints l' = lf_checkpoints l \<Longrightarrow> lf_superseded l' = lf_superseded l"
  "lf_checkpoints l' = lf_checkpoints l \<Longrightarrow> lf_recs l' = lf_recs l \<Longrightarrow> lf_unresolved l' = lf_unresolved l"
  "lf_checkpoints l' = lf_checkpoints l \<Longrightarrow> lf_recs l' = lf_recs l \<Longrightarrow> lf_fenced l' = lf_fenced l \<Longrightarrow>
   resolved l' = resolved l"
  by (auto simp: resolved_def lf_unresolved_def lf_open_effect_def lf_reconciled_def lf_superseded_def
      fun_eq_iff)

lemma resolved_simps [simp]:
  "resolved (released s sha r q l) = resolved l"
  "resolved (granted w k e a l) = resolved l"
  "resolved (l\<lparr>lf_state := s\<rparr>) = resolved l"
  "resolved (l\<lparr>lf_reason := r\<rparr>) = resolved l"
  "resolved (l\<lparr>lf_expires := x\<rparr>) = resolved l"
  "resolved (l\<lparr>lf_builder := b\<rparr>) = resolved l"
  "resolved (l\<lparr>lf_validator := b\<rparr>) = resolved l"
  "resolved (l\<lparr>lf_produced := b\<rparr>) = resolved l"
  "resolved (l\<lparr>lf_quarantined := q\<rparr>) = resolved l"
  by (rule lf_cong; simp)+

lemma lease_inv_step: "life_step l l' \<Longrightarrow> lease_inv l \<Longrightarrow> lease_inv l'"
  by (induction rule: life_step.induct) (auto simp: lease_inv_def active_state_def back_to_queue_def)

lemma SHA40_nonempty: "SHA40 s \<Longrightarrow> s \<noteq> []"
  by (auto simp: SHA40_def)

lemma duty_inv_step: "life_step l l' \<Longrightarrow> lease_inv l \<Longrightarrow> duty_inv l \<Longrightarrow> duty_inv l'"
  by (induction rule: life_step.induct)
    (auto simp: duty_inv_def lease_inv_def active_state_def back_to_queue_def opt_text_def
      split: option.splits dest: SHA40_nonempty)

lemma effect_inv_step: "life_step l l' \<Longrightarrow> effect_inv l \<Longrightarrow> effect_inv l'"
  by (induction rule: life_step.induct) (auto simp: effect_inv_def)

lemma quarantine_inv_step: "life_step l l' \<Longrightarrow> quarantine_inv l \<Longrightarrow> quarantine_inv l'"
  by (induction rule: life_step.induct)
    (auto simp: quarantine_inv_def active_state_def back_to_queue_def)

lemma checkpoint_inv_cong:
  "checkpoint_inv l \<Longrightarrow> lf_checkpoints l' = lf_checkpoints l \<Longrightarrow> lf_recs l' = lf_recs l \<Longrightarrow>
   lf_fenced l' = lf_fenced l \<Longrightarrow> lf_gen l \<le> lf_gen l' \<Longrightarrow> checkpoint_inv l'"
  by (auto simp: checkpoint_inv_def lf_cong [of l' l])

lemma checkpoint_inv_step: "life_step l l' \<Longrightarrow> checkpoint_inv l \<Longrightarrow> checkpoint_inv l'"
proof (induction rule: life_step.induct)
  case (checkpoint l c)
  have "lf_reconciled (l\<lparr>lf_checkpoints := lf_checkpoints l @ [c]\<rparr>) = lf_reconciled l"
    by (rule lf_cong) simp
  with checkpoint show ?case
    by (fastforce simp: checkpoint_inv_def lf_superseded_def later_checkpoint_def)
next
  case (reconcile l e)
  then show ?case by (auto simp: checkpoint_inv_def lf_superseded_def lf_reconciled_def)
qed (auto intro: checkpoint_inv_cong)

lemma attempt_inv_granted:
  assumes "attempt_inv l" "lf_attempt l = None" "a \<notin> fst ` set (lf_attempts l)"
  shows "attempt_inv (granted w k e a l)"
  using assms unfolding attempt_inv_def
  by (auto simp: granted_def nat_add_distrib image_iff)

lemma attempt_inv_released: "attempt_inv l \<Longrightarrow> attempt_inv (released s sha r q l)"
  unfolding attempt_inv_def released_def by (auto simp: comp_def case_prod_beta)

lemma attempt_inv_cong:
  "attempt_inv l \<Longrightarrow> lf_count l' = lf_count l \<Longrightarrow> lf_gen l' = lf_gen l \<Longrightarrow> lf_attempt l' = lf_attempt l \<Longrightarrow>
   lf_attempts l' = lf_attempts l \<Longrightarrow> attempt_inv l'"
  by (simp add: attempt_inv_def)

lemma attempt_inv_step: "life_step l l' \<Longrightarrow> lease_inv l \<Longrightarrow> attempt_inv l \<Longrightarrow> attempt_inv l'"
proof (induction rule: life_step.induct)
  case (grant_builder l a w k e)
  then have "attempt_inv (granted w k e a l)" by (auto intro!: attempt_inv_granted simp: lease_inv_def)
  then show ?case by (rule attempt_inv_cong) simp_all
next
  case (grant_validator l w a k e)
  then have "attempt_inv (granted w k e a l)" by (auto intro!: attempt_inv_granted simp: lease_inv_def)
  then show ?case by (rule attempt_inv_cong) simp_all
qed (auto intro: attempt_inv_cong attempt_inv_cong [OF attempt_inv_released])

lemma life_inv_init: "life_init l \<Longrightarrow> life_inv l"
  by (auto simp: life_init_def life_inv_def lease_inv_def duty_inv_def effect_inv_def attempt_inv_def
      quarantine_inv_def checkpoint_inv_def resolved_def lf_unresolved_def)

lemma life_inv_step: "life_step l l' \<Longrightarrow> life_inv l \<Longrightarrow> life_inv l'"
  unfolding life_inv_def
  using lease_inv_step duty_inv_step effect_inv_step attempt_inv_step quarantine_inv_step
    checkpoint_inv_step by blast

lemma life_inv_steps: "life_step\<^sup>*\<^sup>* l l' \<Longrightarrow> life_inv l \<Longrightarrow> life_inv l'"
  by (induction rule: rtranclp_induct) (auto intro: life_inv_step)

section \<open>What never changes, and what only grows\<close>

lemma life_step_gen_mono: "life_step l l' \<Longrightarrow> lf_gen l \<le> lf_gen l'"
  by (induction rule: life_step.induct) auto

lemma life_steps_gen_mono: "life_step\<^sup>*\<^sup>* l l' \<Longrightarrow> lf_gen l \<le> lf_gen l'"
  by (induction rule: rtranclp_induct) (auto dest: life_step_gen_mono)

text \<open>Completed and failed are final: no step leaves them.\<close>

lemma life_step_final: "life_step l l' \<Longrightarrow> lease_inv l \<Longrightarrow> lf_state l \<notin> {Completed, Failed}"
  by (induction rule: life_step.induct) (auto simp: active_state_def lease_inv_def)

text \<open>A step that installs a new holder raises the generation by exactly one.\<close>

lemma life_step_new_attempt:
  "life_step l l' \<Longrightarrow> lf_attempt l' \<noteq> lf_attempt l \<Longrightarrow> lf_attempt l' \<noteq> None \<Longrightarrow>
   lf_gen l' = lf_gen l + 1 \<and> lf_holder l = None"
  by (induction rule: life_step.induct) auto

lemma life_step_checkpoints_grow:
  "life_step l l' \<Longrightarrow> set (lf_checkpoints l) \<subseteq> set (lf_checkpoints l') \<and> set (lf_recs l) \<subseteq> set (lf_recs l')"
  by (induction rule: life_step.induct) auto

end
