(* ===== verification/Pool_Refinement.thy ===== *)
theory Pool_Refinement
  imports Task_Lifecycle
begin

text \<open>
  The store refines the task lifecycle. \<open>life_of\<close> abstracts a row of the task table, together
  with the rows of the other tables that refer to it, to a state of \<open>Task_Lifecycle\<close>;
  \<open>step_ok\<close> says that a change of the database keeps the structural invariant of the tables
  and moves every task by lifecycle steps. It is proved for each kind of change the store's
  statements make, and then for every operation.
\<close>

section \<open>Abstraction\<close>

definition life_of :: "pool_db \<Rightarrow> task_row \<Rightarrow> life" where
  "life_of db t =
     \<lparr>lf_state = t_state t, lf_fenced = t_fencing_required t, lf_holder = t_leased_by t,
      lf_token = t_lease_token t, lf_expires = t_lease_expires_at t, lf_attempt = t_attempt_id t,
      lf_gen = t_lease_generation t, lf_count = t_attempt_count t, lf_max = t_max_attempts t,
      lf_builder = t_builder_worker_id t, lf_validator = t_validator_worker_id t,
      lf_produced = t_produced_sha t, lf_reason = t_blocked_reason t,
      lf_attempts = map (\<lambda>a. (a_attempt_id a, a_lease_generation a, a_ended_at a = None))
                      (filter (\<lambda>a. a_task_id a = t_task_id t) (task_attempts db)),
      lf_checkpoints = filter (\<lambda>c. c_task_id c = t_task_id t) (task_checkpoints db),
      lf_recs = filter (\<lambda>e. e_task_id e = t_task_id t) (effect_reconciliations db),
      lf_quarantined = length (filter (\<lambda>q. q_task_id q = t_task_id t) (quarantine db))\<rparr>"

definition task_life :: "pool_db \<Rightarrow> string \<Rightarrow> life option" where
  "task_life db tid = map_option (life_of db) (find_task tid db)"

text \<open>A task that exists keeps existing; a new task begins in an initial state.\<close>

fun evolves :: "life option \<Rightarrow> life option \<Rightarrow> bool" where
  "evolves (Some l) (Some l') \<longleftrightarrow> life_step\<^sup>*\<^sup>* l l'"
| "evolves (Some l) None \<longleftrightarrow> False"
| "evolves None (Some l') \<longleftrightarrow> (\<exists>l0. life_init l0 \<and> life_step\<^sup>*\<^sup>* l0 l')"
| "evolves None None \<longleftrightarrow> True"

definition life_refines :: "pool_db \<Rightarrow> pool_db \<Rightarrow> bool" where
  "life_refines db db' \<longleftrightarrow> (\<forall>tid. evolves (task_life db tid) (task_life db' tid))"

section \<open>The structural invariant of the tables\<close>

definition tables_wf :: "pool_db \<Rightarrow> bool" where
  "tables_wf db \<longleftrightarrow>
     distinct (map t_task_id (tasks db)) \<and>
     distinct (map t_idempotency_key (tasks db)) \<and>
     distinct (map a_attempt_id (task_attempts db)) \<and>
     a_task_id ` set (task_attempts db) \<subseteq> t_task_id ` set (tasks db) \<and>
     c_task_id ` set (task_checkpoints db) \<subseteq> t_task_id ` set (tasks db) \<and>
     e_task_id ` set (effect_reconciliations db) \<subseteq> t_task_id ` set (tasks db) \<and>
     q_task_id ` set (quarantine db) \<subseteq> t_task_id ` set (tasks db) \<and>
     [] \<notin> a_attempt_id ` set (task_attempts db) \<and>
     idx_worker_active (tasks db) \<and> idx_workspace_active (tasks db)"

definition pool_ok :: "pool_db \<Rightarrow> bool" where
  "pool_ok db \<longleftrightarrow> tables_wf db \<and> (\<forall>t\<in>set (tasks db). life_inv (life_of db t))"

definition step_ok :: "pool_db \<Rightarrow> pool_db \<Rightarrow> bool" where
  "step_ok db db' \<longleftrightarrow> (pool_ok db \<longrightarrow> tables_wf db' \<and> life_refines db db')"

section \<open>Reading the abstraction\<close>

lemma life_of_simps [simp]:
  "lf_state (life_of db t) = t_state t" "lf_fenced (life_of db t) = t_fencing_required t"
  "lf_holder (life_of db t) = t_leased_by t" "lf_token (life_of db t) = t_lease_token t"
  "lf_expires (life_of db t) = t_lease_expires_at t" "lf_attempt (life_of db t) = t_attempt_id t"
  "lf_gen (life_of db t) = t_lease_generation t" "lf_count (life_of db t) = t_attempt_count t"
  "lf_max (life_of db t) = t_max_attempts t" "lf_builder (life_of db t) = t_builder_worker_id t"
  "lf_validator (life_of db t) = t_validator_worker_id t" "lf_produced (life_of db t) = t_produced_sha t"
  "lf_reason (life_of db t) = t_blocked_reason t"
  "lf_checkpoints (life_of db t) = filter (\<lambda>c. c_task_id c = t_task_id t) (task_checkpoints db)"
  "lf_recs (life_of db t) = filter (\<lambda>e. e_task_id e = t_task_id t) (effect_reconciliations db)"
  by (simp_all add: life_of_def)

lemma active_state_iff: "active_state (t_state t) \<longleftrightarrow> is_active t"
  by (auto simp: active_state_def is_active_def ACTIVE_def)

lemma lf_reconciled_iff: "c_task_id c = t_task_id t \<Longrightarrow> lf_reconciled (life_of db t) c \<longleftrightarrow> reconciled db c"
  by (auto simp: lf_reconciled_def reconciled_def list_ex_iff)

lemma lf_superseded_iff: "c_task_id c = t_task_id t \<Longrightarrow> lf_superseded (life_of db t) c \<longleftrightarrow> superseded db c"
  by (auto simp: lf_superseded_def superseded_def list_ex_iff)

lemma lf_open_effect_iff:
  "c_task_id c = t_task_id t \<Longrightarrow> lf_open_effect (life_of db t) c \<longleftrightarrow> unresolved_checkpoint db c"
  by (auto simp: lf_open_effect_def unresolved_checkpoint_def lf_reconciled_iff lf_superseded_iff)

lemma lf_unresolved_iff: "lf_unresolved (life_of db t) \<longleftrightarrow> has_unresolved_effect db (t_task_id t)"
  by (auto simp: lf_unresolved_def has_unresolved_effect_def list_ex_iff lf_open_effect_iff)

lemma resolved_iff:
  "resolved (life_of db t) \<longleftrightarrow> \<not> (t_fencing_required t \<and> has_unresolved_effect db (t_task_id t))"
  by (simp add: resolved_def lf_unresolved_iff)

section \<open>Composition\<close>

lemma task_life_Some:
  "tables_wf db \<Longrightarrow> task_life db tid = Some l \<longleftrightarrow> (\<exists>t\<in>set (tasks db). t_task_id t = tid \<and> l = life_of db t)"
  by (auto simp: task_life_def tables_wf_def tasks_tbl.get_iff)

lemma evolves_refl [simp]: "evolves x x"
  by (cases x) auto

lemma evolves_trans: "evolves x y \<Longrightarrow> evolves y z \<Longrightarrow> evolves x z"
  by (cases x; cases y; cases z) (auto intro: rtranclp_trans)

lemma evolves_inv: "evolves x (Some l') \<Longrightarrow> (\<And>l. x = Some l \<Longrightarrow> life_inv l) \<Longrightarrow> life_inv l'"
  by (cases x) (auto intro: life_inv_init life_inv_steps)

lemma life_refines_refl [simp]: "life_refines db db"
  by (simp add: life_refines_def)

lemma life_refines_trans: "life_refines a b \<Longrightarrow> life_refines b c \<Longrightarrow> life_refines a c"
  unfolding life_refines_def by (blast intro: evolves_trans)

lemma pool_ok_refines:
  assumes ok: "pool_ok db" and wf: "tables_wf db'" and ref: "life_refines db db'"
  shows "pool_ok db'"
  unfolding pool_ok_def
proof (intro conjI ballI wf)
  fix t assume "t \<in> set (tasks db')"
  then have t: "task_life db' (t_task_id t) = Some (life_of db' t)"
    by (auto simp: task_life_Some wf)
  from ref have "evolves (task_life db (t_task_id t)) (Some (life_of db' t))"
    by (simp add: life_refines_def flip: t)
  then show "life_inv (life_of db' t)"
    by (rule evolves_inv) (use ok in \<open>auto simp: task_life_Some pool_ok_def\<close>)
qed

lemma step_ok_pool_ok: "step_ok db db' \<Longrightarrow> pool_ok db \<Longrightarrow> pool_ok db'"
  by (auto simp: step_ok_def intro: pool_ok_refines)

lemma step_ok_refl [simp]: "step_ok db db"
  by (simp add: step_ok_def pool_ok_def)

lemma step_ok_trans: "step_ok a b \<Longrightarrow> step_ok b c \<Longrightarrow> step_ok a c"
  unfolding step_ok_def by (meson pool_ok_refines life_refines_trans)

lemma step_okI: "(pool_ok db \<Longrightarrow> tables_wf db' \<and> life_refines db db') \<Longrightarrow> step_ok db db'"
  by (simp add: step_ok_def)

text \<open>One task moves by a lifecycle step and every other task keeps its life.\<close>

lemma life_refines_one:
  assumes "task_life db tid = Some l" and "task_life db' tid = Some l'" and "life_step l l'"
    and "\<And>k. k \<noteq> tid \<Longrightarrow> task_life db' k = task_life db k"
  shows "life_refines db db'"
  unfolding life_refines_def
proof (intro allI)
  fix k
  show "evolves (task_life db k) (task_life db' k)"
    using assms by (cases "k = tid") auto
qed

section \<open>Changes of the tables\<close>

text \<open>The rows that refer to a task; its life depends on its row and on these only.\<close>

definition refs_of :: "string \<Rightarrow> pool_db \<Rightarrow>
    attempt_row list \<times> checkpoint_row list \<times> reconciliation_row list \<times> quarantine_row list" where
  "refs_of k db =
     (filter (\<lambda>a. a_task_id a = k) (task_attempts db), filter (\<lambda>c. c_task_id c = k) (task_checkpoints db),
      filter (\<lambda>e. e_task_id e = k) (effect_reconciliations db), filter (\<lambda>q. q_task_id q = k) (quarantine db))"

definition keeps_identity :: "(task_row \<Rightarrow> task_row) \<Rightarrow> bool" where
  "keeps_identity f \<longleftrightarrow> (\<forall>t. t_task_id (f t) = t_task_id t \<and> t_idempotency_key (f t) = t_idempotency_key t)"

definition releasing :: "(task_row \<Rightarrow> task_row) \<Rightarrow> bool" where
  "releasing f \<longleftrightarrow> keeps_identity f \<and>
     (\<forall>t. t_fencing_required (f t) = t_fencing_required t \<and> t_lease_generation (f t) = t_lease_generation t \<and>
          t_attempt_count (f t) = t_attempt_count t \<and> t_max_attempts (f t) = t_max_attempts t \<and>
          t_builder_worker_id (f t) = t_builder_worker_id t \<and>
          t_validator_worker_id (f t) = t_validator_worker_id t \<and>
          t_leased_by (f t) = None \<and> t_lease_token (f t) = None \<and> t_lease_expires_at (f t) = None \<and>
          t_attempt_id (f t) = None)"

lemma life_of_refs: "refs_of (t_task_id t) d = refs_of (t_task_id t) db \<Longrightarrow> life_of d t = life_of db t"
  by (simp add: refs_of_def life_of_def)

lemma task_life_put_other:
  assumes "keeps_identity f" and "tasks d = tasks db" and "refs_of k d = refs_of k db" and "k \<noteq> tid"
  shows "task_life (put_task tid f d) k = task_life db k"
proof -
  have "find_task k (put_task tid f d) = find_task k db"
    using assms(1,2,4) by (simp add: keeps_identity_def tasks_tbl.get_upd) (simp add: find_task_def)
  moreover have "life_of (put_task tid f d) t = life_of db t" if "find_task k db = Some t" for t
    using assms(3) tasks_tbl.get_key [OF that] by (intro life_of_refs) (simp add: refs_of_def)
  ultimately show ?thesis by (cases "find_task k db") (simp_all add: task_life_def)
qed

lemma task_life_put_same:
  assumes "keeps_identity f" and "tasks d = tasks db" and "find_task tid db = Some row"
  shows "task_life (put_task tid f d) tid = Some (life_of (put_task tid f d) (f row))"
proof -
  have "find_task tid d = Some row" using assms(2,3) by (simp add: find_task_def)
  with assms(1) show ?thesis by (simp add: task_life_def keeps_identity_def tasks_tbl.get_upd)
qed

lemma wf_put_task:
  assumes "tables_wf d" and "keeps_identity f"
    and "idx_worker_active (tasks (put_task tid f d))" "idx_workspace_active (tasks (put_task tid f d))"
  shows "tables_wf (put_task tid f d)"
proof -
  have ids: "map t_task_id (tbl_upd t_task_id tid f (tasks d)) = map t_task_id (tasks d)"
    and keys: "map t_idempotency_key (tbl_upd t_task_id tid f (tasks d)) = map t_idempotency_key (tasks d)"
    by (rule map_tbl_upd_cong; use assms(2) in \<open>simp add: keeps_identity_def\<close>)+
  have "t_task_id ` set (tasks (put_task tid f d)) = t_task_id ` set (tasks d)"
    using arg_cong [OF ids, of set] by (simp del: set_tbl_upd)
  with assms ids keys show ?thesis by (simp add: tables_wf_def del: set_tbl_upd)
qed

lemma wf_put_attempt:
  assumes "tables_wf d" and keep: "\<And>a. a_attempt_id (g a) = a_attempt_id a \<and> a_task_id (g a) = a_task_id a"
  shows "tables_wf (put_attempt x g d)"
proof -
  have ids: "map a_attempt_id (tbl_upd a_attempt_id x g (task_attempts d)) = map a_attempt_id (task_attempts d)"
    and ts: "map a_task_id (tbl_upd a_attempt_id x g (task_attempts d)) = map a_task_id (task_attempts d)"
    by (rule map_tbl_upd_cong; use keep in simp)+
  have "a_attempt_id ` set (task_attempts (put_attempt x g d)) = a_attempt_id ` set (task_attempts d)"
    "a_task_id ` set (task_attempts (put_attempt x g d)) = a_task_id ` set (task_attempts d)"
    using arg_cong [OF ids, of set] arg_cong [OF ts, of set] by (simp_all del: set_tbl_upd)
  with assms(1) ids show ?thesis by (simp add: tables_wf_def del: set_tbl_upd)
qed

lemma do_quarantine_simps [simp]:
  "workers (do_quarantine row r st db) = workers db" "tasks (do_quarantine row r st db) = tasks db"
  "task_attempts (do_quarantine row r st db) = task_attempts db"
  "task_checkpoints (do_quarantine row r st db) = task_checkpoints db"
  "effect_reconciliations (do_quarantine row r st db) = effect_reconciliations db"
  "repository_lanes (do_quarantine row r st db) = repository_lanes db"
  "affinity (do_quarantine row r st db) = affinity db" "pool_control (do_quarantine row r st db) = pool_control db"
  by (simp_all add: do_quarantine_def)

lemma wf_do_quarantine: "tables_wf db \<Longrightarrow> row \<in> set (tasks db) \<Longrightarrow> tables_wf (do_quarantine row r st db)"
  by (auto simp: tables_wf_def do_quarantine_def)

lemma end_attempt_simps [simp]:
  "workers (end_attempt row st r db) = workers db" "tasks (end_attempt row st r db) = tasks db"
  "task_checkpoints (end_attempt row st r db) = task_checkpoints db"
  "effect_reconciliations (end_attempt row st r db) = effect_reconciliations db"
  "quarantine (end_attempt row st r db) = quarantine db"
  "repository_lanes (end_attempt row st r db) = repository_lanes db"
  "affinity (end_attempt row st r db) = affinity db" "pool_control (end_attempt row st r db) = pool_control db"
  by (simp_all add: end_attempt_def split: option.splits)

lemma wf_end_attempt: "tables_wf db \<Longrightarrow> tables_wf (end_attempt row st r db)"
  by (auto simp: end_attempt_def split: option.splits intro!: wf_put_attempt)

text \<open>The attempt a task names belongs to the task, and its id is not empty.\<close>

lemma attempt_owner:
  assumes "pool_ok db" "row \<in> set (tasks db)" "t_attempt_id row = Some x"
  shows "x \<noteq> []" and "\<And>a. a \<in> set (task_attempts db) \<Longrightarrow> a_attempt_id a = x \<Longrightarrow> a_task_id a = t_task_id row"
proof -
  have "(x, t_lease_generation row, True) \<in> set (lf_attempts (life_of db row))"
    using assms by (auto simp: pool_ok_def life_inv_def attempt_inv_def)
  then obtain b where b: "b \<in> set (task_attempts db)" "a_attempt_id b = x" "a_task_id b = t_task_id row"
    by (auto simp: life_of_def)
  then show "x \<noteq> []" using assms(1) by (metis imageI pool_ok_def tables_wf_def)
  show "a_task_id a = t_task_id row" if "a \<in> set (task_attempts db)" "a_attempt_id a = x" for a
    using that b assms(1) by (metis distinct_map inj_onD pool_ok_def tables_wf_def)
qed

lemma filter_map_tbl_upd:
  "(\<And>r. P (f r) = P r) \<Longrightarrow> filter P (tbl_upd key k f rs) = tbl_upd key k f (filter P rs)"
  by (induction rs) (auto simp: tbl_upd_def)

lemma refs_put_attempt_other:
  assumes "\<And>a. a \<in> set (task_attempts db) \<Longrightarrow> a_attempt_id a = x \<Longrightarrow> a_task_id a \<noteq> k"
    and "\<And>a. a_task_id (g a) = a_task_id a"
  shows "refs_of k (put_attempt x g db) = refs_of k db"
  using filter_tbl_upd_other [of "task_attempts db" a_attempt_id x "\<lambda>a. a_task_id a = k" g] assms
  by (simp add: refs_of_def)

lemma refs_end_attempt_other:
  assumes "pool_ok db" "row \<in> set (tasks db)" "k \<noteq> t_task_id row" "task_attempts d = task_attempts db"
  shows "refs_of k (end_attempt row st r d) = refs_of k d"
proof (cases "t_attempt_id row")
  case (Some x)
  have "refs_of k (put_attempt x (\<lambda>a. a\<lparr>a_ended_at := coalesce (a_ended_at a) st,
      a_end_reason := coalesce (a_end_reason a) r\<rparr>) d) = refs_of k d"
    using attempt_owner [OF assms(1,2) Some] assms(3,4) by (intro refs_put_attempt_other) auto
  with Some show ?thesis by (simp add: end_attempt_def)
qed (simp add: end_attempt_def)

lemma attempts_closed:
  assumes "pool_ok db" "row \<in> set (tasks db)" "task_attempts d = task_attempts db"
  shows "map (\<lambda>a. (a_attempt_id a, a_lease_generation a, a_ended_at a = None))
           (filter (\<lambda>a. a_task_id a = k) (task_attempts (end_attempt row st r d))) =
         map (\<lambda>(a, g, b). (a, g, b \<and> t_attempt_id row \<noteq> Some a))
           (map (\<lambda>a. (a_attempt_id a, a_lease_generation a, a_ended_at a = None))
              (filter (\<lambda>a. a_task_id a = k) (task_attempts db)))"
proof (cases "t_attempt_id row")
  case (Some x)
  then show ?thesis
    using attempt_owner(1) [OF assms(1,2) Some] assms(3)
    by (simp add: end_attempt_def filter_map_tbl_upd)
      (auto simp: tbl_upd_def coalesce_def split: option.splits)
qed (simp add: end_attempt_def assms(3))

lemma release_step_ok:
  assumes upd: "sql_update_task tid f (end_attempt row st r (if q then do_quarantine row qr qs db else db)) = Inr db'"
    and row: "find_task tid db = Some row" and f: "releasing f"
    and step: "pool_ok db \<Longrightarrow> life_step (life_of db row)
      (released (t_state (f row)) (t_produced_sha (f row)) (t_blocked_reason (f row)) (if q then 1 else 0)
         (life_of db row))"
  shows "step_ok db db'"
proof (rule step_okI)
  assume ok: "pool_ok db"
  define d1 where "d1 = (if q then do_quarantine row qr qs db else db)"
  define d where "d = end_attempt row st r d1"
  have mem: "row \<in> set (tasks db)" and tid: "t_task_id row = tid"
    using tasks_tbl.get_Some [OF row] by auto
  have db': "db' = put_task tid f d" and idx: "idx_worker_active (tasks db')" "idx_workspace_active (tasks db')"
    using sql_update_task_Inr [OF upd] unfolding d_def d1_def by blast+
  have id: "keeps_identity f" using f by (simp add: releasing_def)
  have d1: "tables_wf d1" "tasks d1 = tasks db" "task_attempts d1 = task_attempts db"
    using ok mem by (auto simp: d1_def pool_ok_def wf_do_quarantine)
  have d: "tasks d = tasks db" by (simp add: d_def d1)
  have "tables_wf d" by (simp add: d_def d1 wf_end_attempt)
  then have wf: "tables_wf db'"
    using idx wf_put_task [OF _ id, of d tid] by (simp only: db')
  have other: "refs_of k d = refs_of k db" if "k \<noteq> tid" for k
  proof -
    have "refs_of k d = refs_of k d1"
      unfolding d_def by (rule refs_end_attempt_other [OF ok mem _ d1(3)]) (use that tid in simp)
    also have "\<dots> = refs_of k db" using that tid by (simp add: d1_def refs_of_def do_quarantine_def)
    finally show ?thesis .
  qed
  have "life_of db' (f row) =
      released (t_state (f row)) (t_produced_sha (f row)) (t_blocked_reason (f row)) (if q then 1 else 0)
        (life_of db row)"
    using f attempts_closed [OF ok mem d1(3), of "t_task_id row" st r]
    by (simp add: life_of_def released_def releasing_def keeps_identity_def db' d_def d1_def do_quarantine_def)
  then have "life_step (life_of db row) (life_of db' (f row))"
    using step [OF ok] by simp
  then have "life_refines db db'"
    using task_life_put_same [OF id d row] task_life_put_other [OF id d other]
    by (intro life_refines_one [of db tid "life_of db row"]) (auto simp: task_life_def row db')
  with wf show "tables_wf db' \<and> life_refines db db'" by simp
qed

lemma update_step_ok:
  assumes upd: "sql_update_task tid f db = Inr db'" and row: "find_task tid db = Some row"
    and id: "keeps_identity f"
    and step: "pool_ok db \<Longrightarrow> life_step (life_of db row) (life_of (put_task tid f db) (f row))"
  shows "step_ok db db'"
proof (rule step_okI)
  assume ok: "pool_ok db"
  have db': "db' = put_task tid f db" and idx: "idx_worker_active (tasks db')" "idx_workspace_active (tasks db')"
    using sql_update_task_Inr [OF upd] by blast+
  have "tables_wf db'"
    using ok idx wf_put_task [OF _ id, of db tid] by (simp add: db' pool_ok_def del: put_task_simps)
  moreover have "life_refines db db'"
    using task_life_put_same [OF id refl row] task_life_put_other [OF id refl refl] step [OF ok]
    by (intro life_refines_one [of db tid "life_of db row"]) (auto simp: task_life_def row db')
  ultimately show "tables_wf db' \<and> life_refines db db'" by simp
qed

text \<open>A change that no life depends on.\<close>

lemma frame_step_ok:
  assumes "tasks db' = tasks db" "task_checkpoints db' = task_checkpoints db"
    "effect_reconciliations db' = effect_reconciliations db" "quarantine db' = quarantine db"
    "map a_attempt_id (task_attempts db') = map a_attempt_id (task_attempts db)"
    "map a_task_id (task_attempts db') = map a_task_id (task_attempts db)"
    "\<And>k. map (\<lambda>a. (a_attempt_id a, a_lease_generation a, a_ended_at a = None))
        (filter (\<lambda>a. a_task_id a = k) (task_attempts db')) =
      map (\<lambda>a. (a_attempt_id a, a_lease_generation a, a_ended_at a = None))
        (filter (\<lambda>a. a_task_id a = k) (task_attempts db))"
  shows "step_ok db db'"
proof (rule step_okI)
  assume "pool_ok db"
  have "a_task_id ` set (task_attempts db') = a_task_id ` set (task_attempts db)"
    "a_attempt_id ` set (task_attempts db') = a_attempt_id ` set (task_attempts db)"
    using arg_cong [OF assms(5), of set] arg_cong [OF assms(6), of set] by simp_all
  with \<open>pool_ok db\<close> assms(1-5) have "tables_wf db'" by (simp add: pool_ok_def tables_wf_def)
  moreover have "life_of db' = life_of db"
    using assms by (simp add: life_of_def fun_eq_iff)
  then have "task_life db' = task_life db"
    using assms(1) by (intro ext) (simp add: task_life_def find_task_def)
  then have "life_refines db db'" by (simp add: life_refines_def)
  ultimately show "tables_wf db' \<and> life_refines db db'" by simp
qed

lemma frame_tables_step_ok:
  assumes "tasks db' = tasks db" "task_checkpoints db' = task_checkpoints db"
    "effect_reconciliations db' = effect_reconciliations db" "quarantine db' = quarantine db"
    "task_attempts db' = task_attempts db"
  shows "step_ok db db'"
  by (rule frame_step_ok) (use assms in simp_all)

section \<open>Lease operations\<close>

lemma releasing_updates:
  "releasing (release_lease s ro e st)" "releasing (submit_update now sha c)"
  "releasing (complete_update now c)" "releasing (fail_update s now r c)" "releasing (block_update now r c)"
  by (simp_all add: releasing_def keeps_identity_def release_lease_def submit_update_def
      complete_update_def fail_update_def block_update_def)

lemma lease_check_Inr:
  assumes "lease_check now p allowed db = Inr row"
  shows "find_task (p_task_id p) db = Some row" "t_state row \<in> set allowed"
    "t_leased_by row = Some (p_worker_id p)" "t_lease_token row = Some (p_lease_token p)"
    "t_fencing_required row \<Longrightarrow> p_lease_generation p = Some (t_lease_generation row) \<and>
       p_attempt_id p = t_attempt_id row \<and> p_attempt_id p \<noteq> None"
    "p_lease_generation p = Some g \<Longrightarrow> t_lease_generation row = g"
    "p_attempt_id p = Some a \<Longrightarrow> t_attempt_id row = Some a"
    "\<exists>e. t_lease_expires_at row = Some e \<and> now < e"
  using assms by (auto simp: lease_check_def split: option.splits if_splits)

lemma tx_then_get_state: "tx_then_get tid f db = (res, db') \<Longrightarrow> db' = db \<or> f db = Inr db'"
  by (auto simp: tx_then_get_def split: sum.splits)

lemma renew_step_ok:
  assumes "renew_tx cfg now p c s db = Inr db'"
  shows "step_ok db db'"
proof -
  define f where "f = (\<lambda>t::task_row. t\<lparr>t_lease_expires_at := Some (now + seconds (int_or s (default_lease_seconds cfg))),
    t_correlation_id := c, t_updated_at := now\<rparr>)"
  from assms obtain row d where row: "lease_check now p ACTIVE db = Inr row"
    and d: "sql_update_task (p_task_id p) f db = Inr d"
    and db': "db' = (case t_attempt_id row of None \<Rightarrow> d
        | Some a \<Rightarrow> if a = [] then d
            else put_attempt a (\<lambda>x. x\<lparr>a_lease_expires_at := now + seconds (int_or s (default_lease_seconds cfg))\<rparr>) d)"
    by (auto simp: renew_tx_def Let_def f_def outcome_simps)
  note chk = lease_check_Inr [OF row]
  have "life_of (put_task (p_task_id p) f db) (f row) =
      (life_of db row)\<lparr>lf_expires := Some (now + seconds (int_or s (default_lease_seconds cfg)))\<rparr>"
    by (simp add: life_of_def f_def)
  then have "step_ok db d"
    by (intro update_step_ok [OF d chk(1)])
      (auto simp: keeps_identity_def f_def intro!: life_step.renew simp: chk)
  moreover have "step_ok d db'"
    unfolding db' by (rule frame_step_ok)
      (auto split: option.splits simp: map_tbl_upd_cong filter_map_tbl_upd)
  ultimately show ?thesis by (rule step_ok_trans)
qed

lemma start_step_ok:
  assumes "start_tx now p c db = Inr db'"
  shows "step_ok db db'"
proof -
  from assms obtain row where row: "lease_check now p [Leased] db = Inr row"
    and d: "sql_update_task (p_task_id p) (start_update now (p_worker_id p) c) db = Inr db'"
    by (auto simp: start_tx_def outcome_simps split: if_splits)
  note chk = lease_check_Inr [OF row]
  have "life_of (put_task (p_task_id p) (start_update now (p_worker_id p) c) db)
          (start_update now (p_worker_id p) c row) =
      (life_of db row)\<lparr>lf_state := Running, lf_builder := Some (p_worker_id p)\<rparr>"
    by (simp add: life_of_def start_update_def)
  then show ?thesis
    by (intro update_step_ok [OF d chk(1)])
      (use chk in \<open>auto simp: keeps_identity_def start_update_def intro!: life_step.start\<close>)
qed

lemma submit_step_ok:
  assumes "submit_tx now p sha c db = Inr db'" "SHA40 sha"
  shows "step_ok db db'"
proof -
  from assms(1) obtain row where row: "lease_check now p [Running] db = Inr row"
    and b: "t_builder_worker_id row = Some (p_worker_id p)" and res: "require_resolved_effects row db = Inr ()"
    and upd: "sql_update_task (p_task_id p) (submit_update now sha c)
      (end_attempt row now ''validation_handoff'' (if False then do_quarantine row [] now db else db)) = Inr db'"
    by (auto simp: submit_tx_def outcome_simps split: if_splits)
  note chk = lease_check_Inr [OF row]
  have "resolved (life_of db row)"
    using res by (auto simp: require_resolved_effects_def resolved_iff split: if_splits)
  then have "life_step (life_of db row)
      (released Validating (Some sha) (lf_reason (life_of db row)) 0 (life_of db row))"
    using chk b assms(2) by (intro life_step.submit) auto
  then show ?thesis
    by (intro release_step_ok [OF upd chk(1) releasing_updates(2)]) (simp add: submit_update_def)
qed

lemma complete_step_ok:
  assumes "complete_tx now p c db = Inr db'"
  shows "step_ok db db'"
proof -
  from assms obtain row where row: "lease_check now p [Validating] db = Inr row"
    and b: "t_builder_worker_id row \<noteq> Some (p_worker_id p)" "opt_text (t_produced_sha row) \<noteq> []"
    and res: "require_resolved_effects row db = Inr ()"
    and upd: "sql_update_task (p_task_id p) (complete_update now c)
      (end_attempt row now ''completed'' (if False then do_quarantine row [] now db else db)) = Inr db'"
    by (auto simp: complete_tx_def outcome_simps split: if_splits)
  note chk = lease_check_Inr [OF row]
  have "resolved (life_of db row)"
    using res by (auto simp: require_resolved_effects_def resolved_iff split: if_splits)
  then have "life_step (life_of db row)
      (released Completed (lf_produced (life_of db row)) (lf_reason (life_of db row)) 0 (life_of db row))"
    using chk b by (intro life_step.complete) (auto simp: opt_text_def split: option.splits)
  then show ?thesis
    by (intro release_step_ok [OF upd chk(1) releasing_updates(3)]) (simp add: complete_update_def)
qed

lemma requeue_state_life: "requeue_state t = back_to_queue (life_of db t)"
  by (simp add: requeue_state_def back_to_queue_def)

lemma require_resolved_iff: "require_resolved_effects row db = Inr () \<longleftrightarrow> resolved (life_of db row)"
  by (simp add: require_resolved_effects_def resolved_iff)

lemma active_allowed: "t_state row \<in> set ACTIVE \<longleftrightarrow> active_state (t_state row)"
  by (auto simp: active_state_def ACTIVE_def)

lemma fail_step_ok:
  assumes "fail_tx now p c r db = Inr db'"
  shows "step_ok db db'"
proof -
  define q where "q = (\<lambda>row::task_row. t_max_attempts row \<le> t_attempt_count row)"
  from assms obtain row where row: "lease_check now p ACTIVE db = Inr row"
    and res: "resolved (life_of db row)"
    and upd: "sql_update_task (p_task_id p) (fail_update (if q row then Failed else requeue_state row) now r c)
      (end_attempt row now ''failed_attempt'' (if q row then do_quarantine row r now db else db)) = Inr db'"
    by (auto simp: fail_tx_def q_def outcome_simps require_resolved_iff split: if_splits)
  note chk = lease_check_Inr [OF row]
  show ?thesis
    by (rule release_step_ok [OF upd chk(1) releasing_updates(4)])
      (use chk(2) res life_step.retry [of "life_of db row" "t_blocked_reason row"]
          life_step.give_up [of "life_of db row" "t_blocked_reason row"]
        in \<open>auto simp: fail_update_def q_def requeue_state_life [of _ db] active_allowed\<close>)
qed

lemma block_step_ok:
  assumes "block_tx now p c r db = Inr db'"
  shows "step_ok db db'"
proof -
  from assms obtain row where row: "lease_check now p ACTIVE db = Inr row"
    and upd: "sql_update_task (p_task_id p)
      (block_update now (if t_fencing_required row \<and> has_unresolved_effect db (p_task_id p)
                         then effect_reason else r) c)
      (end_attempt row now ''blocked'' (if False then do_quarantine row [] now db else db)) = Inr db'"
    by (auto simp: block_tx_def Let_def outcome_simps split: if_splits)
  note chk = lease_check_Inr [OF row]
  have "t_task_id row = p_task_id p" using tasks_tbl.get_key [OF chk(1)] .
  then show ?thesis
    by (intro release_step_ok [OF upd chk(1) releasing_updates(5)])
      (use chk(2) in \<open>auto simp: block_update_def active_allowed resolved_iff
          intro!: life_step.block [of "life_of db row", simplified]\<close>)
qed

section \<open>Recovery\<close>

text \<open>The two recoveries walk over the rows read before the loop, each task at most once.\<close>

lemma foldE_rows_step_ok:
  assumes "foldE f rows s = Inr s'" and "distinct (map t_task_id rows)"
    and "\<And>r. r \<in> set rows \<Longrightarrow> find_task (t_task_id r) (db_of s) = Some r"
    and "\<And>r s s'. r \<in> set rows \<Longrightarrow> find_task (t_task_id r) (db_of s) = Some r \<Longrightarrow> f r s = Inr s' \<Longrightarrow>
      step_ok (db_of s) (db_of s') \<and> (\<forall>k. k \<noteq> t_task_id r \<longrightarrow> find_task k (db_of s') = find_task k (db_of s))"
  shows "step_ok (db_of s) (db_of s')"
  using assms
proof (induction rows arbitrary: s)
  case Nil
  then show ?case by simp
next
  case (Cons r rows)
  from Cons.prems(1) obtain s1 where s1: "f r s = Inr s1" and rest: "foldE f rows s1 = Inr s'"
    by (auto simp: outcome_simps)
  have one: "step_ok (db_of s) (db_of s1)"
    and other: "\<And>k. k \<noteq> t_task_id r \<Longrightarrow> find_task k (db_of s1) = find_task k (db_of s)"
    using Cons.prems(4) [OF _ _ s1] Cons.prems(3) by simp_all
  have "find_task (t_task_id x) (db_of s1) = Some x" if "x \<in> set rows" for x
  proof -
    have "t_task_id x \<noteq> t_task_id r" using that Cons.prems(2) by (auto simp: image_iff)
    then show ?thesis using other [of "t_task_id x"] Cons.prems(3) [of x] that by simp
  qed
  then have "step_ok (db_of s1) (db_of s')"
    by (intro Cons.IH [OF rest]) (use Cons.prems(2) in simp, simp, rule Cons.prems(4), simp_all)
  with one show ?case by (rule step_ok_trans)
qed

lemma find_release_other:
  assumes "sql_update_task tid f (end_attempt row st e (if q then do_quarantine row r st' db else db)) = Inr db'"
    and "keeps_identity f" "k \<noteq> tid"
  shows "find_task k db' = find_task k db"
proof -
  have "find_task k (end_attempt row st e (if q then do_quarantine row r st' db else db)) = find_task k db"
    by (simp add: find_task_def)
  with assms sql_update_task_Inr [OF assms(1)] show ?thesis
    by (auto simp: keeps_identity_def tasks_tbl.get_upd)
qed

lemma recover_row_step_ok:
  assumes "recover_row now row db = Inr db'" and row: "find_task (t_task_id row) db = Some row"
    and act: "is_active row"
  shows "step_ok db db' \<and> (\<forall>k. k \<noteq> t_task_id row \<longrightarrow> find_task k db' = find_task k db)"
proof -
  define u where "u \<longleftrightarrow> t_fencing_required row \<and> has_unresolved_effect db (t_task_id row)"
  define q where "q \<longleftrightarrow> \<not> u \<and> t_max_attempts row \<le> t_attempt_count row"
  define s where "s = (if u then Blocked else if q then Failed else requeue_state row)"
  define e where "e = (if u then effect_reason else if q then ''lease_expired_max_attempts'' else ''lease_expired_recovered'')"
  define r where "r = (if u then Some effect_reason else None)"
  have upd: "sql_update_task (t_task_id row) (release_lease s r e now)
      (end_attempt row now e (if q then do_quarantine row ''lease_expired_max_attempts'' now db else db)) = Inr db'"
    using assms(1) by (auto simp: recover_row_def Let_def s_def e_def r_def q_def u_def split: if_splits)
  have "life_step (life_of db row) (released s (t_produced_sha row) r (if q then 1 else 0) (life_of db row))"
    using act life_step.block [of "life_of db row" effect_reason]
      life_step.retry [of "life_of db row" None] life_step.give_up [of "life_of db row" None]
    by (auto simp: s_def r_def q_def u_def resolved_iff active_state_iff requeue_state_life [of row db])
  then have "step_ok db db'"
    by (intro release_step_ok [OF upd row releasing_updates(1)]) (simp add: release_lease_def)
  with find_release_other [OF upd] show ?thesis
    using releasing_updates(1) by (simp add: releasing_def)
qed

lemma stall_row_step_ok:
  assumes "stall_row cfg now ws row (n, db) = Inr (n', db')" and row: "find_task (t_task_id row) db = Some row"
    and act: "is_active row"
  shows "step_ok db db' \<and> (\<forall>k. k \<noteq> t_task_id row \<longrightarrow> find_task k db' = find_task k db)"
proof -
  define u where "u \<longleftrightarrow> t_fencing_required row \<and> has_unresolved_effect db (t_task_id row)"
  define q where "q \<longleftrightarrow> \<not> u \<and> t_max_attempts row \<le> t_attempt_count row"
  define alt where "alt \<longleftrightarrow> list_ex (\<lambda>w. worker_is_alternative cfg now row w db) ws"
  define s where "s = (if u then Blocked else if q then Failed else if alt then requeue_state row else Blocked)"
  define e where "e = (if u then effect_reason else if q then ''material_progress_timeout_max_attempts''
    else if alt then ''material_progress_timeout_rerouted'' else ''material_progress_timeout_no_alternative'')"
  define r where "r = (if u then Some effect_reason else if q \<or> alt then None
    else Some ''material_progress_timeout_no_alternative'')"
  have upd: "sql_update_task (t_task_id row) (release_lease s r e now)
      (end_attempt row now e
        (if q then do_quarantine row ''material_progress_timeout_max_attempts'' now db else db)) = Inr db'"
    using assms(1) by (auto simp: stall_row_def Let_def s_def e_def r_def q_def u_def alt_def outcome_simps
        split: if_splits)
  have "life_step (life_of db row) (released s (t_produced_sha row) r (if q then 1 else 0) (life_of db row))"
    using act life_step.block [of "life_of db row" effect_reason]
      life_step.block [of "life_of db row" "''material_progress_timeout_no_alternative''"]
      life_step.retry [of "life_of db row" None] life_step.give_up [of "life_of db row" None]
    by (auto simp: s_def r_def q_def u_def resolved_iff active_state_iff requeue_state_life [of row db])
  then have "step_ok db db'"
    by (intro release_step_ok [OF upd row releasing_updates(1)]) (simp add: release_lease_def)
  with find_release_other [OF upd] show ?thesis
    using releasing_updates(1) by (simp add: releasing_def)
qed

lemma find_task_filter:
  "tables_wf db \<Longrightarrow> r \<in> set (filter P (tasks db)) \<Longrightarrow> find_task (t_task_id r) db = Some r"
  by (auto simp: tables_wf_def tasks_tbl.get_iff)

lemma distinct_filter_ids: "tables_wf db \<Longrightarrow> distinct (map t_task_id (filter P (tasks db)))"
  by (auto simp: tables_wf_def distinct_map intro: inj_on_subset)

lemma recover_step_ok:
  assumes "recover now db = Inr (n, db')"
  shows "step_ok db db'"
proof (rule step_okI)
  assume "pool_ok db"
  then have wf: "tables_wf db" by (simp add: pool_ok_def)
  from assms have f: "foldE (recover_row now) (expired_rows now db) db = Inr db'"
    by (auto simp: recover_def Let_def outcome_simps)
  have "step_ok (id db) (id db')"
  proof (rule foldE_rows_step_ok [OF f])
    fix r s s' assume "r \<in> set (expired_rows now db)"
      and "find_task (t_task_id r) (id s) = Some r" "recover_row now r s = Inr s'"
    then show "step_ok (id s) (id s') \<and> (\<forall>k. k \<noteq> t_task_id r \<longrightarrow> find_task k (id s') = find_task k (id s))"
      using recover_row_step_ok [of now r s s'] by (simp add: expired_rows_def)
  qed (use wf in \<open>auto simp: expired_rows_def intro: distinct_filter_ids find_task_filter\<close>)
  with \<open>pool_ok db\<close> show "tables_wf db' \<and> life_refines db db'" by (simp add: step_ok_def)
qed

lemma recover_stalled_step_ok:
  assumes "recover_stalled cfg now db = Inr (n, db')"
  shows "step_ok db db'"
proof (rule step_okI)
  assume "pool_ok db"
  then have wf: "tables_wf db" by (simp add: pool_ok_def)
  have "step_ok (snd (\<lparr>s_rerouted = 0, s_blocked = 0, s_failed = 0\<rparr>, db)) (snd (n, db'))"
  proof (rule foldE_rows_step_ok [OF assms [unfolded recover_stalled_def]])
    fix r s s' assume "r \<in> set (stalled_rows cfg now db)"
      and "find_task (t_task_id r) (snd s) = Some r" "stall_row cfg now (workers db) r s = Inr s'"
    then show "step_ok (snd s) (snd s') \<and> (\<forall>k. k \<noteq> t_task_id r \<longrightarrow> find_task k (snd s') = find_task k (snd s))"
      using stall_row_step_ok [of cfg now "workers db" r "fst s" "snd s" "fst s'" "snd s'"]
      by (simp add: stalled_rows_def)
  qed (use wf in \<open>auto simp: stalled_rows_def intro: distinct_filter_ids find_task_filter\<close>)
  with \<open>pool_ok db\<close> show "tables_wf db' \<and> life_refines db db'" by (simp add: step_ok_def)
qed

section \<open>Checkpoints, reconciliations, requeue\<close>

text \<open>A change of one task's row and of the rows that refer to it.\<close>

lemma change_step_ok:
  assumes row: "find_task tid db = Some row" and id: "keeps_identity f" and d: "tasks d = tasks db"
    and other: "\<And>k. k \<noteq> tid \<Longrightarrow> refs_of k d = refs_of k db"
    and wf: "pool_ok db \<Longrightarrow> tables_wf (put_task tid f d)"
    and step: "pool_ok db \<Longrightarrow> life_step (life_of db row) (life_of (put_task tid f d) (f row))"
  shows "step_ok db (put_task tid f d)"
proof (rule step_okI)
  assume ok: "pool_ok db"
  have "life_refines db (put_task tid f d)"
    using task_life_put_same [OF id d row] task_life_put_other [OF id d other] step [OF ok]
    by (intro life_refines_one [of db tid "life_of db row"]) (auto simp: task_life_def row)
  with wf [OF ok] show "tables_wf (put_task tid f d) \<and> life_refines db (put_task tid f d)" by simp
qed

lemma put_task_same [simp]: "put_task tid (\<lambda>t. t) db = db"
  by (simp add: put_task_def tbl_upd_def)

lemma keeps_identity_same [simp]: "keeps_identity (\<lambda>t. t)"
  by (simp add: keeps_identity_def)

lemma le_fold_max: "n \<le> fold max xs (n::int)" "x \<in> set xs \<Longrightarrow> x \<le> fold max xs (n::int)"
proof -
  show gen: "n \<le> fold max xs n" for xs and n :: int
  proof (induction xs arbitrary: n)
    case (Cons y ys)
    show ?case using Cons [of "max y n"] by simp
  qed simp
  show "x \<in> set xs \<Longrightarrow> x \<le> fold max xs (n::int)"
  proof (induction xs arbitrary: n)
    case (Cons y ys)
    then show ?case using gen [of "max y n" ys] by auto
  qed simp
qed

lemma last_sequence_bound:
  "c \<in> set (task_checkpoints db) \<Longrightarrow> c_task_id c = tid \<Longrightarrow> c_lease_generation c = gen \<Longrightarrow>
   c_sequence c \<le> last_sequence tid gen db"
  unfolding last_sequence_def by (rule le_fold_max) auto

lemma checkpoint_step_ok:
  assumes tx: "checkpoint_tx now p c db = Inr ((c', b), db')"
    and p: "c_task_id c = p_task_id p" "p_lease_generation p = Some (c_lease_generation c)"
    and safe: "opt_all SAFE_ID (c_effect_id c)"
  shows "step_ok db db'"
proof -
  from tx obtain row where row: "lease_check now p ACTIVE db = Inr row" and f: "t_fencing_required row"
    and cases: "db' = db \<or> (\<exists>db1. (c_effect_id c \<noteq> None \<longrightarrow> \<not> unresolved_unknown (c_task_id c) (c_effect_id c) db) \<and>
      c_sequence c = last_sequence (c_task_id c) (c_lease_generation c) db + 1 \<and>
      sql_insert_checkpoint c db = Inr db1 \<and>
      sql_update_task (c_task_id c) (checkpoint_update now (c_correlation_id c)) db1 = Inr db')"
    unfolding checkpoint_tx_def by (auto simp: outcome_simps split: if_splits option.splits)
  note chk = lease_check_Inr [OF row]
  from cases show ?thesis
  proof (elim disjE exE conjE)
    fix db1
    let ?f = "checkpoint_update now (c_correlation_id c)"
    assume unk: "c_effect_id c \<noteq> None \<longrightarrow> \<not> unresolved_unknown (c_task_id c) (c_effect_id c) db"
      and seq: "c_sequence c = last_sequence (c_task_id c) (c_lease_generation c) db + 1"
      and ins: "sql_insert_checkpoint c db = Inr db1"
      and upd: "sql_update_task (c_task_id c) ?f db1 = Inr db'"
    have id: "keeps_identity ?f" by (simp add: keeps_identity_def checkpoint_update_def)
    have d1: "db1 = db\<lparr>task_checkpoints := task_checkpoints db @ [c]\<rparr>"
      and cid: "c_task_id c \<in> t_task_id ` set (tasks db)"
      using sql_insert_checkpoint_Inr [OF ins] by blast+
    have db': "db' = put_task (p_task_id p) ?f db1" and idx: "idx_worker_active (tasks db')" "idx_workspace_active (tasks db')"
      using sql_update_task_Inr [OF upd] unfolding p(1) by blast+
    have key: "t_task_id row = p_task_id p" using tasks_tbl.get_key [OF chk(1)] .
    have life: "life_of db' (?f row) = (life_of db row)\<lparr>lf_checkpoints := lf_checkpoints (life_of db row) @ [c]\<rparr>"
      using key p(1) by (simp add: db' d1 life_of_def checkpoint_update_def)
    have rec: "lf_reconciled (life_of db row) x"
      if "x \<in> set (lf_checkpoints (life_of db row))" "c_effect_id c \<noteq> None" "c_effect_id x = c_effect_id c"
        "c_effect_state x = EffUnknown" for x
      using that unk key p(1) by (auto simp: unresolved_unknown_def list_ex_iff lf_reconciled_iff)
    have lt: "c_sequence x < c_sequence c"
      if "x \<in> set (lf_checkpoints (life_of db row))" "c_lease_generation x = t_lease_generation row" for x
      using that last_sequence_bound [of x db "c_task_id c" "c_lease_generation c"] seq key p(1) chk(6) [OF p(2)]
      by auto
    have step: "life_step (life_of db row) (life_of db' (?f row))"
      unfolding life using f chk(2,3) chk(6) [OF p(2)] rec lt safe
      by (intro life_step.checkpoint) (auto simp: active_allowed)
    have "step_ok db (put_task (p_task_id p) ?f db1)"
    proof (rule change_step_ok [OF chk(1) id])
      assume ok: "pool_ok db"
      have "tables_wf db1" using ok cid by (auto simp: pool_ok_def tables_wf_def d1)
      then show "tables_wf (put_task (p_task_id p) ?f db1)"
        using idx wf_put_task [OF _ id, of db1 "p_task_id p"] by (simp only: db')
    qed (use step p(1) in \<open>auto simp: d1 db' refs_of_def\<close>)
    then show ?thesis by (simp only: db')
  qed simp
qed

lemma reconcile_effect_step_ok:
  assumes "reconcile_effect_tx e db = Inr ((e', b), db')"
  shows "step_ok db db'"
proof -
  from assms obtain row where row: "find_task (e_task_id e) db = Some row"
    and cases: "db' = db \<or> t_fencing_required row \<and> t_state row = Blocked \<and> t_blocked_reason row = Some effect_reason \<and>
      sql_insert_reconciliation e db = Inr db'"
    unfolding reconcile_effect_tx_def by (auto simp: outcome_simps split: if_splits option.splits)
  from cases show ?thesis
  proof (elim disjE conjE)
    assume st: "t_fencing_required row" "t_state row = Blocked" "t_blocked_reason row = Some effect_reason"
      and ins: "sql_insert_reconciliation e db = Inr db'"
    have db': "db' = db\<lparr>effect_reconciliations := effect_reconciliations db @ [e]\<rparr>"
      and eid: "e_task_id e \<in> t_task_id ` set (tasks db)"
      using sql_insert_reconciliation_Inr [OF ins] by blast+
    have life: "life_of db' row = (life_of db row)\<lparr>lf_recs := lf_recs (life_of db row) @ [e]\<rparr>"
      using tasks_tbl.get_key [OF row] by (simp add: db' life_of_def)
    have step: "life_step (life_of db row) (life_of db' row)"
      unfolding life by (rule life_step.reconcile) (use st in simp_all)
    have "step_ok db (put_task (e_task_id e) (\<lambda>t. t) db')"
      by (rule change_step_ok [OF row])
        (use step eid in \<open>auto simp: db' refs_of_def pool_ok_def tables_wf_def\<close>)
    then show ?thesis by simp
  qed simp
qed

lemma requeue_step_ok:
  assumes "requeue_tx now tid c db = Inr db'"
  shows "step_ok db db'"
proof -
  from assms obtain row where row: "find_task tid db = Some row"
    and b: "t_state row = Blocked" "\<not> (t_fencing_required row \<and> has_unresolved_effect db tid)"
    and upd: "sql_update_task tid (requeue_update now c) db = Inr db'"
    by (auto simp: requeue_tx_def split: option.splits if_splits)
  have "life_of (put_task tid (requeue_update now c) db) (requeue_update now c row) =
      (life_of db row)\<lparr>lf_state := back_to_queue (life_of db row), lf_reason := None\<rparr>"
    by (simp add: life_of_def requeue_update_def requeue_state_def back_to_queue_def)
  then show ?thesis
    using b tasks_tbl.get_key [OF row]
    by (intro update_step_ok [OF upd row])
      (auto simp: keeps_identity_def requeue_update_def resolved_iff intro!: life_step.requeue)
qed

section \<open>Claims\<close>

lemma join_lanes_mem:
  "(t, r) \<in> set (join_lanes P db) \<longleftrightarrow> t \<in> set (tasks db) \<and> find_lane (t_repository t) db = Some r \<and> P t r"
  by (auto simp: join_lanes_def split: option.splits if_splits)

lemma select_builder_Some:
  assumes "select_builder w only f db = Some row"
  obtains r where "row \<in> set (tasks db)" "find_lane (t_repository row) db = Some r"
    "builder_eligible w only f db row r"
    "first_min builder_key (join_lanes (builder_eligible w only f db) db) = Some (row, r)"
proof -
  from assms obtain r where m: "first_min builder_key (join_lanes (builder_eligible w only f db) db) = Some (row, r)"
    by (auto simp: select_builder_def)
  with first_min_Some [OF m] that show ?thesis by (auto simp: join_lanes_mem)
qed

lemma select_validator_Some:
  assumes "select_validator w only f db = Some row"
  obtains r where "row \<in> set (tasks db)" "find_lane (t_repository row) db = Some r"
    "validator_eligible w only f db row"
    "first_min validator_key (join_lanes (\<lambda>t _. validator_eligible w only f db t) db) = Some (row, r)"
proof -
  from assms obtain r where
    m: "first_min validator_key (join_lanes (\<lambda>t _. validator_eligible w only f db t) db) = Some (row, r)"
    by (auto simp: select_validator_def)
  with first_min_Some [OF m] that show ?thesis by (auto simp: join_lanes_mem)
qed

definition new_attempt :: "timestamp \<Rightarrow> role \<Rightarrow> claim_request \<Rightarrow> int \<Rightarrow> task_row \<Rightarrow> attempt_row" where
  "new_attempt now role m ttl row =
     \<lparr>a_attempt_id = m_attempt_id m, a_task_id = t_task_id row,
      a_lease_generation = t_lease_generation row + 1, a_worker_id = m_worker_id m, a_role = role,
      a_lease_started_at = now, a_lease_expires_at = now + seconds ttl, a_ended_at = None,
      a_end_reason = None\<rparr>"

lemma grant_Inr:
  assumes "grant now role m ttl row db = Inr ((row', l), db')"
  defines "f \<equiv> claim_update now role m (now + seconds ttl)"
  shows "row' = f row"
    and "l = \<lparr>l_task_id = t_task_id row, l_lease_token = m_token m, l_worker_id = m_worker_id m,
       l_role = role, l_lease_expires_at = now + seconds ttl,
       l_lease_generation = t_lease_generation row + 1, l_attempt_id = m_attempt_id m\<rparr>"
    and "t_state row = (if role = Builder then Queued else Validating)" "t_leased_by row = None"
    and "db' = put_task (t_task_id row) f
       (put_lane (t_repository row) (claim_lane now role)
         (db\<lparr>task_attempts := task_attempts db @ [new_attempt now role m ttl row]\<rparr>))"
    and "m_attempt_id m \<notin> a_attempt_id ` set (task_attempts db)"
    and "idx_worker_active (tasks db')" "idx_workspace_active (tasks db')"
proof -
  from assms(1) obtain db1 where upd: "sql_update_task (t_task_id row) f db = Inr db1"
    and ins: "sql_insert_attempt (new_attempt now role m ttl row)
       (put_lane (t_repository row) (claim_lane now role) db1) = Inr db'"
    and a: "row' = f row"
      "l = \<lparr>l_task_id = t_task_id row, l_lease_token = m_token m, l_worker_id = m_worker_id m,
       l_role = role, l_lease_expires_at = now + seconds ttl,
       l_lease_generation = t_lease_generation row + 1, l_attempt_id = m_attempt_id m\<rparr>"
      "t_state row = (if role = Builder then Queued else Validating)" "t_leased_by row = None"
    by (auto simp: grant_def Let_def outcome_simps f_def claim_update_def new_attempt_def split: if_splits)
  note u = sql_update_task_Inr [OF upd] and i = sql_insert_attempt_Inr [OF ins]
  show "row' = f row"
    "l = \<lparr>l_task_id = t_task_id row, l_lease_token = m_token m, l_worker_id = m_worker_id m,
       l_role = role, l_lease_expires_at = now + seconds ttl,
       l_lease_generation = t_lease_generation row + 1, l_attempt_id = m_attempt_id m\<rparr>"
    "t_state row = (if role = Builder then Queued else Validating)" "t_leased_by row = None"
    using a by blast+
  show "db' = put_task (t_task_id row) f
       (put_lane (t_repository row) (claim_lane now role)
         (db\<lparr>task_attempts := task_attempts db @ [new_attempt now role m ttl row]\<rparr>))"
    using u i by (simp add: put_lane_def put_task_def)
  show "m_attempt_id m \<notin> a_attempt_id ` set (task_attempts db)"
    using u i by (simp add: new_attempt_def)
  have same: "tasks db' = tasks db1" using i by simp
  show "idx_worker_active (tasks db')" "idx_workspace_active (tasks db')"
    unfolding same using u by blast+
qed

lemma grant_step_ok:
  assumes g: "grant now role m ttl row db = Inr ((row', l), db')" and mem: "row \<in> set (tasks db)"
    and a: "m_attempt_id m \<noteq> []"
    and v: "role = Validator \<Longrightarrow> t_produced_sha row \<noteq> None \<and> t_builder_worker_id row \<noteq> Some (m_worker_id m)"
  shows "step_ok db db'"
proof (rule step_okI)
  assume ok: "pool_ok db"
  define f where "f = claim_update now role m (now + seconds ttl)"
  define d where "d = put_lane (t_repository row) (claim_lane now role)
     (db\<lparr>task_attempts := task_attempts db @ [new_attempt now role m ttl row]\<rparr>)"
  note g = grant_Inr [OF g, folded f_def]
  have db': "db' = put_task (t_task_id row) f d" using g(5) by (simp add: d_def)
  have id: "keeps_identity f" by (simp add: keeps_identity_def f_def claim_update_def)
  have row: "find_task (t_task_id row) db = Some row"
    using ok mem by (simp add: pool_ok_def tables_wf_def tasks_tbl.get_iff)
  have wf: "tables_wf d"
    using ok mem a g(6) by (auto simp: pool_ok_def tables_wf_def d_def new_attempt_def)
  have life: "life_of (put_task (t_task_id row) f d) (f row) =
      (granted (m_worker_id m) (m_token m) (now + seconds ttl) (m_attempt_id m) (life_of db row))
        \<lparr>lf_state := (if role = Builder then Leased else Validating),
         lf_validator := (if role = Validator then Some (m_worker_id m) else t_validator_worker_id row)\<rparr>"
    by (simp add: life_of_def d_def f_def claim_update_def granted_def new_attempt_def)
  have fresh: "m_attempt_id m \<notin> fst ` set (lf_attempts (life_of db row))"
    using g(6) by (auto simp: life_of_def)
  have step: "life_step (life_of db row) (life_of (put_task (t_task_id row) f d) (f row))"
  proof (cases role)
    case Builder
    then show ?thesis using life_step.grant_builder [OF _ _ a fresh] g(3,4)
      by (simp add: life) (simp add: life_of_def granted_def)
  next
    case Validator
    then show ?thesis using life_step.grant_validator [OF _ _ _ _ a fresh] g(3,4) v
      by (simp add: life) (simp add: life_of_def granted_def)
  qed
  have "step_ok db (put_task (t_task_id row) f d)"
    by (rule change_step_ok [OF row id])
      (use step wf wf_put_task [OF wf id] g(7,8) db' in \<open>auto simp: d_def refs_of_def new_attempt_def\<close>)
  with ok show "tables_wf db' \<and> life_refines db db'" by (simp add: db' step_ok_def)
qed

lemma select_task_Some:
  assumes "select_task role m db = Some row"
  shows "row \<in> set (tasks db)" "only_matches (m_only_task_id m) row" "t_fencing_required row = m_fencing_required m"
    and "role = Validator \<Longrightarrow> t_produced_sha row \<noteq> None \<and> t_builder_worker_id row \<noteq> Some (m_worker_id m)"
  using assms
  by (auto simp: select_task_def builder_eligible_def validator_eligible_def
      elim!: select_builder_Some select_validator_Some split: if_splits)

lemma claim_tx_Inr:
  assumes "claim_tx cfg now role ttl m db = Inr (res, db')"
  obtains d w where "claim_prepare cfg now m db = Inr d" "ready cfg now (m_worker_id m) role d = Inr w"
    "select_task role m d = None \<and> res = None \<and> db' = d \<or>
     (\<exists>row row' l. select_task role m d = Some row \<and> res = Some (row', l) \<and>
        grant now role m ttl row d = Inr ((row', l), db'))"
  using assms by (fastforce simp: claim_tx_def outcome_simps split: option.splits)

lemma claim_prepare_step_ok:
  assumes "claim_prepare cfg now m db = Inr d"
  shows "step_ok db d"
proof -
  from assms consider "d = db" | n d1 c where "recover now db = Inr (n, d1)" "recover_stalled cfg now d1 = Inr (c, d)"
    by (auto simp: claim_prepare_def outcome_simps split: if_splits)
  then show ?thesis
    by cases (auto intro: step_ok_trans recover_step_ok recover_stalled_step_ok)
qed

lemma claim_step_ok:
  assumes tx: "claim_tx cfg now role ttl m db = Inr (res, db')" and a: "m_attempt_id m \<noteq> []"
  shows "step_ok db db'"
  using claim_tx_Inr [OF tx]
proof cases
  case (1 d w)
  from 1(3) have "step_ok d db'"
    using grant_step_ok [OF _ _ a] select_task_Some by (metis step_ok_refl)
  with claim_prepare_step_ok [OF 1(1)] show ?thesis by (rule step_ok_trans)
qed

section \<open>Admission\<close>

lemma insert_task_step_ok:
  assumes "sql_insert_task t db = Inr db'" and "\<And>d. life_init (life_of (d\<lparr>task_attempts := [],
     task_checkpoints := [], effect_reconciliations := [], quarantine := []\<rparr>) t)"
  shows "step_ok db db'"
proof (rule step_okI)
  assume ok: "pool_ok db"
  note ins = sql_insert_task_Inr [OF assms(1)]
  have refs: "filter (\<lambda>a. a_task_id a = t_task_id t) (task_attempts db) = []"
    "filter (\<lambda>c. c_task_id c = t_task_id t) (task_checkpoints db) = []"
    "filter (\<lambda>e. e_task_id e = t_task_id t) (effect_reconciliations db) = []"
    "filter (\<lambda>q. q_task_id q = t_task_id t) (quarantine db) = []"
    using ok ins by (auto simp: pool_ok_def tables_wf_def filter_empty_conv) (metis imageI subsetD)+
  have init: "life_init (life_of db' t)"
    using assms(2) [of db] ins refs by (simp add: life_of_def)
  then have "t_state t = Queued" "t_leased_by t = None" by (simp_all add: life_init_def)
  then have "tables_wf db'"
    using ok ins by (auto simp: pool_ok_def tables_wf_def idx_worker_active_def idx_workspace_active_def
        is_active_def ACTIVE_def)
  moreover have "evolves (task_life db k) (task_life db' k)" for k
  proof (cases "find_task k db")
    case None
    with ins init show ?thesis by (auto simp: task_life_def find_task_def tbl_get_append)
  next
    case (Some r)
    with ins show ?thesis by (auto simp: task_life_def find_task_def tbl_get_append life_of_def)
  qed
  ultimately show "tables_wf db' \<and> life_refines db db'" by (simp add: life_refines_def)
qed

lemma enqueue_step_ok:
  assumes "enqueue_tx now n key b att db = Inr (res, db')"
  shows "step_ok db db'"
proof -
  define d where "d = ensure_repository_lane (py_strip (n_repository n)) now db"
  have lane: "step_ok db d" by (rule frame_tables_step_ok) (simp_all add: d_def)
  from assms consider "db' = d" | "sql_insert_task (new_task now n key b att) d = Inr db'"
    unfolding enqueue_tx_def d_def by (auto simp: outcome_simps Let_def split: if_splits option.splits)
  then have "step_ok d db'"
  proof cases
    case 2
    have "life_init (life_of (d\<lparr>task_attempts := [], task_checkpoints := [],
     effect_reconciliations := [], quarantine := []\<rparr>) (new_task now n key b att))" for d
    by (simp add: life_init_def life_of_def new_task_def)
    with 2 show ?thesis by (rule insert_task_step_ok)
  qed simp
  with lane show ?thesis by (rule step_ok_trans)
qed

end
