(* ===== verification/Pool_System.thy ===== *)
theory Pool_System
  imports Pool_Refinement
begin

text \<open>
  The pool as a system: the calls that change the database, their execution, the reachable
  databases, and the interfaces through which invariants of one task's life become invariants
  of every reachable database. A history is a list of calls, each with the instant the clock
  shows while it runs.
\<close>

section \<open>Calls\<close>

datatype pool_call =
    Restart
  | EnableCutover string bool bool
  | RegisterWorker worker_registration
  | HeartbeatWorker string heartbeat
  | ConfigureRepository string bool int
  | ReplaceAffinities string "string list"
  | EnqueueTask task_create
  | RecoverExpired
  | RecoverStalled
  | Reconcile
  | ClaimTask claim_request
  | RenewLease lease_proof string "int option"
  | StartTask lease_proof string
  | SubmitForValidation lease_proof string string
  | CompleteTask lease_proof string
  | FailTask lease_proof string string
  | BlockTask lease_proof string string
  | RecordCheckpoint checkpoint_request
  | ReconcileEffect string string int string string string
  | RequeueBlocked string string

fun exec_call :: "pool_config \<Rightarrow> timestamp \<Rightarrow> pool_call \<Rightarrow> pool_db \<Rightarrow> pool_db" where
  "exec_call cfg now Restart db = init_db now db"
| "exec_call cfg now (EnableCutover c d x) db = snd (enable_fenced_cutover now c d x db)"
| "exec_call cfg now (RegisterWorker g) db = snd (register_worker now g db)"
| "exec_call cfg now (HeartbeatWorker w h) db = snd (heartbeat_worker now w h db)"
| "exec_call cfg now (ConfigureRepository r e m) db = snd (configure_repository now r e m db)"
| "exec_call cfg now (ReplaceAffinities w rs) db = snd (replace_worker_affinities now w rs db)"
| "exec_call cfg now (EnqueueTask n) db = snd (enqueue_task cfg now n db)"
| "exec_call cfg now RecoverExpired db = snd (recover_expired_leases now db)"
| "exec_call cfg now RecoverStalled db = snd (recover_stalled_tasks cfg now db)"
| "exec_call cfg now Reconcile db = snd (reconcile cfg now db)"
| "exec_call cfg now (ClaimTask m) db = snd (claim_task cfg now m db)"
| "exec_call cfg now (RenewLease p c s) db = snd (renew_lease cfg now p c s db)"
| "exec_call cfg now (StartTask p c) db = snd (start_task now p c db)"
| "exec_call cfg now (SubmitForValidation p s c) db = snd (submit_for_validation now p s c db)"
| "exec_call cfg now (CompleteTask p c) db = snd (complete_task now p c db)"
| "exec_call cfg now (FailTask p c r) db = snd (fail_task now p c r db)"
| "exec_call cfg now (BlockTask p c r) db = snd (block_task now p c r db)"
| "exec_call cfg now (RecordCheckpoint i) db = snd (record_checkpoint now i db)"
| "exec_call cfg now (ReconcileEffect tid e g out ref c) db = snd (reconcile_effect now tid e g out ref c db)"
| "exec_call cfg now (RequeueBlocked tid c) db = snd (requeue_blocked now tid c db)"

text \<open>The attempt id of a claim is a \<^verbatim>\<open>uuid4().hex\<close>, in particular not empty.\<close>

fun call_ok :: "pool_call \<Rightarrow> bool" where
  "call_ok (ClaimTask m) \<longleftrightarrow> m_attempt_id m \<noteq> []"
| "call_ok _ \<longleftrightarrow> True"

fun run_calls :: "pool_config \<Rightarrow> (timestamp \<times> pool_call) list \<Rightarrow> pool_db \<Rightarrow> pool_db" where
  "run_calls cfg [] db = db"
| "run_calls cfg ((now, c) # cs) db = run_calls cfg cs (exec_call cfg now c db)"

inductive pool_step :: "pool_config \<Rightarrow> pool_db \<Rightarrow> pool_db \<Rightarrow> bool" for cfg where
  call: "call_ok c \<Longrightarrow> pool_step cfg db (exec_call cfg now c db)"

inductive_cases pool_stepE: "pool_step cfg db db'"

inductive reachable :: "pool_config \<Rightarrow> pool_db \<Rightarrow> bool" for cfg where
  created: "reachable cfg (init_db now empty_db)"
| stepped: "reachable cfg db \<Longrightarrow> pool_step cfg db db' \<Longrightarrow> reachable cfg db'"

section \<open>Every call refines the lifecycle\<close>

lemma fold_ensure_lane_frame:
  "tasks (fold (\<lambda>t. ensure_repository_lane (t_repository t) now) ts db) = tasks db"
  "task_attempts (fold (\<lambda>t. ensure_repository_lane (t_repository t) now) ts db) = task_attempts db"
  "task_checkpoints (fold (\<lambda>t. ensure_repository_lane (t_repository t) now) ts db) = task_checkpoints db"
  "effect_reconciliations (fold (\<lambda>t. ensure_repository_lane (t_repository t) now) ts db) = effect_reconciliations db"
  "quarantine (fold (\<lambda>t. ensure_repository_lane (t_repository t) now) ts db) = quarantine db"
  by (induction ts arbitrary: db) simp_all

lemma init_db_frame [simp]:
  "tasks (init_db now db) = tasks db" "task_attempts (init_db now db) = task_attempts db"
  "task_checkpoints (init_db now db) = task_checkpoints db"
  "effect_reconciliations (init_db now db) = effect_reconciliations db"
  "quarantine (init_db now db) = quarantine db"
  by (simp_all add: init_db_def Let_def fold_ensure_lane_frame split: option.splits)

lemma registry_step_ok:
  "step_ok db (init_db now db)"
  "step_ok db (snd (enable_fenced_cutover now c d x db))"
  "step_ok db (snd (register_worker now g db))"
  "step_ok db (snd (heartbeat_worker now w h db))"
  "step_ok db (snd (configure_repository now r e m db))"
  "step_ok db (snd (replace_worker_affinities now w rs db))"
  by (rule frame_tables_step_ok;
      simp add: enable_fenced_cutover_def register_worker_def heartbeat_worker_def configure_repository_def
        replace_worker_affinities_def upsert_worker_def fold_set_affinity_frame Let_def
        split: option.splits sum.splits prod.splits)+

lemma run_tx_step_ok: "(\<And>a db'. f db = Inr (a, db') \<Longrightarrow> step_ok db db') \<Longrightarrow> step_ok db (snd (run_tx f db))"
  by (auto simp: run_tx_def split: sum.splits)

lemma tx_then_get_step_ok:
  "(\<And>db'. f db = Inr db' \<Longrightarrow> step_ok db db') \<Longrightarrow> step_ok db (snd (tx_then_get tid f db))"
  by (auto simp: tx_then_get_def split: sum.splits)

lemma checkpoint_row_of_ids:
  "checkpoint_row_of now i = Inr c \<Longrightarrow> c_task_id c = i_task_id i \<and> c_lease_generation c = i_lease_generation i \<and>
   opt_all SAFE_ID (c_effect_id c)"
  by (auto simp: checkpoint_row_of_def Let_def split: if_splits option.splits)

lemma queue_step_ok:
  "step_ok db (snd (enqueue_task cfg now n db))"
  "step_ok db (snd (recover_expired_leases now db))"
  "step_ok db (snd (recover_stalled_tasks cfg now db))"
  "step_ok db (snd (reconcile cfg now db))"
proof -
  show "step_ok db (snd (enqueue_task cfg now n db))"
    by (auto simp: enqueue_task_def Let_def split: sum.splits
        intro!: run_tx_step_ok intro: enqueue_step_ok)
  show "step_ok db (snd (recover_expired_leases now db))"
    unfolding recover_expired_leases_def by (rule run_tx_step_ok) (rule recover_step_ok)
  show "step_ok db (snd (recover_stalled_tasks cfg now db))"
    unfolding recover_stalled_tasks_def by (rule run_tx_step_ok) (rule recover_stalled_step_ok)
  show "step_ok db (snd (reconcile cfg now db))"
    unfolding reconcile_def
    by (rule run_tx_step_ok)
      (auto simp: outcome_simps intro: step_ok_trans recover_step_ok recover_stalled_step_ok)
qed

lemma claim_task_step_ok: "m_attempt_id m \<noteq> [] \<Longrightarrow> step_ok db (snd (claim_task cfg now m db))"
  by (auto simp: claim_task_def Let_def split: option.splits intro!: run_tx_step_ok claim_step_ok)

lemma lease_ops_step_ok:
  "step_ok db (snd (renew_lease cfg now p c s db))"
  "step_ok db (snd (start_task now p c db))"
  "step_ok db (snd (submit_for_validation now p sha c db))"
  "step_ok db (snd (complete_task now p c db))"
  "step_ok db (snd (fail_task now p c r db))"
  "step_ok db (snd (block_task now p c r db))"
  by (auto simp: renew_lease_def start_task_def submit_for_validation_def complete_task_def fail_task_def
      block_task_def Let_def intro!: tx_then_get_step_ok
      intro: renew_step_ok start_step_ok submit_step_ok complete_step_ok fail_step_ok block_step_ok)

lemma effect_ops_step_ok:
  "step_ok db (snd (record_checkpoint now i db))"
  "step_ok db (snd (reconcile_effect now tid e g out ref c db))"
  "step_ok db (snd (requeue_blocked now tid c db))"
proof -
  show "step_ok db (snd (record_checkpoint now i db))"
  proof (cases "checkpoint_row_of now i")
    case (Inr x)
    have "step_ok db db'" if "checkpoint_tx now (checkpoint_proof i) x db = Inr (y, db')" for y db'
      using that checkpoint_row_of_ids [OF Inr]
      by (cases y) (auto intro!: checkpoint_step_ok simp: checkpoint_proof_def)
    with Inr show ?thesis by (auto simp: record_checkpoint_def intro!: run_tx_step_ok)
  qed (simp add: record_checkpoint_def)
  show "step_ok db (snd (reconcile_effect now tid e g out ref c db))"
    by (auto simp: reconcile_effect_def Let_def split: option.splits
        intro!: run_tx_step_ok intro: reconcile_effect_step_ok)
  show "step_ok db (snd (requeue_blocked now tid c db))"
    unfolding requeue_blocked_def by (rule tx_then_get_step_ok) (rule requeue_step_ok)
qed

lemma exec_call_step_ok: "call_ok c \<Longrightarrow> step_ok db (exec_call cfg now c db)"
  by (cases c) (simp_all add: registry_step_ok queue_step_ok claim_task_step_ok lease_ops_step_ok effect_ops_step_ok)

lemma pool_step_ok: "pool_step cfg db db' \<Longrightarrow> step_ok db db'"
  by (auto elim!: pool_stepE intro: exec_call_step_ok)

lemma pool_steps_ok: "(pool_step cfg)\<^sup>*\<^sup>* db db' \<Longrightarrow> step_ok db db'"
  by (induction rule: rtranclp_induct) (auto intro: step_ok_trans pool_step_ok)

lemma pool_ok_init: "pool_ok (init_db now empty_db)"
  by (simp add: pool_ok_def tables_wf_def empty_db_def idx_worker_active_def idx_workspace_active_def)

lemma reachable_pool_ok: "reachable cfg db \<Longrightarrow> pool_ok db"
  by (induction rule: reachable.induct) (auto intro: pool_ok_init step_ok_pool_ok pool_step_ok)

lemma reachable_run_calls: "reachable cfg db \<Longrightarrow> list_all (\<lambda>(_, c). call_ok c) cs \<Longrightarrow> reachable cfg (run_calls cfg cs db)"
  by (induction cfg cs db rule: run_calls.induct) (auto intro: reachable.stepped pool_step.call)

section \<open>Interface: invariants of one task's life\<close>

text \<open>A property of lives that holds initially and is kept by every lifecycle step holds of every
  task of every reachable database.\<close>

locale life_property =
  fixes I :: "life \<Rightarrow> bool"
  assumes init: "life_init l \<Longrightarrow> I l"
    and step: "life_step l l' \<Longrightarrow> life_inv l \<Longrightarrow> I l \<Longrightarrow> I l'"
begin

lemma steps: "life_step\<^sup>*\<^sup>* l l' \<Longrightarrow> life_inv l \<Longrightarrow> I l \<Longrightarrow> I l'"
proof (induction rule: rtranclp_induct)
  case (step l1 l2)
  then show ?case using life_property.step [OF life_property_axioms] life_inv_steps by blast
qed

lemma always: "reachable cfg db \<Longrightarrow> t \<in> set (tasks db) \<Longrightarrow> I (life_of db t)"
proof (induction arbitrary: t rule: reachable.induct)
  case (created now)
  then show ?case by (simp add: empty_db_def)
next
  case (stepped db db')
  have ok: "pool_ok db" "pool_ok db'"
    using stepped reachable.stepped reachable_pool_ok by blast+
  then have new: "task_life db' (t_task_id t) = Some (life_of db' t)"
    using stepped.prems by (auto simp: pool_ok_def task_life_Some)
  have ev: "evolves (task_life db (t_task_id t)) (Some (life_of db' t))"
    using pool_step_ok [OF stepped.hyps(2)] ok(1) new by (simp add: step_ok_def life_refines_def) metis
  show ?case
  proof (cases "task_life db (t_task_id t)")
    case None
    with ev show ?thesis using init steps life_inv_init by auto
  next
    case (Some l)
    then obtain r where "r \<in> set (tasks db)" "l = life_of db r"
      using ok(1) by (auto simp: pool_ok_def task_life_Some)
    then show ?thesis using ev Some steps stepped.IH ok(1) by (auto simp: pool_ok_def)
  qed
qed

end

section \<open>Interface: what later states owe to earlier ones\<close>

locale life_relation =
  fixes R :: "life \<Rightarrow> life \<Rightarrow> bool"
  assumes refl: "R l l"
    and trans: "R a b \<Longrightarrow> R b c \<Longrightarrow> R a c"
    and step: "life_step l l' \<Longrightarrow> life_inv l \<Longrightarrow> R l l'"
begin

lemma steps: "life_step\<^sup>*\<^sup>* l l' \<Longrightarrow> life_inv l \<Longrightarrow> R l l'"
proof (induction rule: rtranclp_induct)
  case base
  show ?case by (rule refl)
next
  case (step l1 l2)
  then show ?case
    using life_relation.step [OF life_relation_axioms] life_inv_steps trans by blast
qed

lemma later:
  assumes "pool_ok db" and "(pool_step cfg)\<^sup>*\<^sup>* db db'" and "find_task tid db = Some t"
  obtains t' where "find_task tid db' = Some t'" "R (life_of db t) (life_of db' t')"
proof -
  have "evolves (task_life db tid) (task_life db' tid)"
    using pool_steps_ok [OF assms(2)] assms(1) by (simp add: step_ok_def life_refines_def)
  moreover have "life_inv (life_of db t)"
    using assms(1,3) tasks_tbl.get_mem by (auto simp: pool_ok_def)
  ultimately show ?thesis
    using assms(3) that steps by (cases "find_task tid db'") (auto simp: task_life_def)
qed

end

end
