(* ===== verification/Pool_Scenario.thy ===== *)
theory Pool_Scenario
  imports Pool_System
begin

text \<open>
  A concrete history of the pool, executed in the logic: one fenced task, one builder and one
  validator. Its stages instantiate the hypotheses of the properties. The hashes in the task's
  id, branch and workspace stay symbolic.
\<close>


section \<open>The history\<close>

definition demo_cfg :: pool_config where
  "demo_cfg = \<lparr>heartbeat_ttl_seconds = 60, default_lease_seconds = 60, default_max_attempts = 3,
     progress_stall_seconds = 600, expected_rules_sha = None\<rparr>"

definition demo_worker :: "string \<Rightarrow> string \<Rightarrow> worker_registration" where
  "demo_worker w r = \<lparr>g_worker_id = w, g_host = ''h'', g_role = r, g_profile = ''NORMAL'', g_capacity_score = 1,
     g_controller_version = None, g_rules_sha = None, g_gateway_ok = True, g_state_validated = True,
     g_worktree_root = None, g_correlation_id = ''c''\<rparr>"

definition demo_task :: "task_create" where
  "demo_task = \<lparr>n_repository = ''o/r'', n_issue_number = 7, n_request_id = ''q'', n_correlation_id = ''c'',
     n_priority = 100, n_base_sha = None, n_max_attempts = None, n_target_branch = None,
     n_fencing_required = True\<rparr>"

definition demo_claim :: "string \<Rightarrow> string \<Rightarrow> string \<Rightarrow> string \<Rightarrow> claim_request" where
  "demo_claim w r k a = \<lparr>m_worker_id = w, m_role = r, m_correlation_id = ''c'', m_lease_seconds = None,
     m_only_task_id = None, m_fencing_required = True, m_token = k, m_attempt_id = a\<rparr>"

definition demo_id :: string where
  "demo_id = task_id (identity ''o/r'' 7 ''q'')"

definition demo_proof :: "string \<Rightarrow> string \<Rightarrow> int \<Rightarrow> string \<Rightarrow> lease_proof" where
  "demo_proof w k g a = \<lparr>p_task_id = demo_id, p_worker_id = w, p_lease_token = k,
     p_lease_generation = Some g, p_attempt_id = Some a\<rparr>"

definition demo_sha :: string where
  "demo_sha = replicate 40 CHR ''a''"

definition demo_created :: pool_db where
  "demo_created = init_db 0 empty_db"

definition demo_queued :: pool_db where
  "demo_queued = run_calls demo_cfg
     [(0, EnableCutover ''c'' True True), (0, RegisterWorker (demo_worker ''b'' ''builder'')),
      (0, RegisterWorker (demo_worker ''v'' ''validator'')), (0, EnqueueTask demo_task)] demo_created"

definition demo_row :: task_row where
  "demo_row = new_task 0 demo_task (identity ''o/r'' 7 ''q'') (branch 7 ''q'') 3"

definition demo_worker_row :: "string \<Rightarrow> role \<Rightarrow> worker_row" where
  "demo_worker_row w r = \<lparr>w_worker_id = w, w_host = ''h'', w_role = r, w_profile = NORMAL, w_capacity_score = 1,
     w_controller_version = None, w_rules_sha = None, w_gateway_ok = True, w_state_validated = True,
     w_worktree_root = None, w_registered_at = 0, w_last_heartbeat_at = 0, w_cpu_percent = None,
     w_memory_percent = None, w_correlation_id = ''c''\<rparr>"


definition demo_builder_claim :: claim_request where
  "demo_builder_claim = demo_claim ''b'' ''builder'' ''k1'' ''a1''"

definition demo_validator_claim :: claim_request where
  "demo_validator_claim = demo_claim ''v'' ''validator'' ''k2'' ''a2''"

definition demo_checkpoint :: checkpoint_request where
  "demo_checkpoint = \<lparr>i_task_id = demo_id, i_worker_id = ''b'', i_lease_token = ''k1'', i_lease_generation = 1,
     i_attempt_id = ''a1'', i_checkpoint_id = ''cp1'', i_sequence = 1, i_stage = ''s'', i_next_action = ''n'',
     i_correlation_id = ''c'', i_artifact_kind = None, i_artifact_ref = None, i_artifact_sha256 = None,
     i_effect_id = Some ''e'', i_effect_state = ''unknown'', i_effect_result_ref = None\<rparr>"

definition demo_checkpoint_row :: checkpoint_row where
  "demo_checkpoint_row = (case checkpoint_row_of 3 demo_checkpoint of Inr c \<Rightarrow> c)"

definition demo_leased :: pool_db where
  "demo_leased = exec_call demo_cfg 1 (ClaimTask demo_builder_claim) demo_queued"

definition demo_running :: pool_db where
  "demo_running = exec_call demo_cfg 2 (StartTask (demo_proof ''b'' ''k1'' 1 ''a1'') ''c'') demo_leased"

definition demo_validating :: pool_db where
  "demo_validating = exec_call demo_cfg 3 (SubmitForValidation (demo_proof ''b'' ''k1'' 1 ''a1'') demo_sha ''c'') demo_running"

definition demo_reviewed :: pool_db where
  "demo_reviewed = exec_call demo_cfg 4 (ClaimTask demo_validator_claim) demo_validating"

definition demo_completed :: pool_db where
  "demo_completed = exec_call demo_cfg 5 (CompleteTask (demo_proof ''v'' ''k2'' 2 ''a2'') ''c'') demo_reviewed"

definition demo_effect :: pool_db where
  "demo_effect = exec_call demo_cfg 3 (RecordCheckpoint demo_checkpoint) demo_running"

definition demo_blocked :: pool_db where
  "demo_blocked = exec_call demo_cfg 4 (BlockTask (demo_proof ''b'' ''k1'' 1 ''a1'') ''c'' ''n'') demo_effect"

section \<open>Its execution\<close>

lemma demo_text:
  "py_strip ''b'' = ''b''" "py_strip ''v'' = ''v''" "py_strip ''h'' = ''h''" "py_strip ''c'' = ''c''"
  "py_strip ''q'' = ''q''" "py_strip ''o/r'' = ''o/r''" "py_strip [] = []" "py_lower [] = []"
  "py_upper ''NORMAL'' = ''NORMAL''" "parse_role (py_lower ''builder'') = Some Builder"
  "parse_role (py_lower ''validator'') = Some Validator" "parse_profile ''NORMAL'' = Some NORMAL"
  "CHR ''/'' \<in> set ''o/r''" "py_lower demo_sha = demo_sha" "SHA40 demo_sha" "text_le 3 (- 599999996) = False" "text_le 0 (- 599999999) = False" "demo_sha \<noteq> []"
  "SAFE_ID ''cp1''" "SAFE_ID ''s''" "SAFE_ID ''e''" "sanitize (py_strip ''n'') = ''n''" "py_strip ''s'' = ''s''"
  "parse_effect_state ''unknown'' = Some EffUnknown"
  by code_simp+


lemmas demo_exec =
  demo_text text_or_none_def opt_text_def coalesce_def demo_cfg_def demo_task_def demo_claim_def
  demo_proof_def init_db_def empty_db_def enable_fenced_cutover_def upsert_worker_def find_worker_def get_worker_def
  enqueue_task_def enqueue_branch_def int_or_def run_tx_def enqueue_tx_def ensure_repository_lane_def find_lane_def
  sql_insert_task_def guard_fenced_task_admission_def new_task_def
  claim_task_def claim_tx_def claim_prepare_def recover_def recover_stalled_def expired_rows_def stalled_rows_def
  is_active_def ACTIVE_def ready_def rules_divergent_def stale_heartbeat_def worker_busy_def
  select_task_def select_builder_def select_validator_def join_lanes_def builder_eligible_def validator_eligible_def
  affinity_allows_def active_count_def only_matches_def grant_def claim_update_def claim_lane_def
  sql_update_task_def guard_fenced_claim_def put_task_def put_lane_def put_attempt_def tbl_upd_def idx_worker_active_def
  idx_workspace_active_def sql_insert_attempt_def new_lane_def seconds_def usec_def tx_then_get_def lease_check_def
  find_task_def get_task_def start_task_def start_tx_def start_update_def
  demo_builder_claim_def demo_validator_claim_def submit_for_validation_def submit_tx_def submit_update_def
  require_resolved_effects_def has_unresolved_effect_def unresolved_checkpoint_def reconciled_def superseded_def
  end_attempt_def complete_task_def complete_tx_def complete_update_def
  record_checkpoint_def checkpoint_row_of_def checkpoint_tx_def checkpoint_proof_def opt_all_def clean_ref_def find_checkpoint_def
  unresolved_unknown_def last_sequence_def sql_insert_checkpoint_def checkpoint_update_def
  block_task_def block_tx_def block_update_def claimed_at_key_def

lemma demo_register:
  "snd (register_worker 0 (demo_worker ''b'' ''builder'') db) = upsert_worker (demo_worker_row ''b'' Builder) db"
  "snd (register_worker 0 (demo_worker ''v'' ''validator'') db) = upsert_worker (demo_worker_row ''v'' Validator) db"
  by (simp_all add: register_worker_def demo_worker_def demo_worker_row_def demo_text text_or_none_def opt_text_def Let_def)

lemma demo_queued_eq: "demo_queued =
   \<lparr>workers = [demo_worker_row ''b'' Builder, demo_worker_row ''v'' Validator], repository_lanes = [new_lane ''o/r'' 0],
    affinity = [], tasks = [demo_row], quarantine = [],
    pool_control = Some \<lparr>k_enabled = True, k_enabled_at = Some 0, k_enabled_by_correlation_id = Some ''c''\<rparr>,
    task_attempts = [], task_checkpoints = [], effect_reconciliations = []\<rparr>"
  by (simp add: demo_queued_def demo_created_def demo_row_def demo_register demo_worker_row_def demo_exec Let_def)


lemma demo_leased_eq: "demo_leased = demo_queued
  \<lparr>repository_lanes := [claim_lane 1 Builder (new_lane ''o/r'' 0)],
   tasks := [claim_update 1 Builder demo_builder_claim 60000001 demo_row],
   task_attempts := [new_attempt 1 Builder demo_builder_claim 60 demo_row]\<rparr>"
  by (simp add: demo_leased_def demo_queued_eq demo_row_def demo_worker_row_def demo_exec Let_def new_attempt_def)

lemma demo_running_eq: "demo_running = demo_leased
  \<lparr>tasks := [start_update 2 ''b'' ''c'' (claim_update 1 Builder demo_builder_claim 60000001 demo_row)]\<rparr>"
  by (simp add: demo_running_def demo_leased_eq demo_queued_eq demo_row_def demo_worker_row_def demo_id_def
     demo_exec Let_def new_attempt_def)

lemma demo_validating_eq: "demo_validating = demo_running
  \<lparr>tasks := [submit_update 3 demo_sha ''c'' (start_update 2 ''b'' ''c'' (claim_update 1 Builder demo_builder_claim 60000001 demo_row))],
   task_attempts := [(new_attempt 1 Builder demo_builder_claim 60 demo_row)
     \<lparr>a_ended_at := Some 3, a_end_reason := Some ''validation_handoff''\<rparr>]\<rparr>"
  by (simp add: demo_validating_def demo_running_eq demo_leased_eq demo_queued_eq demo_row_def demo_worker_row_def demo_id_def
     demo_exec Let_def new_attempt_def)

lemma demo_reviewed_eq: "demo_reviewed = demo_validating
  \<lparr>repository_lanes := [claim_lane 4 Validator (claim_lane 1 Builder (new_lane ''o/r'' 0))],
   tasks := [claim_update 4 Validator demo_validator_claim 60000004 (hd (tasks demo_validating))],
   task_attempts := task_attempts demo_validating @ [new_attempt 4 Validator demo_validator_claim 60 (hd (tasks demo_validating))]\<rparr>"
  by (simp add: demo_reviewed_def demo_validating_eq demo_running_eq demo_leased_eq demo_queued_eq demo_row_def demo_worker_row_def demo_id_def
     demo_exec Let_def new_attempt_def)

lemma demo_completed_eq: "demo_completed = demo_reviewed
  \<lparr>tasks := [complete_update 5 ''c'' (hd (tasks demo_reviewed))],
   task_attempts := task_attempts demo_validating @ [(new_attempt 4 Validator demo_validator_claim 60 (hd (tasks demo_validating)))
     \<lparr>a_ended_at := Some 5, a_end_reason := Some ''completed''\<rparr>]\<rparr>"
  by (simp add: demo_completed_def demo_reviewed_eq demo_validating_eq demo_running_eq demo_leased_eq demo_queued_eq demo_row_def demo_worker_row_def demo_id_def
     demo_exec Let_def new_attempt_def)

lemma demo_effect_eq: "demo_effect = demo_running
  \<lparr>tasks := [checkpoint_update 3 ''c'' (hd (tasks demo_running))],
   task_checkpoints := [demo_checkpoint_row]\<rparr>"
  by (simp add: demo_effect_def demo_running_eq demo_leased_eq demo_queued_eq demo_row_def demo_worker_row_def demo_id_def
     demo_checkpoint_def demo_checkpoint_row_def demo_exec Let_def new_attempt_def)

lemma demo_blocked_eq: "demo_blocked = demo_effect
  \<lparr>tasks := [block_update 4 effect_reason ''c'' (hd (tasks demo_effect))],
   task_attempts := [(new_attempt 1 Builder demo_builder_claim 60 demo_row)
     \<lparr>a_ended_at := Some 4, a_end_reason := Some ''blocked''\<rparr>]\<rparr>"
  by (simp add: demo_blocked_def demo_effect_eq demo_running_eq demo_leased_eq demo_queued_eq demo_row_def demo_worker_row_def demo_id_def
     demo_checkpoint_def demo_checkpoint_row_def demo_exec Let_def new_attempt_def)

section \<open>Its states are reachable\<close>

lemma demo_reachable:
  "reachable demo_cfg demo_queued" "reachable demo_cfg demo_leased" "reachable demo_cfg demo_running"
  "reachable demo_cfg demo_validating" "reachable demo_cfg demo_reviewed" "reachable demo_cfg demo_completed"
  "reachable demo_cfg demo_effect" "reachable demo_cfg demo_blocked"
proof -
  have step: "reachable demo_cfg (exec_call demo_cfg now c db)" if "reachable demo_cfg db" "call_ok c" for now c db
    using that by (blast intro: reachable.stepped pool_step.call)
  show q: "reachable demo_cfg demo_queued"
    unfolding demo_queued_def demo_created_def by (rule reachable_run_calls) (simp_all add: reachable.created)
  show l: "reachable demo_cfg demo_leased" unfolding demo_leased_def
    by (rule step [OF q]) (simp add: demo_builder_claim_def demo_claim_def)
  show r: "reachable demo_cfg demo_running" unfolding demo_running_def by (rule step [OF l]) simp
  show v: "reachable demo_cfg demo_validating" unfolding demo_validating_def by (rule step [OF r]) simp
  show w: "reachable demo_cfg demo_reviewed" unfolding demo_reviewed_def
    by (rule step [OF v]) (simp add: demo_validator_claim_def demo_claim_def)
  show "reachable demo_cfg demo_completed" unfolding demo_completed_def by (rule step [OF w]) simp
  show e: "reachable demo_cfg demo_effect" unfolding demo_effect_def by (rule step [OF r]) simp
  show "reachable demo_cfg demo_blocked" unfolding demo_blocked_def by (rule step [OF e]) simp
qed

lemmas demo_eqs = demo_queued_eq demo_leased_eq demo_running_eq demo_validating_eq demo_reviewed_eq
  demo_completed_eq demo_effect_eq demo_blocked_eq demo_row_def demo_worker_row_def demo_id_def
  demo_checkpoint_def demo_checkpoint_row_def new_attempt_def

end
