(* ===== verification/Pool_Safety.thy ===== *)
theory Pool_Safety
  imports Pool_Scenario
begin

text \<open>
  What holds in every reachable database of the pool, and what later databases owe to earlier
  ones. The interfaces of \<open>Pool_System\<close> are interpreted on the lifecycle invariants; each
  property is their reading on the rows of the tables.
\<close>

section \<open>Invariants of lives\<close>

text \<open>Checkpoints of a task are numbered within a generation and name their effects safely.\<close>

definition checkpoint_order :: "life \<Rightarrow> bool" where
  "checkpoint_order l \<longleftrightarrow>
     distinct (map (\<lambda>c. (c_lease_generation c, c_sequence c)) (lf_checkpoints l)) \<and>
     (\<forall>c\<in>set (lf_checkpoints l). 1 \<le> c_lease_generation c \<and> opt_all SAFE_ID (c_effect_id c))"

definition attempts_of :: "string \<Rightarrow> pool_db \<Rightarrow> attempt_row list" where
  "attempts_of tid db = filter (\<lambda>a. a_task_id a = tid) (task_attempts db)"

definition keeps_contract :: "life \<Rightarrow> life \<Rightarrow> bool" where
  "keeps_contract l l' \<longleftrightarrow> lf_fenced l' = lf_fenced l \<and> lf_max l' = lf_max l \<and> lf_gen l \<le> lf_gen l' \<and>
     lf_count l \<le> lf_count l'"

definition keeps_final :: "life \<Rightarrow> life \<Rightarrow> bool" where
  "keeps_final l l' \<longleftrightarrow> (lf_state l \<in> {Completed, Failed} \<longrightarrow> l' = l)"

definition keeps_ended :: "life \<Rightarrow> life \<Rightarrow> bool" where
  "keeps_ended l l' \<longleftrightarrow> (\<forall>a g. (a, g, False) \<in> set (lf_attempts l) \<longrightarrow> (a, g, False) \<in> set (lf_attempts l'))"

definition keeps_ledger :: "life \<Rightarrow> life \<Rightarrow> bool" where
  "keeps_ledger l l' \<longleftrightarrow> (\<exists>cs es. lf_checkpoints l' = lf_checkpoints l @ cs \<and> lf_recs l' = lf_recs l @ es)"

lemma checkpoint_order_cong: "lf_checkpoints l' = lf_checkpoints l \<Longrightarrow> checkpoint_order l' = checkpoint_order l"
  by (simp add: checkpoint_order_def)

lemma holder_generation: "life_inv l \<Longrightarrow> lf_holder l \<noteq> None \<Longrightarrow> 1 \<le> lf_gen l"
proof -
  assume inv: "life_inv l" and "lf_holder l \<noteq> None"
  then obtain a where "(a, lf_gen l, True) \<in> set (lf_attempts l)"
    by (fastforce simp: life_inv_def lease_inv_def attempt_inv_def)
  then have "lf_gen l \<in> set (map (\<lambda>x. fst (snd x)) (lf_attempts l))" by force
  with inv show ?thesis by (auto simp: life_inv_def attempt_inv_def)
qed

interpretation lives: life_property life_inv
  by unfold_locales (auto intro: life_inv_init life_inv_step)

interpretation orders: life_property checkpoint_order
proof unfold_locales
  fix l l' :: life
  show "life_init l \<Longrightarrow> checkpoint_order l" by (simp add: life_init_def checkpoint_order_def)
  assume "life_step l l'" "life_inv l" "checkpoint_order l"
  then show "checkpoint_order l'"
  proof (induction rule: life_step.induct)
    case (checkpoint l c)
    then show ?case using holder_generation [of l] by (fastforce simp: checkpoint_order_def)
  qed (simp_all add: checkpoint_order_cong [of _ l] checkpoint_order_def)
qed

interpretation contracts: life_relation keeps_contract
proof unfold_locales
  fix l l' :: life
  show "life_step l l' \<Longrightarrow> life_inv l \<Longrightarrow> keeps_contract l l'"
    by (induction rule: life_step.induct) (simp_all add: keeps_contract_def)
qed (auto simp: keeps_contract_def)

interpretation finals: life_relation keeps_final
proof unfold_locales
  fix l l' :: life
  show "life_step l l' \<Longrightarrow> life_inv l \<Longrightarrow> keeps_final l l'"
    using life_step_final [of l l'] by (auto simp: keeps_final_def life_inv_def)
qed (auto simp: keeps_final_def)

interpretation ended: life_relation keeps_ended
proof unfold_locales
  fix l l' :: life
  show "life_step l l' \<Longrightarrow> life_inv l \<Longrightarrow> keeps_ended l l'"
    by (induction rule: life_step.induct) (force simp: keeps_ended_def released_def granted_def)+
qed (auto simp: keeps_ended_def)

interpretation ledgers: life_relation keeps_ledger
proof unfold_locales
  fix l l' :: life
  show "life_step l l' \<Longrightarrow> life_inv l \<Longrightarrow> keeps_ledger l l'"
    by (induction rule: life_step.induct) (simp_all add: keeps_ledger_def)
qed (force simp: keeps_ledger_def)+


section \<open>Reading reachable databases\<close>

lemma reachable_life: "reachable cfg db \<Longrightarrow> t \<in> set (tasks db) \<Longrightarrow> life_inv (life_of db t)"
  by (rule lives.always)

lemma reachable_wf: "reachable cfg db \<Longrightarrow> tables_wf db"
  using reachable_pool_ok by (simp add: pool_ok_def)

lemma reachable_find: "reachable cfg db \<Longrightarrow> t \<in> set (tasks db) \<Longrightarrow> find_task (t_task_id t) db = Some t"
  using reachable_wf by (simp add: tables_wf_def tasks_tbl.get_iff)

lemma inj_on_filter_distinct: "distinct (map f (filter P xs)) \<Longrightarrow> x \<in> set xs \<Longrightarrow> y \<in> set xs \<Longrightarrow> P x \<Longrightarrow> P y \<Longrightarrow> f x = f y \<Longrightarrow> x = y"
  by (auto simp: distinct_map inj_on_def)

lemma accepted_attempt_open:
  assumes "pool_ok db" and "lease_check now p allowed db = Inr row" and "p_attempt_id p = Some x"
  obtains a where "a \<in> set (task_attempts db)" "a_attempt_id a = x" "a_ended_at a = None"
proof -
  note chk = lease_check_Inr [OF assms(2)]
  have "row \<in> set (tasks db)" using tasks_tbl.get_mem [OF chk(1)] .
  then have "attempt_inv (life_of db row)" using assms(1) by (auto simp: pool_ok_def life_inv_def)
  then have "(x, t_lease_generation row, True) \<in> set (lf_attempts (life_of db row))"
    using chk(7) [OF assms(3)] by (auto simp: attempt_inv_def)
  then show ?thesis by (auto simp: life_of_def intro: that)
qed

text \<open>C1: Refinement. Whatever call is made on a reachable database, with whatever arguments and at
  whatever instant, every task moves by steps of the lifecycle machine (or is born in its
  initial state) and no task disappears; the invariant of the tables holds again.\<close>

theorem call_refines_lifecycle:
  assumes "reachable cfg db" and "call_ok c"
  shows "life_refines db (exec_call cfg now c db) \<and> pool_ok (exec_call cfg now c db)"
proof -
  have "step_ok db (exec_call cfg now c db)" "pool_ok db"
    using exec_call_step_ok [OF assms(2)] reachable_pool_ok [OF assms(1)] by blast+
  then show ?thesis using step_ok_pool_ok by (auto simp: step_ok_def)
qed

theorem call_refines_lifecycle_witness:
  "life_refines demo_queued demo_leased \<and> pool_ok demo_leased"
  unfolding demo_leased_def
  by (rule call_refines_lifecycle [OF demo_reachable(1)]) (simp add: demo_builder_claim_def demo_claim_def)

text \<open>C3: Separation of duties. A completed task has a produced commit with a full SHA, was built by some worker and
  validated by a different one; a task that nobody validated independently is never completed.\<close>

theorem separation_of_duties:
  assumes "reachable cfg db" and "t \<in> set (tasks db)" and "t_state t = Completed"
  shows "\<exists>sha b v. t_produced_sha t = Some sha \<and> SHA40 sha \<and> t_builder_worker_id t = Some b \<and>
    t_validator_worker_id t = Some v \<and> b \<noteq> v"
  using reachable_life [OF assms(1,2)] assms(3) by (auto simp: life_inv_def duty_inv_def)

theorem separation_of_duties_witness:
  "\<exists>sha b v. t_produced_sha (hd (tasks demo_completed)) = Some sha \<and> SHA40 sha \<and>
     t_builder_worker_id (hd (tasks demo_completed)) = Some b \<and>
     t_validator_worker_id (hd (tasks demo_completed)) = Some v \<and> b \<noteq> v"
  by (rule separation_of_duties [OF demo_reachable(6)]) (simp_all add: demo_eqs demo_exec)

text \<open>C4: Containment of uncertain effects. While a fenced task has an effect that is pending or
  unknown and not reconciled, the task is under a lease or it is blocked for reconciliation;
  so it is neither queued nor waiting for a validator, nor completed, nor failed.\<close>

theorem unresolved_effect_contained:
  assumes "reachable cfg db" and "t \<in> set (tasks db)"
    and "t_fencing_required t" and "has_unresolved_effect db (t_task_id t)"
  shows "t_leased_by t \<noteq> None \<or> t_state t = Blocked \<and> t_blocked_reason t = Some effect_reason"
  using reachable_life [OF assms(1,2)] assms(3,4) by (auto simp: life_inv_def effect_inv_def resolved_iff)

theorem unresolved_effect_contained_witness:
  "has_unresolved_effect demo_blocked (t_task_id (hd (tasks demo_blocked))) \<and>
   t_state (hd (tasks demo_blocked)) = Blocked \<and> t_blocked_reason (hd (tasks demo_blocked)) = Some effect_reason"
proof -
  have "hd (tasks demo_blocked) \<in> set (tasks demo_blocked)" "t_fencing_required (hd (tasks demo_blocked))"
    "has_unresolved_effect demo_blocked (t_task_id (hd (tasks demo_blocked)))"
    "t_leased_by (hd (tasks demo_blocked)) = None"
    by (simp_all add: demo_eqs demo_exec Let_def)
  then show ?thesis using unresolved_effect_contained [OF demo_reachable(8)] by metis
qed

text \<open>C5: Fencing. Once an attempt has ended, no request that carries its id passes the lease check,
  in any later database, at any instant, for any operation: a worker that lost its lease can
  no longer act on a task, even if it gets the token right.\<close>

theorem ended_attempt_never_accepted:
  assumes "reachable cfg db" and "a \<in> set (task_attempts db)" and "a_ended_at a \<noteq> None"
    and "(pool_step cfg)\<^sup>*\<^sup>* db db'" and "p_attempt_id p = Some (a_attempt_id a)"
  shows "\<exists>e. lease_check now p allowed db' = Inl e"
proof (rule ccontr)
  assume "\<not> ?thesis"
  then obtain row where "lease_check now p allowed db' = Inr row" by (cases "lease_check now p allowed db'") auto
  moreover have ok: "pool_ok db" using reachable_pool_ok [OF assms(1)] .
  moreover from ok have ok': "pool_ok db'" using pool_steps_ok [OF assms(4)] step_ok_pool_ok by blast
  ultimately obtain b where b: "b \<in> set (task_attempts db')" "a_attempt_id b = a_attempt_id a" "a_ended_at b = None"
    using accepted_attempt_open assms(5) by metis
  obtain t where t: "t \<in> set (tasks db)" "t_task_id t = a_task_id a"
    using ok assms(2) by (auto simp: pool_ok_def tables_wf_def)
  obtain t' where "keeps_ended (life_of db t) (life_of db' t')"
    using ended.later [OF ok assms(4) reachable_find [OF assms(1) t(1)]] .
  moreover have "(a_attempt_id a, a_lease_generation a, False) \<in> set (lf_attempts (life_of db t))"
    using assms(2,3) t(2) by (force simp: life_of_def)
  ultimately have "(a_attempt_id a, a_lease_generation a, False) \<in> set (lf_attempts (life_of db' t'))"
    by (auto simp: keeps_ended_def)
  then obtain a' where "a' \<in> set (task_attempts db')" "a_attempt_id a' = a_attempt_id a" "a_ended_at a' \<noteq> None"
    by (auto simp: life_of_def)
  with b ok' show False by (metis distinct_map inj_onD pool_ok_def tables_wf_def)
qed

theorem ended_attempt_never_accepted_witness:
  "\<exists>e. lease_check 5 (demo_proof ''b'' ''k1'' 1 ''a1'') [Validating] demo_reviewed = Inl e"
proof -
  have "(pool_step demo_cfg)\<^sup>*\<^sup>* demo_validating demo_reviewed"
    unfolding demo_reviewed_def
    by (rule r_into_rtranclp, rule pool_step.call) (simp add: demo_validator_claim_def demo_claim_def)
  from ended_attempt_never_accepted [OF demo_reachable(4) _ _ this, of "hd (task_attempts demo_validating)"]
  show ?thesis by (simp add: demo_eqs demo_exec)
qed

text \<open>The attempt log. In every reachable database the attempts of a task carry the generations
  1, 2, 3, ... in order and as many as its lease generation and its attempt count say; an
  attempt is open exactly when it is the one the task currently names.\<close>

theorem attempt_log:
  assumes "reachable cfg db" and "t \<in> set (tasks db)"
  shows "map a_lease_generation (attempts_of (t_task_id t) db) = map int [1..<Suc (nat (t_lease_generation t))] \<and>
    t_attempt_count t = t_lease_generation t \<and> 0 \<le> t_lease_generation t \<and>
    (\<forall>a\<in>set (attempts_of (t_task_id t) db). a_ended_at a = None \<longleftrightarrow> t_attempt_id t = Some (a_attempt_id a)) \<and>
    (t_attempt_id t \<noteq> None \<longleftrightarrow> (\<exists>a\<in>set (attempts_of (t_task_id t) db). a_ended_at a = None))"
proof -
  have inv: "attempt_inv (life_of db t)" using reachable_life [OF assms(1,2)] by (simp add: life_inv_def)
  have att: "lf_attempts (life_of db t) = map (\<lambda>a. (a_attempt_id a, a_lease_generation a, a_ended_at a = None)) (attempts_of (t_task_id t) db)"
    by (simp add: life_of_def attempts_of_def)
  have opn: "\<forall>a\<in>set (attempts_of (t_task_id t) db). a_ended_at a = None \<longleftrightarrow> t_attempt_id t = Some (a_attempt_id a)"
    and cur: "\<And>x. t_attempt_id t = Some x \<Longrightarrow> \<exists>a\<in>set (attempts_of (t_task_id t) db). a_attempt_id a = x \<and> a_ended_at a = None"
    using inv by (force simp: attempt_inv_def att)+
  moreover have "map a_lease_generation (attempts_of (t_task_id t) db) = map int [1..<Suc (nat (t_lease_generation t))]"
    using inv by (simp add: attempt_inv_def att comp_def)
  moreover have "t_attempt_count t = t_lease_generation t" "0 \<le> t_lease_generation t"
    using inv by (simp_all add: attempt_inv_def)
  ultimately show ?thesis by blast
qed

theorem attempt_log_witness:
  "map a_lease_generation (attempts_of (t_task_id (hd (tasks demo_completed))) demo_completed)
     = map int [1..<Suc (nat (t_lease_generation (hd (tasks demo_completed))))]"
  using attempt_log [OF demo_reachable(6), of "hd (tasks demo_completed)"] by (simp add: demo_eqs demo_exec)

text \<open>C6: Exclusive leases. In every reachable database a worker holds at most one task, and two
  different tasks in an active state never share a workspace of the same repository.\<close>

theorem exclusive_leases:
  assumes "reachable cfg db" and "t \<in> set (tasks db)" and "u \<in> set (tasks db)"
  shows "(t_leased_by t \<noteq> None \<and> t_leased_by u = t_leased_by t \<longrightarrow> u = t) \<and>
    (is_active t \<and> is_active u \<and> t_repository u = t_repository t \<and> t_workspace_key u = t_workspace_key t \<longrightarrow> u = t)"
proof -
  have act: "is_active x" if "x \<in> set (tasks db)" "t_leased_by x \<noteq> None" for x
    using reachable_life [OF assms(1) that(1)] that(2) by (auto simp: life_inv_def lease_inv_def active_state_iff)
  have idx: "idx_worker_active (tasks db)" "idx_workspace_active (tasks db)"
    using reachable_wf [OF assms(1)] by (simp_all add: tables_wf_def)
  show ?thesis
    using inj_on_filter_distinct [OF idx(1) [unfolded idx_worker_active_def] assms(3,2)]
      inj_on_filter_distinct [OF idx(2) [unfolded idx_workspace_active_def] assms(3,2)] act assms(2,3)
    by auto
qed

theorem exclusive_leases_witness:
  "{u \<in> set (tasks demo_running). t_leased_by u = Some ''b''} = {hd (tasks demo_running)}"
proof -
  have "hd (tasks demo_running) \<in> set (tasks demo_running)" "t_leased_by (hd (tasks demo_running)) = Some ''b''"
    by (simp_all add: demo_eqs demo_exec)
  moreover from this have "u = hd (tasks demo_running)"
    if "u \<in> set (tasks demo_running)" "t_leased_by u = Some ''b''" for u
    using exclusive_leases [OF demo_reachable(3), of "hd (tasks demo_running)" u] that by (metis option.distinct(1))
  ultimately show ?thesis by blast
qed

text \<open>C23: Quarantine. A task has an entry in the quarantine table if and only if it failed, and then
  exactly one.\<close>

theorem failed_iff_quarantined:
  assumes "reachable cfg db" and "t \<in> set (tasks db)"
  shows "length (filter (\<lambda>q. q_task_id q = t_task_id t) (quarantine db)) = (if t_state t = Failed then 1 else 0)"
  using reachable_life [OF assms] by (auto simp: life_inv_def quarantine_inv_def life_of_def)

theorem failed_iff_quarantined_witness:
  "length (filter (\<lambda>q. q_task_id q = t_task_id (hd (tasks demo_blocked))) (quarantine demo_blocked)) =
     (if t_state (hd (tasks demo_blocked)) = Failed then 1 else 0)"
  by (rule failed_iff_quarantined [OF demo_reachable(8)]) (simp add: demo_eqs)

text \<open>Final states. A completed or failed task stays so: in every later database it is there with
  the same state, commit, builder and validator, generation, attempts, checkpoints and
  reconciliations.\<close>

theorem final_states_stay:
  assumes "reachable cfg db" and "t \<in> set (tasks db)" and "t_state t \<in> {Completed, Failed}"
    and "(pool_step cfg)\<^sup>*\<^sup>* db db'"
  shows "\<exists>t'. find_task (t_task_id t) db' = Some t' \<and> life_of db' t' = life_of db t"
proof -
  obtain t' where "find_task (t_task_id t) db' = Some t'" "keeps_final (life_of db t) (life_of db' t')"
    using finals.later [OF reachable_pool_ok [OF assms(1)] assms(4) reachable_find [OF assms(1,2)]] .
  with assms(3) show ?thesis by (auto simp: keeps_final_def)
qed

theorem final_states_stay_witness:
  "\<exists>t'. find_task (t_task_id (hd (tasks demo_completed))) (exec_call demo_cfg 6 Reconcile demo_completed) = Some t' \<and>
     life_of (exec_call demo_cfg 6 Reconcile demo_completed) t' = life_of demo_completed (hd (tasks demo_completed))"
proof -
  have "(pool_step demo_cfg)\<^sup>*\<^sup>* demo_completed (exec_call demo_cfg 6 Reconcile demo_completed)"
    by (rule r_into_rtranclp, rule pool_step.call) simp
  from final_states_stay [OF demo_reachable(6) _ _ this, of "hd (tasks demo_completed)"]
  show ?thesis by (simp add: demo_completed_eq complete_update_def)
qed

end
