(* ===== verification/Claim_Properties.thy ===== *)
theory Claim_Properties
  imports Pool_Safety
begin

text \<open>
  What the claim gives and to whom: the choice among the eligible tasks, the capacity of the
  repository lane, the reach of the exact claim, and the lease that comes back.
\<close>

definition claim_ttl :: "pool_config \<Rightarrow> claim_request \<Rightarrow> int" where
  "claim_ttl cfg m = int_or (m_lease_seconds m) (default_lease_seconds cfg)"

text \<open>The proof a worker presents with the lease it was given.\<close>

definition proof_of :: "lease \<Rightarrow> lease_proof" where
  "proof_of l = \<lparr>p_task_id = l_task_id l, p_worker_id = l_worker_id l, p_lease_token = l_lease_token l,
     p_lease_generation = Some (l_lease_generation l), p_attempt_id = Some (l_attempt_id l)\<rparr>"

section \<open>Inversion\<close>

lemma claim_task_Inr:
  assumes "claim_task cfg now m db = (Inr res, db')"
  obtains role where "parse_role (py_lower (m_role m)) = Some role" "1 \<le> claim_ttl cfg m"
    "claim_tx cfg now role (claim_ttl cfg m) m db = Inr (res, db')"
  using assms by (auto simp: claim_task_def claim_ttl_def Let_def outcome_simps split: option.splits if_splits)

lemma claim_granted:
  assumes "claim_task cfg now m db = (Inr (Some (row', l)), db')"
    and "parse_role (py_lower (m_role m)) = Some role"
  obtains d w row where "claim_prepare cfg now m db = Inr d" "ready cfg now (m_worker_id m) role d = Inr w"
    "select_task role m d = Some row" "grant now role m (claim_ttl cfg m) row d = Inr ((row', l), db')"
    "1 \<le> claim_ttl cfg m"
  using assms by (elim claim_task_Inr claim_tx_Inr) fastforce

lemma prepared_ok: "pool_ok db \<Longrightarrow> claim_prepare cfg now m db = Inr d \<Longrightarrow> pool_ok d"
  using claim_prepare_step_ok step_ok_pool_ok by blast

section \<open>The count of active tasks\<close>

lemma count_upd_one:
  assumes "distinct (map key rs)" "r \<in> set rs" "\<not> P r" "P (f r)"
  shows "length (filter P (tbl_upd key (key r) f rs)) = Suc (length (filter P rs))"
  using assms
proof (induction rs)
  case (Cons x rs)
  show ?case
  proof (cases "x = r")
    case True
    with Cons.prems have "filter P (tbl_upd key (key r) f rs) = filter P rs"
      by (intro arg_cong [of _ _ "filter P"]) (auto simp: tbl_upd_def intro!: map_idI, metis imageI)
    with True Cons.prems show ?thesis by (simp add: tbl_upd_def)
  next
    case False
    with Cons.prems have "key x \<noteq> key r" by force
    with False Cons show ?thesis by (simp add: tbl_upd_def)
  qed
qed simp

lemma grant_active_count:
  assumes "pool_ok d" "row \<in> set (tasks d)" and g: "grant now Builder m ttl row d = Inr ((row', l), db')"
  shows "active_count (t_repository row) db' = active_count (t_repository row) d + 1"
proof -
  note g = grant_Inr [OF g]
  have "length (filter (\<lambda>t. t_repository t = t_repository row \<and> is_active t)
      (tbl_upd t_task_id (t_task_id row) (claim_update now Builder m (now + seconds ttl)) (tasks d))) =
    Suc (length (filter (\<lambda>t. t_repository t = t_repository row \<and> is_active t) (tasks d)))"
    using assms(1,2) g(3)
    by (intro count_upd_one) (auto simp: pool_ok_def tables_wf_def is_active_def ACTIVE_def claim_update_def)
  then show ?thesis using g(5) by (simp add: active_count_def)
qed

section \<open>A claim that nothing forbids succeeds\<close>

lemma grant_total:
  assumes r: "reachable cfg d" and row: "row \<in> set (tasks d)" "t_state row = (if role = Builder then Queued else Validating)"
      "t_leased_by row = None"
    and busy: "\<not> worker_busy (m_worker_id m) d"
    and fresh: "m_attempt_id m \<noteq> []" "m_attempt_id m \<notin> a_attempt_id ` set (task_attempts d)"
    and own: "\<forall>u\<in>set (tasks d). t_repository u = t_repository row \<and> t_workspace_key u = t_workspace_key row \<longrightarrow> u = row"
  shows "\<exists>row' l d'. grant now role m ttl row d = Inr ((row', l), d')"
proof -
  let ?f = "claim_update now role m (now + seconds ttl)"
  have wf: "tables_wf d" using reachable_wf [OF r] .
  have inv: "life_inv (life_of d row)" using reachable_life [OF r row(1)] .
  have w: "idx_worker_active (tbl_upd t_task_id (t_task_id row) ?f (tasks d))"
    using wf busy row(1) unfolding idx_worker_active_def
    by (intro distinct_upd)
      (auto simp: tables_wf_def idx_worker_active_def worker_busy_def list_ex_iff claim_update_def)
  have s: "idx_workspace_active (tbl_upd t_task_id (t_task_id row) ?f (tasks d))"
    using wf own row(1) unfolding idx_workspace_active_def
    by (intro distinct_upd) (auto simp: tables_wf_def idx_workspace_active_def claim_update_def)
  have uniq: "t = row" if "t \<in> set (tasks d)" "t_task_id t = t_task_id row" for t
    using that row(1) wf by (auto simp: tables_wf_def distinct_map inj_on_def)
  have "t_attempt_id row = None" using inv row(3) by (simp add: life_inv_def lease_inv_def)
  then have g: "\<not> guard_fenced_claim row (?f row)"
    using fresh(1) by (simp add: guard_fenced_claim_def claim_update_def opt_text_def)
  have upd: "sql_update_task (t_task_id row) ?f d = Inr (put_task (t_task_id row) ?f d)"
    using w s g uniq by (auto simp: sql_update_task_def Let_def list_ex_iff)
  have att: "attempt_inv (life_of d row)" using inv by (simp add: life_inv_def)
  have gen: "a_lease_generation a \<le> t_lease_generation row"
    if "a \<in> set (task_attempts d)" "a_task_id a = t_task_id row" for a
  proof -
    have "a_lease_generation a \<in> set (map (\<lambda>x. fst (snd x)) (lf_attempts (life_of d row)))"
      using that by (force simp: life_of_def)
    then have "a_lease_generation a \<in> set (map int [1..<Suc (nat (t_lease_generation row))])"
      using att unfolding attempt_inv_def by simp
    then show ?thesis by auto
  qed
  have pos: "0 \<le> t_lease_generation row" using att by (simp add: attempt_inv_def)
  have "t_task_id row \<in> t_task_id ` set (tasks (put_task (t_task_id row) ?f d))"
  proof -
    have "?f row \<in> set (tasks (put_task (t_task_id row) ?f d))"
      using tasks_tbl.mem_upd [OF row(1), of "t_task_id row" ?f] unfolding if_P [OF refl] .
    moreover have "t_task_id (?f row) = t_task_id row" by (simp add: claim_update_def)
    ultimately show ?thesis by (metis imageI)
  qed
  then have "\<exists>d'. sql_insert_attempt \<lparr>a_attempt_id = m_attempt_id m, a_task_id = t_task_id row,
      a_lease_generation = t_lease_generation (?f row), a_worker_id = m_worker_id m, a_role = role,
      a_lease_started_at = now, a_lease_expires_at = now + seconds ttl, a_ended_at = None, a_end_reason = None\<rparr>
      (put_lane (t_repository row) (claim_lane now role) (put_task (t_task_id row) ?f d)) = Inr d'"
    using fresh(2) gen pos by (force simp: sql_insert_attempt_def claim_update_def)
  then show ?thesis using row(2,3) upd by (auto simp: grant_def Let_def)
qed

lemma only_selects:
  assumes "tables_wf d" "row \<in> set (tasks d)" "find_lane (t_repository row) d = Some r"
    and "m_only_task_id m = Some (t_task_id row)"
    and "if role = Builder then builder_eligible (m_worker_id m) (m_only_task_id m) (m_fencing_required m) d row r
         else validator_eligible (m_worker_id m) (m_only_task_id m) (m_fencing_required m) d row"
  shows "select_task role m d = Some row"
proof -
  have uniq: "t = row" if "t \<in> set (tasks d)" "t_task_id t = t_task_id row" for t
    using that assms(1,2) by (auto simp: tables_wf_def distinct_map inj_on_def)
  have one: "map_option fst (first_min key (join_lanes P d)) = Some row"
    if "P row r" "\<And>t s. P t s \<Longrightarrow> only_matches (m_only_task_id m) t" for P and key :: "task_row \<times> lane_row \<Rightarrow> claim_key"
  proof -
    have "(row, r) \<in> set (join_lanes P d)" using that(1) assms(2,3) by (simp add: join_lanes_mem)
    then obtain x where x: "first_min key (join_lanes P d) = Some x" by (cases "first_min key (join_lanes P d)") auto
    then have "fst x \<in> set (tasks d)" "P (fst x) (snd x)"
      using first_min_Some [OF x] join_lanes_mem [of "fst x" "snd x"] by auto
    then have "fst x = row" using that(2) uniq assms(4) by (auto simp: only_matches_def)
    with x show ?thesis by simp
  qed
  show ?thesis
  proof (cases "role = Builder")
    case True
    show ?thesis unfolding select_task_def select_builder_def if_P [OF True]
      by (rule one) (use assms(5) True in \<open>simp_all add: builder_eligible_def\<close>)
  next
    case False
    show ?thesis unfolding select_task_def select_validator_def if_not_P [OF False]
      by (rule one) (use assms(5) False in \<open>simp_all add: validator_eligible_def\<close>)
  qed
qed

section \<open>Whose turn it is\<close>

text \<open>What a builder may take: a queued task of the asked kind, in an enabled lane that is open to the worker and has a free place.\<close>

definition may_take :: "string \<Rightarrow> string option \<Rightarrow> bool \<Rightarrow> pool_db \<Rightarrow> task_row \<Rightarrow> lane_row \<Rightarrow> bool" where
  "may_take worker only fencing db t r \<longleftrightarrow>
     t_state t = Queued \<and> t_fencing_required t = fencing \<and> r_enabled r \<and>
     (worker \<in> fst ` set (affinity db) \<longrightarrow> (worker, t_repository t) \<in> set (affinity db)) \<and>
     int (length (filter (\<lambda>u. t_repository u = t_repository t \<and> t_state u \<in> {Leased, Running, Validating}) (tasks db))) < r_max_in_flight r \<and>
     (only = None \<or> only = Some (t_task_id t))"

text \<open>A lane that no builder has claimed from comes before one that was; else the instants decide, by their texts.\<close>

definition claimed_before :: "timestamp option \<Rightarrow> timestamp option \<Rightarrow> bool" where
  "claimed_before a b \<longleftrightarrow> (case b of None \<Rightarrow> False | Some y \<Rightarrow> (case a of None \<Rightarrow> True | Some x \<Rightarrow> x \<noteq> y \<and> text_le x y))"

definition served_first :: "task_row \<Rightarrow> lane_row \<Rightarrow> task_row \<Rightarrow> lane_row \<Rightarrow> bool" where
  "served_first t r u s \<longleftrightarrow>
     r_builder_claim_count r < r_builder_claim_count s \<or>
     r_builder_claim_count r = r_builder_claim_count s \<and>
       (claimed_before (r_last_builder_claimed_at r) (r_last_builder_claimed_at s) \<or>
        r_last_builder_claimed_at r = r_last_builder_claimed_at s \<and>
          (r_repository r < r_repository s \<or>
           r_repository r = r_repository s \<and>
             (t_priority t < t_priority u \<or> t_priority t = t_priority u \<and> text_le (t_created_at t) (t_created_at u))))"

lemma may_take_iff: "builder_eligible w only f d t r \<longleftrightarrow> may_take w only f d t r"
proof -
  have "affinity_allows w q d \<longleftrightarrow> (w \<in> fst ` set (affinity d) \<longrightarrow> (w, q) \<in> set (affinity d))" for q
    by (force simp: affinity_allows_def list_ex_iff)
  then show ?thesis
    by (auto simp: builder_eligible_def may_take_def active_count_def is_active_def ACTIVE_def only_matches_def split: option.splits)
qed

lemma pair_le: "(a, b) \<le> (c, d) \<longleftrightarrow> a < c \<or> a = c \<and> b \<le> d" for a c :: "'a :: linorder" and b d :: "'b :: linorder"
  by (auto simp: less_eq_prod_def)

lemma claimed_at_le: "claimed_at_key a < claimed_at_key b \<longleftrightarrow> claimed_before a b" "claimed_at_key a = claimed_at_key b \<longleftrightarrow> a = b"
  by (auto simp: claimed_at_key_def claimed_before_def text_le_def iso_key_inj order_le_less split: option.splits)

lemma served_first_iff: "builder_key (t, r) \<le> builder_key (u, s) \<longleftrightarrow> served_first t r u s"
  unfolding builder_key_def served_first_def text_le_def claimed_at_le [symmetric] by (auto simp: pair_le)

lemma join_split:
  assumes "concat (map (\<lambda>t. case f t of None \<Rightarrow> [] | Some r \<Rightarrow> if P t r then [(t, r)] else []) ts) = us @ (t, r) # vs"
  shows "\<exists>before after. ts = before @ t # after \<and> f t = Some r \<and> P t r \<and>
    us = concat (map (\<lambda>t. case f t of None \<Rightarrow> [] | Some r \<Rightarrow> if P t r then [(t, r)] else []) before) \<and>
    vs = concat (map (\<lambda>t. case f t of None \<Rightarrow> [] | Some r \<Rightarrow> if P t r then [(t, r)] else []) after)"
  using assms
proof (induction ts arbitrary: us)
  case (Cons x ts)
  show ?case
  proof (cases "f x = None \<or> (\<exists>q. f x = Some q \<and> \<not> P x q)")
    case True
    with Cons.prems obtain before after where "ts = before @ t # after" "f t = Some r" "P t r"
      "us = concat (map (\<lambda>t. case f t of None \<Rightarrow> [] | Some r \<Rightarrow> if P t r then [(t, r)] else []) before)"
      "vs = concat (map (\<lambda>t. case f t of None \<Rightarrow> [] | Some r \<Rightarrow> if P t r then [(t, r)] else []) after)"
      using Cons.IH [of us] by auto
    with True show ?thesis by (intro exI [of _ "x # before"] exI [of _ after]) auto
  next
    case False
    then obtain q where q: "f x = Some q" "P x q" by (cases "f x") auto
    show ?thesis
    proof (cases us)
      case Nil
      with Cons.prems q show ?thesis by (intro exI [of _ "[]"] exI [of _ ts]) auto
    next
      case (Cons y us')
      with Cons.prems q have "y = (x, q)"
        "concat (map (\<lambda>t. case f t of None \<Rightarrow> [] | Some r \<Rightarrow> if P t r then [(t, r)] else []) ts) = us' @ (t, r) # vs" by auto
      with Cons.IH [of us'] obtain before after where "ts = before @ t # after" "f t = Some r" "P t r"
        "us' = concat (map (\<lambda>t. case f t of None \<Rightarrow> [] | Some r \<Rightarrow> if P t r then [(t, r)] else []) before)"
        "vs = concat (map (\<lambda>t. case f t of None \<Rightarrow> [] | Some r \<Rightarrow> if P t r then [(t, r)] else []) after)" by auto
      with q Cons \<open>y = (x, q)\<close> show ?thesis by (intro exI [of _ "x # before"] exI [of _ after]) auto
    qed
  qed
qed simp

text \<open>C24: Fair choice. A successful builder claim takes a task that the worker may take after the recovery that precedes the choice: queued, of the asked
  kind, in an enabled lane open to the worker with a free place. Among those tasks it is the first in turn: the lane with the fewest builder claims, then the
  lane least recently claimed by a builder (one never claimed first), then the repository name, the task's priority and its age; tasks
  that agree in all of this are served in the order in which they were inserted.\<close>

theorem builder_claim_is_fair:
  assumes "claim_task cfg now m db = (Inr (Some (row', l)), db')"
    and "parse_role (py_lower (m_role m)) = Some Builder"
  shows "\<exists>d row r before after. claim_prepare cfg now m db = Inr d \<and> tasks d = before @ row # after \<and>
    t_task_id row' = t_task_id row \<and> l_task_id l = t_task_id row \<and> find_lane (t_repository row) d = Some r \<and>
    may_take (m_worker_id m) (m_only_task_id m) (m_fencing_required m) d row r \<and>
    (\<forall>t s. t \<in> set before \<and> find_lane (t_repository t) d = Some s \<and>
       may_take (m_worker_id m) (m_only_task_id m) (m_fencing_required m) d t s \<longrightarrow> \<not> served_first t s row r) \<and>
    (\<forall>t s. t \<in> set after \<and> find_lane (t_repository t) d = Some s \<and>
       may_take (m_worker_id m) (m_only_task_id m) (m_fencing_required m) d t s \<longrightarrow> served_first row r t s)"
proof -
  let ?P = "\<lambda>d. builder_eligible (m_worker_id m) (m_only_task_id m) (m_fencing_required m) d"
  obtain d w row where d: "claim_prepare cfg now m db = Inr d"
    and sel: "select_task Builder m d = Some row" and g: "grant now Builder m (claim_ttl cfg m) row d = Inr ((row', l), db')"
    using claim_granted [OF assms] .
  from sel obtain r where "first_min builder_key (join_lanes (?P d) d) = Some (row, r)"
    by (auto simp: select_task_def elim: select_builder_Some)
  from first_min_first [OF this] obtain us vs where uv: "join_lanes (?P d) d = us @ (row, r) # vs"
    "\<forall>x\<in>set us. builder_key (row, r) < builder_key x" "\<forall>x\<in>set vs. builder_key (row, r) \<le> builder_key x" by blast
  from join_split [OF uv(1) [unfolded join_lanes_def]] obtain before after where
    ts: "tasks d = before @ row # after" "find_lane (t_repository row) d = Some r" "?P d row r"
    and us: "us = concat (map (\<lambda>t. case find_lane (t_repository t) d of None \<Rightarrow> [] | Some r \<Rightarrow> if ?P d t r then [(t, r)] else []) before)"
    and vs: "vs = concat (map (\<lambda>t. case find_lane (t_repository t) d of None \<Rightarrow> [] | Some r \<Rightarrow> if ?P d t r then [(t, r)] else []) after)"
    by blast
  have "t_task_id row' = t_task_id row \<and> l_task_id l = t_task_id row"
    using g by (auto simp: grant_def claim_update_def Let_def outcome_simps split: if_splits)
  moreover have "\<not> served_first t s row r"
    if "t \<in> set before" "find_lane (t_repository t) d = Some s" "?P d t s" for t s
  proof -
    have "(t, s) \<in> set us" unfolding us using that by force
    then show ?thesis using uv(2) by (simp flip: served_first_iff add: not_le)
  qed
  moreover have "served_first row r t s"
    if "t \<in> set after" "find_lane (t_repository t) d = Some s" "?P d t s" for t s
  proof -
    have "(t, s) \<in> set vs" unfolding vs using that by force
    then show ?thesis using uv(3) by (simp flip: served_first_iff)
  qed
  ultimately show ?thesis using d ts unfolding may_take_iff by blast
qed

definition demo_late :: task_row where
  "demo_late = demo_row\<lparr>t_task_id := ''late'', t_priority := 101\<rparr>"

definition demo_two :: pool_db where
  "demo_two = demo_queued\<lparr>tasks := [demo_late, demo_row]\<rparr>"

text \<open>Of two queued tasks of one lane the more urgent one is taken, although it was inserted later.\<close>

theorem builder_claim_is_fair_witness:
  "\<exists>row' l db' r. claim_task demo_cfg 1 demo_builder_claim demo_two = (Inr (Some (row', l)), db') \<and> t_task_id row' = demo_id \<and>
    find_lane ''o/r'' demo_two = Some r \<and> may_take ''b'' None True demo_two demo_late r \<and> \<not> served_first demo_late r demo_row r"
proof -
  have id: "t_task_id demo_row = demo_id" "demo_id \<noteq> ''late''" "t_repository demo_row = ''o/r''" "t_repository demo_late = ''o/r''"
    "t_task_id demo_late = ''late''"
    by (simp_all add: demo_row_def demo_late_def demo_id_def task_id_def new_task_def demo_task_def demo_text)
  have prep: "claim_prepare demo_cfg 1 demo_builder_claim demo_two = Inr demo_two"
    by (simp add: demo_two_def demo_late_def demo_eqs demo_exec Let_def)
  have "\<exists>l db'. claim_task demo_cfg 1 demo_builder_claim demo_two =
     (Inr (Some (claim_update 1 Builder demo_builder_claim 60000001 demo_row, l)), db')"
    by (simp add: demo_two_def demo_late_def builder_key_def demo_eqs demo_exec Let_def task_id_def)
  then obtain l db' where c: "claim_task demo_cfg 1 demo_builder_claim demo_two =
     (Inr (Some (claim_update 1 Builder demo_builder_claim 60000001 demo_row, l)), db')" by blast
  have "parse_role (py_lower (m_role demo_builder_claim)) = Some Builder" by (simp add: demo_exec)
  from builder_claim_is_fair [OF c this, unfolded prep] obtain row r before after where
    t: "[demo_late, demo_row] = before @ row # after" "t_task_id row = demo_id" "find_lane (t_repository row) demo_two = Some r"
    and first: "\<And>t s. t \<in> set before \<Longrightarrow> find_lane (t_repository t) demo_two = Some s \<Longrightarrow> may_take ''b'' None True demo_two t s \<Longrightarrow> \<not> served_first t s row r"
    by (auto simp: demo_two_def claim_update_def id(1) demo_builder_claim_def demo_claim_def)
  have "before = [demo_late] \<and> row = demo_row" using t(1,2) id by (cases before) (auto simp: Cons_eq_append_conv)
  moreover have "r = new_lane ''o/r'' 0" using t(3) calculation id by (simp add: demo_two_def demo_eqs find_lane_def new_lane_def)
  moreover have "may_take ''b'' None True demo_two demo_late (new_lane ''o/r'' 0)"
    by (simp add: may_take_def demo_two_def demo_late_def demo_eqs demo_exec)
  ultimately show ?thesis using c first t(3) id by (auto simp: claim_update_def)
qed

text \<open>C25: Lane capacity. After a successful builder claim on a database that satisfies the invariant the
  lane of the task is enabled, open to the worker, and holds at most as many active tasks as
  its limit allows.\<close>

theorem builder_claim_within_capacity:
  assumes "reachable cfg db" and "claim_task cfg now m db = (Inr (Some (row', l)), db')"
    and "parse_role (py_lower (m_role m)) = Some Builder"
  shows "\<exists>r. find_lane (t_repository row') db' = Some r \<and> r_enabled r \<and>
    active_count (t_repository row') db' \<le> r_max_in_flight r \<and>
    affinity_allows (m_worker_id m) (t_repository row') db'"
proof -
  obtain d w row where d: "claim_prepare cfg now m db = Inr d"
    and sel: "select_task Builder m d = Some row" and g: "grant now Builder m (claim_ttl cfg m) row d = Inr ((row', l), db')"
    using claim_granted [OF assms(2,3)] .
  from sel obtain r where r: "row \<in> set (tasks d)" "find_lane (t_repository row) d = Some r"
    "builder_eligible (m_worker_id m) (m_only_task_id m) (m_fencing_required m) d row r"
    by (auto simp: select_task_def elim: select_builder_Some)
  have ok: "pool_ok d" using prepared_ok [OF reachable_pool_ok [OF assms(1)] d] .
  note gi = grant_Inr [OF g]
  have rep: "t_repository row' = t_repository row" using gi(1) by (simp add: claim_update_def)
  have lane: "find_lane (t_repository row) db' = Some (claim_lane now Builder r)"
    using gi(5) r(2) by (simp add: find_lane_def tbl_get_upd claim_lane_def)
  have "affinity db' = affinity d" using gi(5) by simp
  with r(3) have "affinity_allows (m_worker_id m) (t_repository row) db'"
    by (simp add: affinity_allows_def builder_eligible_def)
  moreover have "r_enabled (claim_lane now Builder r)"
    "active_count (t_repository row) db' \<le> r_max_in_flight (claim_lane now Builder r)"
    using r(3) grant_active_count [OF ok r(1) g] by (simp_all add: builder_eligible_def claim_lane_def)
  ultimately show ?thesis using lane by (auto simp: rep)
qed

theorem builder_claim_within_capacity_witness:
  "\<exists>r. find_lane ''o/r'' demo_leased = Some r \<and> r_enabled r \<and>
     active_count ''o/r'' demo_leased \<le> r_max_in_flight r \<and> affinity_allows ''b'' ''o/r'' demo_leased"
proof -
  have "\<exists>l. claim_task demo_cfg 1 demo_builder_claim demo_queued =
     (Inr (Some (claim_update 1 Builder demo_builder_claim 60000001 demo_row, l)), demo_leased)"
    by (simp add: demo_eqs demo_exec Let_def)
  then obtain l where c: "claim_task demo_cfg 1 demo_builder_claim demo_queued =
     (Inr (Some (claim_update 1 Builder demo_builder_claim 60000001 demo_row, l)), demo_leased)" by blast
  have "parse_role (py_lower (m_role demo_builder_claim)) = Some Builder" by (simp add: demo_exec)
  from builder_claim_within_capacity [OF demo_reachable(1) c this] show ?thesis
    by (simp add: demo_builder_claim_def demo_claim_def demo_row_def new_task_def demo_task_def demo_text claim_update_def)
qed

text \<open>The exact claim touches one task. A claim that names a task id leaves every other task's row and
  every other task's attempts as they were, whether it succeeds, finds nothing or raises, and
  what it returns is that task.\<close>

theorem exact_claim_touches_one_task:
  assumes "m_only_task_id m = Some tid" and "claim_task cfg now m db = (res, db')" and "k \<noteq> tid"
  shows "find_task k db' = find_task k db \<and> attempts_of k db' = attempts_of k db \<and>
    (\<forall>row l. res = Inr (Some (row, l)) \<longrightarrow> t_task_id row = tid \<and> l_task_id l = tid)"
proof (cases "\<exists>row' l. res = Inr (Some (row', l))")
  case True
  then obtain row' l role where c: "claim_task cfg now m db = (Inr (Some (row', l)), db')"
    and role: "parse_role (py_lower (m_role m)) = Some role" and res: "res = Inr (Some (row', l))"
    using assms(2) by (metis claim_task_Inr)
  obtain d w row where d: "claim_prepare cfg now m db = Inr d" and sel: "select_task role m d = Some row"
    and g: "grant now role m (claim_ttl cfg m) row d = Inr ((row', l), db')"
    using claim_granted [OF c role] .
  have [simp]: "d = db" using d assms(1) by (simp add: claim_prepare_def)
  have tid: "t_task_id row = tid" using select_task_Some(2) [OF sel] assms(1) by (simp add: only_matches_def)
  note gi = grant_Inr [OF g]
  have "find_task k db' = find_task k db"
    using gi(5) tid assms(3) by (simp add: find_task_def tbl_get_upd claim_update_def)
  moreover have "attempts_of k db' = attempts_of k db"
    using gi(5) tid assms(3) by (simp add: attempts_of_def new_attempt_def)
  ultimately show ?thesis using gi(1,2) tid res by (simp add: claim_update_def)
next
  case False
  have "db' = db"
    using assms(1,2) False
    by (fastforce simp: claim_task_def claim_tx_def claim_prepare_def run_tx_def Let_def bindE_def
        split: option.splits if_splits sum.splits prod.splits)
  with False show ?thesis by auto
qed

theorem exact_claim_touches_one_task_witness:
  "find_task ''other'' (snd (claim_task demo_cfg 1 (demo_builder_claim\<lparr>m_only_task_id := Some demo_id\<rparr>) demo_queued))
     = find_task ''other'' demo_queued"
proof -
  have "''other'' \<noteq> demo_id" by (simp add: demo_id_def task_id_def)
  then show ?thesis
    using exact_claim_touches_one_task [of "demo_builder_claim\<lparr>m_only_task_id := Some demo_id\<rparr>" demo_id demo_cfg 1
        demo_queued "fst (claim_task demo_cfg 1 (demo_builder_claim\<lparr>m_only_task_id := Some demo_id\<rparr>) demo_queued)"
        "snd (claim_task demo_cfg 1 (demo_builder_claim\<lparr>m_only_task_id := Some demo_id\<rparr>) demo_queued)" "''other''"]
    by simp
qed

lemma claim_lease_check:
  assumes "reachable cfg db" and "claim_task cfg now m db = (Inr (Some (row', l)), db')"
  shows "lease_check t (proof_of l) ACTIVE db' =
    (if t < l_lease_expires_at l then Inr row' else Inl (ConflictError ''lease expirado''))"
proof -
  obtain role where role: "parse_role (py_lower (m_role m)) = Some role" using assms(2) by (metis claim_task_Inr)
  obtain d w row where d: "claim_prepare cfg now m db = Inr d" and sel: "select_task role m d = Some row"
    and g: "grant now role m (claim_ttl cfg m) row d = Inr ((row', l), db')"
    using claim_granted [OF assms(2) role] .
  have "pool_ok d" using prepared_ok [OF reachable_pool_ok [OF assms(1)] d] .
  then have row: "find_task (t_task_id row) d = Some row"
    using select_task_Some(1) [OF sel] by (simp add: pool_ok_def tables_wf_def tasks_tbl.get_iff)
  note gi = grant_Inr [OF g]
  have "find_task (t_task_id row) db' = Some row'"
    using gi(1,5) row by (simp add: find_task_def tbl_get_upd claim_update_def)
  then show ?thesis using gi(1,2)
    by (auto simp: lease_check_def proof_of_def claim_update_def ACTIVE_def)
qed

text \<open>The lease that is returned is the lease that is checked. Until it expires, the proof built from
  the lease of a successful claim passes the lease check for every active state, and the check
  finds the very row the claim returned; from its expiry on, it is rejected.\<close>

theorem claimed_lease_accepted:
  assumes "reachable cfg db" and "claim_task cfg now m db = (Inr (Some (row', l)), db')"
  shows "lease_check t (proof_of l) ACTIVE db' =
    (if t < l_lease_expires_at l then Inr row' else Inl (ConflictError ''lease expirado''))"
  by (rule claim_lease_check [OF assms])

theorem claimed_lease_accepted_witness:
  "\<exists>row l. claim_task demo_cfg 1 demo_builder_claim demo_queued = (Inr (Some (row, l)), demo_leased) \<and>
     lease_check 2 (proof_of l) ACTIVE demo_leased = Inr row"
proof -
  have "\<exists>row l. claim_task demo_cfg 1 demo_builder_claim demo_queued = (Inr (Some (row, l)), demo_leased) \<and>
     l_lease_expires_at l = 60000001"
    by (simp add: demo_eqs demo_exec Let_def)
  then obtain row l where c: "claim_task demo_cfg 1 demo_builder_claim demo_queued = (Inr (Some (row, l)), demo_leased)"
    and e: "l_lease_expires_at l = 60000001" by blast
  from claimed_lease_accepted [OF demo_reachable(1) c, of 2] c e show ?thesis by simp
qed

end
