(* ===== verification/Recovery_Properties.thy ===== *)
theory Recovery_Properties
  imports Pool_Safety
begin

text \<open>
  The recovery cycle: it always returns, it clears every expired lease, it decides the fate of
  each task by the source's three-way rule, and it leaves the other tasks alone.
\<close>

definition recovery_outcome :: "timestamp \<Rightarrow> pool_db \<Rightarrow> task_row \<Rightarrow> task_row" where
  "recovery_outcome now db t =
     (if t_fencing_required t \<and> has_unresolved_effect db (t_task_id t)
      then release_lease Blocked (Some effect_reason) effect_reason now t
      else if t_max_attempts t \<le> t_attempt_count t
      then release_lease Failed None ''lease_expired_max_attempts'' now t
      else release_lease (requeue_state t) None ''lease_expired_recovered'' now t)"

section \<open>The update that releases a lease cannot fail\<close>

lemma distinct_filter_upd:
  assumes "distinct (map g (filter P rs))" and "\<And>r. r \<in> set rs \<Longrightarrow> key r = k \<Longrightarrow> P (f r) \<Longrightarrow> P r \<and> g (f r) = g r"
  shows "distinct (map g (filter P (tbl_upd key k f rs)))"
    and "set (map g (filter P (tbl_upd key k f rs))) \<subseteq> set (map g (filter P rs))"
  using assms
proof (induction rs)
  case (Cons r rs)
  {
    case 1
    with Cons show ?case by (fastforce simp: tbl_upd_def split: if_splits)
  next
    case 2
    with Cons show ?case by (fastforce simp: tbl_upd_def split: if_splits)
  }
qed (simp_all add: tbl_upd_def)

lemma release_update_total:
  assumes "tables_wf db" "tasks d = tasks db" "releasing f" "row \<in> set (tasks db)" "t_task_id row = tid"
    and "is_active row" "t_repository (f row) = t_repository row" "t_workspace_key (f row) = t_workspace_key row"
  shows "sql_update_task tid f d = Inr (put_task tid f d)"
proof -
  have uniq: "t = row" if "t \<in> set (tasks db)" "t_task_id t = tid" for t
    using that assms(1,4,5) by (auto simp: tables_wf_def distinct_map inj_on_def)
  have wf: "idx_worker_active (tasks d)" "idx_workspace_active (tasks d)" using assms(1,2) by (simp_all add: tables_wf_def)
  have w: "idx_worker_active (tasks (put_task tid f d))"
    using wf(1) assms(3) unfolding idx_worker_active_def
    by (simp, intro distinct_filter_upd(1)) (auto simp: releasing_def)
  have s: "idx_workspace_active (tasks (put_task tid f d))"
    using wf(2) unfolding idx_workspace_active_def
    by (simp, intro distinct_filter_upd(1)) (use uniq assms(2,6-8) in auto)
  have "\<not> guard_fenced_claim t (f t)" for t
    using assms(3) by (simp add: guard_fenced_claim_def releasing_def)
  with w s show ?thesis by (simp add: sql_update_task_def Let_def list_ex_iff del: put_task_simps)
qed

section \<open>Loops over a snapshot of rows\<close>

lemma foldE_rows_total:
  assumes "distinct (map t_task_id rows)" and "J (db_of s)"
    and "\<And>r. r \<in> set rows \<Longrightarrow> find_task (t_task_id r) (db_of s) = Some r"
    and "\<And>r s. r \<in> set rows \<Longrightarrow> find_task (t_task_id r) (db_of s) = Some r \<Longrightarrow> J (db_of s) \<Longrightarrow>
      \<exists>s'. f r s = Inr s' \<and> J (db_of s') \<and> (\<exists>t. find_task (t_task_id r) (db_of s') = Some t \<and> Q r t) \<and>
        (\<forall>k. k \<noteq> t_task_id r \<longrightarrow> find_task k (db_of s') = find_task k (db_of s))"
  shows "\<exists>s'. foldE f rows s = Inr s' \<and> J (db_of s') \<and>
    (\<forall>r\<in>set rows. \<exists>t. find_task (t_task_id r) (db_of s') = Some t \<and> Q r t) \<and>
    (\<forall>k. k \<notin> t_task_id ` set rows \<longrightarrow> find_task k (db_of s') = find_task k (db_of s))"
  using assms
proof (induction rows arbitrary: s)
  case Nil
  then show ?case by simp
next
  case (Cons r rows)
  obtain s1 where s1: "f r s = Inr s1" "J (db_of s1)" "\<exists>t. find_task (t_task_id r) (db_of s1) = Some t \<and> Q r t"
    and other: "\<And>k. k \<noteq> t_task_id r \<Longrightarrow> find_task k (db_of s1) = find_task k (db_of s)"
    using Cons.prems(4) [of r s] Cons.prems(2) Cons.prems(3) [of r] by auto
  have kept: "find_task (t_task_id x) (db_of s1) = Some x" if "x \<in> set rows" for x
  proof -
    have "t_task_id x \<noteq> t_task_id r" using that Cons.prems(1) by (auto simp: image_iff)
    then show ?thesis using other [of "t_task_id x"] Cons.prems(3) [of x] that by simp
  qed
  have "\<exists>s'. foldE f rows s1 = Inr s' \<and> J (db_of s') \<and>
    (\<forall>r\<in>set rows. \<exists>t. find_task (t_task_id r) (db_of s') = Some t \<and> Q r t) \<and>
    (\<forall>k. k \<notin> t_task_id ` set rows \<longrightarrow> find_task k (db_of s') = find_task k (db_of s1))"
    by (rule Cons.IH) (use Cons.prems(1) s1(2) kept in \<open>simp_all add: Cons.prems(4)\<close>)
  then obtain s' where s': "foldE f rows s1 = Inr s'" "J (db_of s')"
    "\<And>r. r \<in> set rows \<Longrightarrow> \<exists>t. find_task (t_task_id r) (db_of s') = Some t \<and> Q r t"
    "\<And>k. k \<notin> t_task_id ` set rows \<Longrightarrow> find_task k (db_of s') = find_task k (db_of s1)" by blast
  have "t_task_id r \<notin> t_task_id ` set rows" using Cons.prems(1) by simp
  then have "\<exists>t. find_task (t_task_id r) (db_of s') = Some t \<and> Q r t" using s'(4) s1(3) by simp
  then show ?case using s1(1) s' other by (intro exI [of _ s']) auto
qed

lemma end_attempt_frame:
  "has_unresolved_effect (end_attempt row st r db) = has_unresolved_effect db"
  "has_unresolved_effect (do_quarantine row q st db) = has_unresolved_effect db"
  "has_unresolved_effect (put_task tid f db) = has_unresolved_effect db"
  by (simp_all add: fun_eq_iff has_unresolved_effect_def unresolved_checkpoint_def reconciled_def superseded_def)

lemma released_task:
  assumes "pool_ok db" "find_task (t_task_id row) db = Some row" "is_active row" "tasks d = tasks db"
  shows "sql_update_task (t_task_id row) (release_lease s r e now) d = Inr (put_task (t_task_id row) (release_lease s r e now) d)"
    and "find_task k (put_task (t_task_id row) (release_lease s r e now) d) =
      (if k = t_task_id row then Some (release_lease s r e now row) else find_task k db)"
proof -
  have mem: "row \<in> set (tasks db)" using tasks_tbl.get_mem [OF assms(2)] .
  show "sql_update_task (t_task_id row) (release_lease s r e now) d = Inr (put_task (t_task_id row) (release_lease s r e now) d)"
    by (rule release_update_total [OF _ assms(4) releasing_updates(1) mem])
      (use assms(1,3) in \<open>simp_all add: pool_ok_def release_lease_def\<close>)
  have "find_task k d = find_task k db" for k using assms(4) by (simp add: find_task_def)
  then show "find_task k (put_task (t_task_id row) (release_lease s r e now) d) =
      (if k = t_task_id row then Some (release_lease s r e now row) else find_task k db)"
    using assms(2) by (simp add: tasks_tbl.get_upd release_lease_def)
qed

lemma recover_row_total:
  assumes ok: "pool_ok db" and row: "find_task (t_task_id row) db = Some row" and act: "is_active row"
  obtains db' where "recover_row now row db = Inr db'" "pool_ok db'"
    "has_unresolved_effect db' = has_unresolved_effect db" "workers db' = workers db"
    "find_task (t_task_id row) db' = Some (recovery_outcome now db row)"
    "\<And>k. k \<noteq> t_task_id row \<Longrightarrow> find_task k db' = find_task k db"
proof -
  define x where "x = (if t_fencing_required row \<and> has_unresolved_effect db (t_task_id row)
      then (Blocked, Some effect_reason, effect_reason, db)
      else if t_max_attempts row \<le> t_attempt_count row
      then (Failed, None, ''lease_expired_max_attempts'', do_quarantine row ''lease_expired_max_attempts'' now db)
      else (requeue_state row, None, ''lease_expired_recovered'', db))"
  obtain s r e d1 where sred: "x = (s, r, e, d1)" by (cases x) auto
  then have d1: "tasks (end_attempt row now e d1) = tasks db" "has_unresolved_effect d1 = has_unresolved_effect db"
    "workers d1 = workers db"
    by (auto simp: x_def end_attempt_frame split: if_splits)
  have out: "recovery_outcome now db row = release_lease s r e now row"
    using sred by (auto simp: x_def recovery_outcome_def split: if_splits)
  define db' where "db' = put_task (t_task_id row) (release_lease s r e now) (end_attempt row now e d1)"
  have rec: "recover_row now row db = Inr db'"
    using released_task(1) [OF ok row act d1(1), of s r e now] sred
    unfolding recover_row_def x_def [symmetric] by (simp add: db'_def)
  have "pool_ok db'" using recover_row_step_ok [OF rec row act] ok step_ok_pool_ok by blast
  moreover have "find_task k db' = (if k = t_task_id row then Some (recovery_outcome now db row) else find_task k db)" for k
    unfolding db'_def out by (rule released_task(2) [OF ok row act d1(1)])
  ultimately show thesis using that rec d1(2,3) by (simp add: db'_def end_attempt_frame)
qed

lemma stall_row_total:
  assumes ok: "pool_ok (snd z)" and row: "find_task (t_task_id row) (snd z) = Some row" and act: "is_active row"
  obtains n' db' s r e where "stall_row cfg now ws row z = Inr (n', db')" "pool_ok db'"
    "find_task (t_task_id row) db' = Some (release_lease s r e now row)"
    "\<And>k. k \<noteq> t_task_id row \<Longrightarrow> find_task k db' = find_task k (snd z)"
proof -
  obtain n db where z: "z = (n, db)" by (cases z)
  note ok = ok [unfolded z snd_conv] and row = row [unfolded z snd_conv]
  define x where "x = (if t_fencing_required row \<and> has_unresolved_effect db (t_task_id row)
          then (Blocked, Some effect_reason, effect_reason, n\<lparr>s_blocked := Suc (s_blocked n)\<rparr>, db)
          else if t_max_attempts row \<le> t_attempt_count row
          then (Failed, None, ''material_progress_timeout_max_attempts'',
                n\<lparr>s_failed := Suc (s_failed n)\<rparr>,
                do_quarantine row ''material_progress_timeout_max_attempts'' now db)
          else if list_ex (\<lambda>w. worker_is_alternative cfg now row w db) ws
          then (requeue_state row, None, ''material_progress_timeout_rerouted'',
                n\<lparr>s_rerouted := Suc (s_rerouted n)\<rparr>, db)
          else (Blocked, Some ''material_progress_timeout_no_alternative'',
                ''material_progress_timeout_no_alternative'', n\<lparr>s_blocked := Suc (s_blocked n)\<rparr>, db))"
  obtain s r e n1 d1 where sred: "x = (s, r, e, n1, d1)" by (cases x) auto
  then have d1: "tasks (end_attempt row now e d1) = tasks db" by (auto simp: x_def split: if_splits)
  define db' where "db' = put_task (t_task_id row) (release_lease s r e now) (end_attempt row now e d1)"
  have rec: "stall_row cfg now ws row z = Inr (n1, db')"
    using released_task(1) [OF ok row act d1, of s r e now] sred
    unfolding stall_row_def z prod.case x_def [symmetric] by (simp add: db'_def)
  have "pool_ok db'" using stall_row_step_ok [OF rec [unfolded z] row act] ok step_ok_pool_ok by blast
  moreover have "find_task k db' = (if k = t_task_id row then Some (release_lease s r e now row) else find_task k db)" for k
    unfolding db'_def by (rule released_task(2) [OF ok row act d1])
  ultimately show thesis using that rec by (simp add: z)
qed

section \<open>The two loops\<close>

lemma recover_total:
  assumes ok: "pool_ok db"
  obtains db' where "recover now db = Inr (length (expired_rows now db), db')" "pool_ok db'"
    "\<And>t. t \<in> set (expired_rows now db) \<Longrightarrow> find_task (t_task_id t) db' = Some (recovery_outcome now db t)"
    "\<And>k. k \<notin> t_task_id ` set (expired_rows now db) \<Longrightarrow> find_task k db' = find_task k db"
proof -
  let ?J = "\<lambda>d. pool_ok d \<and> has_unresolved_effect d = has_unresolved_effect db"
  have wf: "tables_wf db" using ok by (simp add: pool_ok_def)
  have "\<exists>s'. foldE (recover_row now) (expired_rows now db) db = Inr s' \<and> ?J (id s') \<and>
    (\<forall>r\<in>set (expired_rows now db). \<exists>t. find_task (t_task_id r) (id s') = Some t \<and> t = recovery_outcome now db r) \<and>
    (\<forall>k. k \<notin> t_task_id ` set (expired_rows now db) \<longrightarrow> find_task k (id s') = find_task k (id db))"
  proof (rule foldE_rows_total)
    fix r s assume r: "r \<in> set (expired_rows now db)" "find_task (t_task_id r) (id s) = Some r" "?J (id s)"
    then have "pool_ok s" "find_task (t_task_id r) s = Some r" "is_active r" by (simp_all add: expired_rows_def)
    then obtain s' where "recover_row now r s = Inr s'" "pool_ok s'"
      "has_unresolved_effect s' = has_unresolved_effect s"
      "find_task (t_task_id r) s' = Some (recovery_outcome now s r)"
      "\<And>k. k \<noteq> t_task_id r \<Longrightarrow> find_task k s' = find_task k s" by (rule recover_row_total) blast
    moreover have "recovery_outcome now s r = recovery_outcome now db r"
      using r(3) by (simp add: recovery_outcome_def)
    ultimately show "\<exists>s'. recover_row now r s = Inr s' \<and> ?J (id s') \<and>
      (\<exists>t. find_task (t_task_id r) (id s') = Some t \<and> t = recovery_outcome now db r) \<and>
      (\<forall>k. k \<noteq> t_task_id r \<longrightarrow> find_task k (id s') = find_task k (id s))"
      using r(3) by (intro exI [of _ s']) simp
  qed (use ok wf in \<open>auto simp: expired_rows_def intro: distinct_filter_ids find_task_filter\<close>)
  then show thesis using that by (auto simp: recover_def Let_def)
qed

lemma recover_stalled_total:
  assumes ok: "pool_ok db"
  obtains c db' where "recover_stalled cfg now db = Inr (c, db')" "pool_ok db'"
    "\<And>t. t \<in> set (stalled_rows cfg now db) \<Longrightarrow> \<exists>s r e. find_task (t_task_id t) db' = Some (release_lease s r e now t)"
    "\<And>k. k \<notin> t_task_id ` set (stalled_rows cfg now db) \<Longrightarrow> find_task k db' = find_task k db"
proof -
  let ?z = "(\<lparr>s_rerouted = 0, s_blocked = 0, s_failed = 0\<rparr>, db)"
  have wf: "tables_wf db" using ok by (simp add: pool_ok_def)
  have "\<exists>s'. foldE (stall_row cfg now (workers db)) (stalled_rows cfg now db) ?z = Inr s' \<and> pool_ok (snd s') \<and>
    (\<forall>r\<in>set (stalled_rows cfg now db). \<exists>t. find_task (t_task_id r) (snd s') = Some t \<and> (\<exists>s q e. t = release_lease s q e now r)) \<and>
    (\<forall>k. k \<notin> t_task_id ` set (stalled_rows cfg now db) \<longrightarrow> find_task k (snd s') = find_task k (snd ?z))"
  proof (rule foldE_rows_total)
    fix r and z :: "stall_counts \<times> pool_db" assume r: "r \<in> set (stalled_rows cfg now db)" "find_task (t_task_id r) (snd z) = Some r" "pool_ok (snd z)"
    then have "is_active r" by (simp add: stalled_rows_def)
    with r obtain n' db' s q e where "stall_row cfg now (workers db) r z = Inr (n', db')" "pool_ok db'"
      "find_task (t_task_id r) db' = Some (release_lease s q e now r)"
      "\<And>k. k \<noteq> t_task_id r \<Longrightarrow> find_task k db' = find_task k (snd z)" by (metis stall_row_total)
    then show "\<exists>s'. stall_row cfg now (workers db) r z = Inr s' \<and> pool_ok (snd s') \<and>
      (\<exists>t. find_task (t_task_id r) (snd s') = Some t \<and> (\<exists>s q e. t = release_lease s q e now r)) \<and>
      (\<forall>k. k \<noteq> t_task_id r \<longrightarrow> find_task k (snd s') = find_task k (snd z))"
      by (intro exI [of _ "(n', db')"]) auto
  qed (use ok wf in \<open>auto simp: stalled_rows_def intro: distinct_filter_ids find_task_filter\<close>)
  then obtain c db' where "foldE (stall_row cfg now (workers db)) (stalled_rows cfg now db) ?z = Inr (c, db')" "pool_ok db'"
    "\<And>r. r \<in> set (stalled_rows cfg now db) \<Longrightarrow> \<exists>s q e. find_task (t_task_id r) db' = Some (release_lease s q e now r)"
    "\<And>k. k \<notin> t_task_id ` set (stalled_rows cfg now db) \<Longrightarrow> find_task k db' = find_task k db"
    by force
  then show thesis using that by (simp add: recover_stalled_def)
qed

lemma expired_rows_mem:
  "t \<in> set (expired_rows now db) \<longleftrightarrow>
   t \<in> set (tasks db) \<and> is_active t \<and> (\<exists>e. t_lease_expires_at t = Some e \<and> text_le e now)"
  by (auto simp: expired_rows_def split: option.splits)

lemma expired_gone:
  assumes "\<And>t. t \<in> set (tasks db') \<Longrightarrow> t_lease_expires_at t = None \<or> t \<in> set (tasks db) \<and> t \<notin> set (expired_rows now db)"
  shows "expired_rows now db' = []"
proof -
  have "t \<notin> set (expired_rows now db')" for t
    using assms [of t] unfolding expired_rows_mem by auto
  then show ?thesis by (metis list.set_sel(1))
qed

lemma recover_stalled_expired:
  assumes "pool_ok d" "recover_stalled cfg now d = Inr (c, d')" "expired_rows now d = []"
  shows "expired_rows now d' = []"
proof -
  from assms(1) obtain c' d'' where d'': "recover_stalled cfg now d = Inr (c', d'')" "pool_ok d''"
    "\<And>t. t \<in> set (stalled_rows cfg now d) \<Longrightarrow> \<exists>s r e. find_task (t_task_id t) d'' = Some (release_lease s r e now t)"
    "\<And>k. k \<notin> t_task_id ` set (stalled_rows cfg now d) \<Longrightarrow> find_task k d'' = find_task k d"
    by (rule recover_stalled_total) blast
  have [simp]: "d'' = d'" using assms(2) d''(1) by simp
  show ?thesis
  proof (rule expired_gone [of _ d])
    fix t assume t: "t \<in> set (tasks d')"
    then have found: "find_task (t_task_id t) d' = Some t"
      using d''(2) by (simp add: pool_ok_def tables_wf_def tasks_tbl.get_iff)
    show "t_lease_expires_at t = None \<or> t \<in> set (tasks d) \<and> t \<notin> set (expired_rows now d)"
    proof (cases "t_task_id t \<in> t_task_id ` set (stalled_rows cfg now d)")
      case True
      then obtain x s r e where "find_task (t_task_id t) d' = Some (release_lease s r e now x)"
        using d''(3) by force
      with found show ?thesis by (auto simp: release_lease_def)
    next
      case False
      with d''(4) found have "t \<in> set (tasks d)" by (metis \<open>d'' = d'\<close> tasks_tbl.get_mem)
      with assms(3) show ?thesis by simp
    qed
  qed
qed

lemma recovery_outcome_lease: "t_lease_expires_at (recovery_outcome now db t) = None"
  by (simp add: recovery_outcome_def release_lease_def)

lemma recover_expired_gone:
  assumes "pool_ok d" "recover now d = Inr (n, d')"
  shows "expired_rows now d' = []"
proof -
  from assms(1) obtain d'' where d'': "recover now d = Inr (length (expired_rows now d), d'')" "pool_ok d''"
    "\<And>t. t \<in> set (expired_rows now d) \<Longrightarrow> find_task (t_task_id t) d'' = Some (recovery_outcome now d t)"
    "\<And>k. k \<notin> t_task_id ` set (expired_rows now d) \<Longrightarrow> find_task k d'' = find_task k d"
    by (rule recover_total) blast
  have [simp]: "d'' = d'" using assms(2) d''(1) by simp
  show ?thesis
  proof (rule expired_gone [of _ d])
    fix t assume t: "t \<in> set (tasks d')"
    then have found: "find_task (t_task_id t) d' = Some t"
      using d''(2) by (simp add: pool_ok_def tables_wf_def tasks_tbl.get_iff)
    show "t_lease_expires_at t = None \<or> t \<in> set (tasks d) \<and> t \<notin> set (expired_rows now d)"
    proof (cases "t_task_id t \<in> t_task_id ` set (expired_rows now d)")
      case True
      then obtain x where "find_task (t_task_id t) d' = Some (recovery_outcome now d x)" using d''(3) by force
      with found show ?thesis by (metis option.inject recovery_outcome_lease)
    next
      case False
      with d''(4) found have "t \<in> set (tasks d)" by (metis \<open>d'' = d'\<close> tasks_tbl.get_mem)
      with False show ?thesis by blast
    qed
  qed
qed

text \<open>When a lease that ends at \<open>e\<close> is overdue for recovery at \<open>now\<close>, in instants: leases of earlier seconds are; within the
  second of \<open>now\<close> the text order of the two instants decides, in which the whole second comes last.\<close>

definition overdue :: "timestamp \<Rightarrow> timestamp \<Rightarrow> bool" where
  "overdue now e \<longleftrightarrow>
     (if e div usec = now div usec then now mod usec = 0 \<or> e mod usec \<noteq> 0 \<and> e \<le> now else e < now)"

lemma overdue_iff: "text_le e now \<longleftrightarrow> overdue now e"
proof (cases "e div usec = now div usec")
  case True
  have "e \<le> now \<longleftrightarrow> e mod usec \<le> now mod usec"
    using usec_split [of e] usec_split [of now] True by linarith
  then show ?thesis
    using True usec_split [of e] usec_split [of now]
    by (auto simp: overdue_def text_le_def iso_key_def less_eq_prod_def usec_def)
next
  case False
  then show ?thesis by (simp add: overdue_def text_le_different_second)
qed

text \<open>What is not overdue has not ended, or ended with the second in which \<open>now\<close> lies just beginning.\<close>

lemma not_overdue: "\<not> overdue now e \<Longrightarrow> now < e \<or> e = now div usec * usec \<and> e < now"
proof (cases "e div usec = now div usec")
  case True
  assume "\<not> overdue now e"
  with True have r: "now mod usec \<noteq> 0" "e mod usec = 0 \<or> now < e" by (auto simp: overdue_def)
  have "e = now div usec * usec + e mod usec" "now = now div usec * usec + now mod usec" "0 \<le> now mod usec"
    using usec_split [of now] div_mult_mod_eq [of e usec] True by simp_all
  with r show ?thesis by (cases "now < e") linarith+
next
  case False
  moreover assume "\<not> overdue now e"
  ultimately show ?thesis by (cases "now = e") (auto simp: overdue_def)
qed

text \<open>A lease is held in an active state.\<close>

lemma leased_active: "pool_ok db \<Longrightarrow> t \<in> set (tasks db) \<Longrightarrow> t_lease_expires_at t = Some e \<Longrightarrow> is_active t"
  by (auto simp: pool_ok_def life_inv_def lease_inv_def life_of_def active_state_iff dest!: bspec)

text \<open>C26: The recovery cycle always returns and clears the expired leases. On a reachable database the reconciliation cycle raises nothing; it reports
  the number of active tasks whose lease is overdue, where the comparison within the current second is the one of the ISO texts;
  and afterwards every lease that is left ends after the instant of the cycle, or ended exactly at the start of the current
  second: no lease that expired a second ago or more is left.\<close>

theorem reconcile_clears_expired:
  assumes "reachable cfg db"
  shows "\<exists>n c db'. reconcile cfg now db = (Inr (n, c), db') \<and>
    n = length (filter (\<lambda>t. t_state t \<in> {Leased, Running, Validating} \<and> (\<exists>e. t_lease_expires_at t = Some e \<and> overdue now e)) (tasks db)) \<and>
    (\<forall>t e. t \<in> set (tasks db') \<and> t_lease_expires_at t = Some e \<longrightarrow>
       now < e \<or> e = now div usec * usec \<and> e < now)"
proof -
  have ok: "pool_ok db" using reachable_pool_ok [OF assms] .
  then obtain d1 where d1: "recover now db = Inr (length (expired_rows now db), d1)" "pool_ok d1"
    by (metis recover_total)
  from d1(2) obtain c db' where d2: "recover_stalled cfg now d1 = Inr (c, db')" "pool_ok db'"
    by (metis recover_stalled_total)
  have none: "expired_rows now db' = []"
    by (rule recover_stalled_expired [OF d1(2) d2(1) recover_expired_gone [OF ok d1(1)]])
  have "expired_rows now db =
      filter (\<lambda>t. t_state t \<in> {Leased, Running, Validating} \<and> (\<exists>e. t_lease_expires_at t = Some e \<and> overdue now e)) (tasks db)"
    unfolding expired_rows_def by (rule filter_cong) (auto simp: is_active_def ACTIVE_def overdue_iff split: option.splits)
  moreover have "now < e \<or> e = now div usec * usec \<and> e < now" if "t \<in> set (tasks db')" "t_lease_expires_at t = Some e" for t e
  proof -
    have "is_active t" using d2(2) that leased_active by blast
    then have "\<not> overdue now e" using none that expired_rows_mem [of t now db'] by (auto simp: overdue_iff)
    then show ?thesis by (rule not_overdue)
  qed
  ultimately show ?thesis using d1(1) d2(1) by (auto simp: reconcile_def run_tx_def)
qed

theorem reconcile_clears_expired_witness:
  "\<exists>c db'. reconcile demo_cfg 99000000 demo_running = (Inr (1, c), db') \<and>
     list_all (\<lambda>t. case t_lease_expires_at t of None \<Rightarrow> True | Some e \<Rightarrow> 99000000 < e) (tasks db')"
proof -
  obtain n c db' where r: "reconcile demo_cfg 99000000 demo_running = (Inr (n, c), db')"
    "n = length (filter (\<lambda>t. t_state t \<in> {Leased, Running, Validating} \<and> (\<exists>e. t_lease_expires_at t = Some e \<and> overdue 99000000 e)) (tasks demo_running))"
    "\<And>t e. t \<in> set (tasks db') \<Longrightarrow> t_lease_expires_at t = Some e \<Longrightarrow> 99000000 < e \<or> e = 99000000 div usec * usec \<and> e < 99000000"
    using reconcile_clears_expired [OF demo_reachable(3), of 99000000] by blast
  have "overdue 99000000 60000001" by (simp add: overdue_def usec_def)
  then have "n = 1" unfolding r(2) by (simp add: demo_eqs demo_exec)
  moreover have "99000000 div usec * usec = 99000000" by (simp add: usec_def)
  ultimately show ?thesis using r(1,3) by (fastforce simp: list_all_iff split: option.split)
qed

text \<open>The fate of an expired task. Recovery blocks a fenced task with an unresolved effect, sends a
  task without attempts left to failed, and returns any other to the queue, or to validation
  when it already has a produced commit; in each case the lease is gone and the reason is
  recorded.\<close>

theorem recovery_decides:
  assumes "reachable cfg db" and "t \<in> set (expired_rows now db)"
  shows "find_task (t_task_id t) (snd (recover_expired_leases now db)) = Some (recovery_outcome now db t)"
proof -
  from reachable_pool_ok [OF assms(1)] obtain d where "recover now db = Inr (length (expired_rows now db), d)"
    "find_task (t_task_id t) d = Some (recovery_outcome now db t)"
    by (rule recover_total) (use assms(2) in blast)
  then show ?thesis by (simp add: recover_expired_leases_def run_tx_def)
qed

theorem recovery_decides_witness:
  "find_task demo_id (snd (recover_expired_leases 99000000 demo_effect)) =
     Some (recovery_outcome 99000000 demo_effect (hd (tasks demo_effect))) \<and>
   t_state (recovery_outcome 99000000 demo_effect (hd (tasks demo_effect))) = Blocked"
proof -
  have "text_le 60000001 99000000" by code_simp
  then have t: "hd (tasks demo_effect) \<in> set (expired_rows 99000000 demo_effect)"
    and id: "t_task_id (hd (tasks demo_effect)) = demo_id"
    by (simp_all add: demo_eqs demo_exec)
  have "t_state (recovery_outcome 99000000 demo_effect (hd (tasks demo_effect))) = Blocked"
    by (simp add: recovery_outcome_def release_lease_def demo_eqs demo_exec Let_def)
  with recovery_decides [OF demo_reachable(7) t] id show ?thesis by simp
qed

text \<open>Recovery spares the rest. A task whose lease has not expired and that is not stalled goes
  through the reconciliation cycle with its row unchanged.\<close>

theorem reconcile_spares_the_rest:
  assumes "reachable cfg db" and "t \<in> set (tasks db)"
    and "t \<notin> set (expired_rows now db)" and "t \<notin> set (stalled_rows cfg now db)"
  shows "find_task (t_task_id t) (snd (reconcile cfg now db)) = Some t"
proof -
  have ok: "pool_ok db" using reachable_pool_ok [OF assms(1)] .
  have inj: "x = t" if "x \<in> set (tasks db)" "t_task_id x = t_task_id t" for x
    using that assms(2) ok by (auto simp: pool_ok_def tables_wf_def distinct_map inj_on_def)
  from ok obtain d1 where d1: "recover now db = Inr (length (expired_rows now db), d1)" "pool_ok d1"
    "\<And>k. k \<notin> t_task_id ` set (expired_rows now db) \<Longrightarrow> find_task k d1 = find_task k db"
    by (rule recover_total) blast
  have "t_task_id t \<notin> t_task_id ` set (expired_rows now db)"
    using inj assms(3) by (metis expired_rows_mem imageE)
  then have t1: "find_task (t_task_id t) d1 = Some t"
    using d1(3) reachable_find [OF assms(1,2)] by simp
  from d1(2) obtain c db' where d2: "recover_stalled cfg now d1 = Inr (c, db')"
    "\<And>k. k \<notin> t_task_id ` set (stalled_rows cfg now d1) \<Longrightarrow> find_task k db' = find_task k d1"
    by (rule recover_stalled_total) blast
  have "t_task_id t \<notin> t_task_id ` set (stalled_rows cfg now d1)"
  proof
    assume "t_task_id t \<in> t_task_id ` set (stalled_rows cfg now d1)"
    then obtain x where x: "x \<in> set (stalled_rows cfg now d1)" "t_task_id x = t_task_id t" by auto
    then have "find_task (t_task_id x) d1 = Some x"
      using d1(2) by (simp add: stalled_rows_def pool_ok_def tables_wf_def tasks_tbl.get_iff)
    with x t1 have "t \<in> set (stalled_rows cfg now d1)" by simp
    with assms(2,4) show False by (simp add: stalled_rows_def)
  qed
  with d2 t1 have "find_task (t_task_id t) db' = Some t" by simp
  then show ?thesis using d1(1) d2(1) by (simp add: reconcile_def run_tx_def)
qed

theorem reconcile_spares_the_rest_witness:
  "find_task (t_task_id (hd (tasks demo_running))) (snd (reconcile demo_cfg 4 demo_running)) = Some (hd (tasks demo_running))"
proof (rule reconcile_spares_the_rest [OF demo_reachable(3)])
  have "text_le 60000001 4 = False" "text_le 2 (- 599999996) = False" by code_simp+
  then show "hd (tasks demo_running) \<notin> set (expired_rows 4 demo_running)"
    "hd (tasks demo_running) \<notin> set (stalled_rows demo_cfg 4 demo_running)"
    by (simp_all add: demo_eqs demo_exec)
qed (simp add: demo_eqs)

end
