(* ===== verification/Pool_View.thy ===== *)
theory Pool_View
  imports Claim_Properties Recovery_Properties
begin

text \<open>
  The two read models of the pool: \<^verbatim>\<open>WorkerPoolStore.snapshot\<close> with \<^verbatim>\<open>list_quarantine\<close>
  (\<^verbatim>\<open>app/store.py\<close>) and the per-task eligibility precheck \<^verbatim>\<open>app/task_diagnostics.py\<close>. Ages are
  kept in microseconds, and where the code rounds to three decimals, in milliseconds.
\<close>

section \<open>Snapshot\<close>

text \<open>\<^verbatim>\<open>round(age, 3)\<close>, half to even, of a non-negative number of microseconds.\<close>

definition round_ms :: "int \<Rightarrow> int" where
  "round_ms us = (let q = us div 1000; r = us mod 1000 in
     if r < 500 \<or> r = 500 \<and> even q then q else q + 1)"

definition age :: "timestamp \<Rightarrow> timestamp \<Rightarrow> int" where
  "age now t = max 0 (now - t)"

record worker_view =
  wv_worker :: worker_row
  wv_online :: bool
  wv_heartbeat_age_ms :: int
  wv_active_task :: "string option"
  wv_active_sha :: "string option"
  wv_repository_affinity :: "string list"
  wv_why_idle :: "string option"

record lane_view =
  lv_lane :: lane_row
  lv_queued :: nat
  lv_active :: nat

record task_view =
  tv_task :: task_row
  tv_progress_age_ms :: int
  tv_progress_stalled :: bool

record snapshot_view =
  sv_generated_at :: timestamp
  sv_workers :: "worker_view list"
  sv_repositories :: "lane_view list"
  sv_queue :: "(task_state \<times> nat) list"
  sv_quarantine_count :: nat
  sv_progress_stall_seconds :: int
  sv_tasks :: "task_view list"

definition count_state :: "task_state \<Rightarrow> pool_db \<Rightarrow> nat" where
  "count_state s db = length (filter (\<lambda>t. t_state t = s) (tasks db))"

definition open_tasks :: "pool_db \<Rightarrow> task_row list" where
  "open_tasks db = sort_key (\<lambda>t. (t_priority t, iso_key (t_created_at t), t_task_id t))
     (filter (\<lambda>t. t_state t \<noteq> Completed) (tasks db))"

text \<open>The dictionary from holders to tasks: a later task replaces an earlier one.\<close>

definition active_task :: "string \<Rightarrow> task_row list \<Rightarrow> task_row option" where
  "active_task w ts = (if w = [] then None else find (\<lambda>t. t_leased_by t = Some w) (rev ts))"

definition why_idle :: "pool_config \<Rightarrow> timestamp \<Rightarrow> pool_db \<Rightarrow> task_row option \<Rightarrow> worker_row \<Rightarrow> string option" where
  "why_idle cfg now db task w =
     (if \<not> age now (w_last_heartbeat_at w) \<le> seconds (heartbeat_ttl_seconds cfg) then Some ''offline_or_stale''
      else if w_profile w = ESTUDO then Some ''profile_estudo''
      else if \<not> w_gateway_ok w \<or> \<not> w_state_validated w then Some ''governance_not_ready''
      else if task \<noteq> None then None
      else if w_role w = Builder \<and> count_state Queued db = 0 then Some ''no_queued_work''
      else if w_role w = Validator \<and> count_state Validating db = 0 then Some ''no_validation_work''
      else Some ''available'')"

definition view_worker :: "pool_config \<Rightarrow> timestamp \<Rightarrow> pool_db \<Rightarrow> worker_row \<Rightarrow> worker_view" where
  "view_worker cfg now db w =
     (let task = active_task (w_worker_id w) (open_tasks db) in
      \<lparr>wv_worker = w, wv_online = (age now (w_last_heartbeat_at w) \<le> seconds (heartbeat_ttl_seconds cfg)),
       wv_heartbeat_age_ms = round_ms (age now (w_last_heartbeat_at w)),
       wv_active_task = map_option t_task_id task,
       wv_active_sha = Option.bind task t_produced_sha,
       wv_repository_affinity = sort (map snd (filter (\<lambda>(x, _). x = w_worker_id w) (affinity db))),
       wv_why_idle = why_idle cfg now db task w\<rparr>)"

definition view_lane :: "pool_db \<Rightarrow> lane_row \<Rightarrow> lane_view" where
  "view_lane db r =
     \<lparr>lv_lane = r,
      lv_queued = length (filter (\<lambda>t. t_repository t = r_repository r \<and> t_state t = Queued) (tasks db)),
      lv_active = length (filter (\<lambda>t. t_repository t = r_repository r \<and> is_active t) (tasks db))\<rparr>"

definition view_task :: "pool_config \<Rightarrow> timestamp \<Rightarrow> task_row \<Rightarrow> task_view" where
  "view_task cfg now t =
     (let a = age now (t_last_material_progress_at t) in
      \<lparr>tv_task = t\<lparr>t_lease_token := None\<rparr>, tv_progress_age_ms = round_ms a,
       tv_progress_stalled = (is_active t \<and> seconds (progress_stall_seconds cfg) \<le> a)\<rparr>)"

definition read_snapshot :: "pool_config \<Rightarrow> timestamp \<Rightarrow> pool_db \<Rightarrow> snapshot_view" where
  "read_snapshot cfg now db =
     \<lparr>sv_generated_at = now,
      sv_workers = map (view_worker cfg now db) (sort_key (\<lambda>w. (w_host w, w_worker_id w)) (workers db)),
      sv_repositories = map (view_lane db) (sort_key r_repository (repository_lanes db)),
      sv_queue = map (\<lambda>s. (s, count_state s db)) STATES,
      sv_quarantine_count = length (quarantine db),
      sv_progress_stall_seconds = progress_stall_seconds cfg,
      sv_tasks = map (view_task cfg now) (open_tasks db)\<rparr>"

definition snapshot :: "pool_config \<Rightarrow> timestamp \<Rightarrow> snapshot_view pool_op" where
  "snapshot cfg now db =
     (case recover_expired_leases now db of
        (Inl e, d) \<Rightarrow> (Inl e, d)
      | (Inr _, d1) \<Rightarrow>
          case recover_stalled_tasks cfg now d1 of
            (Inl e, d) \<Rightarrow> (Inl e, d)
          | (Inr _, d2) \<Rightarrow> (Inr (read_snapshot cfg now d2), d2))"

text \<open>\<^verbatim>\<open>ORDER BY id DESC\<close>: ids are given in order of insertion.\<close>

definition list_quarantine :: "pool_db \<Rightarrow> quarantine_row list" where
  "list_quarantine db = rev (quarantine db)"

section \<open>Task diagnostics\<close>

definition age_seconds :: "timestamp \<Rightarrow> timestamp \<Rightarrow> int" where
  "age_seconds t now = round_ms (max 0 (now - t))"

definition required_role :: "task_row \<Rightarrow> role option" where
  "required_role t =
     (if t_state t = Queued \<and> t_leased_by t = None then Some Builder
      else if t_state t = Validating \<and> t_leased_by t = None then Some Validator else None)"

definition worker_reasons ::
  "string option \<Rightarrow> int \<Rightarrow> timestamp \<Rightarrow> pool_db \<Rightarrow> task_row \<Rightarrow> worker_row \<Rightarrow> string list" where
  "worker_reasons rules ttl now db t w =
     (let lane = find_lane (t_repository t) db;
          allowed = filter (\<lambda>(x, _). x = w_worker_id w) (affinity db) in
      (if ttl * 1000 < age_seconds (w_last_heartbeat_at w) now then [''offline_or_stale''] else []) @
      (if w_profile w \<noteq> NORMAL then [''profile_not_normal''] else []) @
      (if \<not> w_gateway_ok w \<or> \<not> w_state_validated w then [''governance_not_ready''] else []) @
      (if opt_text rules \<noteq> [] \<and> w_rules_sha w \<noteq> rules then [''rules_sha_mismatch''] else []) @
      (if list_ex (\<lambda>x. t_leased_by x = Some (w_worker_id w) \<and> is_active x) (tasks db) then [''worker_busy''] else []) @
      (if allowed \<noteq> [] \<and> t_repository t \<notin> snd ` set allowed then [''repository_affinity_mismatch''] else []) @
      (case lane of None \<Rightarrow> [''lane_disabled_or_missing'']
       | Some r \<Rightarrow> if r_enabled r then [] else [''lane_disabled_or_missing'']) @
      (case lane of None \<Rightarrow> []
       | Some r \<Rightarrow> if w_role w = Builder \<and> r_max_in_flight r \<le> active_count (t_repository t) db
                   then [''lane_capacity_reached''] else []) @
      (if w_role w = Validator \<and> t_builder_worker_id t = Some (w_worker_id w)
       then [''validator_same_as_builder''] else []) @
      (if required_role t \<noteq> Some (w_role w) then [''role_not_required_for_task_state''] else []))"

record worker_precheck =
  wp_worker_id :: string
  wp_role :: role
  wp_profile :: profile
  wp_heartbeat_age_ms :: int
  wp_gateway_ok :: bool
  wp_state_validated :: bool
  wp_rules_sha_matches :: bool
  wp_eligibility_precheck :: bool
  wp_why_idle :: string
  wp_reasons :: "string list"

definition precheck ::
  "string option \<Rightarrow> int \<Rightarrow> timestamp \<Rightarrow> pool_db \<Rightarrow> task_row \<Rightarrow> worker_row \<Rightarrow> worker_precheck" where
  "precheck rules ttl now db t w =
     (let reasons = worker_reasons rules ttl now db t w in
      \<lparr>wp_worker_id = w_worker_id w, wp_role = w_role w, wp_profile = w_profile w,
       wp_heartbeat_age_ms = age_seconds (w_last_heartbeat_at w) now,
       wp_gateway_ok = w_gateway_ok w, wp_state_validated = w_state_validated w,
       wp_rules_sha_matches = (opt_text rules = [] \<or> w_rules_sha w = rules),
       wp_eligibility_precheck = (reasons = []),
       wp_why_idle = (case reasons of [] \<Rightarrow> ''available_precheck_only'' | r # _ \<Rightarrow> r),
       wp_reasons = reasons\<rparr>)"

record diagnosis =
  dg_observed_at :: timestamp
  dg_task :: task_row
  dg_lease_expired :: bool
  dg_blocked_reason :: "string option"
  dg_progress_age_ms :: int
  dg_progress_stalled :: bool
  dg_required_role :: "role option"
  dg_lane_configured :: bool
  dg_lane_enabled :: bool
  dg_lane_max_in_flight :: "int option"
  dg_lane_active :: int
  dg_workers :: "worker_precheck list"
  dg_eligible_workers :: nat

text \<open>\<^verbatim>\<open>re.fullmatch(r"[a-z][a-z0-9_:-]{0,127}", reason)\<close>\<close>

definition REASON_CODE :: "string \<Rightarrow> bool" where
  "REASON_CODE s \<longleftrightarrow>
     (case s of [] \<Rightarrow> False
      | c # cs \<Rightarrow> is_lower c \<and> length cs \<le> 127 \<and>
          list_all (\<lambda>x. is_lower x \<or> is_digit x \<or> x \<in> set ''_:-'') cs)"

definition redact :: "string option \<Rightarrow> string option" where
  "redact r = (if opt_text r = [] then None else if REASON_CODE (opt_text r) then r else Some ''redacted'')"

definition role_rank :: "role \<Rightarrow> int" where
  "role_rank r = (if r = Builder then 0 else 1)"

definition read_task_diagnostics ::
  "string option \<Rightarrow> int \<Rightarrow> int \<Rightarrow> timestamp \<Rightarrow> string \<Rightarrow> pool_db \<Rightarrow> pool_error + diagnosis" where
  "read_task_diagnostics rules ttl stall now tid db =
     (if \<not> TASK_ID tid then Inl (ValueError ''task_id invalido'')
      else if ttl \<le> 0 \<or> stall \<le> 0 then Inl (ValueError ''timeouts invalidos'')
      else case find_task tid db of
        None \<Rightarrow> Inl (NotFoundError ''task_not_found'')
      | Some t \<Rightarrow>
          (let lane = find_lane (t_repository t) db;
               progress = age_seconds (t_last_material_progress_at t) now;
               views = map (precheck rules ttl now db t)
                         (sort_key (\<lambda>w. (role_rank (w_role w), w_worker_id w)) (workers db)) in
           Inr \<lparr>dg_observed_at = now, dg_task = t\<lparr>t_lease_token := None\<rparr>,
             dg_lease_expired = (case t_lease_expires_at t of None \<Rightarrow> False | Some e \<Rightarrow> e \<le> now),
             dg_blocked_reason = redact (t_blocked_reason t),
             dg_progress_age_ms = progress,
             dg_progress_stalled = (is_active t \<and> stall * 1000 \<le> progress),
             dg_required_role = required_role t,
             dg_lane_configured = (lane \<noteq> None),
             dg_lane_enabled = (case lane of None \<Rightarrow> False | Some r \<Rightarrow> r_enabled r),
             dg_lane_max_in_flight = map_option r_max_in_flight lane,
             dg_lane_active = active_count (t_repository t) db,
             dg_workers = views,
             dg_eligible_workers = length (filter wp_eligibility_precheck views)\<rparr>))"

definition demo_paused :: pool_db where
  "demo_paused = exec_call demo_cfg 3 (ConfigureRepository ''o/r'' False 1) demo_validating"

section \<open>Counting\<close>

lemma length_by_key:
  assumes "finite K" "f ` set qs \<subseteq> K"
  shows "length qs = (\<Sum>k\<in>K. length (filter (\<lambda>q. f q = k) qs))"
  using assms(2)
proof (induction qs)
  case (Cons q qs)
  have "(\<Sum>k\<in>K. length (filter (\<lambda>x. f x = k) (q # qs))) =
      (\<Sum>k\<in>K. length (filter (\<lambda>x. f x = k) qs) + (if k = f q then 1 else 0))"
    by (rule sum.cong) auto
  also have "\<dots> = (\<Sum>k\<in>K. length (filter (\<lambda>x. f x = k) qs)) + 1"
    using Cons.prems assms(1) by (simp add: sum.distrib)
  finally show ?case using Cons by simp
qed simp

lemma quarantine_counts_failed:
  assumes "pool_ok db"
  shows "length (quarantine db) = count_state Failed db"
proof -
  have wf: "tables_wf db" and inj: "inj_on t_task_id (set (tasks db))" and dist: "distinct (tasks db)"
    using assms by (auto simp: pool_ok_def tables_wf_def distinct_map)
  have "length (quarantine db) =
      (\<Sum>k\<in>t_task_id ` set (tasks db). length (filter (\<lambda>q. q_task_id q = k) (quarantine db)))"
    using wf by (intro length_by_key) (auto simp: tables_wf_def)
  also have "\<dots> = (\<Sum>t\<in>set (tasks db). length (filter (\<lambda>q. q_task_id q = t_task_id t) (quarantine db)))"
    by (simp add: sum.reindex [OF inj])
  also have "\<dots> = (\<Sum>t\<in>set (tasks db). if t_state t = Failed then 1 else 0)"
    using assms by (intro sum.cong) (auto simp: pool_ok_def life_inv_def quarantine_inv_def life_of_def)
  also have "\<dots> = card {t \<in> set (tasks db). t_state t = Failed}" by (simp add: sum.If_cases Int_def)
  also have "\<dots> = length (filter (\<lambda>t. t_state t = Failed) (tasks db))"
    using distinct_card [of "filter (\<lambda>t. t_state t = Failed) (tasks db)"] dist by simp
  finally show ?thesis by (simp add: count_state_def)
qed

lemma counts_all: "sum_list (map (\<lambda>s. count_state s db) STATES) = length (tasks db)"
proof -
  have "sum_list (map (\<lambda>s. length (filter (\<lambda>t. t_state t = s) ts)) STATES) = length ts" for ts :: "task_row list"
  proof (induction ts)
    case (Cons t ts)
    then show ?case by (cases "t_state t") (simp_all add: STATES_def)
  qed (simp add: STATES_def)
  then show ?thesis by (simp add: count_state_def)
qed

text \<open>The snapshot is consistent. On a reachable database it always returns; no lease it shows is
  expired; its queue counts add up to the number of tasks; the active count it shows for a lane
  is the one the claim compares with the lane's limit; and the number of quarantined entries
  is the number of failed tasks.\<close>

theorem snapshot_consistent:
  assumes "reachable cfg db"
  shows "\<exists>v db'. snapshot cfg now db = (Inr v, db') \<and> expired_rows now db' = [] \<and>
    sum_list (map snd (sv_queue v)) = length (tasks db') \<and>
    (\<forall>l\<in>set (sv_repositories v). int (lv_active l) = active_count (r_repository (lv_lane l)) db') \<and>
    (Failed, sv_quarantine_count v) \<in> set (sv_queue v)"
proof -
  from reachable_pool_ok [OF assms] obtain n d1 where d1: "recover now db = Inr (n, d1)" "pool_ok d1"
    by (metis recover_total)
  from d1(2) obtain c d2 where d2: "recover_stalled cfg now d1 = Inr (c, d2)" "pool_ok d2"
    by (metis recover_stalled_total)
  have snap: "snapshot cfg now db = (Inr (read_snapshot cfg now d2), d2)"
    using d1(1) d2(1) by (simp add: snapshot_def recover_expired_leases_def recover_stalled_tasks_def run_tx_def)
  have "expired_rows now d2 = []"
    using recover_stalled_expired [OF d1(2) d2(1) recover_expired_gone] d1 reachable_pool_ok [OF assms] by blast
  moreover have "sum_list (map snd (sv_queue (read_snapshot cfg now d2))) = length (tasks d2)"
    using counts_all [of d2] by (simp add: read_snapshot_def comp_def)
  moreover have "int (lv_active l) = active_count (r_repository (lv_lane l)) d2"
    if "l \<in> set (sv_repositories (read_snapshot cfg now d2))" for l
    using that by (auto simp: read_snapshot_def view_lane_def active_count_def)
  moreover have "(Failed, sv_quarantine_count (read_snapshot cfg now d2)) \<in> set (sv_queue (read_snapshot cfg now d2))"
    using quarantine_counts_failed [OF d2(2)] by (auto simp: read_snapshot_def STATES_def)
  ultimately show ?thesis using snap by blast
qed

theorem snapshot_consistent_witness:
  "\<exists>v db'. snapshot demo_cfg 99000000 demo_running = (Inr v, db') \<and> expired_rows 99000000 db' = []"
  using snapshot_consistent [OF demo_reachable(3), of 99000000] by blast

text \<open>Who is shown idle for want of work can claim. A worker that the snapshot shows as available, or
  as idle only because its queue is empty, passes the readiness check of the claim in the
  database the snapshot was read from, unless its rules differ from the expected ones: the
  snapshot does not look at the rules.\<close>

theorem idle_worker_is_ready:
  assumes "find_worker wid db = Some w" and "wid \<noteq> []"
    and "wv_why_idle (view_worker cfg now db w) \<in> {Some ''available'', Some ''no_queued_work'', Some ''no_validation_work''}"
  shows "ready cfg now wid (w_role w) db =
    (if rules_divergent cfg w then Inl (ConflictError ''worker rules_sha divergente'') else Inr w)"
proof -
  have id: "w_worker_id w = wid" using workers_tbl.get_key [OF assms(1)] .
  let ?task = "active_task wid (open_tasks db)"
  have why: "why_idle cfg now db ?task w \<in> {Some ''available'', Some ''no_queued_work'', Some ''no_validation_work''}"
    using assms(3) id by (simp add: view_worker_def Let_def)
  then have ok: "age now (w_last_heartbeat_at w) \<le> seconds (heartbeat_ttl_seconds cfg)" "w_profile w = NORMAL"
    "w_gateway_ok w" "w_state_validated w" "?task = None"
    by (cases "w_profile w"; auto simp: why_idle_def split: if_splits)+
  have "\<not> worker_busy wid db"
  proof
    assume "worker_busy wid db"
    then obtain t where t: "t \<in> set (tasks db)" "t_leased_by t = Some wid" "is_active t"
      by (auto simp: worker_busy_def list_ex_iff)
    then have "t \<in> set (open_tasks db)" by (auto simp: open_tasks_def is_active_def ACTIVE_def)
    with t(2) ok(5) assms(2) show False by (auto simp: active_task_def find_None_iff)
  qed
  moreover have "\<not> stale_heartbeat cfg now w" using ok(1) by (auto simp: stale_heartbeat_def age_def)
  ultimately show ?thesis using assms(1) ok by (simp add: ready_def)
qed

theorem idle_worker_is_ready_witness:
  "ready demo_cfg 1 ''b'' Builder demo_queued = Inr (demo_worker_row ''b'' Builder)"
proof -
  have "find_worker ''b'' demo_queued = Some (demo_worker_row ''b'' Builder)"
    by (simp add: demo_queued_eq find_worker_def demo_worker_row_def)
  moreover have "wv_why_idle (view_worker demo_cfg 1 demo_queued (demo_worker_row ''b'' Builder)) = Some ''available''"
    by (simp add: view_worker_def why_idle_def active_task_def open_tasks_def count_state_def age_def demo_eqs demo_exec Let_def)
  ultimately show ?thesis
    using idle_worker_is_ready [of "''b''" demo_queued "demo_worker_row ''b'' Builder" demo_cfg 1]
    by (simp add: rules_divergent_def demo_cfg_def demo_worker_row_def)
qed

section \<open>Diagnostics\<close>

lemma precheck_clear:
  assumes "wp_eligibility_precheck (precheck rules ttl now db t w)"
  obtains r where "find_lane (t_repository t) db = Some r" "r_enabled r" "w_profile w = NORMAL" "w_gateway_ok w"
    "w_state_validated w" "opt_text rules \<noteq> [] \<longrightarrow> w_rules_sha w = rules"
    "\<not> worker_busy (w_worker_id w) db" "affinity_allows (w_worker_id w) (t_repository t) db"
    "w_role w = Builder \<longrightarrow> active_count (t_repository t) db < r_max_in_flight r"
    "w_role w = Validator \<longrightarrow> t_builder_worker_id t \<noteq> Some (w_worker_id w)"
    "required_role t = Some (w_role w)"
proof -
  have clear: "worker_reasons rules ttl now db t w = []" using assms by (simp add: precheck_def Let_def)
  then obtain r where r: "find_lane (t_repository t) db = Some r"
    by (cases "find_lane (t_repository t) db") (simp_all add: worker_reasons_def Let_def)
  have "affinity_allows (w_worker_id w) (t_repository t) db"
    using clear by (auto simp: worker_reasons_def Let_def affinity_allows_def list_ex_iff filter_empty_conv split: if_splits)
  then show thesis using that r clear
    by (auto simp: worker_reasons_def Let_def worker_busy_def split: if_splits)
qed

text \<open>The precheck is sound. When the diagnosis of a task calls a worker eligible, and its heartbeat
  is fresh (the diagnosis rounds its age to milliseconds), the exact claim of that task by that
  worker at the same instant, in the task's fencing mode, succeeds and returns the task.\<close>

theorem precheck_is_sound:
  assumes "reachable cfg db" and "t \<in> set (tasks db)" and "find_worker wid db = Some w"
    and "wp_eligibility_precheck (precheck (expected_rules_sha cfg) ttl now db t w)"
    and "\<not> stale_heartbeat cfg now w" and "expected_rules_sha cfg \<noteq> Some []"
    and "m_worker_id m = wid" and "parse_role (py_lower (m_role m)) = Some (w_role w)"
    and "m_only_task_id m = Some (t_task_id t)" and "TASK_ID (t_task_id t)"
    and "m_fencing_required m = t_fencing_required t" and "1 \<le> claim_ttl cfg m"
    and "m_attempt_id m \<noteq> []" and "m_attempt_id m \<notin> a_attempt_id ` set (task_attempts db)"
    and "\<forall>u\<in>set (tasks db). t_repository u = t_repository t \<and> t_workspace_key u = t_workspace_key t \<longrightarrow> u = t"
  shows "\<exists>row l db'. claim_task cfg now m db = (Inr (Some (row, l)), db') \<and> t_task_id row = t_task_id t"
proof -
  have id: "w_worker_id w = wid" using workers_tbl.get_key [OF assms(3)] .
  obtain r where r: "find_lane (t_repository t) db = Some r" "r_enabled r" "w_profile w = NORMAL" "w_gateway_ok w"
    "w_state_validated w" "opt_text (expected_rules_sha cfg) \<noteq> [] \<longrightarrow> w_rules_sha w = expected_rules_sha cfg"
    "\<not> worker_busy (w_worker_id w) db" "affinity_allows (w_worker_id w) (t_repository t) db"
    "w_role w = Builder \<longrightarrow> active_count (t_repository t) db < r_max_in_flight r"
    "w_role w = Validator \<longrightarrow> t_builder_worker_id t \<noteq> Some (w_worker_id w)"
    "required_role t = Some (w_role w)"
    using precheck_clear [OF assms(4)] .
  have st: "t_state t = (if w_role w = Builder then Queued else Validating)" "t_leased_by t = None"
    using r(11) by (auto simp: required_role_def split: if_splits)
  have sha: "w_role w = Validator \<Longrightarrow> t_produced_sha t \<noteq> None"
    using reachable_life [OF assms(1,2)] st(1) by (auto simp: life_inv_def duty_inv_def)
  have "\<not> rules_divergent cfg w"
    using r(6) assms(6) by (cases "expected_rules_sha cfg") (auto simp: rules_divergent_def opt_text_def)
  then have ready: "ready cfg now wid (w_role w) db = Inr w"
    using assms(3,5) r(3,4,5,7) id by (simp add: ready_def)
  have "select_task (w_role w) m db = Some t"
    using st sha r assms(7,9,11) id
    by (intro only_selects [OF reachable_wf [OF assms(1)] assms(2) r(1) assms(9)])
      (cases "w_role w"; simp add: builder_eligible_def validator_eligible_def only_matches_def)
  moreover obtain row l db' where g: "grant now (w_role w) m (claim_ttl cfg m) t db = Inr ((row, l), db')"
    using grant_total [OF assms(1,2) st(1,2) _ assms(13,14,15)] r(7) id assms(7) by metis
  moreover have "t_task_id row = t_task_id t" using grant_Inr(1) [OF g] by (simp add: claim_update_def)
  moreover have "claim_prepare cfg now m db = Inr db" using assms(9) by (simp add: claim_prepare_def)
  ultimately show ?thesis
    using ready assms(7,8,9,10,12)
    by (simp add: claim_task_def claim_tx_def run_tx_def Let_def claim_ttl_def)
qed

theorem precheck_is_sound_witness:
  "\<exists>row l db'. claim_task demo_cfg 1 (demo_builder_claim\<lparr>m_only_task_id := Some demo_id\<rparr>) demo_queued =
     (Inr (Some (row, l)), db') \<and> t_task_id row = demo_id"
proof -
  have id: "t_task_id demo_row = demo_id" by (simp add: demo_row_def new_task_def demo_id_def)
  have "\<exists>row l db'. claim_task demo_cfg 1 (demo_builder_claim\<lparr>m_only_task_id := Some demo_id\<rparr>) demo_queued =
     (Inr (Some (row, l)), db') \<and> t_task_id row = t_task_id demo_row"
  proof (rule precheck_is_sound [OF demo_reachable(1), where wid = "''b''" and w = "demo_worker_row ''b'' Builder" and ttl = 60])
    show "wp_eligibility_precheck (precheck (expected_rules_sha demo_cfg) 60 1 demo_queued demo_row (demo_worker_row ''b'' Builder))"
      by (simp add: precheck_def worker_reasons_def age_seconds_def round_ms_def required_role_def demo_eqs demo_exec Let_def)
    show "TASK_ID (t_task_id demo_row)" by (simp add: id demo_id_def task_id_TASK_ID)
  qed (simp_all add: id demo_id_def claim_ttl_def demo_eqs demo_exec)
  then show ?thesis by (simp only: id)
qed

text \<open>The precheck is not complete. In a lane that is paused the diagnosis calls every validator
  ineligible, while the claim of a validator does not look at the pause: here the claim
  succeeds although the diagnosis names the lane as the only obstacle.\<close>

theorem paused_lane_still_validated:
  "reachable demo_cfg demo_paused \<and>
   wp_reasons (precheck None 60 4 demo_paused (hd (tasks demo_paused)) (demo_worker_row ''v'' Validator))
     = [''lane_disabled_or_missing''] \<and>
   (\<exists>row l db'. claim_task demo_cfg 4 (demo_validator_claim\<lparr>m_only_task_id := Some demo_id\<rparr>) demo_paused =
      (Inr (Some (row, l)), db'))"
proof (intro conjI)
  have val: "validate_repository ''o/r'' = Inr ''o/r''" by code_simp
  show "reachable demo_cfg demo_paused"
    unfolding demo_paused_def by (rule reachable.stepped [OF demo_reachable(4) pool_step.call]) simp
  have paused: "demo_paused = demo_validating\<lparr>repository_lanes :=
      [(claim_lane 1 Builder (new_lane ''o/r'' 0))\<lparr>r_enabled := False, r_updated_at := 3\<rparr>]\<rparr>"
    by (simp add: demo_paused_def configure_repository_def val demo_eqs demo_exec Let_def)
  show "wp_reasons (precheck None 60 4 demo_paused (hd (tasks demo_paused)) (demo_worker_row ''v'' Validator))
     = [''lane_disabled_or_missing'']"
    by (simp add: precheck_def worker_reasons_def age_seconds_def round_ms_def required_role_def paused demo_eqs demo_exec Let_def)
  have "TASK_ID (task_id (identity ''o/r'' 7 ''q''))" by (simp add: task_id_TASK_ID)
  then show "\<exists>row l db'. claim_task demo_cfg 4 (demo_validator_claim\<lparr>m_only_task_id := Some demo_id\<rparr>) demo_paused =
      (Inr (Some (row, l)), db')"
    by (simp add: paused demo_eqs demo_exec Let_def)
qed

end
