(* ===== verification/Work_Orchestrator.thy ===== *)
theory Work_Orchestrator
  imports Pool_Safety
begin

text \<open>
  \<^verbatim>\<open>app/work.py\<close>: \<^verbatim>\<open>WorkOrchestrator\<close>, the facade that ties a work run to a task of the pool, and
  records evidence and the merge result. It reads a run and writes it in two separate
  transactions; the model keeps them apart as a decision and a write, so that interleavings
  can be stated. The table \<^verbatim>\<open>work_runs\<close> is a list of rows next to the pool's database.
\<close>

section \<open>Rows and views\<close>

datatype evidence_state = EvPending | EvVerified

datatype merge_state = MgPending | MgReady | MgBlocked | MgMerged

record work_row =
  v_work_id :: string
  v_task_id :: string
  v_merge_policy :: string
  v_evidence_state :: evidence_state
  v_merge_state :: merge_state
  v_validation_run_id :: "string option"
  v_validation_sha :: "string option"
  v_evidence_reference :: "string option"
  v_independent_readback :: bool
  v_positive_control :: bool
  v_negative_control :: bool
  v_expected_head_sha :: "string option"
  v_merge_commit_sha :: "string option"
  v_merge_reason :: "string option"
  v_correlation_id :: string
  v_created_at :: timestamp
  v_updated_at :: timestamp
  v_merged_at :: "timestamp option"

record app_db =
  pool :: pool_db
  work_runs :: "work_row list"

type_synonym 'a app_op = "app_db \<Rightarrow> (pool_error + 'a) \<times> app_db"

definition MERGE_POLICIES :: "string list" where
  "MERGE_POLICIES = [''governed'']"

definition work_id :: "task_row \<Rightarrow> string" where
  "work_id t = ''work-'' @ take 24 (t_idempotency_key t)"

text \<open>A task without the key \<^verbatim>\<open>lease_token\<close>; in the model the column is empty.\<close>

definition public_task :: "task_row \<Rightarrow> task_row" where
  "public_task t = t\<lparr>t_lease_token := None\<rparr>"

definition find_work :: "string \<Rightarrow> app_db \<Rightarrow> work_row option" where
  "find_work w a = tbl_get v_work_id w (work_runs a)"

definition put_work :: "string \<Rightarrow> (work_row \<Rightarrow> work_row) \<Rightarrow> app_db \<Rightarrow> app_db" where
  "put_work w f a = a\<lparr>work_runs := tbl_upd v_work_id w f (work_runs a)\<rparr>"

definition get_row :: "string \<Rightarrow> app_db \<Rightarrow> pool_error + work_row" where
  "get_row w a = (case find_work w a of
     None \<Rightarrow> Inl (NotFoundError (''work nao encontrado: '' @ w)) | Some r \<Rightarrow> Inr r)"

definition state_name :: "task_state \<Rightarrow> string" where
  "state_name s = (case s of Queued \<Rightarrow> ''queued'' | Leased \<Rightarrow> ''leased'' | Running \<Rightarrow> ''running''
     | Validating \<Rightarrow> ''validating'' | Blocked \<Rightarrow> ''blocked'' | Completed \<Rightarrow> ''completed'' | Failed \<Rightarrow> ''failed'')"

definition phase :: "task_row \<Rightarrow> work_row \<Rightarrow> string" where
  "phase t r =
     (if v_merge_state r = MgMerged then ''merged''
      else if v_merge_state r = MgBlocked then ''merge_blocked''
      else if v_evidence_state r = EvVerified then ''merge''
      else if t_state t = Queued then ''queue''
      else if t_state t \<in> {Leased, Running} then ''worker''
      else if t_state t = Validating then ''validator''
      else if t_state t = Completed then ''evidence''
      else state_name (t_state t))"

record work_view =
  vw_phase :: string
  vw_row :: work_row
  vw_task :: task_row

definition view :: "work_row \<Rightarrow> app_db \<Rightarrow> pool_error + work_view" where
  "view r a = bindE (get_task (v_task_id r) (pool a))
     (\<lambda>t. Inr \<lparr>vw_phase = phase t r, vw_row = r, vw_task = public_task t\<rparr>)"

definition get_work :: "string \<Rightarrow> app_db \<Rightarrow> pool_error + work_view" where
  "get_work w a = bindE (get_row w a) (\<lambda>r. view r a)"

section \<open>Creation\<close>

definition new_work :: "timestamp \<Rightarrow> string \<Rightarrow> string \<Rightarrow> string \<Rightarrow> string \<Rightarrow> work_row" where
  "new_work now w tid policy correlation_id =
     \<lparr>v_work_id = w, v_task_id = tid, v_merge_policy = policy, v_evidence_state = EvPending,
      v_merge_state = MgPending, v_validation_run_id = None, v_validation_sha = None,
      v_evidence_reference = None, v_independent_readback = False, v_positive_control = False,
      v_negative_control = False, v_expected_head_sha = None, v_merge_commit_sha = None,
      v_merge_reason = None, v_correlation_id = correlation_id, v_created_at = now, v_updated_at = now,
      v_merged_at = None\<rparr>"

text \<open>The insert, with the unique column \<^verbatim>\<open>task_id\<close>; the primary key was just looked up.\<close>

definition insert_work :: "work_row \<Rightarrow> app_db \<Rightarrow> pool_error + app_db" where
  "insert_work r a =
     (if v_task_id r \<in> v_task_id ` set (work_runs a) then Inl (IntegrityError ''UNIQUE work_runs.task_id'')
      else Inr (a\<lparr>work_runs := work_runs a @ [r]\<rparr>))"

definition create_work :: "pool_config \<Rightarrow> timestamp \<Rightarrow> task_create \<Rightarrow> string \<Rightarrow> (work_view \<times> bool) app_op" where
  "create_work cfg now n policy a =
     (if policy \<notin> set MERGE_POLICIES then (Inl (ValueError ''merge_policy invalida''), a)
      else case enqueue_task cfg now n (pool a) of
        (Inl e, p) \<Rightarrow> (Inl e, a\<lparr>pool := p\<rparr>)
      | (Inr (task, _), p) \<Rightarrow>
          (let a1 = a\<lparr>pool := p\<rparr>; w = work_id task in
           case find_work w a1 of
             None \<Rightarrow>
               (case insert_work (new_work now w (t_task_id task) policy (n_correlation_id n)) a1 of
                  Inl e \<Rightarrow> (Inl e, a1)
                | Inr a2 \<Rightarrow> (bindE (get_work w a2) (\<lambda>v. Inr (v, True)), a2))
           | Some existing \<Rightarrow>
               if v_task_id existing \<noteq> t_task_id task \<or> v_merge_policy existing \<noteq> policy
               then (Inl (ConflictError ''work divergente no replay''), a1)
               else (bindE (get_work w a1) (\<lambda>v. Inr (v, False)), a1)))"

section \<open>Evidence\<close>

record evidence =
  y_validation_run_id :: string
  y_validation_sha :: string
  y_evidence_reference :: string
  y_independent_readback :: bool
  y_positive_control :: bool
  y_negative_control :: bool
  y_correlation_id :: string

definition same_evidence :: "work_row \<Rightarrow> evidence \<Rightarrow> string \<Rightarrow> bool" where
  "same_evidence r y sha \<longleftrightarrow>
     v_validation_run_id r = Some (py_strip (y_validation_run_id y)) \<and> v_validation_sha r = Some sha \<and>
     v_evidence_reference r = Some (py_strip (y_evidence_reference y)) \<and>
     v_independent_readback r = y_independent_readback y \<and>
     v_positive_control r = y_positive_control y \<and> v_negative_control r = y_negative_control y"

text \<open>Everything up to the write: the row that was read, and whether there is something to write.\<close>

definition evidence_decide :: "string \<Rightarrow> evidence \<Rightarrow> app_db \<Rightarrow> pool_error + (work_row \<times> bool)" where
  "evidence_decide w y a =
     (let sha = py_lower (py_strip (y_validation_sha y)) in
      if \<not> SHA40 sha then Inl (ValueError ''validation_sha invalido'')
      else if py_strip (y_validation_run_id y) = [] \<or> py_strip (y_evidence_reference y) = []
      then Inl (ValueError ''identidade da evidencia invalida'')
      else if \<not> (y_independent_readback y \<and> y_positive_control y \<and> y_negative_control y)
      then Inl (ConflictError ''controles de evidencia incompletos'')
      else bindE (get_row w a) (\<lambda>r. bindE (get_task (v_task_id r) (pool a)) (\<lambda>t.
        if t_state t \<noteq> Completed \<or> opt_text (t_produced_sha t) = []
        then Inl (ConflictError ''task ainda nao esta validada'')
        else if sha \<noteq> py_lower (opt_text (t_produced_sha t))
        then Inl (ConflictError ''validation_sha divergente do produced_sha'')
        else if v_evidence_state r = EvVerified
        then (if same_evidence r y sha then Inr (r, False)
              else Inl (ConflictError ''evidencia divergente no replay''))
        else Inr (r, True))))"

definition evidence_write :: "timestamp \<Rightarrow> string \<Rightarrow> evidence \<Rightarrow> app_db \<Rightarrow> app_db" where
  "evidence_write now w y =
     (let sha = py_lower (py_strip (y_validation_sha y)) in
      put_work w (\<lambda>r. if v_evidence_state r = EvPending
        then r\<lparr>v_evidence_state := EvVerified, v_merge_state := MgReady,
               v_validation_run_id := Some (py_strip (y_validation_run_id y)), v_validation_sha := Some sha,
               v_evidence_reference := Some (py_strip (y_evidence_reference y)),
               v_independent_readback := True, v_positive_control := True, v_negative_control := True,
               v_expected_head_sha := Some sha, v_correlation_id := py_strip (y_correlation_id y),
               v_updated_at := now\<rparr>
        else r))"

definition record_evidence :: "timestamp \<Rightarrow> string \<Rightarrow> evidence \<Rightarrow> work_view app_op" where
  "record_evidence now w y a =
     (case evidence_decide w y a of
        Inl e \<Rightarrow> (Inl e, a)
      | Inr (r, False) \<Rightarrow> (view r a, a)
      | Inr (r, True) \<Rightarrow> (let a' = evidence_write now w y a in (get_work w a', a')))"

section \<open>Merge result\<close>

record merge_result =
  z_expected_head_sha :: string
  z_merged :: bool
  z_correlation_id :: string
  z_merge_commit_sha :: "string option"
  z_reason :: "string option"

definition normalized_commit :: "merge_result \<Rightarrow> string option" where
  "normalized_commit z = text_or_none (py_lower (py_strip (opt_text (z_merge_commit_sha z))))"

definition normalized_reason :: "merge_result \<Rightarrow> string option" where
  "normalized_reason z = text_or_none (sanitize (py_strip (opt_text (z_reason z))))"

definition merge_decide :: "string \<Rightarrow> merge_result \<Rightarrow> app_db \<Rightarrow> pool_error + (work_row \<times> bool)" where
  "merge_decide w z a =
     (let sha = py_lower (py_strip (z_expected_head_sha z)) in
      if \<not> SHA40 sha then Inl (ValueError ''expected_head_sha invalido'')
      else bindE (get_row w a) (\<lambda>r. bindE (get_task (v_task_id r) (pool a)) (\<lambda>t.
        if v_evidence_state r \<noteq> EvVerified \<or> v_merge_state r = MgPending
        then Inl (ConflictError ''evidencia verificada obrigatoria antes do merge'')
        else if sha \<noteq> py_lower (opt_text (t_produced_sha t)) \<or> Some sha \<noteq> v_expected_head_sha r
        then Inl (ConflictError ''expected_head_sha divergente da evidencia'')
        else if z_merged z \<and> \<not> (\<exists>c\<in>set_option (normalized_commit z). SHA40 c)
        then Inl (ValueError ''merge_commit_sha obrigatorio e valido quando merged=true'')
        else if \<not> z_merged z \<and> normalized_commit z \<noteq> None
        then Inl (ValueError ''merge_commit_sha deve ser omitido quando merged=false'')
        else if \<not> z_merged z \<and> normalized_reason z = None
        then Inl (ValueError ''reason obrigatorio quando merged=false'')
        else if v_merge_state r = MgMerged
        then (if \<not> z_merged z \<or> v_merge_commit_sha r \<noteq> normalized_commit z
              then Inl (ConflictError ''resultado de merge divergente no replay'') else Inr (r, False))
        else if v_merge_state r = MgBlocked \<and> \<not> z_merged z
        then (if v_merge_reason r \<noteq> normalized_reason z
              then Inl (ConflictError ''bloqueio de merge divergente no replay'') else Inr (r, False))
        else Inr (r, True))))"

definition merge_write :: "timestamp \<Rightarrow> string \<Rightarrow> merge_result \<Rightarrow> app_db \<Rightarrow> app_db" where
  "merge_write now w z =
     put_work w (\<lambda>r. r\<lparr>v_merge_state := (if z_merged z then MgMerged else MgBlocked),
       v_merge_commit_sha := normalized_commit z, v_merge_reason := normalized_reason z,
       v_correlation_id := py_strip (z_correlation_id z), v_updated_at := now,
       v_merged_at := (if z_merged z then Some now else None)\<rparr>)"

definition record_merge_result :: "timestamp \<Rightarrow> string \<Rightarrow> merge_result \<Rightarrow> work_view app_op" where
  "record_merge_result now w z a =
     (case merge_decide w z a of
        Inl e \<Rightarrow> (Inl e, a)
      | Inr (r, False) \<Rightarrow> (view r a, a)
      | Inr (r, True) \<Rightarrow> (let a' = merge_write now w z a in (get_work w a', a')))"

interpretation works_tbl: keyed_table work_runs v_work_id find_work put_work
  by unfold_locales (simp_all add: find_work_def put_work_def)

section \<open>Histories of the service\<close>

inductive app_step :: "pool_config \<Rightarrow> app_db \<Rightarrow> app_db \<Rightarrow> bool" for cfg where
  on_pool: "pool_step cfg (pool a) p \<Longrightarrow> app_step cfg a (a\<lparr>pool := p\<rparr>)"
| creation: "app_step cfg a (snd (create_work cfg now n policy a))"
| evidence: "app_step cfg a (snd (record_evidence now w y a))"
| merge: "app_step cfg a (snd (record_merge_result now w z a))"

inductive app_reachable :: "pool_config \<Rightarrow> app_db \<Rightarrow> bool" for cfg where
  created: "app_reachable cfg \<lparr>pool = init_db now empty_db, work_runs = []\<rparr>"
| stepped: "app_reachable cfg a \<Longrightarrow> app_step cfg a b \<Longrightarrow> app_reachable cfg b"

section \<open>A run, executed\<close>

definition demo_evidence :: evidence where
  "demo_evidence = \<lparr>y_validation_run_id = ''q'', y_validation_sha = demo_sha, y_evidence_reference = ''h'',
     y_independent_readback = True, y_positive_control = True, y_negative_control = True, y_correlation_id = ''c''\<rparr>"

definition demo_merge :: "bool \<Rightarrow> merge_result" where
  "demo_merge m = \<lparr>z_expected_head_sha = demo_sha, z_merged = m, z_correlation_id = ''c'',
     z_merge_commit_sha = (if m then Some demo_sha else None), z_reason = (if m then None else Some ''n'')\<rparr>"

definition demo_work :: work_row where
  "demo_work = new_work 6 (work_id demo_row) demo_id ''governed'' ''c''"

definition demo_app_created :: app_db where
  "demo_app_created = snd (create_work demo_cfg 6 demo_task ''governed'' \<lparr>pool = demo_completed, work_runs = []\<rparr>)"

definition demo_app_verified :: app_db where
  "demo_app_verified = snd (record_evidence 7 (work_id demo_row) demo_evidence demo_app_created)"

definition demo_app_merged :: app_db where
  "demo_app_merged = snd (record_merge_result 8 (work_id demo_row) (demo_merge True) demo_app_verified)"

section \<open>Interface: what the orchestrator needs of the pool\<close>

text \<open>A completed task stays completed with its commit. On this contract alone rests the claim that
  evidence, once verified, remains evidence about the commit the task produced.\<close>

definition about_commit :: "work_row \<Rightarrow> task_row \<Rightarrow> bool" where
  "about_commit r t \<longleftrightarrow> t_state t = Completed \<and> v_validation_sha r = Some (py_lower (opt_text (t_produced_sha t))) \<and>
     v_expected_head_sha r = v_validation_sha r \<and>
     v_independent_readback r \<and> v_positive_control r \<and> v_negative_control r"

definition run_ok :: "(string \<Rightarrow> task_row option) \<Rightarrow> work_row \<Rightarrow> bool" where
  "run_ok lookup r \<longleftrightarrow>
     (v_evidence_state r = EvPending \<longleftrightarrow> v_merge_state r = MgPending) \<and>
     (v_evidence_state r = EvVerified \<longrightarrow> (\<exists>t. lookup (v_task_id r) = Some t \<and> about_commit r t)) \<and>
     (v_merge_state r = MgMerged \<longrightarrow> (\<exists>c. v_merge_commit_sha r = Some c \<and> SHA40 c)) \<and>
     (v_merge_state r = MgBlocked \<longrightarrow> v_merge_reason r \<noteq> None)"

locale task_source =
  fixes lookup :: "'p \<Rightarrow> string \<Rightarrow> task_row option"
    and evolves_to :: "'p \<Rightarrow> 'p \<Rightarrow> bool"
  assumes completed_kept: "evolves_to p q \<Longrightarrow> lookup p tid = Some t \<Longrightarrow> t_state t = Completed \<Longrightarrow>
    \<exists>u. lookup q tid = Some u \<and> t_state u = Completed \<and> t_produced_sha u = t_produced_sha t"
begin

lemma run_ok_kept: "evolves_to p q \<Longrightarrow> run_ok (lookup p) r \<Longrightarrow> run_ok (lookup q) r"
  unfolding run_ok_def about_commit_def using completed_kept by metis

lemma runs_ok_kept: "evolves_to p q \<Longrightarrow> list_all (run_ok (lookup p)) rs \<Longrightarrow> list_all (run_ok (lookup q)) rs"
  using run_ok_kept by (auto simp: list_all_iff)

end

interpretation pool_tasks: task_source "\<lambda>p tid. find_task tid p" "\<lambda>p q. pool_ok p \<and> (\<exists>cfg. (pool_step cfg)\<^sup>*\<^sup>* p q)"
proof unfold_locales
  fix p q tid t
  assume "pool_ok p \<and> (\<exists>cfg. (pool_step cfg)\<^sup>*\<^sup>* p q)" and t: "find_task tid p = Some t" "t_state t = Completed"
  then obtain cfg where "pool_ok p" "(pool_step cfg)\<^sup>*\<^sup>* p q" by blast
  then obtain u where "find_task tid q = Some u" "keeps_final (life_of p t) (life_of q u)"
    using finals.later t(1) by metis
  then show "\<exists>u. find_task tid q = Some u \<and> t_state u = Completed \<and> t_produced_sha u = t_produced_sha t"
    using t(2) by (auto simp: keeps_final_def life_of_def)
qed

section \<open>The invariant of work runs\<close>

definition merged_as :: "string \<Rightarrow> string option \<Rightarrow> app_db \<Rightarrow> bool" where
  "merged_as w c a \<longleftrightarrow> (\<exists>r. find_work w a = Some r \<and> v_merge_state r = MgMerged \<and> v_merge_commit_sha r = c)"

definition app_ok :: "app_db \<Rightarrow> bool" where
  "app_ok a \<longleftrightarrow> pool_ok (pool a) \<and> distinct (map v_work_id (work_runs a)) \<and> distinct (map v_task_id (work_runs a)) \<and>
     list_all (run_ok (\<lambda>tid. find_task tid (pool a))) (work_runs a)"

lemma app_ok_pool:
  assumes "app_ok a" and "pool_step cfg (pool a) p"
  shows "app_ok (a\<lparr>pool := p\<rparr>)"
proof -
  have ok: "pool_ok (pool a)" using assms(1) by (simp add: app_ok_def)
  have "list_all (run_ok (\<lambda>tid. find_task tid p)) (work_runs a)"
    by (rule pool_tasks.runs_ok_kept [of "pool a"]) (use assms ok in \<open>auto simp: app_ok_def\<close>)
  then show ?thesis using assms step_ok_pool_ok [OF pool_step_ok [OF assms(2)]] by (simp add: app_ok_def)
qed

lemma enqueue_pool_step: "enqueue_task cfg now n p = (res, q) \<Longrightarrow> pool_step cfg p q"
  using pool_step.call [of "EnqueueTask n" cfg p now] by simp

lemma app_ok_create:
  assumes "app_ok a"
  shows "app_ok (snd (create_work cfg now n policy a))"
proof (cases "policy \<in> set MERGE_POLICIES")
  case True
  obtain res p where e: "enqueue_task cfg now n (pool a) = (res, p)" by (cases "enqueue_task cfg now n (pool a)")
  have ok: "app_ok (a\<lparr>pool := p\<rparr>)" using app_ok_pool [OF assms enqueue_pool_step [OF e]] .
  show ?thesis
  proof (cases res)
    case (Inl x)
    with True e ok show ?thesis by (simp add: create_work_def)
  next
    case (Inr tb)
    obtain t b where tb: "tb = (t, b)" by (cases tb)
    let ?r = "new_work now (work_id t) (t_task_id t) policy (n_correlation_id n)"
    have "app_ok b" if "insert_work ?r (a\<lparr>pool := p\<rparr>) = Inr b" "find_work (work_id t) (a\<lparr>pool := p\<rparr>) = None" for b
      using that ok works_tbl.get_None [of "work_id t" "a\<lparr>pool := p\<rparr>"]
      by (auto simp: insert_work_def app_ok_def run_ok_def new_work_def split: if_splits)
    with True e ok Inr tb show ?thesis
      by (auto simp: create_work_def Let_def split: option.splits sum.splits)
  qed
qed (use assms in \<open>simp add: create_work_def\<close>)

lemma app_ok_put:
  assumes "app_ok a" and "\<And>r. v_work_id (f r) = v_work_id r \<and> v_task_id (f r) = v_task_id r"
    and "\<And>r. find_work w a = Some r \<Longrightarrow> run_ok (\<lambda>tid. find_task tid (pool a)) (f r)"
  shows "app_ok (put_work w f a)"
proof -
  have ids: "map v_work_id (tbl_upd v_work_id w f (work_runs a)) = map v_work_id (work_runs a)"
    "map v_task_id (tbl_upd v_work_id w f (work_runs a)) = map v_task_id (work_runs a)"
    using assms(2) by (simp_all add: map_tbl_upd_cong)
  have "run_ok (\<lambda>tid. find_task tid (pool a)) (f r)" if "r \<in> set (work_runs a)" "v_work_id r = w" for r
    using that assms(1,3) works_tbl.get_iff [of a w r] by (auto simp: app_ok_def)
  then show ?thesis using assms(1) ids by (auto simp: app_ok_def put_work_def list_all_iff)
qed

lemma app_ok_evidence: "app_ok a \<Longrightarrow> app_ok (snd (record_evidence now w y a))"
proof (cases "evidence_decide w y a")
  case (Inr rb)
  obtain r b where rb: "rb = (r, b)" by (cases rb)
  assume ok: "app_ok a"
  show ?thesis
  proof (cases b)
    case True
    from Inr rb True obtain t where r: "find_work w a = Some r" and t: "find_task (v_task_id r) (pool a) = Some t"
      "t_state t = Completed" "py_lower (py_strip (y_validation_sha y)) = py_lower (opt_text (t_produced_sha t))"
      by (auto simp: evidence_decide_def Let_def outcome_simps get_row_def get_task_def split: option.splits if_splits)
    have "run_ok (\<lambda>tid. find_task tid (pool a)) r"
      using ok works_tbl.get_mem [OF r] by (auto simp: app_ok_def list_all_iff)
    then have "app_ok (evidence_write now w y a)"
      unfolding evidence_write_def Let_def
      by (intro app_ok_put ok) (use r t in \<open>auto simp: run_ok_def about_commit_def\<close>)
    with Inr rb True show ?thesis by (simp add: record_evidence_def Let_def)
  qed (use Inr rb ok in \<open>simp add: record_evidence_def\<close>)
qed (simp add: record_evidence_def)

lemma merge_decide_write:
  assumes "merge_decide w z a = Inr (r, True)"
  shows "find_work w a = Some r" "v_evidence_state r = EvVerified" "v_merge_state r \<noteq> MgMerged"
    "z_merged z \<Longrightarrow> \<exists>c. normalized_commit z = Some c \<and> SHA40 c" "\<not> z_merged z \<Longrightarrow> normalized_reason z \<noteq> None"
  using assms by (auto simp: merge_decide_def Let_def outcome_simps get_row_def split: option.splits if_splits)

lemma app_ok_merge: "app_ok a \<Longrightarrow> app_ok (snd (record_merge_result now w z a))"
proof (cases "merge_decide w z a")
  case (Inr rb)
  obtain r b where rb: "rb = (r, b)" by (cases rb)
  assume ok: "app_ok a"
  show ?thesis
  proof (cases b)
    case True
    have "merge_decide w z a = Inr (r, True)" using Inr rb True by simp
    note d = merge_decide_write [OF this]
    have "run_ok (\<lambda>tid. find_task tid (pool a)) r"
      using ok works_tbl.get_mem [OF d(1)] by (auto simp: app_ok_def list_all_iff)
    then have "app_ok (merge_write now w z a)"
      unfolding merge_write_def
      by (intro app_ok_put ok) (use d in \<open>auto simp: run_ok_def about_commit_def\<close>)
    with Inr rb True show ?thesis by (simp add: record_merge_result_def Let_def)
  qed (use Inr rb ok in \<open>simp add: record_merge_result_def\<close>)
qed (simp add: record_merge_result_def)

lemma app_reachable_ok: "app_reachable cfg a \<Longrightarrow> app_ok a"
proof (induction rule: app_reachable.induct)
  case (created now)
  then show ?case by (simp add: app_ok_def pool_ok_init)
next
  case (stepped a b)
  from stepped.hyps(2) stepped.IH show ?case
    by cases (auto intro: app_ok_pool app_ok_create app_ok_evidence app_ok_merge)
qed

lemma create_work_pool:
  "pool (snd (create_work cfg now n policy a)) = pool a \<or>
   pool (snd (create_work cfg now n policy a)) = snd (enqueue_task cfg now n (pool a))"
  by (auto simp: create_work_def insert_work_def Let_def split: sum.splits option.splits prod.splits if_splits)

lemma record_pool [simp]:
  "pool (snd (record_evidence now w y a)) = pool a" "pool (snd (record_merge_result now w z a)) = pool a"
  by (auto simp: record_evidence_def record_merge_result_def evidence_write_def merge_write_def put_work_def Let_def
      split: sum.splits prod.splits bool.splits)

lemma app_reachable_pool: "app_reachable cfg a \<Longrightarrow> reachable cfg (pool a)"
proof (induction rule: app_reachable.induct)
  case (created now)
  then show ?case by (simp add: reachable.created)
next
  case (stepped a b)
  have "reachable cfg (snd (enqueue_task cfg now n (pool a)))" for now n
    using reachable.stepped [OF stepped.IH pool_step.call [of "EnqueueTask n"]] by simp
  with stepped.hyps(2) stepped.IH show ?case
    by cases (auto intro: reachable.stepped, metis create_work_pool)
qed

text \<open>C7: A merged run is a governed run. Whenever a run is recorded as merged, its task is completed, was
  built and validated by different workers, the evidence with all three controls was about
  exactly the commit the task produced, and a full merge commit is recorded.\<close>

theorem merged_is_governed:
  assumes "app_reachable cfg a" and "r \<in> set (work_runs a)" and "v_merge_state r = MgMerged"
  shows "\<exists>t b v c. find_task (v_task_id r) (pool a) = Some t \<and> t_state t = Completed \<and>
    t_builder_worker_id t = Some b \<and> t_validator_worker_id t = Some v \<and> b \<noteq> v \<and>
    v_evidence_state r = EvVerified \<and> v_validation_sha r = Some (py_lower (opt_text (t_produced_sha t))) \<and>
    v_expected_head_sha r = v_validation_sha r \<and>
    v_independent_readback r \<and> v_positive_control r \<and> v_negative_control r \<and>
    v_merge_commit_sha r = Some c \<and> SHA40 c"
proof -
  have "run_ok (\<lambda>tid. find_task tid (pool a)) r"
    using app_reachable_ok [OF assms(1)] assms(2) by (auto simp: app_ok_def list_all_iff)
  then obtain t c where t: "find_task (v_task_id r) (pool a) = Some t" "about_commit r t"
    and c: "v_merge_commit_sha r = Some c" "SHA40 c" and e: "v_evidence_state r = EvVerified"
    using assms(3) by (cases "v_evidence_state r") (auto simp: run_ok_def)
  have "duty_inv (life_of (pool a) t)"
    using reachable_life [OF app_reachable_pool [OF assms(1)] tasks_tbl.get_mem [OF t(1)]] by (simp add: life_inv_def)
  with t c e show ?thesis by (auto simp: duty_inv_def about_commit_def)
qed

lemma app_reachable_idle: "reachable cfg p \<Longrightarrow> app_reachable cfg \<lparr>pool = p, work_runs = []\<rparr>"
proof (induction rule: reachable.induct)
  case (stepped p q)
  then show ?case using app_reachable.stepped [OF stepped.IH app_step.on_pool [of cfg _ q]] by simp
qed (rule app_reachable.created)

lemma demo_app_reachable:
  "app_reachable demo_cfg demo_app_created" "app_reachable demo_cfg demo_app_verified"
  "app_reachable demo_cfg demo_app_merged"
proof -
  show c: "app_reachable demo_cfg demo_app_created"
    unfolding demo_app_created_def
    by (rule app_reachable.stepped [OF app_reachable_idle [OF demo_reachable(6)] app_step.creation])
  show v: "app_reachable demo_cfg demo_app_verified"
    unfolding demo_app_verified_def by (rule app_reachable.stepped [OF c app_step.evidence])
  show "app_reachable demo_cfg demo_app_merged"
    unfolding demo_app_merged_def by (rule app_reachable.stepped [OF v app_step.merge])
qed

lemmas demo_work_exec = create_work_def MERGE_POLICIES_def find_work_def insert_work_def new_work_def get_work_def
  get_row_def view_def work_id_def record_evidence_def evidence_decide_def evidence_write_def put_work_def
  same_evidence_def demo_evidence_def demo_merge_def record_merge_result_def merge_decide_def merge_write_def
  normalized_commit_def normalized_reason_def demo_work_def

lemma demo_app_created_eq: "demo_app_created = \<lparr>pool = demo_completed, work_runs = [demo_work]\<rparr>"
  by (simp add: demo_app_created_def demo_work_exec demo_eqs demo_exec Let_def)

lemma demo_strip: "py_strip demo_sha = demo_sha" "sanitize [] = []"
  by code_simp+

lemma demo_app_verified_eq: "demo_app_verified = \<lparr>pool = demo_completed, work_runs = [demo_work
  \<lparr>v_evidence_state := EvVerified, v_merge_state := MgReady, v_validation_run_id := Some ''q'',
   v_validation_sha := Some demo_sha, v_evidence_reference := Some ''h'', v_independent_readback := True,
   v_positive_control := True, v_negative_control := True, v_expected_head_sha := Some demo_sha, v_updated_at := 7\<rparr>]\<rparr>"
  by (simp add: demo_app_verified_def demo_app_created_eq demo_work_exec demo_eqs demo_exec demo_strip Let_def)

lemma demo_app_merged_eq: "demo_app_merged = \<lparr>pool = demo_completed, work_runs = [(hd (work_runs demo_app_verified))
  \<lparr>v_merge_state := MgMerged, v_merge_commit_sha := Some demo_sha, v_updated_at := 8, v_merged_at := Some 8\<rparr>]\<rparr>"
  by (simp add: demo_app_merged_def demo_app_verified_eq demo_work_exec demo_eqs demo_exec demo_strip Let_def)

theorem merged_is_governed_witness:
  "\<exists>t b v c. find_task (v_task_id (hd (work_runs demo_app_merged))) (pool demo_app_merged) = Some t \<and> t_state t = Completed \<and>
    t_builder_worker_id t = Some b \<and> t_validator_worker_id t = Some v \<and> b \<noteq> v \<and>
    v_merge_commit_sha (hd (work_runs demo_app_merged)) = Some c \<and> SHA40 c"
proof -
  have "hd (work_runs demo_app_merged) \<in> set (work_runs demo_app_merged)"
    "v_merge_state (hd (work_runs demo_app_merged)) = MgMerged" by (simp_all add: demo_app_merged_eq)
  from merged_is_governed [OF demo_app_reachable(3) this] show ?thesis by blast
qed

lemma merged_step:
  assumes ok: "app_ok a" and m: "merged_as w c a" and step: "app_step cfg a b"
  shows "merged_as w c b"
proof -
  from m obtain r where r: "find_work w a = Some r" "v_merge_state r = MgMerged" "v_merge_commit_sha r = c"
    by (auto simp: merged_as_def)
  have ver: "v_evidence_state r = EvVerified"
    using ok works_tbl.get_mem [OF r(1)] r(2)
    by (cases "v_evidence_state r") (auto simp: app_ok_def list_all_iff run_ok_def)
  have keep: "merged_as w c (put_work w' f a)"
    if "\<And>x. v_work_id (f x) = v_work_id x" "w' = w \<Longrightarrow> f r = r" for w' f
    using r that by (auto simp: merged_as_def works_tbl.get_upd)
  from step show ?thesis
  proof cases
    case (on_pool p)
    with r show ?thesis by (auto simp: merged_as_def find_work_def)
  next
    case (creation now n policy)
    have "find_work w b = Some r"
      using r(1) unfolding creation
      by (auto simp: create_work_def insert_work_def find_work_def tbl_get_append Let_def
          split: sum.splits option.splits prod.splits if_splits)
    with r show ?thesis by (auto simp: merged_as_def)
  next
    case (evidence now w' y)
    have "merged_as w c (evidence_write now w' y a)"
      unfolding evidence_write_def Let_def by (rule keep) (use ver in auto)
    with m show ?thesis
      unfolding evidence by (auto simp: record_evidence_def Let_def split: sum.splits prod.splits bool.splits)
  next
    case (merge now w' z)
    show ?thesis
    proof (cases "\<exists>x. merge_decide w' z a = Inr (x, True)")
      case True
      then obtain x where x: "merge_decide w' z a = Inr (x, True)" by blast
      then have "w' \<noteq> w" using merge_decide_write(1,3) [OF x] r by auto
      then have "merged_as w c (merge_write now w' z a)" unfolding merge_write_def by (intro keep) auto
      with x show ?thesis unfolding merge by (simp add: record_merge_result_def Let_def)
    next
      case False
      with m show ?thesis
        unfolding merge by (auto simp: record_merge_result_def split: sum.splits prod.splits bool.splits)
    qed
  qed
qed

text \<open>A merge is recorded once. In every sequence of calls after a run was recorded as merged it stays
  merged, with the same commit.\<close>

theorem merged_stays:
  assumes "app_reachable cfg a" and "merged_as w c a" and "(app_step cfg)\<^sup>*\<^sup>* a b"
  shows "merged_as w c b"
proof -
  from assms(3) have "app_reachable cfg b \<and> merged_as w c b"
  proof (induction rule: rtranclp_induct)
    case base
    then show ?case using assms(1,2) by simp
  next
    case (step x y)
    then show ?case using app_reachable.stepped merged_step [OF app_reachable_ok] by blast
  qed
  then show ?thesis by simp
qed

theorem merged_stays_witness:
  "merged_as (work_id demo_row) (Some demo_sha)
     (snd (record_merge_result 9 (work_id demo_row) (demo_merge False) demo_app_merged))"
  by (rule merged_stays [OF demo_app_reachable(3) _ r_into_rtranclp, OF _ app_step.merge])
    (simp add: merged_as_def demo_app_merged_eq demo_app_verified_eq demo_work_exec)

text \<open>Evidence is written once, whatever the interleaving. A request that was decided on an older state
  and writes after another one has verified the run changes nothing.\<close>

theorem evidence_written_once:
  assumes "find_work w a = Some r" and "v_evidence_state r = EvVerified"
  shows "find_work w (evidence_write now w' y a) = Some r"
  using assms by (auto simp: evidence_write_def Let_def works_tbl.get_upd)

theorem evidence_written_once_witness:
  "find_work (work_id demo_row) (evidence_write 9 (work_id demo_row) (demo_evidence\<lparr>y_validation_run_id := ''other''\<rparr>) demo_app_verified)
     = Some (hd (work_runs demo_app_verified))"
  by (rule evidence_written_once) (simp_all add: demo_app_verified_eq demo_work_exec)

text \<open>The merge result has no such guard. When two requests for a run, one reporting the merge and one
  reporting a block, are both decided before either writes, both are accepted, and if the
  block is written last the run ends as blocked and the merge commit is lost.\<close>

theorem merge_race_loses_commit:
  assumes "merge_decide w z1 a = Inr (r, True)" and "z_merged z1"
    and "merge_decide w z2 a = Inr (r', True)" and "\<not> z_merged z2"
  shows "\<exists>x. find_work w (merge_write t2 w z2 (merge_write t1 w z1 a)) = Some x \<and>
    v_merge_state x = MgBlocked \<and> v_merge_commit_sha x = None \<and> v_merged_at x = None \<and>
    (\<exists>y. find_work w (merge_write t1 w z1 a) = Some y \<and> v_merge_state y = MgMerged \<and> v_merge_commit_sha y \<noteq> None)"
proof -
  have c: "normalized_commit z2 = None"
    using assms(3,4) by (auto simp: merge_decide_def Let_def outcome_simps split: if_splits)
  obtain k where k: "normalized_commit z1 = Some k" using merge_decide_write(4) [OF assms(1,2)] by blast
  show ?thesis
    using merge_decide_write(1) [OF assms(1)] c k assms(2,4)
    by (simp add: merge_write_def works_tbl.get_upd)
qed

theorem merge_race_loses_commit_witness:
  "\<exists>x. find_work (work_id demo_row) (merge_write 9 (work_id demo_row) (demo_merge False)
      (merge_write 8 (work_id demo_row) (demo_merge True) demo_app_verified)) = Some x \<and>
    v_merge_state x = MgBlocked \<and> v_merge_commit_sha x = None"
proof -
  have "merge_decide (work_id demo_row) (demo_merge m) demo_app_verified = Inr (hd (work_runs demo_app_verified), True)" for m
    by (cases m; simp add: demo_app_verified_eq demo_work_exec demo_eqs demo_exec demo_strip Let_def)
  from merge_race_loses_commit [OF this [of True] _ this [of False], of 9 8] show ?thesis
    by (auto simp: demo_merge_def)
qed

end
