(* ===== verification/Reconciler.thy ===== *)
theory Reconciler
  imports Recovery_Properties
begin

text \<open>
  \<^verbatim>\<open>app/reconcile.py\<close>: \<^verbatim>\<open>ReconciliationController\<close>. Its fields are a record, \<^verbatim>\<open>start\<close>, \<^verbatim>\<open>stop\<close> and
  \<^verbatim>\<open>run_once\<close> are functions of it, and the background loop is the sequence of its cycles. The
  result of \<^verbatim>\<open>store.reconcile\<close> is an argument of \<^verbatim>\<open>run_once\<close>, so that a cycle that raises (for
  instance because the disk is unavailable) is a branch of the model; \<open>cycle\<close> supplies the
  store's own result.
\<close>

datatype loop_task = NoTask | ActiveTask | DoneTask

record controller =
  rc_interval :: rat
  rc_task :: loop_task
  rc_running :: bool
  rc_last_started_at :: "timestamp option"
  rc_last_completed_at :: "timestamp option"
  rc_last_result :: "(nat \<times> stall_counts) option"
  rc_consecutive_failures :: nat
  rc_last_error_code :: "string option"

definition make_controller :: "rat \<Rightarrow> pool_error + controller" where
  "make_controller interval =
     (if interval < 1 / 10 then Inl (ValueError ''reconciliation interval must be >= 0.1 seconds'')
      else Inr \<lparr>rc_interval = interval, rc_task = NoTask, rc_running = False, rc_last_started_at = None,
                rc_last_completed_at = None, rc_last_result = None, rc_consecutive_failures = 0,
                rc_last_error_code = None\<rparr>)"

definition start :: "controller \<Rightarrow> controller" where
  "start c = (if rc_task c = ActiveTask then c else c\<lparr>rc_running := True, rc_task := ActiveTask\<rparr>)"

text \<open>The awaited task runs its \<^verbatim>\<open>finally\<close> clause, which clears the flag again.\<close>

definition stop :: "controller \<Rightarrow> controller" where
  "stop c = c\<lparr>rc_task := NoTask, rc_running := False\<rparr>"

definition run_once ::
  "timestamp \<Rightarrow> timestamp \<Rightarrow> (pool_error + nat \<times> stall_counts) \<Rightarrow> controller \<Rightarrow> (nat \<times> stall_counts) option \<times> controller" where
  "run_once started completed res c =
     (let c1 = c\<lparr>rc_last_started_at := Some started\<rparr> in
      case res of
        Inl _ \<Rightarrow> (None, c1\<lparr>rc_consecutive_failures := rc_consecutive_failures c1 + 1,
                            rc_last_error_code := Some ''reconciliation_cycle_failed'',
                            rc_last_completed_at := Some completed\<rparr>)
      | Inr r \<Rightarrow> (Some r, c1\<lparr>rc_last_result := Some r, rc_consecutive_failures := 0,
                              rc_last_error_code := None, rc_last_completed_at := Some completed\<rparr>))"

text \<open>One turn of the loop against the store, and the loop as the turns it makes before it is cancelled.\<close>

definition cycle :: "pool_config \<Rightarrow> timestamp \<Rightarrow> controller \<times> pool_db \<Rightarrow> controller \<times> pool_db" where
  "cycle cfg now s = (case s of (c, db) \<Rightarrow>
     case reconcile cfg now db of (res, db') \<Rightarrow> (snd (run_once now now res c), db'))"

fun run_loop :: "pool_config \<Rightarrow> timestamp list \<Rightarrow> controller \<times> pool_db \<Rightarrow> controller \<times> pool_db" where
  "run_loop cfg [] s = (let (c, db) = s in (c\<lparr>rc_running := False, rc_task := DoneTask\<rparr>, db))"
| "run_loop cfg (now # ts) s = run_loop cfg ts (cycle cfg now s)"

record controller_status =
  st_running :: bool
  st_interval_seconds :: rat
  st_last_started_at :: "timestamp option"
  st_last_completed_at :: "timestamp option"
  st_last_result :: "(nat \<times> stall_counts) option"
  st_consecutive_failures :: nat
  st_last_error_code :: "string option"

definition status :: "controller \<Rightarrow> controller_status" where
  "status c = \<lparr>st_running = rc_running c, st_interval_seconds = rc_interval c,
     st_last_started_at = rc_last_started_at c, st_last_completed_at = rc_last_completed_at c,
     st_last_result = rc_last_result c, st_consecutive_failures = rc_consecutive_failures c,
     st_last_error_code = rc_last_error_code c\<rparr>"

section \<open>The loop\<close>

lemma cycle_ok:
  assumes "reachable cfg db"
  obtains c' db' k where "cycle cfg now (c, db) = (c', db')" "reachable cfg db'" "expired_rows now db' = []"
    "rc_consecutive_failures c' = 0" "rc_last_error_code c' = None"
    "rc_last_result c' = Some (length (expired_rows now db), k)"
proof -
  have ok: "pool_ok db" using reachable_pool_ok [OF assms] .
  obtain d1 where d1: "recover now db = Inr (length (expired_rows now db), d1)" "pool_ok d1"
    using recover_total [OF ok] by metis
  obtain k db' where d2: "recover_stalled cfg now d1 = Inr (k, db')"
    using recover_stalled_total [OF d1(2)] by metis
  have rec: "reconcile cfg now db = (Inr (length (expired_rows now db), k), db')"
    using d1 d2 by (simp add: reconcile_def run_tx_def)
  have "reachable cfg db'"
    using reachable.stepped [OF assms pool_step.call [of Reconcile cfg db now]] rec by simp
  moreover have "expired_rows now db' = []"
    by (rule recover_stalled_expired [OF d1(2) d2 recover_expired_gone [OF ok d1(1)]])
  ultimately show thesis using that rec by (simp add: cycle_def run_once_def Let_def)
qed

text \<open>The controller does not fail by itself. However many cycles run, at whatever instants, on a
  reachable database, the controller never counts a failure and never records an error; after
  the last cycle no lease is expired at its instant.\<close>

theorem loop_never_fails:
  assumes "reachable cfg db" and "run_loop cfg (ts @ [now]) (c, db) = (c', db')"
  shows "reachable cfg db' \<and> expired_rows now db' = [] \<and> rc_consecutive_failures c' = 0 \<and>
    rc_last_error_code c' = None \<and> rc_last_result c' \<noteq> None \<and> \<not> rc_running c'"
  using assms
proof (induction ts arbitrary: c db)
  case Nil
  obtain c1 d1 k where "cycle cfg now (c, db) = (c1, d1)" "reachable cfg d1" "expired_rows now d1 = []"
    "rc_consecutive_failures c1 = 0" "rc_last_error_code c1 = None"
    "rc_last_result c1 = Some (length (expired_rows now db), k)"
    using cycle_ok [OF Nil.prems(1)] .
  with Nil.prems(2) show ?case by auto
next
  case (Cons t ts)
  obtain c1 d1 where "cycle cfg t (c, db) = (c1, d1)" "reachable cfg d1"
    using cycle_ok [OF Cons.prems(1)] by metis
  with Cons.IH [of d1 c1] Cons.prems(2) show ?case by simp
qed

theorem loop_never_fails_witness:
  "\<exists>c db. make_controller 5 = Inr c \<and>
     expired_rows 99000000 (snd (run_loop demo_cfg ([5] @ [99000000]) (start c, demo_running))) = [] \<and>
     rc_consecutive_failures (fst (run_loop demo_cfg ([5] @ [99000000]) (start c, demo_running))) = 0"
proof -
  have "\<exists>c. make_controller 5 = Inr c" by (simp add: make_controller_def)
  then obtain c where c: "make_controller 5 = Inr c" by blast
  obtain c' db' where l: "run_loop demo_cfg ([5] @ [99000000]) (start c, demo_running) = (c', db')" by fastforce
  from loop_never_fails [OF demo_reachable(3) l] c l show ?thesis by simp
qed

definition failing :: "(timestamp \<times> pool_error) list \<Rightarrow> controller \<Rightarrow> controller" where
  "failing es c = fold (\<lambda>(t, e) c. snd (run_once t t (Inl e) c)) es c"

lemma failing_snoc: "failing (es @ [(t, e)]) c = snd (run_once t t (Inl e) (failing es c))"
  by (simp add: failing_def)

text \<open>Failures are counted and cleared. After \<open>n\<close> cycles in a row that raise, the controller reports
  \<open>n\<close> more consecutive failures with an error code and keeps the last good result; the next
  cycle that returns resets the count and the code.\<close>

theorem failures_counted:
  "rc_consecutive_failures (failing es c) = rc_consecutive_failures c + length es \<and>
   rc_last_result (failing es c) = rc_last_result c \<and>
   (es \<noteq> [] \<longrightarrow> rc_last_error_code (failing es c) = Some ''reconciliation_cycle_failed'') \<and>
   rc_consecutive_failures (snd (run_once t t (Inr r) (failing es c))) = 0 \<and>
   rc_last_error_code (snd (run_once t t (Inr r) (failing es c))) = None"
proof (induction es rule: rev_induct)
  case (snoc x es)
  then show ?case by (cases x) (simp add: failing_snoc, simp add: run_once_def Let_def)
qed (simp add: failing_def run_once_def Let_def)

theorem failures_counted_witness:
  "\<exists>c. make_controller 5 = Inr c \<and> rc_consecutive_failures (failing [(1, ValueError []), (2, ValueError [])] c) = 2"
proof -
  have "\<exists>c. make_controller 5 = Inr c \<and> rc_consecutive_failures c = 0" by (simp add: make_controller_def)
  then show ?thesis
    using failures_counted [of "[(1, ValueError []), (2, ValueError [])]"] by fastforce
qed

end
