(* ===== verification/Pool_Api.thy ===== *)
theory Pool_Api
  imports Pool_View Work_Orchestrator Reconciler
begin

text \<open>
  \<^verbatim>\<open>app/main.py\<close> with the SQLite backend: the bearer-token guards, the field constraints of the
  request models and one handler per route. The framework is third-party code; what the model
  uses of it is that a route's dependency (the token guard) runs before its body is validated,
  that a body outside the declared bounds is answered with 422, and that the registered
  handlers turn the three pool errors into 404, 409 and 422. An unhandled
  \<^verbatim>\<open>sqlite3.IntegrityError\<close> is a 500. Audit logging is not modelled.
\<close>

section \<open>Environment and answers\<close>

text \<open>The contents of the two token files; \<open>None\<close> when the file is not configured or not readable.\<close>

record api_env =
  ae_cfg :: pool_config
  ae_api_token_file :: "string option"
  ae_reconciliation_token_file :: "string option"

definition read_api_token :: "api_env \<Rightarrow> string" where
  "read_api_token env = py_strip (opt_text (ae_api_token_file env))"

definition read_reconciliation_token :: "api_env \<Rightarrow> string" where
  "read_reconciliation_token env = py_strip (opt_text (ae_reconciliation_token_file env))"

definition reconciliation_auth_ready :: "api_env \<Rightarrow> bool" where
  "reconciliation_auth_ready env \<longleftrightarrow>
     read_reconciliation_token env \<noteq> [] \<and> read_api_token env \<noteq> [] \<and>
     read_reconciliation_token env \<noteq> read_api_token env"

definition bearer_ok :: "string \<Rightarrow> string option \<Rightarrow> bool" where
  "bearer_ok expected header \<longleftrightarrow>
     (case header of None \<Rightarrow> False
      | Some h \<Rightarrow> starts_with ''Bearer '' h \<and> py_strip (drop 7 h) = expected)"

text \<open>A guard passes (\<open>None\<close>) or answers with a status and a detail.\<close>

definition require_auth :: "api_env \<Rightarrow> string option \<Rightarrow> (nat \<times> string) option" where
  "require_auth env header =
     (if read_api_token env = [] then Some (503, ''worker_pool_auth_not_configured'')
      else if bearer_ok (read_api_token env) header then None else Some (401, ''unauthorized''))"

definition require_reconciliation_auth :: "api_env \<Rightarrow> string option \<Rightarrow> (nat \<times> string) option" where
  "require_reconciliation_auth env header =
     (if read_reconciliation_token env = [] \<or> \<not> reconciliation_auth_ready env
      then Some (503, ''reconciliation_auth_not_configured_or_not_separated'')
      else if bearer_ok (read_reconciliation_token env) header then None else Some (401, ''unauthorized''))"

definition error_response :: "pool_error \<Rightarrow> nat \<times> string" where
  "error_response e = (case e of NotFoundError d \<Rightarrow> (404, d) | ConflictError d \<Rightarrow> (409, d)
     | ValueError d \<Rightarrow> (422, d) | IntegrityError d \<Rightarrow> (500, d))"

text \<open>The correlation id of a request: its header, or a fresh random id.\<close>

definition correlation :: "string option \<Rightarrow> string \<Rightarrow> string" where
  "correlation header fresh =
     (let v = py_strip (opt_text header) in if v = [] then fresh else v)"

section \<open>Request models\<close>

definition len_in :: "nat \<Rightarrow> nat \<Rightarrow> string \<Rightarrow> bool" where
  "len_in lo hi s \<longleftrightarrow> lo \<le> length s \<and> length s \<le> hi"

definition int_in :: "int \<Rightarrow> int \<Rightarrow> int \<Rightarrow> bool" where
  "int_in lo hi i \<longleftrightarrow> lo \<le> i \<and> i \<le> hi"

definition percent :: "rat option \<Rightarrow> bool" where
  "percent v \<longleftrightarrow> opt_all (\<lambda>x. 0 \<le> x \<and> x \<le> 100) v"

definition ok_WorkerRegistration :: "worker_registration \<Rightarrow> bool" where
  "ok_WorkerRegistration g \<longleftrightarrow>
     len_in 1 128 (g_worker_id g) \<and> len_in 1 128 (g_host g) \<and> g_role g \<in> {''builder'', ''validator''} \<and>
     g_profile g \<in> {''NORMAL'', ''ESTUDO''} \<and> int_in 0 100 (g_capacity_score g) \<and>
     opt_all (len_in 0 64) (g_controller_version g) \<and> opt_all (len_in 0 64) (g_rules_sha g) \<and>
     opt_all (len_in 0 512) (g_worktree_root g) \<and> len_in 1 128 (g_correlation_id g)"

definition ok_Heartbeat :: "heartbeat \<Rightarrow> bool" where
  "ok_Heartbeat h \<longleftrightarrow>
     len_in 1 128 (h_correlation_id h) \<and> opt_all (\<lambda>p. p \<in> {''NORMAL'', ''ESTUDO''}) (h_profile h) \<and>
     percent (h_cpu_percent h) \<and> percent (h_memory_percent h)"

record lane_config =
  rl_repository :: string
  rl_enabled :: bool
  rl_max_in_flight :: int
  rl_correlation_id :: string

definition ok_RepositoryLaneConfig :: "lane_config \<Rightarrow> bool" where
  "ok_RepositoryLaneConfig r \<longleftrightarrow>
     len_in 3 256 (rl_repository r) \<and> int_in 1 100 (rl_max_in_flight r) \<and> len_in 1 128 (rl_correlation_id r)"

definition ok_WorkerAffinityUpdate :: "string list \<Rightarrow> string \<Rightarrow> bool" where
  "ok_WorkerAffinityUpdate repositories correlation_id \<longleftrightarrow>
     length repositories \<le> 100 \<and> len_in 1 128 correlation_id"

definition ok_TaskCreate :: "task_create \<Rightarrow> bool" where
  "ok_TaskCreate n \<longleftrightarrow>
     len_in 3 256 (n_repository n) \<and> 1 \<le> n_issue_number n \<and> len_in 1 256 (n_request_id n) \<and>
     len_in 1 128 (n_correlation_id n) \<and> int_in 0 10000 (n_priority n) \<and>
     (\<exists>b\<in>set_option (n_base_sha n). length b = 40) \<and> opt_all (len_in 0 200) (n_target_branch n) \<and>
     opt_all (int_in 1 20) (n_max_attempts n)"

text \<open>A claim, with the two random ids the store will draw.\<close>

record claim_payload =
  cp_worker_id :: string
  cp_correlation_id :: string
  cp_lease_seconds :: "int option"
  cp_token :: string
  cp_attempt_id :: string

definition ok_ClaimRequest :: "claim_payload \<Rightarrow> bool" where
  "ok_ClaimRequest p \<longleftrightarrow>
     len_in 1 128 (cp_worker_id p) \<and> len_in 1 128 (cp_correlation_id p) \<and>
     opt_all (int_in 1 3600) (cp_lease_seconds p)"

definition ok_ExactClaimRequest :: "claim_payload \<Rightarrow> string \<Rightarrow> bool" where
  "ok_ExactClaimRequest p tid \<longleftrightarrow> ok_ClaimRequest p \<and> TASK_ID tid"

definition ok_LeaseMutation :: "lease_proof \<Rightarrow> string \<Rightarrow> bool" where
  "ok_LeaseMutation p correlation_id \<longleftrightarrow>
     len_in 1 128 (p_worker_id p) \<and> len_in 16 128 (p_lease_token p) \<and> len_in 1 128 correlation_id \<and>
     opt_all (\<lambda>g. 1 \<le> g) (p_lease_generation p) \<and> opt_all SAFE_ID (p_attempt_id p)"

definition hex_char :: "char \<Rightarrow> bool" where
  "hex_char c \<longleftrightarrow> is_digit c \<or> c \<in> set ''abcdefABCDEF''"

definition ok_CheckpointRecord :: "checkpoint_request \<Rightarrow> bool" where
  "ok_CheckpointRecord i \<longleftrightarrow>
     ok_LeaseMutation (checkpoint_proof i) (i_correlation_id i) \<and>
     SAFE_ID (i_checkpoint_id i) \<and> 1 \<le> i_sequence i \<and> SAFE_ID (i_stage i) \<and>
     opt_all SAFE_ID (i_artifact_kind i) \<and> opt_all (len_in 0 1000) (i_artifact_ref i) \<and>
     opt_all (\<lambda>s. length s = 64 \<and> list_all hex_char s) (i_artifact_sha256 i) \<and>
     len_in 1 1000 (i_next_action i) \<and> opt_all SAFE_ID (i_effect_id i) \<and>
     parse_effect_state (i_effect_state i) \<noteq> None \<and> opt_all (len_in 0 1000) (i_effect_result_ref i)"

definition ok_EffectReconciliation :: "int \<Rightarrow> string \<Rightarrow> string \<Rightarrow> string \<Rightarrow> bool" where
  "ok_EffectReconciliation gen outcome readback_ref correlation_id \<longleftrightarrow>
     1 \<le> gen \<and> parse_outcome outcome \<noteq> None \<and> len_in 1 1000 readback_ref \<and> len_in 1 128 correlation_id"

definition ok_EvidenceRecord :: "evidence \<Rightarrow> bool" where
  "ok_EvidenceRecord y \<longleftrightarrow>
     len_in 1 256 (y_validation_run_id y) \<and> length (y_validation_sha y) = 40 \<and>
     len_in 1 1000 (y_evidence_reference y) \<and> len_in 1 128 (y_correlation_id y)"

definition ok_MergeResult :: "merge_result \<Rightarrow> bool" where
  "ok_MergeResult z \<longleftrightarrow>
     length (z_expected_head_sha z) = 40 \<and> opt_all (\<lambda>s. length s = 40) (z_merge_commit_sha z) \<and>
     opt_all (len_in 0 1000) (z_reason z) \<and> len_in 1 128 (z_correlation_id z)"

section \<open>Start of the service\<close>

text \<open>
  The module's own statements with the SQLite backend, after the environment has been read: the
  store is built on the database file, the cutover is enabled when the operator attests it, and
  the reconciliation controller is made.
\<close>

definition boot ::
  "timestamp \<Rightarrow> int \<Rightarrow> int \<Rightarrow> int \<Rightarrow> int \<Rightarrow> string option \<Rightarrow> rat \<Rightarrow> bool \<Rightarrow> controller pool_op" where
  "boot now ttl lease attempts stall rules interval attested db =
     (case make_config ttl lease attempts stall rules of
        Inl e \<Rightarrow> (Inl e, db)
      | Inr _ \<Rightarrow>
          (let db1 = init_db now db in
           if attested
           then (case enable_fenced_cutover now ''runtime-fenced-cutover-attestation'' True True db1 of
               (Inl e, db2) \<Rightarrow> (Inl e, db2)
             | (Inr _, db2) \<Rightarrow> (make_controller interval, db2))
           else (make_controller interval, db1)))"

section \<open>Handlers\<close>

record health_body =
  hb_healthy :: bool
  hb_auth_configured :: bool
  hb_reconciliation_auth_configured :: bool
  hb_fenced_cutover_enabled :: bool
  hb_expected_rules_sha_configured :: bool
  hb_progress_stall_seconds :: int
  hb_reconciliation :: controller_status

datatype body =
    Detail string
  | Health health_body
  | Contract "(string \<times> string) list"
  | Workers "worker_view list"
  | Worker worker_row
  | Lanes "lane_view list"
  | Lane lane_row
  | Affinities string "string list"
  | TaskCreated bool task_row
  | Task task_row
  | Diagnosis diagnosis
  | WorkCreated bool work_view
  | Work work_view
  | ClaimEmpty
  | Claimed task_row lease "recovery_context option"
  | CheckpointStored bool checkpoint_row
  | LatestCheckpoint "(checkpoint_row \<times> reconciliation_row option) option"
  | EffectReconciled bool reconciliation_row
  | Recovered nat string
  | StallRecovered stall_counts string
  | Snapshot snapshot_view
  | Quarantine "quarantine_row list"

type_synonym answer = "nat \<times> body"

definition answer :: "nat \<Rightarrow> ('a \<Rightarrow> body) \<Rightarrow> pool_error + 'a \<Rightarrow> answer" where
  "answer sc f res = (case res of
     Inl e \<Rightarrow> (case error_response e of (c, d) \<Rightarrow> (c, Detail d)) | Inr a \<Rightarrow> (sc, f a))"

text \<open>A route that works on the pool only.\<close>

definition on_pool :: "nat \<Rightarrow> ('a \<Rightarrow> body) \<Rightarrow> 'a pool_op \<Rightarrow> app_db \<Rightarrow> answer \<times> app_db" where
  "on_pool sc f op a = (case op (pool a) of (res, p) \<Rightarrow> (answer sc f res, a\<lparr>pool := p\<rparr>))"

definition on_app :: "nat \<Rightarrow> ('a \<Rightarrow> body) \<Rightarrow> 'a app_op \<Rightarrow> app_db \<Rightarrow> answer \<times> app_db" where
  "on_app sc f op a = (case op a of (res, a') \<Rightarrow> (answer sc f res, a'))"

definition created_code :: "(bool \<Rightarrow> 'b \<Rightarrow> body) \<Rightarrow> pool_error + ('b \<times> bool) \<Rightarrow> answer" where
  "created_code f res = (case res of
     Inl e \<Rightarrow> answer 201 (\<lambda>_. Detail []) (Inl e :: pool_error + unit)
   | Inr (x, created) \<Rightarrow> (if created then 201 else 200, f created x))"

definition health :: "api_env \<Rightarrow> controller \<Rightarrow> app_db \<Rightarrow> answer" where
  "health env ctl a =
     (case fenced_cutover_status (pool a) of
        Inl e \<Rightarrow> answer 200 Worker (Inl e)
      | Inr k \<Rightarrow>
          (let auth = read_api_token env \<noteq> []; rules = expected_rules_sha (ae_cfg env) \<noteq> None; ready = (auth \<and> rules) in
           (if ready then 200 else 503,
            Health \<lparr>hb_healthy = ready, hb_auth_configured = auth,
              hb_reconciliation_auth_configured = reconciliation_auth_ready env,
              hb_fenced_cutover_enabled = k_enabled k, hb_expected_rules_sha_configured = rules,
              hb_progress_stall_seconds = progress_stall_seconds (ae_cfg env),
              hb_reconciliation = status ctl\<rparr>)))"

definition descriptor :: "(string \<times> string) list" where
  "descriptor = [(''contract_name'', ''engineering-worker-pool''), (''contract_version'', ''v1''),
     (''service_name'', ''codex-worker-pool''), (''compatibility_policy'', ''backward-compatible-additive'')]"

definition role_name :: "role \<Rightarrow> string" where
  "role_name r = (case r of Builder \<Rightarrow> ''builder'' | Validator \<Rightarrow> ''validator'')"

definition claim_of :: "claim_payload \<Rightarrow> role \<Rightarrow> string option \<Rightarrow> bool \<Rightarrow> claim_request" where
  "claim_of p r only fencing =
     \<lparr>m_worker_id = cp_worker_id p, m_role = role_name r, m_correlation_id = cp_correlation_id p,
      m_lease_seconds = cp_lease_seconds p, m_only_task_id = only, m_fencing_required = fencing,
      m_token = cp_token p, m_attempt_id = cp_attempt_id p\<rparr>"

definition claim_impl ::
  "api_env \<Rightarrow> timestamp \<Rightarrow> claim_payload \<Rightarrow> string option \<Rightarrow> bool \<Rightarrow> app_db \<Rightarrow> answer \<times> app_db" where
  "claim_impl env now p only fencing a =
     (case get_worker (cp_worker_id p) (pool a) of
        Inl e \<Rightarrow> (answer 200 Worker (Inl e), a)
      | Inr w \<Rightarrow>
          case claim_task (ae_cfg env) now (claim_of p (w_role w) only fencing) (pool a) of
            (Inl e, q) \<Rightarrow> (answer 200 Worker (Inl e), a\<lparr>pool := q\<rparr>)
          | (Inr None, q) \<Rightarrow> ((200, ClaimEmpty), a\<lparr>pool := q\<rparr>)
          | (Inr (Some (t, l)), q) \<Rightarrow>
              (if fencing
               then answer 200 (\<lambda>x. Claimed (public_task t) l (Some x)) (get_recovery_context (t_task_id t) q)
               else (200, Claimed (public_task t) l None), a\<lparr>pool := q\<rparr>))"

definition enqueue_handler :: "api_env \<Rightarrow> timestamp \<Rightarrow> task_create \<Rightarrow> app_db \<Rightarrow> answer \<times> app_db" where
  "enqueue_handler env now n a =
     (if n_fencing_required n \<and> \<not> reconciliation_auth_ready env
      then ((503, Detail ''reconciliation_auth_not_configured_or_not_separated''), a)
      else case enqueue_task (ae_cfg env) now n (pool a) of
        (res, p) \<Rightarrow> (created_code (\<lambda>c t. TaskCreated c (public_task t)) res, a\<lparr>pool := p\<rparr>))"

definition create_work_handler :: "api_env \<Rightarrow> timestamp \<Rightarrow> task_create \<Rightarrow> string \<Rightarrow> app_db \<Rightarrow> answer \<times> app_db" where
  "create_work_handler env now n policy a =
     (if n_fencing_required n \<and> \<not> reconciliation_auth_ready env
      then ((503, Detail ''reconciliation_auth_not_configured_or_not_separated''), a)
      else case create_work (ae_cfg env) now n policy a of
        (res, a') \<Rightarrow> (created_code WorkCreated res, a'))"

definition diagnostics_handler :: "api_env \<Rightarrow> timestamp \<Rightarrow> string \<Rightarrow> app_db \<Rightarrow> answer" where
  "diagnostics_handler env now tid a =
     (case read_task_diagnostics (expected_rules_sha (ae_cfg env)) (heartbeat_ttl_seconds (ae_cfg env))
             (progress_stall_seconds (ae_cfg env)) now tid (pool a) of
        Inl (ValueError _) \<Rightarrow> (422, Detail ''invalid_task_id'')
      | Inl (NotFoundError _) \<Rightarrow> (404, Detail ''task_not_found'')
      | Inl _ \<Rightarrow> (503, Detail ''task_diagnostics_unavailable'')
      | Inr d \<Rightarrow> (200, Diagnosis d))"

section \<open>Routes\<close>

datatype api_request =
    GetAuthority | GetContract | GetWorkers | PostWorker worker_registration | PostHeartbeat string heartbeat
  | GetRepositories | PostRepository lane_config | PutAffinities string "string list" string
  | PostTask task_create | GetTask string | GetDiagnostics string
  | PostWork task_create string | GetWork string | PostEvidence string evidence | PostMergeResult string merge_result
  | PostClaim claim_payload | PostClaimExact claim_payload string | PostClaimFencedExact claim_payload string
  | PostRenew lease_proof string "int option" | PostStart lease_proof string
  | PostValidation lease_proof string string | PostComplete lease_proof string
  | PostFail lease_proof string string | PostBlock lease_proof string string
  | PostCheckpoint checkpoint_request | GetLatestCheckpoint string
  | PostReconcile string string int string string string | PostRequeue string string
  
  | PostRecoverLeases "string option" string | PostRecoverStalled "string option" string | GetSnapshot | GetQuarantine

text \<open>The guard of each route.\<close>

fun guard :: "api_env \<Rightarrow> string option \<Rightarrow> api_request \<Rightarrow> (nat \<times> string) option" where
  "guard env hdr (PostReconcile _ _ _ _ _ _) = require_reconciliation_auth env hdr"
| "guard env hdr _ = require_auth env hdr"

text \<open>The declared bounds of each route's body.\<close>

fun body_ok :: "api_request \<Rightarrow> bool" where
  "body_ok (PostWorker g) = ok_WorkerRegistration g"
| "body_ok (PostHeartbeat _ h) = ok_Heartbeat h"
| "body_ok (PostRepository r) = ok_RepositoryLaneConfig r"
| "body_ok (PutAffinities _ rs c) = ok_WorkerAffinityUpdate rs c"
| "body_ok (PostTask n) = ok_TaskCreate n"
| "body_ok (PostWork n policy) = (ok_TaskCreate n \<and> policy = ''governed'')"
| "body_ok (PostEvidence _ y) = ok_EvidenceRecord y"
| "body_ok (PostMergeResult _ z) = ok_MergeResult z"
| "body_ok (PostClaim p) = ok_ClaimRequest p"
| "body_ok (PostClaimExact p tid) = ok_ExactClaimRequest p tid"
| "body_ok (PostClaimFencedExact p tid) = ok_ExactClaimRequest p tid"
| "body_ok (PostRenew p c s) = (ok_LeaseMutation p c \<and> opt_all (int_in 1 3600) s)"
| "body_ok (PostStart p c) = ok_LeaseMutation p c"
| "body_ok (PostValidation p sha c) = (ok_LeaseMutation p c \<and> length sha = 40)"
| "body_ok (PostComplete p c) = ok_LeaseMutation p c"
| "body_ok (PostFail p c r) = (ok_LeaseMutation p c \<and> len_in 1 1000 r)"
| "body_ok (PostBlock p c r) = (ok_LeaseMutation p c \<and> len_in 1 1000 r)"
| "body_ok (PostCheckpoint i) = ok_CheckpointRecord i"
| "body_ok (PostReconcile _ _ g out ref c) = ok_EffectReconciliation g out ref c"
| "body_ok (PostRequeue _ c) = len_in 1 128 c"
| "body_ok _ = True"

text \<open>One definition per route, in the order of the file.\<close>

definition shared_authority_route :: "app_db \<Rightarrow> answer \<times> app_db" where
  "shared_authority_route a =
     ((503, Detail ''shared_authority_not_configured''), a)"

definition public_contract_route :: "app_db \<Rightarrow> answer \<times> app_db" where
  "public_contract_route a =
     ((200, Contract descriptor), a)"

definition workers_route :: "api_env \<Rightarrow> timestamp \<Rightarrow> app_db \<Rightarrow> answer \<times> app_db" where
  "workers_route env now a =
     on_pool 200 (\<lambda>v. Workers (sv_workers v)) (snapshot (ae_cfg env) now) a"

definition register_worker_route :: "timestamp \<Rightarrow> worker_registration \<Rightarrow> app_db \<Rightarrow> answer \<times> app_db" where
  "register_worker_route now g a =
     on_pool 200 Worker (register_worker now g) a"

definition heartbeat_route :: "timestamp \<Rightarrow> string \<Rightarrow> heartbeat \<Rightarrow> app_db \<Rightarrow> answer \<times> app_db" where
  "heartbeat_route now w h a =
     on_pool 200 Worker (heartbeat_worker now w h) a"

definition repositories_route :: "api_env \<Rightarrow> timestamp \<Rightarrow> app_db \<Rightarrow> answer \<times> app_db" where
  "repositories_route env now a =
     on_pool 200 (\<lambda>v. Lanes (sv_repositories v)) (snapshot (ae_cfg env) now) a"

definition configure_repository_route :: "timestamp \<Rightarrow> lane_config \<Rightarrow> app_db \<Rightarrow> answer \<times> app_db" where
  "configure_repository_route now r a =
     on_pool 200 Lane (configure_repository now (rl_repository r) (rl_enabled r) (rl_max_in_flight r)) a"

definition worker_affinities_route :: "timestamp \<Rightarrow> string \<Rightarrow> string list \<Rightarrow> app_db \<Rightarrow> answer \<times> app_db" where
  "worker_affinities_route now w rs a =
     on_pool 200 (Affinities w) (replace_worker_affinities now w rs) a"

definition get_task_route :: "string \<Rightarrow> app_db \<Rightarrow> answer \<times> app_db" where
  "get_task_route tid a =
     (answer 200 (\<lambda>t. Task (public_task t)) (get_task tid (pool a)), a)"

definition get_work_route :: "string \<Rightarrow> app_db \<Rightarrow> answer \<times> app_db" where
  "get_work_route w a =
     (answer 200 Work (get_work w a), a)"

definition record_work_evidence_route :: "timestamp \<Rightarrow> string \<Rightarrow> evidence \<Rightarrow> app_db \<Rightarrow> answer \<times> app_db" where
  "record_work_evidence_route now w y a =
     on_app 200 Work (record_evidence now w y) a"

definition record_merge_result_route :: "timestamp \<Rightarrow> string \<Rightarrow> merge_result \<Rightarrow> app_db \<Rightarrow> answer \<times> app_db" where
  "record_merge_result_route now w z a =
     on_app 200 Work (record_merge_result now w z) a"

definition claim_route :: "api_env \<Rightarrow> timestamp \<Rightarrow> claim_payload \<Rightarrow> app_db \<Rightarrow> answer \<times> app_db" where
  "claim_route env now p a =
     claim_impl env now p None False a"

definition claim_exact_route :: "api_env \<Rightarrow> timestamp \<Rightarrow> claim_payload \<Rightarrow> string \<Rightarrow> app_db \<Rightarrow> answer \<times> app_db" where
  "claim_exact_route env now p tid a =
     claim_impl env now p (Some tid) False a"

definition claim_fenced_exact_route :: "api_env \<Rightarrow> timestamp \<Rightarrow> claim_payload \<Rightarrow> string \<Rightarrow> app_db \<Rightarrow> answer \<times> app_db" where
  "claim_fenced_exact_route env now p tid a =
     claim_impl env now p (Some tid) True a"

definition renew_route :: "api_env \<Rightarrow> timestamp \<Rightarrow> lease_proof \<Rightarrow> string \<Rightarrow> int option \<Rightarrow> app_db \<Rightarrow> answer \<times> app_db" where
  "renew_route env now p c s a =
     on_pool 200 (\<lambda>t. Task (public_task t)) (renew_lease (ae_cfg env) now p c s) a"

definition start_route :: "timestamp \<Rightarrow> lease_proof \<Rightarrow> string \<Rightarrow> app_db \<Rightarrow> answer \<times> app_db" where
  "start_route now p c a =
     on_pool 200 (\<lambda>t. Task (public_task t)) (start_task now p c) a"

definition validation_route :: "timestamp \<Rightarrow> lease_proof \<Rightarrow> string \<Rightarrow> string \<Rightarrow> app_db \<Rightarrow> answer \<times> app_db" where
  "validation_route now p sha c a =
     on_pool 200 (\<lambda>t. Task (public_task t)) (submit_for_validation now p sha c) a"

definition complete_route :: "timestamp \<Rightarrow> lease_proof \<Rightarrow> string \<Rightarrow> app_db \<Rightarrow> answer \<times> app_db" where
  "complete_route now p c a =
     on_pool 200 (\<lambda>t. Task (public_task t)) (complete_task now p c) a"

definition fail_route :: "timestamp \<Rightarrow> lease_proof \<Rightarrow> string \<Rightarrow> string \<Rightarrow> app_db \<Rightarrow> answer \<times> app_db" where
  "fail_route now p c r a =
     on_pool 200 (\<lambda>t. Task (public_task t)) (fail_task now p c r) a"

definition block_route :: "timestamp \<Rightarrow> lease_proof \<Rightarrow> string \<Rightarrow> string \<Rightarrow> app_db \<Rightarrow> answer \<times> app_db" where
  "block_route now p c r a =
     on_pool 200 (\<lambda>t. Task (public_task t)) (block_task now p c r) a"

definition checkpoint_route :: "timestamp \<Rightarrow> checkpoint_request \<Rightarrow> app_db \<Rightarrow> answer \<times> app_db" where
  "checkpoint_route now i a =
     (case record_checkpoint now i (pool a) of (res, p) \<Rightarrow> (created_code CheckpointStored res, a\<lparr>pool := p\<rparr>))"

definition latest_checkpoint_route :: "string \<Rightarrow> app_db \<Rightarrow> answer \<times> app_db" where
  "latest_checkpoint_route tid a =
     (answer 200 LatestCheckpoint (get_latest_checkpoint tid (pool a)), a)"

definition reconcile_effect_route :: "timestamp \<Rightarrow> string \<Rightarrow> string \<Rightarrow> int \<Rightarrow> string \<Rightarrow> string \<Rightarrow> string \<Rightarrow> app_db \<Rightarrow> answer \<times> app_db" where
  "reconcile_effect_route now tid e g out ref c a =
     (case reconcile_effect now tid e g out ref c (pool a) of
        (res, p) \<Rightarrow> (created_code EffectReconciled res, a\<lparr>pool := p\<rparr>))"

definition requeue_route :: "timestamp \<Rightarrow> string \<Rightarrow> string \<Rightarrow> app_db \<Rightarrow> answer \<times> app_db" where
  "requeue_route now tid c a =
     on_pool 200 (\<lambda>t. Task (public_task t)) (requeue_blocked now tid c) a"

definition recover_leases_route :: "timestamp \<Rightarrow> string option \<Rightarrow> string \<Rightarrow> app_db \<Rightarrow> answer \<times> app_db" where
  "recover_leases_route now hdr fresh a =
     on_pool 200 (\<lambda>k. Recovered k (correlation hdr fresh)) (recover_expired_leases now) a"

definition recover_stalled_route :: "api_env \<Rightarrow> timestamp \<Rightarrow> string option \<Rightarrow> string \<Rightarrow> app_db \<Rightarrow> answer \<times> app_db" where
  "recover_stalled_route env now hdr fresh a =
     on_pool 200 (\<lambda>k. StallRecovered k (correlation hdr fresh)) (recover_stalled_tasks (ae_cfg env) now) a"

definition snapshot_route :: "api_env \<Rightarrow> timestamp \<Rightarrow> app_db \<Rightarrow> answer \<times> app_db" where
  "snapshot_route env now a =
     on_pool 200 Snapshot (snapshot (ae_cfg env) now) a"

definition quarantine_route :: "app_db \<Rightarrow> answer \<times> app_db" where
  "quarantine_route a =
     ((200, Quarantine (list_quarantine (pool a))), a)"

lemmas route_defs = shared_authority_route_def public_contract_route_def workers_route_def register_worker_route_def heartbeat_route_def repositories_route_def configure_repository_route_def worker_affinities_route_def get_task_route_def get_work_route_def record_work_evidence_route_def record_merge_result_route_def claim_route_def claim_exact_route_def claim_fenced_exact_route_def renew_route_def start_route_def validation_route_def complete_route_def fail_route_def block_route_def checkpoint_route_def latest_checkpoint_route_def reconcile_effect_route_def requeue_route_def recover_leases_route_def recover_stalled_route_def snapshot_route_def quarantine_route_def

declare route_defs [simp]

fun handle :: "api_env \<Rightarrow> timestamp \<Rightarrow> api_request \<Rightarrow> app_db \<Rightarrow> answer \<times> app_db" where
  "handle env now GetAuthority a = shared_authority_route a"
| "handle env now GetContract a = public_contract_route a"
| "handle env now GetWorkers a = workers_route env now a"
| "handle env now (PostWorker g) a = register_worker_route now g a"
| "handle env now (PostHeartbeat w h) a = heartbeat_route now w h a"
| "handle env now GetRepositories a = repositories_route env now a"
| "handle env now (PostRepository r) a = configure_repository_route now r a"
| "handle env now (PutAffinities w rs c) a = worker_affinities_route now w rs a"
| "handle env now (PostTask n) a = enqueue_handler env now n a"
| "handle env now (GetTask tid) a = get_task_route tid a"
| "handle env now (GetDiagnostics tid) a = (diagnostics_handler env now tid a, a)"
| "handle env now (PostWork n policy) a = create_work_handler env now n policy a"
| "handle env now (GetWork w) a = get_work_route w a"
| "handle env now (PostEvidence w y) a = record_work_evidence_route now w y a"
| "handle env now (PostMergeResult w z) a = record_merge_result_route now w z a"
| "handle env now (PostClaim p) a = claim_route env now p a"
| "handle env now (PostClaimExact p tid) a = claim_exact_route env now p tid a"
| "handle env now (PostClaimFencedExact p tid) a = claim_fenced_exact_route env now p tid a"
| "handle env now (PostRenew p c s) a = renew_route env now p c s a"
| "handle env now (PostStart p c) a = start_route now p c a"
| "handle env now (PostValidation p sha c) a = validation_route now p sha c a"
| "handle env now (PostComplete p c) a = complete_route now p c a"
| "handle env now (PostFail p c r) a = fail_route now p c r a"
| "handle env now (PostBlock p c r) a = block_route now p c r a"
| "handle env now (PostCheckpoint i) a = checkpoint_route now i a"
| "handle env now (GetLatestCheckpoint tid) a = latest_checkpoint_route tid a"
| "handle env now (PostReconcile tid e g out ref c) a = reconcile_effect_route now tid e g out ref c a"
| "handle env now (PostRequeue tid c) a = requeue_route now tid c a"
| "handle env now (PostRecoverLeases hdr fresh) a = recover_leases_route now hdr fresh a"
| "handle env now (PostRecoverStalled hdr fresh) a = recover_stalled_route env now hdr fresh a"
| "handle env now GetSnapshot a = snapshot_route env now a"
| "handle env now GetQuarantine a = quarantine_route a"

definition serve :: "api_env \<Rightarrow> timestamp \<Rightarrow> string option \<Rightarrow> api_request \<Rightarrow> app_db \<Rightarrow> answer \<times> app_db" where
  "serve env now hdr req a =
     (case guard env hdr req of
        Some (sc, d) \<Rightarrow> ((sc, Detail d), a)
      | None \<Rightarrow> if body_ok req then handle env now req a else ((422, Detail ''request_validation''), a))"

end
