(* ===== verification/Iso_Text.thy ===== *)
theory Iso_Text
  imports Py_Text Pool_Clock
begin

text \<open>
  The text of an instant. \<^verbatim>\<open>iso\<close> and \<^verbatim>\<open>parse_iso\<close> of \<^verbatim>\<open>app/store.py\<close> print and read the proleptic Gregorian
  date and the time of day in UTC; here instants count from the start of 1970. The columns of the
  model hold instants, and the SQL comparisons are written with \<open>text_le\<close>: this theory shows that
  \<open>text_le\<close> is the order of the texts, and that a printed instant reads back.
\<close>

section \<open>The calendar\<close>

definition leap :: "nat \<Rightarrow> bool" where
  "leap y \<longleftrightarrow> y mod 4 = 0 \<and> (y mod 100 \<noteq> 0 \<or> y mod 400 = 0)"

definition month_lengths :: "nat \<Rightarrow> nat list" where
  "month_lengths y = [31, if leap y then 29 else 28, 31, 30, 31, 30, 31, 31, 30, 31, 30, 31]"

definition year_length :: "nat \<Rightarrow> nat" where
  "year_length y = (if leap y then 366 else 365)"

text \<open>The year that holds the \<open>d\<close>-th day after the start of year \<open>y\<close>, and the day in it.\<close>

function year_day :: "nat \<Rightarrow> nat \<Rightarrow> nat \<times> nat" where
  "year_day y d = (if d < year_length y then (y, d) else year_day (Suc y) (d - year_length y))"
  by pat_completeness auto
termination by (relation "measure snd") (auto simp: year_length_def)

declare year_day.simps [simp del]

fun month_day :: "nat \<Rightarrow> nat list \<Rightarrow> nat \<Rightarrow> nat \<times> nat" where
  "month_day m [] d = (m, d)"
| "month_day m (l # ls) d = (if d < l then (m, d) else month_day (Suc m) ls (d - l))"

lemma year_length_sum: "sum_list (month_lengths y) = year_length y"
  by (simp add: month_lengths_def year_length_def)

lemma year_day_ge: "y \<le> fst (year_day y d)"
proof (induction y d rule: year_day.induct)
  case (1 y d)
  then show ?case by (subst year_day.simps) (auto dest: Suc_leD)
qed

lemma year_day_bound: "snd (year_day y d) < year_length (fst (year_day y d))"
proof (induction y d rule: year_day.induct)
  case (1 y d)
  then show ?case by (subst (1 2) year_day.simps) auto
qed

lemma year_day_mono: "d < e \<Longrightarrow> year_day y d < year_day y e"
proof (induction y d arbitrary: e rule: year_day.induct)
  case (1 y d)
  show ?case
  proof (cases "d < year_length y")
    case True
    then show ?thesis
      using year_day_ge [of "Suc y" "e - year_length y"] 1(2)
      by (subst (1 2) year_day.simps) (auto simp: less_prod_def')
  next
    case False
    then have "year_day (Suc y) (d - year_length y) < year_day (Suc y) (e - year_length y)"
      using 1 by (intro 1(1)) auto
    then show ?thesis using False 1(2) by (subst (1 2) year_day.simps) auto
  qed
qed

lemma year_day_start: "sum_list (map year_length [y..<fst (year_day y d)]) + snd (year_day y d) = d"
proof (induction y d rule: year_day.induct)
  case (1 y d)
  show ?case
  proof (cases "d < year_length y")
    case True
    then show ?thesis by (simp add: year_day.simps)
  next
    case False
    have "y < fst (year_day (Suc y) (d - year_length y))" using year_day_ge Suc_le_lessD by blast
    then show ?thesis using False 1 by (simp add: year_day.simps [of y d] upt_conv_Cons)
  qed
qed

lemma month_day_ge: "m \<le> fst (month_day m ls d)"
  by (induction m ls d rule: month_day.induct) auto

lemma month_day_mono: "d < e \<Longrightarrow> month_day m ls d < month_day m ls e"
proof (induction m ls d arbitrary: e rule: month_day.induct)
  case (2 m l ls d)
  then show ?case using month_day_ge [of "Suc m" ls "e - l"] by (auto simp: less_prod_def')
qed simp

lemma month_day_bound:
  "d < sum_list ls \<Longrightarrow> fst (month_day m ls d) < m + length ls \<and> snd (month_day m ls d) < Max (set ls)"
proof (induction m ls d rule: month_day.induct)
  case (2 m l ls d)
  then show ?case by (cases ls) (auto simp: less_max_iff_disj)
qed simp

lemma month_day_start:
  "d < sum_list ls \<Longrightarrow> sum_list (take (fst (month_day m ls d) - m) ls) + snd (month_day m ls d) = d"
proof (induction m ls d rule: month_day.induct)
  case (2 m l ls d)
  show ?case
  proof (cases "d < l")
    case False
    then have "sum_list (take (fst (month_day (Suc m) ls (d - l)) - Suc m) ls) + snd (month_day (Suc m) ls (d - l)) = d - l"
      using 2 by auto
    then show ?thesis using False month_day_ge [of "Suc m" ls "d - l"] by (simp add: take_Cons' Suc_diff_le)
  qed simp
qed simp

section \<open>The fields of an instant\<close>

text \<open>Year, month, day and time of day of the \<open>n\<close>-th second after the start of 1970.\<close>

definition date_of :: "nat \<Rightarrow> nat \<times> nat \<times> nat" where
  "date_of d = (let (y, yd) = year_day 1970 d; (m, md) = month_day 1 (month_lengths y) yd in (y, m, Suc md))"

definition clock_of :: "nat \<Rightarrow> nat \<times> nat \<times> nat" where
  "clock_of r = (r div 3600, r mod 3600 div 60, r mod 60)"

definition date_text :: "nat \<times> nat \<times> nat \<Rightarrow> string" where
  "date_text = (\<lambda>(y, m, d). digits 4 y @ ''-'' @ digits 2 m @ ''-'' @ digits 2 d)"

definition clock_text :: "nat \<times> nat \<times> nat \<Rightarrow> string" where
  "clock_text = (\<lambda>(h, m, s). digits 2 h @ '':'' @ digits 2 m @ '':'' @ digits 2 s)"

definition iso :: "timestamp \<Rightarrow> string" where
  "iso t = (let n = nat (t div usec) in
     date_text (date_of (n div 86400)) @ ''T'' @ clock_text (clock_of (n mod 86400)) @ iso_suffix (nat (t mod usec)))"

text \<open>The instants Python can print: here those from 1970 to the end of 9999.\<close>

definition printable :: "timestamp \<Rightarrow> bool" where
  "printable t \<longleftrightarrow> 0 \<le> t \<and> fst (date_of (nat (t div usec) div 86400)) \<le> 9999"

lemma date_of_mono: "d < e \<Longrightarrow> date_of d < date_of e"
  using year_day_mono [of d e 1970] month_day_mono [of "snd (year_day 1970 d)" "snd (year_day 1970 e)" 1 "month_lengths (fst (year_day 1970 d))"]
  by (auto simp: date_of_def less_prod_def' Let_def split: prod.splits)

lemma lex_div_mod: "a < b \<Longrightarrow> a div k < b div k \<or> a div k = b div k \<and> a mod k < b mod k" for a b k :: nat
  by (metis div_le_mono div_mult_mod_eq le_neq_implies_less less_imp_le nat_add_left_cancel_less)

lemma clock_of_mono: "a < b \<Longrightarrow> clock_of a < clock_of b"
  using lex_div_mod [of a b 3600] lex_div_mod [of "a mod 3600" "b mod 3600" 60]
  by (auto simp: clock_of_def less_prod_def' mod_mod_cancel)

lemma date_of_bounds: "date_of d = (y, m, k) \<Longrightarrow> 1 \<le> m \<and> m \<le> 12 \<and> 1 \<le> k \<and> k \<le> 31"
proof -
  assume a: "date_of d = (y, m, k)"
  define yd where "yd = snd (year_day 1970 d)"
  have y: "year_day 1970 d = (y, yd)" and md: "month_day 1 (month_lengths y) yd = (m, k - 1)" "1 \<le> k"
    using a by (auto simp: date_of_def yd_def Let_def split: prod.splits)
  have "yd < sum_list (month_lengths y)" using year_day_bound [of 1970 d] by (simp add: y year_length_sum)
  from month_day_bound [OF this, of 1] md month_day_ge [of 1 "month_lengths y" yd] show ?thesis
    by (auto simp: month_lengths_def max_def split: if_splits)
qed

section \<open>The order of the texts\<close>

lemma append_le: "length x = length y \<Longrightarrow> x @ s \<le> y @ t \<longleftrightarrow> x < y \<or> x = y \<and> s \<le> t" for x y s t :: string
  by (induction x y rule: list_induct2) (auto simp: Cons_le_Cons Cons_less_Cons)

lemma digits_le:
  assumes "u < 10 ^ n" and "v < 10 ^ n"
  shows "digits n u @ s \<le> digits n v @ t \<longleftrightarrow> u < v \<or> u = v \<and> s \<le> t"
proof -
  have l: "digits n u < digits n v \<longleftrightarrow> u < v" "digits n v < digits n u \<longleftrightarrow> v < u"
    using digits_less [of n u "[]" v] digits_less [of n v "[]" u] assms by simp_all
  then have "digits n u = digits n v \<longleftrightarrow> u = v" using assms by (metis linorder_neqE_nat order_less_irrefl)
  with l show ?thesis by (simp add: append_le)
qed

lemma date_text_le:
  assumes "date_of d = (y, m, k)" "date_of e = (y', m', k')" "y \<le> 9999" "y' \<le> 9999"
  shows "date_text (y, m, k) @ s \<le> date_text (y', m', k') @ t \<longleftrightarrow>
    (y, m, k) < (y', m', k') \<or> (y, m, k) = (y', m', k') \<and> s \<le> t"
  using assms date_of_bounds [OF assms(1)] date_of_bounds [OF assms(2)]
  by (auto simp: date_text_def digits_le less_prod_def')

lemma clock_of_bounds: "r < 86400 \<Longrightarrow> r div 3600 < 10 ^ 2 \<and> r mod 3600 div 60 < 10 ^ 2 \<and> r mod 60 < 10 ^ 2" for r :: nat
  by auto

lemma clock_text_le:
  assumes "a < 86400" "b < 86400"
  shows "clock_text (clock_of a) @ s \<le> clock_text (clock_of b) @ t \<longleftrightarrow> a < b \<or> a = b \<and> s \<le> t"
proof -
  have "clock_text (clock_of a) @ s \<le> clock_text (clock_of b) @ t \<longleftrightarrow>
      clock_of a < clock_of b \<or> clock_of a = clock_of b \<and> s \<le> t"
    using clock_of_bounds [OF assms(1)] clock_of_bounds [OF assms(2)] by (auto simp: clock_text_def clock_of_def digits_le less_prod_def')
  then show ?thesis using clock_of_mono [of a b] clock_of_mono [of b a] by (cases a b rule: linorder_cases) auto
qed

text \<open>SQL sees the order of the texts. For the instants that can be printed, comparing their ISO texts, as the
  statements of the store do, is exactly the comparison \<open>text_le\<close> of the model.\<close>

theorem iso_text_order:
  assumes "printable a" and "printable b"
  shows "iso a \<le> iso b \<longleftrightarrow> text_le a b"
proof -
  define m n where "m = nat (a div usec)" and "n = nat (b div usec)"
  have nn: "0 \<le> a div usec" "0 \<le> b div usec" using assms by (auto simp: printable_def usec_def)
  have dates: "date_text (date_of (m div 86400)) @ s \<le> date_text (date_of (n div 86400)) @ t \<longleftrightarrow>
      m div 86400 < n div 86400 \<or> m div 86400 = n div 86400 \<and> s \<le> t" for s t
    using assms date_text_le [of "m div 86400" _ _ _ "n div 86400"] date_of_mono [of "m div 86400" "n div 86400"]
      date_of_mono [of "n div 86400" "m div 86400"]
    by (cases "date_of (m div 86400)"; cases "date_of (n div 86400)"; cases "m div 86400" "n div 86400" rule: linorder_cases)
      (auto simp: printable_def m_def n_def)
  have "iso a \<le> iso b \<longleftrightarrow> m div 86400 < n div 86400 \<or> m div 86400 = n div 86400 \<and>
      (m mod 86400 < n mod 86400 \<or> m mod 86400 = n mod 86400 \<and>
       iso_suffix (nat (a mod usec)) \<le> iso_suffix (nat (b mod usec)))"
    by (simp add: iso_def Let_def dates clock_text_le flip: m_def n_def)
  also have "\<dots> \<longleftrightarrow> m < n \<or> m = n \<and> iso_suffix (nat (a mod usec)) \<le> iso_suffix (nat (b mod usec))"
    using lex_div_mod [of m n 86400] lex_div_mod [of n m 86400] by (cases m n rule: linorder_cases) auto
  also have "\<dots> \<longleftrightarrow> text_le a b"
  proof (cases "a div usec = b div usec")
    case True
    then show ?thesis using iso_key_orders_text [OF True] by (simp add: m_def n_def)
  next
    case False
    then show ?thesis using nn by (auto simp: text_le_def iso_key_def less_eq_prod_def m_def n_def)
  qed
  finally show ?thesis .
qed

theorem iso_text_order_witness:
  "iso 60000001 \<le> iso 60000000 \<and> \<not> iso 60000000 \<le> iso 60000001"
proof -
  have "printable 60000000" "printable 60000001"
    by (simp_all add: printable_def date_of_def year_day.simps [of 1970] year_length_def month_lengths_def usec_def)
  moreover have "text_le 60000001 60000000" "\<not> text_le 60000000 60000001" by code_simp+
  ultimately show ?thesis using iso_text_order by metis
qed

section \<open>Reading back\<close>

text \<open>What \<^verbatim>\<open>datetime.fromisoformat\<close> makes of any text.\<close>

datatype observation = NotIso | NoTimezone | At timestamp

text \<open>\<^verbatim>\<open>parse_iso\<close> on the texts that \<^verbatim>\<open>iso\<close> writes: fixed-width fields, and a fraction of six digits or none.\<close>

definition read_number :: "string \<Rightarrow> nat option" where
  "read_number s = (if s \<noteq> [] \<and> list_all is_digit s then Some (foldl (\<lambda>n c. 10 * n + (of_char c - 48)) 0 s) else None)"

definition day_number :: "nat \<Rightarrow> nat \<Rightarrow> nat \<Rightarrow> nat" where
  "day_number y m d =
     sum_list (map year_length [1970..<y]) + sum_list (take (m - 1) (month_lengths y)) + (d - 1)"

definition read_fraction :: "string \<Rightarrow> nat option" where
  "read_fraction s =
     (if s = ''Z'' then Some 0
      else if length s = 8 \<and> starts_with ''.'' s \<and> ends_with ''Z'' s then read_number (take 6 (drop 1 s)) else None)"

definition parse_iso :: "string \<Rightarrow> timestamp option" where
  "parse_iso s =
     (case (read_number (take 4 s), read_number (take 2 (drop 5 s)), read_number (take 2 (drop 8 s)),
            read_number (take 2 (drop 11 s)), read_number (take 2 (drop 14 s)), read_number (take 2 (drop 17 s)), read_fraction (drop 19 s)) of
        (Some y, Some m, Some d, Some h, Some mi, Some sc, Some u) \<Rightarrow>
          if take 1 (drop 4 s) @ take 1 (drop 7 s) @ take 1 (drop 10 s) @ take 1 (drop 13 s) @ take 1 (drop 16 s) = ''--T::''
          then Some (usec * int (86400 * day_number y m d + 3600 * h + 60 * mi + sc) + int u) else None
      | _ \<Rightarrow> None)"

lemma digits_numeral:
  "digits (numeral k) u = char_of (48 + u div 10 ^ pred_numeral k mod 10 :: nat) # digits (pred_numeral k) u"
  by (subst numeral_eq_Suc) (simp only: digits.simps)

lemma digits_digit: "list_all is_digit (digits n u)"
  by (induction n) (simp_all add: is_digit_def)

lemma digits_value: "foldl (\<lambda>n c. 10 * n + (of_char c - 48)) k (digits n u) = k * 10 ^ n + u mod 10 ^ n"
proof (induction n arbitrary: k)
  case (Suc n)
  have "u mod 10 ^ Suc n = (u div 10 ^ n mod 10) * 10 ^ n + u mod 10 ^ n"
    using mod_mult2_eq [of u "10 ^ n" 10] by (simp add: mult.commute)
  then show ?case using Suc by (simp add: algebra_simps)
qed simp

lemma read_number_digits: "0 < n \<Longrightarrow> u < 10 ^ n \<Longrightarrow> read_number (digits n u) = Some u"
  using digits_value [of 0 n u] length_digits [of n u]
  by (auto simp: read_number_def digits_digit simp del: length_digits)

lemma take_drop_digits:
  "take n (digits n u @ s) = digits n u" "drop (n + k) (digits n u @ s) = drop k s"
  by simp_all

lemma read_fraction_suffix: "u < 1000000 \<Longrightarrow> read_fraction (iso_suffix u) = Some u"
  using read_number_digits [of 6 u] by (simp add: read_fraction_def iso_suffix_def starts_with_def ends_with_def)

lemma day_number_date_of: "date_of d = (y, m, k) \<Longrightarrow> day_number y m k = d"
proof -
  assume a: "date_of d = (y, m, k)"
  define yd where "yd = snd (year_day 1970 d)"
  have y: "year_day 1970 d = (y, yd)" and md: "month_day 1 (month_lengths y) yd = (m, k - 1)"
    using a by (auto simp: date_of_def yd_def Let_def split: prod.splits)
  have "yd < sum_list (month_lengths y)" using year_day_bound [of 1970 d] by (simp add: y year_length_sum)
  from month_day_start [OF this, of 1] year_day_start [of 1970 d] show ?thesis
    by (simp add: md y day_number_def del: One_nat_def)
qed

lemma clock_of_value: "clock_of r = (h, m, s) \<Longrightarrow> 3600 * h + 60 * m + s = r"
  using mod_mod_cancel [of 60 3600 r] div_mult_mod_eq [of "r mod 3600" 60] div_mult_mod_eq [of r 3600]
  by (auto simp: clock_of_def)

lemma parse_iso_printed:
  assumes "printable t"
  shows "parse_iso (iso t) = Some t"
proof -
  define n u where "n = nat (t div usec)" and "u = nat (t mod usec)"
  obtain y m d where dt: "date_of (n div 86400) = (y, m, d)" by (cases "date_of (n div 86400)")
  obtain h mi sc where ck: "clock_of (n mod 86400) = (h, mi, sc)" by (cases "clock_of (n mod 86400)")
  have b: "y < 10 ^ 4" "m < 10 ^ 2" "d < 10 ^ 2" "h < 10 ^ 2" "mi < 10 ^ 2" "sc < 10 ^ 2" "u < 1000000"
    using assms dt date_of_bounds [OF dt] ck clock_of_bounds [of "n mod 86400"] usec_split [of t]
    by (auto simp: printable_def clock_of_def u_def nat_less_iff simp flip: n_def)
  have shape: "iso t = digits 4 y @ ''-'' @ digits 2 m @ ''-'' @ digits 2 d @ ''T'' @ digits 2 h @ '':'' @ digits 2 mi @
      '':'' @ digits 2 sc @ iso_suffix u"
    by (simp add: iso_def date_text_def clock_text_def dt ck Let_def flip: n_def u_def)
  have "parse_iso (iso t) = Some (usec * int (86400 * (n div 86400) + n mod 86400) + int u)"
    using b clock_of_value [OF ck]
    by (simp add: parse_iso_def shape read_number_digits read_fraction_suffix day_number_date_of [OF dt] add.assoc del: digits.simps)
  also have "\<dots> = Some t" using assms by (simp add: n_def u_def printable_def usec_def)
  finally show ?thesis .
qed

lemma length_iso: "length (iso t) \<in> {20, 27}"
  by (simp add: iso_def date_text_def clock_text_def iso_suffix_def Let_def split: prod.split)

text \<open>C36: Instants survive the database. What \<^verbatim>\<open>iso\<close> prints, \<^verbatim>\<open>parse_iso\<close> reads back.\<close>

theorem parse_iso_iso:
  assumes "printable t"
  shows "parse_iso (iso t) = Some t"
  by (rule parse_iso_printed [OF assms])

theorem parse_iso_iso_witness:
  "iso 951782400000001 = ''2000-02-29T00:00:00.000001Z'' \<and> parse_iso ''2000-02-29T00:00:00.000001Z'' = Some 951782400000001"
proof -
  have c: "char_of (48::nat) = CHR ''0''" "char_of (49::nat) = CHR ''1''" "char_of (50::nat) = CHR ''2''"
    "char_of (57::nat) = CHR ''9''" by code_simp+
  have "printable 951782400000001" "iso 951782400000001 = ''2000-02-29T00:00:00.000001Z''"
    by (simp_all add: printable_def date_of_def year_day.simps year_length_def leap_def month_lengths_def usec_def
        iso_def iso_suffix_def date_text_def clock_text_def clock_of_def digits_numeral c)
  then show ?thesis using parse_iso_iso by metis
qed

end
