(* ===== verification/Py_Value.thy ===== *)
theory Py_Value
  imports Py_Text Pool_Prelude
begin

text \<open>
  Values of unknown type: the admission gates read mappings that come from JSON and test the type
  of what they find. A float is represented by its exact value; JSON has no others.
\<close>

section \<open>Untyped values\<close>

datatype pyval =
    PNone
  | PBool bool
  | PInt int
  | PFloat rat
  | PStr string
  | PList "pyval list"
  | PDict "(string \<times> pyval) list"

type_synonym pydict = "(string \<times> pyval) list"

definition get :: "pydict \<Rightarrow> string \<Rightarrow> pyval" where
  "get d k = (case map_of d k of None \<Rightarrow> PNone | Some v \<Rightarrow> v)"

fun truthy :: "pyval \<Rightarrow> bool" where
  "truthy PNone \<longleftrightarrow> False"
| "truthy (PBool b) \<longleftrightarrow> b"
| "truthy (PInt i) \<longleftrightarrow> i \<noteq> 0"
| "truthy (PFloat r) \<longleftrightarrow> r \<noteq> 0"
| "truthy (PStr s) \<longleftrightarrow> s \<noteq> []"
| "truthy (PList xs) \<longleftrightarrow> xs \<noteq> []"
| "truthy (PDict d) \<longleftrightarrow> d \<noteq> []"

text \<open>\<^verbatim>\<open>type(v) is int\<close>: a boolean is not one.\<close>

definition int_of :: "pyval \<Rightarrow> int option" where
  "int_of v = (case v of PInt i \<Rightarrow> Some i | _ \<Rightarrow> None)"

definition str_of :: "pyval \<Rightarrow> string option" where
  "str_of v = (case v of PStr s \<Rightarrow> Some s | _ \<Rightarrow> None)"

definition dict_of :: "pyval \<Rightarrow> pydict option" where
  "dict_of v = (case v of PDict d \<Rightarrow> Some d | _ \<Rightarrow> None)"

text \<open>\<^verbatim>\<open>==\<close> of two values of which one is a number, a text or \<^verbatim>\<open>None\<close>: numbers are compared by value, and \<^verbatim>\<open>True\<close>
  is 1.\<close>

definition numeric :: "pyval \<Rightarrow> rat option" where
  "numeric v = (case v of PBool b \<Rightarrow> Some (of_bool b) | PInt i \<Rightarrow> Some (of_int i) | PFloat r \<Rightarrow> Some r | _ \<Rightarrow> None)"

definition py_eq :: "pyval \<Rightarrow> pyval \<Rightarrow> bool" where
  "py_eq v w \<longleftrightarrow> (if numeric v \<noteq> None \<and> numeric w \<noteq> None then numeric v = numeric w else v = w)"

text \<open>\<^verbatim>\<open>==\<close> of two mappings with such values.\<close>

definition dict_eq :: "pydict \<Rightarrow> pydict \<Rightarrow> bool" where
  "dict_eq d e \<longleftrightarrow> fst ` set d = fst ` set e \<and> list_all (\<lambda>(k, _). py_eq (get d k) (get e k)) d"

text \<open>Optional columns of a row.\<close>

definition opt_str :: "string option \<Rightarrow> pyval" where
  "opt_str v = (case v of None \<Rightarrow> PNone | Some s \<Rightarrow> PStr s)"

lemma str_of_Some [simp]: "str_of v = Some s \<longleftrightarrow> v = PStr s"
  by (simp add: str_of_def split: pyval.splits)

lemma dict_of_Some [simp]: "dict_of v = Some d \<longleftrightarrow> v = PDict d"
  by (simp add: dict_of_def split: pyval.splits)

lemma int_of_Some [simp]: "int_of v = Some i \<longleftrightarrow> v = PInt i"
  by (simp add: int_of_def split: pyval.splits)

lemma py_eq_str [simp]: "py_eq v (PStr s) \<longleftrightarrow> v = PStr s" "py_eq (PStr s) v \<longleftrightarrow> v = PStr s"
  by (auto simp: py_eq_def numeric_def)

lemma py_eq_none [simp]: "py_eq v PNone \<longleftrightarrow> v = PNone" "py_eq PNone v \<longleftrightarrow> v = PNone"
  by (auto simp: py_eq_def numeric_def)

lemma py_eq_int [simp]: "py_eq (PInt i) (PInt j) \<longleftrightarrow> i = j"
  by (simp add: py_eq_def numeric_def)

lemma py_eq_refl [simp]: "py_eq v v"
  by (simp add: py_eq_def)

lemma opt_str_eq [simp]: "opt_str v = PStr s \<longleftrightarrow> v = Some s" "opt_str v = PNone \<longleftrightarrow> v = None"
  "opt_str v = opt_str w \<longleftrightarrow> v = w"
  by (auto simp: opt_str_def split: option.splits)

lemma py_eq_opt: "py_eq (opt_str v) (opt_str w) \<longleftrightarrow> v = w"
  by (cases w) (simp_all add: opt_str_def split: option.splits)

lemma get_Cons [simp]: "get ((k, v) # d) k' = (if k' = k then v else get d k')" "get [] k' = PNone"
  by (simp_all add: get_def)

section \<open>Checks with a reason\<close>

definition require :: "bool \<Rightarrow> string \<Rightarrow> string + unit" where
  "require condition reason = (if condition then Inr () else Inl reason)"

lemma require_Inr [outcome_simps]: "require c e = Inr u \<longleftrightarrow> c"
  by (simp add: require_def)

end
