(* ===== verification/Py_Effect.thy ===== *)
theory Py_Effect
  imports Py_Value
begin

text \<open>
  Code that talks to the outside world. An action takes the state of the world it sees and returns
  an error code or a value, with the world as it left it. Raising stops the action and keeps what
  was done so far; \<open>attempt\<close> is \<^verbatim>\<open>try\<close> with a handler.
\<close>

type_synonym ('a, 's) act = "'s \<Rightarrow> (string + 'a) \<times> 's"

definition ret :: "'a \<Rightarrow> ('a, 's) act" where
  "ret a s = (Inr a, s)"

definition raise :: "string \<Rightarrow> ('a, 's) act" where
  "raise e s = (Inl e, s)"

definition andthen :: "('a, 's) act \<Rightarrow> ('a \<Rightarrow> ('b, 's) act) \<Rightarrow> ('b, 's) act" where
  "andthen m f s = (case m s of (Inl e, s') \<Rightarrow> (Inl e, s') | (Inr a, s') \<Rightarrow> f a s')"

definition attempt :: "('a, 's) act \<Rightarrow> (string \<Rightarrow> ('a, 's) act) \<Rightarrow> ('a, 's) act" where
  "attempt m h s = (case m s of (Inl e, s') \<Rightarrow> h e s' | (Inr a, s') \<Rightarrow> (Inr a, s'))"

definition check :: "bool \<Rightarrow> string \<Rightarrow> (unit, 's) act" where
  "check c e = (if c then ret () else raise e)"

text \<open>A pure check that returns a value.\<close>

definition lift :: "string + 'a \<Rightarrow> ('a, 's) act" where
  "lift r s = (r, s)"

definition observe :: "('s \<Rightarrow> 'a) \<Rightarrow> ('a, 's) act" where
  "observe f s = (Inr (f s), s)"

named_theorems act_simps

lemma ret_Inr [act_simps]: "ret a s = (Inr b, s') \<longleftrightarrow> b = a \<and> s' = s"
  by (auto simp: ret_def)

lemma raise_Inr [act_simps]: "raise e s \<noteq> (Inr b, s')"
  by (simp add: raise_def)

lemma check_Inr [act_simps]: "check c e s = (Inr u, s') \<longleftrightarrow> c \<and> s' = s"
  by (auto simp: check_def ret_def raise_def)

lemma lift_Inr [act_simps]: "lift r s = (Inr b, s') \<longleftrightarrow> r = Inr b \<and> s' = s"
  by (auto simp: lift_def)

lemma observe_Inr [act_simps]: "observe f s = (Inr b, s') \<longleftrightarrow> b = f s \<and> s' = s"
  by (auto simp: observe_def)

lemma andthen_Inr [act_simps]: "andthen m f s = (Inr b, s') \<longleftrightarrow> (\<exists>a s1. m s = (Inr a, s1) \<and> f a s1 = (Inr b, s'))"
  by (auto simp: andthen_def split: prod.splits sum.splits)

lemma andthen_run:
  "m s = (Inr a, s1) \<Longrightarrow> andthen m f s = f a s1" "m s = (Inl e, s1) \<Longrightarrow> andthen m f s = (Inl e, s1)"
  by (simp_all add: andthen_def)

text \<open>Which worlds an action can leave.\<close>

definition keeps :: "('s \<Rightarrow> 's \<Rightarrow> bool) \<Rightarrow> ('a, 's) act \<Rightarrow> bool" where
  "keeps R m \<longleftrightarrow> (\<forall>s. R s (snd (m s)))"

locale world_relation =
  fixes R :: "'s \<Rightarrow> 's \<Rightarrow> bool"
  assumes refl: "R s s" and trans: "R s t \<Longrightarrow> R t u \<Longrightarrow> R s u"
begin

lemma keeps_pure [simp, intro]: "keeps R (ret a)" "keeps R (raise e)" "keeps R (check c e)" "keeps R (lift r)" "keeps R (observe f)"
  by (simp_all add: keeps_def ret_def raise_def check_def lift_def observe_def refl)

lemma keeps_andthen: "keeps R m \<Longrightarrow> (\<And>a. keeps R (f a)) \<Longrightarrow> keeps R (andthen m f)"
  unfolding keeps_def andthen_def
  by (auto split: prod.splits sum.splits) (metis snd_conv, metis local.trans snd_conv)

lemma keeps_attempt: "keeps R m \<Longrightarrow> (\<And>e. keeps R (h e)) \<Longrightarrow> keeps R (attempt m h)"
  unfolding keeps_def attempt_def
  by (auto split: prod.splits sum.splits) (metis local.trans snd_conv, metis snd_conv)

end

end
