(* ===== verification/Api_Json.thy ===== *)
theory Api_Json
  imports Pool_Api Iso_Text Py_Effect
begin

text \<open>
  What the clients of the service read: the JSON of the answers. A row of a table becomes the mapping of
  its columns (\<^verbatim>\<open>dict(row)\<close>), instants become their ISO text, and \<^verbatim>\<open>public_task\<close> leaves the lease token out.
  Only the answers the native client uses have their fields spelled out.
\<close>

definition effect_state_name :: "effect_state \<Rightarrow> string" where
  "effect_state_name s = (case s of EffNone \<Rightarrow> ''none'' | EffPending \<Rightarrow> ''pending'' | EffConfirmed \<Rightarrow> ''confirmed''
     | EffNotApplied \<Rightarrow> ''not_applied'' | EffUnknown \<Rightarrow> ''unknown'')"

definition outcome_name :: "effect_outcome \<Rightarrow> string" where
  "outcome_name v = (case v of OutConfirmed \<Rightarrow> ''confirmed'' | OutNotApplied \<Rightarrow> ''not_applied'')"

definition opt_iso :: "timestamp option \<Rightarrow> pyval" where
  "opt_iso v = opt_str (map_option iso v)"

definition json_task :: "task_row \<Rightarrow> pydict" where
  "json_task t =
     [(''task_id'', PStr (t_task_id t)), (''repository'', PStr (t_repository t)), (''issue_number'', PInt (t_issue_number t)),
      (''request_id'', PStr (t_request_id t)), (''idempotency_key'', PStr (t_idempotency_key t)),
      (''state'', PStr (state_name (t_state t))), (''priority'', PInt (t_priority t)), (''branch'', PStr (t_branch t)),
      (''workspace_key'', PStr (t_workspace_key t)), (''base_sha'', opt_str (t_base_sha t)),
      (''produced_sha'', opt_str (t_produced_sha t)), (''builder_worker_id'', opt_str (t_builder_worker_id t)),
      (''validator_worker_id'', opt_str (t_validator_worker_id t)), (''leased_by'', opt_str (t_leased_by t)),
      (''lease_expires_at'', opt_iso (t_lease_expires_at t)), (''lease_generation'', PInt (t_lease_generation t)),
      (''attempt_id'', opt_str (t_attempt_id t)), (''fencing_required'', PBool (t_fencing_required t)),
      (''attempt_count'', PInt (t_attempt_count t)), (''max_attempts'', PInt (t_max_attempts t)),
      (''blocked_reason'', opt_str (t_blocked_reason t)), (''last_error'', opt_str (t_last_error t)),
      (''correlation_id'', PStr (t_correlation_id t)), (''created_at'', PStr (iso (t_created_at t))),
      (''updated_at'', PStr (iso (t_updated_at t))),
      (''last_material_progress_at'', PStr (iso (t_last_material_progress_at t))),
      (''completed_at'', opt_iso (t_completed_at t))]"

definition json_lane :: "lane_view \<Rightarrow> pydict" where
  "json_lane v =
     (let r = lv_lane v in
      [(''repository'', PStr (r_repository r)), (''enabled'', PBool (r_enabled r)),
       (''max_in_flight'', PInt (r_max_in_flight r)), (''builder_claim_count'', PInt (r_builder_claim_count r)),
       (''validator_claim_count'', PInt (r_validator_claim_count r)),
       (''last_builder_claimed_at'', opt_iso (r_last_builder_claimed_at r)),
       (''last_validator_claimed_at'', opt_iso (r_last_validator_claimed_at r)),
       (''updated_at'', PStr (iso (r_updated_at r))), (''queued'', PInt (int (lv_queued v))),
       (''active'', PInt (int (lv_active v)))])"

definition json_lease :: "lease \<Rightarrow> pydict" where
  "json_lease l =
     [(''task_id'', PStr (l_task_id l)), (''lease_token'', PStr (l_lease_token l)), (''worker_id'', PStr (l_worker_id l)),
      (''role'', PStr (role_name (l_role l))), (''lease_expires_at'', PStr (iso (l_lease_expires_at l))),
      (''lease_generation'', PInt (l_lease_generation l)), (''attempt_id'', PStr (l_attempt_id l))]"

definition json_checkpoint :: "checkpoint_row \<Rightarrow> pydict" where
  "json_checkpoint c =
     [(''task_id'', PStr (c_task_id c)), (''checkpoint_id'', PStr (c_checkpoint_id c)),
      (''lease_generation'', PInt (c_lease_generation c)), (''attempt_id'', PStr (c_attempt_id c)),
      (''sequence'', PInt (c_sequence c)), (''stage'', PStr (c_stage c)),
      (''artifact_kind'', opt_str (c_artifact_kind c)), (''artifact_ref'', opt_str (c_artifact_ref c)),
      (''artifact_sha256'', opt_str (c_artifact_sha256 c)), (''next_action'', PStr (c_next_action c)),
      (''effect_id'', opt_str (c_effect_id c)), (''effect_state'', PStr (effect_state_name (c_effect_state c))),
      (''effect_result_ref'', opt_str (c_effect_result_ref c)), (''content_digest'', PStr (c_content_digest c)),
      (''correlation_id'', PStr (c_correlation_id c)), (''created_at'', PStr (iso (c_created_at c)))]"

definition json_joined :: "checkpoint_row \<times> reconciliation_row option \<Rightarrow> pydict" where
  "json_joined x = (case x of (c, e) \<Rightarrow> json_checkpoint c @
     [(''reconciliation_outcome'', opt_str (map_option (\<lambda>r. outcome_name (e_outcome r)) e)),
      (''reconciliation_readback_ref'', opt_str (map_option e_readback_ref e)),
      (''reconciled_at'', opt_iso (map_option e_created_at e))])"

definition json_option :: "('a \<Rightarrow> pydict) \<Rightarrow> 'a option \<Rightarrow> pyval" where
  "json_option f v = (case v of None \<Rightarrow> PNone | Some a \<Rightarrow> PDict (f a))"

definition json_recovery :: "recovery_context \<Rightarrow> pydict" where
  "json_recovery x =
     [(''latest_checkpoint'', json_option json_joined (x_latest_checkpoint x)),
      (''effects'', PList (map (\<lambda>e. PDict (json_joined e)) (x_effects x)))]"

text \<open>The body of an answer. An empty fenced claim also has a null \<^verbatim>\<open>recovery_context\<close>, which reads the same as
  none.\<close>

fun json_body :: "body \<Rightarrow> pyval" where
  "json_body (Detail d) = PDict [(''detail'', PStr d)]"
| "json_body (Lanes ls) = PList (map (\<lambda>l. PDict (json_lane l)) ls)"
| "json_body (TaskCreated b t) = PDict [(''created'', PBool b), (''task'', PDict (json_task t))]"
| "json_body (Task t) = PDict (json_task t)"
| "json_body ClaimEmpty = PDict [(''claimed'', PBool False), (''task'', PNone), (''lease'', PNone)]"
| "json_body (Claimed t l x) =
     PDict ([(''claimed'', PBool True), (''task'', PDict (json_task t)), (''lease'', PDict (json_lease l))] @
       (case x of None \<Rightarrow> [] | Some r \<Rightarrow> [(''recovery_context'', PDict (json_recovery r))]))"
| "json_body (CheckpointStored b c) = PDict [(''created'', PBool b), (''checkpoint'', PDict (json_checkpoint c))]"
| "json_body (LatestCheckpoint x) = PDict [(''checkpoint'', json_option json_joined x)]"
| "json_body _ = PNone"

lemma opt_iso_eq [simp]: "opt_iso v = PNone \<longleftrightarrow> v = None" "opt_iso v = PStr s \<longleftrightarrow> (\<exists>t. v = Some t \<and> s = iso t)"
  by (auto simp: opt_iso_def)

lemma json_task_token: "''lease_token'' \<notin> fst ` set (json_task t)"
  by (simp add: json_task_def)

lemma effect_state_name_inj [simp]: "effect_state_name s = effect_state_name t \<longleftrightarrow> s = t"
  by (cases s; cases t) (simp_all add: effect_state_name_def)

lemma parse_effect_state_name: "parse_effect_state s = Some e \<Longrightarrow> effect_state_name e = s"
  by (auto simp: parse_effect_state_def effect_state_name_def split: if_splits)

end
