(* ===== verification/Native_Http.thy ===== *)
theory Native_Http
  imports Api_Json
begin

text \<open>
  \<^verbatim>\<open>app/native_pool_http.py\<close>: the client of the service that a native worker uses. It trusts no answer: every
  field it relies on is checked, a mutation is confirmed by a second read, and nothing is retried.
  A request is a value of \<open>api_request\<close> with its path; what the network and the server do is the
  transport, an argument. Method by method in the order of the source.
\<close>

section \<open>Identifiers\<close>

definition NAME :: "string \<Rightarrow> bool" where
  "NAME s \<longleftrightarrow> (case s of [] \<Rightarrow> False
     | c # cs \<Rightarrow> is_lower c \<and> 2 \<le> length cs \<and> length cs \<le> 127 \<and>
         list_all (\<lambda>x. is_lower x \<or> is_digit x \<or> x \<in> set ''_.-'') cs)"

definition CORRELATION :: "string \<Rightarrow> bool" where
  "CORRELATION s \<longleftrightarrow> (case s of [] \<Rightarrow> False
     | c # cs \<Rightarrow> (is_lower c \<or> is_digit c) \<and> 7 \<le> length cs \<and> length cs \<le> 127 \<and>
         list_all (\<lambda>x. is_lower x \<or> is_digit x \<or> x = CHR ''-'') cs)"

definition SHA256 :: "string \<Rightarrow> bool" where
  "SHA256 s \<longleftrightarrow> length s = 64 \<and> list_all is_lower_hex s"

definition TOKEN_RE :: "string \<Rightarrow> bool" where
  "TOKEN_RE s \<longleftrightarrow> 16 \<le> length s \<and> length s \<le> 4096 \<and> list_all (\<lambda>c. 33 \<le> code c \<and> code c \<le> 126) s"

definition REASON :: "string \<Rightarrow> bool" where
  "REASON s \<longleftrightarrow> 3 \<le> length s \<and> length s \<le> 64 \<and> list_all (\<lambda>c. is_lower c \<or> c = CHR ''_'') s"

definition REQUEST_ID :: "string \<Rightarrow> bool" where
  "REQUEST_ID s \<longleftrightarrow> starts_with ''issue-'' s \<and> SHA256 (drop 6 s)"

definition MAX_RESPONSE_BYTES :: nat where
  "MAX_RESPONSE_BYTES = 65536"

definition REPO :: string where
  "REPO = ''ericson-j-santos/engineering-worker-pool''"

definition worker_ok :: "string \<Rightarrow> string \<Rightarrow> string + unit" where
  "worker_ok worker_id correlation_id =
     bindE (require (NAME worker_id) ''worker_id_invalid'') (\<lambda>_. require (CORRELATION correlation_id) ''correlation_invalid'')"

definition id_ok :: "string \<Rightarrow> string + unit" where
  "id_ok tid = require (TASK_ID tid) ''worker_task_id_invalid''"

section \<open>One request\<close>

text \<open>What reading the private token file gives: refused for its permissions, unavailable, or at most 4097 bytes.\<close>

datatype token_file = TokenNotPrivate | TokenUnavailable | TokenBytes "nat list"

definition token :: "token_file \<Rightarrow> string + string" where
  "token f = (case f of
     TokenNotPrivate \<Rightarrow> Inl ''worker_token_permissions''
   | TokenUnavailable \<Rightarrow> Inl ''worker_token_file_unavailable''
   | TokenBytes raw \<Rightarrow>
       if \<not> (16 \<le> length raw \<and> length raw \<le> 4096) \<or> \<not> list_all (\<lambda>b. b < 128) raw then Inl ''worker_token_invalid''
       else (let t = py_strip (map char_of raw) in if TOKEN_RE t then Inr t else Inl ''worker_token_invalid''))"

record http_response =
  hr_same_origin :: bool
  hr_status :: nat
  hr_size :: nat
  hr_content_type :: string
  hr_json :: "pyval option"

text \<open>The transport gets the token and the request; \<open>None\<close> is a transport error, after which it is unknown whether the
  server acted.\<close>

type_synonym 's transport = "string \<Rightarrow> api_request \<Rightarrow> 's \<Rightarrow> http_response option \<times> 's"

record 's local_api =
  la_token_file :: token_file
  la_send :: "'s transport"

definition make_local_api :: "rat \<Rightarrow> int \<Rightarrow> token_file \<Rightarrow> 's transport \<Rightarrow> string + 's local_api" where
  "make_local_api timeout_seconds port f send =
     bindE (require (1 \<le> timeout_seconds \<and> timeout_seconds \<le> 120) ''worker_timeout_invalid'') (\<lambda>_.
     bindE (require (1 \<le> port \<and> port \<le> 65535) ''worker_port_invalid'') (\<lambda>_.
     Inr \<lparr>la_token_file = f, la_send = send\<rparr>))"

text \<open>The requests the client sends; it builds no others.\<close>

fun route_of :: "api_request \<Rightarrow> string \<times> string" where
  "route_of GetRepositories = (''GET'', ''/v1/repositories'')"
| "route_of (PostTask _) = (''POST'', ''/v1/tasks'')"
| "route_of (GetTask tid) = (''GET'', ''/v1/tasks/'' @ tid)"
| "route_of (PostClaimExact _ _) = (''POST'', ''/v1/claims/exact'')"
| "route_of (PostClaimFencedExact _ _) = (''POST'', ''/v1/claims/fenced/exact'')"
| "route_of (GetLatestCheckpoint tid) = (''GET'', ''/v1/tasks/'' @ tid @ ''/checkpoints/latest'')"
| "route_of (PostCheckpoint i) = (''POST'', ''/v1/tasks/'' @ i_task_id i @ ''/checkpoints'')"
| "route_of (PostStart p _) = (''POST'', ''/v1/tasks/'' @ p_task_id p @ ''/start'')"
| "route_of (PostValidation p _ _) = (''POST'', ''/v1/tasks/'' @ p_task_id p @ ''/validation'')"
| "route_of (PostComplete p _) = (''POST'', ''/v1/tasks/'' @ p_task_id p @ ''/complete'')"
| "route_of (PostFail p _ _) = (''POST'', ''/v1/tasks/'' @ p_task_id p @ ''/fail'')"
| "route_of (PostBlock p _ _) = (''POST'', ''/v1/tasks/'' @ p_task_id p @ ''/block'')"
| "route_of _ = ([], [])"

definition route_ok :: "api_request \<Rightarrow> bool" where
  "route_ok req \<longleftrightarrow> (case route_of req of (method, path) \<Rightarrow>
     method \<in> {''GET'', ''POST''} \<and> starts_with ''/v1/'' path \<and> \<not> has_infix ''//'' path \<and>
     \<not> has_infix ''?'' path \<and> \<not> has_infix ''#'' path)"

definition media_type :: "string \<Rightarrow> string" where
  "media_type s = py_strip (takeWhile (\<lambda>c. c \<noteq> CHR '';'') s)"

definition response_json :: "nat list \<Rightarrow> http_response \<Rightarrow> string + pyval" where
  "response_json expected r =
     bindE (require (hr_same_origin r) ''worker_response_origin_mismatch'') (\<lambda>_.
     bindE (require (hr_status r \<noteq> 401) ''worker_auth_rejected'') (\<lambda>_.
     bindE (require (hr_status r \<in> set expected) ''worker_http_unverified'') (\<lambda>_.
     bindE (require (hr_size r \<le> MAX_RESPONSE_BYTES \<and> media_type (hr_content_type r) = ''application/json'')
              ''worker_response_invalid'') (\<lambda>_.
     case hr_json r of None \<Rightarrow> Inl ''worker_response_invalid'' | Some v \<Rightarrow> Inr v))))"

definition exchange :: "'s local_api \<Rightarrow> string \<Rightarrow> api_request \<Rightarrow> (http_response, 's) act" where
  "exchange api tok req s = (case la_send api tok req s of
     (None, s') \<Rightarrow> (Inl ''worker_transport_unverified'', s') | (Some r, s') \<Rightarrow> (Inr r, s'))"

definition request :: "'s local_api \<Rightarrow> nat list \<Rightarrow> api_request \<Rightarrow> (pyval, 's) act" where
  "request api expected req =
     andthen (check (route_ok req) ''worker_route_invalid'') (\<lambda>_.
     andthen (lift (token (la_token_file api))) (\<lambda>tok.
     andthen (exchange api tok req) (\<lambda>r.
     lift (response_json expected r))))"

definition as_dict :: "pyval \<Rightarrow> string + pydict" where
  "as_dict v = (case v of PDict d \<Rightarrow> Inr d | _ \<Rightarrow> Inl ''worker_response_invalid'')"

definition request_dict :: "'s local_api \<Rightarrow> nat list \<Rightarrow> api_request \<Rightarrow> (pydict, 's) act" where
  "request_dict api expected req =
     andthen (request api expected req) (\<lambda>v.
     lift (as_dict v))"

definition as_dicts :: "pyval \<Rightarrow> string + pydict list" where
  "as_dicts v = (case v of
     PList vs \<Rightarrow> if length vs \<le> 128 \<and> list_all (\<lambda>x. dict_of x \<noteq> None) vs then Inr (List.map_filter dict_of vs)
                else Inl ''worker_response_invalid''
   | _ \<Rightarrow> Inl ''worker_response_invalid'')"

definition request_list :: "'s local_api \<Rightarrow> api_request \<Rightarrow> (pydict list, 's) act" where
  "request_list api req =
     andthen (request api [200] req) (\<lambda>v.
     lift (as_dicts v))"

lemma exchange_Inr [act_simps]: "exchange api tok req s = (Inr r, s') \<longleftrightarrow> la_send api tok req s = (Some r, s')"
  by (auto simp: exchange_def split: prod.splits option.splits)

lemma as_dict_Inr [outcome_simps]: "as_dict v = Inr d \<longleftrightarrow> v = PDict d"
  by (simp add: as_dict_def split: pyval.splits)

lemma as_dicts_Inr [outcome_simps]:
  "as_dicts v = Inr ds \<longleftrightarrow>
     (\<exists>vs. v = PList vs \<and> length vs \<le> 128 \<and> list_all (\<lambda>x. dict_of x \<noteq> None) vs \<and> ds = List.map_filter dict_of vs)"
  by (cases v) (auto simp: as_dicts_def)

lemma response_json_Inr [outcome_simps]:
  "response_json expected r = Inr v \<longleftrightarrow>
     hr_same_origin r \<and> hr_status r \<noteq> 401 \<and> hr_status r \<in> set expected \<and> hr_size r \<le> MAX_RESPONSE_BYTES \<and>
     media_type (hr_content_type r) = ''application/json'' \<and> hr_json r = Some v"
  by (auto simp: response_json_def outcome_simps split: option.splits)

section \<open>Tasks and lanes\<close>

definition task_states :: "string list" where
  "task_states = [''queued'', ''leased'', ''running'', ''validating'', ''blocked'', ''completed'', ''failed'']"

definition str_in :: "string list \<Rightarrow> pyval \<Rightarrow> bool" where
  "str_in xs v \<longleftrightarrow> (case v of PStr s \<Rightarrow> s \<in> set xs | _ \<Rightarrow> False)"

definition task_readback :: "string \<Rightarrow> pydict \<Rightarrow> string + pydict" where
  "task_readback tid task =
     bindE (require (get task ''task_id'' = PStr tid \<and> str_in task_states (get task ''state'') \<and>
                     ''lease_token'' \<notin> fst ` set task) ''worker_task_readback_invalid'') (\<lambda>_. Inr task)"

definition list_repositories :: "'s local_api \<Rightarrow> (pydict list, 's) act" where
  "list_repositories api = request_list api GetRepositories"

definition client_get_task :: "'s local_api \<Rightarrow> string \<Rightarrow> (pydict, 's) act" where
  "client_get_task api tid =
     andthen (lift (id_ok tid)) (\<lambda>_.
     andthen (request_dict api [200] (GetTask tid)) (\<lambda>d. lift (task_readback tid d)))"

definition issue_branch :: "int \<Rightarrow> string \<Rightarrow> string" where
  "issue_branch issue base_sha = ''agent/qwen7b-issue-'' @ show_int issue @ ''-'' @ take 12 base_sha"

definition issue_keys :: "string list" where
  "issue_keys = [''repository'', ''issue_number'', ''request_id'', ''correlation_id'', ''priority'', ''base_sha'',
     ''target_branch'', ''max_attempts'', ''fencing_required'']"

definition str_all :: "(string \<Rightarrow> bool) \<Rightarrow> pyval \<Rightarrow> bool" where
  "str_all P v \<longleftrightarrow> (case v of PStr s \<Rightarrow> P s | _ \<Rightarrow> False)"

definition int_all :: "(int \<Rightarrow> bool) \<Rightarrow> pyval \<Rightarrow> bool" where
  "int_all P v \<longleftrightarrow> (case v of PInt i \<Rightarrow> P i | _ \<Rightarrow> False)"

text \<open>The payload, once its shape has been checked, as the body of the request.\<close>

definition issue_task :: "pydict \<Rightarrow> string + task_create" where
  "issue_task payload =
     (case (get payload ''issue_number'', get payload ''request_id'', get payload ''correlation_id'', get payload ''base_sha'') of
        (PInt issue, PStr request_id, PStr correlation_id, PStr base_sha) \<Rightarrow>
          if fst ` set payload = set issue_keys \<and> get payload ''repository'' = PStr REPO \<and> 0 < issue \<and>
             REQUEST_ID request_id \<and> CORRELATION correlation_id \<and> SHA40 base_sha \<and>
             get payload ''target_branch'' = PStr (issue_branch issue base_sha) \<and>
             get payload ''priority'' = PInt 10 \<and> get payload ''max_attempts'' = PInt 1 \<and>
             get payload ''fencing_required'' = PBool True
          then Inr \<lparr>n_repository = REPO, n_issue_number = issue, n_request_id = request_id,
                 n_correlation_id = correlation_id, n_priority = 10, n_base_sha = Some base_sha,
                 n_max_attempts = Some 1, n_target_branch = Some (issue_branch issue base_sha),
                 n_fencing_required = True\<rparr>
          else Inl ''worker_issue_payload_invalid''
      | _ \<Rightarrow> Inl ''worker_issue_payload_invalid'')"

definition same_fields :: "string list \<Rightarrow> pydict \<Rightarrow> pydict \<Rightarrow> bool" where
  "same_fields keys d e \<longleftrightarrow> list_all (\<lambda>k. py_eq (get d k) (get e k)) keys"

record enqueued =
  eq_task_id :: string
  eq_created :: bool
  eq_task :: pydict

definition enqueue_fenced_issue :: "'s local_api \<Rightarrow> pydict \<Rightarrow> (enqueued, 's) act" where
  "enqueue_fenced_issue api payload =
     andthen (lift (issue_task payload)) (\<lambda>n.
     andthen (request_dict api [200, 201] (PostTask n)) (\<lambda>reply.
     andthen (lift (case (get reply ''created'', get reply ''task'') of
         (PBool created, PDict task) \<Rightarrow>
           (case get task ''task_id'' of
              PStr tid \<Rightarrow> if TASK_ID tid then Inr (created, tid) else Inl ''worker_issue_enqueue_invalid''
            | _ \<Rightarrow> Inl ''worker_issue_enqueue_invalid'')
       | _ \<Rightarrow> Inl ''worker_issue_enqueue_invalid'')) (\<lambda>(created, tid).
     andthen (client_get_task api tid) (\<lambda>readback.
     andthen (check (same_fields [''repository'', ''issue_number'', ''request_id'', ''correlation_id'', ''priority'', ''base_sha'']
                       readback payload \<and>
                     get readback ''branch'' = get payload ''target_branch'' \<and>
                     get readback ''fencing_required'' = PBool True \<and> py_eq (get readback ''max_attempts'') (PInt 1) \<and>
                     str_in task_states (get readback ''state'')) ''worker_issue_readback_mismatch'') (\<lambda>_.
     ret \<lparr>eq_task_id = tid, eq_created = created, eq_task = readback\<rparr>)))))"

section \<open>Claims\<close>

definition claim_reply_ok :: "string \<Rightarrow> string \<Rightarrow> pydict \<Rightarrow> pydict \<Rightarrow> bool" where
  "claim_reply_ok worker_id tid task lease \<longleftrightarrow>
     get task ''task_id'' = PStr tid \<and> get task ''leased_by'' = PStr worker_id \<and>
     get lease ''task_id'' = PStr tid \<and> get lease ''worker_id'' = PStr worker_id \<and>
     str_all (\<lambda>s. 16 \<le> length s \<and> length s \<le> 128) (get lease ''lease_token'') \<and>
     str_in [''builder'', ''validator''] (get lease ''role'') \<and>
     str_in [''leased'', ''validating''] (get task ''state'')"

text \<open>\<open>fromisoformat\<close> is the standard function after \<^verbatim>\<open>Z\<close> has been replaced by an offset; \<open>clock\<close> is the client's own
  time.\<close>

definition lease_live :: "(string \<Rightarrow> observation) \<Rightarrow> timestamp \<Rightarrow> pydict \<Rightarrow> bool" where
  "lease_live fromisoformat clock lease \<longleftrightarrow>
     str_all (\<lambda>s. 20 \<le> length s \<and> length s \<le> 48 \<and>
       (case fromisoformat s of At deadline \<Rightarrow> clock < deadline | _ \<Rightarrow> False)) (get lease ''lease_expires_at'')"

definition recovery_shape_ok :: "pyval \<Rightarrow> bool" where
  "recovery_shape_ok v \<longleftrightarrow> (case v of
     PDict r \<Rightarrow>
       fst ` set r = {''latest_checkpoint'', ''effects''} \<and>
       (get r ''latest_checkpoint'' = PNone \<or> dict_of (get r ''latest_checkpoint'') \<noteq> None) \<and>
       (case get r ''effects'' of
          PList es \<Rightarrow> length es \<le> 64 \<and> list_all (\<lambda>e. dict_of e \<noteq> None) es | _ \<Rightarrow> False)
   | _ \<Rightarrow> False)"

definition fenced_claim_ok :: "pydict \<Rightarrow> pydict \<Rightarrow> pyval \<Rightarrow> bool" where
  "fenced_claim_ok task lease recovery \<longleftrightarrow>
     get task ''fencing_required'' = PBool True \<and>
     int_all (\<lambda>g. 1 \<le> g) (get lease ''lease_generation'') \<and> str_all SAFE_ID (get lease ''attempt_id'') \<and>
     py_eq (get task ''lease_generation'') (get lease ''lease_generation'') \<and>
     get task ''attempt_id'' = get lease ''attempt_id'' \<and> recovery_shape_ok recovery"

text \<open>The body of a claim; the two random ids are drawn by the server.\<close>

definition exact_claim :: "bool \<Rightarrow> string \<Rightarrow> string \<Rightarrow> string \<Rightarrow> api_request" where
  "exact_claim fenced worker_id tid correlation_id =
     (let p = \<lparr>cp_worker_id = worker_id, cp_correlation_id = correlation_id, cp_lease_seconds = None,
                cp_token = [], cp_attempt_id = []\<rparr>
      in if fenced then PostClaimFencedExact p tid else PostClaimExact p tid)"

definition claim_checked ::
  "(string \<Rightarrow> observation) \<Rightarrow> timestamp \<Rightarrow> bool \<Rightarrow> string \<Rightarrow> string \<Rightarrow> pydict \<Rightarrow> string + pydict" where
  "claim_checked fromisoformat clock fenced worker_id tid reply =
     (case get reply ''claimed'' of
        PBool False \<Rightarrow>
          bindE (require (get reply ''task'' = PNone \<and> get reply ''lease'' = PNone \<and>
                          (\<not> fenced \<or> get reply ''recovery_context'' = PNone)) ''worker_claim_invalid'') (\<lambda>_. Inr reply)
      | PBool True \<Rightarrow>
          (case (get reply ''task'', get reply ''lease'') of
             (PDict task, PDict lease) \<Rightarrow>
               bindE (require (claim_reply_ok worker_id tid task lease \<and> lease_live fromisoformat clock lease)
                        ''worker_claim_invalid'') (\<lambda>_.
               bindE (require (fenced \<longrightarrow> fenced_claim_ok task lease (get reply ''recovery_context''))
                        ''worker_fenced_claim_invalid'') (\<lambda>_.
               bindE (task_readback tid task) (\<lambda>_. Inr reply)))
           | _ \<Rightarrow> Inl ''worker_claim_invalid'')
      | _ \<Rightarrow> Inl ''worker_claim_invalid'')"

definition claim_exact ::
  "(string \<Rightarrow> observation) \<Rightarrow> timestamp \<Rightarrow> 's local_api \<Rightarrow> bool \<Rightarrow> string \<Rightarrow> string \<Rightarrow> string \<Rightarrow> (pydict, 's) act" where
  "claim_exact fromisoformat clock api fenced worker_id tid correlation_id =
     andthen (lift (worker_ok worker_id correlation_id)) (\<lambda>_.
     andthen (lift (id_ok tid)) (\<lambda>_.
     andthen (request_dict api [200] (exact_claim fenced worker_id tid correlation_id)) (\<lambda>reply.
     lift (claim_checked fromisoformat clock fenced worker_id tid reply))))"

section \<open>Checkpoints\<close>

definition checkpoint_matches :: "pyval \<Rightarrow> pydict \<Rightarrow> bool" where
  "checkpoint_matches v expected \<longleftrightarrow>
     (case v of PDict d \<Rightarrow> list_all (\<lambda>(k, x). py_eq (get d k) x) expected | _ \<Rightarrow> False)"

definition client_latest_checkpoint :: "'s local_api \<Rightarrow> string \<Rightarrow> (pyval, 's) act" where
  "client_latest_checkpoint api tid =
     andthen (lift (id_ok tid)) (\<lambda>_.
     andthen (request_dict api [200] (GetLatestCheckpoint tid)) (\<lambda>reply.
     let c = get reply ''checkpoint'' in
     andthen (check (fst ` set reply = {''checkpoint''} \<and>
                     (case c of PNone \<Rightarrow> True | PDict d \<Rightarrow> get d ''task_id'' = PStr tid | _ \<Rightarrow> False))
                ''worker_checkpoint_readback_invalid'') (\<lambda>_.
     ret c)))"

definition no_line_break :: "string \<Rightarrow> bool" where
  "no_line_break s \<longleftrightarrow> list_all (\<lambda>c. code c \<noteq> 10 \<and> code c \<noteq> 13) s"

definition artifact_fields_ok :: "checkpoint_request \<Rightarrow> bool" where
  "artifact_fields_ok i \<longleftrightarrow>
     (case (i_artifact_kind i, i_artifact_ref i, i_artifact_sha256 i) of
        (None, None, None) \<Rightarrow> True
      | (Some kind, Some ref, Some digest) \<Rightarrow>
          SAFE_ID kind \<and> 1 \<le> length ref \<and> length ref \<le> 2048 \<and> no_line_break ref \<and> SHA256 digest
      | _ \<Rightarrow> False)"

definition effect_fields_ok :: "checkpoint_request \<Rightarrow> bool" where
  "effect_fields_ok i \<longleftrightarrow>
     (if i_effect_state i = ''none'' then i_effect_id i = None \<and> i_effect_result_ref i = None
      else if i_effect_state i \<in> {''pending'', ''unknown''}
      then (\<exists>e\<in>set_option (i_effect_id i). SAFE_ID e) \<and> i_effect_result_ref i = None
      else if i_effect_state i \<in> {''confirmed'', ''not_applied''}
      then (\<exists>e\<in>set_option (i_effect_id i). SAFE_ID e) \<and>
           (\<exists>r\<in>set_option (i_effect_result_ref i). 1 \<le> length r \<and> length r \<le> 2048)
      else False)"

definition checkpoint_args_ok :: "checkpoint_request \<Rightarrow> bool" where
  "checkpoint_args_ok i \<longleftrightarrow>
     16 \<le> length (i_lease_token i) \<and> length (i_lease_token i) \<le> 128 \<and> 1 \<le> i_lease_generation i \<and>
     SAFE_ID (i_attempt_id i) \<and> SAFE_ID (i_checkpoint_id i) \<and> 1 \<le> i_sequence i \<and> SAFE_ID (i_stage i) \<and>
     1 \<le> length (i_next_action i) \<and> length (i_next_action i) \<le> 2048 \<and> artifact_fields_ok i \<and> effect_fields_ok i"

definition expected_checkpoint :: "checkpoint_request \<Rightarrow> pydict" where
  "expected_checkpoint i =
     [(''lease_generation'', PInt (i_lease_generation i)), (''attempt_id'', PStr (i_attempt_id i)),
      (''checkpoint_id'', PStr (i_checkpoint_id i)), (''sequence'', PInt (i_sequence i)), (''stage'', PStr (i_stage i)),
      (''artifact_kind'', opt_str (i_artifact_kind i)), (''artifact_ref'', opt_str (i_artifact_ref i)),
      (''artifact_sha256'', opt_str (i_artifact_sha256 i)), (''next_action'', PStr (i_next_action i)),
      (''effect_id'', opt_str (i_effect_id i)), (''effect_state'', PStr (i_effect_state i)),
      (''effect_result_ref'', opt_str (i_effect_result_ref i)), (''correlation_id'', PStr (i_correlation_id i))]"

text \<open>After a transport error the checkpoint may have been stored: only then is it looked up instead.\<close>

definition client_record_checkpoint :: "'s local_api \<Rightarrow> checkpoint_request \<Rightarrow> (pyval, 's) act" where
  "client_record_checkpoint api i =
     andthen (lift (worker_ok (i_worker_id i) (i_correlation_id i))) (\<lambda>_.
     andthen (lift (id_ok (i_task_id i))) (\<lambda>_.
     andthen (check (checkpoint_args_ok i) ''worker_checkpoint_invalid'') (\<lambda>_.
     andthen (attempt
       (andthen (request_dict api [200, 201] (PostCheckpoint i)) (\<lambda>reply. ret (Some reply)))
       (\<lambda>e. if e = ''worker_transport_unverified'' then ret None else raise e)) (\<lambda>outcome.
     case outcome of
       None \<Rightarrow>
         andthen (client_latest_checkpoint api (i_task_id i)) (\<lambda>c.
         andthen (check (checkpoint_matches c (expected_checkpoint i)) ''worker_checkpoint_ambiguous'') (\<lambda>_. ret c))
     | Some reply \<Rightarrow>
         andthen (check (fst ` set reply = {''created'', ''checkpoint''} \<and>
             (case get reply ''created'' of PBool _ \<Rightarrow> True | _ \<Rightarrow> False) \<and>
             checkpoint_matches (get reply ''checkpoint'') (expected_checkpoint i)) ''worker_checkpoint_response_invalid'') (\<lambda>_.
         andthen (client_latest_checkpoint api (i_task_id i)) (\<lambda>c.
         andthen (check (checkpoint_matches c (expected_checkpoint i)) ''worker_checkpoint_readback_mismatch'') (\<lambda>_.
         ret c)))))))"

section \<open>Mutations under a lease\<close>

datatype mutation = MStart | MValidation string | MComplete | MFail string | MBlock string

definition mutation_ok :: "mutation \<Rightarrow> string + unit" where
  "mutation_ok op = (case op of
     MValidation sha \<Rightarrow> require (SHA40 sha) ''worker_validation_sha_invalid''
   | MFail reason \<Rightarrow> require (REASON reason) ''worker_failure_reason_invalid''
   | MBlock reason \<Rightarrow> require (REASON reason) ''worker_failure_reason_invalid''
   | _ \<Rightarrow> Inr ())"

definition fence_ok :: "lease_proof \<Rightarrow> bool" where
  "fence_ok p \<longleftrightarrow> (case (p_lease_generation p, p_attempt_id p) of
     (None, None) \<Rightarrow> True | (Some g, Some a) \<Rightarrow> 1 \<le> g \<and> SAFE_ID a | _ \<Rightarrow> False)"

definition mutation_request :: "lease_proof \<Rightarrow> string \<Rightarrow> mutation \<Rightarrow> api_request" where
  "mutation_request p correlation_id op = (case op of
     MStart \<Rightarrow> PostStart p correlation_id
   | MValidation sha \<Rightarrow> PostValidation p sha correlation_id
   | MComplete \<Rightarrow> PostComplete p correlation_id
   | MFail reason \<Rightarrow> PostFail p correlation_id reason
   | MBlock reason \<Rightarrow> PostBlock p correlation_id reason)"

definition expected_states :: "mutation \<Rightarrow> string list" where
  "expected_states op = (case op of
     MStart \<Rightarrow> [''running''] | MValidation _ \<Rightarrow> [''validating''] | MComplete \<Rightarrow> [''completed'']
   | MFail _ \<Rightarrow> [''queued'', ''blocked'', ''failed''] | MBlock _ \<Rightarrow> [''blocked''])"

definition mutate :: "'s local_api \<Rightarrow> lease_proof \<Rightarrow> string \<Rightarrow> mutation \<Rightarrow> (unit, 's) act" where
  "mutate api p correlation_id op =
     andthen (lift (worker_ok (p_worker_id p) correlation_id)) (\<lambda>_.
     andthen (lift (id_ok (p_task_id p))) (\<lambda>_.
     andthen (check (16 \<le> length (p_lease_token p) \<and> length (p_lease_token p) \<le> 128) ''worker_lease_invalid'') (\<lambda>_.
     andthen (lift (mutation_ok op)) (\<lambda>_.
     andthen (check (fence_ok p) ''worker_lease_fence_invalid'') (\<lambda>_.
     andthen (request_dict api [200] (mutation_request p correlation_id op)) (\<lambda>d.
     andthen (lift (task_readback (p_task_id p) d)) (\<lambda>after.
     andthen (check (str_in (expected_states op) (get after ''state'')) ''worker_mutation_unverified'') (\<lambda>_.
     andthen (client_get_task api (p_task_id p)) (\<lambda>independent.
     check (get independent ''state'' = get after ''state'' \<and>
            get independent ''produced_sha'' = get after ''produced_sha'') ''worker_mutation_readback_mismatch'')))))))))"

text \<open>The public methods.\<close>

definition client_start :: "'s local_api \<Rightarrow> lease_proof \<Rightarrow> string \<Rightarrow> (unit, 's) act" where
  "client_start api p c = mutate api p c MStart"

definition client_submit_validation :: "'s local_api \<Rightarrow> lease_proof \<Rightarrow> string \<Rightarrow> string \<Rightarrow> (unit, 's) act" where
  "client_submit_validation api p sha c = mutate api p c (MValidation sha)"

definition client_complete :: "'s local_api \<Rightarrow> lease_proof \<Rightarrow> string \<Rightarrow> (unit, 's) act" where
  "client_complete api p c = mutate api p c MComplete"

definition client_fail :: "'s local_api \<Rightarrow> lease_proof \<Rightarrow> string \<Rightarrow> string \<Rightarrow> (unit, 's) act" where
  "client_fail api p c reason = mutate api p c (MFail reason)"

definition client_block :: "'s local_api \<Rightarrow> lease_proof \<Rightarrow> string \<Rightarrow> string \<Rightarrow> (unit, 's) act" where
  "client_block api p c reason = mutate api p c (MBlock reason)"

section \<open>The client against the service\<close>

text \<open>The transport to the service of \<open>Pool_Api\<close>, on the loopback interface: the token goes into the header, the two
  random ids of a claim are the server's, \<open>bytes\<close> is the length of an answer's text.\<close>

definition with_draw :: "string \<times> string \<Rightarrow> api_request \<Rightarrow> api_request" where
  "with_draw draw req = (case req of
     PostClaimExact p tid \<Rightarrow> PostClaimExact (p\<lparr>cp_token := fst draw, cp_attempt_id := snd draw\<rparr>) tid
   | PostClaimFencedExact p tid \<Rightarrow> PostClaimFencedExact (p\<lparr>cp_token := fst draw, cp_attempt_id := snd draw\<rparr>) tid
   | _ \<Rightarrow> req)"

definition loopback :: "api_env \<Rightarrow> timestamp \<Rightarrow> string \<times> string \<Rightarrow> (body \<Rightarrow> nat) \<Rightarrow> app_db transport" where
  "loopback env now draw bytes tok req a =
     (case serve env now (Some (''Bearer '' @ tok)) (with_draw draw req) a of
        ((sc, b), a') \<Rightarrow>
          (Some \<lparr>hr_same_origin = True, hr_status = sc, hr_size = bytes b, hr_content_type = ''application/json'',
                 hr_json = Some (json_body b)\<rparr>, a'))"

end
