(* ===== verification/Issue_Handoff.thy ===== *)
theory Issue_Handoff
  imports Native_Http
begin

text \<open>
  The hand-off of a GitHub issue: \<^verbatim>\<open>app/issue_draft_pr.py\<close> (admission of an issue by its owner, verification of a
  patch, publication of a draft), \<^verbatim>\<open>app/issue_pool_admission.py\<close> (submission of an admitted issue to the pool)
  and \<^verbatim>\<open>app/issue_publish_coordinator.py\<close> (publication of a completed task). GitHub, the pool and the independent
  verifiers are reached through ports, records of actions on a common world; the judge of the
  structured worker (\<^verbatim>\<open>extracted\<close>, \<^verbatim>\<open>render\<close>, \<^verbatim>\<open>validate\<close>) is an argument. Byte strings are texts of 8-bit
  characters.
\<close>

section \<open>Admission\<close>

definition OWNER :: string where "OWNER = ''ericson-j-santos''"
definition PROFILE :: string where "PROFILE = ''bridge.property.v1''"
definition PATH :: string where "PATH = ''app/portfolio_bridge.py''"
definition FUNCTION :: string where "FUNCTION = ''_property''"
definition MODEL :: string where "MODEL = ''qwen2.5-coder:7b''"
definition MODEL_DIGEST_PREFIX :: string where "MODEL_DIGEST_PREFIX = ''dae161e27b0e''"
definition MARKER :: string where "MARKER = ''local-qwen7b-issue-draft-v1''"

definition observed_date :: "observation \<Rightarrow> string + timestamp" where
  "observed_date v = (case v of
     NotIso \<Rightarrow> Inl ''observation_timestamp_invalid''
   | NoTimezone \<Rightarrow> Inl ''observation_timezone_required''
   | At t \<Rightarrow> Inr t)"

record issue_binding =
  ib_number :: int
  ib_base_sha :: string
  ib_comment_id :: int
  ib_request_id :: string
  ib_correlation_id :: string
  ib_branch :: string

definition issue_url :: "int \<Rightarrow> string" where
  "issue_url issue = ''https://api.github.com/repos/'' @ REPO @ ''/issues/'' @ show_int issue"

definition open_issue :: "pydict \<Rightarrow> int \<Rightarrow> bool" where
  "open_issue issue k \<longleftrightarrow>
     get issue ''number'' = PInt k \<and> 0 < k \<and> get issue ''state'' = PStr ''open'' \<and> \<not> truthy (get issue ''pull_request'') \<and>
     get issue ''html_url'' = PStr (''https://github.com/'' @ REPO @ ''/issues/'' @ show_int k) \<and>
     get issue ''repository_url'' = PStr (''https://api.github.com/repos/'' @ REPO)"

definition main_at :: "pydict \<Rightarrow> string \<Rightarrow> bool" where
  "main_at head base_sha \<longleftrightarrow>
     get head ''name'' = PStr ''main'' \<and>
     (case get head ''commit'' of PDict c \<Rightarrow> get c ''sha'' = PStr base_sha | _ \<Rightarrow> False)"

definition owner_authorized :: "pydict \<Rightarrow> int \<Rightarrow> string \<Rightarrow> int \<Rightarrow> bool" where
  "owner_authorized comment k base_sha cid \<longleftrightarrow>
     get comment ''id'' = PInt cid \<and> 0 < cid \<and>
     (case get comment ''user'' of
        PDict user \<Rightarrow> get user ''login'' = PStr OWNER \<and> get user ''type'' = PStr ''User'' | _ \<Rightarrow> False) \<and>
     get comment ''author_association'' = PStr ''OWNER'' \<and> get comment ''issue_url'' = PStr (issue_url k) \<and>
     get comment ''body'' = PStr (''/local-agent authorize '' @ PROFILE @ '' sha:'' @ base_sha)"

definition bind_issue :: "int \<Rightarrow> string \<Rightarrow> int \<Rightarrow> issue_binding" where
  "bind_issue k base_sha cid =
     \<lparr>ib_number = k, ib_base_sha = base_sha, ib_comment_id = cid,
      ib_request_id = ''issue-'' @ sha256_hex (REPO @ ''#'' @ show_int k @ '':'' @ PROFILE @ '':'' @ base_sha),
      ib_correlation_id = ''qwen7b-issue-'' @ show_int k @ ''-'' @ take 12 base_sha,
      ib_branch = issue_branch k base_sha\<rparr>"

definition admit :: "pyval \<Rightarrow> pyval \<Rightarrow> pyval \<Rightarrow> string \<Rightarrow> observation \<Rightarrow> timestamp \<Rightarrow> string + issue_binding" where
  "admit issue comment head base_sha observed_at now =
     (case (issue, comment, head) of
        (PDict i, PDict c, PDict b) \<Rightarrow>
          bindE (require (SHA40 base_sha) ''base_sha_invalid'') (\<lambda>_.
          bindE (observed_date observed_at) (\<lambda>t.
          bindE (require (0 \<le> now - t \<and> now - t \<le> seconds 300) ''github_observation_stale_or_future'') (\<lambda>_.
          case get i ''number'' of
            PInt k \<Rightarrow>
              bindE (require (open_issue i k) ''issue_identity_invalid'') (\<lambda>_.
              bindE (require (main_at b base_sha) ''main_head_drift'') (\<lambda>_.
              case get c ''id'' of
                PInt cid \<Rightarrow>
                  bindE (require (owner_authorized c k base_sha cid) ''owner_authorization_missing'') (\<lambda>_.
                  Inr (bind_issue k base_sha cid))
              | _ \<Rightarrow> Inl ''owner_authorization_missing''))
          | _ \<Rightarrow> Inl ''issue_identity_invalid'')))
      | _ \<Rightarrow> Inl ''untrusted_snapshot_shape'')"

lemma admit_Inr:
  assumes "admit issue comment head base_sha ob now = Inr binding"
  shows "\<exists>i c b k cid t. issue = PDict i \<and> comment = PDict c \<and> head = PDict b \<and> SHA40 base_sha \<and> ob = At t \<and>
    t \<le> now \<and> now \<le> t + seconds 300 \<and> open_issue i k \<and> main_at b base_sha \<and> owner_authorized c k base_sha cid \<and>
    binding = bind_issue k base_sha cid"
  using assms unfolding admit_def
  by (auto simp: outcome_simps observed_date_def split: pyval.splits observation.splits)

section \<open>Verification of a patch\<close>

text \<open>The judge's task: the reviewed function of the reviewed file, with the versioned cases.\<close>

record code_task =
  ct_task_id :: string
  ct_path :: string
  ct_function :: string
  ct_base_sha :: string
  ct_before_sha256 :: string

record report =
  rp_passed :: int
  rp_total :: int
  rp_errors :: int
  rp_failures :: "string list"

text \<open>\<open>jd_rebuild\<close> is \<^verbatim>\<open>render\<close> of what \<^verbatim>\<open>extracted\<close> finds in the candidate; both may raise.\<close>

record judge =
  jd_rebuild :: "code_task \<Rightarrow> string \<Rightarrow> string \<Rightarrow> string + string"
  jd_validate :: "code_task \<Rightarrow> string \<Rightarrow> string + report"

definition trusted_task :: "issue_binding \<Rightarrow> string \<Rightarrow> string + code_task" where
  "trusted_task binding before =
     bindE (require (1 \<le> length before \<and> length before \<le> 262144) ''source_bytes_invalid'') (\<lambda>_.
     Inr \<lparr>ct_task_id = ib_correlation_id binding, ct_path = PATH, ct_function = FUNCTION,
          ct_base_sha = ib_base_sha binding, ct_before_sha256 = sha256_hex before\<rparr>)"

text \<open>Well-formed UTF-8, what \<^verbatim>\<open>bytes.decode\<close> accepts.\<close>

definition cont :: "nat \<Rightarrow> bool" where
  "cont b \<longleftrightarrow> 128 \<le> b \<and> b < 192"

fun utf8_bytes :: "nat list \<Rightarrow> bool" where
  "utf8_bytes [] \<longleftrightarrow> True"
| "utf8_bytes (a # bs) \<longleftrightarrow>
     (if a < 128 then utf8_bytes bs
      else (case bs of
        [] \<Rightarrow> False
      | b # cs \<Rightarrow>
          (if 194 \<le> a \<and> a < 224 then cont b \<and> utf8_bytes cs
           else (case cs of
             [] \<Rightarrow> False
           | c # ds \<Rightarrow>
               (if 224 \<le> a \<and> a < 240
                then cont b \<and> cont c \<and> (a = 224 \<longrightarrow> 160 \<le> b) \<and> (a = 237 \<longrightarrow> b < 160) \<and> utf8_bytes ds
                else (case ds of
                  [] \<Rightarrow> False
                | d # es \<Rightarrow>
                    240 \<le> a \<and> a < 245 \<and> cont b \<and> cont c \<and> cont d \<and> (a = 240 \<longrightarrow> 144 \<le> b) \<and> (a = 244 \<longrightarrow> b < 144) \<and>
                    utf8_bytes es))))))"

definition decodes :: "string \<Rightarrow> bool" where
  "decodes s \<longleftrightarrow> utf8_bytes (map of_char s)"

definition model_proved :: "issue_binding \<Rightarrow> pydict \<Rightarrow> bool" where
  "model_proved binding audit \<longleftrightarrow>
     get audit ''model'' = PStr MODEL \<and>
     str_all (\<lambda>d. SHA256 d \<and> starts_with MODEL_DIGEST_PREFIX d) (get audit ''model_digest'') \<and>
     int_all (\<lambda>n. n = 1 \<or> n = 2) (get audit ''model_calls'') \<and>
     str_all (\<lambda>p. SHA40 p \<and> p \<noteq> ib_base_sha binding) (get audit ''produced_sha'')"

definition regression_proved :: "string \<Rightarrow> pyval \<Rightarrow> pyval \<Rightarrow> bool" where
  "regression_proved after produced v \<longleftrightarrow> (case v of
     PDict observed \<Rightarrow>
       get observed ''independent_checkout'' = PBool True \<and>
       get observed ''source_sha256'' = PStr (sha256_hex after) \<and> get observed ''produced_sha'' = produced \<and>
       (case (get observed ''passed'', get observed ''collected'') of
          (PInt passed, PInt collected) \<Rightarrow> 52 \<le> passed \<and> passed \<le> collected | _ \<Rightarrow> False) \<and>
       py_eq (get observed ''failed'') (PInt 0) \<and> py_eq (get observed ''errors'') (PInt 0)
   | _ \<Rightarrow> False)"

definition audit_of :: "issue_binding \<Rightarrow> pydict \<Rightarrow> string \<Rightarrow> report \<Rightarrow> pyval \<Rightarrow> pydict" where
  "audit_of binding audit after baseline observed =
     [(''model'', get audit ''model''), (''model_digest'', get audit ''model_digest''),
      (''model_calls'', get audit ''model_calls''), (''base_sha'', PStr (ib_base_sha binding)),
      (''produced_sha'', get audit ''produced_sha''), (''source_sha256'', PStr (sha256_hex after)),
      (''baseline_passed'', PInt (rp_passed baseline)), (''accepted_cases'', PInt 42),
      (''regressions_passed'', (case observed of PDict d \<Rightarrow> get d ''passed'' | _ \<Rightarrow> PNone)),
      (''request_id'', PStr (ib_request_id binding))]"

definition accepted_report :: report where
  "accepted_report = \<lparr>rp_passed = 42, rp_total = 42, rp_errors = 0, rp_failures = []\<rparr>"

text \<open>Up to the call of the regression checker nothing but the judge is consulted.\<close>

definition bounded_acceptance :: "judge \<Rightarrow> issue_binding \<Rightarrow> string \<Rightarrow> string \<Rightarrow> pydict \<Rightarrow> string + report" where
  "bounded_acceptance j binding before after audit =
     bindE (require (model_proved binding audit) ''model_identity_unproved'') (\<lambda>_.
     bindE (require (length after \<le> 262144 \<and> before \<noteq> after) ''candidate_bytes_invalid'') (\<lambda>_.
     bindE (trusted_task binding before) (\<lambda>task.
     bindE (require (decodes before \<and> decodes after) ''source_encoding_invalid'') (\<lambda>_.
     bindE (jd_rebuild j task before after) (\<lambda>reconstructed.
     bindE (require (after = reconstructed) ''candidate_scope_changed'') (\<lambda>_.
     bindE (jd_validate j task before) (\<lambda>baseline.
     bindE (jd_validate j task after) (\<lambda>report.
     bindE (require (rp_passed baseline < rp_total baseline \<and> rp_total baseline = 42 \<and> report = accepted_report)
              ''bounded_acceptance_failed'') (\<lambda>_.
     Inr baseline)))))))))"

definition verify_patch ::
  "judge \<Rightarrow> (string \<Rightarrow> pyval \<Rightarrow> (pyval, 'w) act) \<Rightarrow> issue_binding \<Rightarrow> string \<Rightarrow> string \<Rightarrow> pydict \<Rightarrow> (pydict, 'w) act" where
  "verify_patch j regression_checker binding before after audit =
     andthen (lift (bounded_acceptance j binding before after audit)) (\<lambda>baseline.
     andthen (regression_checker after (get audit ''produced_sha'')) (\<lambda>observed.
     andthen (check (regression_proved after (get audit ''produced_sha'') observed) ''independent_regression_unproved'') (\<lambda>_.
     ret (audit_of binding audit after baseline observed))))"

section \<open>Publication of a draft\<close>

record 'w github_port =
  gp_get_branch :: "string \<Rightarrow> (pyval, 'w) act"
  gp_get_source :: "string \<Rightarrow> (string \<times> pyval, 'w) act"
  gp_changed_paths :: "string \<Rightarrow> string \<Rightarrow> (string list, 'w) act"
  gp_create_branch :: "string \<Rightarrow> string \<Rightarrow> (unit, 'w) act"
  gp_replace_source :: "string \<Rightarrow> string \<Rightarrow> string \<Rightarrow> (unit, 'w) act"
  gp_find_pr :: "string \<Rightarrow> (pyval, 'w) act"
  gp_create_pr :: "string \<Rightarrow> string \<Rightarrow> string \<Rightarrow> (unit, 'w) act"
  gp_get_issue :: "int \<Rightarrow> (pyval, 'w) act"
  gp_get_comment :: "int \<Rightarrow> (pyval, 'w) act"

text \<open>\<^verbatim>\<open>str\<close> of the values an audit can hold: texts and whole numbers.\<close>

fun py_str :: "pyval \<Rightarrow> string" where
  "py_str (PStr s) = s"
| "py_str (PInt i) = show_int i"
| "py_str (PFloat r) = show_int \<lfloor>r\<rfloor> @ ''.0''"
| "py_str (PBool b) = (if b then ''True'' else ''False'')"
| "py_str PNone = ''None''"
| "py_str _ = []"

definition nl :: string where
  "nl = [CHR 0x0A]"

definition draft_body :: "issue_binding \<Rightarrow> pydict \<Rightarrow> string" where
  "draft_body binding audit =
     ''Closes #'' @ show_int (ib_number binding) @ '' only after independent review.'' @ nl @ nl @
     ''Marker: '' @ MARKER @ nl @
     ''Authorization comment: '' @ show_int (ib_comment_id binding) @ nl @
     ''Base SHA: '' @ ib_base_sha binding @ nl @
     ''Builder SHA: '' @ py_str (get audit ''produced_sha'') @ nl @
     ''Model: '' @ MODEL @ '' (digest '' @ py_str (get audit ''model_digest'') @ '')'' @ nl @
     ''Validation: 42/42 cases; '' @ py_str (get audit ''regressions_passed'') @ '' regressions.'' @ nl @
     ''Source SHA-256: '' @ py_str (get audit ''source_sha256'') @ nl @
     ''Request: '' @ ib_request_id binding @ nl @
     ''Draft only. No automatic merge, deployment or product cutover.'' @ nl"

definition draft_title :: "issue_binding \<Rightarrow> string" where
  "draft_title binding = ''fix: issue #'' @ show_int (ib_number binding) @ '' via local Qwen7B''"

text \<open>The commit a branch reply names.\<close>

definition head_of_branch :: "pyval \<Rightarrow> pyval option" where
  "head_of_branch v = (case v of
     PDict b \<Rightarrow> (case get b ''commit'' of PDict c \<Rightarrow> Some (get c ''sha'') | _ \<Rightarrow> None) | _ \<Rightarrow> None)"

definition new_head :: "issue_binding \<Rightarrow> pyval \<Rightarrow> bool" where
  "new_head binding v \<longleftrightarrow> str_all (\<lambda>s. SHA40 s \<and> s \<noteq> ib_base_sha binding) v"

text \<open>Everything that is checked before the first write; the result is the blob of the base source.\<close>

definition draft_guards ::
  "judge \<Rightarrow> (string \<Rightarrow> pyval \<Rightarrow> (pyval, 'w) act) \<Rightarrow> 'w github_port \<Rightarrow> observation \<Rightarrow> timestamp \<Rightarrow> issue_binding \<Rightarrow>
   string \<Rightarrow> string \<Rightarrow> pydict \<Rightarrow> (string, 'w) act" where
  "draft_guards j checker port observed_at now binding before after audit =
     andthen (gp_get_branch port ''main'') (\<lambda>main.
     andthen (check (main \<noteq> PNone) ''main_unavailable'') (\<lambda>_.
     andthen (gp_get_issue port (ib_number binding)) (\<lambda>issue.
     andthen (gp_get_comment port (ib_comment_id binding)) (\<lambda>comment.
     andthen (lift (admit issue comment main (ib_base_sha binding) observed_at now)) (\<lambda>checked.
     andthen (check (checked = binding) ''admission_revalidated_different'') (\<lambda>_.
     andthen (gp_get_source port (ib_base_sha binding)) (\<lambda>(actual, blob).
     andthen (check (actual = before \<and> str_all SHA40 blob) ''base_source_changed'') (\<lambda>_.
     andthen (verify_patch j checker binding before after audit) (\<lambda>checked_audit.
     andthen (check (dict_eq audit checked_audit) ''audit_binding_invalid'') (\<lambda>_.
     ret (py_str blob)))))))))))"

text \<open>The branch, created when it is missing.\<close>

definition ensure_branch :: "'w github_port \<Rightarrow> issue_binding \<Rightarrow> (pyval, 'w) act" where
  "ensure_branch port binding =
     andthen (gp_get_branch port (ib_branch binding)) (\<lambda>existing.
     if existing = PNone
     then andthen (gp_create_branch port (ib_branch binding) (ib_base_sha binding)) (\<lambda>_.
          gp_get_branch port (ib_branch binding))
     else ret existing)"

text \<open>Its source, replaced when the branch is still at the base.\<close>

definition ensure_source :: "'w github_port \<Rightarrow> issue_binding \<Rightarrow> string \<Rightarrow> string \<Rightarrow> string \<Rightarrow> pyval \<Rightarrow> (unit, 'w) act" where
  "ensure_source port binding before after blob existing =
     andthen (lift (case head_of_branch existing of None \<Rightarrow> Inl ''draft_branch_unreadable'' | Some h \<Rightarrow> Inr h)) (\<lambda>head.
     andthen (gp_get_source port (ib_branch binding)) (\<lambda>(remote, _).
     if head = PStr (ib_base_sha binding) \<and> remote = before
     then gp_replace_source port (ib_branch binding) after blob
     else check (new_head binding head \<and> remote = after) ''branch_collision_or_divergence''))"

text \<open>The read-back of the branch, and the scope of its difference from the base.\<close>

definition verify_branch :: "'w github_port \<Rightarrow> issue_binding \<Rightarrow> string \<Rightarrow> (string, 'w) act" where
  "verify_branch port binding after =
     andthen (gp_get_branch port (ib_branch binding)) (\<lambda>final_branch.
     andthen (gp_get_source port (ib_branch binding)) (\<lambda>(final_source, _).
     andthen (lift (case head_of_branch final_branch of
         Some h \<Rightarrow> if new_head binding h \<and> final_source = after then Inr (py_str h) else Inl ''branch_readback_failed''
       | None \<Rightarrow> Inl ''branch_readback_failed'')) (\<lambda>head.
     andthen (gp_changed_paths port (ib_base_sha binding) head) (\<lambda>paths.
     andthen (check (paths = [PATH]) ''draft_branch_diff_scope_invalid'') (\<lambda>_.
     ret head)))))"

definition pr_ok :: "string \<Rightarrow> string \<Rightarrow> pyval \<Rightarrow> bool" where
  "pr_ok head body v \<longleftrightarrow> (case v of
     PDict pr \<Rightarrow>
       int_of (get pr ''number'') \<noteq> None \<and> get pr ''state'' = PStr ''open'' \<and> get pr ''draft'' = PBool True \<and>
       get pr ''head_sha'' = PStr head \<and> get pr ''base_ref'' = PStr ''main'' \<and> get pr ''body'' = PStr body
   | _ \<Rightarrow> False)"

record draft_result =
  dr_issue :: int
  dr_pr_number :: pyval
  dr_head_sha :: string
  dr_replayed :: bool
  dr_request_id :: string

text \<open>The pull request, created when it is missing; whether it was there already.\<close>

definition open_pr :: "'w github_port \<Rightarrow> issue_binding \<Rightarrow> string \<Rightarrow> (pyval \<times> bool, 'w) act" where
  "open_pr port binding body =
     andthen (gp_find_pr port (ib_branch binding)) (\<lambda>pr.
     if pr = PNone
     then andthen (gp_create_pr port (ib_branch binding) (draft_title binding) body) (\<lambda>_.
          andthen (gp_find_pr port (ib_branch binding)) (\<lambda>pr. ret (pr, False)))
     else ret (pr, True))"

definition ensure_pr :: "'w github_port \<Rightarrow> issue_binding \<Rightarrow> pydict \<Rightarrow> string \<Rightarrow> (draft_result, 'w) act" where
  "ensure_pr port binding audit head =
     andthen (open_pr port binding (draft_body binding audit)) (\<lambda>(pr, replayed).
     andthen (check (pr_ok head (draft_body binding audit) pr) ''draft_pr_readback_failed'') (\<lambda>_.
     ret \<lparr>dr_issue = ib_number binding,
          dr_pr_number = (case pr of PDict d \<Rightarrow> get d ''number'' | _ \<Rightarrow> PNone), dr_head_sha = head,
          dr_replayed = replayed, dr_request_id = ib_request_id binding\<rparr>))"

definition publish_draft ::
  "judge \<Rightarrow> (string \<Rightarrow> pyval \<Rightarrow> (pyval, 'w) act) \<Rightarrow> 'w github_port \<Rightarrow> observation \<Rightarrow> timestamp \<Rightarrow> issue_binding \<Rightarrow>
   string \<Rightarrow> string \<Rightarrow> pydict \<Rightarrow> (draft_result, 'w) act" where
  "publish_draft j checker port observed_at now binding before after audit =
     andthen (draft_guards j checker port observed_at now binding before after audit) (\<lambda>blob.
     andthen (ensure_branch port binding) (\<lambda>existing.
     andthen (ensure_source port binding before after blob existing) (\<lambda>_.
     andthen (verify_branch port binding after) (\<lambda>head.
     ensure_pr port binding audit head))))"

section \<open>Submission of an issue\<close>

text \<open>The pool as the hand-off sees it.\<close>

record 'w issue_pool =
  ip_list_repositories :: "(pydict list, 'w) act"
  ip_enqueue_fenced_issue :: "pydict \<Rightarrow> (enqueued, 'w) act"
  ip_get_task :: "string \<Rightarrow> (pydict, 'w) act"
  ip_get_latest_checkpoint :: "string \<Rightarrow> (pyval, 'w) act"

definition read_binding :: "'w github_port \<Rightarrow> int \<Rightarrow> int \<Rightarrow> timestamp \<Rightarrow> (issue_binding, 'w) act" where
  "read_binding github issue_number comment_id clock =
     andthen (gp_get_branch github ''main'') (\<lambda>main.
     andthen (lift (case head_of_branch main of None \<Rightarrow> Inl ''issue_main_unavailable'' | Some h \<Rightarrow> Inr h)) (\<lambda>h.
     andthen (lift (case h of PStr s \<Rightarrow> Inr s | _ \<Rightarrow> Inl ''issue_main_invalid'')) (\<lambda>base_sha.
     andthen (gp_get_issue github issue_number) (\<lambda>issue.
     andthen (gp_get_comment github comment_id) (\<lambda>comment.
     lift (admit issue comment main base_sha (At clock) clock))))))"

definition lane_ready :: "pydict list \<Rightarrow> bool" where
  "lane_ready lanes \<longleftrightarrow>
     (case filter (\<lambda>l. get l ''repository'' = PStr REPO) lanes of
        [l] \<Rightarrow> get l ''enabled'' = PBool True \<and> get l ''max_in_flight'' = PInt 1
      | _ \<Rightarrow> False)"

definition issue_payload :: "issue_binding \<Rightarrow> pydict" where
  "issue_payload binding =
     [(''repository'', PStr REPO), (''issue_number'', PInt (ib_number binding)), (''request_id'', PStr (ib_request_id binding)),
      (''correlation_id'', PStr (ib_correlation_id binding)), (''priority'', PInt 10),
      (''base_sha'', PStr (ib_base_sha binding)), (''target_branch'', PStr (ib_branch binding)),
      (''max_attempts'', PInt 1), (''fencing_required'', PBool True)]"

definition admitted_readback :: "pydict \<Rightarrow> enqueued \<Rightarrow> bool" where
  "admitted_readback payload q \<longleftrightarrow>
     get (eq_task q) ''task_id'' = PStr (eq_task_id q) \<and>
     same_fields [''repository'', ''issue_number'', ''request_id'', ''correlation_id'', ''base_sha''] (eq_task q) payload \<and>
     get (eq_task q) ''branch'' = get payload ''target_branch'' \<and> get (eq_task q) ''fencing_required'' = PBool True \<and>
     py_eq (get (eq_task q) ''max_attempts'') (PInt 1)"

record admission =
  ad_task_id :: string
  ad_created :: bool
  ad_binding :: issue_binding
  ad_baseline_passed :: int

definition admit_to_existing_pool ::
  "judge \<Rightarrow> 'w github_port \<Rightarrow> 'w issue_pool \<Rightarrow> int \<Rightarrow> int \<Rightarrow> string \<Rightarrow> timestamp \<Rightarrow> (admission, 'w) act" where
  "admit_to_existing_pool j github port issue_number comment_id environment clock =
     andthen (check (environment = ''dev'') ''issue_dispatch_dev_only'') (\<lambda>_.
     andthen (check (0 < issue_number \<and> 0 < comment_id) ''issue_dispatch_identity_invalid'') (\<lambda>_.
     andthen (read_binding github issue_number comment_id clock) (\<lambda>binding.
     andthen (gp_get_source github (ib_base_sha binding)) (\<lambda>(source, _).
     andthen (lift (trusted_task binding source)) (\<lambda>task.
     andthen (check (decodes source) ''issue_source_encoding_invalid'') (\<lambda>_.
     andthen (lift (jd_validate j task source)) (\<lambda>result.
     andthen (check (rp_total result = 42 \<and> rp_passed result < 42) ''issue_no_failing_baseline'') (\<lambda>_.
     andthen (ip_list_repositories port) (\<lambda>lanes.
     andthen (check (length lanes \<le> 128) ''issue_lanes_invalid'') (\<lambda>_.
     andthen (check (lane_ready lanes) ''issue_fenced_lane_not_ready'') (\<lambda>_.
     andthen (read_binding github issue_number comment_id clock) (\<lambda>current.
     andthen (check (current = binding) ''issue_admission_changed_before_enqueue'') (\<lambda>_.
     andthen (ip_enqueue_fenced_issue port (issue_payload binding)) (\<lambda>q.
     andthen (check (admitted_readback (issue_payload binding) q) ''issue_pool_readback_invalid'') (\<lambda>_.
     ret \<lparr>ad_task_id = eq_task_id q, ad_created = eq_created q, ad_binding = binding,
          ad_baseline_passed = rp_passed result\<rparr>)))))))))))))))"

section \<open>Publication of a completed task\<close>

definition int_at_least :: "int \<Rightarrow> pyval \<Rightarrow> bool" where
  "int_at_least n v \<longleftrightarrow> int_all (\<lambda>i. n \<le> i) v"

definition completed_ok :: "issue_binding \<Rightarrow> string \<Rightarrow> pydict \<Rightarrow> bool" where
  "completed_ok binding tid d \<longleftrightarrow>
     get d ''task_id'' = PStr tid \<and> get d ''repository'' = PStr REPO \<and> py_eq (get d ''issue_number'') (PInt (ib_number binding)) \<and>
     get d ''request_id'' = PStr (ib_request_id binding) \<and> get d ''base_sha'' = PStr (ib_base_sha binding) \<and>
     get d ''branch'' = PStr (ib_branch binding) \<and> get d ''fencing_required'' = PBool True \<and>
     get d ''state'' = PStr ''completed'' \<and> get d ''leased_by'' = PNone \<and> new_head binding (get d ''produced_sha'') \<and>
     (case (get d ''builder_worker_id'', get d ''validator_worker_id'') of (PStr b, PStr v) \<Rightarrow> b \<noteq> v | _ \<Rightarrow> False) \<and>
     int_at_least 2 (get d ''attempt_count'') \<and> int_at_least 2 (get d ''lease_generation'')"

definition completed :: "'w issue_pool \<Rightarrow> issue_binding \<Rightarrow> string \<Rightarrow> (pydict, 'w) act" where
  "completed port binding tid =
     andthen (check (TASK_ID tid) ''issue_task_id_invalid'') (\<lambda>_.
     andthen (ip_get_task port tid) (\<lambda>d.
     andthen (check (completed_ok binding tid d) ''issue_completed_pool_unproved'') (\<lambda>_. ret d)))"

definition validator_checkpoint_ok :: "string \<Rightarrow> pydict \<Rightarrow> pyval \<Rightarrow> bool" where
  "validator_checkpoint_ok tid task v \<longleftrightarrow> (case v of
     PDict c \<Rightarrow>
       get c ''task_id'' = PStr tid \<and> get c ''stage'' = PStr ''validator_result'' \<and> get c ''next_action'' = PStr ''complete'' \<and>
       py_eq (get c ''lease_generation'') (get task ''lease_generation'') \<and>
       str_all (\<lambda>s. 1 \<le> length s \<and> length s \<le> 2048) (get c ''artifact_ref'') \<and>
       str_all SHA256 (get c ''artifact_sha256'') \<and>
       str_all (\<lambda>s. 1 \<le> length s \<and> length s \<le> 128) (get c ''artifact_kind'')
   | _ \<Rightarrow> False)"

text \<open>What the content-addressed store and the git verifier return.\<close>

record materialized =
  cas_artifact_bytes :: string
  cas_source_bytes :: string
  cas_produced_sha :: pyval
  cas_base_sha :: pyval

record git_evidence =
  ge_base_sha :: pyval
  ge_produced_sha :: pyval
  ge_source_sha256 :: pyval
  ge_changed_paths :: "string list"
  ge_checkout_isolated :: bool
  ge_commit_verified :: bool

definition cas_ok :: "issue_binding \<Rightarrow> pydict \<Rightarrow> pyval \<Rightarrow> materialized \<Rightarrow> bool" where
  "cas_ok binding task v cas \<longleftrightarrow> (case v of
     PDict c \<Rightarrow>
       1 \<le> length (cas_artifact_bytes cas) \<and> length (cas_artifact_bytes cas) \<le> 10000000 \<and>
       get c ''artifact_sha256'' = PStr (sha256_hex (cas_artifact_bytes cas)) \<and>
       1 \<le> length (cas_source_bytes cas) \<and> length (cas_source_bytes cas) \<le> 262144 \<and>
       cas_produced_sha cas = get task ''produced_sha'' \<and> cas_base_sha cas = PStr (ib_base_sha binding)
   | _ \<Rightarrow> False)"

definition git_ok :: "issue_binding \<Rightarrow> pydict \<Rightarrow> string \<Rightarrow> git_evidence \<Rightarrow> bool" where
  "git_ok binding task after g \<longleftrightarrow>
     ge_base_sha g = PStr (ib_base_sha binding) \<and> ge_produced_sha g = get task ''produced_sha'' \<and>
     ge_source_sha256 g = PStr (sha256_hex after) \<and> ge_changed_paths g = [PATH] \<and> ge_checkout_isolated g \<and> ge_commit_verified g"

record 'w publish_ports =
  pp_github :: "'w github_port"
  pp_pool :: "'w issue_pool"
  pp_materialize :: "pyval \<Rightarrow> string \<Rightarrow> pyval \<Rightarrow> (materialized, 'w) act"
  pp_git_verify :: "string \<Rightarrow> string \<Rightarrow> pyval \<Rightarrow> (git_evidence, 'w) act"
  pp_regression :: "string \<Rightarrow> pyval \<Rightarrow> (pyval, 'w) act"

record publication =
  pb_draft :: draft_result
  pb_task_id :: string
  pb_validator :: pyval
  pb_artifact_sha256 :: pyval
  pb_generation :: pyval

definition publish_completed_fenced_issue ::
  "judge \<Rightarrow> 'w publish_ports \<Rightarrow> issue_binding \<Rightarrow> string \<Rightarrow> pydict \<Rightarrow> timestamp \<Rightarrow> (publication, 'w) act" where
  "publish_completed_fenced_issue j ports binding tid model_audit now =
     andthen (completed (pp_pool ports) binding tid) (\<lambda>task.
     andthen (ip_get_latest_checkpoint (pp_pool ports) tid) (\<lambda>checkpoint.
     andthen (check (validator_checkpoint_ok tid task checkpoint) ''issue_validator_checkpoint_unproved'') (\<lambda>_.
     andthen (pp_materialize ports checkpoint tid (get task ''produced_sha'')) (\<lambda>cas.
     andthen (check (cas_ok binding task checkpoint cas) ''issue_cas_materialization_unproved'') (\<lambda>_.
     andthen (pp_git_verify ports (cas_source_bytes cas) (ib_base_sha binding) (get task ''produced_sha'')) (\<lambda>g.
     andthen (check (git_ok binding task (cas_source_bytes cas) g) ''issue_git_materialization_unproved'') (\<lambda>_.
     andthen (gp_get_source (pp_github ports) (ib_base_sha binding)) (\<lambda>(before, _).
     andthen (check (get model_audit ''produced_sha'' = get task ''produced_sha'' \<and>
                     get model_audit ''base_sha'' = PStr (ib_base_sha binding)) ''issue_model_audit_mismatch'') (\<lambda>_.
     andthen (publish_draft j (pp_regression ports) (pp_github ports) (At now) now binding before (cas_source_bytes cas) model_audit) (\<lambda>r.
     andthen (completed (pp_pool ports) binding tid) (\<lambda>final_task.
     andthen (check (get final_task ''produced_sha'' = get task ''produced_sha'' \<and>
                     py_eq (get final_task ''lease_generation'') (get task ''lease_generation''))
                ''issue_pool_changed_after_publication'') (\<lambda>_.
     ret \<lparr>pb_draft = r, pb_task_id = tid, pb_validator = get task ''validator_worker_id'',
          pb_artifact_sha256 = (case checkpoint of PDict c \<Rightarrow> get c ''artifact_sha256'' | _ \<Rightarrow> PNone),
          pb_generation = get task ''lease_generation''\<rparr>))))))))))))"

end
