(* ===== verification/Api_Properties.thy ===== *)
theory Api_Properties
  imports Pool_Api Recovery_Properties Claim_Properties
begin

text \<open>
  What the HTTP service guarantees: each route is a sequence of calls on the pool or one step of
  the work orchestrator, so every invariant of the reachable databases holds behind the API; the
  two credentials are separate; and a failed request leaves the database as it was.
\<close>

section \<open>Who writes the reconciliation log\<close>

abbreviation recs :: "pool_db \<Rightarrow> reconciliation_row list" where
  "recs \<equiv> effect_reconciliations"

lemma update_recs: "sql_update_task tid f db = Inr db' \<Longrightarrow> recs db' = recs db"
  by (drule sql_update_task_Inr) simp

lemma recover_row_recs: "recover_row now r db = Inr db' \<Longrightarrow> recs db' = recs db"
  by (auto simp: recover_row_def Let_def split: if_splits prod.splits dest: update_recs)

lemma recover_recs: "recover now db = Inr (n, db') \<Longrightarrow> recs db' = recs db"
  by (auto simp: recover_def outcome_simps Let_def
      elim!: foldE_inv [where P = "\<lambda>d. recs d = recs db"] dest: recover_row_recs)

lemma stall_row_recs: "stall_row cfg now ws r s = Inr s' \<Longrightarrow> recs (snd s') = recs (snd s)"
  by (auto simp: stall_row_def Let_def outcome_simps split: if_splits prod.splits dest: update_recs)

lemma recover_stalled_recs: "recover_stalled cfg now db = Inr (n, db') \<Longrightarrow> recs db' = recs db"
  unfolding recover_stalled_def
  by (drule foldE_inv [where P = "\<lambda>s. recs (snd s) = recs db"]) (simp_all add: stall_row_recs)

lemma claim_prepare_recs: "claim_prepare cfg now m db = Inr db' \<Longrightarrow> recs db' = recs db"
  by (auto simp: claim_prepare_def outcome_simps split: if_splits prod.splits
      dest!: recover_recs recover_stalled_recs)

lemma grant_recs: "grant now role m ttl row db = Inr (x, db') \<Longrightarrow> recs db' = recs db"
  by (auto simp: grant_def Let_def outcome_simps split: if_splits dest!: update_recs sql_insert_attempt_Inr)

lemma claim_tx_recs: "claim_tx cfg now role ttl m db = Inr (x, db') \<Longrightarrow> recs db' = recs db"
  by (auto simp: claim_tx_def outcome_simps split: option.splits prod.splits
      dest!: claim_prepare_recs grant_recs)

lemma enqueue_tx_recs: "enqueue_tx now n key b att db = Inr (x, db') \<Longrightarrow> recs db' = recs db"
  by (auto simp: enqueue_tx_def Let_def outcome_simps split: option.splits if_splits dest!: sql_insert_task_Inr)

lemma checkpoint_tx_recs: "checkpoint_tx now p c db = Inr (x, db') \<Longrightarrow> recs db' = recs db"
  by (auto simp: checkpoint_tx_def outcome_simps split: option.splits if_splits
      dest!: sql_insert_checkpoint_Inr update_recs)

lemma lease_tx_recs:
  "renew_tx cfg now p c s db = Inr db' \<Longrightarrow> recs db' = recs db"
  "start_tx now p c db = Inr db' \<Longrightarrow> recs db' = recs db"
  "submit_tx now p sha c db = Inr db' \<Longrightarrow> recs db' = recs db"
  "complete_tx now p c db = Inr db' \<Longrightarrow> recs db' = recs db"
  "fail_tx now p c r db = Inr db' \<Longrightarrow> recs db' = recs db"
  "block_tx now p c r db = Inr db' \<Longrightarrow> recs db' = recs db"
  "requeue_tx now tid c db = Inr db' \<Longrightarrow> recs db' = recs db"
  by (auto simp: renew_tx_def start_tx_def submit_tx_def complete_tx_def fail_tx_def block_tx_def requeue_tx_def
      Let_def outcome_simps split: option.splits if_splits prod.splits dest!: update_recs)

lemma run_tx_recs: "(\<And>x db'. f db = Inr (x, db') \<Longrightarrow> recs db' = recs db) \<Longrightarrow> recs (snd (run_tx f db)) = recs db"
  by (auto simp: run_tx_def split: sum.splits)

lemma tx_then_get_recs: "(\<And>db'. f db = Inr db' \<Longrightarrow> recs db' = recs db) \<Longrightarrow> recs (snd (tx_then_get tid f db)) = recs db"
  by (auto simp: tx_then_get_def split: sum.splits)

lemma exec_call_recs:
  assumes "\<nexists>tid e g out ref cor. c = ReconcileEffect tid e g out ref cor"
  shows "recs (exec_call cfg now c db) = recs db"
  using assms
  by (cases c)
    (auto simp: enable_fenced_cutover_def register_worker_def heartbeat_worker_def configure_repository_def
        replace_worker_affinities_def upsert_worker_def fold_set_affinity_frame enqueue_task_def
        recover_expired_leases_def recover_stalled_tasks_def reconcile_def claim_task_def renew_lease_def start_task_def
        submit_for_validation_def complete_task_def fail_task_def block_task_def record_checkpoint_def
        requeue_blocked_def Let_def outcome_simps split: option.splits sum.splits prod.splits
      intro!: run_tx_recs tx_then_get_recs
      dest!: lease_tx_recs checkpoint_tx_recs enqueue_tx_recs claim_tx_recs recover_recs recover_stalled_recs)

section \<open>Requests as steps of the application\<close>

text \<open>The attempt id of a claim is drawn by \<^verbatim>\<open>uuid4().hex\<close>; the two claim routes hand it over.\<close>

fun fresh_ok :: "api_request \<Rightarrow> bool" where
  "fresh_ok (PostClaim p) \<longleftrightarrow> cp_attempt_id p \<noteq> []"
| "fresh_ok (PostClaimExact p _) \<longleftrightarrow> cp_attempt_id p \<noteq> []"
| "fresh_ok (PostClaimFencedExact p _) \<longleftrightarrow> cp_attempt_id p \<noteq> []"
| "fresh_ok _ \<longleftrightarrow> True"

text \<open>The calls a route makes on the pool, in order. A snapshot runs the second transaction only when the
  first one returns.\<close>

definition snapshot_calls :: "timestamp \<Rightarrow> pool_db \<Rightarrow> pool_call list" where
  "snapshot_calls now db =
     (case fst (recover_expired_leases now db) of Inl _ \<Rightarrow> [RecoverExpired] | Inr _ \<Rightarrow> [RecoverExpired, RecoverStalled])"

definition claim_calls :: "claim_payload \<Rightarrow> string option \<Rightarrow> bool \<Rightarrow> pool_db \<Rightarrow> pool_call list" where
  "claim_calls p only fencing db =
     (case get_worker (cp_worker_id p) db of Inl _ \<Rightarrow> [] | Inr w \<Rightarrow> [ClaimTask (claim_of p (w_role w) only fencing)])"

fun calls_of :: "api_env \<Rightarrow> timestamp \<Rightarrow> api_request \<Rightarrow> pool_db \<Rightarrow> pool_call list" where
  "calls_of env now GetWorkers db = snapshot_calls now db"
| "calls_of env now (PostWorker g) db = [RegisterWorker g]"
| "calls_of env now (PostHeartbeat w h) db = [HeartbeatWorker w h]"
| "calls_of env now GetRepositories db = snapshot_calls now db"
| "calls_of env now (PostRepository r) db = [ConfigureRepository (rl_repository r) (rl_enabled r) (rl_max_in_flight r)]"
| "calls_of env now (PutAffinities w rs c) db = [ReplaceAffinities w rs]"
| "calls_of env now (PostTask n) db =
     (if n_fencing_required n \<and> \<not> reconciliation_auth_ready env then [] else [EnqueueTask n])"
| "calls_of env now (PostClaim p) db = claim_calls p None False db"
| "calls_of env now (PostClaimExact p tid) db = claim_calls p (Some tid) False db"
| "calls_of env now (PostClaimFencedExact p tid) db = claim_calls p (Some tid) True db"
| "calls_of env now (PostRenew p c s) db = [RenewLease p c s]"
| "calls_of env now (PostStart p c) db = [StartTask p c]"
| "calls_of env now (PostValidation p sha c) db = [SubmitForValidation p sha c]"
| "calls_of env now (PostComplete p c) db = [CompleteTask p c]"
| "calls_of env now (PostFail p c r) db = [FailTask p c r]"
| "calls_of env now (PostBlock p c r) db = [BlockTask p c r]"
| "calls_of env now (PostCheckpoint i) db = [RecordCheckpoint i]"
| "calls_of env now (PostReconcile tid e g out ref c) db = [ReconcileEffect tid e g out ref c]"
| "calls_of env now (PostRequeue tid c) db = [RequeueBlocked tid c]"
| "calls_of env now (PostRecoverLeases _ _) db = [RecoverExpired]"
| "calls_of env now (PostRecoverStalled _ _) db = [RecoverStalled]"
| "calls_of env now GetSnapshot db = snapshot_calls now db"
| "calls_of env now _ db = []"

fun work_request :: "api_request \<Rightarrow> bool" where
  "work_request (PostWork _ _) \<longleftrightarrow> True"
| "work_request (PostEvidence _ _) \<longleftrightarrow> True"
| "work_request (PostMergeResult _ _) \<longleftrightarrow> True"
| "work_request _ \<longleftrightarrow> False"

abbreviation exec_calls :: "pool_config \<Rightarrow> timestamp \<Rightarrow> pool_call list \<Rightarrow> pool_db \<Rightarrow> pool_db" where
  "exec_calls cfg now cs \<equiv> run_calls cfg (map (Pair now) cs)"

lemma on_pool_state: "snd (on_pool sc g f a) = a\<lparr>pool := snd (f (pool a))\<rparr>"
  by (simp add: on_pool_def split: prod.splits)

lemma snapshot_state: "snd (snapshot cfg now db) = exec_calls cfg now (snapshot_calls now db) db"
  by (auto simp: snapshot_def snapshot_calls_def split: prod.splits sum.splits)

lemma claim_impl_state:
  "snd (claim_impl env now p only fencing a) =
     a\<lparr>pool := exec_calls (ae_cfg env) now (claim_calls p only fencing (pool a)) (pool a)\<rparr>"
  by (auto simp: claim_impl_def claim_calls_def split: prod.splits sum.splits option.splits)

lemma enqueue_handler_state:
  "snd (enqueue_handler env now n a) =
     a\<lparr>pool := exec_calls (ae_cfg env) now (calls_of env now (PostTask n) (pool a)) (pool a)\<rparr>"
  by (auto simp: enqueue_handler_def split: prod.splits)

lemma handle_state:
  "\<not> work_request req \<Longrightarrow>
   snd (handle env now req a) = a\<lparr>pool := exec_calls (ae_cfg env) now (calls_of env now req (pool a)) (pool a)\<rparr>"
  by (cases req)
    (simp_all add: on_pool_state snapshot_state claim_impl_state enqueue_handler_state del: calls_of.simps(7) split: prod.splits)

lemma calls_of_ok: "fresh_ok req \<Longrightarrow> list_all call_ok (calls_of env now req db)"
  by (cases req) (auto simp: snapshot_calls_def claim_calls_def claim_of_def split: sum.splits)

lemma exec_calls_steps:
  "list_all call_ok cs \<Longrightarrow> (app_step cfg)\<^sup>*\<^sup>* a (a\<lparr>pool := exec_calls cfg now cs (pool a)\<rparr>)"
proof (induction cs arbitrary: a)
  case (Cons c cs)
  let ?b = "a\<lparr>pool := exec_call cfg now c (pool a)\<rparr>"
  have "app_step cfg a ?b"
    by (rule app_step.on_pool) (use Cons.prems in \<open>simp add: pool_step.call\<close>)
  moreover have "(app_step cfg)\<^sup>*\<^sup>* ?b (?b\<lparr>pool := exec_calls cfg now cs (pool ?b)\<rparr>)"
    using Cons.IH [of ?b] Cons.prems by simp
  ultimately show ?case by (simp add: converse_rtranclp_into_rtranclp)
qed simp

lemma handle_steps:
  assumes "fresh_ok req"
  shows "(app_step (ae_cfg env))\<^sup>*\<^sup>* a (snd (handle env now req a))"
proof (cases "work_request req")
  case False
  then show ?thesis
    using exec_calls_steps [OF calls_of_ok [OF assms]] by (simp add: handle_state)
next
  case True
  then show ?thesis
    using app_step.creation app_step.evidence app_step.merge
    by (cases req) (auto simp: create_work_handler_def on_app_def split: prod.splits
        intro: app_step.creation app_step.evidence app_step.merge, (metis r_into_rtranclp snd_conv)+)
qed

section \<open>A run of the service\<close>

fun serve_all :: "api_env \<Rightarrow> (timestamp \<times> string option \<times> api_request) list \<Rightarrow> app_db \<Rightarrow> app_db" where
  "serve_all env [] a = a"
| "serve_all env ((now, hdr, req) # rs) a = serve_all env rs (snd (serve env now hdr req a))"

lemma serve_state: "snd (serve env now hdr req a) \<in> {a, snd (handle env now req a)}"
  by (auto simp: serve_def split: option.splits)

lemma app_reachable_steps: "(app_step cfg)\<^sup>*\<^sup>* a b \<Longrightarrow> app_reachable cfg a \<Longrightarrow> app_reachable cfg b"
  by (induction rule: rtranclp_induct) (auto intro: app_reachable.stepped)

lemma serve_reachable:
  "app_reachable (ae_cfg env) a \<Longrightarrow> fresh_ok req \<Longrightarrow> app_reachable (ae_cfg env) (snd (serve env now hdr req a))"
  using serve_state [of env now hdr req a] handle_steps [of req env a now]
  by (auto intro: app_reachable_steps)

lemma serve_all_reachable:
  "app_reachable (ae_cfg env) a \<Longrightarrow> list_all (\<lambda>(_, _, req). fresh_ok req) rs \<Longrightarrow>
   app_reachable (ae_cfg env) (serve_all env rs a)"
  by (induction env rs a rule: serve_all.induct) (auto simp: serve_reachable)

section \<open>Operations that fail without a trace\<close>

definition atomic_at :: "pool_db \<Rightarrow> 'a pool_op \<Rightarrow> bool" where
  "atomic_at db f \<longleftrightarrow> (\<forall>e. fst (f db) = Inl e \<longrightarrow> snd (f db) = db)"

lemma atomic_run_tx: "atomic_at db (run_tx f)"
  by (auto simp: atomic_at_def run_tx_def split: sum.splits)

lemma task_stays:
  assumes "pool_ok db" and "step_ok db db'" and "find_task tid db = Some t"
  shows "find_task tid db' \<noteq> None"
proof
  assume "find_task tid db' = None"
  moreover have "evolves (task_life db tid) (task_life db' tid)"
    using assms(1,2) by (simp add: step_ok_def life_refines_def)
  ultimately show False using assms(3) by (simp add: task_life_def)
qed

lemma atomic_tx_then_get:
  assumes "pool_ok db" and "\<And>db'. f db = Inr db' \<Longrightarrow> step_ok db db'"
    and "\<And>db'. f db = Inr db' \<Longrightarrow> find_task tid db \<noteq> None"
  shows "atomic_at db (tx_then_get tid f)"
  using assms task_stays [OF assms(1)]
  by (fastforce simp: atomic_at_def tx_then_get_def get_task_def split: sum.splits option.splits)

lemma lease_check_found: "lease_check now p st db = Inr row \<Longrightarrow> find_task (p_task_id p) db \<noteq> None"
  by (auto simp: lease_check_def split: option.splits)

lemma atomic_lease_ops:
  assumes "pool_ok db"
  shows "atomic_at db (renew_lease cfg now p c s)" "atomic_at db (start_task now p c)"
    "atomic_at db (submit_for_validation now p sha c)" "atomic_at db (complete_task now p c)"
    "atomic_at db (fail_task now p c r)" "atomic_at db (block_task now p c r)"
    "atomic_at db (requeue_blocked now tid c)"
proof -
  note get = atomic_tx_then_get [OF assms]
  show "atomic_at db (renew_lease cfg now p c s)"
    unfolding renew_lease_def
    by (rule get; (rule renew_step_ok)?) (auto simp: renew_tx_def outcome_simps dest: lease_check_found)
  show "atomic_at db (start_task now p c)"
    unfolding start_task_def
    by (rule get; (rule start_step_ok)?) (auto simp: start_tx_def outcome_simps dest: lease_check_found)
  show "atomic_at db (complete_task now p c)"
    unfolding complete_task_def
    by (rule get; (rule complete_step_ok)?) (auto simp: complete_tx_def outcome_simps dest: lease_check_found)
  show "atomic_at db (fail_task now p c r)"
    unfolding fail_task_def Let_def
    by (rule get; (rule fail_step_ok)?) (auto simp: fail_tx_def outcome_simps dest: lease_check_found)
  show "atomic_at db (requeue_blocked now tid c)"
    unfolding requeue_blocked_def
    by (rule get; (rule requeue_step_ok)?) (auto simp: requeue_tx_def split: option.splits)
  have "atomic_at db (tx_then_get (p_task_id p) (submit_tx now p s c))" if "SHA40 s" for s
    by (rule get; (rule submit_step_ok [OF _ that])?)
      (auto simp: submit_tx_def outcome_simps dest: lease_check_found)
  then show "atomic_at db (submit_for_validation now p sha c)"
    by (auto simp: atomic_at_def submit_for_validation_def Let_def)
  have "atomic_at db (tx_then_get (p_task_id p) (block_tx now p c r))" for r
    by (rule get; (rule block_step_ok)?) (auto simp: block_tx_def outcome_simps dest: lease_check_found)
  then show "atomic_at db (block_task now p c r)"
    by (auto simp: atomic_at_def block_task_def Let_def)
qed

lemma atomic_registry:
  "atomic_at db (heartbeat_worker now w h)"
  "atomic_at db (configure_repository now r e m)"
  "atomic_at db (replace_worker_affinities now w rs)"
proof -
  show "atomic_at db (heartbeat_worker now w h)"
    by (auto simp: atomic_at_def heartbeat_worker_def get_worker_def Let_def workers_tbl.get_upd
        split: sum.splits option.splits)
  show "atomic_at db (replace_worker_affinities now w rs)"
    by (auto simp: atomic_at_def replace_worker_affinities_def Let_def split: sum.splits)
  show "atomic_at db (configure_repository now r e m)"
    by (auto simp: atomic_at_def configure_repository_def get_repository_def validate_repository_def py_strip_idem
        Let_def lanes_tbl.get_upd lanes_tbl.get_None new_lane_def split: sum.splits option.splits if_splits)
qed

lemma snapshot_total: "pool_ok db \<Longrightarrow> \<exists>v. fst (snapshot cfg now db) = Inr v"
proof -
  assume "pool_ok db"
  then obtain d1 where d1: "recover now db = Inr (length (expired_rows now db), d1)" "pool_ok d1"
    by (rule recover_total)
  from d1(2) obtain c d2 where "recover_stalled cfg now d1 = Inr (c, d2)" by (rule recover_stalled_total)
  with d1(1) show ?thesis
    by (simp add: snapshot_def recover_expired_leases_def recover_stalled_tasks_def run_tx_def)
qed

lemma claimed_task_found:
  assumes "claim_task cfg now m db = (Inr (Some (t, l)), db')"
  shows "find_task (t_task_id t) db' \<noteq> None"
proof -
  obtain role where role: "parse_role (py_lower (m_role m)) = Some role" using assms by (metis claim_task_Inr)
  obtain d w row where "select_task role m d = Some row" and g: "grant now role m (claim_ttl cfg m) row d = Inr ((t, l), db')"
    using assms role by (rule claim_granted)
  then have "row \<in> set (tasks d)" by (simp add: select_task_Some)
  then have "tbl_get t_task_id (t_task_id row) (tasks d) \<noteq> None" by (simp add: tbl_get_None)
  moreover have "t_task_id t = t_task_id row" using grant_Inr(1) [OF g] by (simp add: claim_update_def)
  ultimately show ?thesis unfolding grant_Inr(5) [OF g]
    by (simp add: tasks_tbl.get_upd claim_update_def) (simp add: find_task_def)
qed

lemma claim_task_atomic: "atomic_at db (claim_task cfg now m)"
  using atomic_run_tx by (auto simp: atomic_at_def claim_task_def Let_def split: option.splits)

lemma claim_impl_atomic:
  "400 \<le> fst (fst (claim_impl env now p only fencing a)) \<Longrightarrow> snd (claim_impl env now p only fencing a) = a"
proof (cases "get_worker (cp_worker_id p) (pool a)")
  case (Inr w)
  let ?m = "claim_of p (w_role w) only fencing"
  assume bad: "400 \<le> fst (fst (claim_impl env now p only fencing a))"
  obtain res q where c: "claim_task (ae_cfg env) now ?m (pool a) = (res, q)" by (rule prod.exhaust)
  consider e where "res = Inl e" | "res = Inr None" | t l where "res = Inr (Some (t, l))"
    by (metis obj_sumE option.exhaust prod.exhaust)
  then show ?thesis
  proof cases
    case 1
    then show ?thesis using Inr c claim_task_atomic [of "pool a" "ae_cfg env" now ?m]
      by (simp add: claim_impl_def atomic_at_def)
  next
    case 2
    then show ?thesis using Inr c bad by (simp add: claim_impl_def)
  next
    case (3 t l)
    then have "find_task (t_task_id t) q \<noteq> None" using claimed_task_found c by blast
    then show ?thesis using 3 Inr c bad
      by (auto simp: claim_impl_def answer_def get_recovery_context_def get_latest_checkpoint_def Let_def split: if_splits)
  qed
qed (simp add: claim_impl_def)

lemma on_pool_atomic:
  "atomic_at (pool a) f \<Longrightarrow> 400 \<le> fst (fst (on_pool 200 g f a)) \<Longrightarrow> snd (on_pool 200 g f a) = a"
  by (auto simp: on_pool_def answer_def atomic_at_def split: prod.splits sum.splits)

lemma created_atomic:
  "atomic_at (pool a) f \<Longrightarrow> 400 \<le> fst (created_code g (fst (f (pool a)))) \<Longrightarrow> a\<lparr>pool := snd (f (pool a))\<rparr> = a"
  by (auto simp: created_code_def answer_def atomic_at_def split: prod.splits sum.splits if_splits)

lemma pool_upd_eq:
  "(case f (pool a) of (res, p) \<Rightarrow> (g res, a\<lparr>pool := p\<rparr>)) = (g (fst (f (pool a))), a\<lparr>pool := snd (f (pool a))\<rparr>)"
  by (simp split: prod.splits)

lemma work_readback:
  assumes "find_work w a = Some r" and "find_task (v_task_id r) (pool a) \<noteq> None"
    and "\<And>x. v_work_id (f x) = v_work_id x" "\<And>x. v_task_id (f x) = v_task_id x"
  shows "get_work w (put_work w f a) \<noteq> Inl e"
proof -
  have "pool (put_work w f a) = pool a" by (simp add: put_work_def)
  then show ?thesis using assms by (auto simp: get_work_def get_row_def view_def get_task_def works_tbl.get_upd)
qed

lemma decide_found:
  "evidence_decide w y a = Inr (r, b) \<Longrightarrow> find_work w a = Some r \<and> find_task (v_task_id r) (pool a) \<noteq> None"
  "merge_decide w z a = Inr (r, b) \<Longrightarrow> find_work w a = Some r \<and> find_task (v_task_id r) (pool a) \<noteq> None"
  by (auto simp: evidence_decide_def merge_decide_def get_row_def get_task_def Let_def outcome_simps
      split: if_splits option.splits)

lemma work_atomic:
  "record_evidence now w y a = (Inl e, b) \<Longrightarrow> b = a"
  "record_merge_result now w z a = (Inl e, b) \<Longrightarrow> b = a"
proof -
  have 1: "get_work w (evidence_write now w y a) \<noteq> Inl e" if "evidence_decide w y a = Inr (r, c)" for r c
    using decide_found(1) [OF that] unfolding evidence_write_def Let_def by (intro work_readback) auto
  have 2: "get_work w (merge_write now w z a) \<noteq> Inl e" if "merge_decide w z a = Inr (r, c)" for r c
    using decide_found(2) [OF that] unfolding merge_write_def by (intro work_readback) auto
  show "record_evidence now w y a = (Inl e, b) \<Longrightarrow> b = a"
    using 1 by (auto simp: record_evidence_def Let_def split: sum.splits bool.splits)
  show "record_merge_result now w z a = (Inl e, b) \<Longrightarrow> b = a"
    using 2 by (auto simp: record_merge_result_def Let_def split: sum.splits bool.splits)
qed

lemma handle_atomic:
  assumes ok: "pool_ok (pool a)" and bad: "400 \<le> fst (fst (handle env now req a))"
    and "\<nexists>g. req = PostWorker g" "\<nexists>n policy. req = PostWork n policy"
  shows "snd (handle env now req a) = a"
proof -
  have run: "atomic_at (pool a) (enqueue_task (ae_cfg env) now n)" "atomic_at (pool a) (record_checkpoint now i)"
    "atomic_at (pool a) (reconcile_effect now tid e g out ref c)" "atomic_at (pool a) (recover_expired_leases now)"
    "atomic_at (pool a) (recover_stalled_tasks (ae_cfg env) now)" for n i tid e g out ref c
    by (auto simp: atomic_at_def enqueue_task_def record_checkpoint_def reconcile_effect_def recover_expired_leases_def
        recover_stalled_tasks_def run_tx_def Let_def split: sum.splits option.splits)
  have snap: "atomic_at (pool a) (snapshot (ae_cfg env) now)"
    using snapshot_total [OF ok] by (metis Inl_Inr_False atomic_at_def)
  show ?thesis
  proof (cases req)
    case (PostTask n)
    with bad created_atomic [OF run(1)] show ?thesis by (auto simp: enqueue_handler_def pool_upd_eq split: if_splits)
  next
    case (PostCheckpoint i)
    with bad created_atomic [OF run(2)] show ?thesis by (auto simp: pool_upd_eq)
  next
    case (PostReconcile tid e g out ref c)
    with bad created_atomic [OF run(3)] show ?thesis by (auto simp: pool_upd_eq)
  next
    case (PostEvidence w y)
    with bad show ?thesis using work_atomic(1) by (auto simp: on_app_def answer_def split: prod.splits sum.splits)
  next
    case (PostMergeResult w z)
    with bad show ?thesis using work_atomic(2) by (auto simp: on_app_def answer_def split: prod.splits sum.splits)
  qed (use assms in \<open>simp_all add: claim_impl_atomic on_pool_atomic atomic_registry atomic_lease_ops run snap\<close>)
qed

section \<open>Properties of the service\<close>

text \<open>What a completed task owes: a commit, two different workers, and no effect left open.\<close>

definition delivered :: "pool_db \<Rightarrow> task_row \<Rightarrow> bool" where
  "delivered db t \<longleftrightarrow>
     t_produced_sha t \<noteq> None \<and> t_produced_sha t \<noteq> Some [] \<and>
     t_builder_worker_id t \<noteq> None \<and> t_validator_worker_id t \<noteq> None \<and>
     t_validator_worker_id t \<noteq> t_builder_worker_id t \<and>
     (t_fencing_required t \<longrightarrow> \<not> has_unresolved_effect db (t_task_id t))"

definition demo_env :: api_env where
  "demo_env = \<lparr>ae_cfg = demo_cfg, ae_api_token_file = Some ''k'', ae_reconciliation_token_file = Some ''r''\<rparr>"

lemma demo_tokens: "read_api_token demo_env = ''k''" "read_reconciliation_token demo_env = ''r''"
  "bearer_ok ''k'' (Some ''Bearer k'')" "\<not> bearer_ok ''k'' (Some ''Bearer x'')" "\<not> bearer_ok ''r'' (Some ''Bearer x'')"
  by code_simp+

lemma work_requests_pool:
  "pool (snd (record_evidence now w y a)) = pool a" "pool (snd (record_merge_result now w z a)) = pool a"
  by (auto simp: record_evidence_def record_merge_result_def evidence_write_def merge_write_def put_work_def Let_def
      split: sum.splits bool.splits)

text \<open>C2: The governance of the whole service. After any sequence of requests, with whatever headers and bodies,
  to a new service, every completed task carries a commit, was built and validated by different
  workers and has no unresolved effect if it is fenced; and every run recorded as merged belongs
  to a completed task and its evidence is about the commit that task produced.\<close>

theorem service_governed:
  assumes "app_reachable (ae_cfg env) a0" and "list_all (\<lambda>(_, _, req). fresh_ok req) rs"
    and "a = serve_all env rs a0"
  shows "(\<forall>t\<in>set (tasks (pool a)). t_state t = Completed \<longrightarrow> delivered (pool a) t) \<and>
    (\<forall>r\<in>set (work_runs a). v_merge_state r = MgMerged \<longrightarrow>
      (\<exists>t. find_task (v_task_id r) (pool a) = Some t \<and> t_state t = Completed \<and> delivered (pool a) t \<and>
           v_validation_sha r = Some (py_lower (opt_text (t_produced_sha t)))))"
proof -
  have r: "app_reachable (ae_cfg env) a"
    unfolding assms(3) by (rule serve_all_reachable [OF assms(1,2)])
  have d: "delivered (pool a) t" if t: "t \<in> set (tasks (pool a))" "t_state t = Completed" for t
    using reachable_life [OF app_reachable_pool [OF r] t(1)] t(2)
    by (auto simp: life_inv_def duty_inv_def effect_inv_def lease_inv_def resolved_iff active_state_def delivered_def)
  moreover have "\<exists>t. find_task (v_task_id x) (pool a) = Some t \<and> t_state t = Completed \<and>
           v_validation_sha x = Some (py_lower (opt_text (t_produced_sha t)))"
    if "x \<in> set (work_runs a)" "v_merge_state x = MgMerged" for x
    using app_reachable_ok [OF r] that
    by (cases "v_evidence_state x") (auto simp: app_ok_def list_all_iff run_ok_def about_commit_def)
  ultimately show ?thesis using tasks_tbl.get_mem by blast
qed

theorem service_governed_witness:
  "list_ex (\<lambda>t. t_state t = Completed) (tasks (pool demo_app_merged)) \<and>
   list_all (\<lambda>t. t_state t = Completed \<longrightarrow>
       delivered (pool (serve_all demo_env [(9, Some ''Bearer k'', GetSnapshot)] demo_app_merged)) t)
     (tasks (pool (serve_all demo_env [(9, Some ''Bearer k'', GetSnapshot)] demo_app_merged)))"
proof
  show "list_ex (\<lambda>t. t_state t = Completed) (tasks (pool demo_app_merged))"
    by (simp add: demo_app_merged_eq demo_app_verified_eq demo_eqs demo_exec)
  have "app_reachable (ae_cfg demo_env) demo_app_merged" using demo_app_reachable(3) by (simp add: demo_env_def)
  then show "list_all (\<lambda>t. t_state t = Completed \<longrightarrow>
       delivered (pool (serve_all demo_env [(9, Some ''Bearer k'', GetSnapshot)] demo_app_merged)) t)
     (tasks (pool (serve_all demo_env [(9, Some ''Bearer k'', GetSnapshot)] demo_app_merged)))"
    using service_governed [OF _ _ HOL.refl, of demo_env demo_app_merged "[(9, Some ''Bearer k'', GetSnapshot)]"]
    by (simp add: list_all_iff del: serve_all.simps)
qed

text \<open>Without a credential nothing changes and nothing is disclosed: a header that is neither of the two
  configured tokens is answered with 401 or 503 and a fixed text, whatever the request, and the
  database stays as it is.\<close>

theorem unauthenticated_changes_nothing:
  assumes "\<forall>tok\<in>{read_api_token env, read_reconciliation_token env}. tok = [] \<or> \<not> bearer_ok tok hdr"
  shows "\<exists>sc d. serve env now hdr req a = ((sc, Detail d), a) \<and> (sc = 401 \<or> sc = 503) \<and>
    d \<in> {''unauthorized'', ''worker_pool_auth_not_configured'', ''reconciliation_auth_not_configured_or_not_separated''}"
proof -
  have "\<exists>sc d. guard env hdr req = Some (sc, d) \<and> (sc = 401 \<or> sc = 503) \<and>
    d \<in> {''unauthorized'', ''worker_pool_auth_not_configured'', ''reconciliation_auth_not_configured_or_not_separated''}"
    using assms by (cases req) (auto simp: require_auth_def require_reconciliation_auth_def)
  then show ?thesis by (auto simp: serve_def)
qed

theorem unauthenticated_changes_nothing_witness:
  "\<exists>sc d. serve demo_env 9 (Some ''Bearer x'') (PostReconcile demo_id ''e'' 1 ''confirmed'' ''r'' ''c'') demo_app_created
     = ((sc, Detail d), demo_app_created)"
  using unauthenticated_changes_nothing [of demo_env "Some ''Bearer x''" 9
      "PostReconcile demo_id ''e'' 1 ''confirmed'' ''r'' ''c''" demo_app_created] demo_tokens by auto

text \<open>C27: Separation of the two credentials. A caller that holds only the token of the API cannot settle an
  effect: no request of any kind with that token writes the reconciliation log, and the
  reconciliation route turns it away.\<close>

theorem api_token_cannot_reconcile:
  assumes "bearer_ok (read_api_token env) hdr"
  shows "recs (pool (snd (serve env now hdr req a))) = recs (pool a) \<and>
    (\<forall>tid e g out ref c. req = PostReconcile tid e g out ref c \<longrightarrow> fst (fst (serve env now hdr req a)) \<in> {401, 503})"
proof (cases "\<exists>tid e g out ref c. req = PostReconcile tid e g out ref c")
  case True
  then show ?thesis using assms
    by (auto simp: serve_def require_reconciliation_auth_def reconciliation_auth_ready_def bearer_ok_def split: option.splits)
next
  case False
  have "recs (pool (snd (handle env now req a))) = recs (pool a)"
  proof (cases "work_request req")
    case True
    then show ?thesis
      using exec_call_recs [of "EnqueueTask _" "ae_cfg env" now "pool a"] create_work_pool [of "ae_cfg env" now _ _ a]
        work_requests_pool [of now _ _ a]
      by (cases req) (simp_all add: create_work_handler_def on_app_def case_prod_unfold, metis)
  next
    case nw: False
    have "recs (exec_calls (ae_cfg env) now cs db) = recs db"
      if "\<forall>c\<in>set cs. \<nexists>tid e g out ref cor. c = ReconcileEffect tid e g out ref cor" for cs db
      using that by (induction cs arbitrary: db) (simp_all add: exec_call_recs)
    moreover have "\<forall>c\<in>set (calls_of env now req (pool a)). \<nexists>tid e g out ref cor. c = ReconcileEffect tid e g out ref cor"
      using False by (cases req) (auto simp: snapshot_calls_def claim_calls_def split: sum.splits)
    ultimately show ?thesis using nw by (simp add: handle_state)
  qed
  then show ?thesis using False serve_state [of env now hdr req a] by auto
qed

theorem api_token_cannot_reconcile_witness:
  "fst (fst (serve demo_env 9 (Some ''Bearer k'') (PostReconcile demo_id ''e'' 1 ''confirmed'' ''r'' ''c'') demo_app_created))
     \<in> {401, 503}"
  using api_token_cannot_reconcile [of demo_env "Some ''Bearer k''" 9
      "PostReconcile demo_id ''e'' 1 ''confirmed'' ''r'' ''c''" demo_app_created] demo_tokens by simp

text \<open>C28: A failed request leaves no trace. Every answer with an error status, on every route except worker
  registration and the creation of a work run, means that the database is exactly what it was.\<close>

theorem failed_request_changes_nothing:
  assumes "app_reachable (ae_cfg env) a" and "400 \<le> fst (fst (serve env now hdr req a))"
    and "\<nexists>g. req = PostWorker g" "\<nexists>n policy. req = PostWork n policy"
  shows "snd (serve env now hdr req a) = a"
proof -
  have "pool_ok (pool a)" using app_reachable_ok [OF assms(1)] by (simp add: app_ok_def)
  with assms(2-) show ?thesis
    by (auto simp: serve_def handle_atomic split: option.splits if_splits)
qed

theorem failed_request_changes_nothing_witness:
  "serve demo_env 9 (Some ''Bearer k'') (PostRequeue demo_id ''c'') demo_app_created =
     ((409, Detail ''somente task bloqueada pode ser reenfileirada''), demo_app_created)"
proof -
  have s: "fst (serve demo_env 9 (Some ''Bearer k'') (PostRequeue demo_id ''c'') demo_app_created) =
      (409, Detail ''somente task bloqueada pode ser reenfileirada'')"
    using demo_tokens by (simp add: serve_def require_auth_def demo_app_created_eq len_in_def on_pool_def
        requeue_blocked_def tx_then_get_def requeue_tx_def answer_def error_response_def demo_eqs demo_exec Let_def)
  then have "snd (serve demo_env 9 (Some ''Bearer k'') (PostRequeue demo_id ''c'') demo_app_created) = demo_app_created"
    using demo_app_reachable(1) by (intro failed_request_changes_nothing) (simp_all add: demo_env_def)
  with s show ?thesis by (metis prod.collapse)
qed

end
