(* ===== verification/Client_Properties.thy ===== *)
theory Client_Properties
  imports Native_Http Api_Properties
begin

text \<open>
  The native client over a line that may lose requests and answers: what it reports as done was done
  by the service, exactly once, and is what the service's database shows; whatever it does keeps the
  service in its reachable states.
\<close>

section \<open>The line\<close>

definition lossy :: "(api_request \<Rightarrow> bool) \<Rightarrow> (api_request \<Rightarrow> bool) \<Rightarrow> 's transport \<Rightarrow> 's transport" where
  "lossy arrives answered send tok req s =
     (if \<not> arrives req then (None, s)
      else case send tok req s of (r, s') \<Rightarrow> (if answered req then r else None, s'))"

definition connected :: "api_env \<Rightarrow> timestamp \<Rightarrow> string \<times> string \<Rightarrow> app_db local_api \<Rightarrow> bool" where
  "connected env now draw api \<longleftrightarrow> (\<exists>arrives answered bytes. la_send api = lossy arrives answered (loopback env now draw bytes))"

lemma request_sound:
  assumes "connected env now draw api" and "request api expected req a = (Inr v, a')"
  shows "\<exists>hdr sc b. serve env now hdr (with_draw draw req) a = ((sc, b), a') \<and> sc \<in> set expected \<and> v = json_body b"
  using assms
  by (auto simp: connected_def request_def act_simps outcome_simps lossy_def loopback_def split: prod.splits if_splits) blast

lemma request_dict_sound:
  assumes "connected env now draw api" and "request_dict api expected req a = (Inr d, a')"
  shows "\<exists>hdr sc b. serve env now hdr (with_draw draw req) a = ((sc, b), a') \<and> sc \<in> set expected \<and> json_body b = PDict d"
  using assms request_sound [OF assms(1)] by (force simp: request_dict_def act_simps outcome_simps)

text \<open>An answer below 300 comes from the route itself.\<close>

lemma serve_handled:
  assumes "serve env now hdr req a = ((sc, b), a')" and "sc < 300"
  shows "handle env now req a = ((sc, b), a')" "body_ok req"
  using assms
  by (auto simp: serve_def require_auth_def require_reconciliation_auth_def split: option.splits if_splits
      elim!: guard.elims)

lemma answer_low: "fst (answer sc f res) < 300 \<Longrightarrow> \<exists>x. res = Inr x \<and> answer sc f res = (sc, f x)"
  by (auto simp: answer_def error_response_def split: sum.splits pool_error.splits)

section \<open>Reads\<close>

lemma client_get_task_sound:
  assumes "connected env now draw api" and "client_get_task api tid a = (Inr d, a')"
  shows "a' = a \<and> TASK_ID tid \<and> (\<exists>t. find_task tid (pool a) = Some t \<and> d = json_task (public_task t))"
proof -
  have r: "request_dict api [200] (GetTask tid) a = (Inr d, a')" and i: "TASK_ID tid"
    using assms(2) by (auto simp: client_get_task_def act_simps task_readback_def id_ok_def outcome_simps)
  obtain hdr b where s: "serve env now hdr (GetTask tid) a = ((200, b), a')" and j: "json_body b = PDict d"
    using request_dict_sound [OF assms(1) r] by (auto simp: with_draw_def)
  have "get_task_route tid a = ((200, b), a')" using serve_handled(1) [OF s] by (simp del: route_defs)
  then show ?thesis using i j
    by (auto simp: get_task_route_def answer_def error_response_def get_task_def split: option.splits)
qed

section \<open>Mutations\<close>

definition mutation_op :: "timestamp \<Rightarrow> lease_proof \<Rightarrow> string \<Rightarrow> mutation \<Rightarrow> task_row pool_op" where
  "mutation_op now p c op = (case op of
     MStart \<Rightarrow> start_task now p c | MValidation sha \<Rightarrow> submit_for_validation now p sha c
   | MComplete \<Rightarrow> complete_task now p c | MFail reason \<Rightarrow> fail_task now p c reason | MBlock reason \<Rightarrow> block_task now p c reason)"

lemma handle_mutation:
  "handle env now (mutation_request p c op) a = on_pool 200 (\<lambda>t. Task (public_task t)) (mutation_op now p c op) a"
  by (cases op) (simp_all add: mutation_request_def mutation_op_def)

lemma with_draw_mutation [simp]: "with_draw draw (mutation_request p c op) = mutation_request p c op"
  by (cases op) (simp_all add: mutation_request_def with_draw_def)

lemma tx_then_get_found: "tx_then_get tid f db = (Inr t, db') \<Longrightarrow> find_task tid db' = Some t"
  by (auto simp: tx_then_get_def get_task_def split: sum.splits option.splits)

lemma mutation_found: "mutation_op now p c op db = (Inr t, db') \<Longrightarrow> find_task (p_task_id p) db' = Some t"
  by (auto simp: mutation_op_def start_task_def submit_for_validation_def complete_task_def fail_task_def block_task_def Let_def
      split: mutation.splits if_splits intro: tx_then_get_found)

lemma get_json_task [simp]:
  "get (json_task t) ''state'' = PStr (state_name (t_state t))"
  "get (json_task t) ''produced_sha'' = opt_str (t_produced_sha t)" "get (json_task t) ''task_id'' = PStr (t_task_id t)"
  by (simp_all add: json_task_def)

lemma public_task_fields [simp]:
  "t_state (public_task t) = t_state t" "t_produced_sha (public_task t) = t_produced_sha t"
  "t_task_id (public_task t) = t_task_id t"
  by (simp_all add: public_task_def)

lemma mutate_sound:
  assumes "connected env now draw api" and "mutate api p c op a = (Inr (), a')"
  shows "\<exists>t q. mutation_op now p c op (pool a) = (Inr t, q) \<and> a' = a\<lparr>pool := q\<rparr> \<and>
    find_task (p_task_id p) q = Some t \<and> state_name (t_state t) \<in> set (expected_states op)"
proof -
  obtain d s1 e where r: "request_dict api [200] (mutation_request p c op) a = (Inr d, s1)"
    and st: "str_in (expected_states op) (get d ''state'')" and g: "client_get_task api (p_task_id p) s1 = (Inr e, a')"
    using assms(2) by (auto simp: mutate_def act_simps task_readback_def outcome_simps)
  obtain hdr b where s: "serve env now hdr (mutation_request p c op) a = ((200, b), s1)" and j: "json_body b = PDict d"
    using request_dict_sound [OF assms(1) r] by auto
  have h: "on_pool 200 (\<lambda>t. Task (public_task t)) (mutation_op now p c op) a = ((200, b), s1)"
    using serve_handled(1) [OF s] by (simp add: handle_mutation)
  then obtain t q where m: "mutation_op now p c op (pool a) = (Inr t, q)" and b: "b = Task (public_task t)" "s1 = a\<lparr>pool := q\<rparr>"
    by (auto simp: on_pool_def answer_def error_response_def split: prod.splits sum.splits pool_error.splits)
  have "d = json_task (public_task t)" using b j by simp
  then show ?thesis
    using m mutation_found [OF m] b st client_get_task_sound [OF assms(1) g] by (auto simp: str_in_def)
qed

text \<open>C29: What the client confirms has happened. Over a line that may lose requests and answers, a mutation that returns
  was accepted by the service: the service made exactly that one change, and its database shows the task in a
  state that the operation may lead to.\<close>

theorem client_mutation_confirmed:
  assumes "connected env now draw api" and "mutate api p c op a = (Inr (), a')"
  shows "\<exists>t q. mutation_op now p c op (pool a) = (Inr t, q) \<and> a' = a\<lparr>pool := q\<rparr> \<and>
    find_task (p_task_id p) q = Some t \<and> state_name (t_state t) \<in> set (expected_states op)"
  by (rule mutate_sound [OF assms])

section \<open>A line that loses nothing\<close>

definition online :: "api_env \<Rightarrow> timestamp \<Rightarrow> string \<times> string \<Rightarrow> app_db local_api \<Rightarrow> bool" where
  "online env now draw api \<longleftrightarrow> token (la_token_file api) = Inr (read_api_token env) \<and>
     (\<exists>bytes. la_send api = loopback env now draw bytes \<and> (\<forall>b. bytes b \<le> MAX_RESPONSE_BYTES))"

lemma online_connected: "online env now draw api \<Longrightarrow> connected env now draw api"
  unfolding online_def connected_def
  by (elim conjE exE, rule exI [of _ "\<lambda>_. True"], rule exI [of _ "\<lambda>_. True"]) (auto simp: lossy_def fun_eq_iff)

lemma media_type_json: "media_type ''application/json'' = ''application/json''"
  by code_simp

lemma online_guard:
  assumes "online env now draw api" and "\<nexists>tid e g out ref c. req = PostReconcile tid e g out ref c"
  shows "guard env (Some (''Bearer '' @ read_api_token env)) req = None"
proof -
  have "TOKEN_RE (read_api_token env)"
    using assms(1) by (auto simp: online_def token_def Let_def split: token_file.splits if_splits)
  then have "read_api_token env \<noteq> []" by (auto simp: TOKEN_RE_def)
  moreover have "py_strip (read_api_token env) = read_api_token env" by (simp add: read_api_token_def py_strip_idem)
  ultimately have "require_auth env (Some (''Bearer '' @ read_api_token env)) = None"
    by (simp add: require_auth_def bearer_ok_def starts_with_def)
  then show ?thesis using assms(2) by (cases req) auto
qed

lemma request_online:
  assumes "online env now draw api" and "route_ok req" and "body_ok (with_draw draw req)"
    and "handle env now (with_draw draw req) a = ((sc, b), a')"
    and "\<nexists>tid e g out ref c. with_draw draw req = PostReconcile tid e g out ref c" and "sc \<noteq> 401"
  shows "request api expected req a =
    (if sc \<in> set expected then Inr (json_body b) else Inl ''worker_http_unverified'', a')"
proof -
  have "serve env now (Some (''Bearer '' @ read_api_token env)) (with_draw draw req) a = ((sc, b), a')"
    using assms(3,4) online_guard [OF assms(1,5)] by (simp add: serve_def)
  then show ?thesis using assms(1,2,6)
    by (auto simp: request_def andthen_def check_def ret_def lift_def online_def exchange_def loopback_def
        response_json_def require_def bindE_def media_type_json)
qed

lemma slash_free: "list_all (\<lambda>c. c \<noteq> CHR ''/'') s \<Longrightarrow> has_infix ''//'' (s @ r) \<longleftrightarrow> has_infix ''//'' r"
  by (induction s) (auto simp: starts_with_def)

lemma has_char: "has_infix [x] s \<longleftrightarrow> x \<in> set s"
  by (induction s) (auto simp: starts_with_def)

lemma TASK_ID_path:
  assumes "TASK_ID tid"
  shows "\<exists>h. tid = ''cwp-'' @ h \<and> list_all is_lower_hex h"
  using assms append_take_drop_id [of 4 tid] by (metis TASK_ID_def)

lemma hex_path: "list_all is_lower_hex h \<Longrightarrow> list_all (\<lambda>c. c \<noteq> CHR ''/'') h \<and> CHR ''?'' \<notin> set h \<and> CHR ''#'' \<notin> set h"
  by (auto simp: list_all_iff is_lower_hex_def)

lemma task_route_ok:
  assumes "TASK_ID tid" and "\<not> has_infix ''//'' r" and "CHR ''?'' \<notin> set r" and "CHR ''#'' \<notin> set r"
    and "route_of req = (m, ''/v1/tasks/'' @ tid @ r)" and "m \<in> {''GET'', ''POST''}"
  shows "route_ok req"
proof -
  obtain h where h: "tid = ''cwp-'' @ h" "list_all is_lower_hex h" using TASK_ID_path [OF assms(1)] by blast
  show ?thesis using assms(2-6) h(1) hex_path [OF h(2)]
    by (auto simp: route_ok_def has_char slash_free starts_with_def)
qed

lemma client_get_task_online:
  assumes "online env now draw api" and "TASK_ID tid" and "find_task tid (pool a) = Some t"
  shows "client_get_task api tid a = (Inr (json_task (public_task t)), a)"
proof -
  have "route_ok (GetTask tid)" by (rule task_route_ok [OF assms(2), where r = "[]" and m = "''GET''"]) simp_all
  moreover have "handle env now (with_draw draw (GetTask tid)) a = ((200, Task (public_task t)), a)"
    using assms(3) by (simp add: with_draw_def answer_def get_task_def)
  ultimately have "request api [200] (GetTask tid) a = (Inr (PDict (json_task (public_task t))), a)"
    using request_online [OF assms(1), of "GetTask tid" a 200 _ a "[200]"] by (simp add: with_draw_def)
  moreover have "str_in task_states (PStr (state_name (t_state t)))"
    by (cases "t_state t") (simp_all add: str_in_def task_states_def state_name_def)
  ultimately show ?thesis using assms(2) tasks_tbl.get_key [OF assms(3)] json_task_token
    by (simp add: client_get_task_def request_dict_def andthen_def lift_def as_dict_def id_ok_def require_def task_readback_def bindE_def)
qed

section \<open>When the client confirms\<close>

definition mutation_args_ok :: "lease_proof \<Rightarrow> string \<Rightarrow> mutation \<Rightarrow> bool" where
  "mutation_args_ok p c op \<longleftrightarrow>
     NAME (p_worker_id p) \<and> CORRELATION c \<and> TASK_ID (p_task_id p) \<and> 16 \<le> length (p_lease_token p) \<and>
     length (p_lease_token p) \<le> 128 \<and> mutation_ok op = Inr () \<and> fence_ok p"

lemma mutation_body_ok: "mutation_args_ok p c op \<Longrightarrow> body_ok (mutation_request p c op)"
  by (cases op; cases "p_lease_generation p"; cases "p_attempt_id p"; cases c; cases "p_worker_id p")
    (auto simp: mutation_args_ok_def mutation_request_def mutation_ok_def ok_LeaseMutation_def len_in_def opt_all_def
      NAME_def CORRELATION_def fence_ok_def outcome_simps SHA40_def REASON_def)

lemma mutation_route_ok:
  assumes "mutation_args_ok p c op"
  shows "route_ok (mutation_request p c op)"
proof -
  define r where "r = (case op of MStart \<Rightarrow> ''/start'' | MValidation _ \<Rightarrow> ''/validation'' | MComplete \<Rightarrow> ''/complete''
    | MFail _ \<Rightarrow> ''/fail'' | MBlock _ \<Rightarrow> ''/block'')"
  have "route_of (mutation_request p c op) = (''POST'', ''/v1/tasks/'' @ p_task_id p @ r)"
    by (cases op) (simp_all add: mutation_request_def r_def)
  moreover have "\<not> has_infix ''//'' r" "CHR ''?'' \<notin> set r" "CHR ''#'' \<notin> set r"
    by (cases op; simp add: r_def starts_with_def)+
  ultimately show ?thesis using assms task_route_ok by (auto simp: mutation_args_ok_def)
qed

lemma mutate_online:
  assumes "online env now draw api" and "mutation_args_ok p c op" and "mutation_op now p c op (pool a) = (res, q)"
  shows "mutate api p c op a = (case res of
      Inl e \<Rightarrow> Inl ''worker_http_unverified''
    | Inr t \<Rightarrow> if state_name (t_state t) \<in> set (expected_states op) then Inr () else Inl ''worker_mutation_unverified'',
    a\<lparr>pool := q\<rparr>)"
proof -
  let ?req = "mutation_request p c op"
  have h: "handle env now ?req a = (answer 200 (\<lambda>t. Task (public_task t)) res, a\<lparr>pool := q\<rparr>)"
    using assms(3) by (simp add: handle_mutation on_pool_def)
  have nr: "\<nexists>tid e g out ref c'. ?req = PostReconcile tid e g out ref c'" by (cases op) (simp_all add: mutation_request_def)
  obtain sc b where sc: "answer 200 (\<lambda>t. Task (public_task t)) res = (sc, b)" by (cases "answer 200 (\<lambda>t. Task (public_task t)) res")
  have "sc \<noteq> 401" using sc by (auto simp: answer_def error_response_def split: sum.splits pool_error.splits)
  then have req: "request api [200] ?req a = (if sc = 200 then Inr (json_body b) else Inl ''worker_http_unverified'', a\<lparr>pool := q\<rparr>)"
    using request_online [OF assms(1) mutation_route_ok [OF assms(2)], of a sc b "a\<lparr>pool := q\<rparr>" "[200]"]
      mutation_body_ok [OF assms(2)] h sc nr by simp
  note run = mutate_def andthen_def lift_def worker_ok_def id_ok_def require_def bindE_def check_def ret_def request_dict_def
    as_dict_def task_readback_def raise_def
  have args: "NAME (p_worker_id p)" "CORRELATION c" "TASK_ID (p_task_id p)" "16 \<le> length (p_lease_token p)"
    "length (p_lease_token p) \<le> 128" "mutation_ok op = Inr ()" "fence_ok p"
    using assms(2) by (simp_all add: mutation_args_ok_def)
  show ?thesis
  proof (cases res)
    case (Inl e)
    then have "sc \<noteq> 200" using sc by (auto simp: answer_def error_response_def split: pool_error.splits)
    then show ?thesis using req args Inl by (simp add: run)
  next
    case (Inr t)
    have f: "find_task (p_task_id p) q = Some t" using mutation_found assms(3) Inr by blast
    have b: "sc = 200" "b = Task (public_task t)" using sc Inr by (simp_all add: answer_def)
    have "str_in task_states (PStr (state_name (t_state t)))"
      by (cases "t_state t") (simp_all add: str_in_def task_states_def state_name_def)
    moreover have "client_get_task api (p_task_id p) (a\<lparr>pool := q\<rparr>) = (Inr (json_task (public_task t)), a\<lparr>pool := q\<rparr>)"
      using client_get_task_online [OF assms(1) args(3)] f by simp
    ultimately show ?thesis using req args Inr b tasks_tbl.get_key [OF f] json_task_token
      by (simp add: run str_in_def)
  qed
qed

text \<open>The state in which an accepted mutation leaves the task.\<close>

lemma updated_state:
  assumes "sql_update_task tid f d = Inr q" and "find_task tid q = Some t" and "\<And>r. t_task_id (f r) = t_task_id r"
  shows "\<exists>r. t = f r"
proof -
  have "find_task tid q = map_option f (find_task tid d)"
    using sql_update_task_Inr [OF assms(1)] assms(3) by (simp add: tasks_tbl.get_upd)
  then show ?thesis using assms(2) by (cases "find_task tid d") auto
qed

lemma mutation_state:
  assumes "mutation_op now p c op db = (Inr t, q)"
  shows "state_name (t_state t) \<in> set (expected_states op) \<or> (\<exists>reason. op = MFail reason) \<and> t_state t = Validating"
proof -
  note f = mutation_found [OF assms]
  obtain g d st where u: "sql_update_task (p_task_id p) g d = Inr q" "\<And>r. t_task_id (g r) = t_task_id r" "\<And>r. t_state (g r) = st"
    and st: "state_name st \<in> set (expected_states op) \<or> (\<exists>reason. op = MFail reason) \<and> st = Validating"
  proof (cases op)
    case MStart
    then obtain d where "sql_update_task (p_task_id p) (start_update now (p_worker_id p) c) d = Inr q"
      using assms by (auto simp: mutation_op_def start_task_def tx_then_get_def start_tx_def outcome_simps split: sum.splits if_splits)
    then show ?thesis using MStart by (intro that [of "start_update now (p_worker_id p) c" d Running]) (auto simp: start_update_def expected_states_def state_name_def)
  next
    case (MValidation sha)
    then obtain d where "sql_update_task (p_task_id p) (submit_update now (py_lower sha) c) d = Inr q"
      using assms by (auto simp: mutation_op_def submit_for_validation_def Let_def tx_then_get_def submit_tx_def outcome_simps
          split: sum.splits if_splits)
    then show ?thesis using MValidation by (intro that [of "submit_update now (py_lower sha) c" d Validating]) (auto simp: submit_update_def expected_states_def state_name_def)
  next
    case MComplete
    then obtain d where "sql_update_task (p_task_id p) (complete_update now c) d = Inr q"
      using assms by (auto simp: mutation_op_def complete_task_def tx_then_get_def complete_tx_def outcome_simps split: sum.splits if_splits)
    then show ?thesis using MComplete by (intro that [of "complete_update now c" d Completed]) (auto simp: complete_update_def expected_states_def state_name_def)
  next
    case (MFail reason)
    then obtain d st r where "sql_update_task (p_task_id p) (fail_update st now r c) d = Inr q" "st \<in> {Failed, Queued, Validating}"
      using assms by (auto simp: mutation_op_def fail_task_def Let_def tx_then_get_def fail_tx_def outcome_simps requeue_state_def
          split: sum.splits if_splits)
    then show ?thesis using MFail by (intro that [of "fail_update st now r c" d st]) (auto simp: fail_update_def expected_states_def state_name_def)
  next
    case (MBlock reason)
    then obtain d r where "sql_update_task (p_task_id p) (block_update now r c) d = Inr q"
      using assms by (auto simp: mutation_op_def block_task_def Let_def tx_then_get_def block_tx_def outcome_simps split: sum.splits if_splits)
    then show ?thesis using MBlock by (intro that [of "block_update now r c" d Blocked]) (auto simp: block_update_def expected_states_def state_name_def)
  qed
  then show ?thesis using updated_state [OF u(1) f u(2)] by auto
qed

text \<open>C30: The client is as good as the line. On a line that loses nothing, an operation with well-formed arguments is
  confirmed exactly when the service accepts it, with one exception: when a failure is reported on a task that has its
  commit, the service returns the task to validation and the client calls the accepted failure unverified.\<close>

theorem client_confirms_iff:
  assumes "online env now draw api" and "mutation_args_ok p c op" and "mutation_op now p c op (pool a) = (res, q)"
  shows "(fst (mutate api p c op a) = Inr () \<longleftrightarrow>
      (\<exists>t. res = Inr t \<and> \<not> ((\<exists>reason. op = MFail reason) \<and> t_state t = Validating))) \<and>
    snd (mutate api p c op a) = a\<lparr>pool := q\<rparr>"
proof (cases res)
  case (Inl e)
  then show ?thesis by (simp add: mutate_online [OF assms])
next
  case (Inr t)
  have "state_name (t_state t) \<in> set (expected_states op) \<longleftrightarrow> \<not> ((\<exists>reason. op = MFail reason) \<and> t_state t = Validating)"
    using mutation_state [of now p c op "pool a" t q] assms(3) Inr by (auto simp: expected_states_def state_name_def)
  then show ?thesis using Inr by (simp add: mutate_online [OF assms])
qed

section \<open>Claims\<close>

lemma claim_impl_claimed:
  assumes "claim_impl env now cp only fencing a = ((200, b), a')" and "json_body b = PDict reply"
    and "get reply ''claimed'' = PBool True"
  shows "\<exists>role t l x q. claim_task (ae_cfg env) now (claim_of cp role only fencing) (pool a) = (Inr (Some (t, l)), q) \<and>
    a' = a\<lparr>pool := q\<rparr> \<and> b = Claimed (public_task t) l x"
  using assms
  by (auto simp: claim_impl_def answer_def error_response_def split: sum.splits prod.splits option.splits pool_error.splits if_splits)
    blast+

lemma claim_checked_same: "claim_checked f u fenced w tid reply = Inr r \<Longrightarrow> r = reply"
  by (cases "get reply ''claimed''"; cases "get reply ''task''"; cases "get reply ''lease''")
    (auto simp: claim_checked_def outcome_simps split: bool.splits)

lemma claim_checked_ok:
  assumes "claim_checked f u fenced w tid reply = Inr r" and "get reply ''claimed'' = PBool True"
    and "get reply ''task'' = PDict task" and "get reply ''lease'' = PDict lease"
  shows "claim_reply_ok w tid task lease"
  using assms by (simp add: claim_checked_def outcome_simps)

lemma claim_exact_sound:
  assumes "connected env now draw api" and "app_reachable (ae_cfg env) a"
    and "claim_exact fromisoformat clock api fenced w tid c a = (Inr reply, a')" and "get reply ''claimed'' = PBool True"
  shows "\<exists>cp role t l q. claim_task (ae_cfg env) now (claim_of cp role (Some tid) fenced) (pool a) = (Inr (Some (t, l)), q) \<and>
    a' = a\<lparr>pool := q\<rparr> \<and> get reply ''lease'' = PDict (json_lease l) \<and> get reply ''task'' = PDict (json_task (public_task t)) \<and>
    l_task_id l = tid \<and> l_worker_id l = w \<and> t_leased_by t = Some w \<and> find_task tid q = Some t \<and>
    t_lease_expires_at t = Some (l_lease_expires_at l)"
proof -
  have r: "request_dict api [200] (exact_claim fenced w tid c) a = (Inr reply, a')"
    and ok: "claim_checked fromisoformat clock fenced w tid reply = Inr reply"
    using assms(3) claim_checked_same by (fastforce simp: claim_exact_def act_simps)+
  obtain hdr b where s: "serve env now hdr (with_draw draw (exact_claim fenced w tid c)) a = ((200, b), a')"
    and j: "json_body b = PDict reply"
    using request_dict_sound [OF assms(1) r] by auto
  obtain cp where "claim_impl env now cp (Some tid) fenced a = ((200, b), a')"
    using serve_handled(1) [OF s] by (auto simp: with_draw_def exact_claim_def Let_def split: if_splits)
  from claim_impl_claimed [OF this j assms(4)] obtain role t l x q where
    cl: "claim_task (ae_cfg env) now (claim_of cp role (Some tid) fenced) (pool a) = (Inr (Some (t, l)), q)"
    and a': "a' = a\<lparr>pool := q\<rparr>" and b: "b = Claimed (public_task t) l x" by blast
  have l: "get reply ''lease'' = PDict (json_lease l)" "get reply ''task'' = PDict (json_task (public_task t))"
    using j b by auto
  have ids: "l_task_id l = tid" "l_worker_id l = w" "t_leased_by t = Some w"
    using claim_checked_ok [OF ok assms(4) l(2,1)] by (auto simp: claim_reply_ok_def json_lease_def json_task_def public_task_def)
  note lc = claim_lease_check [OF app_reachable_pool [OF assms(2)] cl]
  have "lease_check (l_lease_expires_at l - 1) (proof_of l) ACTIVE q = Inr t"
    "lease_check (l_lease_expires_at l) (proof_of l) ACTIVE q = Inl (ConflictError ''lease expirado'')"
    using lc by simp_all
  then have "find_task tid q = Some t \<and> t_lease_expires_at t = Some (l_lease_expires_at l)"
    using ids by (auto simp: lease_check_def proof_of_def split: option.splits if_splits)
  then show ?thesis using cl a' l ids by blast
qed

text \<open>C31: A claimed lease survives the wire. When a claim through the client reports a task as claimed, the fields of the
  lease in the JSON answer are a proof that the service's lease check accepts for this worker and this task
  at every instant before the expiry printed in the answer.\<close>

theorem client_claim_usable:
  assumes "connected env now draw api" and "app_reachable (ae_cfg env) a"
    and "claim_exact fromisoformat clock api fenced w tid c a = (Inr reply, a')" and "get reply ''claimed'' = PBool True"
  shows "\<exists>lease k g n e row. get reply ''lease'' = PDict lease \<and> get lease ''lease_token'' = PStr k \<and>
    get lease ''lease_generation'' = PInt g \<and> get lease ''attempt_id'' = PStr n \<and> get lease ''lease_expires_at'' = PStr (iso e) \<and>
    (\<forall>t<e. lease_check t \<lparr>p_task_id = tid, p_worker_id = w, p_lease_token = k, p_lease_generation = Some g,
       p_attempt_id = Some n\<rparr> ACTIVE (pool a') = Inr row) \<and>
    find_task tid (pool a') = Some row \<and> t_leased_by row = Some w \<and> t_lease_expires_at row = Some e"
proof -
  obtain cp role t l q where
    cl: "claim_task (ae_cfg env) now (claim_of cp role (Some tid) fenced) (pool a) = (Inr (Some (t, l)), q)" "a' = a\<lparr>pool := q\<rparr>"
    and l: "get reply ''lease'' = PDict (json_lease l)"
    and t: "l_task_id l = tid" "l_worker_id l = w" "t_leased_by t = Some w" "find_task tid q = Some t"
      "t_lease_expires_at t = Some (l_lease_expires_at l)"
    using claim_exact_sound [OF assms] by blast
  have p: "proof_of l = \<lparr>p_task_id = tid, p_worker_id = w, p_lease_token = l_lease_token l,
      p_lease_generation = Some (l_lease_generation l), p_attempt_id = Some (l_attempt_id l)\<rparr>"
    using t(1,2) by (simp add: proof_of_def)
  have "\<forall>u<l_lease_expires_at l. lease_check u (proof_of l) ACTIVE (pool a') = Inr t"
    using claim_lease_check [OF app_reachable_pool [OF assms(2)] cl(1)] cl(2) by simp
  then show ?thesis using l t cl(2) unfolding p by (auto simp: json_lease_def)
qed

section \<open>Checkpoints\<close>

lemma client_latest_checkpoint_sound:
  assumes "connected env now draw api" and "client_latest_checkpoint api tid a = (Inr v, a')"
  shows "a' = a \<and> (\<exists>x. get_latest_checkpoint tid (pool a) = Inr x \<and> v = json_option json_joined x)"
proof -
  obtain reply where r: "request_dict api [200] (GetLatestCheckpoint tid) a = (Inr reply, a')" and v: "v = get reply ''checkpoint''"
    using assms(2) by (auto simp: client_latest_checkpoint_def act_simps Let_def)
  obtain hdr b where s: "serve env now hdr (GetLatestCheckpoint tid) a = ((200, b), a')" and j: "json_body b = PDict reply"
    using request_dict_sound [OF assms(1) r] by (auto simp: with_draw_def)
  have "latest_checkpoint_route tid a = ((200, b), a')" using serve_handled(1) [OF s] by (simp del: route_defs)
  then show ?thesis using j v
    by (auto simp: latest_checkpoint_route_def answer_def error_response_def split: sum.splits pool_error.splits)
qed

lemma get_json_joined: "get (json_joined (c, x)) k = (if k \<in> fst ` set (json_checkpoint c) then get (json_checkpoint c) k
    else get (drop 16 (json_joined (c, x))) k)"
  by (simp add: json_joined_def json_checkpoint_def)

lemma joined_matches:
  assumes "checkpoint_matches (PDict (json_joined (c, x))) (expected_checkpoint i)"
  shows "c_lease_generation c = i_lease_generation i \<and> c_attempt_id c = i_attempt_id i \<and> c_checkpoint_id c = i_checkpoint_id i \<and>
    c_sequence c = i_sequence i \<and> c_stage c = i_stage i \<and> c_next_action c = i_next_action i \<and>
    c_artifact_kind c = i_artifact_kind i \<and> c_artifact_ref c = i_artifact_ref i \<and> c_artifact_sha256 c = i_artifact_sha256 i \<and>
    c_effect_id c = i_effect_id i \<and> effect_state_name (c_effect_state c) = i_effect_state i \<and>
    c_effect_result_ref c = i_effect_result_ref i"
  using assms
  by (simp add: checkpoint_matches_def expected_checkpoint_def get_json_joined json_checkpoint_def py_eq_opt)

lemma client_record_sound:
  assumes "connected env now draw api" and "client_record_checkpoint api i a = (Inr v, a')"
  shows "\<exists>c x. get_latest_checkpoint (i_task_id i) (pool a') = Inr (Some (c, x)) \<and> v = PDict (json_joined (c, x)) \<and>
    c_lease_generation c = i_lease_generation i \<and> c_attempt_id c = i_attempt_id i \<and> c_checkpoint_id c = i_checkpoint_id i \<and>
    c_sequence c = i_sequence i \<and> c_stage c = i_stage i \<and> c_next_action c = i_next_action i \<and>
    c_artifact_kind c = i_artifact_kind i \<and> c_artifact_ref c = i_artifact_ref i \<and> c_artifact_sha256 c = i_artifact_sha256 i \<and>
    c_effect_id c = i_effect_id i \<and> effect_state_name (c_effect_state c) = i_effect_state i \<and>
    c_effect_result_ref c = i_effect_result_ref i"
proof -
  obtain s1 where g: "client_latest_checkpoint api (i_task_id i) s1 = (Inr v, a')" and m: "checkpoint_matches v (expected_checkpoint i)"
    using assms(2) by (auto simp: client_record_checkpoint_def act_simps split: option.splits)
  obtain x where x: "get_latest_checkpoint (i_task_id i) (pool a') = Inr x" "v = json_option json_joined x"
    using client_latest_checkpoint_sound [OF assms(1) g] by auto
  then obtain c e where "x = Some (c, e)" using m
    by (cases x) (auto simp: json_option_def checkpoint_matches_def)
  then show ?thesis using x m joined_matches [of c e i] by (simp add: json_option_def)
qed

text \<open>A checkpoint that the client reports is in the database, also when the answer to the request was lost: it is
  the latest checkpoint of the task, with exactly the generation, sequence, artifact and effect that were to be
  recorded.\<close>

theorem client_checkpoint_durable:
  assumes "connected env now draw api" and "client_record_checkpoint api i a = (Inr v, a')"
  shows "\<exists>c x. get_latest_checkpoint (i_task_id i) (pool a') = Inr (Some (c, x)) \<and> v = PDict (json_joined (c, x)) \<and>
    c_checkpoint_id c = i_checkpoint_id i \<and> c_lease_generation c = i_lease_generation i \<and> c_sequence c = i_sequence i \<and>
    c_attempt_id c = i_attempt_id i \<and> c_artifact_ref c = i_artifact_ref i \<and> c_artifact_sha256 c = i_artifact_sha256 i \<and>
    c_effect_id c = i_effect_id i \<and> effect_state_name (c_effect_state c) = i_effect_state i"
  using client_record_sound [OF assms] by blast

section \<open>Submissions\<close>

lemma issue_task_Inr:
  assumes "issue_task payload = Inr n"
  shows "\<exists>issue request_id correlation_id base_sha.
    n = \<lparr>n_repository = REPO, n_issue_number = issue, n_request_id = request_id, n_correlation_id = correlation_id,
      n_priority = 10, n_base_sha = Some base_sha, n_max_attempts = Some 1,
      n_target_branch = Some (issue_branch issue base_sha), n_fencing_required = True\<rparr> \<and>
    get payload ''repository'' = PStr REPO \<and> get payload ''issue_number'' = PInt issue \<and>
    get payload ''request_id'' = PStr request_id \<and> get payload ''correlation_id'' = PStr correlation_id \<and>
    get payload ''base_sha'' = PStr base_sha \<and> get payload ''target_branch'' = PStr (issue_branch issue base_sha) \<and>
    0 < issue \<and> REQUEST_ID request_id \<and> CORRELATION correlation_id \<and> SHA40 base_sha"
  using assms unfolding issue_task_def by (auto split: pyval.splits if_splits)

definition issue_row :: "task_create \<Rightarrow> task_row \<Rightarrow> bool" where
  "issue_row n t \<longleftrightarrow>
     t_repository t = n_repository n \<and> t_issue_number t = n_issue_number n \<and> t_request_id t = n_request_id n \<and>
     t_correlation_id t = n_correlation_id n \<and> t_base_sha t = n_base_sha n \<and> Some (t_branch t) = n_target_branch n \<and>
     t_fencing_required t \<and> t_max_attempts t = 1"

lemma enqueue_fenced_issue_sound:
  assumes "connected env now draw api" and "enqueue_fenced_issue api payload a = (Inr q, a')"
  shows "\<exists>n t. issue_task payload = Inr n \<and> a' = a\<lparr>pool := snd (enqueue_task (ae_cfg env) now n (pool a))\<rparr> \<and>
    find_task (eq_task_id q) (pool a') = Some t \<and> eq_task q = json_task (public_task t) \<and> issue_row n t"
proof -
  obtain n reply s1 task where n: "issue_task payload = Inr n"
    and r: "request_dict api [200, 201] (PostTask n) a = (Inr reply, s1)"
    and g: "client_get_task api (eq_task_id q) s1 = (Inr (eq_task q), a')"
    and m: "same_fields [''repository'', ''issue_number'', ''request_id'', ''correlation_id'', ''priority'', ''base_sha'']
        (eq_task q) payload" "get (eq_task q) ''branch'' = get payload ''target_branch''"
      "get (eq_task q) ''fencing_required'' = PBool True" "py_eq (get (eq_task q) ''max_attempts'') (PInt 1)"
    using assms(2) by (auto simp: enqueue_fenced_issue_def act_simps case_prod_unfold)
  obtain hdr sc b where s: "serve env now hdr (PostTask n) a = ((sc, b), s1)" and sc: "sc < 300"
    using request_dict_sound [OF assms(1) r] by (auto simp: with_draw_def)
  have "enqueue_handler env now n a = ((sc, b), s1)" using serve_handled(1) [OF s sc] by simp
  then have a1: "s1 = a\<lparr>pool := snd (enqueue_task (ae_cfg env) now n (pool a))\<rparr>"
    using sc by (auto simp: enqueue_handler_def split: if_splits prod.splits)
  obtain t where t: "find_task (eq_task_id q) (pool s1) = Some t" "eq_task q = json_task (public_task t)" "a' = s1"
    using client_get_task_sound [OF assms(1) g] by auto
  have "issue_row n t"
    using m issue_task_Inr [OF n] unfolding t(2)
    by (auto simp: same_fields_def issue_row_def json_task_def public_task_def)
  then show ?thesis using n a1 t by auto
qed

lemma list_repositories_sound:
  assumes "connected env now draw api" and "list_repositories api a = (Inr ls, a')"
  shows "\<exists>v q. snapshot (ae_cfg env) now (pool a) = (Inr v, q) \<and> a' = a\<lparr>pool := q\<rparr> \<and> ls = map json_lane (sv_repositories v)"
proof -
  obtain vs where r: "request api [200] GetRepositories a = (Inr (PList vs), a')" and ls: "ls = List.map_filter dict_of vs"
    using assms(2) by (auto simp: list_repositories_def request_list_def act_simps outcome_simps)
  obtain hdr b where s: "serve env now hdr GetRepositories a = ((200, b), a')" and j: "json_body b = PList vs"
    using request_sound [OF assms(1) r] by (auto simp: with_draw_def)
  have "repositories_route env now a = ((200, b), a')" using serve_handled(1) [OF s] by (simp del: route_defs)
  then obtain v q where v: "snapshot (ae_cfg env) now (pool a) = (Inr v, q)" "a' = a\<lparr>pool := q\<rparr>" "b = Lanes (sv_repositories v)"
    by (auto simp: repositories_route_def on_pool_def answer_def error_response_def
        split: prod.splits sum.splits pool_error.splits)
  moreover have "List.map_filter dict_of (map (\<lambda>l. PDict (json_lane l)) xs) = map json_lane xs" for xs
    by (induction xs) (simp_all add: List.map_filter_simps dict_of_def)
  ultimately show ?thesis using j ls by auto
qed

section \<open>Histories of the service\<close>

interpretation service_history: world_relation "(app_step cfg)\<^sup>*\<^sup>*" for cfg
  by unfold_locales auto

abbreviation history :: "api_env \<Rightarrow> app_db \<Rightarrow> app_db \<Rightarrow> bool" where
  "history env \<equiv> (app_step (ae_cfg env))\<^sup>*\<^sup>*"

lemma exchange_keeps:
  assumes "connected env now draw api" and "fresh_ok (with_draw draw req)"
  shows "keeps (history env) (exchange api tok req)"
proof -
  obtain arrives answered bytes where send: "la_send api = lossy arrives answered (loopback env now draw bytes)"
    using assms(1) by (auto simp: connected_def)
  have "history env a (snd (exchange api tok req a))" for a
  proof -
    have "snd (exchange api tok req a) \<in> {a, snd (serve env now (Some (''Bearer '' @ tok)) (with_draw draw req) a)}"
      by (auto simp: exchange_def send lossy_def loopback_def split: prod.splits option.splits)
    moreover have "history env a (snd (serve env now hdr (with_draw draw req) a))" for hdr
      using serve_state [of env now hdr "with_draw draw req" a] handle_steps [OF assms(2), of env a now] by auto
    ultimately show ?thesis by auto
  qed
  then show ?thesis by (simp add: keeps_def)
qed

lemma request_keeps:
  assumes "connected env now draw api" and "fresh_ok (with_draw draw req)"
  shows "keeps (history env) (request api expected req)" "keeps (history env) (request_dict api expected req)"
    "keeps (history env) (request_list api req)"
  using exchange_keeps [OF assms]
  by (auto simp: request_def request_dict_def request_list_def intro!: service_history.keeps_andthen)

lemma client_keeps:
  assumes "connected env now draw api" and "snd draw \<noteq> []"
  shows "keeps (history env) (client_get_task api tid)" "keeps (history env) (client_latest_checkpoint api tid)"
    "keeps (history env) (claim_exact f u api fenced w tid c)" "keeps (history env) (client_record_checkpoint api i)"
    "keeps (history env) (mutate api p c op)" "keeps (history env) (list_repositories api)"
    "keeps (history env) (enqueue_fenced_issue api payload)"
proof -
  have f: "fresh_ok (with_draw draw (exact_claim fenced w tid c))" "fresh_ok (with_draw draw (mutation_request p c op))"
    using assms(2) by (cases op; simp add: exact_claim_def with_draw_def Let_def mutation_request_def)+
  note r = request_keeps [OF assms(1)]
  show g: "keeps (history env) (client_get_task api tid)" for tid
    unfolding client_get_task_def by (intro service_history.keeps_andthen service_history.keeps_pure r) (simp add: with_draw_def)
  show l: "keeps (history env) (client_latest_checkpoint api tid)" for tid
    unfolding client_latest_checkpoint_def Let_def
    by (intro service_history.keeps_andthen service_history.keeps_pure r) (simp add: with_draw_def)
  show "keeps (history env) (claim_exact f u api fenced w tid c)"
    unfolding claim_exact_def by (intro service_history.keeps_andthen service_history.keeps_pure r f)
  show "keeps (history env) (mutate api p c op)"
    unfolding mutate_def by (intro service_history.keeps_andthen service_history.keeps_pure r f g)
  show "keeps (history env) (list_repositories api)"
    unfolding list_repositories_def by (intro r) (simp add: with_draw_def)
  show "keeps (history env) (enqueue_fenced_issue api payload)"
    unfolding enqueue_fenced_issue_def case_prod_unfold
    by (intro service_history.keeps_andthen service_history.keeps_pure r g) (simp add: with_draw_def)
  show "keeps (history env) (client_record_checkpoint api i)"
    unfolding client_record_checkpoint_def
    by (intro service_history.keeps_andthen service_history.keeps_attempt service_history.keeps_pure r l)
      (auto simp: with_draw_def split: option.splits
        intro!: service_history.keeps_andthen l)
qed

section \<open>The service beside the rest of the world\<close>

definition at_service :: "('a, app_db) act \<Rightarrow> ('a, 'g \<times> app_db) act" where
  "at_service m w = (case m (snd w) of (r, a) \<Rightarrow> (r, (fst w, a)))"

lemma at_service_Inr [act_simps]:
  "at_service m w = (Inr x, w') \<longleftrightarrow> m (snd w) = (Inr x, snd w') \<and> fst w' = fst w"
  by (cases w') (auto simp: at_service_def split: prod.splits)

abbreviation same_service :: "'g \<times> app_db \<Rightarrow> 'g \<times> app_db \<Rightarrow> bool" where
  "same_service w w' \<equiv> snd w' = snd w"

interpretation beside: world_relation "same_service :: 'g \<times> app_db \<Rightarrow> 'g \<times> app_db \<Rightarrow> bool"
  by unfold_locales auto

lemma keeps_run: "keeps R m \<Longrightarrow> m w = (r, w') \<Longrightarrow> R w w'"
  by (metis keeps_def snd_conv)

section \<open>A session, executed\<close>

definition demo_token :: string where
  "demo_token = replicate 16 (CHR ''k'')"

definition demo_native_env :: api_env where
  "demo_native_env = \<lparr>ae_cfg = demo_cfg, ae_api_token_file = Some demo_token, ae_reconciliation_token_file = Some ''r''\<rparr>"

definition demo_api :: "timestamp \<Rightarrow> app_db local_api" where
  "demo_api now = \<lparr>la_token_file = TokenBytes (replicate 16 107),
     la_send = loopback demo_native_env now (demo_token, ''a1'') (\<lambda>_. 100)\<rparr>"

definition demo_native :: app_db where
  "demo_native = \<lparr>pool = exec_call demo_cfg 0 (RegisterWorker (demo_worker ''bob'' ''builder'')) demo_queued, work_runs = []\<rparr>"

definition demo_native_request :: claim_request where
  "demo_native_request = claim_of \<lparr>cp_worker_id = ''bob'', cp_correlation_id = ''corr-001'', cp_lease_seconds = None,
     cp_token = demo_token, cp_attempt_id = ''a1''\<rparr> Builder (Some demo_id) True"

definition demo_read :: "string \<Rightarrow> observation" where
  "demo_read s = (case parse_iso s of None \<Rightarrow> NotIso | Some t \<Rightarrow> At t)"

lemma demo_online: "online demo_native_env now (demo_token, ''a1'') (demo_api now)"
proof -
  have "token (TokenBytes (replicate 16 107)) = Inr demo_token" "py_strip demo_token = demo_token" by code_simp+
  then show ?thesis
    by (auto simp: online_def demo_api_def read_api_token_def demo_native_env_def opt_text_def MAX_RESPONSE_BYTES_def)
qed

lemma demo_native_text: "py_strip ''bob'' = ''bob''" "py_strip ''corr-001'' = ''corr-001''" "NAME ''bob''" "CORRELATION ''corr-001''" "SAFE_ID ''a1''"
  "py_lower ''builder'' = ''builder''" "length demo_token = 16" "demo_token \<noteq> []" "parse_role ''builder'' = Some Builder"
  by code_simp+

lemma demo_native_pool: "pool demo_native = demo_queued\<lparr>workers := workers demo_queued @ [demo_worker_row ''bob'' Builder]\<rparr>"
  by (simp add: demo_native_def register_worker_def demo_worker_def demo_native_text demo_eqs demo_exec Let_def)

lemma demo_native_reachable: "app_reachable demo_cfg demo_native"
  unfolding demo_native_def
  by (intro app_reachable_idle reachable.stepped [OF demo_reachable(1)] pool_step.call) simp

lemma demo_native_claim:
  "\<exists>row l q. claim_task demo_cfg 1 demo_native_request (pool demo_native) = (Inr (Some (row, l)), q) \<and>
     l_lease_expires_at l = 60000001 \<and> l_task_id l = demo_id \<and> l_worker_id l = ''bob'' \<and> l_lease_token l = demo_token \<and>
     l_lease_generation l = 1 \<and> l_attempt_id l = ''a1'' \<and> l_role l = Builder \<and> t_leased_by row = Some ''bob'' \<and>
     t_task_id row = demo_id \<and> t_state row = Leased \<and> t_fencing_required row \<and> t_lease_generation row = 1 \<and>
     t_attempt_id row = Some ''a1'' \<and> find_task demo_id q = Some row \<and> t_lease_expires_at row = Some 60000001 \<and>
     get_recovery_context demo_id q = Inr \<lparr>x_latest_checkpoint = None, x_effects = []\<rparr>"
  by (simp add: demo_native_pool demo_native_request_def claim_of_def role_name_def demo_native_text demo_eqs demo_exec
      task_id_TASK_ID get_recovery_context_def get_latest_checkpoint_def Let_def)

lemma demo_instant: "printable 60000001"
  by (simp add: printable_def date_of_def year_day.simps [of 1970] year_length_def month_lengths_def usec_def)

lemma demo_lease_live:
  assumes "get lease ''lease_expires_at'' = PStr (iso 60000001)"
  shows "lease_live demo_read 2 lease"
  using assms length_iso [of 60000001] parse_iso_printed [OF demo_instant]
  by (auto simp: lease_live_def str_all_def demo_read_def)

lemma demo_claim_run:
  "\<exists>reply a'. claim_exact demo_read 2 (demo_api 1) True ''bob'' demo_id ''corr-001'' demo_native = (Inr reply, a') \<and>
     get reply ''claimed'' = PBool True \<and>
     (\<exists>row. find_task demo_id (pool a') = Some row \<and> t_lease_expires_at row = Some 60000001) \<and>
     (\<exists>lease. get reply ''lease'' = PDict lease \<and> get lease ''lease_expires_at'' = PStr (iso 60000001) \<and>
        get lease ''lease_token'' = PStr demo_token \<and> get lease ''lease_generation'' = PInt 1 \<and> get lease ''attempt_id'' = PStr ''a1'')"
proof -
  obtain row l q where c: "claim_task demo_cfg 1 demo_native_request (pool demo_native) = (Inr (Some (row, l)), q)"
    and l: "l_lease_expires_at l = 60000001" "l_task_id l = demo_id" "l_worker_id l = ''bob''" "l_lease_token l = demo_token"
      "l_lease_generation l = 1" "l_attempt_id l = ''a1''" "l_role l = Builder"
    and t: "t_leased_by row = Some ''bob''" "t_task_id row = demo_id" "t_state row = Leased" "t_fencing_required row"
      "t_lease_generation row = 1" "t_attempt_id row = Some ''a1''"
    and f: "find_task demo_id q = Some row" "t_lease_expires_at row = Some 60000001"
    and x: "get_recovery_context demo_id q = Inr \<lparr>x_latest_checkpoint = None, x_effects = []\<rparr>"
    using demo_native_claim by blast
  let ?req = "exact_claim True ''bob'' demo_id ''corr-001''"
  let ?b = "Claimed (public_task row) l (Some \<lparr>x_latest_checkpoint = None, x_effects = []\<rparr>)"
  have id: "TASK_ID demo_id" by (simp add: demo_id_def task_id_TASK_ID)
  have w: "get_worker ''bob'' (pool demo_native) = Inr (demo_worker_row ''bob'' Builder)"
    by (simp add: demo_native_pool demo_eqs demo_exec)
  have h: "handle demo_native_env 1 (with_draw (demo_token, ''a1'') ?req) demo_native = ((200, ?b), demo_native\<lparr>pool := q\<rparr>)"
    using c w x t(2) by (simp add: exact_claim_def with_draw_def Let_def claim_impl_def demo_native_env_def demo_native_request_def
        demo_worker_row_def answer_def)
  have "route_ok ?req" by (simp add: exact_claim_def route_ok_def starts_with_def)
  moreover have "body_ok (with_draw (demo_token, ''a1'') ?req)"
    using id by (simp add: exact_claim_def with_draw_def ok_ExactClaimRequest_def ok_ClaimRequest_def len_in_def opt_all_def)
  ultimately have "request (demo_api 1) [200] ?req demo_native = (Inr (json_body ?b), demo_native\<lparr>pool := q\<rparr>)"
    using request_online [OF demo_online _ _ h] by (simp add: exact_claim_def with_draw_def)
  moreover have live: "lease_live demo_read 2 (json_lease l)" by (rule demo_lease_live) (simp add: json_lease_def l(1))
  ultimately show ?thesis using id l t f demo_native_text json_task_token [of "public_task row"]
    by (simp add: claim_exact_def andthen_def lift_def worker_ok_def id_ok_def require_def bindE_def request_dict_def as_dict_def
        claim_checked_def claim_reply_ok_def fenced_claim_ok_def recovery_shape_ok_def json_recovery_def json_option_def
        task_readback_def str_in_def str_all_def int_all_def task_states_def state_name_def role_name_def)
      (simp add: json_lease_def json_task_def public_task_def state_name_def role_name_def l t)
qed

theorem client_claim_usable_witness:
  "\<exists>reply a' row. claim_exact demo_read 2 (demo_api 1) True ''bob'' demo_id ''corr-001'' demo_native = (Inr reply, a') \<and>
     lease_check 3 (demo_proof ''bob'' demo_token 1 ''a1'') ACTIVE (pool a') = Inr row"
proof -
  obtain reply a' r lease where run: "claim_exact demo_read 2 (demo_api 1) True ''bob'' demo_id ''corr-001'' demo_native = (Inr reply, a')"
      "get reply ''claimed'' = PBool True" and r: "find_task demo_id (pool a') = Some r" "t_lease_expires_at r = Some 60000001"
    and l: "get reply ''lease'' = PDict lease" "get lease ''lease_token'' = PStr demo_token"
      "get lease ''lease_generation'' = PInt 1" "get lease ''attempt_id'' = PStr ''a1''"
    using demo_claim_run by blast
  have "app_reachable (ae_cfg demo_native_env) demo_native" using demo_native_reachable by (simp add: demo_native_env_def)
  from client_claim_usable [OF online_connected [OF demo_online] this run] r l
  have "lease_check 3 (demo_proof ''bob'' demo_token 1 ''a1'') ACTIVE (pool a') = Inr r"
    by (auto simp: demo_proof_def)
  with run(1) show ?thesis by blast
qed

definition demo_native_leased :: app_db where
  "demo_native_leased = demo_native\<lparr>pool := exec_call demo_cfg 1 (ClaimTask demo_native_request) (pool demo_native)\<rparr>"

definition demo_native_proof :: lease_proof where
  "demo_native_proof = demo_proof ''bob'' demo_token 1 ''a1''"

lemma demo_native_args: "mutation_args_ok demo_native_proof ''corr-001'' MStart"
  by (simp add: mutation_args_ok_def demo_native_proof_def demo_proof_def demo_native_text mutation_ok_def fence_ok_def
      demo_id_def task_id_TASK_ID)

lemma demo_native_start:
  "\<exists>t q. mutation_op 2 demo_native_proof ''corr-001'' MStart (pool demo_native_leased) = (Inr t, q) \<and> t_state t = Running"
  by (simp add: demo_native_leased_def demo_native_pool demo_native_request_def claim_of_def role_name_def demo_native_text demo_eqs
      demo_exec task_id_TASK_ID Let_def mutation_op_def demo_native_proof_def)

lemma demo_native_started: "fst (mutate (demo_api 2) demo_native_proof ''corr-001'' MStart demo_native_leased) = Inr ()"
proof -
  obtain t q where "mutation_op 2 demo_native_proof ''corr-001'' MStart (pool demo_native_leased) = (Inr t, q)" "t_state t = Running"
    using demo_native_start by blast
  from mutate_online [OF demo_online demo_native_args this(1)] this(2) show ?thesis
    by (simp add: expected_states_def state_name_def)
qed

theorem client_mutation_confirmed_witness:
  "\<exists>t. find_task demo_id (pool (snd (mutate (demo_api 2) demo_native_proof ''corr-001'' MStart demo_native_leased))) = Some t \<and>
     state_name (t_state t) = ''running''"
proof -
  have "mutate (demo_api 2) demo_native_proof ''corr-001'' MStart demo_native_leased =
      (Inr (), snd (mutate (demo_api 2) demo_native_proof ''corr-001'' MStart demo_native_leased))"
    using demo_native_started by (metis prod.collapse)
  from client_mutation_confirmed [OF online_connected [OF demo_online] this] show ?thesis
    by (auto simp: expected_states_def demo_native_proof_def demo_proof_def)
qed

text \<open>The exception: a validator reports a failure of a task with attempts left.\<close>

definition demo_review_claim :: claim_request where
  "demo_review_claim = demo_claim ''vic'' ''validator'' demo_token ''a2''"

definition demo_native_review :: app_db where
  "demo_native_review = \<lparr>pool = run_calls demo_cfg
     [(0, RegisterWorker (demo_worker ''vic'' ''validator'')), (4, ClaimTask demo_review_claim)] demo_validating, work_runs = []\<rparr>"

definition demo_review_proof :: lease_proof where
  "demo_review_proof = demo_proof ''vic'' demo_token 2 ''a2''"

lemma demo_review_text: "py_strip ''vic'' = ''vic''" "NAME ''vic''" "SAFE_ID ''a2''" "REASON ''bad_sha''"
  "sanitize (py_strip ''bad_sha'') = ''bad_sha''"
  by code_simp+

lemma demo_review_fail:
  "\<exists>t q. mutation_op 5 demo_review_proof ''corr-001'' (MFail ''bad_sha'') (pool demo_native_review) = (Inr t, q) \<and>
     t_state t = Validating \<and> t_last_error t = Some ''bad_sha''"
  by (simp add: demo_native_review_def demo_review_claim_def register_worker_def demo_worker_def demo_review_text demo_native_text
      demo_eqs demo_exec Let_def mutation_op_def demo_review_proof_def fail_task_def fail_tx_def fail_update_def requeue_state_def)

theorem client_confirms_iff_witness:
  "fst (mutate (demo_api 2) demo_native_proof ''corr-001'' MStart demo_native_leased) = Inr () \<and>
   fst (mutate (demo_api 5) demo_review_proof ''corr-001'' (MFail ''bad_sha'') demo_native_review) \<noteq> Inr () \<and>
   (\<exists>t q. fail_task 5 demo_review_proof ''corr-001'' ''bad_sha'' (pool demo_native_review) = (Inr t, q) \<and> t_state t = Validating)"
proof -
  have args: "mutation_args_ok demo_review_proof ''corr-001'' (MFail ''bad_sha'')"
    by (simp add: mutation_args_ok_def demo_review_proof_def demo_proof_def demo_native_text demo_review_text mutation_ok_def
        fence_ok_def require_def demo_id_def task_id_TASK_ID)
  obtain t q where s: "mutation_op 2 demo_native_proof ''corr-001'' MStart (pool demo_native_leased) = (Inr t, q)"
    using demo_native_start by blast
  obtain u r where f: "mutation_op 5 demo_review_proof ''corr-001'' (MFail ''bad_sha'') (pool demo_native_review) = (Inr u, r)"
    and u: "t_state u = Validating"
    using demo_review_fail by blast
  show ?thesis
    using client_confirms_iff [OF demo_online demo_native_args s] client_confirms_iff [OF demo_online args f] f u
    by (auto simp: mutation_op_def)
qed

text \<open>A checkpoint.\<close>

definition demo_native_checkpoint :: checkpoint_request where
  "demo_native_checkpoint = demo_checkpoint\<lparr>i_worker_id := ''bob'', i_lease_token := demo_token, i_correlation_id := ''corr-001''\<rparr>"

definition demo_native_stored :: checkpoint_row where
  "demo_native_stored = (case checkpoint_row_of 2 demo_native_checkpoint of Inr c \<Rightarrow> c)"

lemma demo_native_record:
  "\<exists>q. record_checkpoint 2 demo_native_checkpoint (pool demo_native_leased) = (Inr (demo_native_stored, True), q) \<and>
     get_latest_checkpoint demo_id q = Inr (Some (demo_native_stored, None))"
  by (simp add: demo_native_leased_def demo_native_pool demo_native_request_def claim_of_def role_name_def demo_native_text demo_eqs
      demo_exec task_id_TASK_ID Let_def demo_native_checkpoint_def demo_native_stored_def get_latest_checkpoint_def reconciliation_of_def)

lemma demo_record_run:
  "\<exists>v. client_record_checkpoint (demo_api 2) demo_native_checkpoint demo_native_leased =
     (Inr v, demo_native_leased\<lparr>pool := snd (record_checkpoint 2 demo_native_checkpoint (pool demo_native_leased))\<rparr>)"
proof -
  let ?i = demo_native_checkpoint and ?a = demo_native_leased and ?c = demo_native_stored
  obtain q where q: "record_checkpoint 2 ?i (pool ?a) = (Inr (?c, True), q)" "get_latest_checkpoint demo_id q = Inr (Some (?c, None))"
    using demo_native_record by blast
  have i: "i_task_id ?i = demo_id" "i_worker_id ?i = ''bob''" "i_correlation_id ?i = ''corr-001''"
    by (simp_all add: demo_native_checkpoint_def demo_checkpoint_def)
  have id: "TASK_ID demo_id" by (simp add: demo_id_def task_id_TASK_ID)
  have args: "checkpoint_args_ok ?i" "body_ok (PostCheckpoint ?i)"
    by (simp_all add: demo_native_checkpoint_def demo_checkpoint_def checkpoint_args_ok_def artifact_fields_ok_def effect_fields_ok_def
        ok_CheckpointRecord_def ok_LeaseMutation_def checkpoint_proof_def len_in_def opt_all_def demo_native_text demo_text)
  have "route_ok (PostCheckpoint ?i)"
    by (rule task_route_ok [OF id, where r = "''/checkpoints''" and m = "''POST''"]) (simp_all add: i starts_with_def)
  moreover have "handle demo_native_env 2 (PostCheckpoint ?i) ?a = ((201, CheckpointStored True ?c), ?a\<lparr>pool := q\<rparr>)"
    using q(1) by (simp add: created_code_def)
  ultimately have post: "request (demo_api 2) [200, 201] (PostCheckpoint ?i) ?a =
      (Inr (json_body (CheckpointStored True ?c)), ?a\<lparr>pool := q\<rparr>)"
    using request_online [OF demo_online [of 2], of "PostCheckpoint ?i" ?a 201 _ "?a\<lparr>pool := q\<rparr>" "[200, 201]"] args(2)
    by (simp add: with_draw_def)
  have "route_ok (GetLatestCheckpoint demo_id)"
    by (rule task_route_ok [OF id, where r = "''/checkpoints/latest''" and m = "''GET''"]) (simp_all add: starts_with_def)
  moreover have "handle demo_native_env 2 (GetLatestCheckpoint demo_id) (?a\<lparr>pool := q\<rparr>) =
      ((200, LatestCheckpoint (Some (?c, None))), ?a\<lparr>pool := q\<rparr>)"
    using q(2) by (simp add: answer_def)
  ultimately have latest: "request (demo_api 2) [200] (GetLatestCheckpoint demo_id) (?a\<lparr>pool := q\<rparr>) =
      (Inr (json_body (LatestCheckpoint (Some (?c, None)))), ?a\<lparr>pool := q\<rparr>)"
    using request_online [OF demo_online [of 2], of "GetLatestCheckpoint demo_id" "?a\<lparr>pool := q\<rparr>" 200 _ "?a\<lparr>pool := q\<rparr>" "[200]"]
    by (simp add: with_draw_def)
  have m: "checkpoint_matches (PDict (json_checkpoint ?c)) (expected_checkpoint ?i)"
    "checkpoint_matches (PDict (json_joined (?c, None))) (expected_checkpoint ?i)" "c_task_id ?c = demo_id"
    by (simp_all add: checkpoint_matches_def expected_checkpoint_def json_joined_def json_checkpoint_def py_eq_opt
        demo_native_stored_def demo_native_checkpoint_def demo_checkpoint_def checkpoint_row_of_def demo_exec demo_native_text
        Let_def effect_state_name_def opt_str_def)
  have t: "get (json_joined (?c, None)) ''task_id'' = PStr demo_id" using m(3) by (simp add: json_joined_def json_checkpoint_def)
  show ?thesis
    using post latest m t i id args(1) q demo_native_text
    by (simp add: client_record_checkpoint_def client_latest_checkpoint_def andthen_def attempt_def lift_def worker_ok_def id_ok_def
        require_def bindE_def request_dict_def as_dict_def check_def ret_def json_option_def Let_def)
qed

theorem client_checkpoint_durable_witness:
  "\<exists>c x. get_latest_checkpoint demo_id (snd (record_checkpoint 2 demo_native_checkpoint (pool demo_native_leased))) = Inr (Some (c, x)) \<and>
     c_checkpoint_id c = ''cp1'' \<and> effect_state_name (c_effect_state c) = ''unknown''"
proof -
  obtain v where "client_record_checkpoint (demo_api 2) demo_native_checkpoint demo_native_leased =
     (Inr v, demo_native_leased\<lparr>pool := snd (record_checkpoint 2 demo_native_checkpoint (pool demo_native_leased))\<rparr>)"
    using demo_record_run by blast
  from client_checkpoint_durable [OF online_connected [OF demo_online] this] show ?thesis
    by (auto simp: demo_native_checkpoint_def demo_checkpoint_def)
qed

end
