(* ===== verification/Issue_Scenario.thy ===== *)
theory Issue_Scenario
  imports Issue_Handoff Client_Properties
begin

text \<open>
  A concrete hand-off, executed in the logic: an issue of the repository authorized at one commit, its task from the
  admission to the completion, and a small GitHub. Hashes stay symbolic.
\<close>

section \<open>The task\<close>

definition demo_new_sha :: string where
  "demo_new_sha = replicate 40 (CHR ''b'')"

definition demo_binding :: issue_binding where
  "demo_binding = bind_issue 7 demo_sha 5"

definition demo_request_id :: string where
  "demo_request_id = ib_request_id demo_binding"

definition demo_issue :: task_create where
  "demo_issue =
     \<lparr>n_repository = REPO, n_issue_number = 7, n_request_id = demo_request_id, n_correlation_id = ''qwen7b-issue-7-aaaaaaaaaaaa'',
      n_priority = 10, n_base_sha = Some demo_sha, n_max_attempts = Some 1,
      n_target_branch = Some ''agent/qwen7b-issue-7-aaaaaaaaaaaa'', n_fencing_required = True\<rparr>"

definition demo_issue_id :: string where
  "demo_issue_id = task_id (identity REPO 7 demo_request_id)"

definition demo_lane :: pool_db where
  "demo_lane = run_calls demo_cfg
     [(0, EnableCutover ''c'' True True), (0, RegisterWorker (demo_worker ''b'' ''builder'')),
      (0, RegisterWorker (demo_worker ''v'' ''validator'')), (0, ConfigureRepository REPO True 1)] demo_created"

definition demo_admitted :: pool_db where
  "demo_admitted = exec_call demo_cfg 1 (EnqueueTask demo_issue) demo_lane"

definition demo_issue_proof :: "string \<Rightarrow> string \<Rightarrow> int \<Rightarrow> string \<Rightarrow> lease_proof" where
  "demo_issue_proof w k g a = (demo_proof w k g a)\<lparr>p_task_id := demo_issue_id\<rparr>"

definition demo_artifact :: string where
  "demo_artifact = ''bundle''"

definition demo_result_checkpoint :: checkpoint_request where
  "demo_result_checkpoint = \<lparr>i_task_id = demo_issue_id, i_worker_id = ''v'', i_lease_token = ''k2'', i_lease_generation = 2,
     i_attempt_id = ''a2'', i_checkpoint_id = ''cp1'', i_sequence = 1, i_stage = ''validator_result'', i_next_action = ''complete'',
     i_correlation_id = ''c'', i_artifact_kind = Some ''git_bundle'', i_artifact_ref = Some ''ref'',
     i_artifact_sha256 = Some (sha256_hex demo_artifact), i_effect_id = None, i_effect_state = ''none'', i_effect_result_ref = None\<rparr>"

definition demo_built :: pool_db where
  "demo_built = run_calls demo_cfg
     [(1, ClaimTask demo_builder_claim), (2, StartTask (demo_issue_proof ''b'' ''k1'' 1 ''a1'') ''c''),
      (3, SubmitForValidation (demo_issue_proof ''b'' ''k1'' 1 ''a1'') demo_new_sha ''c'')] demo_admitted"

definition demo_checked :: pool_db where
  "demo_checked = run_calls demo_cfg
     [(4, ClaimTask demo_validator_claim), (5, RecordCheckpoint demo_result_checkpoint),
      (6, CompleteTask (demo_issue_proof ''v'' ''k2'' 2 ''a2'') ''c'')] demo_built"

lemma py_strip_dense:
  assumes "list_all (\<lambda>c. \<not> py_isspace c) s"
  shows "py_strip s = s"
proof -
  have d: "dropWhile py_isspace u = u" if "set u \<subseteq> set s" for u using assms that by (cases u) (auto simp: list_all_iff)
  show ?thesis using d [of s] d [of "rev s"] by (simp add: py_strip_def)
qed

lemma demo_request_text: "py_strip demo_request_id = demo_request_id" "demo_request_id \<noteq> []" "REQUEST_ID demo_request_id"
proof -
  have h: "list_all is_lower_hex (sha256_hex s)" for s using sha256_hex_lower_hex by (auto simp: list_all_iff)
  have "\<not> py_isspace c" if "is_lower_hex c" for c using that by (auto simp: is_lower_hex_def py_isspace_def Let_def)
  then have "list_all (\<lambda>c. \<not> py_isspace c) (''issue-'' @ sha256_hex s)" for s
    using h [of s] by (auto simp: list_all_iff py_isspace_def)
  then show "py_strip demo_request_id = demo_request_id"
    by (simp add: demo_request_id_def demo_binding_def bind_issue_def py_strip_dense)
  show "demo_request_id \<noteq> []" "REQUEST_ID demo_request_id"
    using h by (simp_all add: demo_request_id_def demo_binding_def bind_issue_def REQUEST_ID_def SHA256_def starts_with_def)
qed

lemma demo_artifact_text: "SHA64 (sha256_hex s)" "py_lower (sha256_hex s) = sha256_hex s" "py_strip (sha256_hex s) = sha256_hex s"
proof -
  have h: "list_all is_lower_hex (sha256_hex s)" using sha256_hex_lower_hex by (auto simp: list_all_iff)
  then show "SHA64 (sha256_hex s)" by (simp add: SHA64_def)
  have "lower_char c = c" "\<not> py_isspace c" if "is_lower_hex c" for c
    using that by (auto simp: is_lower_hex_def lower_char_def is_upper_def py_isspace_def Let_def)
  then show "py_lower (sha256_hex s) = sha256_hex s" "py_strip (sha256_hex s) = sha256_hex s"
    using h by (auto simp: py_lower_def list_all_iff intro!: map_idI py_strip_dense)
qed

lemma demo_issue_text:
  "py_strip REPO = REPO" "CHR ''/'' \<in> set REPO" "validate_repository REPO = Inr REPO"
  "py_strip ''qwen7b-issue-7-aaaaaaaaaaaa'' = ''qwen7b-issue-7-aaaaaaaaaaaa''"
  "validate_target_branch ''agent/qwen7b-issue-7-aaaaaaaaaaaa'' = BranchOk ''agent/qwen7b-issue-7-aaaaaaaaaaaa''"
  "py_lower demo_new_sha = demo_new_sha" "SHA40 demo_new_sha" "demo_new_sha \<noteq> []" "demo_new_sha \<noteq> demo_sha"
  "SAFE_ID ''validator_result''" "SAFE_ID ''git_bundle''" "py_strip ''validator_result'' = ''validator_result''"
  "py_strip ''complete'' = ''complete''" "sanitize ''complete'' = ''complete''" "sanitize ''ref'' = ''ref''"
  "sanitize ''git_bundle'' = ''git_bundle''"
  "py_strip ''ref'' = ''ref''" "py_strip ''git_bundle'' = ''git_bundle''" "parse_effect_state ''none'' = Some EffNone"
  by code_simp+

lemmas demo_issue_exec = demo_exec demo_issue_text demo_request_text(1,2) demo_artifact_text demo_worker_row_def demo_issue_proof_def
  demo_issue_def demo_result_checkpoint_def new_attempt_def

definition demo_issue_row :: task_row where
  "demo_issue_row = new_task 1 demo_issue (identity REPO 7 demo_request_id) ''agent/qwen7b-issue-7-aaaaaaaaaaaa'' 1"

lemma demo_lane_eq: "demo_lane =
   \<lparr>workers = [demo_worker_row ''b'' Builder, demo_worker_row ''v'' Validator],
    repository_lanes = [(new_lane REPO 0)\<lparr>r_enabled := True, r_max_in_flight := 1\<rparr>],
    affinity = [], tasks = [], quarantine = [],
    pool_control = Some \<lparr>k_enabled = True, k_enabled_at = Some 0, k_enabled_by_correlation_id = Some ''c''\<rparr>,
    task_attempts = [], task_checkpoints = [], effect_reconciliations = []\<rparr>"
  by (simp add: demo_lane_def demo_created_def demo_register configure_repository_def get_repository_def demo_issue_exec Let_def)

lemma demo_enqueue: "enqueue_task demo_cfg 1 demo_issue demo_lane = (Inr (demo_issue_row, True), demo_admitted)"
  "demo_admitted = demo_lane\<lparr>tasks := [demo_issue_row]\<rparr>"
  by (simp_all add: demo_admitted_def demo_lane_eq demo_issue_row_def demo_issue_exec Let_def)

lemma demo_issue_row_id: "t_task_id demo_issue_row = demo_issue_id"
  by (simp add: demo_issue_row_def new_task_def demo_issue_id_def)

definition demo_built_row :: task_row where
  "demo_built_row = submit_update 3 demo_new_sha ''c'' (start_update 2 ''b'' ''c'' (claim_update 1 Builder demo_builder_claim 60000001 demo_issue_row))"

lemma demo_built_eq: "demo_built = demo_lane\<lparr>tasks := [demo_built_row],
   repository_lanes := [claim_lane 1 Builder ((new_lane REPO 0)\<lparr>r_enabled := True, r_max_in_flight := 1\<rparr>)],
   task_attempts := [(new_attempt 1 Builder demo_builder_claim 60 demo_issue_row)
     \<lparr>a_ended_at := Some 3, a_end_reason := Some ''validation_handoff''\<rparr>]\<rparr>"
  by (simp add: demo_built_def demo_enqueue(2) demo_lane_eq demo_issue_row_def demo_built_row_def demo_issue_id_def demo_issue_exec Let_def)

definition demo_result_row :: checkpoint_row where
  "demo_result_row = (case checkpoint_row_of 5 demo_result_checkpoint of Inr c \<Rightarrow> c)"

definition demo_done_row :: task_row where
  "demo_done_row = complete_update 6 ''c'' (checkpoint_update 5 ''c'' (claim_update 4 Validator demo_validator_claim 60000004 demo_built_row))"

lemma demo_checked_eq: "tasks demo_checked = [demo_done_row]" "task_checkpoints demo_checked = [demo_result_row]"
  "effect_reconciliations demo_checked = []"
  by (simp_all add: demo_checked_def demo_built_eq demo_lane_eq demo_built_row_def demo_done_row_def demo_result_row_def demo_issue_row_def
      demo_issue_id_def demo_issue_exec Let_def)

lemma demo_checked_reachable: "reachable demo_cfg demo_checked"
proof -
  have "reachable demo_cfg demo_lane" unfolding demo_lane_def demo_created_def
    by (rule reachable_run_calls) (simp_all add: reachable.created)
  then have "reachable demo_cfg demo_admitted" unfolding demo_admitted_def by (blast intro: reachable.stepped pool_step.call call_ok.simps [THEN iffD2])
  then show ?thesis unfolding demo_checked_def demo_built_def
    by (intro reachable_run_calls) (simp_all add: demo_builder_claim_def demo_validator_claim_def demo_claim_def)
qed

end
