(* ===== verification/Issue_Properties.thy ===== *)
theory Issue_Properties
  imports Issue_Scenario "HOL-Library.Sublist"
begin

text \<open>
  The hand-off of an issue, end to end: what an admission leaves in the pool when the pool is the service behind
  the native client, which tasks can be published, and what a publication writes to GitHub. The world is
  GitHub's side together with the service's database.
\<close>

section \<open>The hand-off beside the service\<close>

definition client_pool :: "app_db local_api \<Rightarrow> ('g \<times> app_db) issue_pool" where
  "client_pool api =
     \<lparr>ip_list_repositories = at_service (list_repositories api),
      ip_enqueue_fenced_issue = (\<lambda>payload. at_service (enqueue_fenced_issue api payload)),
      ip_get_task = (\<lambda>tid. at_service (client_get_task api tid)),
      ip_get_latest_checkpoint = (\<lambda>tid. at_service (client_latest_checkpoint api tid))\<rparr>"

text \<open>Requests to GitHub do not reach the pool's database.\<close>

definition elsewhere :: "('g \<times> app_db) github_port \<Rightarrow> bool" where
  "elsewhere github \<longleftrightarrow>
     (\<forall>b. keeps same_service (gp_get_branch github b)) \<and> (\<forall>r. keeps same_service (gp_get_source github r)) \<and>
     (\<forall>b h. keeps same_service (gp_changed_paths github b h)) \<and> (\<forall>b s. keeps same_service (gp_create_branch github b s)) \<and>
     (\<forall>b s k. keeps same_service (gp_replace_source github b s k)) \<and> (\<forall>b. keeps same_service (gp_find_pr github b)) \<and>
     (\<forall>b t d. keeps same_service (gp_create_pr github b t d)) \<and> (\<forall>k. keeps same_service (gp_get_issue github k)) \<and>
     (\<forall>c. keeps same_service (gp_get_comment github c))"

lemma elsewhere_reads:
  assumes "elsewhere github"
  shows "keeps same_service (gp_get_source github r)" "keeps same_service (read_binding github k cid clock)"
proof -
  show "keeps same_service (gp_get_source github r)" using assms by (simp add: elsewhere_def)
  show "keeps same_service (read_binding github k cid clock)"
    unfolding read_binding_def using assms
    by (intro beside.keeps_andthen beside.keeps_pure) (simp_all add: elsewhere_def)
qed

section \<open>Admission\<close>

text \<open>The owner's comment, as GitHub returned it, names this issue and this commit.\<close>

definition authorized_by :: "'w github_port \<Rightarrow> int \<Rightarrow> issue_binding \<Rightarrow> bool" where
  "authorized_by github cid b \<longleftrightarrow>
     (\<exists>c w w'. gp_get_comment github cid w = (Inr (PDict c), w') \<and>
        owner_authorized c (ib_number b) (ib_base_sha b) (ib_comment_id b)) \<and>
     SHA40 (ib_base_sha b) \<and> 0 < ib_number b \<and> b = bind_issue (ib_number b) (ib_base_sha b) (ib_comment_id b)"

lemma bind_issue_simps [simp]:
  "ib_number (bind_issue k s c) = k" "ib_base_sha (bind_issue k s c) = s" "ib_comment_id (bind_issue k s c) = c"
  "ib_branch (bind_issue k s c) = issue_branch k s"
  by (simp_all add: bind_issue_def)

lemma read_binding_authorized:
  assumes "read_binding github k cid clock w = (Inr b, w')"
  shows "authorized_by github cid b"
proof -
  obtain main base_sha issue comment w1 w2 where c: "gp_get_comment github cid w1 = (Inr comment, w2)"
    and a: "admit issue comment main base_sha (At clock) clock = Inr b"
    using assms by (auto simp: read_binding_def act_simps)
  then show ?thesis using admit_Inr [OF a] by (force simp: authorized_by_def open_issue_def)
qed

definition issue_create :: "issue_binding \<Rightarrow> task_create" where
  "issue_create b =
     \<lparr>n_repository = REPO, n_issue_number = ib_number b, n_request_id = ib_request_id b,
      n_correlation_id = ib_correlation_id b, n_priority = 10, n_base_sha = Some (ib_base_sha b), n_max_attempts = Some 1,
      n_target_branch = Some (ib_branch b), n_fencing_required = True\<rparr>"

lemma issue_task_payload: "issue_task (issue_payload b) = Inr n \<Longrightarrow> n = issue_create b"
  using issue_task_Inr [of "issue_payload b" n] by (auto simp: issue_payload_def issue_create_def)

lemma lane_ready_lane:
  assumes "lane_ready (map json_lane ls)"
  shows "\<exists>l\<in>set ls. r_repository (lv_lane l) = REPO \<and> r_enabled (lv_lane l) \<and> r_max_in_flight (lv_lane l) = 1"
proof -
  obtain d where f: "filter (\<lambda>l. get l ''repository'' = PStr REPO) (map json_lane ls) = [d]"
    and d: "get d ''enabled'' = PBool True" "get d ''max_in_flight'' = PInt 1"
    using assms by (auto simp: lane_ready_def split: list.splits)
  have "d \<in> set (filter (\<lambda>l. get l ''repository'' = PStr REPO) (map json_lane ls))" unfolding f by simp
  then have "d \<in> set (map json_lane ls)" "get d ''repository'' = PStr REPO" by auto
  then show ?thesis using d by (auto simp: json_lane_def Let_def)
qed

text \<open>C32: An admitted issue is in the pool. When the submission of an issue through the native client reports success, the
  environment is the development one, the owner's comment that GitHub returned authorizes exactly this
  issue at exactly this commit, the lane of the repository was open with one slot, and the service's database changed by
  the enqueueing of this one fenced task (after the recovery that every reading of the lanes runs): it shows the
  task with one attempt, on the branch and the commit of the authorization.\<close>

theorem admitted_issue_in_pool:
  assumes "connected env now draw api" and "elsewhere github"
    and "admit_to_existing_pool j github (client_pool api) k cid environment clock (g, a) = (Inr r, (g', a'))"
  shows "environment = ''dev'' \<and> authorized_by github cid (ad_binding r) \<and>
    (\<exists>v p t. snapshot (ae_cfg env) now (pool a) = (Inr v, p) \<and>
       (\<exists>l\<in>set (sv_repositories v). r_repository (lv_lane l) = REPO \<and> r_enabled (lv_lane l) \<and> r_max_in_flight (lv_lane l) = 1) \<and>
       a' = a\<lparr>pool := snd (enqueue_task (ae_cfg env) now (issue_create (ad_binding r)) p)\<rparr> \<and>
       find_task (ad_task_id r) (pool a') = Some t \<and> t_repository t = REPO \<and> t_issue_number t = ib_number (ad_binding r) \<and>
       t_request_id t = ib_request_id (ad_binding r) \<and> t_base_sha t = Some (ib_base_sha (ad_binding r)) \<and>
       t_branch t = ib_branch (ad_binding r) \<and> t_fencing_required t \<and> t_max_attempts t = 1)"
proof -
  note sound = list_repositories_sound [OF assms(1)] enqueue_fenced_issue_sound [OF assms(1)]
  obtain b w1 s w2 w3 ls w4 q where
    run: "read_binding github k cid clock (g, a) = (Inr b, w1)" "gp_get_source github (ib_base_sha b) w1 = (Inr s, w2)"
      "list_repositories api (snd w2) = (Inr ls, snd w3)" "read_binding github k cid clock w3 = (Inr b, w4)"
      "enqueue_fenced_issue api (issue_payload b) (snd w4) = (Inr q, a')"
    and ok: "environment = ''dev''" "lane_ready ls" "ad_binding r = b" "ad_task_id r = eq_task_id q"
    using assms(3) by (auto simp: admit_to_existing_pool_def act_simps client_pool_def)
  have w: "snd w1 = a" "snd w2 = a" "snd w4 = snd w3"
    using keeps_run [OF elsewhere_reads(2) [OF assms(2)] run(1)] keeps_run [OF elsewhere_reads(1) [OF assms(2)] run(2)]
      keeps_run [OF elsewhere_reads(2) [OF assms(2)] run(4)] by auto
  obtain v p where v: "snapshot (ae_cfg env) now (pool a) = (Inr v, p)" "snd w3 = a\<lparr>pool := p\<rparr>"
      "ls = map json_lane (sv_repositories v)"
    using sound(1) [OF run(3)] w(2) by auto
  obtain n t where n: "issue_task (issue_payload b) = Inr n" "a' = snd w3\<lparr>pool := snd (enqueue_task (ae_cfg env) now n (pool (snd w3)))\<rparr>"
      "find_task (eq_task_id q) (pool a') = Some t" "issue_row n t"
    using sound(2) [OF run(5)] w(3) by auto
  then show ?thesis
    using ok v lane_ready_lane [of "sv_repositories v"] read_binding_authorized [OF run(1)] issue_task_payload [OF n(1)]
    by (auto simp: issue_row_def issue_create_def)
qed

section \<open>Which tasks can be published\<close>

text \<open>The life of a completed task has at least two leases, the builder's and the validator's.\<close>

definition two_leases :: "life \<Rightarrow> bool" where
  "two_leases l \<longleftrightarrow>
     (lf_holder l \<noteq> None \<longrightarrow> 1 \<le> lf_gen l) \<and> (lf_produced l \<noteq> None \<longrightarrow> 1 \<le> lf_gen l) \<and>
     (lf_state l = Validating \<and> lf_holder l \<noteq> None \<longrightarrow> 2 \<le> lf_gen l) \<and> (lf_state l = Completed \<longrightarrow> 2 \<le> lf_gen l)"

lemma two_leases_step: "life_step l l' \<Longrightarrow> life_inv l \<Longrightarrow> two_leases l \<Longrightarrow> two_leases l'"
  by (induction rule: life_step.induct)
    (auto simp: two_leases_def life_inv_def lease_inv_def duty_inv_def attempt_inv_def active_state_def back_to_queue_def)

interpretation leases: life_property two_leases
  by unfold_locales (simp add: life_init_def two_leases_def, rule two_leases_step)

lemma completed_life:
  assumes "reachable cfg db" and "find_task tid db = Some t" and "t_state t = Completed"
  shows "2 \<le> t_lease_generation t" "t_attempt_count t = t_lease_generation t" "t_leased_by t = None"
    "\<exists>sha b v. t_produced_sha t = Some sha \<and> SHA40 sha \<and> t_builder_worker_id t = Some b \<and> t_validator_worker_id t = Some v \<and> b \<noteq> v"
proof -
  note m = tasks_tbl.get_mem [OF assms(2)]
  have i: "life_inv (life_of db t)" "two_leases (life_of db t)"
    using reachable_life [OF assms(1) m] leases.always [OF assms(1) m] by simp_all
  show "2 \<le> t_lease_generation t" "t_attempt_count t = t_lease_generation t"
    using i assms(3) by (auto simp: two_leases_def life_inv_def attempt_inv_def)
  show "t_leased_by t = None" using i(1) assms(3) by (auto simp: life_inv_def lease_inv_def active_state_def)
  show "\<exists>sha b v. t_produced_sha t = Some sha \<and> SHA40 sha \<and> t_builder_worker_id t = Some b \<and> t_validator_worker_id t = Some v \<and> b \<noteq> v"
    using i(1) assms(3) by (auto simp: life_inv_def duty_inv_def)
qed

definition issue_task_row :: "issue_binding \<Rightarrow> task_row \<Rightarrow> bool" where
  "issue_task_row b t \<longleftrightarrow>
     t_repository t = REPO \<and> t_issue_number t = ib_number b \<and> t_request_id t = ib_request_id b \<and>
     t_base_sha t = Some (ib_base_sha b) \<and> t_branch t = ib_branch b \<and> t_fencing_required t"

lemma completed_ok_json:
  "completed_ok b tid (json_task (public_task t)) \<longleftrightarrow>
    t_task_id t = tid \<and> issue_task_row b t \<and> t_state t = Completed \<and> t_leased_by t = None \<and>
    (\<exists>sha. t_produced_sha t = Some sha \<and> SHA40 sha \<and> sha \<noteq> ib_base_sha b) \<and>
    (\<exists>x y. t_builder_worker_id t = Some x \<and> t_validator_worker_id t = Some y \<and> x \<noteq> y) \<and>
    2 \<le> t_attempt_count t \<and> 2 \<le> t_lease_generation t"
proof -
  have "state_name s = ''completed'' \<longleftrightarrow> s = Completed" for s by (cases s) (simp_all add: state_name_def)
  moreover have "new_head b (opt_str v) \<longleftrightarrow> (\<exists>sha. v = Some sha \<and> SHA40 sha \<and> sha \<noteq> ib_base_sha b)" for v
    by (cases v) (simp_all add: new_head_def str_all_def opt_str_def)
  moreover have "(case (opt_str v, opt_str w) of (PStr x, PStr y) \<Rightarrow> x \<noteq> y | _ \<Rightarrow> False) \<longleftrightarrow>
      (\<exists>x y. v = Some x \<and> w = Some y \<and> x \<noteq> y)" for v w
    by (cases v; cases w) (simp_all add: opt_str_def)
  ultimately show ?thesis
    by (simp add: completed_ok_def issue_task_row_def json_task_def public_task_def int_at_least_def int_all_def del: prod.case)
qed

text \<open>C33: Exactly the completed tasks are publishable. On a line that loses nothing and in a reachable database, the
  coordinator's reading of an issue's task succeeds exactly when the task is completed with a commit other than its
  base: its other conditions (two leases, distinct builder and validator, a full commit hash, no lease left) are
  guaranteed by the pool. Reading changes nothing.\<close>

theorem publishable_iff_completed:
  assumes "online env now draw api" and "app_reachable (ae_cfg env) a" and "TASK_ID tid"
    and "find_task tid (pool a) = Some t" and "issue_task_row b t"
  shows "completed (client_pool api) b tid (g, a) =
    (if t_state t = Completed \<and> t_produced_sha t \<noteq> Some (ib_base_sha b) then Inr (json_task (public_task t))
     else Inl ''issue_completed_pool_unproved'', (g, a))"
proof -
  have id: "t_task_id t = tid" using tasks_tbl.get_key [OF assms(4)] .
  have "completed_ok b tid (json_task (public_task t)) \<longleftrightarrow> t_state t = Completed \<and> t_produced_sha t \<noteq> Some (ib_base_sha b)"
    using assms(5) completed_life [OF app_reachable_pool [OF assms(2)] assms(4)] id
    by (auto simp: completed_ok_json)
  then show ?thesis using client_get_task_online [OF assms(1,3,4)] assms(3)
    by (simp add: completed_def andthen_def check_def client_pool_def at_service_def ret_def raise_def)
qed

section \<open>What a publication writes\<close>

datatype github_write =
    CreateBranch string string
  | ReplaceSource string string string
  | CreatePr string string string

text \<open>An action adds some of the entries \<open>xs\<close> to the log, in this order.\<close>

definition adds :: "('w \<Rightarrow> github_write list) \<Rightarrow> github_write list \<Rightarrow> ('a, 'w) act \<Rightarrow> bool" where
  "adds writes xs m \<longleftrightarrow> (\<forall>w. \<exists>new. writes (snd (m w)) = writes w @ new \<and> subseq new xs)"

definition logged :: "('w \<Rightarrow> github_write list) \<Rightarrow> 'w github_port \<Rightarrow> bool" where
  "logged writes port \<longleftrightarrow>
     (\<forall>b. adds writes [] (gp_get_branch port b)) \<and> (\<forall>r. adds writes [] (gp_get_source port r)) \<and>
     (\<forall>b h. adds writes [] (gp_changed_paths port b h)) \<and> (\<forall>b. adds writes [] (gp_find_pr port b)) \<and>
     (\<forall>k. adds writes [] (gp_get_issue port k)) \<and> (\<forall>c. adds writes [] (gp_get_comment port c)) \<and>
     (\<forall>b s. adds writes [CreateBranch b s] (gp_create_branch port b s)) \<and>
     (\<forall>b s k. adds writes [ReplaceSource b s k] (gp_replace_source port b s k)) \<and>
     (\<forall>b t d. adds writes [CreatePr b t d] (gp_create_pr port b t d))"

lemma adds_pure [simp, intro]:
  "adds writes xs (ret a)" "adds writes xs (raise e)" "adds writes xs (check c e)" "adds writes xs (lift r)"
  by (simp_all add: adds_def ret_def raise_def check_def lift_def)

lemma adds_andthen:
  assumes "adds writes xs m" and "\<And>a. adds writes ys (f a)"
  shows "adds writes (xs @ ys) (andthen m f)"
  unfolding adds_def
proof
  fix w
  obtain r w1 where m: "m w = (r, w1)" by force
  obtain n1 where n1: "writes w1 = writes w @ n1" "subseq n1 xs" using assms(1) m by (metis adds_def snd_conv)
  show "\<exists>new. writes (snd (andthen m f w)) = writes w @ new \<and> subseq new (xs @ ys)"
  proof (cases r)
    case (Inl e)
    then have "andthen m f w = (Inl e, w1)" using m by (simp add: andthen_def)
    moreover have "subseq n1 (xs @ ys)" using n1(2) by (rule subseq_order.trans) (rule subseq_rev_drop_many [OF subseq_order.refl])
    ultimately show ?thesis using n1(1) by auto
  next
    case (Inr a)
    obtain n2 where "writes (snd (f a w1)) = writes w1 @ n2" "subseq n2 ys" using assms(2) [of a] by (auto simp: adds_def)
    then show ?thesis using n1 m Inr by (auto simp: andthen_def intro!: list_emb_append_mono)
  qed
qed

lemma adds_read: "adds writes [] m \<Longrightarrow> (\<And>a. adds writes ys (f a)) \<Longrightarrow> adds writes ys (andthen m f)"
  using adds_andthen [of writes "[]" m ys f] by simp

lemma adds_last: "adds writes xs m \<Longrightarrow> (\<And>a. adds writes [] (f a)) \<Longrightarrow> adds writes xs (andthen m f)"
  using adds_andthen [of writes xs m "[]" f] by simp

lemma draft_guards_adds:
  assumes "logged writes port" and "\<forall>s p. adds writes [] (checker s p)"
  shows "adds writes [] (draft_guards j checker port observed_at now b before after audit)"
  using assms unfolding draft_guards_def verify_patch_def logged_def case_prod_unfold
  by (intro adds_read adds_pure) simp_all

lemma branch_adds:
  assumes "logged writes port"
  shows "adds writes [CreateBranch (ib_branch b) (ib_base_sha b)] (ensure_branch port b)"
    "adds writes [ReplaceSource (ib_branch b) after blob] (ensure_source port b before after blob existing)"
    "adds writes [] (verify_branch port b after)"
proof -
  note l = assms [unfolded logged_def]
  show "adds writes [CreateBranch (ib_branch b) (ib_base_sha b)] (ensure_branch port b)"
    unfolding ensure_branch_def using l by (intro adds_read) (simp_all add: adds_last)
  show "adds writes [ReplaceSource (ib_branch b) after blob] (ensure_source port b before after blob existing)"
    unfolding ensure_source_def case_prod_unfold using l by (auto intro!: adds_read)
  show "adds writes [] (verify_branch port b after)"
    unfolding verify_branch_def case_prod_unfold using l by (intro adds_read adds_pure) simp_all
qed

lemma ensure_pr_adds:
  assumes "logged writes port"
  shows "adds writes [CreatePr (ib_branch b) (draft_title b) (draft_body b audit)] (ensure_pr port b audit head)"
proof -
  note l = assms [unfolded logged_def]
  have "adds writes [CreatePr (ib_branch b) (draft_title b) body] (open_pr port b body)" for body
    unfolding open_pr_def using l by (intro adds_read) (simp_all add: adds_last)
  then show ?thesis unfolding ensure_pr_def case_prod_unfold
    by (intro adds_last) simp_all
qed

lemma verify_patch_Inr:
  assumes "verify_patch j checker b before after audit w = (Inr checked, w')"
  shows "\<exists>baseline observed. bounded_acceptance j b before after audit = Inr baseline \<and>
    regression_proved after (get audit ''produced_sha'') observed \<and> checked = audit_of b audit after baseline observed"
  using assms by (auto simp: verify_patch_def act_simps)

lemma draft_guards_Inr:
  assumes "draft_guards j checker port observed_at now b before after audit w = (Inr blob, w')"
  shows "(\<exists>issue comment main. admit issue comment main (ib_base_sha b) observed_at now = Inr b) \<and>
    (\<exists>baseline. bounded_acceptance j b before after audit = Inr baseline)"
  using assms verify_patch_Inr by (fastforce simp: draft_guards_def act_simps)

text \<open>C35: A publication writes only what it announces. Whatever GitHub answers and wherever the run stops, a publication
  sends at most three writes, each at most once and in this order: create the issue's branch at the authorized base,
  replace the one source file on that branch, open the draft from that branch. None of them is sent unless the issue
  was admitted again for this binding and the judge accepted the patch.\<close>

theorem publish_writes_confined:
  assumes "logged writes port" and "\<forall>s p. adds writes [] (checker s p)"
    and "publish_draft j checker port observed_at now b before after audit w = (res, w')"
  shows "\<exists>new blob. writes w' = writes w @ new \<and>
    subseq new [CreateBranch (ib_branch b) (ib_base_sha b), ReplaceSource (ib_branch b) after blob,
      CreatePr (ib_branch b) (draft_title b) (draft_body b audit)] \<and>
    (new = [] \<or> (\<exists>issue comment main baseline. admit issue comment main (ib_base_sha b) observed_at now = Inr b \<and>
       bounded_acceptance j b before after audit = Inr baseline))"
proof -
  obtain r w1 where g: "draft_guards j checker port observed_at now b before after audit w = (r, w1)" by force
  have w1: "writes w1 = writes w"
    using draft_guards_adds [OF assms(1,2), of j observed_at now b before after audit, unfolded adds_def, rule_format, of w] g
    by (auto dest: list_emb_Nil2)
  show ?thesis
  proof (cases r)
    case (Inl e)
    then show ?thesis using g assms(3) w1 by (auto simp: publish_draft_def andthen_def)
  next
    case (Inr blob)
    define rest where "rest = andthen (ensure_branch port b) (\<lambda>existing.
      andthen (ensure_source port b before after blob existing) (\<lambda>_.
      andthen (verify_branch port b after) (\<lambda>head. ensure_pr port b audit head)))"
    have "adds writes ([CreateBranch (ib_branch b) (ib_base_sha b)] @ [ReplaceSource (ib_branch b) after blob] @
        [] @ [CreatePr (ib_branch b) (draft_title b) (draft_body b audit)]) rest"
      unfolding rest_def by (intro adds_andthen branch_adds ensure_pr_adds assms(1))
    then obtain new where new: "writes (snd (rest w1)) = writes w1 @ new"
      "subseq new [CreateBranch (ib_branch b) (ib_base_sha b), ReplaceSource (ib_branch b) after blob,
        CreatePr (ib_branch b) (draft_title b) (draft_body b audit)]"
      unfolding adds_def by auto
    have "rest w1 = (res, w')"
      using assms(3) g Inr by (simp add: publish_draft_def andthen_def rest_def)
    with new have "writes w' = writes w @ new" using w1 by simp
    then show ?thesis using new(2) draft_guards_Inr [OF g [unfolded Inr]] by blast
  qed
qed

section \<open>Publishing twice\<close>

text \<open>Two states of GitHub that answer the admission of \<open>b\<close> alike, and two that show its branch alike.\<close>

definition same_base :: "'w github_port \<Rightarrow> issue_binding \<Rightarrow> 'w \<Rightarrow> 'w \<Rightarrow> bool" where
  "same_base port b w w' \<longleftrightarrow>
     fst (gp_get_branch port ''main'' w') = fst (gp_get_branch port ''main'' w) \<and>
     fst (gp_get_issue port (ib_number b) w') = fst (gp_get_issue port (ib_number b) w) \<and>
     fst (gp_get_comment port (ib_comment_id b) w') = fst (gp_get_comment port (ib_comment_id b) w) \<and>
     fst (gp_get_source port (ib_base_sha b) w') = fst (gp_get_source port (ib_base_sha b) w)"

definition same_branch :: "'w github_port \<Rightarrow> issue_binding \<Rightarrow> 'w \<Rightarrow> 'w \<Rightarrow> bool" where
  "same_branch port b w w' \<longleftrightarrow>
     fst (gp_get_branch port (ib_branch b) w') = fst (gp_get_branch port (ib_branch b) w) \<and>
     fst (gp_get_source port (ib_branch b) w') = fst (gp_get_source port (ib_branch b) w) \<and>
     (\<forall>h. fst (gp_changed_paths port (ib_base_sha b) h w') = fst (gp_changed_paths port (ib_base_sha b) h w))"

text \<open>GitHub without other writers: reading changes nothing, writing the issue's branch leaves the base, the issue and the
  comment as they are, and opening a draft leaves the branches as they are.\<close>

definition quiet_github :: "'w github_port \<Rightarrow> issue_binding \<Rightarrow> bool" where
  "quiet_github port b \<longleftrightarrow>
     (\<forall>x w. snd (gp_get_branch port x w) = w \<and> snd (gp_get_source port x w) = w \<and> snd (gp_find_pr port x w) = w) \<and>
     (\<forall>x h w. snd (gp_changed_paths port x h w) = w) \<and>
     (\<forall>k w. snd (gp_get_issue port k w) = w \<and> snd (gp_get_comment port k w) = w) \<and>
     (\<forall>s. keeps (same_base port b) (gp_create_branch port (ib_branch b) s)) \<and>
     (\<forall>s k. keeps (same_base port b) (gp_replace_source port (ib_branch b) s k)) \<and>
     (\<forall>t d. keeps (same_base port b) (gp_create_pr port (ib_branch b) t d) \<and>
            keeps (same_branch port b) (gp_create_pr port (ib_branch b) t d))"

interpretation base_view: world_relation "same_base port b" for port :: "'w github_port" and b
  by unfold_locales (auto simp: same_base_def)

lemma quiet_reads:
  assumes "quiet_github port b"
  shows "gp_get_branch port x w = (r, w') \<Longrightarrow> w' = w" "gp_get_source port x w = (s, w') \<Longrightarrow> w' = w"
    "gp_find_pr port x w = (r, w') \<Longrightarrow> w' = w" "gp_changed_paths port x h w = (ps, w') \<Longrightarrow> w' = w"
    "gp_get_issue port k w = (r, w') \<Longrightarrow> w' = w" "gp_get_comment port k w = (r, w') \<Longrightarrow> w' = w"
  using assms unfolding quiet_github_def by (metis snd_conv)+

lemma quiet_answer:
  assumes "quiet_github port b"
  shows "gp_get_branch port x w = (fst (gp_get_branch port x w), w)" "gp_get_source port x w = (fst (gp_get_source port x w), w)"
    "gp_find_pr port x w = (fst (gp_find_pr port x w), w)"
    "gp_changed_paths port x h w = (fst (gp_changed_paths port x h w), w)"
    "gp_get_issue port k w = (fst (gp_get_issue port k w), w)" "gp_get_comment port k w = (fst (gp_get_comment port k w), w)"
  using quiet_reads [OF assms] by (metis prod.collapse)+

text \<open>The guards and the read-back of the branch depend on these answers only.\<close>

lemma draft_guards_again:
  assumes "quiet_github port b" and "same_base port b w w'"
    and "draft_guards j (\<lambda>s p. lift (regression s p)) port observed_at now b before after audit w = (Inr blob, w1)"
  shows "w1 = w"
    "draft_guards j (\<lambda>s p. lift (regression s p)) port observed_at now b before after audit w' = (Inr blob, w')"
proof -
  note q = quiet_answer [OF assms(1)]
  let ?main = "fst (gp_get_branch port ''main'' w)" and ?issue = "fst (gp_get_issue port (ib_number b) w)"
    and ?comment = "fst (gp_get_comment port (ib_comment_id b) w)" and ?source = "fst (gp_get_source port (ib_base_sha b) w)"
  obtain main issue comment src k where
    a: "?main = Inr main" "?issue = Inr issue" "?comment = Inr comment" "?source = Inr (src, k)" and w1: "w1 = w"
    using assms(3) quiet_reads [OF assms(1)]
    by (auto simp: draft_guards_def verify_patch_def act_simps) (metis fst_conv)
  show "w1 = w" by (rule w1)
  have run: "gp_get_branch port ''main'' x = (Inr main, x)" "gp_get_issue port (ib_number b) x = (Inr issue, x)"
    "gp_get_comment port (ib_comment_id b) x = (Inr comment, x)" "gp_get_source port (ib_base_sha b) x = (Inr (src, k), x)"
    if "same_base port b w x" for x
    using that a q(1) [of "''main''" x] q(5) [of "ib_number b" x] q(6) [of "ib_comment_id b" x] q(2) [of "ib_base_sha b" x]
    by (simp_all add: same_base_def)
  show "draft_guards j (\<lambda>s p. lift (regression s p)) port observed_at now b before after audit w' = (Inr blob, w')"
    using assms(3) run [OF assms(2)] run [OF base_view.refl]
    by (auto simp: draft_guards_def verify_patch_def act_simps)
qed

lemma base_kept:
  assumes "quiet_github port b"
  shows "keeps (same_base port b) (ensure_branch port b)" "keeps (same_base port b) (ensure_source port b before after blob x)"
    "keeps (same_base port b) (verify_branch port b after)" "keeps (same_base port b) (ensure_pr port b audit head)"
proof -
  have reads: "keeps (same_base port b) (gp_get_branch port x)" "keeps (same_base port b) (gp_get_source port x)"
    "keeps (same_base port b) (gp_find_pr port x)" "keeps (same_base port b) (gp_changed_paths port x h)" for x h
    using assms by (simp_all add: quiet_github_def keeps_def base_view.refl)
  note rules = base_view.keeps_andthen reads base_view.keeps_pure
  show "keeps (same_base port b) (ensure_branch port b)" "keeps (same_base port b) (ensure_source port b before after blob x)"
    "keeps (same_base port b) (verify_branch port b after)" "keeps (same_base port b) (ensure_pr port b audit head)"
    unfolding ensure_branch_def ensure_source_def verify_branch_def ensure_pr_def open_pr_def case_prod_unfold
    using assms by (auto simp: quiet_github_def intro!: rules)
qed

lemma verify_branch_run:
  assumes "quiet_github port b" and "verify_branch port b after w = (Inr head, w')"
  obtains v h k where "w' = w" "gp_get_branch port (ib_branch b) w = (Inr v, w)" "head_of_branch v = Some h" "new_head b h"
    "head = py_str h" "gp_get_source port (ib_branch b) w = (Inr (after, k), w)"
    "gp_changed_paths port (ib_base_sha b) head w = (Inr [PATH], w)"
proof -
  obtain v w1 s k w2 h w3 where r: "gp_get_branch port (ib_branch b) w = (Inr v, w1)"
      "gp_get_source port (ib_branch b) w1 = (Inr (s, k), w2)" "gp_changed_paths port (ib_base_sha b) head w2 = (Inr [PATH], w3)"
    and v: "head_of_branch v = Some h" "new_head b h" "head = py_str h" "s = after" "w' = w3"
    using assms(2) by (auto simp: verify_branch_def act_simps split: option.splits if_splits)
  then show ?thesis using that quiet_reads [OF assms(1)] by metis
qed

lemma ensure_pr_run:
  assumes "quiet_github port b" and "ensure_pr port b audit head w = (Inr r, w')"
  obtains pr where "same_branch port b w w'" "gp_find_pr port (ib_branch b) w' = (Inr pr, w')" "pr_ok head (draft_body b audit) pr"
    "r\<lparr>dr_replayed := True\<rparr> = \<lparr>dr_issue = ib_number b, dr_pr_number = (case pr of PDict d \<Rightarrow> get d ''number'' | _ \<Rightarrow> PNone),
       dr_head_sha = head, dr_replayed = True, dr_request_id = ib_request_id b\<rparr>"
proof -
  obtain pr x where o: "open_pr port b (draft_body b audit) w = (Inr (pr, x), w')" and ok: "pr_ok head (draft_body b audit) pr"
    and r: "r = \<lparr>dr_issue = ib_number b, dr_pr_number = (case pr of PDict d \<Rightarrow> get d ''number'' | _ \<Rightarrow> PNone), dr_head_sha = head,
       dr_replayed = x, dr_request_id = ib_request_id b\<rparr>"
    using assms(2) by (auto simp: ensure_pr_def act_simps)
  obtain y w1 where y: "gp_find_pr port (ib_branch b) w = (Inr y, w1)" using o by (auto simp: open_pr_def act_simps)
  have w1: "w1 = w" using quiet_reads(3) [OF assms(1) y] .
  have "same_branch port b w w' \<and> gp_find_pr port (ib_branch b) w' = (Inr pr, w')"
  proof (cases "y = PNone")
    case True
    then obtain u w2 where "gp_create_pr port (ib_branch b) (draft_title b) (draft_body b audit) w = (Inr u, w2)"
        "gp_find_pr port (ib_branch b) w2 = (Inr pr, w')"
      using o y w1 by (auto simp: open_pr_def act_simps)
    moreover have "w' = w2" using calculation quiet_reads(3) [OF assms(1)] by blast
    moreover have "keeps (same_branch port b) (gp_create_pr port (ib_branch b) (draft_title b) (draft_body b audit))"
      using assms(1) by (simp add: quiet_github_def)
    ultimately show ?thesis using keeps_run by metis
  next
    case False
    then have "pr = y" "w' = w" using o y w1 by (auto simp: open_pr_def act_simps)
    then show ?thesis using y w1 by (simp add: same_branch_def)
  qed
  then show ?thesis using that ok r by simp
qed

text \<open>Publication is idempotent. When a publication succeeded and nobody else writes to GitHub, repeating it with the
  same arguments succeeds, changes nothing on GitHub and returns the same draft, marked as replayed.\<close>

theorem publish_twice:
  assumes "quiet_github port b"
    and "publish_draft j (\<lambda>s p. lift (regression s p)) port observed_at now b before after audit w = (Inr r, w')"
  shows "publish_draft j (\<lambda>s p. lift (regression s p)) port observed_at now b before after audit w' =
    (Inr (r\<lparr>dr_replayed := True\<rparr>), w')"
proof -
  obtain blob w0 x w1 w2 head w3 where
    run: "draft_guards j (\<lambda>s p. lift (regression s p)) port observed_at now b before after audit w = (Inr blob, w0)"
      "ensure_branch port b w0 = (Inr x, w1)" "ensure_source port b before after blob x w1 = (Inr (), w2)"
      "verify_branch port b after w2 = (Inr head, w3)" "ensure_pr port b audit head w3 = (Inr r, w')"
    using assms(2) by (auto simp: publish_draft_def act_simps)
  have w0: "w0 = w" using draft_guards_again(1) [OF assms(1) base_view.refl run(1)] .
  obtain v h k where v: "w3 = w2" "gp_get_branch port (ib_branch b) w2 = (Inr v, w2)" "head_of_branch v = Some h" "new_head b h"
    "head = py_str h" "gp_get_source port (ib_branch b) w2 = (Inr (after, k), w2)"
    "gp_changed_paths port (ib_base_sha b) head w2 = (Inr [PATH], w2)"
    using verify_branch_run [OF assms(1) run(4)] .
  obtain pr where pr: "same_branch port b w2 w'" "gp_find_pr port (ib_branch b) w' = (Inr pr, w')" "pr_ok head (draft_body b audit) pr"
    "r\<lparr>dr_replayed := True\<rparr> = \<lparr>dr_issue = ib_number b, dr_pr_number = (case pr of PDict d \<Rightarrow> get d ''number'' | _ \<Rightarrow> PNone),
       dr_head_sha = head, dr_replayed = True, dr_request_id = ib_request_id b\<rparr>"
    using ensure_pr_run [OF assms(1) run(5)] v(1) by metis
  have "same_base port b w w'"
    using base_kept [OF assms(1)] run(2-5) unfolding w0 by (blast intro: base_view.trans dest: keeps_run)
  then have g: "draft_guards j (\<lambda>s p. lift (regression s p)) port observed_at now b before after audit w' = (Inr blob, w')"
    using draft_guards_again(2) [OF assms(1) _ run(1)] by blast
  have at: "gp_get_branch port (ib_branch b) w' = (Inr v, w')" "gp_get_source port (ib_branch b) w' = (Inr (after, k), w')"
    "gp_changed_paths port (ib_base_sha b) head w' = (Inr [PATH], w')"
    using pr(1) v quiet_answer(1,2,4) [OF assms(1)] unfolding same_branch_def by (metis fst_conv)+
  have "v \<noteq> PNone" "pr \<noteq> PNone" "h \<noteq> PStr (ib_base_sha b)"
    using v(3,4) pr(3) by (auto simp: head_of_branch_def pr_ok_def new_head_def str_all_def)
  then show ?thesis using g at v(3-5) pr(2-4)
    by (simp add: publish_draft_def andthen_def ensure_branch_def ensure_source_def verify_branch_def ensure_pr_def open_pr_def
        lift_def check_def ret_def)
qed

section \<open>A publication and its task\<close>

text \<open>None of the ports but the pool's reaches the pool's database.\<close>

definition ports_elsewhere :: "('g \<times> app_db) publish_ports \<Rightarrow> bool" where
  "ports_elsewhere ports \<longleftrightarrow> elsewhere (pp_github ports) \<and>
     (\<forall>c t p. keeps same_service (pp_materialize ports c t p)) \<and> (\<forall>s t p. keeps same_service (pp_git_verify ports s t p)) \<and>
     (\<forall>s p. keeps same_service (pp_regression ports s p))"

lemma publish_draft_beside:
  assumes "elsewhere port" and "\<forall>s p. keeps same_service (checker s p)"
  shows "keeps same_service (publish_draft j checker port observed_at now b before after audit)"
proof -
  note ports = assms(1) [unfolded elsewhere_def] assms(2)
  note rules = beside.keeps_andthen beside.keeps_pure
  have "keeps same_service (draft_guards j checker port observed_at now b before after audit)"
    unfolding draft_guards_def verify_patch_def case_prod_unfold using ports by (intro rules) simp_all
  moreover have "keeps same_service (ensure_branch port b)" "keeps same_service (ensure_source port b before after blob x)"
    "keeps same_service (verify_branch port b after)" "keeps same_service (ensure_pr port b audit head)" for blob x head
    unfolding ensure_branch_def ensure_source_def verify_branch_def ensure_pr_def open_pr_def case_prod_unfold
    using ports by (auto intro!: rules)
  ultimately show ?thesis unfolding publish_draft_def by (intro rules)
qed

lemma completed_sound:
  assumes "connected env now draw api" and "completed (client_pool api) b tid w = (Inr d, w')"
  shows "w' = w \<and> (\<exists>t. find_task tid (pool (snd w)) = Some t \<and> d = json_task (public_task t) \<and> completed_ok b tid d)"
  using assms(2) client_get_task_sound [OF assms(1)]
  by (cases w; cases w') (auto simp: completed_def client_pool_def act_simps)

lemma publish_draft_readback:
  assumes "publish_draft j checker port ob now b before after audit w = (Inr dr, w')"
  shows "dr_issue dr = ib_number b" "\<exists>blob w1 w2. gp_get_source port (ib_branch b) w1 = (Inr (after, blob), w2)"
  using assms
  by (auto simp: publish_draft_def ensure_pr_def verify_branch_def act_simps case_prod_unfold split: option.splits if_splits) force

text \<open>C34: A publication rests on the pool. When the coordinator reports a publication, the service's database is unchanged
  and shows the issue's task as completed, built and validated by two different workers, on the branch and the
  base of the binding; the task's latest checkpoint is the validator's result of the lease that completed it. The artifact that the artifact store
  gave for that checkpoint has the digest recorded there, which is the one reported; the source that came with it is for the task's commit and base,
  the git verifier confirmed it for that commit, it is what was handed to the publication of the draft, and it is what
  GitHub returned for the issue's branch.\<close>

theorem publication_of_completed_task:
  assumes "connected env now draw api" and "ports_elsewhere ports" and "pp_pool ports = client_pool api"
    and "publish_completed_fenced_issue j ports b tid audit clock (g, a) = (Inr r, (g', a'))"
  shows "a' = a \<and> (\<exists>t sha builder validator c x cas. find_task tid (pool a) = Some t \<and> t_state t = Completed \<and>
    t_repository t = REPO \<and> t_issue_number t = ib_number b \<and> t_branch t = ib_branch b \<and> t_base_sha t = Some (ib_base_sha b) \<and>
    t_produced_sha t = Some sha \<and> sha \<noteq> ib_base_sha b \<and>
    t_builder_worker_id t = Some builder \<and> t_validator_worker_id t = Some validator \<and> builder \<noteq> validator \<and>
    get_latest_checkpoint tid (pool a) = Inr (Some (c, x)) \<and> c_stage c = ''validator_result'' \<and>
    c_lease_generation c = t_lease_generation t \<and>
    (\<exists>w w'. pp_materialize ports (PDict (json_joined (c, x))) tid (PStr sha) w = (Inr cas, w')) \<and>
    c_artifact_sha256 c = Some (sha256_hex (cas_artifact_bytes cas)) \<and> pb_artifact_sha256 r = PStr (sha256_hex (cas_artifact_bytes cas)) \<and>
    cas_produced_sha cas = PStr sha \<and> cas_base_sha cas = PStr (ib_base_sha b) \<and>
    (\<exists>e w w'. pp_git_verify ports (cas_source_bytes cas) (ib_base_sha b) (PStr sha) w = (Inr e, w') \<and>
       ge_produced_sha e = PStr sha \<and> ge_source_sha256 e = PStr (sha256_hex (cas_source_bytes cas)) \<and> ge_commit_verified e) \<and>
    (\<exists>before w w'. publish_draft j (pp_regression ports) (pp_github ports) (At clock) clock b before (cas_source_bytes cas) audit w =
       (Inr (pb_draft r), w')) \<and>
    (\<exists>blob w w'. gp_get_source (pp_github ports) (ib_branch b) w = (Inr (cas_source_bytes cas, blob), w')) \<and>
    dr_issue (pb_draft r) = ib_number b)"
proof -
  obtain d w1 v w2 cas w3 e w4 s w5 dr w6 d' w7 where
    run: "completed (client_pool api) b tid (g, a) = (Inr d, w1)" "client_latest_checkpoint api tid (snd w1) = (Inr v, snd w2)"
      "pp_materialize ports v tid (get d ''produced_sha'') w2 = (Inr cas, w3)"
      "pp_git_verify ports (cas_source_bytes cas) (ib_base_sha b) (get d ''produced_sha'') w3 = (Inr e, w4)"
      "gp_get_source (pp_github ports) (ib_base_sha b) w4 = (Inr s, w5)"
      "publish_draft j (pp_regression ports) (pp_github ports) (At clock) clock b (fst s) (cas_source_bytes cas) audit w5 = (Inr dr, w6)"
      "completed (client_pool api) b tid w6 = (Inr d', w7)"
    and ok: "validator_checkpoint_ok tid d v" "cas_ok b d v cas" "git_ok b d (cas_source_bytes cas) e" "w7 = (g', a')" "pb_draft r = dr"
      "pb_artifact_sha256 r = (case v of PDict c \<Rightarrow> get c ''artifact_sha256'' | _ \<Rightarrow> PNone)"
    using assms(4)
    by (auto simp: publish_completed_fenced_issue_def act_simps assms(3) case_prod_unfold)
      (simp add: client_pool_def act_simps)
  have beside: "elsewhere (pp_github ports)" "\<forall>c t p. keeps same_service (pp_materialize ports c t p)"
      "\<forall>s t p. keeps same_service (pp_git_verify ports s t p)" "\<forall>s p. keeps same_service (pp_regression ports s p)"
    using assms(2) by (simp_all add: ports_elsewhere_def)
  have draft: "keeps same_service (publish_draft j (pp_regression ports) (pp_github ports) (At clock) clock b (fst s) (cas_source_bytes cas) audit)"
    using publish_draft_beside beside by blast
  obtain t where t: "w1 = (g, a)" "find_task tid (pool a) = Some t" "d = json_task (public_task t)" "completed_ok b tid d"
    using completed_sound [OF assms(1) run(1)] by auto
  obtain x where x: "snd w2 = a" "get_latest_checkpoint tid (pool a) = Inr x" "v = json_option json_joined x"
    using client_latest_checkpoint_sound [OF assms(1) run(2)] t(1) by auto
  then obtain c y where c: "x = Some (c, y)" "v = PDict (json_joined (c, y))"
    using ok(1) by (cases x) (auto simp: json_option_def validator_checkpoint_ok_def)
  have "snd w3 = a" "snd w4 = a" "snd w5 = a" "snd w6 = a"
    using keeps_run [OF spec [OF spec [OF spec [OF beside(2)]]] run(3)] keeps_run [OF spec [OF spec [OF spec [OF beside(3)]]] run(4)]
      keeps_run [OF elsewhere_reads(1) [OF beside(1)] run(5)] keeps_run [OF draft run(6)] x(1)
    by simp_all
  moreover have "w7 = w6" using completed_sound [OF assms(1) run(7)] by simp
  ultimately have a': "a' = a" using ok(4) by auto
  obtain sha builder validator where row: "t_state t = Completed" "t_repository t = REPO" "t_issue_number t = ib_number b"
      "t_branch t = ib_branch b" "t_base_sha t = Some (ib_base_sha b)" "t_produced_sha t = Some sha" "sha \<noteq> ib_base_sha b"
      "t_builder_worker_id t = Some builder" "t_validator_worker_id t = Some validator" "builder \<noteq> validator"
    using t(4) [unfolded t(3) completed_ok_json issue_task_row_def] by auto
  have sha: "get d ''produced_sha'' = PStr sha" using row(6) unfolding t(3) by (simp add: json_task_def public_task_def opt_str_def)
  have check: "c_stage c = ''validator_result''" "c_lease_generation c = t_lease_generation t"
      "c_artifact_sha256 c = Some (sha256_hex (cas_artifact_bytes cas))"
    using ok(1,2) unfolding c(2) t(3)
    by (auto simp: validator_checkpoint_ok_def cas_ok_def get_json_joined json_checkpoint_def json_task_def public_task_def)
  have art: "pb_artifact_sha256 r = PStr (sha256_hex (cas_artifact_bytes cas))"
    using ok(6) c(2) check(3) by (simp add: get_json_joined json_checkpoint_def)
  have cas: "cas_produced_sha cas = PStr sha" "cas_base_sha cas = PStr (ib_base_sha b)" using ok(2) c(2) sha by (simp_all add: cas_ok_def)
  have git: "\<exists>e w w'. pp_git_verify ports (cas_source_bytes cas) (ib_base_sha b) (PStr sha) w = (Inr e, w') \<and>
       ge_produced_sha e = PStr sha \<and> ge_source_sha256 e = PStr (sha256_hex (cas_source_bytes cas)) \<and> ge_commit_verified e"
    using run(4) ok(3) sha unfolding git_ok_def by metis
  have took: "\<exists>w w'. pp_materialize ports (PDict (json_joined (c, y))) tid (PStr sha) w = (Inr cas, w')"
    using run(3) unfolding c(2) sha by blast
  have sent: "\<exists>before w w'. publish_draft j (pp_regression ports) (pp_github ports) (At clock) clock b before (cas_source_bytes cas) audit w =
       (Inr (pb_draft r), w')"
    using run(6) ok(5) by blast
  have latest: "get_latest_checkpoint tid (pool a) = Inr (Some (c, y))" using x(2) c(1) by simp
  note served = publish_draft_readback [OF run(6)]
  show ?thesis
    by (rule conjI [OF a'], rule exI [of _ t], rule exI [of _ sha], rule exI [of _ builder], rule exI [of _ validator], rule exI [of _ c],
        rule exI [of _ y], rule exI [of _ cas], intro conjI)
      (rule t(2) row check art cas git took sent latest served(2) served(1) [folded ok(5)])+
qed

section \<open>A small GitHub\<close>

record hub =
  hub_branch :: "(string \<times> string) option" \<comment> \<open>head and source of the issue's branch\<close>
  hub_pr :: pyval
  hub_log :: "github_write list"

definition demo_hub :: hub where
  "demo_hub = \<lparr>hub_branch = None, hub_pr = PNone, hub_log = []\<rparr>"

definition branch_json :: "string \<Rightarrow> string \<Rightarrow> pyval" where
  "branch_json n sha = PDict [(''name'', PStr n), (''commit'', PDict [(''sha'', PStr sha)])]"

definition demo_issue_json :: pyval where
  "demo_issue_json = PDict [(''number'', PInt 7), (''state'', PStr ''open''),
     (''html_url'', PStr (''https://github.com/'' @ REPO @ ''/issues/7'')),
     (''repository_url'', PStr (''https://api.github.com/repos/'' @ REPO))]"

definition demo_comment_json :: pyval where
  "demo_comment_json = PDict [(''id'', PInt 5), (''user'', PDict [(''login'', PStr OWNER), (''type'', PStr ''User'')]),
     (''author_association'', PStr ''OWNER''), (''issue_url'', PStr (issue_url 7)),
     (''body'', PStr (''/local-agent authorize '' @ PROFILE @ '' sha:'' @ demo_sha))]"

definition demo_port :: "hub github_port" where
  "demo_port =
     \<lparr>gp_get_branch = (\<lambda>x. observe (\<lambda>w. if x = ''main'' then branch_json ''main'' demo_sha
        else case hub_branch w of None \<Rightarrow> PNone | Some (h, _) \<Rightarrow> branch_json x h)),
      gp_get_source = (\<lambda>x. observe (\<lambda>w. if x = demo_sha then (''x'', PStr demo_sha)
        else case hub_branch w of None \<Rightarrow> ([], PNone) | Some (_, s) \<Rightarrow> (s, PStr demo_sha))),
      gp_changed_paths = (\<lambda>_ _. observe (\<lambda>_. [PATH])),
      gp_create_branch = (\<lambda>x sha w. (Inr (), w\<lparr>hub_branch := Some (sha, ''x''), hub_log := hub_log w @ [CreateBranch x sha]\<rparr>)),
      gp_replace_source = (\<lambda>x s k w. (Inr (), w\<lparr>hub_branch := Some (demo_new_sha, s), hub_log := hub_log w @ [ReplaceSource x s k]\<rparr>)),
      gp_find_pr = (\<lambda>_. observe hub_pr),
      gp_create_pr = (\<lambda>x t d w. (Inr (), w\<lparr>hub_pr := PDict [(''number'', PInt 9), (''state'', PStr ''open''), (''draft'', PBool True),
         (''head_sha'', PStr (case hub_branch w of None \<Rightarrow> [] | Some (h, _) \<Rightarrow> h)), (''base_ref'', PStr ''main''), (''body'', PStr d)],
         hub_log := hub_log w @ [CreatePr x t d]\<rparr>)),
      gp_get_issue = (\<lambda>_. observe (\<lambda>_. demo_issue_json)),
      gp_get_comment = (\<lambda>_. observe (\<lambda>_. demo_comment_json))\<rparr>"

text \<open>A judge for which the source \<^verbatim>\<open>y\<close> passes and every other fails one case.\<close>

definition demo_judge :: judge where
  "demo_judge = \<lparr>jd_rebuild = (\<lambda>_ _ after. Inr after),
     jd_validate = (\<lambda>_ s. Inr (if s = ''y'' then accepted_report else accepted_report\<lparr>rp_passed := 41, rp_failures := [''f'']\<rparr>))\<rparr>"

definition demo_regression :: "string \<Rightarrow> pyval \<Rightarrow> string + pyval" where
  "demo_regression s p = Inr (PDict [(''independent_checkout'', PBool True), (''source_sha256'', PStr (sha256_hex s)), (''produced_sha'', p),
     (''passed'', PInt 52), (''collected'', PInt 52), (''failed'', PInt 0), (''errors'', PInt 0)])"

definition demo_digest :: string where
  "demo_digest = MODEL_DIGEST_PREFIX @ replicate 52 (CHR ''0'')"

definition demo_audit :: pydict where
  "demo_audit =
     [(''model'', PStr MODEL), (''model_digest'', PStr demo_digest), (''model_calls'', PInt 1), (''base_sha'', PStr demo_sha),
      (''produced_sha'', PStr demo_new_sha), (''source_sha256'', PStr (sha256_hex ''y'')), (''baseline_passed'', PInt 41),
      (''accepted_cases'', PInt 42), (''regressions_passed'', PInt 52), (''request_id'', PStr demo_request_id)]"

definition demo_publish :: "(draft_result, hub) act" where
  "demo_publish = publish_draft demo_judge (\<lambda>s p. lift (demo_regression s p)) demo_port (At 0) 0 demo_binding ''x'' ''y'' demo_audit"

lemma demo_digest_text: "SHA256 demo_digest" "starts_with MODEL_DIGEST_PREFIX demo_digest" "decodes ''x''" "decodes ''y''"
  "show_int 7 = ''7''"
  by code_simp+

lemma demo_admit: "admit demo_issue_json demo_comment_json (branch_json ''main'' demo_sha) demo_sha (At t) t = Inr demo_binding"
  by (simp add: admit_def demo_issue_json_def demo_comment_json_def branch_json_def open_issue_def main_at_def owner_authorized_def
      require_def bindE_def observed_date_def seconds_def usec_def demo_text demo_digest_text demo_binding_def)

lemma demo_acceptance: "bounded_acceptance demo_judge demo_binding ''x'' ''y'' demo_audit = Inr (accepted_report\<lparr>rp_passed := 41, rp_failures := [''f'']\<rparr>)"
  by (simp add: bounded_acceptance_def model_proved_def demo_audit_def demo_binding_def str_all_def int_all_def demo_digest_text
      demo_issue_text require_def bindE_def trusted_task_def demo_judge_def accepted_report_def)

lemma demo_guards: "draft_guards demo_judge (\<lambda>s p. lift (demo_regression s p)) demo_port (At 0) 0 demo_binding ''x'' ''y'' demo_audit w = (Inr demo_sha, w)"
proof -
  have "regression_proved ''y'' (PStr demo_new_sha) (case demo_regression ''y'' (PStr demo_new_sha) of Inr v \<Rightarrow> v)"
    by (simp add: regression_proved_def demo_regression_def)
  moreover have "dict_eq demo_audit (audit_of demo_binding demo_audit ''y'' (accepted_report\<lparr>rp_passed := 41, rp_failures := [''f'']\<rparr>)
      (case demo_regression ''y'' (PStr demo_new_sha) of Inr v \<Rightarrow> v))"
    by (simp add: dict_eq_def demo_audit_def audit_of_def demo_regression_def demo_binding_def demo_request_id_def)
  ultimately show ?thesis using demo_admit [of 0] demo_acceptance
    by (simp add: draft_guards_def verify_patch_def andthen_def lift_def check_def ret_def demo_port_def observe_def demo_binding_def
        demo_regression_def demo_text str_all_def demo_audit_def branch_json_def)
qed

definition demo_branch :: string where
  "demo_branch = ''agent/qwen7b-issue-7-aaaaaaaaaaaa''"

lemma demo_branch_text: "issue_branch 7 demo_sha = demo_branch" "demo_branch \<noteq> ''main''" "demo_branch \<noteq> demo_sha"
  by code_simp+

lemma demo_published:
  "\<exists>r. demo_publish demo_hub = (Inr r, \<lparr>hub_branch = Some (demo_new_sha, ''y''),
     hub_pr = PDict [(''number'', PInt 9), (''state'', PStr ''open''), (''draft'', PBool True), (''head_sha'', PStr demo_new_sha),
       (''base_ref'', PStr ''main''), (''body'', PStr (draft_body demo_binding demo_audit))],
     hub_log = [CreateBranch demo_branch demo_sha, ReplaceSource demo_branch ''y'' demo_sha,
       CreatePr demo_branch (draft_title demo_binding) (draft_body demo_binding demo_audit)]\<rparr>) \<and>
     dr_pr_number r = PInt 9 \<and> dr_head_sha r = demo_new_sha \<and> \<not> dr_replayed r \<and> dr_issue r = 7"
proof -
  have b: "ib_branch demo_binding = demo_branch" "ib_base_sha demo_binding = demo_sha" "ib_number demo_binding = 7"
    by (simp_all add: demo_binding_def demo_branch_text)
  show ?thesis
    unfolding demo_publish_def publish_draft_def using b demo_branch_text demo_issue_text demo_text
    by (simp add: andthen_run(1) [OF demo_guards])
      (simp add: andthen_def ensure_branch_def ensure_source_def verify_branch_def ensure_pr_def open_pr_def lift_def check_def ret_def
        demo_port_def observe_def demo_hub_def branch_json_def head_of_branch_def new_head_def str_all_def pr_ok_def)
qed

lemma demo_logged: "logged hub_log demo_port" "adds hub_log [] (lift r)"
  by (auto simp: logged_def adds_def demo_port_def observe_def lift_def)

theorem publish_writes_confined_witness:
  "(\<exists>blob. subseq (hub_log (snd (demo_publish demo_hub)))
      [CreateBranch demo_branch demo_sha, ReplaceSource demo_branch ''y'' blob,
       CreatePr demo_branch (draft_title demo_binding) (draft_body demo_binding demo_audit)]) \<and>
   length (hub_log (snd (demo_publish demo_hub))) = 3"
proof -
  obtain new blob where "hub_log (snd (demo_publish demo_hub)) = hub_log demo_hub @ new"
    "subseq new [CreateBranch (ib_branch demo_binding) (ib_base_sha demo_binding), ReplaceSource (ib_branch demo_binding) ''y'' blob,
       CreatePr (ib_branch demo_binding) (draft_title demo_binding) (draft_body demo_binding demo_audit)]"
    using publish_writes_confined [OF demo_logged(1), of "\<lambda>s p. lift (demo_regression s p)" demo_judge "At 0" 0 demo_binding
        "''x''" "''y''" demo_audit demo_hub "fst (demo_publish demo_hub)" "snd (demo_publish demo_hub)"] demo_logged(2)
    by (auto simp: demo_publish_def)
  then have "\<exists>blob. subseq (hub_log (snd (demo_publish demo_hub)))
      [CreateBranch demo_branch demo_sha, ReplaceSource demo_branch ''y'' blob,
       CreatePr demo_branch (draft_title demo_binding) (draft_body demo_binding demo_audit)]"
    by (auto simp: demo_hub_def demo_binding_def demo_branch_text)
  then show ?thesis using demo_published by auto
qed

lemma demo_quiet: "quiet_github demo_port demo_binding"
  by (auto simp: quiet_github_def keeps_def same_base_def same_branch_def demo_port_def observe_def demo_binding_def demo_branch_text
      split: option.splits)

theorem publish_twice_witness:
  "\<exists>r w r'. demo_publish demo_hub = (Inr r, w) \<and> demo_publish w = (Inr r', w) \<and>
     dr_pr_number r' = PInt 9 \<and> dr_head_sha r' = demo_new_sha \<and> dr_replayed r' \<and> \<not> dr_replayed r"
proof -
  obtain r w where r: "demo_publish demo_hub = (Inr r, w)" "dr_pr_number r = PInt 9" "dr_head_sha r = demo_new_sha" "\<not> dr_replayed r"
    using demo_published by blast
  have "demo_publish w = (Inr (r\<lparr>dr_replayed := True\<rparr>), w)"
    using publish_twice [OF demo_quiet] r(1) by (simp add: demo_publish_def)
  moreover have "dr_pr_number (r\<lparr>dr_replayed := True\<rparr>) = PInt 9" "dr_head_sha (r\<lparr>dr_replayed := True\<rparr>) = demo_new_sha"
    "dr_replayed (r\<lparr>dr_replayed := True\<rparr>)" using r by simp_all
  ultimately show ?thesis using r(1,4) by blast
qed

text \<open>GitHub beside the service.\<close>

definition at_github :: "('a, 'g) act \<Rightarrow> ('a, 'g \<times> app_db) act" where
  "at_github m w = (case m (fst w) of (r, g) \<Rightarrow> (r, (g, snd w)))"

definition beside_service :: "'g github_port \<Rightarrow> ('g \<times> app_db) github_port" where
  "beside_service port =
     \<lparr>gp_get_branch = (\<lambda>x. at_github (gp_get_branch port x)), gp_get_source = (\<lambda>x. at_github (gp_get_source port x)),
      gp_changed_paths = (\<lambda>x h. at_github (gp_changed_paths port x h)), gp_create_branch = (\<lambda>x s. at_github (gp_create_branch port x s)),
      gp_replace_source = (\<lambda>x s k. at_github (gp_replace_source port x s k)), gp_find_pr = (\<lambda>x. at_github (gp_find_pr port x)),
      gp_create_pr = (\<lambda>x t d. at_github (gp_create_pr port x t d)), gp_get_issue = (\<lambda>k. at_github (gp_get_issue port k)),
      gp_get_comment = (\<lambda>k. at_github (gp_get_comment port k))\<rparr>"

lemma beside_service_elsewhere: "elsewhere (beside_service port)"
  by (simp add: elsewhere_def beside_service_def keeps_def at_github_def split: prod.splits)

definition demo_service :: "pool_db \<Rightarrow> app_db" where
  "demo_service p = \<lparr>pool = p, work_runs = []\<rparr>"

lemma demo_issue_create: "issue_create demo_binding = demo_issue"
proof -
  have "''qwen7b-issue-'' @ show_int 7 @ ''-'' @ take 12 demo_sha = ''qwen7b-issue-7-aaaaaaaaaaaa''" by code_simp
  then show ?thesis
    by (simp add: issue_create_def demo_issue_def demo_request_id_def demo_binding_def demo_branch_text demo_branch_def)
      (simp add: bind_issue_def)
qed

lemma demo_issue_rows: "issue_row demo_issue demo_issue_row" "issue_task_row demo_binding demo_done_row" "t_task_id demo_done_row = demo_issue_id"
  "t_state demo_done_row = Completed" "t_produced_sha demo_done_row = Some demo_new_sha"
proof -
  show "issue_task_row demo_binding demo_done_row" using demo_issue_create
    by (simp add: issue_task_row_def issue_create_def demo_issue_row_def demo_done_row_def demo_built_row_def demo_issue_exec)
qed (simp_all add: issue_row_def demo_issue_row_def demo_done_row_def demo_built_row_def demo_issue_exec demo_issue_id_def)

lemma demo_issue_found:
  "find_task demo_issue_id demo_checked = Some demo_done_row" "find_task demo_issue_id demo_admitted = Some demo_issue_row"
  by (simp_all add: find_task_def demo_checked_eq demo_enqueue(2) demo_lane_eq demo_issue_rows demo_issue_row_id)

lemma demo_issue_id_ok: "TASK_ID demo_issue_id"
  by (simp add: demo_issue_id_def task_id_TASK_ID)

theorem publishable_iff_completed_witness:
  "completed (client_pool (demo_api 7)) demo_binding demo_issue_id (demo_hub, demo_service demo_checked) =
     (Inr (json_task (public_task demo_done_row)), (demo_hub, demo_service demo_checked))"
proof -
  have "app_reachable (ae_cfg demo_native_env) (demo_service demo_checked)"
    using app_reachable_idle [OF demo_checked_reachable] by (simp add: demo_native_env_def demo_service_def)
  from publishable_iff_completed [OF demo_online this demo_issue_id_ok, of demo_done_row demo_binding 7 demo_hub]
  show ?thesis using demo_issue_found(1) demo_issue_rows demo_issue_text
    by (simp add: demo_service_def demo_issue_create) (simp add: demo_binding_def)
qed

section \<open>The admission, executed\<close>

lemma demo_lanes:
  "list_repositories (demo_api 1) (demo_service demo_lane) =
     (Inr [json_lane (view_lane demo_lane (hd (repository_lanes demo_lane)))], demo_service demo_lane)"
proof -
  have snap: "\<exists>v. snapshot demo_cfg 1 demo_lane = (Inr v, demo_lane) \<and> sv_repositories v = [view_lane demo_lane (hd (repository_lanes demo_lane))]"
    by (simp add: snapshot_def recover_expired_leases_def recover_stalled_tasks_def read_snapshot_def demo_lane_eq demo_issue_exec)
  then obtain v where v: "snapshot demo_cfg 1 demo_lane = (Inr v, demo_lane)" "sv_repositories v = [view_lane demo_lane (hd (repository_lanes demo_lane))]"
    by blast
  have "route_ok GetRepositories" by (simp add: route_ok_def starts_with_def)
  moreover have "handle demo_native_env 1 (with_draw (demo_token, ''a1'') GetRepositories) (demo_service demo_lane) =
      ((200, Lanes (sv_repositories v)), demo_service demo_lane)"
    using v(1) by (simp add: with_draw_def demo_native_env_def demo_service_def on_pool_def answer_def)
  ultimately have "request (demo_api 1) [200] GetRepositories (demo_service demo_lane) = (Inr (json_body (Lanes (sv_repositories v))), demo_service demo_lane)"
    using request_online [OF demo_online [of 1], of GetRepositories _ 200 _ "demo_service demo_lane" "[200]"] by (simp add: with_draw_def)
  then show ?thesis using v(2)
    by (simp add: list_repositories_def request_list_def andthen_def lift_def as_dicts_def dict_of_def List.map_filter_simps)
qed

lemma demo_enqueued:
  "enqueue_fenced_issue (demo_api 1) (issue_payload demo_binding) (demo_service demo_lane) =
     (Inr \<lparr>eq_task_id = demo_issue_id, eq_created = True, eq_task = json_task (public_task demo_issue_row)\<rparr>, demo_service demo_admitted)"
proof -
  have id: "t_task_id (public_task demo_issue_row) = demo_issue_id" by (simp add: demo_issue_row_id)
  have ready: "reconciliation_auth_ready demo_native_env" by code_simp
  have n: "issue_task (issue_payload demo_binding) = Inr demo_issue"
  proof -
    have "CORRELATION ''qwen7b-issue-7-aaaaaaaaaaaa''" by code_simp
    then show ?thesis using demo_issue_create demo_request_text(3) demo_text
      by (simp add: issue_task_def issue_payload_def issue_keys_def issue_create_def demo_issue_def demo_branch_text demo_branch_def
          demo_request_id_def demo_binding_def)
  qed
  have body: "body_ok (PostTask demo_issue)"
  proof -
    have "length REPO = 40" "length ''qwen7b-issue-7-aaaaaaaaaaaa'' = 27" "length demo_sha = 40" by code_simp+
    moreover have "length demo_request_id = 70" by (simp add: demo_request_id_def demo_binding_def bind_issue_def)
    ultimately show ?thesis by (simp add: ok_TaskCreate_def demo_issue_def len_in_def int_in_def opt_all_def)
  qed
  have "route_ok (PostTask demo_issue)" by (simp add: route_ok_def starts_with_def)
  moreover have "handle demo_native_env 1 (PostTask demo_issue) (demo_service demo_lane) =
      ((201, TaskCreated True (public_task demo_issue_row)), demo_service demo_admitted)"
    using demo_enqueue(1) ready by (simp add: enqueue_handler_def demo_service_def created_code_def) (simp add: demo_native_env_def)
  ultimately have "request (demo_api 1) [200, 201] (PostTask demo_issue) (demo_service demo_lane) =
      (Inr (json_body (TaskCreated True (public_task demo_issue_row))), demo_service demo_admitted)"
    using request_online [OF demo_online [of 1], of "PostTask demo_issue" "demo_service demo_lane" 201 _ "demo_service demo_admitted" "[200, 201]"] body
    by (simp add: with_draw_def)
  moreover have "client_get_task (demo_api 1) demo_issue_id (demo_service demo_admitted) = (Inr (json_task (public_task demo_issue_row)), demo_service demo_admitted)"
    using client_get_task_online [OF demo_online demo_issue_id_ok] demo_issue_found(2) by (simp add: demo_service_def)
  moreover have "same_fields [''repository'', ''issue_number'', ''request_id'', ''correlation_id'', ''priority'', ''base_sha'']
      (json_task (public_task demo_issue_row)) (issue_payload demo_binding)"
    "get (json_task (public_task demo_issue_row)) ''branch'' = get (issue_payload demo_binding) ''target_branch''"
    "get (json_task (public_task demo_issue_row)) ''fencing_required'' = PBool True"
    "py_eq (get (json_task (public_task demo_issue_row)) ''max_attempts'') (PInt 1)" "str_in task_states (PStr (state_name (t_state demo_issue_row)))"
    using demo_issue_create
    by (simp_all add: same_fields_def issue_payload_def issue_create_def json_task_def public_task_def demo_issue_row_def demo_issue_exec
        state_name_def str_in_def task_states_def)
  ultimately show ?thesis using n demo_issue_id_ok id
    by (simp add: enqueue_fenced_issue_def andthen_def lift_def request_dict_def as_dict_def check_def ret_def)
qed

lemma demo_admission:
  "\<exists>r. admit_to_existing_pool demo_judge (beside_service demo_port) (client_pool (demo_api 1)) 7 5 ''dev'' 0 (demo_hub, demo_service demo_lane) =
     (Inr r, (demo_hub, demo_service demo_admitted)) \<and> ad_task_id r = demo_issue_id \<and> ad_binding r = demo_binding"
proof -
  have rb: "read_binding (beside_service demo_port) 7 5 0 (demo_hub, a) = (Inr demo_binding, (demo_hub, a))" for a
    using demo_admit [of 0]
    by (simp add: read_binding_def beside_service_def at_github_def demo_port_def observe_def andthen_def lift_def branch_json_def
        head_of_branch_def)
  have src: "gp_get_source (beside_service demo_port) (ib_base_sha demo_binding) (demo_hub, a) = (Inr (''x'', PStr demo_sha), (demo_hub, a))" for a
    by (simp add: beside_service_def at_github_def demo_port_def observe_def demo_binding_def)
  have ready: "lane_ready [json_lane (view_lane demo_lane (hd (repository_lanes demo_lane)))]"
    by (simp add: lane_ready_def json_lane_def view_lane_def demo_lane_eq new_lane_def Let_def)
  have readback: "admitted_readback (issue_payload demo_binding)
      \<lparr>eq_task_id = demo_issue_id, eq_created = True, eq_task = json_task (public_task demo_issue_row)\<rparr>"
    using demo_issue_create demo_issue_row_id
    by (simp add: admitted_readback_def same_fields_def issue_payload_def issue_create_def json_task_def public_task_def
        demo_issue_row_def demo_issue_exec)
  show ?thesis
    unfolding admit_to_existing_pool_def client_pool_def
    by (simp add: andthen_def check_def ret_def rb src lift_def trusted_task_def bindE_def require_def demo_digest_text demo_judge_def
        accepted_report_def at_service_def demo_lanes ready demo_enqueued readback)
qed

theorem admitted_issue_in_pool_witness:
  "\<exists>r a t. admit_to_existing_pool demo_judge (beside_service demo_port) (client_pool (demo_api 1)) 7 5 ''dev'' 0 (demo_hub, demo_service demo_lane) =
     (Inr r, (demo_hub, a)) \<and> find_task (ad_task_id r) (pool a) = Some t \<and> t_repository t = REPO \<and> t_fencing_required t \<and>
     t_max_attempts t = 1 \<and> t_base_sha t = Some demo_sha"
proof -
  obtain r where r: "admit_to_existing_pool demo_judge (beside_service demo_port) (client_pool (demo_api 1)) 7 5 ''dev'' 0 (demo_hub, demo_service demo_lane) =
     (Inr r, (demo_hub, demo_service demo_admitted))" "ad_binding r = demo_binding"
    using demo_admission by blast
  obtain t where "find_task (ad_task_id r) (pool (demo_service demo_admitted)) = Some t" "t_repository t = REPO" "t_fencing_required t"
      "t_max_attempts t = 1" "t_base_sha t = Some (ib_base_sha (ad_binding r))"
    using admitted_issue_in_pool [OF online_connected [OF demo_online] beside_service_elsewhere r(1)] by blast
  then show ?thesis using r by (auto simp: demo_binding_def)
qed

section \<open>The publication, executed\<close>

definition demo_ports :: "(hub \<times> app_db) publish_ports" where
  "demo_ports =
     \<lparr>pp_github = beside_service demo_port, pp_pool = client_pool (demo_api 7),
      pp_materialize = (\<lambda>_ _ p. ret \<lparr>cas_artifact_bytes = demo_artifact, cas_source_bytes = ''y'', cas_produced_sha = p, cas_base_sha = PStr demo_sha\<rparr>),
      pp_git_verify = (\<lambda>s t p. ret \<lparr>ge_base_sha = PStr t, ge_produced_sha = p, ge_source_sha256 = PStr (sha256_hex s),
        ge_changed_paths = [PATH], ge_checkout_isolated = True, ge_commit_verified = True\<rparr>),
      pp_regression = (\<lambda>s p. lift (demo_regression s p))\<rparr>"

lemma demo_ports_elsewhere: "ports_elsewhere demo_ports"
  by (simp add: ports_elsewhere_def demo_ports_def beside_service_elsewhere)

text \<open>A publication beside the service is the publication, with the service left alone.\<close>

lemma at_github_simps:
  "at_github (andthen m f) = andthen (at_github m) (\<lambda>x. at_github (f x))"
  "at_github (ret a) = ret a" "at_github (check c e) = check c e" "at_github (lift r) = lift r"
  by (auto simp: fun_eq_iff andthen_def at_github_def ret_def check_def lift_def raise_def split: prod.splits sum.splits)

lemma publish_beside:
  "publish_draft j (\<lambda>s p. lift (regression s p)) (beside_service port) ob now b before after audit =
     at_github (publish_draft j (\<lambda>s p. lift (regression s p)) port ob now b before after audit)"
  by (simp add: publish_draft_def draft_guards_def verify_patch_def ensure_branch_def ensure_source_def verify_branch_def ensure_pr_def
      open_pr_def at_github_simps if_distrib [of at_github] case_prod_unfold beside_service_def cong: if_cong)

lemma demo_validator_checkpoint:
  "validator_checkpoint_ok demo_issue_id (json_task (public_task demo_done_row)) (PDict (json_joined (demo_result_row, None)))"
  "get (json_joined (demo_result_row, None)) ''artifact_sha256'' = PStr (sha256_hex demo_artifact)"
  "get (json_joined (demo_result_row, None)) ''task_id'' = PStr demo_issue_id"
proof -
  have "SHA256 (sha256_hex s)" for s using demo_artifact_text(1) by (simp add: SHA64_def SHA256_def)
  then show "validator_checkpoint_ok demo_issue_id (json_task (public_task demo_done_row)) (PDict (json_joined (demo_result_row, None)))"
    by (simp add: validator_checkpoint_ok_def get_json_joined json_checkpoint_def json_task_def public_task_def demo_result_row_def
        demo_done_row_def demo_built_row_def demo_issue_row_def demo_issue_exec str_all_def opt_str_def Let_def)
  show "get (json_joined (demo_result_row, None)) ''artifact_sha256'' = PStr (sha256_hex demo_artifact)"
    "get (json_joined (demo_result_row, None)) ''task_id'' = PStr demo_issue_id"
    by (simp_all add: get_json_joined json_checkpoint_def demo_result_row_def demo_issue_exec opt_str_def Let_def)
qed

lemma demo_latest:
  "client_latest_checkpoint (demo_api 7) demo_issue_id (demo_service demo_checked) =
     (Inr (PDict (json_joined (demo_result_row, None))), demo_service demo_checked)"
proof -
  have g: "get_latest_checkpoint demo_issue_id demo_checked = Inr (Some (demo_result_row, None))"
  proof -
    have "c_task_id demo_result_row = demo_issue_id" using demo_validator_checkpoint(3) by (simp add: get_json_joined json_checkpoint_def)
    then show ?thesis using demo_issue_found(1)
      by (simp add: get_latest_checkpoint_def demo_checked_eq reconciliation_of_def find_task_def demo_issue_rows get_task_def)
  qed
  have "route_ok (GetLatestCheckpoint demo_issue_id)"
    by (rule task_route_ok [OF demo_issue_id_ok, where r = "''/checkpoints/latest''" and m = "''GET''"]) (simp_all add: starts_with_def)
  moreover have "handle demo_native_env 7 (GetLatestCheckpoint demo_issue_id) (demo_service demo_checked) =
      ((200, LatestCheckpoint (Some (demo_result_row, None))), demo_service demo_checked)"
    using g by (simp add: answer_def demo_service_def)
  ultimately have "request (demo_api 7) [200] (GetLatestCheckpoint demo_issue_id) (demo_service demo_checked) =
      (Inr (json_body (LatestCheckpoint (Some (demo_result_row, None)))), demo_service demo_checked)"
    using request_online [OF demo_online [of 7], of "GetLatestCheckpoint demo_issue_id" _ 200 _ "demo_service demo_checked" "[200]"]
    by (simp add: with_draw_def)
  then show ?thesis using demo_issue_id_ok demo_validator_checkpoint(3)
    by (simp add: client_latest_checkpoint_def andthen_def lift_def id_ok_def require_def request_dict_def as_dict_def check_def ret_def
        json_option_def Let_def)
qed

lemma demo_completed_read:
  "completed (client_pool (demo_api 7)) demo_binding demo_issue_id (g, demo_service demo_checked) =
     (Inr (json_task (public_task demo_done_row)), (g, demo_service demo_checked))"
proof -
  have ok: "completed_ok demo_binding demo_issue_id (json_task (public_task demo_done_row))"
    using demo_issue_rows demo_issue_text
      completed_life [OF demo_checked_reachable demo_issue_found(1)]
    by (simp add: completed_ok_json demo_binding_def)
  have "client_get_task (demo_api 7) demo_issue_id (demo_service demo_checked) = (Inr (json_task (public_task demo_done_row)), demo_service demo_checked)"
    using client_get_task_online [OF demo_online demo_issue_id_ok] demo_issue_found(1) by (simp add: demo_service_def)
  then show ?thesis using ok demo_issue_id_ok
    by (simp add: completed_def andthen_def check_def client_pool_def at_service_def ret_def)
qed

lemma demo_publication:
  "\<exists>r g. publish_completed_fenced_issue demo_judge demo_ports demo_binding demo_issue_id demo_audit 0 (demo_hub, demo_service demo_checked) =
     (Inr r, (g, demo_service demo_checked))"
proof -
  let ?d = "json_task (public_task demo_done_row)" and ?v = "PDict (json_joined (demo_result_row, None))"
  obtain dr g where p: "demo_publish demo_hub = (Inr dr, g)" using demo_published by blast
  have sha: "get ?d ''produced_sha'' = PStr demo_new_sha" using demo_issue_rows(5) by (simp add: opt_str_def)
  have pub: "publish_draft demo_judge (\<lambda>s p. lift (demo_regression s p)) (beside_service demo_port) (At 0) 0 demo_binding ''x'' ''y'' demo_audit
      (demo_hub, a) = (Inr dr, (g, a))" for a
    using p by (simp add: publish_beside at_github_def demo_publish_def)
  have base: "ib_base_sha demo_binding = demo_sha" by (simp add: demo_binding_def)
  have cas: "cas_ok demo_binding ?d ?v \<lparr>cas_artifact_bytes = demo_artifact, cas_source_bytes = ''y'', cas_produced_sha = PStr demo_new_sha,
      cas_base_sha = PStr demo_sha\<rparr>"
    using demo_validator_checkpoint(2) sha by (simp add: cas_ok_def demo_artifact_def base opt_str_def)
  have git: "git_ok demo_binding ?d ''y'' \<lparr>ge_base_sha = PStr demo_sha, ge_produced_sha = PStr demo_new_sha,
      ge_source_sha256 = PStr (sha256_hex ''y''), ge_changed_paths = [PATH], ge_checkout_isolated = True, ge_commit_verified = True\<rparr>"
    using sha by (simp add: git_ok_def base opt_str_def)
  have some: "opt_str (Some demo_new_sha) = PStr demo_new_sha" by (simp add: opt_str_def)
  have audit: "get demo_audit ''produced_sha'' = PStr demo_new_sha" "get demo_audit ''base_sha'' = PStr demo_sha"
    by (simp_all add: demo_audit_def)
  have src: "gp_get_source (beside_service demo_port) demo_sha (demo_hub, a) = (Inr (''x'', PStr demo_sha), (demo_hub, a))" for a
    by (simp add: beside_service_def at_github_def demo_port_def observe_def)
  have pool: "pp_pool demo_ports = client_pool (demo_api 7)" "pp_github demo_ports = beside_service demo_port"
    "pp_regression demo_ports = (\<lambda>s p. lift (demo_regression s p))"
    "ip_get_latest_checkpoint (client_pool (demo_api 7)) demo_issue_id = at_service (client_latest_checkpoint (demo_api 7) demo_issue_id)"
    by (simp_all add: demo_ports_def client_pool_def)
  show ?thesis
    unfolding publish_completed_fenced_issue_def pool base sha
    by (simp add: andthen_def check_def ret_def demo_completed_read at_service_def demo_latest demo_validator_checkpoint demo_issue_rows(5)
        some demo_ports_def cas git src audit pub)
qed

theorem publication_of_completed_task_witness:
  "\<exists>t builder validator (cas :: materialized) c x. find_task demo_issue_id demo_checked = Some t \<and> t_state t = Completed \<and>
     t_builder_worker_id t = Some builder \<and> t_validator_worker_id t = Some validator \<and> builder \<noteq> validator \<and>
     get_latest_checkpoint demo_issue_id demo_checked = Inr (Some (c, x)) \<and> c_artifact_sha256 c = Some (sha256_hex (cas_artifact_bytes cas)) \<and>
     (\<exists>blob w w'. gp_get_source (pp_github demo_ports) (ib_branch demo_binding) w = (Inr (cas_source_bytes cas, blob), w'))"
proof -
  obtain r g where r: "publish_completed_fenced_issue demo_judge demo_ports demo_binding demo_issue_id demo_audit 0 (demo_hub, demo_service demo_checked) =
     (Inr r, (g, demo_service demo_checked))" using demo_publication by blast
  have "pp_pool demo_ports = client_pool (demo_api 7)" by (simp add: demo_ports_def)
  note all = publication_of_completed_task [OF online_connected [OF demo_online] demo_ports_elsewhere this r, THEN conjunct2]
  have pool: "pool (demo_service demo_checked) = demo_checked" by (simp add: demo_service_def)
  from all obtain t builder validator c x blob w w' and cas :: materialized where "find_task demo_issue_id demo_checked = Some t" "t_state t = Completed"
     "t_builder_worker_id t = Some builder" "t_validator_worker_id t = Some validator" "builder \<noteq> validator"
     "get_latest_checkpoint demo_issue_id demo_checked = Inr (Some (c, x))" "c_artifact_sha256 c = Some (sha256_hex (cas_artifact_bytes cas))"
     "gp_get_source (pp_github demo_ports) (ib_branch demo_binding) w = (Inr (cas_source_bytes cas, blob), w')"
    unfolding pool by (elim exE conjE) (rule that, assumption+)
  then show ?thesis by (intro exI conjI)
qed

end
