(* ===== verification/One_Shot.thy ===== *)
theory One_Shot
  imports Native_Http
begin

text \<open>
  \<^verbatim>\<open>app/native_one_shot.py\<close>: the coordinator that runs one role of one task, claims it through the client, lets a
  locally installed adapter do the work and reports the result. In the order of the source: the manifest and the
  descriptor of the adapter, the workspace, the receipts, and the executor. Git, the files, the adapter's
  code, the durable transport and the worker API are ports on a common world. An error is its code; \<open>other_error\<close> is any
  exception that is not a \<^verbatim>\<open>NativeExecutorBlocked\<close>. Values that the code only passes on keep their type.
\<close>

section \<open>Canonical text and paths\<close>

definition other_error :: string where
  "other_error = []"

fun join_texts :: "string \<Rightarrow> string list \<Rightarrow> string" where
  "join_texts sep [] = []"
| "join_texts sep [x] = x"
| "join_texts sep (x # y # xs) = x @ sep @ join_texts sep (y # xs)"

text \<open>\<^verbatim>\<open>json.dumps(value, sort_keys=True, separators=(",", ":"))\<close>. The only floats that reach a digest are
  whole.\<close>

fun json_text :: "pyval \<Rightarrow> string" and json_list :: "pyval list \<Rightarrow> string list" and
    json_fields :: "pydict \<Rightarrow> (string \<times> string) list" where
  "json_text PNone = ''null''"
| "json_text (PBool b) = (if b then ''true'' else ''false'')"
| "json_text (PInt i) = show_int i"
| "json_text (PFloat r) = show_int \<lfloor>r\<rfloor> @ ''.0''"
| "json_text (PStr s) = json_quote s"
| "json_text (PList vs) = ''['' @ join_texts '','' (json_list vs) @ '']''"
| "json_text (PDict d) =
     ''{'' @ join_texts '','' (map (\<lambda>(k, t). json_quote k @ '':'' @ t) (sort_key fst (json_fields d))) @ ''}''"
| "json_list [] = []"
| "json_list (v # vs) = json_text v # json_list vs"
| "json_fields [] = []"
| "json_fields ((k, v) # d) = (k, json_text v) # json_fields d"

definition digest :: "pyval \<Rightarrow> string" where
  "digest v = sha256_hex (json_text v)"

fun split_at :: "(char \<Rightarrow> bool) \<Rightarrow> string \<Rightarrow> string list" where
  "split_at p [] = [[]]"
| "split_at p (c # s) = (if p c then [] # split_at p s else case split_at p s of [] \<Rightarrow> [[c]] | x # xs \<Rightarrow> (c # x) # xs)"

text \<open>\<^verbatim>\<open>PurePosixPath(value).parts\<close> of a relative path, and the path again.\<close>

definition path_parts :: "string \<Rightarrow> string list" where
  "path_parts s = filter (\<lambda>p. p \<noteq> [] \<and> p \<noteq> ''.'') (split_at (\<lambda>c. c = CHR ''/'') s)"

definition as_posix :: "string list \<Rightarrow> string" where
  "as_posix ps = (if ps = [] then ''.'' else join_texts ''/'' ps)"

definition safe_path :: "string \<Rightarrow> string + string" where
  "safe_path s =
     bindE (require (1 \<le> length s \<and> length s \<le> 240) ''manifest_path'') (\<lambda>_.
     bindE (require (\<not> starts_with ''/'' s \<and> CHR 0x5C \<notin> set s \<and> ''..'' \<notin> set (path_parts s)) ''manifest_path_traversal'') (\<lambda>_.
     bindE (require (list_all (\<lambda>p. p \<noteq> [] \<and> p \<noteq> ''.'' \<and> \<not> starts_with ''.'' p) (path_parts s)) ''manifest_path_hidden'') (\<lambda>_.
     Inr (as_posix (path_parts s)))))"

fun safe_paths :: "string list \<Rightarrow> string + string list" where
  "safe_paths [] = Inr []"
| "safe_paths (p # ps) = bindE (safe_path p) (\<lambda>q. bindE (safe_paths ps) (\<lambda>qs. Inr (q # qs)))"

definition sorted_set :: "string list \<Rightarrow> bool" where
  "sorted_set xs \<longleftrightarrow> xs = sort (remdups xs)"

section \<open>Boundary, adapter, manifest\<close>

record execution_boundary =
  eb_session_id :: string
  eb_correlation_id :: string
  eb_expected_head :: string
  eb_state_validated :: bool
  eb_gateway_verified :: bool

definition SESSION_ID :: "string \<Rightarrow> bool" where
  "SESSION_ID s \<longleftrightarrow> 3 \<le> length s \<and> length s \<le> 64 \<and> list_all (\<lambda>c. is_alnum c \<or> c \<in> set ''._-'') s"

definition validate_boundary :: "execution_boundary \<Rightarrow> string + unit" where
  "validate_boundary b =
     bindE (require (SESSION_ID (eb_session_id b)) ''session_invalid'') (\<lambda>_.
     bindE (require (CORRELATION (eb_correlation_id b)) ''correlation_invalid'') (\<lambda>_.
     bindE (require (SHA40 (eb_expected_head b)) ''boundary_head_invalid'') (\<lambda>_.
     require (eb_state_validated b \<and> eb_gateway_verified b) ''governed_boundary_unproved'')))"

record adapter_descriptor =
  ds_adapter_id :: string
  ds_allowed_paths :: "string list"
  ds_builder_commands :: "string list"
  ds_validator_commands :: "string list"
  ds_roles :: "string list"

definition commands_ok :: "string list \<Rightarrow> bool" where
  "commands_ok cs \<longleftrightarrow> sorted_set cs \<and> list_all NAME cs"

definition texts :: "string list \<Rightarrow> pyval" where
  "texts xs = PList (map PStr xs)"

definition normalized :: "adapter_descriptor \<Rightarrow> string + pyval" where
  "normalized d =
     bindE (require (NAME (ds_adapter_id d)) ''adapter_id'') (\<lambda>_.
     bindE (safe_paths (ds_allowed_paths d)) (\<lambda>paths.
     bindE (require (sorted_set paths \<and> paths \<noteq> []) ''adapter_paths'') (\<lambda>_.
     bindE (require (commands_ok (ds_builder_commands d) \<and> commands_ok (ds_validator_commands d)) ''adapter_commands'') (\<lambda>_.
     bindE (require (set (ds_roles d) \<subseteq> {''builder'', ''validator''} \<and> ds_roles d \<noteq> []) ''adapter_roles'') (\<lambda>_.
     bindE (require ((''builder'' \<notin> set (ds_roles d) \<or> ds_builder_commands d \<noteq> []) \<and>
                     (''validator'' \<notin> set (ds_roles d) \<or> ds_validator_commands d \<noteq> [])) ''adapter_role_commands'') (\<lambda>_.
     Inr (PDict [(''adapter_id'', PStr (ds_adapter_id d)), (''allowed_paths'', texts paths),
       (''builder_commands'', texts (ds_builder_commands d)), (''validator_commands'', texts (ds_validator_commands d)),
       (''roles'', texts (ds_roles d))])))))))"

definition command_keys :: "adapter_descriptor \<Rightarrow> string list" where
  "command_keys d = sort (remdups (ds_builder_commands d @ ds_validator_commands d))"

definition role_commands :: "adapter_descriptor \<Rightarrow> string \<Rightarrow> string list" where
  "role_commands d role = (if role = ''builder'' then ds_builder_commands d else ds_validator_commands d)"

definition commands_for :: "adapter_descriptor \<Rightarrow> string \<Rightarrow> string + string list" where
  "commands_for d role =
     bindE (require (role \<in> set (ds_roles d)) ''adapter_role_unsupported'') (\<lambda>_. Inr (role_commands d role))"

definition contract_sha256 :: "adapter_descriptor \<Rightarrow> string + string" where
  "contract_sha256 d = bindE (normalized d) (\<lambda>v. Inr (digest v))"

record task_manifest =
  mf_task_id :: string
  mf_repository :: string
  mf_base_sha :: string
  mf_workspace_sha :: string
  mf_adapter_id :: string
  mf_adapter_contract_sha256 :: string
  mf_before_sha256 :: "(string \<times> string) list"

definition manifest_fields :: "string list" where
  "manifest_fields = [''schema_version'', ''task_id'', ''repository'', ''base_sha'', ''workspace_sha'', ''adapter_id'',
     ''adapter_contract_sha256'', ''before_sha256'']"

definition REPOSITORY :: "string \<Rightarrow> bool" where
  "REPOSITORY s \<longleftrightarrow> (case split_at (\<lambda>c. c = CHR ''/'') s of
     [a, b] \<Rightarrow> list_all (\<lambda>x. 1 \<le> length x \<and> length x \<le> 100 \<and> list_all (\<lambda>c. is_alnum c \<or> c \<in> set ''_.-'') x) [a, b]
   | _ \<Rightarrow> False)"

fun put_text :: "string \<Rightarrow> string \<Rightarrow> (string \<times> string) list \<Rightarrow> (string \<times> string) list" where
  "put_text k v [] = [(k, v)]"
| "put_text k v ((k', v') # d) = (if k' = k then (k, v) # d else (k', v') # put_text k v d)"

fun before_hashes :: "pydict \<Rightarrow> (string \<times> string) list \<Rightarrow> string + (string \<times> string) list" where
  "before_hashes [] acc = Inr acc"
| "before_hashes ((p, v) # d) acc =
     bindE (safe_path p) (\<lambda>safe.
     case v of
       PStr h \<Rightarrow> if SHA256 h then before_hashes d (put_text safe h acc) else Inl ''manifest_hash''
     | _ \<Rightarrow> Inl ''manifest_hash'')"

definition text_field :: "(string \<Rightarrow> bool) \<Rightarrow> pydict \<Rightarrow> string \<Rightarrow> string \<Rightarrow> string + string" where
  "text_field P d k e = (case get d k of PStr s \<Rightarrow> if P s then Inr s else Inl e | _ \<Rightarrow> Inl e)"

definition parse_manifest :: "pyval \<Rightarrow> string + task_manifest" where
  "parse_manifest raw = (case raw of
     PDict d \<Rightarrow>
       bindE (require (fst ` set d = set manifest_fields) ''manifest_schema'') (\<lambda>_.
       case get d ''before_sha256'' of
         PDict before \<Rightarrow>
           bindE (require (1 \<le> length before \<and> length before \<le> 32) ''manifest_hashes'') (\<lambda>_.
           bindE (before_hashes before []) (\<lambda>hashes.
           bindE (require (py_eq (get d ''schema_version'') (PInt 1)) ''manifest_version'') (\<lambda>_.
           bindE (text_field TASK_ID d ''task_id'' ''manifest_task_id'') (\<lambda>tid.
           bindE (text_field REPOSITORY d ''repository'' ''manifest_repository'') (\<lambda>repo.
           bindE (text_field SHA40 d ''base_sha'' ''manifest_base_sha'') (\<lambda>base.
           bindE (text_field SHA40 d ''workspace_sha'' ''manifest_workspace_sha'') (\<lambda>work.
           bindE (text_field NAME d ''adapter_id'' ''manifest_adapter'') (\<lambda>adapter.
           bindE (text_field SHA256 d ''adapter_contract_sha256'' ''manifest_adapter_contract'') (\<lambda>contract.
           Inr \<lparr>mf_task_id = tid, mf_repository = repo, mf_base_sha = base, mf_workspace_sha = work, mf_adapter_id = adapter,
                mf_adapter_contract_sha256 = contract, mf_before_sha256 = hashes\<rparr>)))))))))
       | _ \<Rightarrow> Inl ''manifest_hashes'')
   | _ \<Rightarrow> Inl ''manifest_schema'')"

section \<open>Results and artifacts\<close>

record adapter_result =
  ar_produced_sha :: string
  ar_changed_paths :: "string list"
  ar_invoked_commands :: "string list"
  ar_evidence_sha256 :: string

record durable_artifact =
  da_kind :: string
  da_ref :: string
  da_sha256 :: string

text \<open>\<^verbatim>\<open>fullmatch\<close> of a value that is not a text raises a \<^verbatim>\<open>TypeError\<close>.\<close>

definition artifact_of :: "pyval \<Rightarrow> pyval \<Rightarrow> pyval \<Rightarrow> string + durable_artifact" where
  "artifact_of kind ref sha = (case kind of
     PStr k \<Rightarrow>
       (case ref of
          PStr r \<Rightarrow>
            if NAME k \<and> 1 \<le> length r \<and> length r \<le> 2048 \<and> no_line_break r
            then (case sha of
                PStr h \<Rightarrow> if SHA256 h then Inr \<lparr>da_kind = k, da_ref = r, da_sha256 = h\<rparr> else Inl ''durable_artifact_invalid''
              | _ \<Rightarrow> Inl other_error)
            else Inl ''durable_artifact_invalid''
        | _ \<Rightarrow> Inl ''durable_artifact_invalid'')
   | _ \<Rightarrow> Inl other_error)"

definition parse_artifact :: "pyval \<Rightarrow> string + durable_artifact" where
  "parse_artifact raw = (case raw of
     PDict d \<Rightarrow> if fst ` set d = {''artifact_kind'', ''artifact_ref'', ''artifact_sha256''}
                then artifact_of (get d ''artifact_kind'') (get d ''artifact_ref'') (get d ''artifact_sha256'')
                else Inl ''durable_artifact_invalid''
   | _ \<Rightarrow> Inl ''durable_artifact_invalid'')"

definition artifact_from_checkpoint :: "pydict \<Rightarrow> string + durable_artifact" where
  "artifact_from_checkpoint c = artifact_of (get c ''artifact_kind'') (get c ''artifact_ref'') (get c ''artifact_sha256'')"

section \<open>The workspace\<close>

text \<open>What \<^verbatim>\<open>subprocess.run\<close> gives: nothing when git cannot be run in time, else its return code and output. Of a file:
  whether it is a regular file and no link, its link count, whether it resolves to a place below the root, and its bytes.\<close>

record file_view =
  fv_regular :: bool
  fv_links :: nat
  fv_inside :: bool
  fv_bytes :: string

record 'w local_workspace =
  ws_root :: string
  ws_root_plain :: "(bool, 'w) act"
  ws_git :: "string list \<Rightarrow> ((int \<times> string) option, 'w) act"
  ws_file :: "string \<Rightarrow> (file_view, 'w) act"

definition git :: "'w local_workspace \<Rightarrow> string list \<Rightarrow> (string, 'w) act" where
  "git ws args =
     andthen (ws_git ws args) (\<lambda>r. case r of
       None \<Rightarrow> raise ''workspace_git_unavailable''
     | Some (rc, out) \<Rightarrow>
         andthen (check (rc = 0 \<and> length out \<le> 1048576) ''workspace_git_failed'') (\<lambda>_.
         ret (py_strip out)))"

definition workspace_head :: "'w local_workspace \<Rightarrow> (string, 'w) act" where
  "workspace_head ws = andthen (git ws [''rev-parse'', ''HEAD'']) (\<lambda>out. ret (py_lower out))"

definition workspace_status :: "'w local_workspace \<Rightarrow> (string, 'w) act" where
  "workspace_status ws = git ws [''status'', ''--porcelain'', ''--untracked-files=all'']"

text \<open>The separators of \<^verbatim>\<open>str.splitlines\<close>; empty lines are dropped.\<close>

definition line_break :: "char \<Rightarrow> bool" where
  "line_break c \<longleftrightarrow> code c \<in> {10, 11, 12, 13, 28, 29, 30}"

definition workspace_changed_paths :: "'w local_workspace \<Rightarrow> string \<Rightarrow> string \<Rightarrow> (string list, 'w) act" where
  "workspace_changed_paths ws base produced =
     andthen (git ws [''diff'', ''--name-only'', ''--no-renames'', base, produced]) (\<lambda>out.
     ret (sort (filter (\<lambda>l. l \<noteq> []) (split_at line_break out))))"

definition workspace_clean :: "'w local_workspace \<Rightarrow> (unit, 'w) act" where
  "workspace_clean ws =
     andthen (ws_root_plain ws) (\<lambda>plain.
     andthen (check plain ''workspace_root'') (\<lambda>_.
     andthen (git ws [''remote'']) (\<lambda>remote.
     andthen (check (remote = []) ''workspace_remote_forbidden'') (\<lambda>_.
     andthen (workspace_status ws) (\<lambda>st.
     check (st = []) ''workspace_dirty'')))))"

definition validate_replay :: "'w local_workspace \<Rightarrow> string \<Rightarrow> (unit, 'w) act" where
  "validate_replay ws produced =
     andthen (workspace_clean ws) (\<lambda>_.
     andthen (workspace_head ws) (\<lambda>h.
     check (h = produced) ''replay_head_drift''))"

fun validate_files :: "'w local_workspace \<Rightarrow> (string \<times> string) list \<Rightarrow> (unit, 'w) act" where
  "validate_files ws [] = ret ()"
| "validate_files ws ((p, h) # rest) =
     andthen (ws_file ws p) (\<lambda>f.
     andthen (check (fv_regular f \<and> fv_links f = 1) ''workspace_file_invalid'') (\<lambda>_.
     andthen (check (fv_inside f) ''workspace_path_escape'') (\<lambda>_.
     andthen (check (sha256_hex (fv_bytes f) = h) ''workspace_file_drift'') (\<lambda>_.
     validate_files ws rest))))"

definition validate_before_claim :: "'w local_workspace \<Rightarrow> task_manifest \<Rightarrow> adapter_descriptor \<Rightarrow> (unit, 'w) act" where
  "validate_before_claim ws m d =
     andthen (workspace_clean ws) (\<lambda>_.
     andthen (workspace_head ws) (\<lambda>h.
     andthen (check (h = mf_workspace_sha m) ''workspace_head_drift'') (\<lambda>_.
     andthen (check (fst ` set (mf_before_sha256 m) = set (ds_allowed_paths d)) ''manifest_adapter_path_mismatch'') (\<lambda>_.
     validate_files ws (mf_before_sha256 m)))))"

section \<open>Adapter and its context\<close>

text \<open>The adapter is code from outside. It gets the callback \<^verbatim>\<open>context.invoke\<close> and sees the world with the list of the
  commands invoked so far.\<close>

type_synonym 'w registry = "(string \<times> (pyval, 'w) act) list"
type_synonym 'w invoker = "string \<Rightarrow> (pyval, 'w \<times> string list) act"

record 'w native_adapter =
  na_descriptor :: adapter_descriptor
  na_build :: "'w invoker \<Rightarrow> (adapter_result, 'w \<times> string list) act"
  na_validate :: "'w invoker \<Rightarrow> string \<Rightarrow> (adapter_result, 'w \<times> string list) act"

definition invoke :: "'w registry \<Rightarrow> string list \<Rightarrow> 'w invoker" where
  "invoke commands allowed key x =
     (case map_of commands key of
        Some command \<Rightarrow>
          if key \<in> set allowed
          then (case command (fst x) of (r, w) \<Rightarrow> (r, (w, snd x @ [key])))
          else (Inl ''command_not_allowlisted'', x)
      | None \<Rightarrow> (Inl ''command_not_allowlisted'', x))"

definition run_adapter :: "(adapter_result, 'w \<times> string list) act \<Rightarrow> (adapter_result \<times> string list, 'w) act" where
  "run_adapter m w = (case m (w, []) of
     (Inl e, (w', _)) \<Rightarrow> (Inl e, w') | (Inr r, (w', invoked)) \<Rightarrow> (Inr (r, invoked), w'))"

section \<open>Ports of the executor\<close>

record 'w worker_api =
  wa_get_task :: "string \<Rightarrow> (pydict, 'w) act"
  wa_claim_exact :: "string \<Rightarrow> string \<Rightarrow> string \<Rightarrow> (pydict, 'w) act"
  wa_claim_fenced_exact :: "string \<Rightarrow> string \<Rightarrow> string \<Rightarrow> (pydict, 'w) act"
  wa_get_latest_checkpoint :: "string \<Rightarrow> (pyval, 'w) act"
  wa_record_checkpoint :: "checkpoint_request \<Rightarrow> (pyval, 'w) act"
  wa_start :: "lease_proof \<Rightarrow> string \<Rightarrow> (unit, 'w) act"
  wa_submit_validation :: "lease_proof \<Rightarrow> string \<Rightarrow> string \<Rightarrow> (unit, 'w) act"
  wa_complete :: "lease_proof \<Rightarrow> string \<Rightarrow> (unit, 'w) act"
  wa_fail :: "lease_proof \<Rightarrow> string \<Rightarrow> string \<Rightarrow> (unit, 'w) act"
  wa_block :: "lease_proof \<Rightarrow> string \<Rightarrow> string \<Rightarrow> (unit, 'w) act"

text \<open>The durable transport; the task and the manifest it is called with are the executor's.\<close>

record 'w artifact_transport =
  tp_preflight :: "(unit, 'w) act"
  tp_publish :: "task_manifest \<Rightarrow> int \<Rightarrow> string \<Rightarrow> string \<Rightarrow> adapter_result \<Rightarrow> (pyval, 'w) act"
  tp_materialize :: "task_manifest \<Rightarrow> durable_artifact \<Rightarrow> (adapter_result, 'w) act"
  tp_verify :: "task_manifest \<Rightarrow> string \<Rightarrow> durable_artifact \<Rightarrow> (unit, 'w) act"

text \<open>The directory of receipts. \<open>rc_lock\<close> creates the lock file exclusively; \<open>rc_read\<close> is the parsed text of a
  receipt; \<open>rc_replace\<close> writes a temporary file and renames it.\<close>

record 'w receipt_store =
  rc_lock :: "string \<Rightarrow> (bool, 'w) act"
  rc_unlock :: "string \<Rightarrow> 'w \<Rightarrow> 'w"
  rc_exists :: "string \<Rightarrow> (bool, 'w) act"
  rc_plain :: "string \<Rightarrow> (bool, 'w) act"
  rc_read :: "string \<Rightarrow> (pyval, 'w) act"
  rc_absent :: "string \<Rightarrow> (bool, 'w) act"
  rc_replace :: "string \<Rightarrow> pydict \<Rightarrow> (unit, 'w) act"

definition receipt_stem :: "string \<Rightarrow> string \<Rightarrow> string" where
  "receipt_stem tid role = tid @ ''-'' @ role"

definition acquire :: "'w receipt_store \<Rightarrow> string \<Rightarrow> string \<Rightarrow> (unit, 'w) act" where
  "acquire rs tid role =
     andthen (rc_lock rs (receipt_stem tid role @ ''.lock'')) (\<lambda>created.
     check created ''executor_busy'')"

definition write_receipt :: "'w receipt_store \<Rightarrow> string \<Rightarrow> string \<Rightarrow> pydict \<Rightarrow> (unit, 'w) act" where
  "write_receipt rs tid role value =
     andthen (rc_absent rs (receipt_stem tid role @ ''.json'')) (\<lambda>absent.
     andthen (check absent ''receipt_exists'') (\<lambda>_.
     rc_replace rs (receipt_stem tid role @ ''.json'') value))"

text \<open>\<^verbatim>\<open>try\<close> with \<^verbatim>\<open>finally\<close>, and with a handler that ignores every exception.\<close>

definition always_then :: "('a, 'w) act \<Rightarrow> ('w \<Rightarrow> 'w) \<Rightarrow> ('a, 'w) act" where
  "always_then m cleanup w = (case m w of (r, w') \<Rightarrow> (r, cleanup w'))"

definition ignoring :: "('a, 'w) act \<Rightarrow> (unit, 'w) act" where
  "ignoring m = attempt (andthen m (\<lambda>_. ret ())) (\<lambda>_. ret ())"

record 'w executor =
  ex_api :: "'w worker_api"
  ex_workspace :: "'w local_workspace"
  ex_receipts :: "'w receipt_store"
  ex_adapters :: "(string \<times> 'w native_adapter) list"
  ex_registries :: "(string \<times> 'w registry) list"
  ex_boundary :: execution_boundary
  ex_transport :: "'w artifact_transport option"
  ex_fenced_adapter_ids :: "string list"

definition executor_ok :: "'w executor \<Rightarrow> string + unit" where
  "executor_ok ex =
     bindE (require (list_all NAME (ex_fenced_adapter_ids ex)) ''fenced_adapter_attestation_invalid'') (\<lambda>_.
     require (set (ex_fenced_adapter_ids ex) \<subseteq> fst ` set (ex_adapters ex)) ''fenced_adapter_attestation_unknown'')"

section \<open>Recovery context\<close>

definition fencing_required :: "pydict \<Rightarrow> string + bool" where
  "fencing_required d = (case map_of d ''fencing_required'' of
     None \<Rightarrow> Inr False
   | Some v \<Rightarrow>
       (case v of
          PBool b \<Rightarrow> Inr b
        | PInt i \<Rightarrow> if i = 0 then Inr False else if i = 1 then Inr True else Inl ''task_fencing_invalid''
        | _ \<Rightarrow> Inl ''task_fencing_invalid''))"

text \<open>Membership of a list or a mapping in a set raises a \<^verbatim>\<open>TypeError\<close>.\<close>

definition hashable :: "pyval \<Rightarrow> bool" where
  "hashable v \<longleftrightarrow> (case v of PList _ \<Rightarrow> False | PDict _ \<Rightarrow> False | _ \<Rightarrow> True)"

definition checkpoint_head_ok :: "pydict \<Rightarrow> string \<Rightarrow> bool" where
  "checkpoint_head_ok c tid \<longleftrightarrow>
     get c ''task_id'' = PStr tid \<and> int_all (\<lambda>g. 1 \<le> g) (get c ''lease_generation'') \<and>
     str_all SAFE_ID (get c ''attempt_id'') \<and> str_all SAFE_ID (get c ''checkpoint_id'') \<and>
     int_all (\<lambda>n. 1 \<le> n) (get c ''sequence'') \<and> str_all SAFE_ID (get c ''stage'') \<and>
     str_all (\<lambda>s. 1 \<le> length s \<and> length s \<le> 2048) (get c ''next_action'')"

definition checkpoint_effect_ok :: "pydict \<Rightarrow> bool" where
  "checkpoint_effect_ok c \<longleftrightarrow>
     (let st = get c ''effect_state''; ref = get c ''effect_result_ref'' in
      str_in [''none'', ''pending'', ''unknown'', ''confirmed'', ''not_applied''] st \<and>
      (st = PStr ''none'' \<and> get c ''effect_id'' = PNone \<and> ref = PNone \<or>
       st \<noteq> PStr ''none'' \<and> str_all SAFE_ID (get c ''effect_id'') \<and>
       (str_in [''pending'', ''unknown''] st \<and> ref = PNone \<or>
        str_in [''confirmed'', ''not_applied''] st \<and> str_all (\<lambda>s. 1 \<le> length s \<and> length s \<le> 2048) ref)))"

definition artifact_keys :: "string list" where
  "artifact_keys = [''artifact_kind'', ''artifact_ref'', ''artifact_sha256'']"

definition validate_checkpoint_shape :: "pydict \<Rightarrow> string \<Rightarrow> string + unit" where
  "validate_checkpoint_shape c tid =
     bindE (require (checkpoint_head_ok c tid) ''recovery_context_invalid'') (\<lambda>_.
     bindE (require (list_all (\<lambda>k. get c k = PNone) artifact_keys \<or> list_all (\<lambda>k. get c k \<noteq> PNone) artifact_keys)
              ''recovery_context_invalid'') (\<lambda>_.
     bindE (if get c ''artifact_kind'' = PNone then Inr () else bindE (artifact_from_checkpoint c) (\<lambda>_. Inr ())) (\<lambda>_.
     bindE (require (hashable (get c ''effect_state'')) other_error) (\<lambda>_.
     require (checkpoint_effect_ok c) ''recovery_context_invalid''))))"

definition older_than :: "int \<Rightarrow> pydict \<Rightarrow> bool" where
  "older_than generation c \<longleftrightarrow> int_all (\<lambda>g. g < generation) (get c ''lease_generation'')"

definition effect_item_ok :: "int \<Rightarrow> string list \<Rightarrow> pydict \<Rightarrow> bool" where
  "effect_item_ok generation seen c \<longleftrightarrow>
     str_all (\<lambda>e. e \<notin> set seen) (get c ''effect_id'') \<and> older_than generation c \<and>
     str_in [''pending'', ''unknown'', ''confirmed'', ''not_applied''] (get c ''effect_state'')"

definition outcome_ok :: "pydict \<Rightarrow> bool" where
  "outcome_ok c \<longleftrightarrow>
     (let out = get c ''reconciliation_outcome'' in
      out = PNone \<or>
      str_in [''confirmed'', ''not_applied''] out \<and> str_in [''pending'', ''unknown''] (get c ''effect_state'') \<and>
      str_all (\<lambda>s. 1 \<le> length s \<and> length s \<le> 2048) (get c ''reconciliation_readback_ref''))"

definition text_of :: "pyval \<Rightarrow> string" where
  "text_of v = (case v of PStr s \<Rightarrow> s | _ \<Rightarrow> [])"

fun validate_effects :: "string \<Rightarrow> int \<Rightarrow> string list \<Rightarrow> pydict list \<Rightarrow> string + unit" where
  "validate_effects tid generation seen [] = Inr ()"
| "validate_effects tid generation seen (c # cs) =
     bindE (validate_checkpoint_shape c tid) (\<lambda>_.
     bindE (require (effect_item_ok generation seen c) ''recovery_context_invalid'') (\<lambda>_.
     bindE (require (hashable (get c ''reconciliation_outcome'')) other_error) (\<lambda>_.
     bindE (require (outcome_ok c) ''recovery_context_invalid'') (\<lambda>_.
     validate_effects tid generation (text_of (get c ''effect_id'') # seen) cs))))"

definition compared_fields :: "string list" where
  "compared_fields = [''checkpoint_id'', ''lease_generation'', ''attempt_id'', ''sequence'', ''stage'', ''artifact_kind'', ''artifact_ref'',
     ''artifact_sha256'', ''next_action'', ''effect_id'', ''effect_state'', ''effect_result_ref'']"

definition latest_matches :: "pydict option \<Rightarrow> pydict list \<Rightarrow> bool" where
  "latest_matches latest effects \<longleftrightarrow> (case latest of
     None \<Rightarrow> True
   | Some l \<Rightarrow>
       get l ''effect_id'' = PNone \<or>
       (case find (\<lambda>c. get c ''effect_id'' = get l ''effect_id'') effects of
          None \<Rightarrow> False | Some c \<Rightarrow> same_fields compared_fields c l))"

definition recovery_parts :: "pyval \<Rightarrow> string + pydict option \<times> pydict list" where
  "recovery_parts raw = (case raw of
     PDict d \<Rightarrow>
       if fst ` set d = {''latest_checkpoint'', ''effects''}
       then (case (get d ''latest_checkpoint'', get d ''effects'') of
           (PNone, PList es) \<Rightarrow>
             if length es \<le> 64 \<and> list_all (\<lambda>v. dict_of v \<noteq> None) es then Inr (None, List.map_filter dict_of es)
             else Inl ''recovery_context_invalid''
         | (PDict l, PList es) \<Rightarrow>
             if length es \<le> 64 \<and> list_all (\<lambda>v. dict_of v \<noteq> None) es then Inr (Some l, List.map_filter dict_of es)
             else Inl ''recovery_context_invalid''
         | _ \<Rightarrow> Inl ''recovery_context_invalid'')
       else Inl ''recovery_context_invalid''
   | _ \<Rightarrow> Inl ''recovery_context_invalid'')"

definition read_recovery :: "pyval \<Rightarrow> string \<Rightarrow> int \<Rightarrow> string + pydict option \<times> pydict list" where
  "read_recovery raw tid generation =
     bindE (recovery_parts raw) (\<lambda>(latest, effects).
     bindE (case latest of
         None \<Rightarrow> Inr ()
       | Some l \<Rightarrow> bindE (validate_checkpoint_shape l tid) (\<lambda>_. require (older_than generation l) ''recovery_context_invalid'')) (\<lambda>_.
     bindE (validate_effects tid generation [] effects) (\<lambda>_.
     bindE (require (latest_matches latest effects) ''recovery_context_invalid'') (\<lambda>_.
     Inr (latest, effects)))))"

definition resumable :: "pydict \<Rightarrow> bool" where
  "resumable l \<longleftrightarrow> get l ''stage'' = PStr ''builder_result'' \<and> get l ''next_action'' = PStr ''submit_validation''"

definition effective_state :: "pydict \<Rightarrow> pyval" where
  "effective_state c = (if truthy (get c ''reconciliation_outcome'') then get c ''reconciliation_outcome'' else get c ''effect_state'')"

fun validate_recovery_effects :: "pydict option \<Rightarrow> pydict list \<Rightarrow> string + unit" where
  "validate_recovery_effects latest [] = Inr ()"
| "validate_recovery_effects latest (c # cs) =
     (if effective_state c = PStr ''not_applied''
      then bindE (require (case latest of None \<Rightarrow> True | Some l \<Rightarrow> get c ''effect_id'' \<noteq> get l ''effect_id'')
               ''recovery_effect_not_resumable'') (\<lambda>_. validate_recovery_effects latest cs)
      else case latest of
        None \<Rightarrow> Inl ''recovery_effect_unsafe''
      | Some l \<Rightarrow>
          bindE (require (effective_state c = PStr ''confirmed'' \<and> get c ''effect_id'' = get l ''effect_id'' \<and>
                          get l ''effect_state'' = PStr ''confirmed'' \<and> resumable l) ''recovery_effect_unsafe'') (\<lambda>_.
          bindE (artifact_from_checkpoint l) (\<lambda>_.
          validate_recovery_effects latest cs)))"

section \<open>Leases, identities and results\<close>

text \<open>\<^verbatim>\<open>value or {}\<close>, of which a field is then read.\<close>

definition dict_or_empty :: "pyval \<Rightarrow> string + pydict" where
  "dict_or_empty v = (if \<not> truthy v then Inr [] else case v of PDict d \<Rightarrow> Inr d | _ \<Rightarrow> Inl other_error)"

definition lease_fence :: "bool \<Rightarrow> pydict \<Rightarrow> pydict \<Rightarrow> string + (int \<times> string) option" where
  "lease_fence fenced lease task =
     (if \<not> fenced then Inr None
      else case (get lease ''lease_generation'', get lease ''attempt_id'') of
        (PInt g, PStr n) \<Rightarrow>
          if 1 \<le> g \<and> SAFE_ID n \<and> py_eq (get task ''lease_generation'') (PInt g) \<and> get task ''attempt_id'' = PStr n
          then Inr (Some (g, n)) else Inl ''lease_fence_invalid''
      | _ \<Rightarrow> Inl ''lease_fence_invalid'')"

definition checkpoint_id_of :: "string \<Rightarrow> string \<Rightarrow> string \<Rightarrow> string" where
  "checkpoint_id_of attempt_id role stage =
     ''native-'' @ role @ ''-'' @ stage @ ''-'' @ take 32 (sha256_hex (attempt_id @ '':'' @ role @ '':'' @ stage))"

definition artifact_effect_id :: "string \<Rightarrow> string \<Rightarrow> string" where
  "artifact_effect_id tid produced = ''native-artifact-'' @ take 32 (sha256_hex (tid @ '':'' @ produced))"

definition result_paths_ok :: "adapter_descriptor \<Rightarrow> string list \<Rightarrow> bool" where
  "result_paths_ok d paths \<longleftrightarrow> paths \<noteq> [] \<and> sorted_set paths \<and> set paths \<subseteq> set (ds_allowed_paths d)"

definition validate_recovered_result :: "adapter_result \<Rightarrow> adapter_descriptor \<Rightarrow> string + unit" where
  "validate_recovered_result r d =
     bindE (require (SHA40 (ar_produced_sha r)) ''artifact_result_sha'') (\<lambda>_.
     bindE (safe_paths (ar_changed_paths r)) (\<lambda>paths.
     bindE (require (result_paths_ok d paths) ''artifact_result_paths'') (\<lambda>_.
     bindE (commands_for d ''builder'') (\<lambda>cs.
     bindE (require (length (ar_invoked_commands r) = length cs \<and> set (ar_invoked_commands r) = set cs)
              ''artifact_result_commands'') (\<lambda>_.
     require (SHA256 (ar_evidence_sha256 r)) ''artifact_result_evidence'')))))"

definition validate_result :: "adapter_result \<Rightarrow> adapter_descriptor \<Rightarrow> string list \<Rightarrow> string \<Rightarrow> string + unit" where
  "validate_result r d invoked role =
     bindE (require (SHA40 (ar_produced_sha r)) ''adapter_result_sha'') (\<lambda>_.
     bindE (safe_paths (ar_changed_paths r)) (\<lambda>paths.
     bindE (require (result_paths_ok d paths) ''adapter_result_paths'') (\<lambda>_.
     bindE (commands_for d role) (\<lambda>cs.
     bindE (require (ar_invoked_commands r = invoked \<and> set (ar_invoked_commands r) \<subseteq> set cs) ''adapter_result_commands'') (\<lambda>_.
     require (SHA256 (ar_evidence_sha256 r)) ''adapter_result_evidence'')))))"

section \<open>Replay of a receipt\<close>

record 'w job =
  jb_raw :: pyval
  jb_manifest :: task_manifest
  jb_adapter :: "'w native_adapter"
  jb_role :: string
  jb_worker :: string

definition workspace_id :: "'w executor \<Rightarrow> string" where
  "workspace_id ex = sha256_hex (ws_root (ex_workspace ex))"

definition result_name :: "string \<Rightarrow> string" where
  "result_name role = (if role = ''builder'' then ''NATIVE_ONE_SHOT_BUILT'' else ''NATIVE_ONE_SHOT_VALIDATED'')"

definition receipt_fields :: "bool \<Rightarrow> string list" where
  "receipt_fields fenced =
     [''schema_version'', ''result'', ''task_id'', ''role'', ''worker_id'', ''manifest_sha256'', ''adapter_contract_sha256'', ''produced_sha'',
      ''evidence_sha256'', ''changed_paths'', ''invoked_commands'', ''session_id'', ''correlation_id'', ''gateway_verified'',
      ''workspace_id'', ''replayed''] @
     (if fenced then [''fencing_required'', ''lease_generation'', ''attempt_id''] @ artifact_keys else [])"

text \<open>\<^verbatim>\<open>type(v) is list\<close> of texts.\<close>

definition text_list :: "pyval \<Rightarrow> string list option" where
  "text_list v = (case v of
     PList vs \<Rightarrow> if list_all (\<lambda>x. str_of x \<noteq> None) vs then Some (List.map_filter str_of vs) else None | _ \<Rightarrow> None)"

definition receipt_matches :: "'w executor \<Rightarrow> 'w job \<Rightarrow> bool \<Rightarrow> pydict \<Rightarrow> bool" where
  "receipt_matches ex jb fenced p \<longleftrightarrow>
     (let d = na_descriptor (jb_adapter jb); cs = role_commands d (jb_role jb) in
      fst ` set p = set (receipt_fields fenced) \<and>
      py_eq (get p ''schema_version'') (PInt (if fenced then 2 else 1)) \<and>
      get p ''manifest_sha256'' = PStr (digest (jb_raw jb)) \<and> get p ''task_id'' = PStr (mf_task_id (jb_manifest jb)) \<and>
      get p ''role'' = PStr (jb_role jb) \<and> get p ''worker_id'' = PStr (jb_worker jb) \<and>
      get p ''adapter_contract_sha256'' = PStr (mf_adapter_contract_sha256 (jb_manifest jb)) \<and>
      get p ''result'' = PStr (result_name (jb_role jb)) \<and> get p ''workspace_id'' = PStr (workspace_id ex) \<and>
      get p ''session_id'' = PStr (eb_session_id (ex_boundary ex)) \<and>
      get p ''correlation_id'' = PStr (eb_correlation_id (ex_boundary ex)) \<and>
      get p ''gateway_verified'' = PBool True \<and> get p ''replayed'' = PBool False \<and> str_all SHA256 (get p ''evidence_sha256'') \<and>
      (case text_list (get p ''changed_paths'') of
         None \<Rightarrow> False | Some ps \<Rightarrow> set ps \<subseteq> set (ds_allowed_paths d) \<and> distinct ps) \<and>
      (case text_list (get p ''invoked_commands'') of
         None \<Rightarrow> False | Some ks \<Rightarrow> set ks = set cs \<and> length ks = length cs))"

text \<open>What the file of a receipt holds need not be a mapping.\<close>

definition as_receipt :: "bool \<Rightarrow> pyval \<Rightarrow> string + pydict" where
  "as_receipt fenced v = (case v of
     PDict d \<Rightarrow> Inr d
   | PStr _ \<Rightarrow> Inl ''receipt_mismatch''
   | PList vs \<Rightarrow> if list_all hashable vs \<and> set vs \<noteq> PStr ` set (receipt_fields fenced) then Inl ''receipt_mismatch'' else Inl other_error
   | _ \<Rightarrow> Inl other_error)"

definition expected_state :: "string \<Rightarrow> string list" where
  "expected_state role = (if role = ''validator'' then [''completed''] else [''validating'', ''completed''])"

definition receipt_lease_ok :: "pydict \<Rightarrow> pydict \<Rightarrow> bool" where
  "receipt_lease_ok p task \<longleftrightarrow>
     get p ''fencing_required'' = PBool True \<and> int_all (\<lambda>g. 1 \<le> g) (get p ''lease_generation'') \<and>
     str_all (\<lambda>_. True) (get p ''attempt_id'') \<and> py_eq (get task ''lease_generation'') (get p ''lease_generation'')"

definition receipt_checkpoint_ok :: "string \<Rightarrow> string \<Rightarrow> string \<Rightarrow> pydict \<Rightarrow> durable_artifact \<Rightarrow> pydict \<Rightarrow> bool" where
  "receipt_checkpoint_ok role tid produced p art c \<longleftrightarrow>
     py_eq (get c ''lease_generation'') (get p ''lease_generation'') \<and> get c ''attempt_id'' = get p ''attempt_id'' \<and>
     get c ''stage'' = PStr (if role = ''builder'' then ''builder_result'' else ''validator_result'') \<and>
     get c ''next_action'' = PStr (if role = ''builder'' then ''submit_validation'' else ''complete'') \<and>
     get c ''artifact_kind'' = PStr (da_kind art) \<and> get c ''artifact_ref'' = PStr (da_ref art) \<and>
     get c ''artifact_sha256'' = PStr (da_sha256 art) \<and>
     (role = ''builder'' \<and> get c ''effect_state'' = PStr ''confirmed'' \<and>
        get c ''effect_id'' = PStr (artifact_effect_id tid produced) \<and> get c ''effect_result_ref'' = PStr (da_ref art) \<or>
      role = ''validator'' \<and> get c ''effect_state'' = PStr ''none'')"

fun put_field :: "string \<Rightarrow> pyval \<Rightarrow> pydict \<Rightarrow> pydict" where
  "put_field k v [] = [(k, v)]"
| "put_field k v ((k', v') # d) = (if k' = k then (k, v) # d else (k', v') # put_field k v d)"

definition the_transport :: "'w executor \<Rightarrow> string + 'w artifact_transport" where
  "the_transport ex = (case ex_transport ex of None \<Rightarrow> Inl ''durable_artifact_transport_required'' | Some t \<Rightarrow> Inr t)"

definition verify_artifact :: "'w executor \<Rightarrow> 'w job \<Rightarrow> string \<Rightarrow> durable_artifact \<Rightarrow> (unit, 'w) act" where
  "verify_artifact ex jb produced art =
     andthen (lift (the_transport ex)) (\<lambda>t. tp_verify t (jb_manifest jb) produced art)"

text \<open>The part of a replay that consults the pool's latest checkpoint.\<close>

definition replay_checkpoint :: "'w executor \<Rightarrow> 'w job \<Rightarrow> string \<Rightarrow> pydict \<Rightarrow> durable_artifact \<Rightarrow> (unit, 'w) act" where
  "replay_checkpoint ex jb produced p art =
     (let tid = mf_task_id (jb_manifest jb) in
      andthen (wa_get_latest_checkpoint (ex_api ex) tid) (\<lambda>v.
      andthen (lift (case v of PDict c \<Rightarrow> Inr c | _ \<Rightarrow> Inl ''receipt_checkpoint_missing'')) (\<lambda>c.
      andthen (lift (validate_checkpoint_shape c tid)) (\<lambda>_.
      andthen (check (receipt_checkpoint_ok (jb_role jb) tid produced p art c) ''receipt_checkpoint_drift'') (\<lambda>_.
      verify_artifact ex jb produced art)))))"

definition replay :: "'w executor \<Rightarrow> 'w job \<Rightarrow> bool \<Rightarrow> pydict \<Rightarrow> (pydict, 'w) act" where
  "replay ex jb fenced task =
     (let rs = ex_receipts ex; ws = ex_workspace ex; m = jb_manifest jb;
          path = receipt_stem (mf_task_id m) (jb_role jb) @ ''.json'' in
      andthen (rc_plain rs path) (\<lambda>plain.
      andthen (check plain ''receipt_invalid'') (\<lambda>_.
      andthen (rc_read rs path) (\<lambda>v.
      andthen (lift (as_receipt fenced v)) (\<lambda>p.
      andthen (check (receipt_matches ex jb fenced p) ''receipt_mismatch'') (\<lambda>_.
      andthen (lift (text_field SHA40 p ''produced_sha'' ''receipt_produced_sha'')) (\<lambda>produced.
      andthen (check (str_in (expected_state (jb_role jb)) (get task ''state'') \<and> get task ''produced_sha'' = PStr produced)
                 ''receipt_canonical_state'') (\<lambda>_.
      andthen (check (\<not> fenced \<or> receipt_lease_ok p task) ''receipt_lease_stale'') (\<lambda>_.
      andthen (lift (if fenced then bindE (artifact_from_checkpoint p) (\<lambda>a. Inr (Some a)) else Inr None)) (\<lambda>art.
      andthen (validate_replay ws produced) (\<lambda>_.
      andthen (workspace_changed_paths ws (mf_base_sha m) produced) (\<lambda>paths.
      andthen (check (text_list (get p ''changed_paths'') = Some paths) ''receipt_mismatch'') (\<lambda>_.
      andthen (case art of None \<Rightarrow> ret () | Some a \<Rightarrow> replay_checkpoint ex jb produced p a) (\<lambda>_.
      ret (put_field ''replayed'' (PBool True) p)))))))))))))))"

section \<open>Claim and recovery\<close>

text \<open>\<open>fromisoformat\<close> is the standard function, \<open>clock\<close> the worker's own time when the claim has been answered.\<close>

definition lease_ok :: "(string \<Rightarrow> observation) \<Rightarrow> timestamp \<Rightarrow> 'w job \<Rightarrow> pydict \<Rightarrow> bool" where
  "lease_ok fromisoformat clock jb lease \<longleftrightarrow>
     str_all (\<lambda>s. 16 \<le> length s \<and> length s \<le> 128) (get lease ''lease_token'') \<and>
     get lease ''task_id'' = PStr (mf_task_id (jb_manifest jb)) \<and> get lease ''worker_id'' = PStr (jb_worker jb) \<and>
     get lease ''role'' = PStr (jb_role jb) \<and>
     str_all (\<lambda>s. case fromisoformat s of At d \<Rightarrow> clock < d | _ \<Rightarrow> False) (get lease ''lease_expires_at'')"

record held =
  hl_proof :: lease_proof
  hl_fence :: "(int \<times> string) option"
  hl_task :: pydict
  hl_recovery :: pyval

definition lease_proof_of :: "'w job \<Rightarrow> pydict \<Rightarrow> (int \<times> string) option \<Rightarrow> lease_proof" where
  "lease_proof_of jb lease fence =
     \<lparr>p_task_id = mf_task_id (jb_manifest jb), p_worker_id = jb_worker jb, p_lease_token = text_of (get lease ''lease_token''),
      p_lease_generation = map_option fst fence, p_attempt_id = map_option snd fence\<rparr>"

definition run_correlation :: "'w executor \<Rightarrow> string" where
  "run_correlation ex = eb_correlation_id (ex_boundary ex)"

definition send_claim :: "'w executor \<Rightarrow> 'w job \<Rightarrow> bool \<Rightarrow> (pydict, 'w) act" where
  "send_claim ex jb fenced =
     (let tid = mf_task_id (jb_manifest jb) in
      if fenced
      then andthen (lift (the_transport ex)) (\<lambda>t.
           andthen (attempt (tp_preflight t) (\<lambda>_. raise ''durable_artifact_preflight_failed'')) (\<lambda>_.
           wa_claim_fenced_exact (ex_api ex) (jb_worker jb) tid (run_correlation ex)))
      else wa_claim_exact (ex_api ex) (jb_worker jb) tid (run_correlation ex))"

definition claim_job ::
  "(string \<Rightarrow> observation) \<Rightarrow> timestamp \<Rightarrow> 'w executor \<Rightarrow> 'w job \<Rightarrow> bool \<Rightarrow> (held, 'w) act" where
  "claim_job fromisoformat clock ex jb fenced =
     andthen (send_claim ex jb fenced) (\<lambda>claim.
     andthen (check (get claim ''claimed'' = PBool True) ''claim_unavailable'') (\<lambda>_.
     andthen (lift (dict_or_empty (get claim ''lease''))) (\<lambda>lease.
     andthen (check (lease_ok fromisoformat clock jb lease) ''lease_invalid'') (\<lambda>_.
     andthen (lift (dict_or_empty (get claim ''task''))) (\<lambda>task.
     andthen (lift (fencing_required task)) (\<lambda>f.
     andthen (check (f = fenced) ''claimed_task_fencing_drift'') (\<lambda>_.
     andthen (lift (lease_fence fenced lease task)) (\<lambda>fence.
     ret \<lparr>hl_proof = lease_proof_of jb lease fence, hl_fence = fence, hl_task = task,
          hl_recovery = get claim ''recovery_context''\<rparr>))))))))"

definition recovered :: "'w executor \<Rightarrow> 'w job \<Rightarrow> held \<Rightarrow> (pydict option, 'w) act" where
  "recovered ex jb h = (case hl_fence h of
     None \<Rightarrow> ret None
   | Some (generation, _) \<Rightarrow>
       attempt
         (lift (bindE (read_recovery (hl_recovery h) (mf_task_id (jb_manifest jb)) generation) (\<lambda>(latest, effects).
                bindE (validate_recovery_effects latest effects) (\<lambda>_. Inr latest))))
         (\<lambda>e. andthen (ignoring (wa_block (ex_api ex) (hl_proof h) (run_correlation ex) ''unsafe_recovery_context'')) (\<lambda>_.
              raise e)))"

definition claimed_ok :: "'w job \<Rightarrow> pydict \<Rightarrow> bool" where
  "claimed_ok jb task \<longleftrightarrow>
     get task ''task_id'' = PStr (mf_task_id (jb_manifest jb)) \<and> get task ''repository'' = PStr (mf_repository (jb_manifest jb)) \<and>
     get task ''base_sha'' = PStr (mf_base_sha (jb_manifest jb)) \<and>
     get task ''state'' = PStr (if jb_role jb = ''builder'' then ''leased'' else ''validating'') \<and>
     get task ''leased_by'' = PStr (jb_worker jb)"

definition check_claimed :: "'w executor \<Rightarrow> 'w job \<Rightarrow> held \<Rightarrow> (unit, 'w) act" where
  "check_claimed ex jb h =
     (if claimed_ok jb (hl_task h) then ret ()
      else andthen (ignoring (wa_fail (ex_api ex) (hl_proof h) (run_correlation ex) ''claimed_task_drift'')) (\<lambda>_.
           raise ''claimed_task_drift''))"

section \<open>The work\<close>

definition checkpoint_request_of ::
  "'w executor \<Rightarrow> 'w job \<Rightarrow> held \<Rightarrow> int \<times> string \<Rightarrow> string \<Rightarrow> int \<Rightarrow> string \<Rightarrow> string \<Rightarrow> checkpoint_request" where
  "checkpoint_request_of ex jb h fence label sequence stage next_action =
     \<lparr>i_task_id = mf_task_id (jb_manifest jb), i_worker_id = jb_worker jb, i_lease_token = p_lease_token (hl_proof h),
      i_lease_generation = fst fence, i_attempt_id = snd fence,
      i_checkpoint_id = checkpoint_id_of (snd fence) (jb_role jb) label, i_sequence = sequence, i_stage = stage,
      i_next_action = next_action, i_correlation_id = run_correlation ex, i_artifact_kind = None, i_artifact_ref = None,
      i_artifact_sha256 = None, i_effect_id = None, i_effect_state = ''none'', i_effect_result_ref = None\<rparr>"

definition with_artifact :: "durable_artifact \<Rightarrow> checkpoint_request \<Rightarrow> checkpoint_request" where
  "with_artifact art i = i\<lparr>i_artifact_kind := Some (da_kind art), i_artifact_ref := Some (da_ref art), i_artifact_sha256 := Some (da_sha256 art)\<rparr>"

definition with_effect :: "string \<Rightarrow> string \<Rightarrow> string option \<Rightarrow> checkpoint_request \<Rightarrow> checkpoint_request" where
  "with_effect e st ref i = i\<lparr>i_effect_id := Some e, i_effect_state := st, i_effect_result_ref := ref\<rparr>"

definition invoker_of :: "'w executor \<Rightarrow> 'w job \<Rightarrow> 'w invoker" where
  "invoker_of ex jb =
     invoke (case map_of (ex_registries ex) (mf_adapter_id (jb_manifest jb)) of None \<Rightarrow> [] | Some r \<Rightarrow> r)
       (role_commands (na_descriptor (jb_adapter jb)) (jb_role jb))"

text \<open>The builder's result: materialized from the checkpoint it resumes at, or built; then there are invoked commands.\<close>

definition produce ::
  "'w executor \<Rightarrow> 'w job \<Rightarrow> pydict option \<Rightarrow> (adapter_result \<times> string list option \<times> durable_artifact option, 'w) act" where
  "produce ex jb latest = (case latest of
     Some l \<Rightarrow>
       andthen (check (resumable l) ''fenced_resume_checkpoint_unsupported'') (\<lambda>_.
       andthen (lift (artifact_from_checkpoint l)) (\<lambda>art.
       andthen (lift (the_transport ex)) (\<lambda>t.
       andthen (tp_materialize t (jb_manifest jb) art) (\<lambda>r.
       andthen (lift (validate_recovered_result r (na_descriptor (jb_adapter jb)))) (\<lambda>_.
       ret (r, None, Some art))))))
   | None \<Rightarrow>
       andthen (run_adapter (na_build (jb_adapter jb) (invoker_of ex jb))) (\<lambda>(r, invoked).
       andthen (lift (validate_result r (na_descriptor (jb_adapter jb)) invoked (jb_role jb))) (\<lambda>_.
       ret (r, Some invoked, None))))"

definition all_commands :: "'w job \<Rightarrow> string list \<Rightarrow> bool" where
  "all_commands jb invoked \<longleftrightarrow> set invoked = set (role_commands (na_descriptor (jb_adapter jb)) (jb_role jb))"

definition check_built :: "'w executor \<Rightarrow> 'w job \<Rightarrow> adapter_result \<Rightarrow> string list option \<Rightarrow> (unit, 'w) act" where
  "check_built ex jb r invoked =
     andthen (workspace_head (ex_workspace ex)) (\<lambda>h.
     andthen (check (h = ar_produced_sha r) ''builder_produced_sha_drift'') (\<lambda>_.
     andthen (workspace_status (ex_workspace ex)) (\<lambda>st.
     andthen (check (st = []) ''builder_workspace_dirty'') (\<lambda>_.
     andthen (workspace_changed_paths (ex_workspace ex) (mf_base_sha (jb_manifest jb)) (ar_produced_sha r)) (\<lambda>paths.
     andthen (check (paths = ar_changed_paths r) ''builder_diff_mismatch'') (\<lambda>_.
     check (case invoked of None \<Rightarrow> True | Some ks \<Rightarrow> all_commands jb ks) ''required_command_missing''))))))"

text \<open>The artifact is published between two checkpoints: the effect is pending before, and unknown when anything
  goes wrong after.\<close>

definition publish_artifact ::
  "'w executor \<Rightarrow> 'w job \<Rightarrow> held \<Rightarrow> int \<times> string \<Rightarrow> string \<Rightarrow> adapter_result \<Rightarrow> (durable_artifact, 'w) act" where
  "publish_artifact ex jb h fence effect r =
     (let request = checkpoint_request_of ex jb h fence; m = jb_manifest jb in
      andthen (wa_record_checkpoint (ex_api ex)
                 (with_effect effect ''pending'' None (request ''artifact-pending'' 1 ''artifact_publish'' ''publish_artifact''))) (\<lambda>_.
      attempt
        (andthen (lift (the_transport ex)) (\<lambda>t.
         andthen (tp_publish t m (fst fence) (snd fence) effect r) (\<lambda>raw.
         andthen (lift (parse_artifact raw)) (\<lambda>art.
         andthen (tp_verify t m (ar_produced_sha r) art) (\<lambda>_.
         ret art)))))
        (\<lambda>_.
         andthen (ignoring (wa_record_checkpoint (ex_api ex)
                    (with_effect effect ''unknown'' None (request ''artifact-unknown'' 2 ''artifact_publish'' ''reconcile_artifact'')))) (\<lambda>_.
         andthen (ignoring (wa_block (ex_api ex) (hl_proof h) (run_correlation ex) ''artifact_publish_ambiguous'')) (\<lambda>_.
         raise ''artifact_publish_ambiguous'')))))"

definition settle_artifact ::
  "'w executor \<Rightarrow> 'w job \<Rightarrow> held \<Rightarrow> int \<times> string \<Rightarrow> pydict option \<Rightarrow> adapter_result \<Rightarrow> durable_artifact option \<Rightarrow>
   (durable_artifact, 'w) act" where
  "settle_artifact ex jb h fence latest r found =
     (let effect = artifact_effect_id (mf_task_id (jb_manifest jb)) (ar_produced_sha r) in
      andthen (check (case latest of None \<Rightarrow> True | Some l \<Rightarrow> get l ''effect_id'' = PStr effect) ''artifact_effect_identity_drift'') (\<lambda>_.
      andthen (case found of
          None \<Rightarrow> publish_artifact ex jb h fence effect r
        | Some art \<Rightarrow> andthen (verify_artifact ex jb (ar_produced_sha r) art) (\<lambda>_. ret art)) (\<lambda>art.
      andthen (wa_record_checkpoint (ex_api ex)
                 (with_effect effect ''confirmed'' (Some (da_ref art)) (with_artifact art
                    (checkpoint_request_of ex jb h fence ''result'' (if latest = None then 2 else 1) ''builder_result'' ''submit_validation'')))) (\<lambda>_.
      ret art))))"

definition build_job :: "'w executor \<Rightarrow> 'w job \<Rightarrow> held \<Rightarrow> pydict option \<Rightarrow> (adapter_result \<times> durable_artifact option, 'w) act" where
  "build_job ex jb h latest =
     andthen (wa_start (ex_api ex) (hl_proof h) (run_correlation ex)) (\<lambda>_.
     andthen (produce ex jb latest) (\<lambda>(r, invoked, found).
     andthen (check_built ex jb r invoked) (\<lambda>_.
     andthen (case hl_fence h of
         None \<Rightarrow> ret None
       | Some fence \<Rightarrow> andthen (settle_artifact ex jb h fence latest r found) (\<lambda>art. ret (Some art))) (\<lambda>art.
     andthen (wa_submit_validation (ex_api ex) (hl_proof h) (ar_produced_sha r) (run_correlation ex)) (\<lambda>_.
     ret (r, art))))))"

text \<open>The validator: the artifact of the builder's checkpoint, then the adapter, which must leave the workspace as it is.\<close>

definition verified_artifact ::
  "'w executor \<Rightarrow> 'w job \<Rightarrow> held \<Rightarrow> pydict option \<Rightarrow> string \<Rightarrow> (durable_artifact option, 'w) act" where
  "verified_artifact ex jb h latest produced = (case hl_fence h of
     None \<Rightarrow> ret None
   | Some _ \<Rightarrow>
       andthen (lift (case latest of
           Some l \<Rightarrow> if resumable l then Inr l else Inl ''validator_artifact_checkpoint_missing''
         | None \<Rightarrow> Inl ''validator_artifact_checkpoint_missing'')) (\<lambda>l.
       andthen (lift (artifact_from_checkpoint l)) (\<lambda>art.
       andthen (verify_artifact ex jb produced art) (\<lambda>_.
       ret (Some art)))))"

definition unchanged :: "'w executor \<Rightarrow> string \<Rightarrow> string \<Rightarrow> string \<Rightarrow> (unit, 'w) act" where
  "unchanged ex produced before_head before_status =
     andthen (workspace_head (ex_workspace ex)) (\<lambda>h.
     andthen (check (h = before_head \<and> before_head = produced) ''validator_sha_drift'') (\<lambda>_.
     andthen (workspace_status (ex_workspace ex)) (\<lambda>st.
     check (st = before_status \<and> before_status = []) ''validator_sha_drift'')))"

definition validate_job :: "'w executor \<Rightarrow> 'w job \<Rightarrow> held \<Rightarrow> pydict option \<Rightarrow> (adapter_result \<times> durable_artifact option, 'w) act" where
  "validate_job ex jb h latest =
     andthen (lift (text_field SHA40 (hl_task h) ''produced_sha'' ''validation_sha_missing'')) (\<lambda>produced.
     andthen (check (mf_workspace_sha (jb_manifest jb) = produced) ''validator_workspace_sha_drift'') (\<lambda>_.
     andthen (verified_artifact ex jb h latest produced) (\<lambda>found.
     andthen (workspace_head (ex_workspace ex)) (\<lambda>before_head.
     andthen (workspace_status (ex_workspace ex)) (\<lambda>before_status.
     andthen (run_adapter (na_validate (jb_adapter jb) (invoker_of ex jb) produced)) (\<lambda>(r, invoked).
     andthen (lift (validate_result r (na_descriptor (jb_adapter jb)) invoked (jb_role jb))) (\<lambda>_.
     andthen (check (ar_produced_sha r = produced) ''validator_sha_drift'') (\<lambda>_.
     andthen (unchanged ex produced before_head before_status) (\<lambda>_.
     andthen (check (all_commands jb invoked) ''required_command_missing'') (\<lambda>_.
     andthen (case (hl_fence h, found) of
         (Some fence, Some art) \<Rightarrow>
           andthen (wa_record_checkpoint (ex_api ex)
                      (with_artifact art (checkpoint_request_of ex jb h fence ''result'' 1 ''validator_result'' ''complete''))) (\<lambda>_. ret ())
       | _ \<Rightarrow> ret ()) (\<lambda>_.
     andthen (wa_complete (ex_api ex) (hl_proof h) (run_correlation ex)) (\<lambda>_.
     ret (r, found)))))))))))))"

definition reported_codes :: "string list" where
  "reported_codes = [''adapter_result_sha'', ''adapter_result_paths'', ''adapter_result_commands'', ''adapter_result_evidence'',
     ''builder_produced_sha_drift'', ''builder_workspace_dirty'', ''builder_diff_mismatch'', ''required_command_missing'',
     ''validation_sha_missing'', ''validator_workspace_sha_drift'', ''validator_sha_drift'', ''command_not_allowlisted'',
     ''artifact_publish_ambiguous'']"

text \<open>The handler of the work: the failure is reported unless the publication is ambiguous, and the exception is
  raised again, or replaced when it is none of the reported ones.\<close>

definition report_failure :: "'w executor \<Rightarrow> held \<Rightarrow> string \<Rightarrow> ('a, 'w) act" where
  "report_failure ex h e =
     (let reason = if e \<in> set reported_codes then e else ''adapter_failed'' in
      andthen (if e = ''artifact_publish_ambiguous'' then ret False
               else attempt (andthen (wa_fail (ex_api ex) (hl_proof h) (run_correlation ex) reason) (\<lambda>_. ret False)) (\<lambda>_. ret True)) (\<lambda>rejected.
      if rejected \<and> e \<noteq> other_error then raise e
      else if e \<notin> set reported_codes then raise ''adapter_failed''
      else raise e))"

definition work :: "'w executor \<Rightarrow> 'w job \<Rightarrow> held \<Rightarrow> pydict option \<Rightarrow> (adapter_result \<times> durable_artifact option, 'w) act" where
  "work ex jb h latest =
     attempt (if jb_role jb = ''builder'' then build_job ex jb h latest else validate_job ex jb h latest) (report_failure ex h)"

section \<open>A run\<close>

definition receipt_of :: "'w executor \<Rightarrow> 'w job \<Rightarrow> held \<Rightarrow> adapter_result \<times> durable_artifact option \<Rightarrow> pydict" where
  "receipt_of ex jb h res = (case res of (r, found) \<Rightarrow>
     [(''schema_version'', PInt (if hl_fence h = None then 1 else 2)), (''result'', PStr (result_name (jb_role jb))),
      (''task_id'', PStr (mf_task_id (jb_manifest jb))), (''role'', PStr (jb_role jb)), (''worker_id'', PStr (jb_worker jb)),
      (''manifest_sha256'', PStr (digest (jb_raw jb))),
      (''adapter_contract_sha256'', PStr (mf_adapter_contract_sha256 (jb_manifest jb))),
      (''produced_sha'', PStr (ar_produced_sha r)), (''evidence_sha256'', PStr (ar_evidence_sha256 r)),
      (''changed_paths'', texts (ar_changed_paths r)), (''invoked_commands'', texts (ar_invoked_commands r)),
      (''session_id'', PStr (eb_session_id (ex_boundary ex))), (''correlation_id'', PStr (run_correlation ex)),
      (''gateway_verified'', PBool True), (''replayed'', PBool False), (''workspace_id'', PStr (workspace_id ex))] @
     (case (hl_fence h, found) of
        (Some (generation, attempt_id), Some art) \<Rightarrow>
          [(''fencing_required'', PBool True), (''lease_generation'', PInt generation), (''attempt_id'', PStr attempt_id),
           (''artifact_kind'', PStr (da_kind art)), (''artifact_ref'', PStr (da_ref art)), (''artifact_sha256'', PStr (da_sha256 art))]
      | _ \<Rightarrow> []))"

definition execute_job :: "(string \<Rightarrow> observation) \<Rightarrow> timestamp \<Rightarrow> 'w executor \<Rightarrow> 'w job \<Rightarrow> bool \<Rightarrow> (pydict, 'w) act" where
  "execute_job fromisoformat clock ex jb fenced =
     andthen (claim_job fromisoformat clock ex jb fenced) (\<lambda>h.
     andthen (recovered ex jb h) (\<lambda>latest.
     andthen (check_claimed ex jb h) (\<lambda>_.
     andthen (work ex jb h latest) (\<lambda>res.
     andthen (write_receipt (ex_receipts ex) (mf_task_id (jb_manifest jb)) (jb_role jb) (receipt_of ex jb h res)) (\<lambda>_.
     ret (receipt_of ex jb h res))))))"

text \<open>The checks of a fresh run before the pool is asked: the workspace, the validator's distance from the builder's
  workspace, and the registry of commands.\<close>

definition distinct_workspace :: "'w executor \<Rightarrow> 'w job \<Rightarrow> (unit, 'w) act" where
  "distinct_workspace ex jb =
     (let path = receipt_stem (mf_task_id (jb_manifest jb)) ''builder'' @ ''.json'' in
      if jb_role jb \<noteq> ''validator'' then ret ()
      else andthen (rc_exists (ex_receipts ex) path) (\<lambda>found.
           if \<not> found then ret ()
           else andthen (rc_read (ex_receipts ex) path) (\<lambda>v.
                andthen (lift (case v of PDict d \<Rightarrow> Inr d | _ \<Rightarrow> Inl other_error)) (\<lambda>prior.
                check (get prior ''workspace_id'' \<noteq> PStr (workspace_id ex)) ''validator_workspace_not_distinct''))))"

definition fresh_checks :: "'w executor \<Rightarrow> 'w job \<Rightarrow> (unit, 'w) act" where
  "fresh_checks ex jb =
     (let d = na_descriptor (jb_adapter jb);
          registry = (case map_of (ex_registries ex) (mf_adapter_id (jb_manifest jb)) of None \<Rightarrow> [] | Some r \<Rightarrow> r) in
      andthen (validate_before_claim (ex_workspace ex) (jb_manifest jb) d) (\<lambda>_.
      andthen (distinct_workspace ex jb) (\<lambda>_.
      andthen (lift (commands_for d (jb_role jb))) (\<lambda>_.
      check (fst ` set registry = set (command_keys d)) ''local_command_registry''))))"

definition task_identity_ok :: "'w job \<Rightarrow> pydict \<Rightarrow> bool" where
  "task_identity_ok jb task \<longleftrightarrow>
     get task ''task_id'' = PStr (mf_task_id (jb_manifest jb)) \<and> get task ''repository'' = PStr (mf_repository (jb_manifest jb)) \<and>
     get task ''base_sha'' = PStr (mf_base_sha (jb_manifest jb))"

definition read_task :: "'w executor \<Rightarrow> 'w job \<Rightarrow> (pydict \<times> bool, 'w) act" where
  "read_task ex jb =
     andthen (wa_get_task (ex_api ex) (mf_task_id (jb_manifest jb))) (\<lambda>task.
     andthen (check (task_identity_ok jb task) ''task_identity_drift'') (\<lambda>_.
     andthen (lift (fencing_required task)) (\<lambda>fenced.
     andthen (check (\<not> fenced \<or> mf_adapter_id (jb_manifest jb) \<in> set (ex_fenced_adapter_ids ex)) ''fenced_adapter_not_attested'') (\<lambda>_.
     andthen (check (\<not> fenced \<or> ex_transport ex \<noteq> None) ''durable_artifact_transport_required'') (\<lambda>_.
     ret (task, fenced))))))"

definition locked_run :: "(string \<Rightarrow> observation) \<Rightarrow> timestamp \<Rightarrow> 'w executor \<Rightarrow> 'w job \<Rightarrow> (pydict, 'w) act" where
  "locked_run fromisoformat clock ex jb =
     andthen (rc_exists (ex_receipts ex) (receipt_stem (mf_task_id (jb_manifest jb)) (jb_role jb) @ ''.json'')) (\<lambda>has_receipt.
     andthen (if has_receipt then ret () else fresh_checks ex jb) (\<lambda>_.
     andthen (read_task ex jb) (\<lambda>(task, fenced).
     if has_receipt then replay ex jb fenced task
     else execute_job fromisoformat clock ex jb fenced)))"

definition prepare_job :: "'w executor \<Rightarrow> pyval \<Rightarrow> string \<Rightarrow> string \<Rightarrow> string + 'w job" where
  "prepare_job ex raw role worker =
     bindE (require (role \<in> {''builder'', ''validator''}) ''role_invalid'') (\<lambda>_.
     bindE (require (NAME worker) ''worker_id_invalid'') (\<lambda>_.
     bindE (validate_boundary (ex_boundary ex)) (\<lambda>_.
     bindE (parse_manifest raw) (\<lambda>m.
     bindE (require (mf_workspace_sha m = eb_expected_head (ex_boundary ex)) ''boundary_manifest_drift'') (\<lambda>_.
     bindE (require (role \<noteq> ''builder'' \<or> mf_workspace_sha m = mf_base_sha m) ''builder_workspace_not_base'') (\<lambda>_.
     bindE (case map_of (ex_adapters ex) (mf_adapter_id m) of None \<Rightarrow> Inl ''adapter_unavailable'' | Some a \<Rightarrow> Inr a) (\<lambda>adapter.
     let d = na_descriptor adapter in
     bindE (require (ds_adapter_id d = mf_adapter_id m) ''adapter_contract_mismatch'') (\<lambda>_.
     bindE (contract_sha256 d) (\<lambda>contract.
     bindE (require (contract = mf_adapter_contract_sha256 m) ''adapter_contract_mismatch'') (\<lambda>_.
     bindE (require (role \<in> set (ds_roles d)) ''adapter_role_unsupported'') (\<lambda>_.
     Inr \<lparr>jb_raw = raw, jb_manifest = m, jb_adapter = adapter, jb_role = role, jb_worker = worker\<rparr>)))))))))))"

definition run_one_shot :: "(string \<Rightarrow> observation) \<Rightarrow> timestamp \<Rightarrow> 'w executor \<Rightarrow> pyval \<Rightarrow> string \<Rightarrow> string \<Rightarrow> (pydict, 'w) act" where
  "run_one_shot fromisoformat clock ex raw role worker =
     andthen (lift (prepare_job ex raw role worker)) (\<lambda>jb.
     andthen (acquire (ex_receipts ex) (mf_task_id (jb_manifest jb)) role) (\<lambda>_.
     always_then (locked_run fromisoformat clock ex jb)
       (rc_unlock (ex_receipts ex) (receipt_stem (mf_task_id (jb_manifest jb)) role @ ''.lock''))))"

end
