(* ===== verification/One_Shot_Scenario.thy ===== *)
theory One_Shot_Scenario
  imports One_Shot Issue_Scenario
begin

text \<open>
  One job, executed in the logic: a builder and a validator of the issue's task, each with its own workspace, against the service
  on a line that loses nothing. Hashes stay symbolic.
\<close>

section \<open>The client on a line that loses nothing\<close>

definition claim_payload_of :: "string \<Rightarrow> string \<Rightarrow> string \<times> string \<Rightarrow> claim_payload" where
  "claim_payload_of w c draw = \<lparr>cp_worker_id = w, cp_correlation_id = c, cp_lease_seconds = None,
     cp_token = fst draw, cp_attempt_id = snd draw\<rparr>"

lemma claim_fenced_online:
  assumes "online env now draw api" and "NAME w" and "CORRELATION c" and "TASK_ID tid"
    and "get_worker w (pool a) = Inr wk"
    and "claim_task (ae_cfg env) now (claim_of (claim_payload_of w c draw) (w_role wk) (Some tid) True) (pool a) = (Inr (Some (t, l)), q)"
    and "get_recovery_context (t_task_id t) q = Inr x"
  shows "claim_exact f u api True w tid c a =
    (claim_checked f u True w tid [(''claimed'', PBool True), (''task'', PDict (json_task (public_task t))), (''lease'', PDict (json_lease l)),
       (''recovery_context'', PDict (json_recovery x))], a\<lparr>pool := q\<rparr>)"
proof -
  let ?req = "exact_claim True w tid c"
  have h: "handle env now (with_draw draw ?req) a = ((200, Claimed (public_task t) l (Some x)), a\<lparr>pool := q\<rparr>)"
    using assms(5-7) by (simp add: exact_claim_def with_draw_def Let_def claim_impl_def claim_payload_of_def answer_def)
  have "route_ok ?req" by (simp add: exact_claim_def route_ok_def starts_with_def)
  moreover have "3 \<le> length w" "length w \<le> 128" using assms(2) by (auto simp: NAME_def split: list.splits)
  moreover have "8 \<le> length c" "length c \<le> 128" using assms(3) by (auto simp: CORRELATION_def split: list.splits)
  ultimately have "request api [200] ?req a = (Inr (json_body (Claimed (public_task t) l (Some x))), a\<lparr>pool := q\<rparr>)"
    using request_online [OF assms(1) _ _ h] assms(4)
    by (simp add: exact_claim_def with_draw_def Let_def ok_ExactClaimRequest_def ok_ClaimRequest_def len_in_def opt_all_def)
  then show ?thesis using assms(2-4)
    by (simp add: claim_exact_def andthen_def lift_def worker_ok_def id_ok_def require_def bindE_def request_dict_def as_dict_def)
qed

lemma latest_online:
  assumes "online env now draw api" and "TASK_ID tid" and "get_latest_checkpoint tid (pool a) = Inr (Some (c, x))" and "c_task_id c = tid"
  shows "client_latest_checkpoint api tid a = (Inr (PDict (json_joined (c, x))), a)"
proof -
  have "route_ok (GetLatestCheckpoint tid)"
    by (rule task_route_ok [OF assms(2), where r = "''/checkpoints/latest''" and m = "''GET''"]) (simp_all add: starts_with_def)
  moreover have "handle env now (GetLatestCheckpoint tid) a = ((200, LatestCheckpoint (Some (c, x))), a)"
    using assms(3) by (simp add: answer_def)
  ultimately have "request api [200] (GetLatestCheckpoint tid) a = (Inr (json_body (LatestCheckpoint (Some (c, x)))), a)"
    using request_online [OF assms(1), of "GetLatestCheckpoint tid" a 200 _ a "[200]"] by (simp add: with_draw_def)
  moreover have "get (json_joined (c, x)) ''task_id'' = PStr tid" using assms(4) by (simp add: get_json_joined json_checkpoint_def)
  ultimately show ?thesis using assms(2)
    by (simp add: client_latest_checkpoint_def andthen_def lift_def id_ok_def require_def request_dict_def as_dict_def check_def ret_def json_option_def Let_def)
qed

lemma record_online:
  assumes "online env now draw api" and "NAME (i_worker_id i)" and "CORRELATION (i_correlation_id i)" and "TASK_ID (i_task_id i)"
    and "checkpoint_args_ok i" and "body_ok (PostCheckpoint i)"
    and "record_checkpoint now i (pool a) = (Inr (c, b), q)" and "get_latest_checkpoint (i_task_id i) q = Inr (Some (c, x))"
    and "checkpoint_matches (PDict (json_checkpoint c)) (expected_checkpoint i)" and "c_task_id c = i_task_id i"
  shows "client_record_checkpoint api i a = (Inr (PDict (json_joined (c, x))), a\<lparr>pool := q\<rparr>)"
proof -
  let ?a = "a\<lparr>pool := q\<rparr>"
  have "route_ok (PostCheckpoint i)"
    by (rule task_route_ok [OF assms(4), where r = "''/checkpoints''" and m = "''POST''"]) (simp_all add: starts_with_def)
  moreover have "handle env now (PostCheckpoint i) a = ((if b then 201 else 200, CheckpointStored b c), ?a)"
    using assms(7) by (simp add: created_code_def)
  ultimately have post: "request api [200, 201] (PostCheckpoint i) a = (Inr (json_body (CheckpointStored b c)), ?a)"
    using request_online [OF assms(1), of "PostCheckpoint i" a "if b then 201 else 200" _ ?a "[200, 201]"] assms(6)
    by (simp add: with_draw_def)
  have latest: "client_latest_checkpoint api (i_task_id i) ?a = (Inr (PDict (json_joined (c, x))), ?a)"
    using latest_online [OF assms(1,4), of ?a] assms(8,10) by simp
  have "get (json_joined (c, x)) k = get (json_checkpoint c) k" if "k \<in> fst ` set (json_checkpoint c)" for k
    using that by (simp add: get_json_joined)
  then have m: "checkpoint_matches (PDict (json_joined (c, x))) (expected_checkpoint i)"
    using assms(9,10) by (simp add: checkpoint_matches_def expected_checkpoint_def json_checkpoint_def)
  show ?thesis
    using post latest m assms(2-5,9)
    by (simp add: client_record_checkpoint_def andthen_def attempt_def lift_def worker_ok_def id_ok_def
        require_def bindE_def request_dict_def as_dict_def check_def ret_def Let_def)
qed

section \<open>The database\<close>

definition demo_line :: "string \<Rightarrow> app_db local_api" where
  "demo_line att = \<lparr>la_token_file = TokenBytes (replicate 16 107),
     la_send = loopback demo_native_env 2 (demo_token, att) (\<lambda>_. 100)\<rparr>"

lemma demo_line_online: "online demo_native_env 2 (demo_token, att) (demo_line att)"
proof -
  have "token (TokenBytes (replicate 16 107)) = Inr demo_token" "py_strip demo_token = demo_token" by code_simp+
  then show ?thesis
    by (auto simp: online_def demo_line_def read_api_token_def demo_native_env_def opt_text_def MAX_RESPONSE_BYTES_def)
qed

definition demo_shop :: pool_db where
  "demo_shop = run_calls demo_cfg
     [(1, RegisterWorker (demo_worker ''bob'' ''builder'')), (1, RegisterWorker (demo_worker ''vic'' ''validator''))] demo_admitted"

definition demo_job_claim :: claim_request where
  "demo_job_claim = claim_of (claim_payload_of ''bob'' ''corr-001'' (demo_token, ''a1'')) Builder (Some demo_issue_id) True"

definition demo_job_proof :: lease_proof where
  "demo_job_proof = demo_issue_proof ''bob'' demo_token 1 ''a1''"

definition demo_effect_id :: string where
  "demo_effect_id = artifact_effect_id demo_issue_id demo_new_sha"

definition demo_pending :: checkpoint_request where
  "demo_pending = \<lparr>i_task_id = demo_issue_id, i_worker_id = ''bob'', i_lease_token = demo_token, i_lease_generation = 1, i_attempt_id = ''a1'',
     i_checkpoint_id = checkpoint_id_of ''a1'' ''builder'' ''artifact-pending'', i_sequence = 1, i_stage = ''artifact_publish'',
     i_next_action = ''publish_artifact'', i_correlation_id = ''corr-001'', i_artifact_kind = None, i_artifact_ref = None,
     i_artifact_sha256 = None, i_effect_id = Some demo_effect_id, i_effect_state = ''pending'', i_effect_result_ref = None\<rparr>"

definition demo_confirmed :: checkpoint_request where
  "demo_confirmed = \<lparr>i_task_id = demo_issue_id, i_worker_id = ''bob'', i_lease_token = demo_token, i_lease_generation = 1, i_attempt_id = ''a1'',
     i_checkpoint_id = checkpoint_id_of ''a1'' ''builder'' ''result'', i_sequence = 2, i_stage = ''builder_result'',
     i_next_action = ''submit_validation'', i_correlation_id = ''corr-001'', i_artifact_kind = Some ''git_bundle'', i_artifact_ref = Some ''ref'',
     i_artifact_sha256 = Some (sha256_hex demo_artifact), i_effect_id = Some demo_effect_id, i_effect_state = ''confirmed'',
     i_effect_result_ref = Some ''ref''\<rparr>"

definition row_of :: "checkpoint_request \<Rightarrow> checkpoint_row" where
  "row_of i = (case checkpoint_row_of 2 i of Inr c \<Rightarrow> c)"

lemma SAFE_ID_hashed:
  assumes "SAFE_ID p" and "length p \<le> 90"
  shows "SAFE_ID (p @ take 32 (sha256_hex s))"
proof -
  have "is_alnum c" if "is_lower_hex c" for c using that by (auto simp: is_lower_hex_def is_alnum_def is_digit_def is_lower_def Let_def)
  then have "list_all is_alnum (take 32 (sha256_hex s))" using sha256_hex_lower_hex by (auto simp: list_all_iff dest: in_set_takeD)
  then show ?thesis using assms by (auto simp: SAFE_ID_def list_all_iff split: list.splits)
qed

lemma checkpoint_id_text:
  "SAFE_ID (checkpoint_id_of a ''builder'' ''artifact-pending'')" "SAFE_ID (checkpoint_id_of a ''builder'' ''result'')"
  "SAFE_ID (checkpoint_id_of a ''validator'' ''result'')" "SAFE_ID (artifact_effect_id tid sha)"
  "checkpoint_id_of a ''builder'' ''result'' \<noteq> checkpoint_id_of b ''builder'' ''artifact-pending''"
  "checkpoint_id_of a ''validator'' ''result'' \<noteq> checkpoint_id_of b ''builder'' ''artifact-pending''"
  "checkpoint_id_of a ''validator'' ''result'' \<noteq> checkpoint_id_of b ''builder'' ''result''"
proof -
  have p: "SAFE_ID ''native-builder-artifact-pending-''" "SAFE_ID ''native-builder-result-''" "SAFE_ID ''native-validator-result-''" "SAFE_ID ''native-artifact-''"
    by code_simp+
  show "SAFE_ID (checkpoint_id_of a ''builder'' ''artifact-pending'')" "SAFE_ID (checkpoint_id_of a ''builder'' ''result'')"
    "SAFE_ID (checkpoint_id_of a ''validator'' ''result'')" "SAFE_ID (artifact_effect_id tid sha)"
    using SAFE_ID_hashed [OF p(1)] SAFE_ID_hashed [OF p(2)] SAFE_ID_hashed [OF p(3)] SAFE_ID_hashed [OF p(4)]
    by (simp_all add: checkpoint_id_of_def artifact_effect_id_def)
qed (simp_all add: checkpoint_id_of_def)

lemma demo_job_text:
  "SAFE_ID ''artifact_publish''" "SAFE_ID ''builder_result''" "py_strip ''artifact_publish'' = ''artifact_publish''"
  "py_strip ''builder_result'' = ''builder_result''" "sanitize (py_strip ''publish_artifact'') = ''publish_artifact''"
  "sanitize (py_strip ''submit_validation'') = ''submit_validation''" "sanitize (py_strip ''complete'') = ''complete''"
  "parse_effect_state ''pending'' = Some EffPending"
  "parse_effect_state ''confirmed'' = Some EffConfirmed"
  by code_simp+

lemmas demo_job_exec = demo_issue_exec demo_native_text demo_review_text demo_job_text checkpoint_id_text checkpoint_id_text(5-7) [symmetric] demo_job_claim_def claim_of_def claim_payload_of_def
  role_name_def demo_job_proof_def demo_pending_def demo_confirmed_def demo_effect_id_def row_of_def task_id_TASK_ID demo_issue_row_def demo_issue_id_def

lemma demo_shop_eq: "demo_shop = demo_lane
   \<lparr>workers := workers demo_lane @ [(demo_worker_row ''bob'' Builder)\<lparr>w_registered_at := 1, w_last_heartbeat_at := 1\<rparr>,
      (demo_worker_row ''vic'' Validator)\<lparr>w_registered_at := 1, w_last_heartbeat_at := 1\<rparr>],
    tasks := [demo_issue_row]\<rparr>"
  by (simp add: demo_shop_def demo_enqueue(2) demo_lane_eq register_worker_def demo_worker_def demo_job_exec Let_def)

definition demo_s1 :: pool_db where
  "demo_s1 = demo_shop\<lparr>tasks := [claim_update 2 Builder demo_job_claim 60000002 demo_issue_row],
     repository_lanes := [claim_lane 2 Builder ((new_lane REPO 0)\<lparr>r_enabled := True, r_max_in_flight := 1\<rparr>)],
     task_attempts := [new_attempt 2 Builder demo_job_claim 60 demo_issue_row]\<rparr>"

definition demo_s2 :: pool_db where
  "demo_s2 = demo_s1\<lparr>tasks := map (start_update 2 ''bob'' ''corr-001'') (tasks demo_s1)\<rparr>"

definition demo_s3 :: pool_db where
  "demo_s3 = demo_s2\<lparr>tasks := map (checkpoint_update 2 ''corr-001'') (tasks demo_s2), task_checkpoints := [row_of demo_pending]\<rparr>"

definition demo_s4 :: pool_db where
  "demo_s4 = demo_s3\<lparr>tasks := map (checkpoint_update 2 ''corr-001'') (tasks demo_s3),
     task_checkpoints := [row_of demo_pending, row_of demo_confirmed]\<rparr>"

definition demo_s5 :: pool_db where
  "demo_s5 = demo_s4\<lparr>tasks := map (submit_update 2 demo_new_sha ''corr-001'') (tasks demo_s4),
     task_attempts := [(new_attempt 2 Builder demo_job_claim 60 demo_issue_row)
       \<lparr>a_ended_at := Some 2, a_end_reason := Some ''validation_handoff''\<rparr>]\<rparr>"

lemmas demo_states = demo_s5_def demo_s4_def demo_s3_def demo_s2_def demo_s1_def demo_shop_eq demo_lane_eq

definition demo_lease :: lease where
  "demo_lease = \<lparr>l_task_id = demo_issue_id, l_lease_token = demo_token, l_worker_id = ''bob'', l_role = Builder,
     l_lease_expires_at = 60000002, l_lease_generation = 1, l_attempt_id = ''a1''\<rparr>"

lemma demo_claimed: "claim_task demo_cfg 2 demo_job_claim demo_shop = (Inr (Some (hd (tasks demo_s1), demo_lease)), demo_s1)"
  by (simp add: demo_states demo_lease_def demo_job_exec Let_def)

lemma demo_started: "mutation_op 2 demo_job_proof ''corr-001'' MStart demo_s1 = (Inr (hd (tasks demo_s2)), demo_s2)"
  by (simp add: demo_states mutation_op_def demo_job_exec Let_def)

lemma demo_pending_recorded: "record_checkpoint 2 demo_pending demo_s2 = (Inr (row_of demo_pending, True), demo_s3)"
  by (simp add: demo_states demo_job_exec Let_def)

lemma demo_confirmed_recorded: "record_checkpoint 2 demo_confirmed demo_s3 = (Inr (row_of demo_confirmed, True), demo_s4)"
  by (simp add: demo_states demo_job_exec Let_def)

lemma demo_submitted: "mutation_op 2 demo_job_proof ''corr-001'' (MValidation demo_new_sha) demo_s4 = (Inr (hd (tasks demo_s5)), demo_s5)"
  by (simp add: demo_states mutation_op_def demo_job_exec later_checkpoint_def Let_def)

section \<open>The worker's ports\<close>

text \<open>Beside the service, the world is the head of the workspace and the receipts.\<close>

type_synonym demo_world = "(string \<times> (string \<times> pydict) list) \<times> app_db"

definition demo_worker_api :: "string \<Rightarrow> demo_world worker_api" where
  "demo_worker_api att = (let api = demo_line att in
     \<lparr>wa_get_task = \<lambda>tid. at_service (client_get_task api tid),
      wa_claim_exact = \<lambda>w tid c. at_service (claim_exact demo_read 2 api False w tid c),
      wa_claim_fenced_exact = \<lambda>w tid c. at_service (claim_exact demo_read 2 api True w tid c),
      wa_get_latest_checkpoint = \<lambda>tid. at_service (client_latest_checkpoint api tid),
      wa_record_checkpoint = \<lambda>i. at_service (client_record_checkpoint api i),
      wa_start = \<lambda>p c. at_service (client_start api p c),
      wa_submit_validation = \<lambda>p sha c. at_service (client_submit_validation api p sha c),
      wa_complete = \<lambda>p c. at_service (client_complete api p c),
      wa_fail = \<lambda>p c reason. at_service (client_fail api p c reason),
      wa_block = \<lambda>p c reason. at_service (client_block api p c reason)\<rparr>)"

definition demo_git :: "string list \<Rightarrow> ((int \<times> string) option, demo_world) act" where
  "demo_git args w =
     (Inr (Some (0, if args = [''rev-parse'', ''HEAD''] then fst (fst w)
                   else if take 1 args = [''diff''] then ''app.py'' else [])), w)"

definition demo_workspace :: "string \<Rightarrow> demo_world local_workspace" where
  "demo_workspace dir = \<lparr>ws_root = dir, ws_root_plain = ret True, ws_git = demo_git,
     ws_file = \<lambda>_. ret \<lparr>fv_regular = True, fv_links = 1, fv_inside = True, fv_bytes = ''x''\<rparr>\<rparr>"

definition demo_receipts :: "demo_world receipt_store" where
  "demo_receipts = \<lparr>rc_lock = \<lambda>_. ret True, rc_unlock = \<lambda>_ w. w,
     rc_exists = \<lambda>p w. (Inr (map_of (snd (fst w)) p \<noteq> None), w), rc_plain = \<lambda>_. ret True,
     rc_read = \<lambda>p w. (case map_of (snd (fst w)) p of None \<Rightarrow> Inl other_error | Some d \<Rightarrow> Inr (PDict d), w),
     rc_absent = \<lambda>p w. (Inr (map_of (snd (fst w)) p = None), w),
     rc_replace = \<lambda>p d w. (Inr (), ((fst (fst w), (p, d) # snd (fst w)), snd w))\<rparr>"

definition demo_durable :: durable_artifact where
  "demo_durable = \<lparr>da_kind = ''git_bundle'', da_ref = ''ref'', da_sha256 = sha256_hex demo_artifact\<rparr>"

definition demo_store :: "demo_world artifact_transport" where
  "demo_store = \<lparr>tp_preflight = ret (),
     tp_publish = \<lambda>_ _ _ _ _. ret (PDict [(''artifact_kind'', PStr ''git_bundle''), (''artifact_ref'', PStr ''ref''),
       (''artifact_sha256'', PStr (sha256_hex demo_artifact))]),
     tp_materialize = \<lambda>_ _. raise other_error, tp_verify = \<lambda>_ _ _. ret ()\<rparr>"

definition demo_descriptor :: adapter_descriptor where
  "demo_descriptor = \<lparr>ds_adapter_id = ''demo'', ds_allowed_paths = [''app.py''], ds_builder_commands = [''build''],
     ds_validator_commands = [''test''], ds_roles = [''builder'', ''validator'']\<rparr>"

definition demo_result :: "string \<Rightarrow> adapter_result" where
  "demo_result cmd = \<lparr>ar_produced_sha = demo_new_sha, ar_changed_paths = [''app.py''], ar_invoked_commands = [cmd],
     ar_evidence_sha256 = sha256_hex ''x''\<rparr>"

text \<open>The adapter runs its command; the builder commits.\<close>

definition demo_adapter :: "demo_world native_adapter" where
  "demo_adapter = \<lparr>na_descriptor = demo_descriptor,
     na_build = \<lambda>inv. andthen (inv ''build'') (\<lambda>_ x. (Inr (demo_result ''build''), (((demo_new_sha, snd (fst (fst x))), snd (fst x)), snd x))),
     na_validate = \<lambda>inv _. andthen (inv ''test'') (\<lambda>_. ret (demo_result ''test''))\<rparr>"

definition demo_executor :: "string \<Rightarrow> string \<Rightarrow> string \<Rightarrow> demo_world executor" where
  "demo_executor att head dir = \<lparr>ex_api = demo_worker_api att, ex_workspace = demo_workspace dir, ex_receipts = demo_receipts,
     ex_adapters = [(''demo'', demo_adapter)], ex_registries = [(''demo'', [(''build'', ret PNone), (''test'', ret PNone)])],
     ex_boundary = \<lparr>eb_session_id = ''s-1'', eb_correlation_id = ''corr-001'', eb_expected_head = head, eb_state_validated = True,
       eb_gateway_verified = True\<rparr>,
     ex_transport = Some demo_store, ex_fenced_adapter_ids = [''demo'']\<rparr>"

definition demo_contract :: string where
  "demo_contract = digest (PDict [(''adapter_id'', PStr ''demo''), (''allowed_paths'', texts [''app.py'']),
     (''builder_commands'', texts [''build'']), (''validator_commands'', texts [''test'']), (''roles'', texts [''builder'', ''validator''])])"

definition demo_raw :: "string \<Rightarrow> pyval" where
  "demo_raw head = PDict [(''schema_version'', PInt 1), (''task_id'', PStr demo_issue_id), (''repository'', PStr REPO), (''base_sha'', PStr demo_sha),
     (''workspace_sha'', PStr head), (''adapter_id'', PStr ''demo''), (''adapter_contract_sha256'', PStr demo_contract),
     (''before_sha256'', PDict [(''app.py'', PStr (sha256_hex ''x''))])]"

definition demo_manifest :: "string \<Rightarrow> task_manifest" where
  "demo_manifest head = \<lparr>mf_task_id = demo_issue_id, mf_repository = REPO, mf_base_sha = demo_sha, mf_workspace_sha = head, mf_adapter_id = ''demo'',
     mf_adapter_contract_sha256 = demo_contract, mf_before_sha256 = [(''app.py'', sha256_hex ''x'')]\<rparr>"

definition demo_job :: "string \<Rightarrow> string \<Rightarrow> string \<Rightarrow> demo_world job" where
  "demo_job head role worker = \<lparr>jb_raw = demo_raw head, jb_manifest = demo_manifest head, jb_adapter = demo_adapter, jb_role = role, jb_worker = worker\<rparr>"

section \<open>Before the claim\<close>

lemma demo_port_text:
  "NAME ''demo''" "safe_path ''app.py'' = Inr ''app.py''" "safe_paths [''app.py''] = Inr [''app.py'']" "commands_ok [''build'']" "commands_ok [''test'']"
  "sorted_set [''app.py'']" "SESSION_ID ''s-1''" "NAME ''bob''" "NAME ''vic''" "CORRELATION ''corr-001''" "REPOSITORY REPO" "SHA40 demo_sha" "SHA40 demo_new_sha"
  "split_at line_break ''app.py'' = [''app.py'']" "py_strip ''app.py'' = ''app.py''" "py_strip demo_sha = demo_sha" "py_strip demo_new_sha = demo_new_sha"
  "py_lower demo_sha = demo_sha" "py_lower demo_new_sha = demo_new_sha" "length demo_sha = 40" "length demo_new_sha = 40" "py_strip [] = []"
  "NAME ''git_bundle''" "no_line_break ''ref''"
  by code_simp+

lemma SHA256_hex: "SHA256 (sha256_hex s)"
  using sha256_hex_lower_hex by (auto simp: SHA256_def list_all_iff)

lemma demo_contract_ok: "contract_sha256 demo_descriptor = Inr demo_contract" "SHA256 demo_contract"
  by (simp_all add: contract_sha256_def normalized_def demo_descriptor_def demo_port_text bindE_def require_def demo_contract_def digest_def SHA256_hex)

lemma demo_parsed:
  assumes "SHA40 head"
  shows "parse_manifest (demo_raw head) = Inr (demo_manifest head)"
  using assms demo_contract_ok(2)
  by (simp add: parse_manifest_def demo_raw_def demo_manifest_def manifest_fields_def insert_commute bindE_def require_def demo_port_text SHA256_hex
      text_field_def demo_issue_id_def task_id_TASK_ID)

lemma demo_job_prepared:
  assumes "SHA40 head" and "(role, worker) \<in> {(''builder'', ''bob''), (''validator'', ''vic'')}" and "role = ''builder'' \<longrightarrow> head = demo_sha"
  shows "prepare_job (demo_executor att head dir) (demo_raw head) role worker = Inr (demo_job head role worker)"
  using assms demo_contract_ok demo_parsed [OF assms(1)]
  by (auto simp: prepare_job_def bindE_def require_def demo_port_text validate_boundary_def demo_executor_def demo_job_def demo_manifest_def
      demo_adapter_def demo_descriptor_def Let_def)

lemmas demo_ports = demo_executor_def demo_workspace_def demo_receipts_def demo_job_def demo_manifest_def demo_adapter_def demo_descriptor_def
  demo_git_def demo_store_def demo_worker_api_def at_service_def run_correlation_def

lemmas run_defs = andthen_def attempt_def ret_def raise_def check_def lift_def bindE_def require_def

lemma demo_workspace_run:
  "workspace_head (demo_workspace dir) ((demo_sha, rs), a) = (Inr demo_sha, ((demo_sha, rs), a))"
  "workspace_head (demo_workspace dir) ((demo_new_sha, rs), a) = (Inr demo_new_sha, ((demo_new_sha, rs), a))"
  "workspace_status (demo_workspace dir) w = (Inr [], w)" "workspace_clean (demo_workspace dir) w = (Inr (), w)"
  "workspace_changed_paths (demo_workspace dir) b p w = (Inr [''app.py''], w)"
  by (simp_all add: workspace_head_def workspace_status_def workspace_clean_def workspace_changed_paths_def git_def demo_workspace_def demo_git_def
      run_defs demo_port_text del: split_at.simps)

lemma demo_keys: "command_keys demo_descriptor = [''build'', ''test'']"
  by code_simp

lemma demo_fresh:
  assumes "(role, worker, head) \<in> {(''builder'', ''bob'', demo_sha), (''validator'', ''vic'', demo_new_sha)}" and "map_of rs (demo_issue_id @ ''-builder.json'') = None"
  shows "fresh_checks (demo_executor att head dir) (demo_job head role worker) ((head, rs), a) = (Inr (), ((head, rs), a))"
proof -
  let ?ex = "demo_executor att head dir" and ?jb = "demo_job head role worker" and ?w = "((head, rs), a)"
  have h: "workspace_head (demo_workspace dir) ?w = (Inr head, ?w)" using assms(1) demo_workspace_run(1,2) by auto
  have "validate_before_claim (demo_workspace dir) (demo_manifest head) demo_descriptor ?w = (Inr (), ?w)"
    by (simp add: validate_before_claim_def demo_workspace_run(4) h run_defs) (simp add: demo_manifest_def demo_descriptor_def demo_workspace_def run_defs)
  moreover have "distinct_workspace ?ex ?jb ?w = (Inr (), ?w)"
    using assms(2) by (simp add: distinct_workspace_def demo_executor_def demo_receipts_def demo_job_def demo_manifest_def receipt_stem_def run_defs Let_def)
  moreover have "\<exists>cs. commands_for demo_descriptor role = Inr cs"
    using assms(1) by (auto simp: commands_for_def demo_descriptor_def bindE_def require_def)
  ultimately show ?thesis
    by (auto simp: fresh_checks_def Let_def run_defs demo_executor_def demo_job_def demo_adapter_def demo_manifest_def demo_keys)
qed

definition demo_app :: "pool_db \<Rightarrow> app_db" where
  "demo_app db = \<lparr>pool = db, work_runs = []\<rparr>"

lemma demo_app_simps [simp]: "pool (demo_app db) = db" "(demo_app db)\<lparr>pool := q\<rparr> = demo_app q"
  by (simp_all add: demo_app_def)

lemma demo_issue_TASK_ID: "TASK_ID demo_issue_id"
  by (simp add: demo_issue_id_def task_id_TASK_ID)

lemma demo_read_run:
  assumes "find_task demo_issue_id db = Some t" and "t_repository t = REPO" and "t_base_sha t = Some demo_sha" and "t_fencing_required t"
  shows "read_task (demo_executor att head dir) (demo_job head role worker) (g, demo_app db) =
    (Inr (json_task (public_task t), True), (g, demo_app db))"
proof -
  have "client_get_task (demo_line att) demo_issue_id (demo_app db) = (Inr (json_task (public_task t)), demo_app db)"
    using client_get_task_online [OF demo_line_online demo_issue_TASK_ID] assms(1) by simp
  moreover have "task_identity_ok (demo_job head role worker) (json_task (public_task t))"
    using assms tasks_tbl.get_key [OF assms(1)]
    by (simp add: task_identity_ok_def demo_job_def demo_manifest_def json_task_def public_task_def opt_str_def)
  moreover have "fencing_required (json_task (public_task t)) = Inr True"
    using assms(4) by (simp add: fencing_required_def json_task_def public_task_def)
  ultimately show ?thesis
    by (simp add: read_task_def demo_executor_def demo_worker_api_def at_service_def run_defs Let_def demo_job_def demo_manifest_def)
qed

section \<open>The builder\<close>

definition demo_held :: held where
  "demo_held = \<lparr>hl_proof = demo_job_proof, hl_fence = Some (1, ''a1''), hl_task = json_task (public_task (hd (tasks demo_s1))),
     hl_recovery = PDict [(''latest_checkpoint'', PNone), (''effects'', PList [])]\<rparr>"

lemma demo_expiry: "printable 60000002"
  by (simp add: printable_def date_of_def year_day.simps [of 1970] year_length_def month_lengths_def usec_def)

lemma demo_claim_reply:
  "claim_exact demo_read 2 (demo_line ''a1'') True ''bob'' demo_issue_id ''corr-001'' (demo_app demo_shop) =
     (Inr [(''claimed'', PBool True), (''task'', PDict (json_task (public_task (hd (tasks demo_s1))))), (''lease'', PDict (json_lease demo_lease)),
        (''recovery_context'', PDict [(''latest_checkpoint'', PNone), (''effects'', PList [])])], demo_app demo_s1)"
proof -
  have w: "get_worker ''bob'' demo_shop = Inr ((demo_worker_row ''bob'' Builder)\<lparr>w_registered_at := 1, w_last_heartbeat_at := 1\<rparr>)"
    by (simp add: demo_states demo_job_exec)
  have x: "get_recovery_context (t_task_id (hd (tasks demo_s1))) demo_s1 = Inr \<lparr>x_latest_checkpoint = None, x_effects = []\<rparr>"
    by (simp add: demo_states demo_job_exec get_recovery_context_def get_latest_checkpoint_def Let_def)
  have c: "claim_task (ae_cfg demo_native_env) 2 (claim_of (claim_payload_of ''bob'' ''corr-001'' (demo_token, ''a1''))
      (w_role ((demo_worker_row ''bob'' Builder)\<lparr>w_registered_at := 1, w_last_heartbeat_at := 1\<rparr>)) (Some demo_issue_id) True) (pool (demo_app demo_shop)) =
      (Inr (Some (hd (tasks demo_s1), demo_lease)), demo_s1)"
    using demo_claimed by (simp add: demo_native_env_def demo_job_claim_def demo_worker_row_def)
  have live: "lease_live demo_read 2 (json_lease demo_lease)"
    using length_iso [of 60000002] parse_iso_printed [OF demo_expiry] by (auto simp: lease_live_def str_all_def demo_read_def json_lease_def demo_lease_def)
  have f: "claim_checked demo_read 2 True ''bob'' demo_issue_id reply = Inr reply"
    if "reply = [(''claimed'', PBool True), (''task'', PDict (json_task (public_task (hd (tasks demo_s1))))), (''lease'', PDict (json_lease demo_lease)),
        (''recovery_context'', PDict [(''latest_checkpoint'', PNone), (''effects'', PList [])])]" for reply
    using live json_task_token [of "public_task (hd (tasks demo_s1))"] unfolding that
    by (simp add: claim_checked_def bindE_def require_def claim_reply_ok_def fenced_claim_ok_def recovery_shape_ok_def task_readback_def str_in_def
        str_all_def int_all_def task_states_def)
      (simp add: demo_lease_def json_lease_def json_task_def public_task_def demo_states demo_job_exec state_name_def opt_str_def)
  show ?thesis
    using claim_fenced_online [OF demo_line_online _ _ demo_issue_TASK_ID _ c x, of demo_read 2] w f
    by (simp add: demo_port_text json_recovery_def json_option_def)
qed

text \<open>The builder's executor and job, and its first claim.\<close>

definition demo_bob :: "demo_world executor" where
  "demo_bob = demo_executor ''a1'' demo_sha ''/w1''"

definition demo_bob_job :: "demo_world job" where
  "demo_bob_job = demo_job demo_sha ''builder'' ''bob''"

lemma demo_bob_simps [simp]:
  "ex_api demo_bob = demo_worker_api ''a1''" "ex_workspace demo_bob = demo_workspace ''/w1''" "ex_receipts demo_bob = demo_receipts"
  "ex_transport demo_bob = Some demo_store" "run_correlation demo_bob = ''corr-001''" "the_transport demo_bob = Inr demo_store"
  "jb_manifest demo_bob_job = demo_manifest demo_sha" "jb_role demo_bob_job = ''builder''" "jb_worker demo_bob_job = ''bob''"
  "jb_adapter demo_bob_job = demo_adapter" "na_descriptor demo_adapter = demo_descriptor" "mf_task_id (demo_manifest head) = demo_issue_id"
  "mf_base_sha (demo_manifest head) = demo_sha" "mf_workspace_sha (demo_manifest head) = head" "mf_repository (demo_manifest head) = REPO"
  "mf_adapter_id (demo_manifest head) = ''demo''" "mf_adapter_contract_sha256 (demo_manifest head) = demo_contract"
  by (simp_all add: demo_bob_def demo_bob_job_def demo_executor_def demo_job_def demo_manifest_def demo_adapter_def run_correlation_def the_transport_def)

lemma demo_claim_job: "claim_job demo_read 2 demo_bob demo_bob_job True (g, demo_app demo_shop) = (Inr demo_held, (g, demo_app demo_s1))"
proof -
  have l: "lease_ok demo_read 2 demo_bob_job (json_lease demo_lease)"
    using parse_iso_printed [OF demo_expiry]
    by (simp add: lease_ok_def str_all_def demo_read_def json_lease_def demo_lease_def demo_native_text role_name_def)
  have t: "fencing_required (json_task (public_task (hd (tasks demo_s1)))) = Inr True"
    "lease_fence True (json_lease demo_lease) (json_task (public_task (hd (tasks demo_s1)))) = Inr (Some (1, ''a1''))"
    by (simp_all add: fencing_required_def lease_fence_def json_task_def public_task_def json_lease_def demo_lease_def demo_states demo_job_exec opt_str_def)
  have p: "lease_proof_of demo_bob_job (json_lease demo_lease) (Some (1, ''a1'')) = demo_job_proof"
    by (simp add: lease_proof_of_def json_lease_def demo_lease_def text_of_def demo_job_proof_def demo_issue_proof_def demo_proof_def)
  have d: "dict_or_empty (PDict (json_task r)) = Inr (json_task r)" "dict_or_empty (PDict (json_lease x)) = Inr (json_lease x)" for r x
    by (simp_all add: dict_or_empty_def json_task_def json_lease_def)
  have "send_claim demo_bob demo_bob_job True (g, demo_app demo_shop) =
     (Inr [(''claimed'', PBool True), (''task'', PDict (json_task (public_task (hd (tasks demo_s1))))), (''lease'', PDict (json_lease demo_lease)),
        (''recovery_context'', PDict [(''latest_checkpoint'', PNone), (''effects'', PList [])])], (g, demo_app demo_s1))"
    using demo_claim_reply by (simp add: send_claim_def Let_def run_defs demo_store_def demo_worker_api_def at_service_def)
  then show ?thesis using l t p d by (simp add: claim_job_def run_defs demo_held_def)
qed

lemma demo_recovered: "recovered demo_bob demo_bob_job demo_held w = (Inr None, w)"
  by (simp add: recovered_def demo_held_def read_recovery_def recovery_parts_def latest_matches_def insert_commute run_defs)

lemma demo_claimed_ok: "check_claimed demo_bob demo_bob_job demo_held w = (Inr (), w)"
  by (simp add: check_claimed_def claimed_ok_def demo_held_def json_task_def public_task_def demo_states demo_job_exec opt_str_def state_name_def ret_def)

lemma demo_start_run: "wa_start (demo_worker_api ''a1'') demo_job_proof ''corr-001'' (g, demo_app demo_s1) = (Inr (), (g, demo_app demo_s2))"
proof -
  have "mutation_args_ok demo_job_proof ''corr-001'' MStart"
    by (simp add: mutation_args_ok_def demo_job_proof_def demo_issue_proof_def demo_proof_def demo_native_text mutation_ok_def fence_ok_def demo_issue_TASK_ID)
  moreover have "mutation_op 2 demo_job_proof ''corr-001'' MStart (pool (demo_app demo_s1)) = (Inr (hd (tasks demo_s2)), demo_s2)"
    using demo_started by simp
  moreover have "t_state (hd (tasks demo_s2)) = Running" by (simp add: demo_states start_update_def)
  ultimately show ?thesis
    using mutate_online [OF demo_line_online, of demo_job_proof "''corr-001''" MStart "demo_app demo_s1" _ demo_s2 "''a1''"]
    by (simp add: demo_worker_api_def Let_def at_service_def client_start_def expected_states_def state_name_def)
qed

lemma demo_submit_run:
  "wa_submit_validation (demo_worker_api ''a1'') demo_job_proof demo_new_sha ''corr-001'' (g, demo_app demo_s4) = (Inr (), (g, demo_app demo_s5))"
proof -
  have "mutation_args_ok demo_job_proof ''corr-001'' (MValidation demo_new_sha)"
    by (simp add: mutation_args_ok_def demo_job_proof_def demo_issue_proof_def demo_proof_def demo_native_text mutation_ok_def fence_ok_def
        demo_issue_TASK_ID require_def demo_port_text)
  moreover have "mutation_op 2 demo_job_proof ''corr-001'' (MValidation demo_new_sha) (pool (demo_app demo_s4)) = (Inr (hd (tasks demo_s5)), demo_s5)"
    using demo_submitted by simp
  moreover have "t_state (hd (tasks demo_s5)) = Validating" by (simp add: demo_states submit_update_def)
  ultimately show ?thesis
    using mutate_online [OF demo_line_online, of demo_job_proof "''corr-001''" "MValidation demo_new_sha" "demo_app demo_s4" _ demo_s5 "''a1''"]
    by (simp add: demo_worker_api_def Let_def at_service_def client_submit_validation_def expected_states_def state_name_def)
qed

lemma lower_hex_digit:
  assumes "is_lower_hex c"
  shows "hex_char c"
proof -
  have "is_digit c \<or> code c \<in> {97, 98, 99, 100, 101, 102}" using assms by (auto simp: is_lower_hex_def is_digit_def Let_def)
  then have "is_digit c \<or> c \<in> {char_of (97 :: nat), char_of (98 :: nat), char_of (99 :: nat), char_of (100 :: nat), char_of (101 :: nat), char_of (102 :: nat)}"
    by (metis char_of_char insert_iff empty_iff)
  moreover have "char_of (97 :: nat) = CHR ''a''" "char_of (98 :: nat) = CHR ''b''" "char_of (99 :: nat) = CHR ''c''" "char_of (100 :: nat) = CHR ''d''"
    "char_of (101 :: nat) = CHR ''e''" "char_of (102 :: nat) = CHR ''f''"
    by code_simp+
  ultimately show ?thesis by (auto simp: hex_char_def)
qed

lemma hex_digits: "list_all hex_char (sha256_hex s)"
  using sha256_hex_lower_hex lower_hex_digit by (auto simp: list_all_iff)

lemmas row_defs = row_of_def checkpoint_row_of_def demo_pending_def demo_confirmed_def demo_job_text demo_issue_text demo_native_text checkpoint_id_text
  demo_artifact_text demo_effect_id_def clean_ref_def text_or_none_def opt_text_def opt_all_def

lemma demo_job_checkpoint_ok:
  assumes "i = demo_pending \<or> i = demo_confirmed"
  shows "NAME (i_worker_id i)" "CORRELATION (i_correlation_id i)" "TASK_ID (i_task_id i)" "checkpoint_args_ok i" "body_ok (PostCheckpoint i)"
    "checkpoint_matches (PDict (json_checkpoint (row_of i))) (expected_checkpoint i)" "c_task_id (row_of i) = i_task_id i"
proof -
  have u: "length (checkpoint_id_of a ''builder'' ''artifact-pending'') = 64" "length (checkpoint_id_of a ''builder'' ''result'') = 54"
    "length (artifact_effect_id tid sha) = 48" for a tid sha
    by (simp_all add: checkpoint_id_of_def artifact_effect_id_def)
  note d = demo_pending_def demo_confirmed_def demo_native_text demo_issue_TASK_ID
  show "NAME (i_worker_id i)" "CORRELATION (i_correlation_id i)" "TASK_ID (i_task_id i)"
    using assms by (auto simp: d)
  show "checkpoint_args_ok i"
    using assms by (auto simp: d checkpoint_args_ok_def artifact_fields_ok_def effect_fields_ok_def demo_job_text demo_issue_text demo_port_text
        checkpoint_id_text demo_effect_id_def SHA256_hex)
  show "body_ok (PostCheckpoint i)"
    using assms u by (auto simp: d ok_CheckpointRecord_def ok_LeaseMutation_def checkpoint_proof_def len_in_def opt_all_def demo_effect_id_def
        demo_job_text demo_issue_text checkpoint_id_text demo_artifact_text hex_digits)
  show "checkpoint_matches (PDict (json_checkpoint (row_of i))) (expected_checkpoint i)" "c_task_id (row_of i) = i_task_id i"
    using assms
    by (elim disjE; simp add: checkpoint_matches_def expected_checkpoint_def json_checkpoint_def py_eq_opt row_defs Let_def effect_state_name_def opt_str_def)+
qed

lemma demo_record_job:
  assumes "i = demo_pending \<or> i = demo_confirmed" and "record_checkpoint 2 i db = (Inr (row_of i, True), q)"
    and "get_latest_checkpoint demo_issue_id q = Inr (Some (row_of i, None))"
  shows "\<exists>v. wa_record_checkpoint (demo_worker_api ''a1'') i (g, demo_app db) = (Inr v, (g, demo_app q))"
proof -
  have "i_task_id i = demo_issue_id" using assms(1) by (auto simp: demo_pending_def demo_confirmed_def)
  then show ?thesis
    using record_online [OF demo_line_online demo_job_checkpoint_ok(1-5) [OF assms(1)] _ _ demo_job_checkpoint_ok(6,7) [OF assms(1)],
        of "demo_app db" True q None "''a1''"] assms(2,3)
    by (simp add: demo_worker_api_def Let_def at_service_def)
qed

lemma demo_pending_run: "\<exists>v. wa_record_checkpoint (demo_worker_api ''a1'') demo_pending (g, demo_app demo_s2) = (Inr v, (g, demo_app demo_s3))"
  by (rule demo_record_job [OF _ demo_pending_recorded])
    (simp_all add: demo_states get_latest_checkpoint_def reconciliation_of_def demo_job_exec Let_def)

lemma demo_confirmed_run: "\<exists>v. wa_record_checkpoint (demo_worker_api ''a1'') demo_confirmed (g, demo_app demo_s3) = (Inr v, (g, demo_app demo_s4))"
  by (rule demo_record_job [OF _ demo_confirmed_recorded])
    (simp_all add: demo_states get_latest_checkpoint_def reconciliation_of_def demo_job_exec Let_def newest_first_def)

lemma demo_invoked:
  "invoker_of demo_bob demo_bob_job ''build'' (w, ks) = (Inr PNone, (w, ks @ [''build'']))"
  by (simp add: invoker_of_def demo_bob_def demo_executor_def invoke_def role_commands_def demo_descriptor_def ret_def)

lemma demo_produced:
  "produce demo_bob demo_bob_job None ((demo_sha, rs), a) =
     (Inr (demo_result ''build'', Some [''build''], None), ((demo_new_sha, rs), a))"
proof -
  have "na_build demo_adapter (invoker_of demo_bob demo_bob_job) (((demo_sha, rs), a), []) =
      (Inr (demo_result ''build''), (((demo_new_sha, rs), a), [''build'']))"
    by (simp add: demo_adapter_def andthen_def demo_invoked)
  moreover have "validate_result (demo_result ''build'') demo_descriptor [''build''] ''builder'' = Inr ()"
    by (simp add: validate_result_def demo_result_def demo_descriptor_def demo_port_text commands_for_def role_commands_def result_paths_ok_def
        SHA256_hex bindE_def require_def)
  ultimately show ?thesis by (simp add: produce_def run_adapter_def run_defs)
qed

lemma demo_built_ok: "check_built demo_bob demo_bob_job (demo_result ''build'') (Some [''build'']) ((demo_new_sha, rs), a) = (Inr (), ((demo_new_sha, rs), a))"
  by (simp add: check_built_def demo_workspace_run demo_result_def all_commands_def role_commands_def demo_descriptor_def run_defs)

lemma demo_requests:
  "with_effect demo_effect_id ''pending'' None
     (checkpoint_request_of demo_bob demo_bob_job demo_held (1, ''a1'') ''artifact-pending'' 1 ''artifact_publish'' ''publish_artifact'') = demo_pending"
  "with_effect demo_effect_id ''confirmed'' (Some ''ref'') (with_artifact demo_durable
     (checkpoint_request_of demo_bob demo_bob_job demo_held (1, ''a1'') ''result'' 2 ''builder_result'' ''submit_validation'')) = demo_confirmed"
  by (simp_all add: with_effect_def with_artifact_def checkpoint_request_of_def demo_pending_def demo_confirmed_def demo_held_def demo_durable_def
      demo_job_proof_def demo_issue_proof_def demo_proof_def)

lemma demo_job_published:
  "publish_artifact demo_bob demo_bob_job demo_held (1, ''a1'') demo_effect_id r (g, demo_app demo_s2) = (Inr demo_durable, (g, demo_app demo_s3))"
proof -
  obtain v where "wa_record_checkpoint (demo_worker_api ''a1'') demo_pending (g, demo_app demo_s2) = (Inr v, (g, demo_app demo_s3))"
    using demo_pending_run by blast
  then show ?thesis
    by (simp add: publish_artifact_def Let_def demo_requests run_defs demo_store_def parse_artifact_def artifact_of_def insert_commute demo_port_text
        SHA256_hex demo_durable_def)
qed

lemma demo_settled:
  "settle_artifact demo_bob demo_bob_job demo_held (1, ''a1'') None (demo_result ''build'') None (g, demo_app demo_s2) =
     (Inr demo_durable, (g, demo_app demo_s4))"
proof -
  obtain v where "wa_record_checkpoint (demo_worker_api ''a1'') demo_confirmed (g, demo_app demo_s3) = (Inr v, (g, demo_app demo_s4))"
    using demo_confirmed_run by blast
  moreover have "da_ref demo_durable = ''ref''" by (simp add: demo_durable_def)
  ultimately show ?thesis
    using demo_job_published demo_requests(2)
    by (simp add: settle_artifact_def Let_def run_defs demo_result_def demo_effect_id_def)
qed

lemma demo_work: "work demo_bob demo_bob_job demo_held None ((demo_sha, rs), demo_app demo_s1) =
    (Inr (demo_result ''build'', Some demo_durable), ((demo_new_sha, rs), demo_app demo_s5))"
proof -
  have h: "hl_proof demo_held = demo_job_proof" "hl_fence demo_held = Some (1, ''a1'')" "ar_produced_sha (demo_result ''build'') = demo_new_sha"
    by (simp_all add: demo_held_def demo_result_def)
  show ?thesis
    by (simp add: work_def build_job_def h demo_start_run demo_produced demo_built_ok demo_settled demo_submit_run run_defs)
qed

definition demo_receipt :: pydict where
  "demo_receipt = receipt_of demo_bob demo_bob_job demo_held (demo_result ''build'', Some demo_durable)"

definition demo_start :: demo_world where
  "demo_start = ((demo_sha, []), demo_app demo_shop)"

definition demo_end :: demo_world where
  "demo_end = ((demo_new_sha, [(demo_issue_id @ ''-builder.json'', demo_receipt)]), demo_app demo_s5)"

lemma demo_bob_run: "run_one_shot demo_read 2 demo_bob (demo_raw demo_sha) ''builder'' ''bob'' demo_start = (Inr demo_receipt, demo_end)"
proof -
  have p: "prepare_job demo_bob (demo_raw demo_sha) ''builder'' ''bob'' = Inr demo_bob_job"
    unfolding demo_bob_def demo_bob_job_def by (rule demo_job_prepared) (simp_all add: demo_port_text)
  have f: "fresh_checks demo_bob demo_bob_job demo_start = (Inr (), demo_start)"
    unfolding demo_bob_def demo_bob_job_def demo_start_def by (rule demo_fresh) simp_all
  have "read_task demo_bob demo_bob_job demo_start = (Inr (json_task (public_task demo_issue_row), True), demo_start)"
    unfolding demo_bob_def demo_bob_job_def demo_start_def
    by (rule demo_read_run) (simp_all add: demo_states find_task_def demo_issue_row_id demo_issue_row_def new_task_def demo_issue_def demo_issue_exec demo_issue_id_def)
  moreover have "execute_job demo_read 2 demo_bob demo_bob_job True demo_start = (Inr demo_receipt, demo_end)"
    by (simp add: execute_job_def demo_start_def demo_claim_job demo_recovered demo_claimed_ok demo_work andthen_run write_receipt_def demo_receipts_def
        run_defs receipt_stem_def demo_end_def demo_receipt_def)
  moreover have "rc_exists demo_receipts path demo_start = (Inr False, demo_start)" for path
    by (simp add: demo_receipts_def demo_start_def)
  ultimately have "locked_run demo_read 2 demo_bob demo_bob_job demo_start = (Inr demo_receipt, demo_end)"
    using f by (simp add: locked_run_def andthen_def)
  then show ?thesis using p by (simp add: run_one_shot_def always_then_def acquire_def run_defs) (simp add: demo_receipts_def run_defs always_then_def)
qed

section \<open>The validator\<close>

definition demo_vic_claim :: claim_request where
  "demo_vic_claim = claim_of (claim_payload_of ''vic'' ''corr-001'' (demo_token, ''a2'')) Validator (Some demo_issue_id) True"

definition demo_vic_proof :: lease_proof where
  "demo_vic_proof = demo_issue_proof ''vic'' demo_token 2 ''a2''"

definition demo_checked_request :: checkpoint_request where
  "demo_checked_request = \<lparr>i_task_id = demo_issue_id, i_worker_id = ''vic'', i_lease_token = demo_token, i_lease_generation = 2, i_attempt_id = ''a2'',
     i_checkpoint_id = checkpoint_id_of ''a2'' ''validator'' ''result'', i_sequence = 1, i_stage = ''validator_result'',
     i_next_action = ''complete'', i_correlation_id = ''corr-001'', i_artifact_kind = Some ''git_bundle'', i_artifact_ref = Some ''ref'',
     i_artifact_sha256 = Some (sha256_hex demo_artifact), i_effect_id = None, i_effect_state = ''none'', i_effect_result_ref = None\<rparr>"

definition demo_s6 :: pool_db where
  "demo_s6 = demo_s5\<lparr>tasks := map (claim_update 2 Validator demo_vic_claim 60000002) (tasks demo_s5),
     repository_lanes := map (claim_lane 2 Validator) (repository_lanes demo_s5),
     task_attempts := task_attempts demo_s5 @ [new_attempt 2 Validator demo_vic_claim 60 (hd (tasks demo_s5))]\<rparr>"

definition demo_s7 :: pool_db where
  "demo_s7 = demo_s6\<lparr>tasks := map (checkpoint_update 2 ''corr-001'') (tasks demo_s6),
     task_checkpoints := task_checkpoints demo_s6 @ [row_of demo_checked_request]\<rparr>"

definition demo_s8 :: pool_db where
  "demo_s8 = demo_s7\<lparr>tasks := map (complete_update 2 ''corr-001'') (tasks demo_s7),
     task_attempts := task_attempts demo_s5 @ [(new_attempt 2 Validator demo_vic_claim 60 (hd (tasks demo_s5)))
       \<lparr>a_ended_at := Some 2, a_end_reason := Some ''completed''\<rparr>]\<rparr>"

definition demo_vic_lease :: lease where
  "demo_vic_lease = \<lparr>l_task_id = demo_issue_id, l_lease_token = demo_token, l_worker_id = ''vic'', l_role = Validator,
     l_lease_expires_at = 60000002, l_lease_generation = 2, l_attempt_id = ''a2''\<rparr>"

text \<open>The task and the checkpoints as the builder left them, by their columns.\<close>

definition demo_row5 :: task_row where
  "demo_row5 = hd (tasks demo_s5)"

lemma demo_row5:
  "tasks demo_s5 = [demo_row5]" "t_task_id demo_row5 = demo_issue_id" "t_repository demo_row5 = REPO" "t_state demo_row5 = Validating"
  "t_fencing_required demo_row5" "t_leased_by demo_row5 = None" "t_produced_sha demo_row5 = Some demo_new_sha"
  "t_builder_worker_id demo_row5 = Some ''bob''" "t_lease_generation demo_row5 = 1" "t_attempt_count demo_row5 = 1"
  "t_last_material_progress_at demo_row5 = 2" "t_base_sha demo_row5 = Some demo_sha" "t_attempt_id demo_row5 = None"
  by (simp_all add: demo_row5_def demo_s5_def demo_s4_def demo_s3_def demo_s2_def demo_s1_def submit_update_def checkpoint_update_def start_update_def
      claim_update_def demo_issue_row_def new_task_def demo_issue_def demo_issue_id_def demo_job_claim_def claim_of_def claim_payload_of_def demo_text
      demo_issue_text opt_text_def text_or_none_def)

lemma demo_rows5:
  "task_checkpoints demo_s5 = [row_of demo_pending, row_of demo_confirmed]" "effect_reconciliations demo_s5 = []" "affinity demo_s5 = []"
  "c_task_id (row_of demo_pending) = demo_issue_id" "c_task_id (row_of demo_confirmed) = demo_issue_id"
  "c_lease_generation (row_of demo_pending) = 1" "c_lease_generation (row_of demo_confirmed) = 1"
  "c_sequence (row_of demo_pending) = 1" "c_sequence (row_of demo_confirmed) = 2"
  "c_effect_id (row_of demo_pending) = Some demo_effect_id" "c_effect_id (row_of demo_confirmed) = Some demo_effect_id"
  "c_effect_state (row_of demo_pending) = EffPending" "c_effect_state (row_of demo_confirmed) = EffConfirmed"
  "c_checkpoint_id (row_of demo_pending) = checkpoint_id_of ''a1'' ''builder'' ''artifact-pending''"
  "c_checkpoint_id (row_of demo_confirmed) = checkpoint_id_of ''a1'' ''builder'' ''result''"
  by (simp_all add: demo_states row_defs Let_def)

definition demo_attempt5 :: attempt_row where
  "demo_attempt5 = hd (task_attempts demo_s5)"

lemma demo_shop5:
  "workers demo_s5 = workers demo_shop" "pool_control demo_s5 = pool_control demo_lane"
  "repository_lanes demo_s5 = [claim_lane 2 Builder ((new_lane REPO 0)\<lparr>r_enabled := True, r_max_in_flight := 1\<rparr>)]"
  "quarantine demo_s5 = []" "task_attempts demo_s5 = [demo_attempt5]"
  "a_attempt_id demo_attempt5 = ''a1''" "a_task_id demo_attempt5 = demo_issue_id" "a_lease_generation demo_attempt5 = 1"
  by (simp_all add: demo_attempt5_def demo_states demo_job_claim_def claim_of_def claim_payload_of_def new_attempt_def demo_issue_row_def new_task_def
      demo_issue_id_def)

lemma demo_checked_row: "checkpoint_row_of 2 demo_checked_request = Inr (row_of demo_checked_request)"
  "c_task_id (row_of demo_checked_request) = demo_issue_id" "c_lease_generation (row_of demo_checked_request) = 2"
  "c_sequence (row_of demo_checked_request) = 1" "c_effect_id (row_of demo_checked_request) = None"
  "c_effect_state (row_of demo_checked_request) = EffNone"
  "c_checkpoint_id (row_of demo_checked_request) = checkpoint_id_of ''a2'' ''validator'' ''result''" "c_attempt_id (row_of demo_checked_request) = ''a2''"
  "c_correlation_id (row_of demo_checked_request) = ''corr-001''"
  "i_task_id demo_checked_request = demo_issue_id" "i_worker_id demo_checked_request = ''vic''" "i_lease_token demo_checked_request = demo_token"
  "i_lease_generation demo_checked_request = 2" "i_attempt_id demo_checked_request = ''a2''" "i_sequence demo_checked_request = 1"
  "i_checkpoint_id demo_checked_request = checkpoint_id_of ''a2'' ''validator'' ''result''" "i_effect_id demo_checked_request = None"
  "i_correlation_id demo_checked_request = ''corr-001''"
  by (simp_all add: row_defs demo_checked_request_def Let_def)

lemmas demo_vic_exec = demo_issue_exec demo_native_text demo_review_text demo_job_text checkpoint_id_text checkpoint_id_text(5-7) [symmetric] claim_of_def
  claim_payload_of_def role_name_def demo_vic_claim_def demo_vic_proof_def demo_vic_lease_def demo_row5 demo_rows5 demo_shop5 demo_checked_row
  demo_issue_TASK_ID later_checkpoint_def

lemma demo_vic_claimed: "claim_task demo_cfg 2 demo_vic_claim demo_s5 = (Inr (Some (hd (tasks demo_s6), demo_vic_lease)), demo_s6)"
  by (simp add: demo_s6_def demo_shop_eq demo_lane_eq demo_vic_exec Let_def del: checkpoint_row_of_def)

lemma demo_checked_recorded: "record_checkpoint 2 demo_checked_request demo_s6 = (Inr (row_of demo_checked_request, True), demo_s7)"
  by (simp add: demo_s7_def demo_s6_def demo_shop_eq demo_lane_eq demo_vic_exec Let_def del: checkpoint_row_of_def)

lemma demo_vic_completed: "mutation_op 2 demo_vic_proof ''corr-001'' MComplete demo_s7 = (Inr (hd (tasks demo_s8)), demo_s8)"
  by (simp add: demo_s8_def demo_s7_def demo_s6_def demo_shop_eq demo_lane_eq mutation_op_def demo_vic_exec Let_def del: checkpoint_row_of_def)

definition demo_recovery :: recovery_context where
  "demo_recovery = \<lparr>x_latest_checkpoint = Some (row_of demo_confirmed, None), x_effects = [(row_of demo_confirmed, None)]\<rparr>"

lemma demo_vic_recovery: "get_recovery_context demo_issue_id demo_s6 = Inr demo_recovery"
  by (simp add: demo_s6_def demo_recovery_def demo_vic_exec get_recovery_context_def get_latest_checkpoint_def newest_first_def reconciliation_of_def
      Let_def del: checkpoint_row_of_def)

lemma demo_latest5: "get_latest_checkpoint demo_issue_id demo_s5 = Inr (Some (row_of demo_confirmed, None))"
  by (simp add: get_latest_checkpoint_def newest_first_def reconciliation_of_def demo_row5 demo_rows5 find_task_def)

text \<open>What the validator reads of the builder's last checkpoint.\<close>

definition demo_latest :: pydict where
  "demo_latest = json_joined (row_of demo_confirmed, None)"

lemma demo_latest_get:
  "get demo_latest ''task_id'' = PStr demo_issue_id" "get demo_latest ''lease_generation'' = PInt 1" "get demo_latest ''attempt_id'' = PStr ''a1''"
  "get demo_latest ''checkpoint_id'' = PStr (checkpoint_id_of ''a1'' ''builder'' ''result'')" "get demo_latest ''sequence'' = PInt 2"
  "get demo_latest ''stage'' = PStr ''builder_result''" "get demo_latest ''next_action'' = PStr ''submit_validation''"
  "get demo_latest ''artifact_kind'' = PStr ''git_bundle''" "get demo_latest ''artifact_ref'' = PStr ''ref''"
  "get demo_latest ''artifact_sha256'' = PStr (sha256_hex demo_artifact)" "get demo_latest ''effect_id'' = PStr demo_effect_id"
  "get demo_latest ''effect_state'' = PStr ''confirmed''" "get demo_latest ''effect_result_ref'' = PStr ''ref''"
  "get demo_latest ''reconciliation_outcome'' = PNone"
  by (simp_all add: demo_latest_def json_joined_def json_checkpoint_def row_defs Let_def effect_state_name_def opt_str_def)

lemma demo_latest_artifact: "artifact_from_checkpoint demo_latest = Inr demo_durable"
  by (simp add: artifact_from_checkpoint_def artifact_of_def demo_latest_get demo_port_text SHA256_hex demo_durable_def)

lemma demo_latest_shape: "validate_checkpoint_shape demo_latest demo_issue_id = Inr ()"
  by (simp add: validate_checkpoint_shape_def checkpoint_head_ok_def checkpoint_effect_ok_def demo_latest_artifact artifact_keys_def demo_latest_get
      str_all_def int_all_def str_in_def hashable_def checkpoint_id_text demo_effect_id_def demo_job_text demo_native_text Let_def bindE_def require_def)

definition demo_vic :: "demo_world executor" where
  "demo_vic = demo_executor ''a2'' demo_new_sha ''/w2''"

definition demo_vic_job :: "demo_world job" where
  "demo_vic_job = demo_job demo_new_sha ''validator'' ''vic''"

definition demo_vic_held :: held where
  "demo_vic_held = \<lparr>hl_proof = demo_vic_proof, hl_fence = Some (2, ''a2''), hl_task = json_task (public_task (hd (tasks demo_s6))),
     hl_recovery = PDict (json_recovery demo_recovery)\<rparr>"

lemma demo_vic_simps [simp]:
  "ex_api demo_vic = demo_worker_api ''a2''" "ex_workspace demo_vic = demo_workspace ''/w2''" "ex_receipts demo_vic = demo_receipts"
  "ex_transport demo_vic = Some demo_store" "run_correlation demo_vic = ''corr-001''" "the_transport demo_vic = Inr demo_store"
  "jb_manifest demo_vic_job = demo_manifest demo_new_sha" "jb_role demo_vic_job = ''validator''" "jb_worker demo_vic_job = ''vic''"
  "jb_adapter demo_vic_job = demo_adapter"
  by (simp_all add: demo_vic_def demo_vic_job_def demo_executor_def demo_job_def run_correlation_def the_transport_def)

lemma demo_vic_recovered: "recovered demo_vic demo_vic_job demo_vic_held w = (Inr (Some demo_latest), w)"
proof -
  have "recovery_parts (PDict (json_recovery demo_recovery)) = Inr (Some demo_latest, [demo_latest])"
    by (simp add: recovery_parts_def json_recovery_def demo_recovery_def json_option_def demo_latest_def [symmetric] dict_of_def insert_commute
        List.map_filter_simps)
  moreover have "older_than 2 demo_latest" by (simp add: older_than_def int_all_def demo_latest_get)
  moreover have "effect_item_ok 2 [] demo_latest" "outcome_ok demo_latest" "hashable (get demo_latest ''reconciliation_outcome'')"
    by (simp_all add: effect_item_ok_def outcome_ok_def older_than_def int_all_def str_all_def str_in_def hashable_def demo_latest_get Let_def)
  moreover have "latest_matches (Some demo_latest) [demo_latest]"
    by (simp add: latest_matches_def demo_latest_get same_fields_def compared_fields_def)
  ultimately have "read_recovery (PDict (json_recovery demo_recovery)) demo_issue_id 2 = Inr (Some demo_latest, [demo_latest])"
    using demo_latest_shape by (simp add: read_recovery_def bindE_def require_def)
  moreover have "validate_recovery_effects (Some demo_latest) [demo_latest] = Inr ()"
    by (simp add: effective_state_def demo_latest_get resumable_def demo_latest_artifact bindE_def require_def)
  ultimately show ?thesis by (simp add: recovered_def demo_vic_held_def run_defs)
qed

lemma demo_row6:
  "tasks demo_s6 = [claim_update 2 Validator demo_vic_claim 60000002 demo_row5]" "hd (tasks demo_s6) = claim_update 2 Validator demo_vic_claim 60000002 demo_row5"
  by (simp_all add: demo_s6_def demo_row5)

lemma demo_vic_task:
  "get (hl_task demo_vic_held) ''produced_sha'' = PStr demo_new_sha" "claimed_ok demo_vic_job (hl_task demo_vic_held)"
  "fencing_required (json_task (public_task (hd (tasks demo_s6)))) = Inr True"
  "lease_fence True (json_lease demo_vic_lease) (json_task (public_task (hd (tasks demo_s6)))) = Inr (Some (2, ''a2''))"
  by (simp_all add: demo_vic_held_def claimed_ok_def fencing_required_def lease_fence_def json_task_def json_lease_def public_task_def demo_row6 claim_update_def
      demo_row5 demo_vic_claim_def claim_of_def claim_payload_of_def demo_vic_lease_def state_name_def opt_str_def demo_review_text)

lemma demo_vic_claim_reply:
  "claim_exact demo_read 2 (demo_line ''a2'') True ''vic'' demo_issue_id ''corr-001'' (demo_app demo_s5) =
     (Inr [(''claimed'', PBool True), (''task'', PDict (json_task (public_task (hd (tasks demo_s6))))), (''lease'', PDict (json_lease demo_vic_lease)),
        (''recovery_context'', PDict (json_recovery demo_recovery))], demo_app demo_s6)"
proof -
  let ?wk = "(demo_worker_row ''vic'' Validator)\<lparr>w_registered_at := 1, w_last_heartbeat_at := 1\<rparr>"
  have w: "get_worker ''vic'' demo_s5 = Inr ?wk"
    by (simp add: get_worker_def find_worker_def demo_shop5 demo_shop_eq demo_lane_eq demo_worker_row_def)
  have id: "t_task_id (hd (tasks demo_s6)) = demo_issue_id" by (simp add: demo_row6 claim_update_def demo_row5)
  have x: "get_recovery_context (t_task_id (hd (tasks demo_s6))) demo_s6 = Inr demo_recovery" using demo_vic_recovery id by simp
  have c: "claim_task (ae_cfg demo_native_env) 2 (claim_of (claim_payload_of ''vic'' ''corr-001'' (demo_token, ''a2'')) (w_role ?wk) (Some demo_issue_id) True)
      (pool (demo_app demo_s5)) = (Inr (Some (hd (tasks demo_s6), demo_vic_lease)), demo_s6)"
    using demo_vic_claimed by (simp add: demo_native_env_def demo_vic_claim_def demo_worker_row_def)
  have live: "lease_live demo_read 2 (json_lease demo_vic_lease)"
    using length_iso [of 60000002] parse_iso_printed [OF demo_expiry]
    by (auto simp: lease_live_def str_all_def demo_read_def json_lease_def demo_vic_lease_def)
  have "recovery_shape_ok (PDict (json_recovery demo_recovery))"
    by (simp add: recovery_shape_ok_def json_recovery_def demo_recovery_def json_option_def dict_of_def insert_commute)
  then have f: "claim_checked demo_read 2 True ''vic'' demo_issue_id reply = Inr reply"
    if "reply = [(''claimed'', PBool True), (''task'', PDict (json_task (public_task (hd (tasks demo_s6))))), (''lease'', PDict (json_lease demo_vic_lease)),
        (''recovery_context'', PDict (json_recovery demo_recovery))]" for reply
    using live json_task_token [of "public_task (hd (tasks demo_s6))"] unfolding that
    by (simp add: claim_checked_def bindE_def require_def claim_reply_ok_def fenced_claim_ok_def task_readback_def str_in_def
        str_all_def int_all_def task_states_def)
      (simp add: demo_row6 claim_update_def demo_row5 demo_vic_claim_def claim_of_def claim_payload_of_def demo_vic_lease_def json_lease_def json_task_def
        public_task_def state_name_def role_name_def opt_str_def demo_review_text demo_native_text)
  show ?thesis
    using claim_fenced_online [OF demo_line_online _ _ demo_issue_TASK_ID _ c x, of demo_read 2] w f by (simp add: demo_port_text)
qed

lemma demo_vic_claim_job: "claim_job demo_read 2 demo_vic demo_vic_job True (g, demo_app demo_s5) = (Inr demo_vic_held, (g, demo_app demo_s6))"
proof -
  have l: "lease_ok demo_read 2 demo_vic_job (json_lease demo_vic_lease)"
    using parse_iso_printed [OF demo_expiry]
    by (simp add: lease_ok_def str_all_def demo_read_def json_lease_def demo_vic_lease_def demo_native_text role_name_def)
  have p: "lease_proof_of demo_vic_job (json_lease demo_vic_lease) (Some (2, ''a2'')) = demo_vic_proof"
    by (simp add: lease_proof_of_def json_lease_def demo_vic_lease_def text_of_def demo_vic_proof_def demo_issue_proof_def demo_proof_def)
  have d: "dict_or_empty (PDict (json_task r)) = Inr (json_task r)" "dict_or_empty (PDict (json_lease x)) = Inr (json_lease x)" for r x
    by (simp_all add: dict_or_empty_def json_task_def json_lease_def)
  have "send_claim demo_vic demo_vic_job True (g, demo_app demo_s5) =
     (Inr [(''claimed'', PBool True), (''task'', PDict (json_task (public_task (hd (tasks demo_s6))))), (''lease'', PDict (json_lease demo_vic_lease)),
        (''recovery_context'', PDict (json_recovery demo_recovery))], (g, demo_app demo_s6))"
    using demo_vic_claim_reply by (simp add: send_claim_def Let_def run_defs demo_store_def demo_worker_api_def at_service_def)
  then show ?thesis using l demo_vic_task(3,4) p d by (simp add: claim_job_def run_defs demo_vic_held_def)
qed

lemma demo_checked_run: "\<exists>v. wa_record_checkpoint (demo_worker_api ''a2'') demo_checked_request (g, demo_app demo_s6) = (Inr v, (g, demo_app demo_s7))"
proof -
  let ?i = demo_checked_request
  have u: "length (checkpoint_id_of a ''validator'' ''result'') = 56" for a by (simp add: checkpoint_id_of_def)
  have args: "NAME (i_worker_id ?i)" "CORRELATION (i_correlation_id ?i)" "TASK_ID (i_task_id ?i)" "checkpoint_args_ok ?i" "body_ok (PostCheckpoint ?i)"
    using u by (simp_all add: demo_checked_request_def checkpoint_args_ok_def artifact_fields_ok_def effect_fields_ok_def ok_CheckpointRecord_def ok_LeaseMutation_def
        checkpoint_proof_def len_in_def opt_all_def demo_native_text demo_review_text demo_job_text demo_issue_text demo_port_text checkpoint_id_text
        demo_artifact_text hex_digits SHA256_hex demo_issue_TASK_ID)
  have m: "checkpoint_matches (PDict (json_checkpoint (row_of ?i))) (expected_checkpoint ?i)" "c_task_id (row_of ?i) = i_task_id ?i"
    by (simp_all add: checkpoint_matches_def expected_checkpoint_def json_checkpoint_def py_eq_opt row_defs demo_checked_request_def Let_def
        effect_state_name_def opt_str_def)
  have "get_latest_checkpoint demo_issue_id demo_s7 = Inr (Some (row_of ?i, None))"
    by (simp add: demo_s7_def demo_s6_def get_latest_checkpoint_def newest_first_def reconciliation_of_def demo_row5 demo_rows5 demo_checked_row find_task_def
        claim_update_def checkpoint_update_def)
  then show ?thesis
    using record_online [OF demo_line_online args _ _ m, of "demo_app demo_s6" True demo_s7 None "''a2''"] demo_checked_recorded
    by (simp add: demo_worker_api_def Let_def at_service_def demo_checked_request_def)
qed

lemma demo_complete_run: "wa_complete (demo_worker_api ''a2'') demo_vic_proof ''corr-001'' (g, demo_app demo_s7) = (Inr (), (g, demo_app demo_s8))"
proof -
  have "mutation_args_ok demo_vic_proof ''corr-001'' MComplete"
    by (simp add: mutation_args_ok_def demo_vic_proof_def demo_issue_proof_def demo_proof_def demo_native_text demo_review_text mutation_ok_def fence_ok_def demo_issue_TASK_ID)
  moreover have "mutation_op 2 demo_vic_proof ''corr-001'' MComplete (pool (demo_app demo_s7)) = (Inr (hd (tasks demo_s8)), demo_s8)"
    using demo_vic_completed by simp
  moreover have "t_state (hd (tasks demo_s8)) = Completed" by (simp add: demo_s8_def demo_s7_def demo_row6 complete_update_def)
  ultimately show ?thesis
    using mutate_online [OF demo_line_online, of demo_vic_proof "''corr-001''" MComplete "demo_app demo_s7" _ demo_s8 "''a2''"]
    by (simp add: demo_worker_api_def Let_def at_service_def client_complete_def expected_states_def state_name_def)
qed

lemma demo_vic_validated:
  "run_adapter (na_validate demo_adapter (invoker_of demo_vic demo_vic_job) sha) w = (Inr (demo_result ''test'', [''test'']), w)"
  "validate_result (demo_result ''test'') demo_descriptor [''test''] ''validator'' = Inr ()"
  by (simp_all add: run_adapter_def demo_adapter_def run_defs invoker_of_def demo_vic_def demo_executor_def invoke_def role_commands_def demo_descriptor_def
      demo_vic_job_def demo_job_def validate_result_def demo_result_def demo_port_text commands_for_def result_paths_ok_def SHA256_hex)

lemma demo_vic_work: "work demo_vic demo_vic_job demo_vic_held (Some demo_latest) ((demo_new_sha, rs), demo_app demo_s6) =
    (Inr (demo_result ''test'', Some demo_durable), ((demo_new_sha, rs), demo_app demo_s8))"
proof -
  have h: "hl_proof demo_vic_held = demo_vic_proof" "hl_fence demo_vic_held = Some (2, ''a2'')" "ar_produced_sha (demo_result ''test'') = demo_new_sha"
    by (simp_all add: demo_vic_held_def demo_result_def)
  have "with_artifact demo_durable (checkpoint_request_of demo_vic demo_vic_job demo_vic_held (2, ''a2'') ''result'' 1 ''validator_result'' ''complete'') =
      demo_checked_request"
    by (simp add: with_artifact_def checkpoint_request_of_def demo_checked_request_def demo_vic_held_def demo_durable_def demo_vic_proof_def
        demo_issue_proof_def demo_proof_def)
  moreover obtain v where "wa_record_checkpoint (demo_worker_api ''a2'') demo_checked_request ((demo_new_sha, rs), demo_app demo_s6) =
      (Inr v, ((demo_new_sha, rs), demo_app demo_s7))"
    using demo_checked_run by blast
  moreover have "verified_artifact demo_vic demo_vic_job demo_vic_held (Some demo_latest) demo_new_sha w = (Inr (Some demo_durable), w)" for w
    by (simp add: verified_artifact_def h resumable_def demo_latest_get demo_latest_artifact verify_artifact_def demo_store_def run_defs)
  moreover have "text_field SHA40 (hl_task demo_vic_held) ''produced_sha'' ''validation_sha_missing'' = Inr demo_new_sha"
    by (simp add: text_field_def demo_vic_task demo_port_text)
  moreover have "unchanged demo_vic demo_new_sha demo_new_sha [] ((demo_new_sha, rs), a) = (Inr (), ((demo_new_sha, rs), a))" for a
    by (simp add: unchanged_def demo_workspace_run run_defs)
  moreover have "all_commands demo_vic_job [''test'']" by (simp add: all_commands_def role_commands_def demo_descriptor_def)
  ultimately show ?thesis
    using demo_vic_validated demo_complete_run by (simp add: work_def validate_job_def h demo_workspace_run run_defs)
qed

definition demo_vic_receipt :: pydict where
  "demo_vic_receipt = receipt_of demo_vic demo_vic_job demo_vic_held (demo_result ''test'', Some demo_durable)"

text \<open>The validator works on another machine, without the builder's receipts.\<close>

definition demo_vic_start :: demo_world where
  "demo_vic_start = ((demo_new_sha, []), demo_app demo_s5)"

definition demo_vic_end :: demo_world where
  "demo_vic_end = ((demo_new_sha, [(demo_issue_id @ ''-validator.json'', demo_vic_receipt)]), demo_app demo_s8)"

lemma demo_vic_run: "run_one_shot demo_read 2 demo_vic (demo_raw demo_new_sha) ''validator'' ''vic'' demo_vic_start = (Inr demo_vic_receipt, demo_vic_end)"
proof -
  have p: "prepare_job demo_vic (demo_raw demo_new_sha) ''validator'' ''vic'' = Inr demo_vic_job"
    unfolding demo_vic_def demo_vic_job_def by (rule demo_job_prepared) (simp_all add: demo_port_text)
  have f: "fresh_checks demo_vic demo_vic_job demo_vic_start = (Inr (), demo_vic_start)"
    unfolding demo_vic_def demo_vic_job_def demo_vic_start_def by (rule demo_fresh) simp_all
  have "read_task demo_vic demo_vic_job demo_vic_start = (Inr (json_task (public_task demo_row5), True), demo_vic_start)"
    unfolding demo_vic_def demo_vic_job_def demo_vic_start_def
    by (rule demo_read_run) (simp_all add: find_task_def demo_row5)
  moreover have "check_claimed demo_vic demo_vic_job demo_vic_held w = (Inr (), w)" for w
    by (simp add: check_claimed_def demo_vic_task ret_def)
  then have "execute_job demo_read 2 demo_vic demo_vic_job True demo_vic_start = (Inr demo_vic_receipt, demo_vic_end)"
    by (simp add: execute_job_def demo_vic_start_def demo_vic_claim_job demo_vic_recovered demo_vic_work andthen_run write_receipt_def demo_receipts_def
        run_defs receipt_stem_def demo_vic_end_def demo_vic_receipt_def)
  moreover have "rc_exists demo_receipts path demo_vic_start = (Inr False, demo_vic_start)" for path
    by (simp add: demo_receipts_def demo_vic_start_def)
  ultimately have "locked_run demo_read 2 demo_vic demo_vic_job demo_vic_start = (Inr demo_vic_receipt, demo_vic_end)"
    using f by (simp add: locked_run_def andthen_def)
  then show ?thesis using p by (simp add: run_one_shot_def always_then_def acquire_def run_defs) (simp add: demo_receipts_def run_defs always_then_def)
qed

section \<open>Its states are reachable\<close>

lemma demo_shop_reachable: "reachable demo_cfg demo_shop"
proof -
  have "reachable demo_cfg demo_lane" unfolding demo_lane_def demo_created_def
    by (rule reachable_run_calls) (simp_all add: reachable.created)
  then have "reachable demo_cfg demo_admitted" unfolding demo_admitted_def by (blast intro: reachable.stepped pool_step.call call_ok.simps [THEN iffD2])
  then show ?thesis unfolding demo_shop_def by (intro reachable_run_calls) simp_all
qed

lemma demo_app_reachable_shop: "app_reachable demo_cfg (demo_app demo_shop)"
  unfolding demo_app_def by (rule app_reachable_idle [OF demo_shop_reachable])

end
