(* ===== verification/One_Shot_Properties.thy ===== *)
theory One_Shot_Properties
  imports One_Shot_Scenario
begin

text \<open>
  The one-shot worker with the native client and the service in the place of its API, while other clients use the
  same service: what a receipt says is in the service's database and stays there, and a receipt is
  replayed without a change. Between two actions of the worker the database moves by the steps of the service
  (\<open>history\<close>), whoever asked for them.
\<close>

section \<open>What stays of a task\<close>

lemma app_steps_pool: "(app_step cfg)\<^sup>*\<^sup>* a b \<Longrightarrow> (pool_step cfg)\<^sup>*\<^sup>* (pool a) (pool b)"
proof (induction rule: rtranclp_induct)
  case (step b c)
  have "(pool_step cfg)\<^sup>*\<^sup>* (pool b) (pool c)"
    using step.hyps(2)
  proof cases
    case (creation now n policy)
    have "pool_step cfg (pool b) (snd (enqueue_task cfg now n (pool b)))"
      using pool_step.call [of "EnqueueTask n" cfg "pool b" now] by simp
    then show ?thesis using create_work_pool [of cfg now n policy b] unfolding creation by (metis r_into_rtranclp rtranclp.rtrancl_refl)
  qed auto
  then show ?case using step.IH by auto
qed simp

text \<open>A produced commit and its builder are never replaced.\<close>

definition keeps_work :: "life \<Rightarrow> life \<Rightarrow> bool" where
  "keeps_work l l' \<longleftrightarrow> (lf_produced l \<noteq> None \<longrightarrow> lf_produced l' = lf_produced l \<and> lf_builder l' = lf_builder l)"

interpretation built: life_relation keeps_work
proof unfold_locales
  fix l l' :: life
  show "life_step l l' \<Longrightarrow> life_inv l \<Longrightarrow> keeps_work l l'"
    by (induction rule: life_step.induct) (auto simp: keeps_work_def life_inv_def duty_inv_def)
qed (auto simp: keeps_work_def)

lemma later_task:
  assumes "app_reachable cfg a" and "(app_step cfg)\<^sup>*\<^sup>* a b" and "find_task tid (pool a) = Some t"
  obtains t' where "find_task tid (pool b) = Some t'" "t_fencing_required t' = t_fencing_required t"
    "t_lease_generation t \<le> t_lease_generation t'"
    "t_produced_sha t \<noteq> None \<Longrightarrow> t_produced_sha t' = t_produced_sha t \<and> t_builder_worker_id t' = t_builder_worker_id t"
    "t_state t = Completed \<Longrightarrow> t_state t' = Completed \<and> t_validator_worker_id t' = t_validator_worker_id t"
    "\<And>c. c \<in> set (task_checkpoints (pool a)) \<Longrightarrow> c_task_id c = tid \<Longrightarrow> c \<in> set (task_checkpoints (pool b))"
proof -
  note p = reachable_pool_ok [OF app_reachable_pool [OF assms(1)]] app_steps_pool [OF assms(2)] assms(3)
  obtain t' where t': "find_task tid (pool b) = Some t'" "keeps_contract (life_of (pool a) t) (life_of (pool b) t')"
    using contracts.later [OF p] .
  have f: "keeps_final (life_of (pool a) t) (life_of (pool b) t')" using finals.later [OF p] t'(1) by (metis option.inject)
  have w: "keeps_work (life_of (pool a) t) (life_of (pool b) t')" using built.later [OF p] t'(1) by (metis option.inject)
  have l: "keeps_ledger (life_of (pool a) t) (life_of (pool b) t')" using ledgers.later [OF p] t'(1) by (metis option.inject)
  have id: "t_task_id t = tid" "t_task_id t' = tid" using tasks_tbl.get_key assms(3) t'(1) by blast+
  show ?thesis
  proof (rule that [OF t'(1)])
    show "t_fencing_required t' = t_fencing_required t" "t_lease_generation t \<le> t_lease_generation t'"
      using t'(2) by (auto simp: keeps_contract_def)
    show "t_produced_sha t' = t_produced_sha t \<and> t_builder_worker_id t' = t_builder_worker_id t" if "t_produced_sha t \<noteq> None"
      using w that by (simp add: keeps_work_def)
    show "t_state t' = Completed \<and> t_validator_worker_id t' = t_validator_worker_id t" if "t_state t = Completed"
    proof -
      have "life_of (pool b) t' = life_of (pool a) t" using f that by (simp add: keeps_final_def)
      then show ?thesis using that by (metis life_of_simps(1,11))
    qed
    show "c \<in> set (task_checkpoints (pool b))" if "c \<in> set (task_checkpoints (pool a))" "c_task_id c = tid" for c
    proof -
      have "c \<in> set (lf_checkpoints (life_of (pool a) t))" using that id by simp
      then have "c \<in> set (lf_checkpoints (life_of (pool b) t'))" using l by (auto simp: keeps_ledger_def simp del: life_of_simps)
      then show ?thesis by simp
    qed
  qed
qed

lemma completed_has_commit:
  assumes "app_reachable cfg a" and "find_task tid (pool a) = Some t" and "t_state t = Completed"
  shows "t_produced_sha t \<noteq> None"
proof -
  have "life_inv (life_of (pool a) t)"
    using reachable_pool_ok [OF app_reachable_pool [OF assms(1)]] assms(2) tasks_tbl.get_mem by (auto simp: pool_ok_def)
  then show ?thesis using assms(3) by (simp add: life_inv_def duty_inv_def)
qed

section \<open>The ports\<close>

abbreviation service_moves :: "api_env \<Rightarrow> 'g \<times> app_db \<Rightarrow> 'g \<times> app_db \<Rightarrow> bool" where
  "service_moves env w w' \<equiv> history env (snd w) (snd w')"

interpretation moving: world_relation "service_moves env :: 'g \<times> app_db \<Rightarrow> 'g \<times> app_db \<Rightarrow> bool" for env
  by unfold_locales auto

text \<open>An action is a call of the client: some instant, some draw of the server, and other clients before and after.\<close>

definition call_at :: "api_env \<Rightarrow> ('p \<Rightarrow> app_db local_api \<Rightarrow> ('a, app_db) act) \<Rightarrow> ('a, 'g \<times> app_db) act \<Rightarrow> bool" where
  "call_at env op m \<longleftrightarrow>
     (\<forall>w. \<exists>p now draw api a1 a2. connected env now draw api \<and> snd draw \<noteq> [] \<and> history env (snd w) a1 \<and>
        op p api a1 = (fst (m w), a2) \<and> history env a2 (snd (snd (m w))))"

definition served :: "api_env \<Rightarrow> ('g \<times> app_db) worker_api \<Rightarrow> bool" where
  "served env wa \<longleftrightarrow>
     (\<forall>tid. call_at env (\<lambda>(_ :: unit) api. client_get_task api tid) (wa_get_task wa tid)) \<and>
     (\<forall>w tid c. call_at env (\<lambda>(f, u) api. claim_exact f u api False w tid c) (wa_claim_exact wa w tid c)) \<and>
     (\<forall>w tid c. call_at env (\<lambda>(f, u) api. claim_exact f u api True w tid c) (wa_claim_fenced_exact wa w tid c)) \<and>
     (\<forall>tid. call_at env (\<lambda>(_ :: unit) api. client_latest_checkpoint api tid) (wa_get_latest_checkpoint wa tid)) \<and>
     (\<forall>i. call_at env (\<lambda>(_ :: unit) api. client_record_checkpoint api i) (wa_record_checkpoint wa i)) \<and>
     (\<forall>p c. call_at env (\<lambda>(_ :: unit) api. client_start api p c) (wa_start wa p c)) \<and>
     (\<forall>p s c. call_at env (\<lambda>(_ :: unit) api. client_submit_validation api p s c) (wa_submit_validation wa p s c)) \<and>
     (\<forall>p c. call_at env (\<lambda>(_ :: unit) api. client_complete api p c) (wa_complete wa p c)) \<and>
     (\<forall>p c r. call_at env (\<lambda>(_ :: unit) api. client_fail api p c r) (wa_fail wa p c r)) \<and>
     (\<forall>p c r. call_at env (\<lambda>(_ :: unit) api. client_block api p c r) (wa_block wa p c r))"

lemma call_at_run:
  assumes "call_at env op m" and "m w = (r, w')"
  shows "\<exists>p now draw api a1 a2. connected env now draw api \<and> snd draw \<noteq> [] \<and> history env (snd w) a1 \<and>
    op p api a1 = (r, a2) \<and> history env a2 (snd w')"
  using assms unfolding call_at_def by (metis fst_conv snd_conv)

lemma call_at_keeps:
  assumes "call_at env op m"
    and "\<And>p api now draw. connected env now draw api \<Longrightarrow> snd draw \<noteq> [] \<Longrightarrow> keeps (history env) (op p api)"
  shows "keeps (service_moves env) m"
  unfolding keeps_def
proof
  fix w
  obtain r w' where m: "m w = (r, w')" by (cases "m w")
  obtain p now draw api a1 a2 where c: "connected env now draw api" "snd draw \<noteq> []" "history env (snd w) a1"
    "op p api a1 = (r, a2)" "history env a2 (snd w')"
    using call_at_run [OF assms(1) m] by blast
  have "history env a1 a2" using keeps_run [OF assms(2) [OF c(1,2)] c(4)] .
  then show "service_moves env w (snd (m w))" using c(3,5) m by (simp add: rtranclp_trans)
qed

lemma served_keeps:
  assumes "served env wa"
  shows "keeps (service_moves env) (wa_get_task wa tid)" "keeps (service_moves env) (wa_claim_exact wa w tid c)"
    "keeps (service_moves env) (wa_claim_fenced_exact wa w tid c)" "keeps (service_moves env) (wa_get_latest_checkpoint wa tid)"
    "keeps (service_moves env) (wa_record_checkpoint wa i)" "keeps (service_moves env) (wa_start wa p c)"
    "keeps (service_moves env) (wa_submit_validation wa p s c)" "keeps (service_moves env) (wa_complete wa p c)"
    "keeps (service_moves env) (wa_fail wa p c s)" "keeps (service_moves env) (wa_block wa p c s)"
  using assms unfolding served_def
  by (auto elim!: call_at_keeps allE [of _ tid] allE simp: client_keeps client_start_def client_submit_validation_def client_complete_def
      client_fail_def client_block_def split: prod.splits)

section \<open>The rest of the world\<close>

text \<open>Files, git, receipts, the durable store and the adapters do not touch the service: while they work it moves only
  by its own steps. The adapter is held to that as long as the callback it gets is.\<close>

abbreviation inner_moves :: "api_env \<Rightarrow> ('g \<times> app_db) \<times> string list \<Rightarrow> ('g \<times> app_db) \<times> string list \<Rightarrow> bool" where
  "inner_moves env x x' \<equiv> service_moves env (fst x) (fst x')"

definition adapter_beside :: "api_env \<Rightarrow> ('g \<times> app_db) native_adapter \<Rightarrow> bool" where
  "adapter_beside env ad \<longleftrightarrow>
     (\<forall>inv. (\<forall>key. keeps (inner_moves env) (inv key)) \<longrightarrow>
        keeps (inner_moves env) (na_build ad inv) \<and> (\<forall>sha. keeps (inner_moves env) (na_validate ad inv sha)))"

definition transport_beside :: "api_env \<Rightarrow> ('g \<times> app_db) artifact_transport \<Rightarrow> bool" where
  "transport_beside env t \<longleftrightarrow>
     keeps (service_moves env) (tp_preflight t) \<and> (\<forall>m g n e r. keeps (service_moves env) (tp_publish t m g n e r)) \<and>
     (\<forall>m a. keeps (service_moves env) (tp_materialize t m a)) \<and> (\<forall>m s a. keeps (service_moves env) (tp_verify t m s a))"

definition receipts_beside :: "api_env \<Rightarrow> ('g \<times> app_db) receipt_store \<Rightarrow> bool" where
  "receipts_beside env rs \<longleftrightarrow>
     (\<forall>p. keeps (service_moves env) (rc_lock rs p) \<and> (\<forall>w. service_moves env w (rc_unlock rs p w)) \<and>
        keeps (service_moves env) (rc_exists rs p) \<and> keeps (service_moves env) (rc_plain rs p) \<and>
        keeps (service_moves env) (rc_read rs p) \<and> keeps (service_moves env) (rc_absent rs p) \<and>
        (\<forall>d. keeps (service_moves env) (rc_replace rs p d)))"

definition workspace_beside :: "api_env \<Rightarrow> ('g \<times> app_db) local_workspace \<Rightarrow> bool" where
  "workspace_beside env ws \<longleftrightarrow>
     keeps (service_moves env) (ws_root_plain ws) \<and> (\<forall>args. keeps (service_moves env) (ws_git ws args)) \<and>
     (\<forall>p. keeps (service_moves env) (ws_file ws p))"

definition bystanders :: "api_env \<Rightarrow> ('g \<times> app_db) executor \<Rightarrow> bool" where
  "bystanders env ex \<longleftrightarrow>
     workspace_beside env (ex_workspace ex) \<and> receipts_beside env (ex_receipts ex) \<and>
     (\<forall>t. ex_transport ex = Some t \<longrightarrow> transport_beside env t) \<and>
     (\<forall>k ad. map_of (ex_adapters ex) k = Some ad \<longrightarrow> adapter_beside env ad) \<and>
     (\<forall>k r key cmd. map_of (ex_registries ex) k = Some r \<longrightarrow> map_of r key = Some cmd \<longrightarrow> keeps (service_moves env) cmd)"

lemmas moves = moving.keeps_andthen moving.keeps_attempt moving.keeps_pure

lemma ignoring_keeps: "keeps (service_moves env) m \<Longrightarrow> keeps (service_moves env) (ignoring m)"
  unfolding ignoring_def by (intro moves)

lemma git_keeps:
  assumes "workspace_beside env ws"
  shows "keeps (service_moves env) (git ws args)"
  using assms unfolding git_def workspace_beside_def by (auto intro!: moves split: option.splits)

lemma workspace_keeps:
  assumes "workspace_beside env ws"
  shows "keeps (service_moves env) (workspace_head ws)" "keeps (service_moves env) (workspace_status ws)"
    "keeps (service_moves env) (workspace_changed_paths ws b s)" "keeps (service_moves env) (workspace_clean ws)"
    "keeps (service_moves env) (validate_replay ws s)" "keeps (service_moves env) (validate_before_claim ws m d)"
proof -
  note g = git_keeps [OF assms]
  have files: "keeps (service_moves env) (validate_files ws hs)" for hs
    using assms by (induction hs) (auto simp: workspace_beside_def intro!: moves)
  show h: "keeps (service_moves env) (workspace_head ws)" and s: "keeps (service_moves env) (workspace_status ws)"
    and "keeps (service_moves env) (workspace_changed_paths ws b s)"
    unfolding workspace_head_def workspace_status_def workspace_changed_paths_def by (intro moves g)+
  show c: "keeps (service_moves env) (workspace_clean ws)"
    using assms unfolding workspace_clean_def workspace_beside_def by (intro moves g s) blast
  show "keeps (service_moves env) (validate_replay ws s)" "keeps (service_moves env) (validate_before_claim ws m d)"
    unfolding validate_replay_def validate_before_claim_def by (intro moves c h files)+
qed

lemma receipt_keeps:
  assumes "receipts_beside env rs"
  shows "keeps (service_moves env) (acquire rs tid role)" "keeps (service_moves env) (write_receipt rs tid role d)"
  using assms unfolding acquire_def write_receipt_def receipts_beside_def by (auto intro!: moves)

lemma run_adapter_keeps: "keeps (inner_moves env) m \<Longrightarrow> keeps (service_moves env) (run_adapter m)"
  unfolding keeps_def run_adapter_def by (auto split: prod.splits sum.splits) (metis fst_conv snd_conv)+

lemma invoke_world:
  "fst (snd (invoke commands allowed key x)) = fst x \<or>
   (\<exists>cmd. map_of commands key = Some cmd \<and> fst (snd (invoke commands allowed key x)) = snd (cmd (fst x)))"
  by (auto simp: invoke_def split: option.splits prod.splits)

lemma invoker_keeps:
  assumes "bystanders env ex"
  shows "keeps (inner_moves env) (invoker_of ex jb key)"
proof -
  define cs where "cs = (case map_of (ex_registries ex) (mf_adapter_id (jb_manifest jb)) of None \<Rightarrow> [] | Some r \<Rightarrow> r)"
  have r: "service_moves env w (snd (cmd w))" if "map_of cs key = Some cmd" for w cmd
    using assms that unfolding bystanders_def keeps_def cs_def by (cases w) (auto split: option.splits)
  have "inner_moves env x (snd (invoke cs allowed key x))" for allowed x
    using invoke_world [of cs allowed key x] r [of _ "fst x"] by (elim disjE exE conjE) simp_all
  then show ?thesis unfolding invoker_of_def cs_def [symmetric] by (simp add: keeps_def)
qed

lemma adapter_keeps:
  assumes "bystanders env ex" and "adapter_beside env (jb_adapter jb)"
  shows "keeps (service_moves env) (run_adapter (na_build (jb_adapter jb) (invoker_of ex jb)))"
    "keeps (service_moves env) (run_adapter (na_validate (jb_adapter jb) (invoker_of ex jb) sha))"
  using assms(2) invoker_keeps [OF assms(1)] by (auto simp: adapter_beside_def intro!: run_adapter_keeps)

lemma transport_keeps:
  assumes "bystanders env ex" and "\<And>t. transport_beside env t \<Longrightarrow> keeps (service_moves env) (f t)"
  shows "keeps (service_moves env) (andthen (lift (the_transport ex)) f)"
  using assms by (auto simp: the_transport_def bystanders_def keeps_def andthen_def lift_def split: option.splits)

section \<open>Whatever the worker does is a history of the service\<close>

lemma step_keeps:
  assumes "served env (ex_api ex)" and "bystanders env ex"
  shows "keeps (service_moves env) (fresh_checks ex jb)" "keeps (service_moves env) (read_task ex jb)"
    "keeps (service_moves env) (claim_job f u ex jb fenced)" "keeps (service_moves env) (recovered ex jb h)"
    "keeps (service_moves env) (check_claimed ex jb h)" "keeps (service_moves env) (verify_artifact ex jb sha art)"
    "keeps (service_moves env) (check_built ex jb r invoked)"
    "keeps (service_moves env) (unchanged ex sha bh bs)"
proof -
  have ws: "workspace_beside env (ex_workspace ex)" and rs: "receipts_beside env (ex_receipts ex)"
    using assms(2) by (auto simp: bystanders_def)
  note w = workspace_keeps [OF ws] and api = served_keeps [OF assms(1)] and t = transport_keeps [OF assms(2)]
  have "keeps (service_moves env) (distinct_workspace ex jb)"
    using rs unfolding distinct_workspace_def receipts_beside_def Let_def by (auto intro!: moves)
  then show "keeps (service_moves env) (fresh_checks ex jb)" unfolding fresh_checks_def Let_def by (intro moves w)
  show "keeps (service_moves env) (read_task ex jb)" unfolding read_task_def by (intro moves api)
  have "keeps (service_moves env) (send_claim ex jb fenced)"
    unfolding send_claim_def Let_def by (auto intro!: t moves api simp: transport_beside_def)
  then show "keeps (service_moves env) (claim_job f u ex jb fenced)" unfolding claim_job_def by (intro moves)
  show "keeps (service_moves env) (recovered ex jb h)"
    unfolding recovered_def by (auto intro!: moves api ignoring_keeps split: option.splits prod.splits)
  show "keeps (service_moves env) (check_claimed ex jb h)"
    unfolding check_claimed_def by (auto intro!: moves api ignoring_keeps)
  show "keeps (service_moves env) (verify_artifact ex jb sha art)"
    unfolding verify_artifact_def by (intro t) (simp add: transport_beside_def)
  show "keeps (service_moves env) (check_built ex jb r invoked)" "keeps (service_moves env) (unchanged ex sha bh bs)"
    unfolding check_built_def unchanged_def by (intro moves w)+
qed

lemma work_keeps:
  assumes "served env (ex_api ex)" and "bystanders env ex" and "adapter_beside env (jb_adapter jb)"
  shows "keeps (service_moves env) (produce ex jb latest)" "keeps (service_moves env) (publish_artifact ex jb h fence effect r)"
    "keeps (service_moves env) (settle_artifact ex jb h fence latest r found)"
    "keeps (service_moves env) (verified_artifact ex jb h latest sha)" "keeps (service_moves env) (replay ex jb fenced task)"
proof -
  have ws: "workspace_beside env (ex_workspace ex)" and rs: "receipts_beside env (ex_receipts ex)"
    using assms(2) by (auto simp: bystanders_def)
  note w = workspace_keeps [OF ws] and api = served_keeps [OF assms(1)] and t = transport_keeps [OF assms(2)]
    and st = step_keeps [OF assms(1,2)] and ad = adapter_keeps [OF assms(2,3)]
  show "keeps (service_moves env) (produce ex jb latest)"
    unfolding produce_def by (auto intro!: t moves ad simp: transport_beside_def split: option.splits prod.splits)
  show p: "keeps (service_moves env) (publish_artifact ex jb h fence effect r)" for fence effect r
    unfolding publish_artifact_def Let_def by (auto intro!: t moves api ignoring_keeps simp: transport_beside_def)
  show "keeps (service_moves env) (settle_artifact ex jb h fence latest r found)"
    unfolding settle_artifact_def Let_def by (auto intro!: moves api p st split: option.splits)
  show "keeps (service_moves env) (verified_artifact ex jb h latest sha)"
    unfolding verified_artifact_def by (auto intro!: moves st split: option.splits)
  have "keeps (service_moves env) (replay_checkpoint ex jb sha p a)" for sha p a
    unfolding replay_checkpoint_def Let_def by (intro moves api st)
  then show "keeps (service_moves env) (replay ex jb fenced task)"
    using rs unfolding replay_def Let_def receipts_beside_def by (auto intro!: moves w split: option.splits)
qed

section \<open>What an answer of the service shows\<close>

abbreviation through :: "api_env \<Rightarrow> 'g \<times> app_db \<Rightarrow> app_db \<Rightarrow> 'g \<times> app_db \<Rightarrow> bool" where
  "through env w a w' \<equiv> history env (snd w) a \<and> history env a (snd w')"

lemma get_task_served:
  assumes "served env wa" and "wa_get_task wa tid w = (Inr d, w')"
  shows "\<exists>a t. through env w a w' \<and> find_task tid (pool a) = Some t \<and> d = json_task (public_task t)"
proof -
  have "call_at env (\<lambda>(_ :: unit) api. client_get_task api tid) (wa_get_task wa tid)"
    using assms(1) by (simp add: served_def)
  note ex = call_at_run [OF this assms(2)]
  obtain now draw api a1 a2 where
    c: "connected env now draw api" "history env (snd w) a1" "client_get_task api tid a1 = (Inr d, a2)" "history env a2 (snd w')"
    using ex by (auto simp: case_prod_unfold)
  then show ?thesis using client_get_task_sound [OF c(1,3)] by blast
qed

lemma claim_served:
  assumes "served env wa" and "app_reachable (ae_cfg env) (snd w)"
    and "(if fenced then wa_claim_fenced_exact wa worker tid c else wa_claim_exact wa worker tid c) w = (Inr reply, w')"
    and "get reply ''claimed'' = PBool True"
  shows "\<exists>a t. through env w a w' \<and> find_task tid (pool a) = Some t \<and> get reply ''task'' = PDict (json_task (public_task t))"
proof -
  have "call_at env (\<lambda>(f, u) api. claim_exact f u api fenced worker tid c)
      (if fenced then wa_claim_fenced_exact wa worker tid c else wa_claim_exact wa worker tid c)"
    using assms(1) by (simp add: served_def)
  note ex = call_at_run [OF this assms(3)]
  obtain f u now draw api a1 a2 where
    c: "connected env now draw api" "history env (snd w) a1" "claim_exact f u api fenced worker tid c a1 = (Inr reply, a2)"
      "history env a2 (snd w')" "snd draw \<noteq> []"
    using ex by (auto simp: case_prod_unfold)
  obtain t q where t: "a2 = a1\<lparr>pool := q\<rparr>" "find_task tid q = Some t" "get reply ''task'' = PDict (json_task (public_task t))"
    using claim_exact_sound [OF c(1) app_reachable_steps [OF c(2) assms(2)] c(3) assms(4)] by blast
  have "history env a1 a2" using keeps_run [OF client_keeps(3) [OF c(1,5)] c(3)] .
  then have "through env w a2 w'" using c(2,4) by (simp add: rtranclp_trans)
  moreover have "find_task tid (pool a2) = Some t" using t(1,2) by simp
  ultimately show ?thesis using t(3) by blast
qed

lemma record_served:
  assumes "served env wa" and "wa_record_checkpoint wa i w = (Inr v, w')"
  shows "\<exists>a t c. through env w a w' \<and> find_task (i_task_id i) (pool a) = Some t \<and> c \<in> set (task_checkpoints (pool a)) \<and>
    c_task_id c = i_task_id i \<and> c_stage c = i_stage i \<and> c_artifact_ref c = i_artifact_ref i \<and>
    c_artifact_sha256 c = i_artifact_sha256 i \<and> c_effect_id c = i_effect_id i \<and>
    effect_state_name (c_effect_state c) = i_effect_state i"
proof -
  have "call_at env (\<lambda>(_ :: unit) api. client_record_checkpoint api i) (wa_record_checkpoint wa i)"
    using assms(1) by (simp add: served_def)
  note ex = call_at_run [OF this assms(2)]
  obtain now draw api a1 a2 where
    c: "connected env now draw api" "snd draw \<noteq> []" "history env (snd w) a1" "client_record_checkpoint api i a1 = (Inr v, a2)"
      "history env a2 (snd w')"
    using ex by (auto simp: case_prod_unfold)
  from client_record_sound [OF c(1,4)] obtain r x where r: "get_latest_checkpoint (i_task_id i) (pool a2) = Inr (Some (r, x))"
    "c_stage r = i_stage i" "c_artifact_ref r = i_artifact_ref i" "c_artifact_sha256 r = i_artifact_sha256 i"
    "c_effect_id r = i_effect_id i" "effect_state_name (c_effect_state r) = i_effect_state i"
    by blast
  have "r \<in> set (task_checkpoints (pool a2)) \<and> c_task_id r = i_task_id i \<and> (\<exists>t. find_task (i_task_id i) (pool a2) = Some t)"
    using r(1) first_min_Some by (fastforce simp: get_latest_checkpoint_def split: option.splits)
  moreover have "history env a1 a2" using keeps_run [OF client_keeps(4) [OF c(1,2)] c(4)] .
  ultimately show ?thesis using r c(3,5) by (blast intro: rtranclp_trans)
qed

lemma mutation_served:
  assumes "call_at env (\<lambda>(_ :: unit) api. mutate api p c op) m" and "m w = (Inr (), w')"
  shows "\<exists>a1 now q t. history env (snd w) a1 \<and> mutation_op now p c op (pool a1) = (Inr t, q) \<and> history env (snd w) (a1\<lparr>pool := q\<rparr>) \<and>
    history env (a1\<lparr>pool := q\<rparr>) (snd w') \<and> find_task (p_task_id p) q = Some t"
proof -
  note ex = call_at_run [OF assms]
  obtain now draw api a1 a2 where
    c: "connected env now draw api" "snd draw \<noteq> []" "history env (snd w) a1" "mutate api p c op a1 = (Inr (), a2)"
      "history env a2 (snd w')"
    using ex by (auto simp: case_prod_unfold)
  then show ?thesis
    using mutate_sound [OF c(1,4)] keeps_run [OF client_keeps(5) [OF c(1,2)] c(4)] by (blast intro: rtranclp_trans)
qed

lemma SHA40_lower: "SHA40 s \<Longrightarrow> py_lower s = s"
  by (auto simp: SHA40_def py_lower_def list_all_iff is_lower_hex_def lower_char_def is_upper_def Let_def intro!: map_idI)

lemma ended_update:
  assumes "sql_update_task tid f (end_attempt row now reason db) = Inr q" and "\<And>r. t_task_id (f r) = t_task_id r"
  shows "find_task tid q = map_option f (find_task tid db)"
proof -
  have "find_task tid q = map_option f (find_task tid (end_attempt row now reason db))"
    using sql_update_task_Inr [OF assms(1)] assms(2) by (simp add: tasks_tbl.get_upd)
  then show ?thesis by (simp add: find_task_def)
qed

lemma submit_served:
  assumes "served env wa" and "wa_submit_validation wa p sha c w = (Inr (), w')" and "SHA40 sha"
  shows "\<exists>a t. through env w a w' \<and> find_task (p_task_id p) (pool a) = Some t \<and> t_produced_sha t = Some sha \<and>
    t_builder_worker_id t = Some (p_worker_id p)"
proof -
  have "call_at env (\<lambda>(_ :: unit) api. mutate api p c (MValidation sha)) (wa_submit_validation wa p sha c)"
    using assms(1) by (simp add: served_def client_submit_validation_def)
  from mutation_served [OF this assms(2)] obtain a1 now q t where
    m: "mutation_op now p c (MValidation sha) (pool a1) = (Inr t, q)" "through env w (a1\<lparr>pool := q\<rparr>) w'" "find_task (p_task_id p) q = Some t"
    by blast
  then obtain row where "lease_check now p [Running] (pool a1) = Inr row" "t_builder_worker_id row = Some (p_worker_id p)"
    and u: "sql_update_task (p_task_id p) (submit_update now sha c) (end_attempt row now ''validation_handoff'' (pool a1)) = Inr q"
    using assms(3) by (auto simp: mutation_op_def submit_for_validation_def Let_def SHA40_lower tx_then_get_def submit_tx_def outcome_simps
        split: sum.splits if_splits)
  then have b: "find_task (p_task_id p) (pool a1) = Some row" "t_builder_worker_id row = Some (p_worker_id p)"
    by (auto simp: lease_check_def split: option.splits if_splits)
  have "find_task (p_task_id p) q = map_option (submit_update now sha c) (find_task (p_task_id p) (pool a1))"
    using ended_update [OF u] by (simp add: submit_update_def)
  then have "t_produced_sha t = Some sha \<and> t_builder_worker_id t = Some (p_worker_id p)"
    using b m(3) by (auto simp: submit_update_def)
  then show ?thesis using m(2,3) by auto
qed

lemma complete_served:
  assumes "served env wa" and "wa_complete wa p c w = (Inr (), w')" and "app_reachable (ae_cfg env) (snd w)"
  shows "\<exists>a t. through env w a w' \<and> find_task (p_task_id p) (pool a) = Some t \<and> t_state t = Completed \<and>
    t_validator_worker_id t = Some (p_worker_id p) \<and> t_builder_worker_id t \<noteq> Some (p_worker_id p)"
proof -
  have "call_at env (\<lambda>(_ :: unit) api. mutate api p c MComplete) (wa_complete wa p c)"
    using assms(1) by (simp add: served_def client_complete_def)
  from mutation_served [OF this assms(2)] obtain a1 now q t where h: "history env (snd w) a1"
    and m: "mutation_op now p c MComplete (pool a1) = (Inr t, q)" "through env w (a1\<lparr>pool := q\<rparr>) w'" "find_task (p_task_id p) q = Some t"
    by blast
  then obtain row where l: "lease_check now p [Validating] (pool a1) = Inr row" and n: "t_builder_worker_id row \<noteq> Some (p_worker_id p)"
    and u: "sql_update_task (p_task_id p) (complete_update now c) (end_attempt row now ''completed'' (pool a1)) = Inr q"
    by (auto simp: mutation_op_def complete_task_def tx_then_get_def complete_tx_def outcome_simps split: sum.splits if_splits)
  have r: "find_task (p_task_id p) (pool a1) = Some row" "t_leased_by row = Some (p_worker_id p)" "t_state row = Validating"
    using l by (auto simp: lease_check_def split: option.splits if_splits)
  have "life_inv (life_of (pool a1) row)"
    using reachable_pool_ok [OF app_reachable_pool [OF app_reachable_steps [OF h assms(3)]]] r(1) tasks_tbl.get_mem
    by (auto simp: pool_ok_def)
  then have v: "t_validator_worker_id row = Some (p_worker_id p)" using r by (simp add: life_inv_def duty_inv_def)
  have "find_task (p_task_id p) q = map_option (complete_update now c) (find_task (p_task_id p) (pool a1))"
    using ended_update [OF u] by (simp add: complete_update_def)
  then have "t_state t = Completed \<and> t_validator_worker_id t = Some (p_worker_id p) \<and> t_builder_worker_id t \<noteq> Some (p_worker_id p)"
    using r v n m(3) by (auto simp: complete_update_def)
  then show ?thesis using m(2,3) by auto
qed

section \<open>Inversion of a run\<close>

lemma report_failure_raises: "report_failure ex h e w \<noteq> (Inr x, w')"
  by (auto simp: report_failure_def Let_def act_simps)

lemma work_Inr:
  assumes "work ex jb h latest w = (Inr x, w')"
  shows "(if jb_role jb = ''builder'' then build_job ex jb h latest else validate_job ex jb h latest) w = (Inr x, w')"
  using assms unfolding work_def attempt_def by (auto simp: report_failure_raises split: prod.splits sum.splits)

lemma prepare_job_Inr:
  assumes "prepare_job ex raw role worker = Inr jb"
  shows "jb_role jb = role" "jb_worker jb = worker" "role \<in> {''builder'', ''validator''}"
    "map_of (ex_adapters ex) (mf_adapter_id (jb_manifest jb)) = Some (jb_adapter jb)"
  using assms by (auto simp: prepare_job_def outcome_simps Let_def split: option.splits)

lemma moves_run: "keeps (service_moves env) m \<Longrightarrow> m w = (r, w') \<Longrightarrow> history env (snd w) (snd w')"
  by (rule keeps_run)

lemma json_task_dict:
  "dict_or_empty (PDict (json_task t)) = Inr (json_task t)" "fencing_required (json_task t) = Inr (t_fencing_required t)"
  by (simp_all add: dict_or_empty_def fencing_required_def json_task_def)

lemma send_claim_Inr:
  assumes "served env (ex_api ex)" and "bystanders env ex" and "send_claim ex jb fenced w = (Inr claim, w')"
  shows "\<exists>w1. history env (snd w) (snd w1) \<and>
    (if fenced then wa_claim_fenced_exact (ex_api ex) (jb_worker jb) (mf_task_id (jb_manifest jb)) (run_correlation ex)
     else wa_claim_exact (ex_api ex) (jb_worker jb) (mf_task_id (jb_manifest jb)) (run_correlation ex)) w1 = (Inr claim, w')"
proof (cases fenced)
  case True
  then obtain t u w1 where t: "the_transport ex = Inr t"
    and r: "attempt (tp_preflight t) (\<lambda>_. raise ''durable_artifact_preflight_failed'') w = (Inr u, w1)"
    and c: "wa_claim_fenced_exact (ex_api ex) (jb_worker jb) (mf_task_id (jb_manifest jb)) (run_correlation ex) w1 = (Inr claim, w')"
    using assms(3) by (auto simp: send_claim_def Let_def act_simps)
  have "transport_beside env t" using t assms(2) by (auto simp: the_transport_def bystanders_def split: option.splits)
  then have "keeps (service_moves env) (attempt (tp_preflight t) (\<lambda>_. raise ''durable_artifact_preflight_failed''))"
    by (intro moves) (simp add: transport_beside_def)
  from moves_run [OF this r] c True show ?thesis by (intro exI [of _ w1]) simp
next
  case False
  then show ?thesis using assms(3) by (intro exI [of _ w]) (simp add: send_claim_def)
qed

lemma claim_job_task:
  assumes "served env (ex_api ex)" and "bystanders env ex" and "app_reachable (ae_cfg env) (snd w)"
    and "claim_job f u ex jb fenced w = (Inr h, w')"
  shows "\<exists>a t. through env w a w' \<and> find_task (mf_task_id (jb_manifest jb)) (pool a) = Some t \<and> hl_task h = json_task (public_task t) \<and>
    (hl_fence h \<noteq> None \<longleftrightarrow> t_fencing_required t) \<and> p_task_id (hl_proof h) = mf_task_id (jb_manifest jb) \<and>
    p_worker_id (hl_proof h) = jb_worker jb"
proof -
  obtain claim lease task fence where s: "send_claim ex jb fenced w = (Inr claim, w')" "get claim ''claimed'' = PBool True"
    and t: "dict_or_empty (get claim ''task'') = Inr task" "fencing_required task = Inr fenced"
    and l: "lease_fence fenced lease task = Inr fence"
    and h: "h = \<lparr>hl_proof = lease_proof_of jb lease fence, hl_fence = fence, hl_task = task, hl_recovery = get claim ''recovery_context''\<rparr>"
    using assms(4) by (auto simp: claim_job_def act_simps)
  obtain w1 where w1: "history env (snd w) (snd w1)"
    and c: "(if fenced then wa_claim_fenced_exact (ex_api ex) (jb_worker jb) (mf_task_id (jb_manifest jb)) (run_correlation ex)
      else wa_claim_exact (ex_api ex) (jb_worker jb) (mf_task_id (jb_manifest jb)) (run_correlation ex)) w1 = (Inr claim, w')"
    using send_claim_Inr [OF assms(1,2) s(1)] by blast
  obtain a row where row: "through env w1 a w'" "find_task (mf_task_id (jb_manifest jb)) (pool a) = Some row"
    "get claim ''task'' = PDict (json_task (public_task row))"
    using claim_served [OF assms(1) app_reachable_steps [OF w1 assms(3)] c s(2)] by blast
  have "task = json_task (public_task row)" "fenced = t_fencing_required row"
    using t row(3) by (auto simp: json_task_dict public_task_def)
  moreover have "fence \<noteq> None \<longleftrightarrow> fenced" using l by (auto simp: lease_fence_def split: if_splits pyval.splits)
  ultimately show ?thesis using row(1,2) w1 h by (auto simp: lease_proof_of_def intro: rtranclp_trans)
qed

lemma settle_artifact_Inr:
  assumes "served env (ex_api ex)" and "bystanders env ex" and "adapter_beside env (jb_adapter jb)"
    and "settle_artifact ex jb h fence latest r found w = (Inr art, w')"
  shows "\<exists>w1 v i. history env (snd w) (snd w1) \<and> wa_record_checkpoint (ex_api ex) i w1 = (Inr v, w') \<and>
    i_task_id i = mf_task_id (jb_manifest jb) \<and> i_stage i = ''builder_result'' \<and> i_artifact_sha256 i = Some (da_sha256 art) \<and>
    i_effect_id i = Some (artifact_effect_id (mf_task_id (jb_manifest jb)) (ar_produced_sha r)) \<and> i_effect_state i = ''confirmed''"
proof -
  let ?effect = "artifact_effect_id (mf_task_id (jb_manifest jb)) (ar_produced_sha r)"
  let ?i = "with_effect ?effect ''confirmed'' (Some (da_ref art)) (with_artifact art
    (checkpoint_request_of ex jb h fence ''result'' (if latest = None then 2 else 1) ''builder_result'' ''submit_validation''))"
  define m where "m = (case found of None \<Rightarrow> publish_artifact ex jb h fence ?effect r
    | Some art \<Rightarrow> andthen (verify_artifact ex jb (ar_produced_sha r) art) (\<lambda>_. ret art))"
  obtain w1 v where m: "m w = (Inr art, w1)" and c: "wa_record_checkpoint (ex_api ex) ?i w1 = (Inr v, w')"
    using assms(4) unfolding settle_artifact_def Let_def m_def [symmetric] by (auto simp: act_simps)
  have "keeps (service_moves env) m"
    using work_keeps(2) [OF assms(1,2,3)] step_keeps(6) [OF assms(1,2)] unfolding m_def by (auto intro!: moves split: option.splits)
  from moves_run [OF this m] c show ?thesis
    by (intro exI [of _ w1] exI [of _ v] exI [of _ ?i]) (simp add: with_effect_def with_artifact_def checkpoint_request_of_def)
qed

lemma produce_SHA40: "produce ex jb latest w = (Inr (r, x), w') \<Longrightarrow> SHA40 (ar_produced_sha r)"
  by (auto simp: produce_def act_simps validate_recovered_result_def validate_result_def outcome_simps split: option.splits prod.splits)

text \<open>What stands in the database after the builder's work: the hand-over and, under a fence, the confirmed artifact.\<close>

lemma build_job_sound:
  assumes "served env (ex_api ex)" and "bystanders env ex" and "adapter_beside env (jb_adapter jb)"
    and "build_job ex jb h latest w = (Inr (r, art), w')" and "p_task_id (hl_proof h) = mf_task_id (jb_manifest jb)"
  shows "(\<exists>a t. through env w a w' \<and> find_task (mf_task_id (jb_manifest jb)) (pool a) = Some t \<and>
      t_produced_sha t = Some (ar_produced_sha r) \<and> t_builder_worker_id t = Some (p_worker_id (hl_proof h))) \<and>
    (hl_fence h \<noteq> None \<longrightarrow> (\<exists>d a t c. art = Some d \<and> through env w a w' \<and>
      find_task (mf_task_id (jb_manifest jb)) (pool a) = Some t \<and> c \<in> set (task_checkpoints (pool a)) \<and>
      c_task_id c = mf_task_id (jb_manifest jb) \<and> c_stage c = ''builder_result'' \<and>
      c_artifact_sha256 c = Some (da_sha256 d) \<and>
      c_effect_id c = Some (artifact_effect_id (mf_task_id (jb_manifest jb)) (ar_produced_sha r)) \<and> c_effect_state c = EffConfirmed))"
proof -
  note keeps = served_keeps [OF assms(1)] step_keeps [OF assms(1,2)] work_keeps [OF assms(1,2,3)]
  define m where "m found = (case hl_fence h of None \<Rightarrow> ret None
    | Some fence \<Rightarrow> andthen (settle_artifact ex jb h fence latest r found) (\<lambda>art. ret (Some art)))" for found
  obtain w1 invoked found w2 w3 w4 where st: "wa_start (ex_api ex) (hl_proof h) (run_correlation ex) w = (Inr (), w1)"
    and p: "produce ex jb latest w1 = (Inr (r, invoked, found), w2)" and c: "check_built ex jb r invoked w2 = (Inr (), w3)"
    and m: "m found w3 = (Inr art, w4)"
    and sub: "wa_submit_validation (ex_api ex) (hl_proof h) (ar_produced_sha r) (run_correlation ex) w4 = (Inr (), w')"
    using assms(4) unfolding build_job_def m_def by (auto simp: act_simps split: prod.splits)
  have h3: "history env (snd w) (snd w3)"
    using moves_run [OF keeps(6) st] moves_run [OF keeps(19) p] moves_run [OF keeps(17) c] by (meson rtranclp_trans)
  have "keeps (service_moves env) (m found)" unfolding m_def by (auto intro!: moves keeps split: option.splits)
  note h4 = moves_run [OF this m] and h' = moves_run [OF keeps(7) sub]
  obtain a t where t: "through env w4 a w'" "find_task (mf_task_id (jb_manifest jb)) (pool a) = Some t"
    "t_produced_sha t = Some (ar_produced_sha r)" "t_builder_worker_id t = Some (p_worker_id (hl_proof h))"
    using submit_served [OF assms(1) sub produce_SHA40 [OF p]] assms(5) by auto
  have "\<exists>d a t c. art = Some d \<and> through env w a w' \<and>
      find_task (mf_task_id (jb_manifest jb)) (pool a) = Some t \<and> c \<in> set (task_checkpoints (pool a)) \<and>
      c_task_id c = mf_task_id (jb_manifest jb) \<and> c_stage c = ''builder_result'' \<and> c_artifact_sha256 c = Some (da_sha256 d) \<and>
      c_effect_id c = Some (artifact_effect_id (mf_task_id (jb_manifest jb)) (ar_produced_sha r)) \<and> c_effect_state c = EffConfirmed"
    if fc: "hl_fence h = Some fence" for fence
  proof -
    obtain d where d: "art = Some d" "settle_artifact ex jb h fence latest r found w3 = (Inr d, w4)"
      using m fc by (auto simp: m_def act_simps)
    from settle_artifact_Inr [OF assms(1,2,3) d(2)] obtain w5 v i where i: "history env (snd w3) (snd w5)"
      "wa_record_checkpoint (ex_api ex) i w5 = (Inr v, w4)"
      "i_task_id i = mf_task_id (jb_manifest jb)" "i_stage i = ''builder_result''" "i_artifact_sha256 i = Some (da_sha256 d)"
      "i_effect_id i = Some (artifact_effect_id (mf_task_id (jb_manifest jb)) (ar_produced_sha r))" "i_effect_state i = ''confirmed''"
      by blast
    from record_served [OF assms(1) i(2)] obtain b u c where u: "through env w5 b w4" "find_task (i_task_id i) (pool b) = Some u"
      "c \<in> set (task_checkpoints (pool b))" "c_task_id c = i_task_id i" "c_stage c = i_stage i"
      "c_artifact_sha256 c = i_artifact_sha256 i" "c_effect_id c = i_effect_id i" "effect_state_name (c_effect_state c) = i_effect_state i"
      by blast
    have "c_effect_state c = EffConfirmed" using u(8) i(7) by (cases "c_effect_state c") (simp_all add: effect_state_name_def)
    moreover have "through env w b w'" using h3 i(1) u(1) h' by (meson rtranclp_trans)
    ultimately show ?thesis using d(1) u i by metis
  qed
  moreover have "through env w a w'" using t(1) h3 h4 by (meson rtranclp_trans)
  ultimately show ?thesis using t(2-) by blast
qed

lemma validate_job_sound:
  assumes "served env (ex_api ex)" and "bystanders env ex" and "adapter_beside env (jb_adapter jb)"
    and "app_reachable (ae_cfg env) (snd w)"
    and "validate_job ex jb h latest w = (Inr (r, art), w')" and "p_task_id (hl_proof h) = mf_task_id (jb_manifest jb)"
  shows "get (hl_task h) ''produced_sha'' = PStr (ar_produced_sha r) \<and>
    (\<exists>a t. through env w a w' \<and> find_task (mf_task_id (jb_manifest jb)) (pool a) = Some t \<and> t_state t = Completed \<and>
      t_validator_worker_id t = Some (p_worker_id (hl_proof h)) \<and> t_builder_worker_id t \<noteq> Some (p_worker_id (hl_proof h))) \<and>
    (hl_fence h \<noteq> None \<longrightarrow> (\<exists>d a t c. art = Some d \<and> through env w a w' \<and>
      find_task (mf_task_id (jb_manifest jb)) (pool a) = Some t \<and> c \<in> set (task_checkpoints (pool a)) \<and>
      c_task_id c = mf_task_id (jb_manifest jb) \<and> c_stage c = ''validator_result'' \<and> c_artifact_sha256 c = Some (da_sha256 d)))"
proof -
  have ws: "workspace_beside env (ex_workspace ex)" using assms(2) by (simp add: bystanders_def)
  note keeps = served_keeps [OF assms(1)] step_keeps [OF assms(1,2)] work_keeps [OF assms(1,2,3)]
    and w = workspace_keeps [OF ws] and ad = adapter_keeps [OF assms(2,3)]
  let ?i = "\<lambda>fence d. with_artifact d (checkpoint_request_of ex jb h fence ''result'' 1 ''validator_result'' ''complete'')"
  define m where "m = (case (hl_fence h, art) of
    (Some fence, Some d) \<Rightarrow> andthen (wa_record_checkpoint (ex_api ex) (?i fence d)) (\<lambda>_. ret ()) | _ \<Rightarrow> ret ())"
  obtain produced w1 bh w2 bs w3 invoked w4 w5 w6 where
    p: "text_field SHA40 (hl_task h) ''produced_sha'' ''validation_sha_missing'' = Inr produced"
    and v: "verified_artifact ex jb h latest produced w = (Inr art, w1)"
    and hd: "workspace_head (ex_workspace ex) w1 = (Inr bh, w2)" and st: "workspace_status (ex_workspace ex) w2 = (Inr bs, w3)"
    and r: "run_adapter (na_validate (jb_adapter jb) (invoker_of ex jb) produced) w3 = (Inr (r, invoked), w4)"
      "ar_produced_sha r = produced"
    and un: "unchanged ex produced bh bs w4 = (Inr (), w5)" and m: "m w5 = (Inr (), w6)"
    and c: "wa_complete (ex_api ex) (hl_proof h) (run_correlation ex) w6 = (Inr (), w')"
    using assms(5) unfolding validate_job_def m_def by (auto simp: act_simps split: prod.splits)
  have h5: "history env (snd w) (snd w5)"
    using moves_run [OF keeps(22) v] moves_run [OF w(1) hd] moves_run [OF w(2) st] moves_run [OF ad(2) r(1)] moves_run [OF keeps(18) un]
    by (meson rtranclp_trans)
  have "keeps (service_moves env) m" unfolding m_def by (auto intro!: moves keeps split: option.splits)
  note h6 = rtranclp_trans [OF h5 moves_run [OF this m]] and h' = moves_run [OF keeps(8) c]
  obtain a t where t: "through env w6 a w'" "find_task (mf_task_id (jb_manifest jb)) (pool a) = Some t" "t_state t = Completed"
    "t_validator_worker_id t = Some (p_worker_id (hl_proof h))" "t_builder_worker_id t \<noteq> Some (p_worker_id (hl_proof h))"
    using complete_served [OF assms(1) c app_reachable_steps [OF h6 assms(4)]] assms(6) by auto
  have "\<exists>d a t c. art = Some d \<and> through env w a w' \<and> find_task (mf_task_id (jb_manifest jb)) (pool a) = Some t \<and>
      c \<in> set (task_checkpoints (pool a)) \<and> c_task_id c = mf_task_id (jb_manifest jb) \<and> c_stage c = ''validator_result'' \<and>
      c_artifact_sha256 c = Some (da_sha256 d)"
    if fc: "hl_fence h = Some fence" for fence
  proof -
    obtain d where d: "art = Some d" using v fc by (auto simp: verified_artifact_def act_simps)
    then obtain x where x: "wa_record_checkpoint (ex_api ex) (?i fence d) w5 = (Inr x, w6)" using m fc by (auto simp: m_def act_simps)
    have i: "i_task_id (?i fence d) = mf_task_id (jb_manifest jb)" "i_stage (?i fence d) = ''validator_result''"
      "i_artifact_sha256 (?i fence d) = Some (da_sha256 d)"
      by (simp_all add: with_artifact_def checkpoint_request_of_def)
    from record_served [OF assms(1) x] obtain b u k where "through env w5 b w6" "find_task (mf_task_id (jb_manifest jb)) (pool b) = Some u"
      "k \<in> set (task_checkpoints (pool b))" "c_task_id k = mf_task_id (jb_manifest jb)" "c_stage k = ''validator_result''"
      "c_artifact_sha256 k = Some (da_sha256 d)"
      unfolding i by blast
    moreover from this(1) have "through env w b w'" using h5 h' by (meson rtranclp_trans)
    ultimately show ?thesis using d by blast
  qed
  moreover have "through env w a w'" using t(1) h6 by (meson rtranclp_trans)
  moreover have "get (hl_task h) ''produced_sha'' = PStr (ar_produced_sha r)"
    using p r(2) by (auto simp: text_field_def split: pyval.splits if_splits)
  ultimately show ?thesis using t(2-) by blast
qed

section \<open>A receipt is true\<close>

lemma always_then_Inr [act_simps]: "always_then m k w = (Inr x, w') \<longleftrightarrow> (\<exists>w1. m w = (Inr x, w1) \<and> w' = k w1)"
  by (cases "m w") (auto simp: always_then_def)

lemma run_one_shot_Inr:
  assumes "bystanders env ex" and "run_one_shot f u ex raw role worker w = (Inr receipt, w')"
  shows "\<exists>jb w1 w2. prepare_job ex raw role worker = Inr jb \<and> history env (snd w) (snd w1) \<and>
    locked_run f u ex jb w1 = (Inr receipt, w2) \<and> history env (snd w2) (snd w')"
proof -
  have rs: "receipts_beside env (ex_receipts ex)" using assms(1) by (simp add: bystanders_def)
  obtain jb w1 w2 where "prepare_job ex raw role worker = Inr jb" "acquire (ex_receipts ex) (mf_task_id (jb_manifest jb)) role w = (Inr (), w1)"
    "locked_run f u ex jb w1 = (Inr receipt, w2)" "w' = rc_unlock (ex_receipts ex) (receipt_stem (mf_task_id (jb_manifest jb)) role @ ''.lock'') w2"
    using assms(2) by (auto simp: run_one_shot_def act_simps)
  then show ?thesis using moves_run [OF receipt_keeps(1) [OF rs]] rs unfolding receipts_beside_def by blast
qed

lemma locked_run_Inr:
  assumes "served env (ex_api ex)" and "bystanders env ex" and "locked_run f u ex jb w = (Inr receipt, w')"
  shows "\<exists>a t w1 fenced. through env w a w1 \<and> find_task (mf_task_id (jb_manifest jb)) (pool a) = Some t \<and>
    (execute_job f u ex jb fenced w1 = (Inr receipt, w') \<or> replay ex jb fenced (json_task (public_task t)) w1 = (Inr receipt, w'))"
proof -
  have rs: "receipts_beside env (ex_receipts ex)" using assms(2) by (simp add: bystanders_def)
  define path where "path = receipt_stem (mf_task_id (jb_manifest jb)) (jb_role jb) @ ''.json''"
  obtain has w1 w2 task fenced w3 where x: "rc_exists (ex_receipts ex) path w = (Inr has, w1)"
    "(if has then ret () else fresh_checks ex jb) w1 = (Inr (), w2)" "read_task ex jb w2 = (Inr (task, fenced), w3)"
    and z: "(if has then replay ex jb fenced task else execute_job f u ex jb fenced) w3 = (Inr receipt, w')"
    using assms(3) unfolding locked_run_def path_def [symmetric] by (auto simp: act_simps)
  have "keeps (service_moves env) (rc_exists (ex_receipts ex) path)" using rs by (simp add: receipts_beside_def)
  note h1 = moves_run [OF this x(1)]
  have "keeps (service_moves env) (if has then ret () else fresh_checks ex jb)" using step_keeps(1) [OF assms(1,2)] by auto
  note h2 = rtranclp_trans [OF h1 moves_run [OF this x(2)]]
  have "wa_get_task (ex_api ex) (mf_task_id (jb_manifest jb)) w2 = (Inr task, w3)" using x(3) by (auto simp: read_task_def act_simps)
  from get_task_served [OF assms(1) this] obtain a t where t: "through env w2 a w3" "find_task (mf_task_id (jb_manifest jb)) (pool a) = Some t"
    "task = json_task (public_task t)" by blast
  have "through env w a w3" using t(1) h2 by (meson rtranclp_trans)
  moreover have "execute_job f u ex jb fenced w3 = (Inr receipt, w') \<or> replay ex jb fenced (json_task (public_task t)) w3 = (Inr receipt, w')"
    using z t(3) by (auto split: if_splits)
  ultimately show ?thesis using t(2) by blast
qed

lemma get_put_field: "get (put_field k v d) k' = (if k' = k then v else get d k')"
  by (induction k v d rule: put_field.induct) (auto simp: get_def)

lemma replay_Inr:
  assumes "replay ex jb fenced task w = (Inr receipt, w')"
  shows "get receipt ''replayed'' = PBool True \<and> get receipt ''task_id'' = PStr (mf_task_id (jb_manifest jb)) \<and>
    str_in (expected_state (jb_role jb)) (get task ''state'') \<and>
    (\<exists>sha. get receipt ''produced_sha'' = PStr sha \<and> get task ''produced_sha'' = PStr sha)"
proof -
  obtain p produced where "receipt = put_field ''replayed'' (PBool True) p" "receipt_matches ex jb fenced p"
    "text_field SHA40 p ''produced_sha'' ''receipt_produced_sha'' = Inr produced"
    "str_in (expected_state (jb_role jb)) (get task ''state'')" "get task ''produced_sha'' = PStr produced"
    using assms by (auto simp: replay_def Let_def act_simps)
  then show ?thesis
    by (auto simp: get_put_field receipt_matches_def Let_def text_field_def split: pyval.splits if_splits)
qed

lemma execute_job_Inr:
  assumes "execute_job f u ex jb fenced w = (Inr receipt, w')"
  shows "\<exists>h w1 latest w2 w3 r art w4. claim_job f u ex jb fenced w = (Inr h, w1) \<and> recovered ex jb h w1 = (Inr latest, w2) \<and>
    check_claimed ex jb h w2 = (Inr (), w3) \<and>
    (if jb_role jb = ''builder'' then build_job ex jb h latest else validate_job ex jb h latest) w3 = (Inr (r, art), w4) \<and>
    write_receipt (ex_receipts ex) (mf_task_id (jb_manifest jb)) (jb_role jb) (receipt_of ex jb h (r, art)) w4 = (Inr (), w') \<and>
    receipt = receipt_of ex jb h (r, art)"
  using assms by (fastforce simp: execute_job_def act_simps dest: work_Inr)

lemma get_receipt_of:
  "get (receipt_of ex jb h (r, art)) ''task_id'' = PStr (mf_task_id (jb_manifest jb))"
  "get (receipt_of ex jb h (r, art)) ''produced_sha'' = PStr (ar_produced_sha r)"
  "get (receipt_of ex jb h (r, art)) ''replayed'' = PBool False"
  "hl_fence h = Some fence \<Longrightarrow> art = Some d \<Longrightarrow> get (receipt_of ex jb h (r, art)) ''artifact_sha256'' = PStr (da_sha256 d)"
  by (auto simp: receipt_of_def split: prod.splits)

text \<open>A receipt is a replay of a task's row, or it comes from work on a claimed row; \<open>a\<close> is the service when the row was read.\<close>

lemma run_ways:
  assumes "served env (ex_api ex)" and "bystanders env ex" and "app_reachable (ae_cfg env) (snd w)"
    and "run_one_shot f u ex raw role worker w = (Inr receipt, w')"
  obtains (replayed) tid a t where "app_reachable (ae_cfg env) a" "history env a (snd w')"
      "find_task tid (pool a) = Some t" "get receipt ''task_id'' = PStr tid"
      "get receipt ''replayed'' = PBool True" "get receipt ''produced_sha'' = opt_str (t_produced_sha t)" "t_produced_sha t \<noteq> None"
      "state_name (t_state t) \<in> set (expected_state role)"
  | (worked) jb h latest r art a t w1 w2 where "app_reachable (ae_cfg env) a" "history env a (snd w1)" "history env (snd w2) (snd w')"
      "find_task (mf_task_id (jb_manifest jb)) (pool a) = Some t" "hl_task h = json_task (public_task t)"
      "hl_fence h \<noteq> None \<longleftrightarrow> t_fencing_required t" "p_task_id (hl_proof h) = mf_task_id (jb_manifest jb)" "p_worker_id (hl_proof h) = worker"
      "(if role = ''builder'' then build_job ex jb h latest else validate_job ex jb h latest) w1 = (Inr (r, art), w2)"
      "receipt = receipt_of ex jb h (r, art)" "adapter_beside env (jb_adapter jb)"
proof -
  obtain jb w1 w2 where jb: "prepare_job ex raw role worker = Inr jb" and h1: "history env (snd w) (snd w1)"
    and run: "locked_run f u ex jb w1 = (Inr receipt, w2)" and h2: "history env (snd w2) (snd w')"
    using run_one_shot_Inr [OF assms(2,4)] by blast
  note j = prepare_job_Inr [OF jb]
  have ad: "adapter_beside env (jb_adapter jb)" using j(4) assms(2) by (auto simp: bystanders_def)
  have rs: "receipts_beside env (ex_receipts ex)" using assms(2) by (simp add: bystanders_def)
  let ?tid = "mf_task_id (jb_manifest jb)"
  obtain a t w3 fenced where t: "through env w1 a w3" "find_task ?tid (pool a) = Some t" and
    ways: "execute_job f u ex jb fenced w3 = (Inr receipt, w2) \<or> replay ex jb fenced (json_task (public_task t)) w3 = (Inr receipt, w2)"
    using locked_run_Inr [OF assms(1,2) run] by blast
  have ra: "app_reachable (ae_cfg env) a" "app_reachable (ae_cfg env) (snd w3)" using t(1) h1 assms(3) by (meson app_reachable_steps)+
  from ways show ?thesis
  proof
    assume x: "replay ex jb fenced (json_task (public_task t)) w3 = (Inr receipt, w2)"
    have ha: "history env a (snd w')" using t(1) moves_run [OF work_keeps(5) [OF assms(1,2) ad] x] h2 by (meson rtranclp_trans)
    show ?thesis using replay_Inr [OF x] j(1)
      by (intro replayed [OF ra(1) ha t(2)]) (auto simp: opt_str_def str_in_def split: option.splits)
  next
    assume x: "execute_job f u ex jb fenced w3 = (Inr receipt, w2)"
    from execute_job_Inr [OF x] obtain h w4 latest w5 w6 r art w7 where c: "claim_job f u ex jb fenced w3 = (Inr h, w4)"
      and rec: "recovered ex jb h w4 = (Inr latest, w5)" and ck: "check_claimed ex jb h w5 = (Inr (), w6)"
      and wk: "(if jb_role jb = ''builder'' then build_job ex jb h latest else validate_job ex jb h latest) w6 = (Inr (r, art), w7)"
      and wr: "write_receipt (ex_receipts ex) ?tid (jb_role jb) (receipt_of ex jb h (r, art)) w7 = (Inr (), w2)"
      and re: "receipt = receipt_of ex jb h (r, art)"
      by (elim exE conjE)
    obtain b u where u: "through env w3 b w4" "find_task ?tid (pool b) = Some u" "hl_task h = json_task (public_task u)"
      "hl_fence h \<noteq> None \<longleftrightarrow> t_fencing_required u" "p_task_id (hl_proof h) = ?tid" "p_worker_id (hl_proof h) = jb_worker jb"
      using claim_job_task [OF assms(1,2) ra(2) c] by blast
    note st = step_keeps [OF assms(1,2)]
    have "app_reachable (ae_cfg env) b" using u(1) ra(2) by (meson app_reachable_steps)
    moreover have "history env b (snd w6)" using u(1) moves_run [OF st(4) rec] moves_run [OF st(5) ck] by (meson rtranclp_trans)
    moreover have "history env (snd w7) (snd w')" using moves_run [OF receipt_keeps(2) [OF rs] wr] h2 by (meson rtranclp_trans)
    ultimately show ?thesis using u(2-) j wk re ad by (intro worked [of b w6 w7 jb u h latest r art]) simp_all
  qed
qed

text \<open>C8: A builder's receipt is true. When a run of the builder returns a receipt, whatever the network loses, whatever other clients do
  meanwhile and whether the receipt is new or replayed, the service's database has the task with exactly the commit that the
  receipt names. A new receipt also means that this worker is the recorded builder and, for a fenced task, that the artifact of
  the receipt stands in a confirmed checkpoint of the task under the effect of this commit.\<close>

theorem one_shot_built:
  assumes "served env (ex_api ex)" and "bystanders env ex" and "app_reachable (ae_cfg env) (snd w)"
    and "run_one_shot fromisoformat clock ex raw ''builder'' worker w = (Inr receipt, w')"
  shows "\<exists>tid sha t. get receipt ''task_id'' = PStr tid \<and> get receipt ''produced_sha'' = PStr sha \<and>
    find_task tid (pool (snd w')) = Some t \<and> t_produced_sha t = Some sha \<and>
    (get receipt ''replayed'' = PBool False \<longrightarrow> t_builder_worker_id t = Some worker \<and>
      (t_fencing_required t \<longrightarrow> (\<exists>d. get receipt ''artifact_sha256'' = PStr d \<and>
        (\<exists>c\<in>set (task_checkpoints (pool (snd w'))). c_task_id c = tid \<and> c_stage c = ''builder_result'' \<and>
          c_artifact_sha256 c = Some d \<and> c_effect_id c = Some (artifact_effect_id tid sha) \<and> c_effect_state c = EffConfirmed))))"
  using assms
proof (cases rule: run_ways)
  case (replayed tid a t)
  from later_task [OF replayed(1-3)] obtain t' where "find_task tid (pool (snd w')) = Some t'"
    "t_produced_sha t' = t_produced_sha t"
    using replayed(7) by metis
  then show ?thesis using replayed(4-7) by (auto simp: opt_str_def)
next
  case (worked jb h latest r art a t w1 w2)
  let ?tid = "mf_task_id (jb_manifest jb)"
  have b: "build_job ex jb h latest w1 = (Inr (r, art), w2)" using worked(9) by simp
  note s = build_job_sound [OF assms(1,2) worked(11) b worked(7)]
  obtain a1 t1 where t1: "through env w1 a1 w2" "find_task ?tid (pool a1) = Some t1" "t_produced_sha t1 = Some (ar_produced_sha r)"
    "t_builder_worker_id t1 = Some worker"
    using s worked(8) by auto
  have r1: "app_reachable (ae_cfg env) (snd w1)" using app_reachable_steps [OF worked(2,1)] .
  have to: "app_reachable (ae_cfg env) x \<and> history env x (snd w')" if "through env w1 x w2" for x
    using that r1 worked(3) by (meson app_reachable_steps rtranclp_trans)
  obtain t' where t': "find_task ?tid (pool (snd w')) = Some t'" "t_produced_sha t' = Some (ar_produced_sha r)" "t_builder_worker_id t' = Some worker"
    using later_task [of "ae_cfg env" a1 "snd w'" ?tid t1] to [OF t1(1)] t1(2-) by (metis option.distinct(1))
  have "t_fencing_required t' = t_fencing_required t"
    using later_task [of "ae_cfg env" a "snd w'" ?tid t] worked(1,4) t'(1)
      worked(2) t1(1) worked(3) by (metis option.inject rtranclp_trans)
  moreover have "\<exists>d. get receipt ''artifact_sha256'' = PStr d \<and> (\<exists>c\<in>set (task_checkpoints (pool (snd w'))). c_task_id c = ?tid \<and>
      c_stage c = ''builder_result'' \<and> c_artifact_sha256 c = Some d \<and>
      c_effect_id c = Some (artifact_effect_id ?tid (ar_produced_sha r)) \<and> c_effect_state c = EffConfirmed)"
    if fc: "hl_fence h = Some fence" for fence
  proof -
    obtain d b u c where c: "art = Some d" "through env w1 b w2" "find_task ?tid (pool b) = Some u" "c \<in> set (task_checkpoints (pool b))"
      "c_task_id c = ?tid" "c_stage c = ''builder_result''" "c_artifact_sha256 c = Some (da_sha256 d)"
      "c_effect_id c = Some (artifact_effect_id ?tid (ar_produced_sha r))" "c_effect_state c = EffConfirmed"
      using s fc by auto
    then have "c \<in> set (task_checkpoints (pool (snd w')))" using to [OF c(2)] later_task [of "ae_cfg env" b "snd w'" ?tid u] by metis
    then show ?thesis using c(5-) get_receipt_of(4) [OF fc c(1)] worked(10) by blast
  qed
  ultimately show ?thesis using t' worked(6) get_receipt_of(1,2) [of ex jb h r art, folded worked(10)] by (metis not_Some_eq)
qed

text \<open>C9: A validator's receipt is true. When a run of the validator returns a receipt, new or replayed, the task is completed with exactly
  the commit that the receipt names. A new receipt also means that this worker is the recorded validator and did not build the task and,
  for a fenced task, that the artifact it verified stands in the validator's checkpoint.\<close>

theorem one_shot_validated:
  assumes "served env (ex_api ex)" and "bystanders env ex" and "app_reachable (ae_cfg env) (snd w)"
    and "run_one_shot fromisoformat clock ex raw ''validator'' worker w = (Inr receipt, w')"
  shows "\<exists>tid sha t. get receipt ''task_id'' = PStr tid \<and> get receipt ''produced_sha'' = PStr sha \<and>
    find_task tid (pool (snd w')) = Some t \<and> t_state t = Completed \<and> t_produced_sha t = Some sha \<and>
    (get receipt ''replayed'' = PBool False \<longrightarrow> t_validator_worker_id t = Some worker \<and> t_builder_worker_id t \<noteq> Some worker \<and>
      (t_fencing_required t \<longrightarrow> (\<exists>d. get receipt ''artifact_sha256'' = PStr d \<and>
        (\<exists>c\<in>set (task_checkpoints (pool (snd w'))). c_task_id c = tid \<and> c_stage c = ''validator_result'' \<and> c_artifact_sha256 c = Some d))))"
  using assms
proof (cases rule: run_ways)
  case (replayed tid a t)
  have "t_state t = Completed" using replayed(8) by (cases "t_state t") (simp_all add: expected_state_def state_name_def)
  from later_task [OF replayed(1-3)] this obtain t' where "find_task tid (pool (snd w')) = Some t'"
    "t_produced_sha t' = t_produced_sha t" "t_state t' = Completed"
    using replayed(7) by metis
  then show ?thesis using replayed(4-7) by (auto simp: opt_str_def)
next
  case (worked jb h latest r art a t w1 w2)
  let ?tid = "mf_task_id (jb_manifest jb)"
  have v: "validate_job ex jb h latest w1 = (Inr (r, art), w2)" using worked(9) by simp
  have r1: "app_reachable (ae_cfg env) (snd w1)" using app_reachable_steps [OF worked(2,1)] .
  note s = validate_job_sound [OF assms(1,2) worked(11) r1 v worked(7)]
  obtain a1 t1 where t1: "through env w1 a1 w2" "find_task ?tid (pool a1) = Some t1" "t_state t1 = Completed"
    "t_validator_worker_id t1 = Some worker" "t_builder_worker_id t1 \<noteq> Some worker"
    using s worked(8) by auto
  have to: "app_reachable (ae_cfg env) x \<and> history env x (snd w')" if "through env w1 x w2" for x
    using that r1 worked(3) by (meson app_reachable_steps rtranclp_trans)
  have sha: "t_produced_sha t = Some (ar_produced_sha r)"
    using s worked(5) by (auto simp: opt_str_def split: option.splits)
  have "history env a (snd w')" using worked(2,3) t1(1) by (meson rtranclp_trans)
  from later_task [OF worked(1) this worked(4)] sha obtain t' where t': "find_task ?tid (pool (snd w')) = Some t'"
    "t_produced_sha t' = Some (ar_produced_sha r)" "t_fencing_required t' = t_fencing_required t"
    by (metis option.distinct(1))
  have "t_produced_sha t1 \<noteq> None"
    using completed_has_commit [of "ae_cfg env" a1 ?tid t1] to [OF t1(1)] t1(2,3) by blast
  then have "t_state t' = Completed" "t_validator_worker_id t' = Some worker" "t_builder_worker_id t' \<noteq> Some worker"
    using later_task [of "ae_cfg env" a1 "snd w'" ?tid t1] to [OF t1(1)] t1(2-) t'(1) by (metis option.inject)+
  moreover have "\<exists>d. get receipt ''artifact_sha256'' = PStr d \<and> (\<exists>c\<in>set (task_checkpoints (pool (snd w'))). c_task_id c = ?tid \<and>
      c_stage c = ''validator_result'' \<and> c_artifact_sha256 c = Some d)"
    if fc: "hl_fence h = Some fence" for fence
  proof -
    obtain d b u c where c: "art = Some d" "through env w1 b w2" "find_task ?tid (pool b) = Some u" "c \<in> set (task_checkpoints (pool b))"
      "c_task_id c = ?tid" "c_stage c = ''validator_result''" "c_artifact_sha256 c = Some (da_sha256 d)"
      using s fc by auto
    then have "c \<in> set (task_checkpoints (pool (snd w')))" using to [OF c(2)] later_task [of "ae_cfg env" b "snd w'" ?tid u] by metis
    then show ?thesis using c(5-) get_receipt_of(4) [OF fc c(1)] worked(10) by blast
  qed
  ultimately show ?thesis using t' worked(6) get_receipt_of(1,2) [of ex jb h r art, folded worked(10)] by (metis not_Some_eq)
qed

section \<open>Nothing is published unannounced\<close>

text \<open>Two actions that cannot be told apart as long as the service is in a reachable state.\<close>

definition agree :: "api_env \<Rightarrow> ('a, 'g \<times> app_db) act \<Rightarrow> ('a, 'g \<times> app_db) act \<Rightarrow> bool" where
  "agree env m m' \<longleftrightarrow> (\<forall>w. app_reachable (ae_cfg env) (snd w) \<longrightarrow> m w = m' w)"

lemma agree_refl [simp, intro]: "agree env m m"
  by (simp add: agree_def)

lemma agree_andthen:
  assumes "agree env m m'" and "keeps (service_moves env) m'" and "\<And>x. agree env (f x) (f' x)"
  shows "agree env (andthen m f) (andthen m' f')"
  unfolding agree_def
proof (intro allI impI)
  fix w :: "'a \<times> app_db"
  assume w: "app_reachable (ae_cfg env) (snd w)"
  obtain r w1 where m: "m' w = (r, w1)" by (cases "m' w")
  moreover have "app_reachable (ae_cfg env) (snd w1)" using app_reachable_steps [OF moves_run [OF assms(2) m] w] .
  moreover have "m w = m' w" using assms(1) w by (simp add: agree_def del: split_paired_All)
  moreover have "f x w1 = f' x w1" for x using assms(3) calculation(2) by (simp add: agree_def del: split_paired_All)
  ultimately show "andthen m f w = andthen m' f' w" by (cases r) (simp_all add: andthen_def)
qed

lemma agree_attempt:
  assumes "agree env m m'" shows "agree env (attempt m h) (attempt m' h)"
  using assms by (simp add: agree_def attempt_def)

text \<open>A durable store that refuses to publish for an effect that is not pending in the pool.\<close>

definition announced :: "app_db \<Rightarrow> string \<Rightarrow> string \<Rightarrow> bool" where
  "announced a tid effect \<longleftrightarrow>
     (\<exists>c\<in>set (task_checkpoints (pool a)). c_task_id c = tid \<and> c_effect_id c = Some effect \<and> c_effect_state c = EffPending)"

definition watched :: "('g \<times> app_db) artifact_transport \<Rightarrow> ('g \<times> app_db) artifact_transport" where
  "watched t = t\<lparr>tp_publish := \<lambda>m g n effect r w.
     if announced (snd w) (mf_task_id m) effect then tp_publish t m g n effect r w else (Inl ''not_announced'', w)\<rparr>"

definition with_guard :: "('g \<times> app_db) executor \<Rightarrow> ('g \<times> app_db) executor" where
  "with_guard ex = ex\<lparr>ex_transport := map_option watched (ex_transport ex)\<rparr>"

lemma with_guard_simps [simp]:
  "ex_api (with_guard ex) = ex_api ex" "ex_workspace (with_guard ex) = ex_workspace ex" "ex_receipts (with_guard ex) = ex_receipts ex"
  "ex_adapters (with_guard ex) = ex_adapters ex" "ex_registries (with_guard ex) = ex_registries ex"
  "ex_boundary (with_guard ex) = ex_boundary ex" "ex_fenced_adapter_ids (with_guard ex) = ex_fenced_adapter_ids ex"
  "run_correlation (with_guard ex) = run_correlation ex" "workspace_id (with_guard ex) = workspace_id ex"
  "ex_transport (with_guard ex) = None \<longleftrightarrow> ex_transport ex = None" "invoker_of (with_guard ex) jb = invoker_of ex jb"
  by (simp_all add: with_guard_def run_correlation_def workspace_id_def invoker_of_def)

lemma with_guard_transport:
  "andthen (lift (the_transport (with_guard ex))) f = andthen (lift (the_transport ex)) (\<lambda>t. f (watched t))"
  by (auto simp: fun_eq_iff with_guard_def the_transport_def andthen_def lift_def split: option.splits)

lemma watched_simps [simp]:
  "tp_preflight (watched t) = tp_preflight t" "tp_materialize (watched t) = tp_materialize t" "tp_verify (watched t) = tp_verify t"
  by (simp_all add: watched_def)

text \<open>Only the publication differs.\<close>

lemma with_guard_same [simp]:
  "prepare_job (with_guard ex) = prepare_job ex" "fresh_checks (with_guard ex) = fresh_checks ex" "read_task (with_guard ex) = read_task ex"
  "claim_job f u (with_guard ex) = claim_job f u ex" "recovered (with_guard ex) = recovered ex" "check_claimed (with_guard ex) = check_claimed ex"
  "produce (with_guard ex) = produce ex" "check_built (with_guard ex) = check_built ex" "verify_artifact (with_guard ex) = verify_artifact ex"
  "checkpoint_request_of (with_guard ex) = checkpoint_request_of ex" "receipt_of (with_guard ex) = receipt_of ex"
  "report_failure (with_guard ex) = report_failure ex"
  by (intro ext; simp add: prepare_job_def fresh_checks_def distinct_workspace_def read_task_def claim_job_def send_claim_def recovered_def
      check_claimed_def produce_def check_built_def verify_artifact_def checkpoint_request_of_def receipt_of_def report_failure_def
      with_guard_transport Let_def cong: if_cong option.case_cong)+

lemma with_guard_same_work [simp]:
  "verified_artifact (with_guard ex) = verified_artifact ex" "unchanged (with_guard ex) = unchanged ex" "replay (with_guard ex) = replay ex"
  "validate_job (with_guard ex) = validate_job ex"
  by (intro ext; simp add: verified_artifact_def unchanged_def replay_def replay_checkpoint_def receipt_matches_def validate_job_def
      Let_def cong: if_cong option.case_cong)+

lemma record_announces:
  assumes "served env wa" and "app_reachable (ae_cfg env) (snd w)" and "wa_record_checkpoint wa i w = (Inr v, w')"
    and "i_effect_id i = Some effect" and "i_effect_state i = ''pending''"
  shows "announced (snd w') (i_task_id i) effect"
proof -
  obtain a t c where c: "through env w a w'" "find_task (i_task_id i) (pool a) = Some t" "c \<in> set (task_checkpoints (pool a))"
    "c_task_id c = i_task_id i" "c_effect_id c = Some effect" "effect_state_name (c_effect_state c) = ''pending''"
    using record_served [OF assms(1,3)] assms(4,5) by auto
  have "c_effect_state c = EffPending" using c(6) by (cases "c_effect_state c") (simp_all add: effect_state_name_def)
  moreover have "c \<in> set (task_checkpoints (pool (snd w')))"
    using later_task [of "ae_cfg env" a "snd w'" "i_task_id i" t] app_reachable_steps [of "ae_cfg env" "snd w" a] assms(2) c(1-4) by metis
  ultimately show ?thesis using c(4,5) by (auto simp: announced_def)
qed

lemma publish_agrees:
  assumes "served env (ex_api ex)"
  shows "agree env (publish_artifact (with_guard ex) jb h fence effect r) (publish_artifact ex jb h fence effect r)"
  unfolding agree_def
proof (intro allI impI)
  fix w :: "'a \<times> app_db"
  assume w: "app_reachable (ae_cfg env) (snd w)"
  let ?i = "with_effect effect ''pending'' None (checkpoint_request_of ex jb h fence ''artifact-pending'' 1 ''artifact_publish'' ''publish_artifact'')"
  obtain v w1 where v: "wa_record_checkpoint (ex_api ex) ?i w = (v, w1)" by (cases "wa_record_checkpoint (ex_api ex) ?i w")
  have "announced (snd w1) (mf_task_id (jb_manifest jb)) effect" if "v = Inr x" for x
    using record_announces [OF assms w, of ?i x w1 effect] v that by (simp add: with_effect_def checkpoint_request_of_def)
  then show "publish_artifact (with_guard ex) jb h fence effect r w = publish_artifact ex jb h fence effect r w"
    using v unfolding publish_artifact_def Let_def
    by (cases v) (simp_all add: with_guard_transport, simp_all add: andthen_def attempt_def lift_def watched_def split: sum.split)
qed

lemma build_agrees:
  assumes "served env (ex_api ex)" and "bystanders env ex" and "adapter_beside env (jb_adapter jb)"
  shows "agree env (build_job (with_guard ex) jb h latest) (build_job ex jb h latest)"
proof -
  note keeps = served_keeps [OF assms(1)] step_keeps [OF assms(1,2)] work_keeps [OF assms(1,2,3)]
  have "agree env (settle_artifact (with_guard ex) jb h fence latest r found) (settle_artifact ex jb h fence latest r found)" for fence r found
    unfolding settle_artifact_def Let_def by (cases found) (auto intro!: agree_andthen moves keeps publish_agrees [OF assms(1)])
  then have "agree env
      (case hl_fence h of None \<Rightarrow> ret None | Some fence \<Rightarrow> andthen (settle_artifact (with_guard ex) jb h fence latest r found) (\<lambda>art. ret (Some art)))
      (case hl_fence h of None \<Rightarrow> ret None | Some fence \<Rightarrow> andthen (settle_artifact ex jb h fence latest r found) (\<lambda>art. ret (Some art)))" for r found
    by (auto intro!: agree_andthen keeps split: option.splits)
  then show ?thesis unfolding build_job_def
    by (auto intro!: agree_andthen keeps moves split: prod.splits option.splits)
qed

lemma locked_run_agrees:
  assumes "served env (ex_api ex)" and "bystanders env ex" and "adapter_beside env (jb_adapter jb)"
  shows "agree env (locked_run f u (with_guard ex) jb) (locked_run f u ex jb)"
proof -
  note keeps = served_keeps [OF assms(1)] step_keeps [OF assms(1,2)] work_keeps [OF assms(1,2,3)]
  have rs: "keeps (service_moves env) (rc_exists (ex_receipts ex) path)" for path
    using assms(2) by (simp add: bystanders_def receipts_beside_def)
  have b: "agree env (build_job (with_guard ex) jb h latest) (build_job ex jb h latest)" for h latest
    by (rule build_agrees [OF assms])
  have w: "agree env (work (with_guard ex) jb h latest) (work ex jb h latest)" for h latest
    using b [of h latest] unfolding work_def by (cases "jb_role jb = ''builder''") (simp_all add: agree_attempt)
  have kb: "keeps (service_moves env) (build_job ex jb h latest)" and kv: "keeps (service_moves env) (validate_job ex jb h latest)" for h latest
    unfolding build_job_def validate_job_def using workspace_keeps adapter_keeps [OF assms(2,3)] assms(2)
    by (auto intro!: moves keeps split: option.splits prod.splits simp: bystanders_def)
  have "keeps (service_moves env) (report_failure ex h e)" for h e
    unfolding report_failure_def Let_def by (auto intro!: moves keeps)
  then have kw: "keeps (service_moves env) (work ex jb h latest)" for h latest
    unfolding work_def by (auto intro!: moves kb kv)
  have "agree env (execute_job f u (with_guard ex) jb fenced) (execute_job f u ex jb fenced)" for fenced
    unfolding execute_job_def using assms(2) by (auto intro!: agree_andthen keeps w kw receipt_keeps(2) simp: bystanders_def)
  then show ?thesis
    unfolding locked_run_def by (auto intro!: agree_andthen moves keeps rs split: prod.splits)
qed

text \<open>C10: Nothing is published unannounced. A run behaves the same, to the last bit of the world, when the durable store refuses every
  publication whose effect is not recorded as pending in the pool's database at that very moment: the worker
  never asks it to publish anything else.\<close>

theorem publication_announced:
  assumes "served env (ex_api ex)" and "bystanders env ex" and "app_reachable (ae_cfg env) (snd w)"
  shows "run_one_shot fromisoformat clock (with_guard ex) raw role worker w = run_one_shot fromisoformat clock ex raw role worker w"
proof (cases "prepare_job ex raw role worker")
  case (Inr jb)
  have ad: "adapter_beside env (jb_adapter jb)" using prepare_job_Inr(4) [OF Inr] assms(2) by (auto simp: bystanders_def)
  obtain v w1 where v: "acquire (ex_receipts ex) (mf_task_id (jb_manifest jb)) role w = (v, w1)"
    by (cases "acquire (ex_receipts ex) (mf_task_id (jb_manifest jb)) role w")
  have "keeps (service_moves env) (acquire (ex_receipts ex) (mf_task_id (jb_manifest jb)) role)"
    using assms(2) receipt_keeps(1) by (auto simp: bystanders_def)
  from app_reachable_steps [OF moves_run [OF this v] assms(3)]
  have "locked_run fromisoformat clock (with_guard ex) jb w1 = locked_run fromisoformat clock ex jb w1"
    using locked_run_agrees [OF assms(1,2) ad] unfolding agree_def by blast
  then show ?thesis using Inr v by (cases v) (simp_all add: run_one_shot_def andthen_def lift_def always_then_def)
qed (simp add: run_one_shot_def andthen_def lift_def)

section \<open>A receipt is replayed without a change\<close>

text \<open>The executor with every port that could change the pool, the receipts or the durable store taken away, and no adapter run.\<close>

definition reading_api :: "'w worker_api \<Rightarrow> 'w worker_api" where
  "reading_api wa = wa\<lparr>wa_claim_exact := \<lambda>_ _ _. raise ''forbidden'', wa_claim_fenced_exact := \<lambda>_ _ _. raise ''forbidden'',
     wa_record_checkpoint := \<lambda>_. raise ''forbidden'', wa_start := \<lambda>_ _. raise ''forbidden'',
     wa_submit_validation := \<lambda>_ _ _. raise ''forbidden'', wa_complete := \<lambda>_ _. raise ''forbidden'',
     wa_fail := \<lambda>_ _ _. raise ''forbidden'', wa_block := \<lambda>_ _ _. raise ''forbidden''\<rparr>"

definition reading_adapter :: "'w native_adapter \<Rightarrow> 'w native_adapter" where
  "reading_adapter ad = ad\<lparr>na_build := \<lambda>_. raise ''forbidden'', na_validate := \<lambda>_ _. raise ''forbidden''\<rparr>"

definition reading_executor :: "'w executor \<Rightarrow> 'w executor" where
  "reading_executor ex = ex\<lparr>ex_api := reading_api (ex_api ex),
     ex_receipts := (ex_receipts ex)\<lparr>rc_replace := \<lambda>_ _. raise ''forbidden''\<rparr>,
     ex_adapters := map (\<lambda>(k, ad). (k, reading_adapter ad)) (ex_adapters ex),
     ex_registries := [],
     ex_transport := map_option (\<lambda>t. t\<lparr>tp_preflight := raise ''forbidden'', tp_publish := \<lambda>_ _ _ _ _. raise ''forbidden'',
       tp_materialize := \<lambda>_ _. raise ''forbidden''\<rparr>) (ex_transport ex)\<rparr>"

lemma reading_simps [simp]:
  "ex_workspace (reading_executor ex) = ex_workspace ex" "ex_boundary (reading_executor ex) = ex_boundary ex"
  "ex_fenced_adapter_ids (reading_executor ex) = ex_fenced_adapter_ids ex" "workspace_id (reading_executor ex) = workspace_id ex"
  "wa_get_task (ex_api (reading_executor ex)) = wa_get_task (ex_api ex)"
  "wa_get_latest_checkpoint (ex_api (reading_executor ex)) = wa_get_latest_checkpoint (ex_api ex)"
  "rc_lock (ex_receipts (reading_executor ex)) = rc_lock (ex_receipts ex)" "rc_unlock (ex_receipts (reading_executor ex)) = rc_unlock (ex_receipts ex)"
  "rc_exists (ex_receipts (reading_executor ex)) = rc_exists (ex_receipts ex)" "rc_plain (ex_receipts (reading_executor ex)) = rc_plain (ex_receipts ex)"
  "rc_read (ex_receipts (reading_executor ex)) = rc_read (ex_receipts ex)" "ex_transport (reading_executor ex) = None \<longleftrightarrow> ex_transport ex = None"
  "na_descriptor (reading_adapter ad) = na_descriptor ad"
  by (simp_all add: reading_executor_def reading_api_def reading_adapter_def workspace_id_def)

definition reading_job :: "'w job \<Rightarrow> 'w job" where
  "reading_job jb = jb\<lparr>jb_adapter := reading_adapter (jb_adapter jb)\<rparr>"

lemma reading_job_simps [simp]:
  "jb_manifest (reading_job jb) = jb_manifest jb" "jb_raw (reading_job jb) = jb_raw jb" "jb_role (reading_job jb) = jb_role jb"
  "jb_worker (reading_job jb) = jb_worker jb" "jb_adapter (reading_job jb) = reading_adapter (jb_adapter jb)"
  by (simp_all add: reading_job_def)

lemma reading_prepared: "prepare_job (reading_executor ex) raw role worker = bindE (prepare_job ex raw role worker) (\<lambda>jb. Inr (reading_job jb))"
proof -
  have a: "map_of (ex_adapters (reading_executor ex)) k = map_option reading_adapter (map_of (ex_adapters ex) k)" for k
    by (simp add: reading_executor_def map_of_map)
  show ?thesis by (auto simp: prepare_job_def a bindE_def require_def Let_def reading_job_def split: option.splits sum.splits)
qed

lemma reading_replay: "replay (reading_executor ex) (reading_job jb) fenced task = replay ex jb fenced task"
proof -
  have v: "verify_artifact (reading_executor ex) (reading_job jb) sha art = verify_artifact ex jb sha art" for sha art
    by (cases "ex_transport ex") (simp_all add: fun_eq_iff verify_artifact_def the_transport_def andthen_def lift_def reading_executor_def)
  show ?thesis
    by (simp add: replay_def replay_checkpoint_def receipt_matches_def v Let_def cong: if_cong option.case_cong)
qed

text \<open>Running a finished job again changes nothing. When the receipt of this task and role exists, a run does the same with every
  operation taken away that could claim or change the task, record a checkpoint, write a receipt, publish an artifact or run the
  adapter: it only reads, and returns the stored receipt or an error.\<close>

theorem replay_only_reads:
  assumes "parse_manifest raw = Inr m" and "\<forall>w. fst (rc_exists (ex_receipts ex) (receipt_stem (mf_task_id m) role @ ''.json'') w) = Inr True"
  shows "run_one_shot fromisoformat clock (reading_executor ex) raw role worker = run_one_shot fromisoformat clock ex raw role worker"
proof (cases "prepare_job ex raw role worker")
  case (Inr jb)
  have m: "jb_manifest jb = m" "jb_role jb = role"
    using Inr assms(1) by (auto simp: prepare_job_def outcome_simps Let_def split: option.splits)
  have r: "read_task (reading_executor ex) (reading_job jb) = read_task ex jb"
    by (simp add: read_task_def task_identity_ok_def)
  have "locked_run fromisoformat clock (reading_executor ex) (reading_job jb) w = locked_run fromisoformat clock ex jb w" for w
  proof -
    obtain w1 where "rc_exists (ex_receipts ex) (receipt_stem (mf_task_id m) role @ ''.json'') w = (Inr True, w1)"
      using assms(2) by (metis prod.collapse)
    then show ?thesis by (simp add: locked_run_def m r reading_replay andthen_run)
  qed
  then have "locked_run fromisoformat clock (reading_executor ex) (reading_job jb) = locked_run fromisoformat clock ex jb" by blast
  then show ?thesis using Inr by (intro ext) (simp add: run_one_shot_def reading_prepared acquire_def andthen_def lift_def bindE_def)
qed (simp add: run_one_shot_def reading_prepared fun_eq_iff andthen_def lift_def bindE_def)

section \<open>The executed job\<close>

lemma demo_call: "att \<noteq> [] \<Longrightarrow> m = at_service (op p (demo_line att)) \<Longrightarrow> call_at demo_native_env op m"
  unfolding call_at_def
  by (intro allI exI [of _ p] exI [of _ 2] exI [of _ "(demo_token, att)"] exI [of _ "demo_line att"])
    (auto simp: at_service_def online_connected [OF demo_line_online] split: prod.splits intro!: exI)

lemma demo_served: "att \<noteq> [] \<Longrightarrow> served demo_native_env (demo_worker_api att)"
  unfolding served_def demo_worker_api_def Let_def
  by (intro conjI allI; (rule demo_call [where p = "()"] | rule demo_call [where p = "(demo_read, 2)"]); simp)

lemma demo_bystanders: "bystanders demo_native_env (demo_executor att head dir)"
proof -
  have g: "keeps (service_moves demo_native_env) (demo_git args)" for args by (simp add: keeps_def demo_git_def)
  have "workspace_beside demo_native_env (demo_workspace dir)" by (simp add: workspace_beside_def demo_workspace_def g moving.keeps_pure)
  moreover have "receipts_beside demo_native_env demo_receipts" by (simp add: receipts_beside_def demo_receipts_def keeps_def ret_def)
  moreover have "transport_beside demo_native_env demo_store" by (simp add: transport_beside_def demo_store_def keeps_def ret_def raise_def)
  moreover have "adapter_beside demo_native_env demo_adapter"
    by (auto simp: adapter_beside_def demo_adapter_def keeps_def andthen_def ret_def split: prod.splits sum.splits) (metis fst_conv snd_conv)+
  ultimately show ?thesis by (auto simp: bystanders_def demo_executor_def keeps_def ret_def split: if_splits)
qed

lemma demo_end_reachable: "app_reachable demo_cfg (demo_app demo_s5)"
proof -
  have step: "reachable demo_cfg q" if "reachable demo_cfg db" "call_ok c" "exec_call demo_cfg 2 c db = q" for c db q
    using that by (metis reachable.stepped pool_step.call)
  have "reachable demo_cfg demo_s1" by (rule step [OF demo_shop_reachable, of "ClaimTask demo_job_claim"]) (simp add: demo_job_claim_def claim_of_def claim_payload_of_def, simp add: demo_claimed)
  then have "reachable demo_cfg demo_s2" by (rule step [where c = "StartTask demo_job_proof ''corr-001''"]) (use demo_started in \<open>simp_all add: mutation_op_def\<close>)
  then have "reachable demo_cfg demo_s3" by (rule step [where c = "RecordCheckpoint demo_pending"]) (simp_all add: demo_pending_recorded)
  then have "reachable demo_cfg demo_s4" by (rule step [where c = "RecordCheckpoint demo_confirmed"]) (simp_all add: demo_confirmed_recorded)
  then have "reachable demo_cfg demo_s5"
    by (rule step [where c = "SubmitForValidation demo_job_proof demo_new_sha ''corr-001''"]) (use demo_submitted in \<open>simp_all add: mutation_op_def\<close>)
  then show ?thesis unfolding demo_app_def by (rule app_reachable_idle)
qed

theorem one_shot_built_witness:
  "\<exists>t c. find_task demo_issue_id (pool (snd demo_end)) = Some t \<and> t_produced_sha t = Some demo_new_sha \<and> t_builder_worker_id t = Some ''bob'' \<and>
     c \<in> set (task_checkpoints (pool (snd demo_end))) \<and> c_stage c = ''builder_result'' \<and>
     c_artifact_sha256 c = Some (sha256_hex demo_artifact) \<and> c_effect_state c = EffConfirmed"
proof -
  have s: "served demo_native_env (ex_api demo_bob)" by (simp add: demo_served)
  have b: "bystanders demo_native_env demo_bob" unfolding demo_bob_def by (rule demo_bystanders)
  have r: "app_reachable (ae_cfg demo_native_env) (snd demo_start)" using demo_app_reachable_shop by (simp add: demo_native_env_def demo_start_def)
  have g: "get demo_receipt ''task_id'' = PStr demo_issue_id" "get demo_receipt ''produced_sha'' = PStr demo_new_sha" "get demo_receipt ''replayed'' = PBool False"
    "get demo_receipt ''artifact_sha256'' = PStr (sha256_hex demo_artifact)"
    by (simp_all add: demo_receipt_def get_receipt_of get_receipt_of(4) [of demo_held "(1, ''a1'')"] demo_held_def demo_result_def demo_durable_def)
  have "t_fencing_required t" if "find_task demo_issue_id (pool (snd demo_end)) = Some t" for t
    using that by (simp add: demo_end_def find_task_def demo_row5)
  with one_shot_built [OF s b r demo_bob_run] g show ?thesis by fastforce
qed

theorem one_shot_validated_witness:
  "\<exists>t. find_task demo_issue_id (pool (snd demo_vic_end)) = Some t \<and> t_state t = Completed \<and> t_produced_sha t = Some demo_new_sha \<and>
     t_validator_worker_id t = Some ''vic'' \<and> t_builder_worker_id t \<noteq> Some ''vic''"
proof -
  have s: "served demo_native_env (ex_api demo_vic)" by (simp add: demo_served)
  have b: "bystanders demo_native_env demo_vic" unfolding demo_vic_def by (rule demo_bystanders)
  have r: "app_reachable (ae_cfg demo_native_env) (snd demo_vic_start)" using demo_end_reachable by (simp add: demo_native_env_def demo_vic_start_def)
  have g: "get demo_vic_receipt ''task_id'' = PStr demo_issue_id" "get demo_vic_receipt ''produced_sha'' = PStr demo_new_sha" "get demo_vic_receipt ''replayed'' = PBool False"
    by (simp_all add: demo_vic_receipt_def get_receipt_of demo_result_def)
  from one_shot_validated [OF s b r demo_vic_run] g show ?thesis by fastforce
qed

theorem publication_announced_witness:
  "run_one_shot demo_read 2 (with_guard demo_bob) (demo_raw demo_sha) ''builder'' ''bob'' demo_start = (Inr demo_receipt, demo_end)"
proof -
  have s: "served demo_native_env (ex_api demo_bob)" by (simp add: demo_served)
  have b: "bystanders demo_native_env demo_bob" unfolding demo_bob_def by (rule demo_bystanders)
  have r: "app_reachable (ae_cfg demo_native_env) (snd demo_start)" using demo_app_reachable_shop by (simp add: demo_native_env_def demo_start_def)
  show ?thesis using publication_announced [OF s b r] demo_bob_run by simp
qed

text \<open>The builder is run again: with a store in which every receipt exists, in the world its first run left.\<close>

definition demo_again :: "demo_world executor" where
  "demo_again = demo_bob\<lparr>ex_receipts := demo_receipts\<lparr>rc_exists := \<lambda>_. ret True\<rparr>\<rparr>"

lemma demo_again_matches: "receipt_matches demo_again demo_bob_job True demo_receipt"
  by (simp add: receipt_matches_def Let_def demo_receipt_def receipt_of_def demo_held_def receipt_fields_def artifact_keys_def insert_commute
      demo_again_def workspace_id_def demo_bob_def demo_executor_def run_correlation_def str_all_def SHA256_hex texts_def text_list_def str_of_def
      List.map_filter_simps demo_result_def demo_descriptor_def role_commands_def demo_bob_job_def demo_job_def)

lemma demo_again_simps [simp]:
  "ex_api demo_again = demo_worker_api ''a1''" "ex_workspace demo_again = demo_workspace ''/w1''"
  "ex_receipts demo_again = demo_receipts\<lparr>rc_exists := \<lambda>_. ret True\<rparr>" "ex_transport demo_again = Some demo_store" "the_transport demo_again = Inr demo_store"
  by (simp_all add: demo_again_def the_transport_def)

lemma demo_receipt_get:
  "get demo_receipt ''produced_sha'' = PStr demo_new_sha" "get demo_receipt ''fencing_required'' = PBool True" "get demo_receipt ''lease_generation'' = PInt 1"
  "get demo_receipt ''attempt_id'' = PStr ''a1''" "get demo_receipt ''artifact_kind'' = PStr ''git_bundle''" "get demo_receipt ''artifact_ref'' = PStr ''ref''"
  "get demo_receipt ''artifact_sha256'' = PStr (sha256_hex demo_artifact)" "get demo_receipt ''changed_paths'' = texts [''app.py'']"
  by (simp_all add: demo_receipt_def receipt_of_def demo_held_def demo_result_def demo_durable_def)

lemma demo_again_checkpoint: "replay_checkpoint demo_again demo_bob_job demo_new_sha demo_receipt demo_durable demo_end = (Inr (), demo_end)"
proof -
  have "client_latest_checkpoint (demo_line ''a1'') demo_issue_id (demo_app demo_s5) = (Inr (PDict demo_latest), demo_app demo_s5)"
    using latest_online [OF demo_line_online demo_issue_TASK_ID, of "demo_app demo_s5"] demo_latest5 demo_rows5(5) by (simp add: demo_latest_def)
  moreover have "receipt_checkpoint_ok ''builder'' demo_issue_id demo_new_sha demo_receipt demo_durable demo_latest"
    by (simp add: receipt_checkpoint_ok_def demo_latest_get demo_receipt_get demo_durable_def demo_effect_id_def)
  ultimately show ?thesis
    by (simp add: replay_checkpoint_def demo_worker_api_def at_service_def demo_end_def demo_latest_shape verify_artifact_def demo_store_def run_defs Let_def)
qed

lemma demo_again_replay:
  "replay demo_again demo_bob_job True (json_task (public_task demo_row5)) demo_end = (Inr (put_field ''replayed'' (PBool True) demo_receipt), demo_end)"
proof -
  let ?task = "json_task (public_task demo_row5)"
  have t: "get ?task ''state'' = PStr ''validating''" "get ?task ''produced_sha'' = PStr demo_new_sha" "get ?task ''lease_generation'' = PInt 1"
    by (simp_all add: json_task_def public_task_def demo_row5 state_name_def opt_str_def)
  have w: "validate_replay (demo_workspace ''/w1'') demo_new_sha demo_end = (Inr (), demo_end)"
    by (simp add: validate_replay_def demo_workspace_run demo_end_def run_defs)
  have a: "artifact_from_checkpoint demo_receipt = Inr demo_durable"
    by (simp add: artifact_from_checkpoint_def artifact_of_def demo_receipt_get demo_port_text SHA256_hex demo_durable_def)
  have p: "text_field SHA40 demo_receipt ''produced_sha'' ''receipt_produced_sha'' = Inr demo_new_sha" "receipt_lease_ok demo_receipt ?task"
    "text_list (get demo_receipt ''changed_paths'') = Some [''app.py'']" "str_in (expected_state ''builder'') (get ?task ''state'')"
    by (simp_all add: text_field_def demo_receipt_get demo_port_text receipt_lease_ok_def int_all_def str_all_def t texts_def text_list_def str_of_def
        List.map_filter_simps expected_state_def str_in_def demo_row5 state_name_def)
  have r: "rc_read demo_receipts (demo_issue_id @ ''-builder.json'') demo_end = (Inr (PDict demo_receipt), demo_end)"
    by (simp add: demo_receipts_def demo_end_def)
  have plain: "rc_plain demo_receipts path w = (Inr True, w)" for path w by (simp add: demo_receipts_def ret_def)
  show ?thesis
    using demo_again_matches t(2) w a p r plain demo_again_checkpoint
    by (simp add: replay_def Let_def receipt_stem_def as_receipt_def demo_workspace_run run_defs)
qed

lemma demo_again_prepared: "prepare_job demo_again (demo_raw demo_sha) ''builder'' ''bob'' = Inr demo_bob_job"
proof -
  have "prepare_job demo_again (demo_raw demo_sha) ''builder'' ''bob'' = prepare_job demo_bob (demo_raw demo_sha) ''builder'' ''bob''"
    by (simp add: prepare_job_def demo_again_def)
  also have "\<dots> = Inr demo_bob_job"
    unfolding demo_bob_def demo_bob_job_def by (rule demo_job_prepared) (simp_all add: demo_port_text)
  finally show ?thesis .
qed

lemma demo_again_run:
  "run_one_shot demo_read 2 demo_again (demo_raw demo_sha) ''builder'' ''bob'' demo_end = (Inr (put_field ''replayed'' (PBool True) demo_receipt), demo_end)"
proof -
  have "read_task demo_bob demo_bob_job demo_end = (Inr (json_task (public_task demo_row5), True), demo_end)"
    unfolding demo_bob_def demo_bob_job_def demo_end_def by (rule demo_read_run) (simp_all add: find_task_def demo_row5)
  then have "read_task demo_again demo_bob_job demo_end = (Inr (json_task (public_task demo_row5), True), demo_end)"
    by (simp add: read_task_def demo_again_def)
  then have "locked_run demo_read 2 demo_again demo_bob_job demo_end = (Inr (put_field ''replayed'' (PBool True) demo_receipt), demo_end)"
    using demo_again_replay by (simp add: locked_run_def run_defs)
  then show ?thesis using demo_again_prepared by (simp add: run_one_shot_def acquire_def demo_receipts_def run_defs always_then_def)
qed

theorem replay_only_reads_witness:
  "run_one_shot demo_read 2 (reading_executor demo_again) (demo_raw demo_sha) ''builder'' ''bob'' demo_end =
     (Inr (put_field ''replayed'' (PBool True) demo_receipt), demo_end)"
proof -
  have "run_one_shot demo_read 2 (reading_executor demo_again) (demo_raw demo_sha) ''builder'' ''bob'' =
      run_one_shot demo_read 2 demo_again (demo_raw demo_sha) ''builder'' ''bob''"
    by (rule replay_only_reads [OF demo_parsed]) (simp_all add: demo_port_text ret_def)
  then show ?thesis by (simp add: demo_again_run)
qed

text \<open>Once the validator has claimed the task its generation has moved on: the builder's receipt of a fenced task is then refused
  as stale, although the state \<^verbatim>\<open>completed\<close> is among those that the replay expects.\<close>

lemma builder_receipt_stale:
  "run_one_shot demo_read 2 demo_again (demo_raw demo_sha) ''builder'' ''bob'' (fst demo_end, demo_app demo_s8) =
     (Inl ''receipt_lease_stale'', (fst demo_end, demo_app demo_s8))"
proof -
  let ?w = "(fst demo_end, demo_app demo_s8)" and ?t = "hd (tasks demo_s8)"
  have t: "find_task demo_issue_id demo_s8 = Some ?t" "t_repository ?t = REPO" "t_base_sha ?t = Some demo_sha" "t_fencing_required ?t"
    "t_state ?t = Completed" "t_produced_sha ?t = Some demo_new_sha" "t_lease_generation ?t = 2"
    by (simp_all add: demo_s8_def demo_s7_def demo_s6_def demo_row5 find_task_def complete_update_def checkpoint_update_def claim_update_def)
  have "read_task demo_bob demo_bob_job ?w = (Inr (json_task (public_task ?t), True), ?w)"
    unfolding demo_bob_def demo_bob_job_def by (rule demo_read_run [OF t(1-4)])
  then have r: "read_task demo_again demo_bob_job ?w = (Inr (json_task (public_task ?t), True), ?w)" by (simp add: read_task_def demo_again_def)
  have g: "get (json_task (public_task ?t)) ''state'' = PStr ''completed''" "get (json_task (public_task ?t)) ''produced_sha'' = PStr demo_new_sha"
    "get (json_task (public_task ?t)) ''lease_generation'' = PInt 2"
    using t by (simp_all add: json_task_def public_task_def state_name_def opt_str_def)
  have e: "str_in (expected_state ''builder'') (PStr ''completed'')" "\<not> receipt_lease_ok demo_receipt (json_task (public_task ?t))"
    "text_field SHA40 demo_receipt ''produced_sha'' ''receipt_produced_sha'' = Inr demo_new_sha"
    using g(3) by (simp_all add: expected_state_def str_in_def receipt_lease_ok_def demo_receipt_get text_field_def demo_port_text)
  have "rc_read demo_receipts (demo_issue_id @ ''-builder.json'') ?w = (Inr (PDict demo_receipt), ?w)" "rc_plain demo_receipts path ?w = (Inr True, ?w)" for path
    by (simp_all add: demo_receipts_def demo_end_def ret_def)
  then have "replay demo_again demo_bob_job True (json_task (public_task ?t)) ?w = (Inl ''receipt_lease_stale'', ?w)"
    using demo_again_matches g(1,2) e by (simp add: replay_def Let_def receipt_stem_def as_receipt_def run_defs)
  with r have "locked_run demo_read 2 demo_again demo_bob_job ?w = (Inl ''receipt_lease_stale'', ?w)" by (simp add: locked_run_def run_defs)
  then show ?thesis using demo_again_prepared by (simp add: run_one_shot_def acquire_def demo_receipts_def run_defs always_then_def)
qed

end
