(* ===== verification/Safe_Paths.thy ===== *)
theory Safe_Paths
  imports One_Shot
begin

text \<open>
  The paths of a manifest (\<^verbatim>\<open>_safe_path\<close> of \<^verbatim>\<open>app/native_one_shot.py\<close>): what is accepted stays below the workspace and is in
  normal form.
\<close>

lemma split_at_append: "list_all (\<lambda>c. \<not> P c) x \<Longrightarrow> P d \<Longrightarrow> split_at P (x @ d # r) = x # split_at P r"
  by (induction x) auto

lemma split_at_plain: "list_all (\<lambda>c. \<not> P c) x \<Longrightarrow> split_at P x = [x]"
  by (induction x) auto

lemma split_at_parts: "p \<in> set (split_at P s) \<Longrightarrow> list_all (\<lambda>c. \<not> P c) p"
proof (induction s arbitrary: p)
  case (Cons c s)
  then show ?case by (cases "split_at P s") (auto split: if_splits)
qed auto

lemma split_at_join:
  assumes "ps \<noteq> []" and "list_all (list_all (\<lambda>c. c \<noteq> d)) ps"
  shows "split_at (\<lambda>c. c = d) (join_texts [d] ps) = ps"
  using assms
proof (induction "[d]" ps rule: join_texts.induct)
  case (3 x y xs)
  then show ?case using split_at_append [of "\<lambda>c. c = d" x d "join_texts [d] (y # xs)"] by simp
qed (simp_all add: split_at_plain)

lemma length_split_join: "length (join_texts [d] (filter Q (split_at (\<lambda>c. c = d) s))) \<le> length s"
proof -
  have join: "length (join_texts [d] (x # xs)) = length x + (if xs = [] then 0 else 1 + length (join_texts [d] xs))" for x and xs :: "string list"
    by (cases xs) auto
  have all: "length (join_texts [d] (split_at (\<lambda>c. c = d) s)) = length s" for s
  proof (induction s)
    case (Cons c s)
    then show ?case by (cases "split_at (\<lambda>c. c = d) s") (auto simp: join)
  qed simp
  have "length (join_texts [d] (filter Q xs)) \<le> length (join_texts [d] xs)" for xs
    by (induction xs) (auto simp: join)
  then show ?thesis using all [of s] by metis
qed

lemma path_parts_as_posix:
  assumes "list_all (\<lambda>p. p \<noteq> [] \<and> p \<noteq> ''.'' \<and> list_all (\<lambda>c. c \<noteq> CHR ''/'') p) ps"
  shows "path_parts (as_posix ps) = ps"
proof (cases "ps = []")
  case True
  then show ?thesis by (simp add: path_parts_def as_posix_def)
next
  case False
  then have "split_at (\<lambda>c. c = CHR ''/'') (join_texts ''/'' ps) = ps" using assms by (intro split_at_join) (auto simp: list_all_iff)
  then show ?thesis using False assms by (simp add: path_parts_def as_posix_def list_all_iff)
qed

lemma set_split_at: "p \<in> set (split_at P s) \<Longrightarrow> set p \<subseteq> set s"
proof (induction s arbitrary: p)
  case (Cons c s)
  then show ?case by (cases "split_at P s") (force split: if_splits)+
qed auto

lemma set_join_texts: "set (join_texts sep ps) \<subseteq> set sep \<union> \<Union> (set ` set ps)"
  by (induction sep ps rule: join_texts.induct) auto

lemma starts_join: "ps \<noteq> [] \<Longrightarrow> hd ps \<noteq> [] \<Longrightarrow> starts_with [d] (join_texts sep ps) \<longleftrightarrow> hd (hd ps) = d"
  by (cases ps; cases "hd ps"; cases "tl ps") (auto simp: starts_with_def)

text \<open>C11: An accepted path is confined and in normal form. What the manifest check makes of a path is relative, has no backslash and none
  of its components is empty, hidden or leads upwards; checking it again gives the same path.\<close>

theorem safe_path_confined:
  assumes "safe_path s = Inr p"
  shows "safe_path p = Inr p \<and> path_parts p = path_parts s \<and> \<not> starts_with ''/'' p \<and> CHR 0x5C \<notin> set p \<and>
    list_all (\<lambda>c. c \<noteq> [] \<and> c \<noteq> ''..'' \<and> \<not> starts_with ''.'' c) (path_parts p)"
proof -
  let ?ps = "path_parts s"
  have a: "length s \<le> 240" "CHR 0x5C \<notin> set s" "''..'' \<notin> set ?ps" "p = as_posix ?ps"
    "list_all (\<lambda>c. c \<noteq> [] \<and> c \<noteq> ''.'' \<and> \<not> starts_with ''.'' c) ?ps"
    using assms by (auto simp: safe_path_def outcome_simps)
  have plain: "list_all (list_all (\<lambda>c. c \<noteq> CHR ''/'')) ?ps"
    using split_at_parts [of _ "\<lambda>c. c = CHR ''/''" s] by (auto simp: path_parts_def list_all_iff)
  then have same: "path_parts p = ?ps" using path_parts_as_posix [of ?ps] a(4,5) by (auto simp: list_all_iff)
  have "set c \<subseteq> set s" if "c \<in> set ?ps" for c
    using that set_split_at [of c "\<lambda>c. c = CHR ''/''" s] by (simp add: path_parts_def)
  then have "set p \<subseteq> set s \<union> {CHR ''/'', CHR ''.''}" using set_join_texts [of "''/''" ?ps] a(4) by (auto simp: as_posix_def)
  then have nob: "CHR 0x5C \<notin> set p" using a(2) by auto
  have ne: "?ps \<noteq> [] \<Longrightarrow> hd ?ps \<noteq> [] \<and> hd (hd ?ps) \<noteq> CHR ''/''" using plain a(5) by (cases ?ps; cases "hd ?ps") (auto simp: list_all_iff)
  then have slash: "\<not> starts_with ''/'' p" using starts_join [of ?ps "CHR ''/''" "''/''"] a(4) by (auto simp: as_posix_def starts_with_def)
  have len: "length p \<le> 240" "p \<noteq> []"
    using length_split_join [of "CHR ''/''" "\<lambda>p. p \<noteq> [] \<and> p \<noteq> ''.''" s] a(1,4) ne by (auto simp: as_posix_def path_parts_def split: if_splits)
      (cases ?ps; cases "tl ?ps"; auto simp: path_parts_def)+
  show ?thesis using same nob slash len a by (auto simp: safe_path_def bindE_def require_def Suc_le_eq list_all_iff)
qed

theorem safe_path_confined_witness:
  "safe_path ''src//./app.py'' = Inr ''src/app.py'' \<and> safe_path ''src/app.py'' = Inr ''src/app.py''"
proof -
  have s: "safe_path ''src//./app.py'' = Inr ''src/app.py''" by code_simp
  with safe_path_confined [OF s] show ?thesis by blast
qed

end
