(* ===== verification/Py_Ast.thy ===== *)
theory Py_Ast
  imports Py_Value Py_Effect "HOL-Library.Multiset"
begin

text \<open>
  What the structured worker (\<^verbatim>\<open>app/structured_*.py\<close>) uses of Python's library: lines of a text, JSON text,
  equality of JSON values, and syntax trees as the module \<^verbatim>\<open>ast\<close> presents them. A node has the name of its class,
  a position and named fields, whatever the version of the grammar. The parser, the
  unparser, the dump of a tree, the JSON reader and the text of a float are components of \<open>py_lib\<close>, an argument of what uses them.
  Texts are ASCII, so their length is the length of their encoding.
\<close>

section \<open>Errors\<close>

text \<open>The two exception classes of the worker with their reason codes, the one of its diagnostics, and anything that is not one of them.\<close>

datatype serror =
    StructuredBlocked string
  | AnchorRejected string "string option"
  | DiagnosticWriteError string
  | Uncaught string

type_synonym 'a checked = "serror + 'a"

definition need_block :: "bool \<Rightarrow> string \<Rightarrow> unit checked" where
  "need_block ok reason = (if ok then Inr () else Inl (StructuredBlocked reason))"

lemma need_block_Inr [outcome_simps]: "need_block ok reason = Inr u \<longleftrightarrow> ok"
  by (simp add: need_block_def)

lemma need_block_True [simp]: "need_block True reason = Inr ()"
  by (simp add: need_block_def)

section \<open>Text\<close>

definition newline :: char where
  "newline = CHR 0x0A"

definition lstrip :: "string \<Rightarrow> string" where
  "lstrip s = dropWhile py_isspace s"

definition rstrip :: "string \<Rightarrow> string" where
  "rstrip s = rev (dropWhile py_isspace (rev s))"

definition lstrip_of :: "char \<Rightarrow> string \<Rightarrow> string" where
  "lstrip_of c s = dropWhile (\<lambda>x. x = c) s"

definition rstrip_of :: "char \<Rightarrow> string \<Rightarrow> string" where
  "rstrip_of c s = rev (dropWhile (\<lambda>x. x = c) (rev s))"

text \<open>\<^verbatim>\<open>str.splitlines\<close>: the separators, the lines with their ends, and without.\<close>

definition line_end :: "char \<Rightarrow> bool" where
  "line_end c \<longleftrightarrow> code c \<in> {10, 11, 12, 13, 28, 29, 30}"

fun splitlines_keep :: "string \<Rightarrow> string list" where
  "splitlines_keep [] = []"
| "splitlines_keep [c] = [[c]]"
| "splitlines_keep (c # d # s) =
     (if c = CHR 0x0D \<and> d = CHR 0x0A then [c, d] # splitlines_keep s
      else if line_end c then [c] # splitlines_keep (d # s)
      else case splitlines_keep (d # s) of [] \<Rightarrow> [[c]] | l # ls \<Rightarrow> (c # l) # ls)"

definition splitlines :: "string \<Rightarrow> string list" where
  "splitlines s = map (takeWhile (\<lambda>c. \<not> line_end c)) (splitlines_keep s)"

text \<open>\<^verbatim>\<open>str.count\<close> counts without overlaps, \<^verbatim>\<open>str.index\<close> is the first occurrence.\<close>

fun find_text :: "string \<Rightarrow> string \<Rightarrow> nat option" where
  "find_text p [] = (if p = [] then Some 0 else None)"
| "find_text p (c # s) = (if starts_with p (c # s) then Some 0 else map_option Suc (find_text p s))"

function count_sub :: "string \<Rightarrow> string \<Rightarrow> nat" where
  "count_sub p s =
     (if p = [] then Suc (length s)
      else case find_text p s of None \<Rightarrow> 0 | Some i \<Rightarrow> Suc (count_sub p (drop (i + length p) s)))"
  by pat_completeness auto

lemma find_text_Some: "find_text p s = Some i \<Longrightarrow> i + length p \<le> length s \<and> take (length p) (drop i s) = p"
proof (induction p s arbitrary: i rule: find_text.induct)
  case (2 p c s)
  show ?case
  proof (cases "starts_with p (c # s)")
    case True
    then have t: "take (length p) (c # s) = p" by (simp add: starts_with_def)
    then have "length p \<le> length (c # s)" by (metis length_take min.cobounded1)
    with True t 2(2) show ?thesis by simp
  next
    case False
    with 2 show ?thesis by auto
  qed
qed (auto split: if_splits)

termination count_sub
  by (relation "measure (\<lambda>(p, s). length s)") (auto dest!: find_text_Some simp flip: length_greater_0_conv)

declare count_sub.simps [simp del]

lemma concat_splitlines_keep [simp]: "concat (splitlines_keep s) = s"
proof (induction s rule: splitlines_keep.induct)
  case (3 c d s)
  have "concat (case splitlines_keep (d # s) of [] \<Rightarrow> [[c]] | l # ls \<Rightarrow> (c # l) # ls) = c # concat (splitlines_keep (d # s))"
    by (simp split: list.split)
  with 3 show ?case by auto
qed simp_all

lemma splitlines_keep_Nil [simp]: "splitlines_keep s = [] \<longleftrightarrow> s = []"
  using concat_splitlines_keep [of s] by (metis concat.simps(1) splitlines_keep.simps(1))

lemma splitlines_keep_line:
  "list_all (\<lambda>c. \<not> line_end c) l \<Longrightarrow> splitlines_keep (l @ newline # s) = (l @ [newline]) # splitlines_keep s"
proof (induction l)
  case Nil
  show ?case by (cases s) (simp_all add: newline_def line_end_def)
next
  case (Cons c l)
  then have "splitlines_keep (l @ newline # s) = (l @ [newline]) # splitlines_keep s" by simp
  moreover have "c \<noteq> CHR 0x0D" "\<not> line_end c" using Cons.prems by (auto simp: line_end_def)
  ultimately show ?case by (cases l) simp_all
qed

section \<open>JSON\<close>

fun type_name :: "pyval \<Rightarrow> string" where
  "type_name PNone = ''NoneType''"
| "type_name (PBool _) = ''bool''"
| "type_name (PInt _) = ''int''"
| "type_name (PFloat _) = ''float''"
| "type_name (PStr _) = ''str''"
| "type_name (PList _) = ''list''"
| "type_name (PDict _) = ''dict''"

text \<open>\<^verbatim>\<open>==\<close> in depth: numbers by value, mappings whatever the order of their keys.\<close>

fun deep_eq :: "pyval \<Rightarrow> pyval \<Rightarrow> bool" and deep_eq_list :: "pyval list \<Rightarrow> pyval list \<Rightarrow> bool" and
    deep_eq_items :: "pydict \<Rightarrow> pydict \<Rightarrow> bool" where
  "deep_eq (PList vs) w = (case w of PList ws \<Rightarrow> deep_eq_list vs ws | _ \<Rightarrow> False)"
| "deep_eq (PDict d) w = (case w of PDict e \<Rightarrow> length d = length e \<and> deep_eq_items d e | _ \<Rightarrow> False)"
| "deep_eq v w = py_eq v w"
| "deep_eq_list [] ws = (ws = [])"
| "deep_eq_list (v # vs) ws = (case ws of [] \<Rightarrow> False | w # ws' \<Rightarrow> deep_eq v w \<and> deep_eq_list vs ws')"
| "deep_eq_items [] e = True"
| "deep_eq_items ((k, v) # d) e = ((case map_of e k of None \<Rightarrow> False | Some w \<Rightarrow> deep_eq v w) \<and> deep_eq_items d e)"

fun commas :: "string list \<Rightarrow> string" where
  "commas [] = []"
| "commas [x] = x"
| "commas (x # y # xs) = x @ '', '' @ commas (y # xs)"

text \<open>\<^verbatim>\<open>json.dumps\<close> with the default separators; \<open>srt\<close> is \<^verbatim>\<open>sort_keys\<close>, \<open>ft\<close> the text of a float.\<close>

fun dumps :: "(rat \<Rightarrow> string) \<Rightarrow> bool \<Rightarrow> pyval \<Rightarrow> string" and
    dumps_list :: "(rat \<Rightarrow> string) \<Rightarrow> bool \<Rightarrow> pyval list \<Rightarrow> string list" and
    dumps_items :: "(rat \<Rightarrow> string) \<Rightarrow> bool \<Rightarrow> pydict \<Rightarrow> (string \<times> string) list" where
  "dumps ft srt PNone = ''null''"
| "dumps ft srt (PBool b) = (if b then ''true'' else ''false'')"
| "dumps ft srt (PInt i) = show_int i"
| "dumps ft srt (PFloat r) = ft r"
| "dumps ft srt (PStr s) = json_quote s"
| "dumps ft srt (PList vs) = ''['' @ commas (dumps_list ft srt vs) @ '']''"
| "dumps ft srt (PDict d) =
     (let items = dumps_items ft srt d in
      ''{'' @ commas (map (\<lambda>(k, t). json_quote k @ '': '' @ t) (if srt then sort_key fst items else items)) @ ''}'')"
| "dumps_list ft srt [] = []"
| "dumps_list ft srt (v # vs) = dumps ft srt v # dumps_list ft srt vs"
| "dumps_items ft srt [] = []"
| "dumps_items ft srt ((k, v) # d) = (k, dumps ft srt v) # dumps_items ft srt d"

definition keys :: "pydict \<Rightarrow> string set" where
  "keys d = fst ` set d"

definition list_at :: "pydict \<Rightarrow> string \<Rightarrow> pyval list" where
  "list_at d k = (case get d k of PList vs \<Rightarrow> vs | _ \<Rightarrow> [])"

definition text_at :: "pydict \<Rightarrow> string \<Rightarrow> string" where
  "text_at d k = (case get d k of PStr s \<Rightarrow> s | _ \<Rightarrow> [])"

definition dict_in :: "pyval \<Rightarrow> pydict" where
  "dict_in v = (case v of PDict d \<Rightarrow> d | _ \<Rightarrow> [])"

definition is_dict :: "pyval \<Rightarrow> bool" where
  "is_dict v \<longleftrightarrow> (case v of PDict _ \<Rightarrow> True | _ \<Rightarrow> False)"

definition is_list :: "pyval \<Rightarrow> bool" where
  "is_list v \<longleftrightarrow> (case v of PList _ \<Rightarrow> True | _ \<Rightarrow> False)"

definition is_text :: "pyval \<Rightarrow> bool" where
  "is_text v \<longleftrightarrow> (case v of PStr _ \<Rightarrow> True | _ \<Rightarrow> False)"

definition text_with :: "(string \<Rightarrow> bool) \<Rightarrow> pyval \<Rightarrow> bool" where
  "text_with P v \<longleftrightarrow> (case v of PStr s \<Rightarrow> P s | _ \<Rightarrow> False)"

definition int_with :: "(int \<Rightarrow> bool) \<Rightarrow> pyval \<Rightarrow> bool" where
  "int_with P v \<longleftrightarrow> (case v of PInt i \<Rightarrow> P i | _ \<Rightarrow> False)"

lemma json_shapes [simp]:
  "dict_in (PDict d) = d" "is_dict (PDict d)" "is_list (PList vs)" "is_text (PStr s)" "text_with P (PStr s) = P s" "int_with Q (PInt i) = Q i"
  by (simp_all add: dict_in_def is_dict_def is_list_def is_text_def text_with_def int_with_def)

section \<open>Syntax trees\<close>

text \<open>The position is line, last line and column, for the classes that have one. A field holds a node, a list, a value, or a constant
  of a type that JSON does not have (bytes, complex numbers, the ellipsis, an infinite float), by the name of its type.\<close>

datatype ast = Ast (ty: string) (pos: "(nat \<times> nat \<times> nat) option") (fields: "(string \<times> afield) list")
  and afield = ANode ast | AItems "afield list" | AVal pyval | AOther string

definition attr :: "ast \<Rightarrow> string \<Rightarrow> afield" where
  "attr n k = (case map_of (fields n) k of None \<Rightarrow> AVal PNone | Some f \<Rightarrow> f)"

definition set_attr :: "string \<Rightarrow> afield \<Rightarrow> ast \<Rightarrow> ast" where
  "set_attr k f n = Ast (ty n) (pos n) (map (\<lambda>(k', g). (k', if k' = k then f else g)) (fields n))"

definition name_at :: "ast \<Rightarrow> string \<Rightarrow> string" where
  "name_at n k = (case attr n k of AVal (PStr s) \<Rightarrow> s | _ \<Rightarrow> [])"

definition node_at :: "ast \<Rightarrow> string \<Rightarrow> ast option" where
  "node_at n k = (case attr n k of ANode m \<Rightarrow> Some m | _ \<Rightarrow> None)"

definition items_at :: "ast \<Rightarrow> string \<Rightarrow> afield list" where
  "items_at n k = (case attr n k of AItems xs \<Rightarrow> xs | _ \<Rightarrow> [])"

fun item_nodes :: "afield list \<Rightarrow> ast list" where
  "item_nodes [] = []"
| "item_nodes (ANode n # xs) = n # item_nodes xs"
| "item_nodes (_ # xs) = item_nodes xs"

definition nodes_at :: "ast \<Rightarrow> string \<Rightarrow> ast list" where
  "nodes_at n k = item_nodes (items_at n k)"

definition is_ty :: "string \<Rightarrow> ast option \<Rightarrow> bool" where
  "is_ty t n \<longleftrightarrow> (case n of None \<Rightarrow> False | Some m \<Rightarrow> ty m = t)"

definition lineno :: "ast \<Rightarrow> nat" where
  "lineno n = (case pos n of None \<Rightarrow> 0 | Some (l, _, _) \<Rightarrow> l)"

definition end_lineno :: "ast \<Rightarrow> nat" where
  "end_lineno n = (case pos n of None \<Rightarrow> 0 | Some (_, e, _) \<Rightarrow> e)"

definition col_offset :: "ast \<Rightarrow> nat" where
  "col_offset n = (case pos n of None \<Rightarrow> 0 | Some (_, _, c) \<Rightarrow> c)"

text \<open>\<^verbatim>\<open>ast.iter_child_nodes\<close>: the fields in order, a node or the nodes of a list.\<close>

definition field_nodes :: "afield \<Rightarrow> ast list" where
  "field_nodes f = (case f of ANode n \<Rightarrow> [n] | AItems xs \<Rightarrow> item_nodes xs | _ \<Rightarrow> [])"

definition iter_child_nodes :: "ast \<Rightarrow> ast list" where
  "iter_child_nodes n = concat (map (\<lambda>(_, f). field_nodes f) (fields n))"

lemma item_nodes_size: "sum_list (map size (item_nodes xs)) \<le> size_list size xs"
  by (induction xs rule: item_nodes.induct) auto

lemma field_nodes_size: "sum_list (map size (field_nodes f)) \<le> size f"
  by (cases f) (auto simp: field_nodes_def intro: le_SucI item_nodes_size)

lemma child_sizes: "sum_list (map size (iter_child_nodes n)) < size n"
proof -
  have "sum_list (map size (concat (map (\<lambda>(_, f). field_nodes f) fs))) \<le> size_list (size_prod (\<lambda>x. 0) size) fs" for fs :: "(string \<times> afield) list"
  proof (induction fs)
    case (Cons kf fs)
    then show ?case using field_nodes_size [of "snd kf"] by (cases kf) simp
  qed simp
  then show ?thesis by (cases n) (simp add: iter_child_nodes_def less_Suc_eq_le)
qed

lemma child_size: "m \<in> set (iter_child_nodes n) \<Longrightarrow> size m < size n"
  using child_sizes [of n] member_le_sum_list [of "size m" "map size (iter_child_nodes n)"] by simp

text \<open>The nodes of a tree with their depth, and the nodes alone.\<close>

function nodes_from :: "nat \<Rightarrow> ast \<Rightarrow> (ast \<times> nat) list" where
  "nodes_from k n = (n, k) # concat (map (nodes_from (Suc k)) (iter_child_nodes n))"
  by pat_completeness auto
termination by (relation "measure (\<lambda>(k, n). size n)") (auto dest: child_size)

declare nodes_from.simps [simp del]

definition tree_nodes :: "ast \<Rightarrow> ast list" where
  "tree_nodes n = map fst (nodes_from 0 n)"

lemma nodes_of_depth: "map fst (nodes_from k n) = tree_nodes n"
proof (induction "size n" arbitrary: k n rule: less_induct)
  case less
  have "map (\<lambda>m. map fst (nodes_from (Suc k) m)) (iter_child_nodes n) = map (\<lambda>m. map fst (nodes_from (Suc 0) m)) (iter_child_nodes n)"
    using less [OF child_size] by simp
  then show ?case by (simp add: tree_nodes_def nodes_from.simps [of _ n] map_concat comp_def cong: map_cong)
qed

lemma tree_nodes_step: "tree_nodes n = n # concat (map tree_nodes (iter_child_nodes n))"
proof -
  have "map fst (nodes_from (Suc 0) m) = tree_nodes m" for m by (rule nodes_of_depth)
  then show ?thesis by (simp add: tree_nodes_def [of n] nodes_from.simps [of _ n] map_concat comp_def)
qed

lemma tree_nodes_self [simp]: "n \<in> set (tree_nodes n)"
  by (simp add: tree_nodes_step [of n])

text \<open>\<^verbatim>\<open>ast.walk\<close>: breadth first, with a queue.\<close>

function walk_queue :: "ast list \<Rightarrow> ast list" where
  "walk_queue [] = []"
| "walk_queue (n # todo) = n # walk_queue (todo @ iter_child_nodes n)"
  by pat_completeness auto
termination by (relation "measure (\<lambda>ns. sum_list (map size ns))") (auto simp: child_sizes)

definition ast_walk :: "ast \<Rightarrow> ast list" where
  "ast_walk n = walk_queue [n]"

lemma mset_walk_queue: "mset (walk_queue ns) = mset (concat (map tree_nodes ns))"
proof (induction ns rule: walk_queue.induct)
  case (2 n todo)
  then show ?case by (simp add: tree_nodes_step [of n])
qed simp

lemma mset_ast_walk: "mset (ast_walk n) = mset (tree_nodes n)"
  using mset_walk_queue [of "[n]"] by (simp add: ast_walk_def)

lemma set_ast_walk [simp]: "set (ast_walk n) = set (tree_nodes n)"
  by (metis mset_ast_walk set_mset_mset)

lemma length_ast_walk: "length (ast_walk n) = length (tree_nodes n)"
  by (metis mset_ast_walk size_mset)

section \<open>The parts of the library that are arguments\<close>

text \<open>What \<^verbatim>\<open>ast.parse\<close> can raise: a syntax error with its message, line and offset, or one of the other two exceptions the code expects.\<close>

datatype parse_error = SyntaxErr pyval pyval pyval | OtherParseError

record py_lib =
  parse_module :: "string \<Rightarrow> parse_error + ast"
  parse_eval :: "string \<Rightarrow> ast option"
  unparse :: "ast \<Rightarrow> string"
  dump :: "ast \<Rightarrow> string"
  loads :: "string \<Rightarrow> pyval option"
  float_text :: "rat \<Rightarrow> string"

text \<open>A call of the parser whose three expected exceptions become one reason, and one that nobody catches.\<close>

definition parse_or :: "py_lib \<Rightarrow> serror \<Rightarrow> string \<Rightarrow> ast checked" where
  "parse_or lib e s = (case parse_module lib s of Inl _ \<Rightarrow> Inl e | Inr t \<Rightarrow> Inr t)"

definition parse_uncaught :: "py_lib \<Rightarrow> string \<Rightarrow> ast checked" where
  "parse_uncaught lib s = parse_or lib (Uncaught ''SyntaxError'') s"

definition dumps_of :: "py_lib \<Rightarrow> bool \<Rightarrow> pyval \<Rightarrow> string" where
  "dumps_of lib srt v = dumps (float_text lib) srt v"

lemma parse_or_Inr [outcome_simps]: "parse_or lib e s = Inr t \<longleftrightarrow> parse_module lib s = Inr t"
  by (simp add: parse_or_def split: sum.split)

lemma parse_uncaught_Inr [outcome_simps]: "parse_uncaught lib s = Inr t \<longleftrightarrow> parse_module lib s = Inr t"
  by (simp add: parse_uncaught_def outcome_simps)

end
