(* ===== verification/Structured_Worker.thy ===== *)
theory Structured_Worker
  imports Py_Ast
begin

text \<open>
  \<^verbatim>\<open>app/structured_code_worker.py\<close> up to the validator: a task names one function of one file with the cases it has to pass, a
  model proposes a new body, and the worker decides whether it may be run at all and what running it showed. In the order of the
  source: JSON bounds, the task, the syntax guard, the rendering of a candidate, observations and reports, the feedback for a
  second proposal, the validator and its child process. The call of the candidate's code is an argument.
\<close>

section \<open>Bounds and tasks\<close>

definition BUILTINS :: "string list" where
  "BUILTINS = [''isinstance'', ''str'', ''dict'', ''list'', ''len'', ''bool'', ''int'', ''float'']"

definition METHODS :: "string list" where
  "METHODS = [''get'', ''strip'', ''join'', ''append'']"

definition NODES :: "string list" where
  "NODES = [''Module'', ''FunctionDef'', ''arguments'', ''arg'', ''If'', ''For'', ''Return'', ''Assign'', ''Expr'', ''Call'',
     ''Attribute'', ''Name'', ''Load'', ''Store'', ''Constant'', ''List'', ''Tuple'', ''Dict'', ''Compare'', ''Eq'', ''NotEq'',
     ''Is'', ''IsNot'', ''In'', ''NotIn'', ''BoolOp'', ''And'', ''Or'', ''UnaryOp'', ''Not'', ''IfExp'', ''BinOp'', ''Add'',
     ''GeneratorExp'', ''comprehension'']"

fun each :: "('a \<Rightarrow> unit checked) \<Rightarrow> 'a list \<Rightarrow> unit checked" where
  "each f [] = Inr ()"
| "each f (x # xs) = bindE (f x) (\<lambda>_. each f xs)"

lemma each_Inr [outcome_simps]: "each f xs = Inr u \<longleftrightarrow> (\<forall>x\<in>set xs. f x = Inr ())"
  by (induction xs) (auto simp: outcome_simps)

lemma each_cong [fundef_cong]: "xs = ys \<Longrightarrow> (\<And>x. x \<in> set ys \<Longrightarrow> f x = g x) \<Longrightarrow> each f xs = each g ys"
  by (induction ys arbitrary: xs) auto

function bounded_json :: "nat \<Rightarrow> pyval \<Rightarrow> unit checked" where
  "bounded_json depth v =
     bindE (need_block (depth \<le> 8) ''json_depth'') (\<lambda>_.
     case v of
       PDict d \<Rightarrow>
         bindE (need_block (length d \<le> 64 \<and> list_all (\<lambda>(k, _). length k \<le> 128) d) ''json_object'') (\<lambda>_.
         each (\<lambda>kv. bounded_json (Suc depth) (snd kv)) d)
     | PList vs \<Rightarrow>
         bindE (need_block (length vs \<le> 64) ''json_array'') (\<lambda>_. each (bounded_json (Suc depth)) vs)
     | PStr s \<Rightarrow> need_block (length s \<le> 4096) ''json_string''
     | PInt i \<Rightarrow> need_block (\<bar>i\<bar> \<le> 1000000) ''json_number''
     | PFloat r \<Rightarrow> need_block (\<bar>r\<bar> \<le> 1000000) ''json_number''
     | _ \<Rightarrow> Inr ())"
  by pat_completeness auto

lemma dict_value_size: "(k, v) \<in> set d \<Longrightarrow> size v < Suc (size_list (size_prod (\<lambda>x. 0) size) d)" for d :: pydict
  by (induction d) auto

lemma list_value_size: "v \<in> set vs \<Longrightarrow> size v < Suc (size_list size vs)" for vs :: "pyval list"
  by (induction vs) auto

termination bounded_json
  by (relation "measure (\<lambda>(_, v). size v)") (auto simp: list_value_size dest: dict_value_size)

declare bounded_json.simps [simp del]

definition task_fields :: "string list" where
  "task_fields = [''task_id'', ''path'', ''function'', ''parameters'', ''instruction'', ''base_sha'', ''before_sha256'', ''cases'']"

definition IDENT :: "nat \<Rightarrow> string \<Rightarrow> bool" where
  "IDENT n s \<longleftrightarrow> (case s of [] \<Rightarrow> False
     | c # cs \<Rightarrow> is_lower c \<and> length cs \<le> n \<and> list_all (\<lambda>x. is_lower x \<or> is_digit x \<or> x = CHR ''_'') cs)"

definition TASK_NAME :: "string \<Rightarrow> bool" where
  "TASK_NAME s \<longleftrightarrow> 1 \<le> length s \<and> length s \<le> 128 \<and> list_all (\<lambda>c. is_alnum c \<or> c \<in> set ''_-'') s"

definition MODULE_PATH :: "string \<Rightarrow> bool" where
  "MODULE_PATH s \<longleftrightarrow> take 4 s \<in> {''app/'', ''src/''} \<and> 3 \<le> length (drop 4 s) \<and> ends_with ''.py'' (drop 4 s) \<and>
     IDENT 60 (take (length s - 7) (drop 4 s))"

definition FUNCTION_NAME :: "string \<Rightarrow> bool" where
  "FUNCTION_NAME s \<longleftrightarrow> IDENT 60 s \<or> starts_with ''_'' s \<and> IDENT 60 (tl s)"

definition task_case_ok :: "nat \<Rightarrow> pyval \<Rightarrow> unit checked" where
  "task_case_ok arity c =
     bindE (need_block (is_dict c \<and> keys (dict_in c) = {''args'', ''expected''} \<and> is_list (get (dict_in c) ''args'') \<and>
                  length (list_at (dict_in c) ''args'') = arity) ''task_case'') (\<lambda>_.
     bounded_json 0 c)"

definition parameters_ok :: "pyval list \<Rightarrow> bool" where
  "parameters_ok ps \<longleftrightarrow> 1 \<le> length ps \<and> length ps \<le> 4 \<and> list_all (text_with (IDENT 40)) ps \<and> distinct ps \<and>
     list_all (text_with (\<lambda>p. p \<notin> set BUILTINS)) ps"

definition task_spec :: "py_lib \<Rightarrow> pyval \<Rightarrow> pydict checked" where
  "task_spec lib v =
     (let task = dict_in v in
      bindE (need_block (is_dict v \<and> keys task = set task_fields) ''task_schema'') (\<lambda>_.
      bindE (need_block (text_with TASK_NAME (get task ''task_id'')) ''task_task_id'') (\<lambda>_.
      bindE (need_block (text_with MODULE_PATH (get task ''path'')) ''task_path'') (\<lambda>_.
      bindE (need_block (text_with FUNCTION_NAME (get task ''function'')) ''task_function'') (\<lambda>_.
      bindE (need_block (text_with SHA40 (get task ''base_sha'')) ''task_base_sha'') (\<lambda>_.
      bindE (need_block (text_with SHA64 (get task ''before_sha256'')) ''task_before_sha256'') (\<lambda>_.
      bindE (need_block (is_list (get task ''parameters'') \<and> parameters_ok (list_at task ''parameters'')) ''task_parameters'') (\<lambda>_.
      bindE (need_block (text_at task ''function'' \<notin> set BUILTINS) ''reserved_function'') (\<lambda>_.
      bindE (need_block (text_with (\<lambda>s. 1 \<le> length s \<and> length s \<le> 4000) (get task ''instruction'')) ''task_instruction'') (\<lambda>_.
      bindE (need_block (is_list (get task ''cases'') \<and> 2 \<le> length (list_at task ''cases'') \<and> length (list_at task ''cases'') \<le> 100)
               ''task_cases'') (\<lambda>_.
      bindE (each (task_case_ok (length (list_at task ''parameters''))) (list_at task ''cases'')) (\<lambda>_.
      bindE (need_block (length (dumps_of lib False v) \<le> 100000) ''task_size'') (\<lambda>_.
      Inr task)))))))))))))"

section \<open>The syntax guard\<close>

definition function_tree :: "py_lib \<Rightarrow> string \<Rightarrow> string \<Rightarrow> ast checked" where
  "function_tree lib source name =
     bindE (need_block (length source \<le> 262144) ''module_size'') (\<lambda>_.
     bindE (parse_or lib (StructuredBlocked ''module_syntax'') source) (\<lambda>tree.
     case filter (\<lambda>n. ty n = ''FunctionDef'' \<and> name_at n ''name'' = name) (nodes_at tree ''body'') of
       [f] \<Rightarrow> bindE (need_block (items_at f ''decorator_list'' = []) ''function_decorator'') (\<lambda>_. Inr f)
     | _ \<Rightarrow> Inl (StructuredBlocked ''function_identity'')))"

definition arguments_of :: "ast \<Rightarrow> ast" where
  "arguments_of f = (case node_at f ''args'' of None \<Rightarrow> Ast ''arguments'' None [] | Some a \<Rightarrow> a)"

definition signature_ok :: "ast \<Rightarrow> pydict \<Rightarrow> bool" where
  "signature_ok f task \<longleftrightarrow>
     (let a = arguments_of f in
      map (\<lambda>n. PStr (name_at n ''arg'')) (nodes_at a ''args'') = list_at task ''parameters'' \<and>
      items_at a ''defaults'' = [] \<and> items_at a ''kwonlyargs'' = [] \<and> items_at a ''posonlyargs'' = [] \<and>
      attr a ''vararg'' = AVal PNone \<and> attr a ''kwarg'' = AVal PNone \<and> items_at f ''type_params'' = [])"

definition without_annotation :: "afield \<Rightarrow> afield" where
  "without_annotation x = (case x of ANode n \<Rightarrow> ANode (set_attr ''annotation'' (AVal PNone) n) | _ \<Rightarrow> x)"

definition without_annotations :: "ast \<Rightarrow> ast" where
  "without_annotations f =
     (let a = arguments_of f in
      set_attr ''args'' (ANode (set_attr ''args'' (AItems (map without_annotation (items_at a ''args''))) a))
        (set_attr ''returns'' (AVal PNone) f))"

definition extracted :: "py_lib \<Rightarrow> string \<Rightarrow> pydict \<Rightarrow> string checked" where
  "extracted lib source task =
     bindE (function_tree lib source (text_at task ''function'')) (\<lambda>f.
     bindE (need_block (signature_ok f task) ''function_signature'') (\<lambda>_.
     Inr (unparse lib (without_annotations f) @ [newline])))"

definition dunder :: "string \<Rightarrow> bool" where
  "dunder s \<longleftrightarrow> starts_with ''__'' s"

text \<open>The checks of one node, in the order of the loop's body.\<close>

definition call_listed :: "ast \<Rightarrow> bool" where
  "call_listed n \<longleftrightarrow> (case node_at n ''func'' of None \<Rightarrow> False
     | Some f \<Rightarrow> ty f = ''Name'' \<and> name_at f ''id'' \<in> set BUILTINS \<or> ty f = ''Attribute'' \<and> name_at f ''attr'' \<in> set METHODS)"

definition constant_ok :: "afield \<Rightarrow> unit checked" where
  "constant_ok f = (case f of
     AVal v \<Rightarrow> bounded_json 0 v
   | AOther t \<Rightarrow> Inl (StructuredBlocked (if t = ''float'' then ''json_number'' else ''json_type''))
   | _ \<Rightarrow> Inl (StructuredBlocked ''json_type''))"

definition node_check :: "string \<Rightarrow> ast \<Rightarrow> unit checked" where
  "node_check fname n =
     bindE (if ty n = ''Name''
            then bindE (need_block (\<not> dunder (name_at n ''id'')) ''candidate_name'') (\<lambda>_.
                 if is_ty ''Store'' (node_at n ''ctx'')
                 then need_block (name_at n ''id'' \<notin> set BUILTINS \<and> name_at n ''id'' \<noteq> fname) ''reserved_assignment'' else Inr ())
            else Inr ()) (\<lambda>_.
     bindE (if ty n = ''Assign''
            then need_block (case items_at n ''targets'' of [ANode t] \<Rightarrow> ty t = ''Name'' | _ \<Rightarrow> False) ''assignment_target'' else Inr ()) (\<lambda>_.
     bindE (if ty n = ''For''
            then need_block (is_ty ''Name'' (node_at n ''target'') \<and> items_at n ''orelse'' = []) ''loop_target'' else Inr ()) (\<lambda>_.
     bindE (if ty n = ''comprehension''
            then need_block (is_ty ''Name'' (node_at n ''target'') \<and> attr n ''is_async'' = AVal (PInt 0)) ''generator_target'' else Inr ()) (\<lambda>_.
     bindE (if ty n = ''Call''
            then bindE (need_block (items_at n ''keywords'' = [] \<and> list_all (\<lambda>a. ty a \<noteq> ''Starred'') (nodes_at n ''args'')) ''call_expansion'') (\<lambda>_.
                 need_block (call_listed n) ''candidate_call'')
            else Inr ()) (\<lambda>_.
     bindE (if ty n = ''Attribute''
            then need_block (name_at n ''attr'' \<in> set METHODS \<and> is_ty ''Load'' (node_at n ''ctx'')) ''candidate_attribute'' else Inr ()) (\<lambda>_.
     bindE (if ty n = ''Dict''
            then need_block (AVal PNone \<notin> set (items_at n ''keys'')) ''dictionary_expansion'' else Inr ()) (\<lambda>_.
     if ty n = ''Constant'' then constant_ok (attr n ''value'') else Inr ())))))))"

text \<open>The loop over \<open>pending\<close>, a stack: the last entry is taken, the children go to the end. \<open>None\<close> is a loop that does not end.\<close>

partial_function (option) guard_loop :: "string \<Rightarrow> (ast \<times> nat) list \<Rightarrow> unit checked option" where
  "guard_loop fname pending =
     (if pending = [] then Some (Inr ())
      else (case last pending of (n, depth) \<Rightarrow>
        (case bindE (need_block (depth \<le> 24) ''candidate_depth'') (\<lambda>_. node_check fname n) of
           Inl e \<Rightarrow> Some (Inl e)
         | Inr _ \<Rightarrow> guard_loop fname (butlast pending @ map (\<lambda>m. (m, Suc depth)) (iter_child_nodes n)))))"

definition loop_result :: "'a checked option \<Rightarrow> 'a checked" where
  "loop_result r = (case r of None \<Rightarrow> Inl (Uncaught ''no end'') | Some x \<Rightarrow> x)"

definition guarded :: "py_lib \<Rightarrow> string \<Rightarrow> pydict \<Rightarrow> ast checked" where
  "guarded lib source task =
     bindE (extracted lib source task) (\<lambda>normalized.
     bindE (parse_uncaught lib normalized) (\<lambda>tree.
     let nodes = ast_walk tree in
     bindE (need_block (length nodes \<le> 350 \<and> list_all (\<lambda>n. ty n \<in> set NODES) nodes) ''candidate_grammar'') (\<lambda>_.
     bindE (need_block (length (filter (\<lambda>n. ty n = ''FunctionDef'') nodes) = 1) ''nested_function'') (\<lambda>_.
     bindE (need_block (length (filter (\<lambda>n. ty n \<in> {''For'', ''comprehension''}) nodes) \<le> 1) ''candidate_loops'') (\<lambda>_.
     bindE (loop_result (guard_loop (text_at task ''function'') [(tree, 0)])) (\<lambda>_.
     Inr tree))))))"

section \<open>Rendering\<close>

definition reply_function :: "py_lib \<Rightarrow> string \<Rightarrow> string checked" where
  "reply_function lib reply =
     bindE (need_block (length reply \<le> 20000) ''reply_size'') (\<lambda>_.
     case loads lib reply of
       None \<Rightarrow> Inl (StructuredBlocked ''reply_json'')
     | Some proposed \<Rightarrow>
         bindE (need_block (is_dict proposed \<and> keys (dict_in proposed) = {''function''} \<and> is_text (get (dict_in proposed) ''function''))
                  ''reply_schema'') (\<lambda>_.
         Inr (text_at (dict_in proposed) ''function'')))"

definition body_of :: "py_lib \<Rightarrow> ast \<Rightarrow> string" where
  "body_of lib candidate = rstrip_of newline (concat (tl (splitlines_keep (unparse lib candidate)))) @ [newline]"

definition splice :: "string list \<Rightarrow> nat \<Rightarrow> nat \<Rightarrow> string \<Rightarrow> string" where
  "splice lines first final replacement = concat (take (first - 1) lines) @ replacement @ concat (drop final lines)"

definition render :: "py_lib \<Rightarrow> string \<Rightarrow> pydict \<Rightarrow> string \<Rightarrow> string checked" where
  "render lib before task reply =
     bindE (task_spec lib (PDict task)) (\<lambda>_.
     bindE (reply_function lib reply) (\<lambda>proposed.
     bindE (parse_or lib (StructuredBlocked ''candidate_syntax'') proposed) (\<lambda>tree.
     bindE (need_block (case items_at tree ''body'' of [ANode f] \<Rightarrow> ty f = ''FunctionDef'' | _ \<Rightarrow> False) ''candidate_function_only'') (\<lambda>_.
     bindE (guarded lib proposed task) (\<lambda>accepted.
     bindE (function_tree lib before (text_at task ''function'')) (\<lambda>original.
     bindE (extracted lib before task) (\<lambda>_.
     case (nodes_at accepted ''body'', lineno original) of
       (candidate # _, Suc i) \<Rightarrow>
         (let lines = splitlines_keep before in
          if length lines \<le> i then Inl (Uncaught ''IndexError'')
          else (let header = lines ! i in
            bindE (need_block (ends_with '':'' (rstrip header) \<and> starts_with ''def '' (lstrip header)) ''multiline_signature_not_supported'') (\<lambda>_.
            let after = splice lines (lineno original) (end_lineno original) (header @ body_of lib candidate) in
            bindE (parse_uncaught lib after) (\<lambda>_. Inr after))))
     | _ \<Rightarrow> Inl (Uncaught ''IndexError'')))))))) "

section \<open>Observations and reports\<close>

definition OBSERVATION_TYPES :: "string list" where
  "OBSERVATION_TYPES = [''NoneType'', ''str'', ''bool'', ''int'', ''float'', ''list'', ''dict'']"

definition EXCEPTION_TYPES :: "string list" where
  "EXCEPTION_TYPES = [''AttributeError'', ''TypeError'', ''ValueError'', ''KeyError'', ''IndexError'', ''NameError'',
     ''UnboundLocalError'', ''OverflowError'', ''RuntimeError'', ''RecursionError'', ''MemoryError'', ''InvalidResult'', ''Exception'']"

definition FEEDBACK_LIMIT :: nat where
  "FEEDBACK_LIMIT = 12000"

text \<open>The frames of a traceback, outermost first, by file name and line.\<close>

definition candidate_exception_line :: "(string \<times> int) list \<Rightarrow> int option" where
  "candidate_exception_line frames =
     (case filter (\<lambda>(file, l). file = ''<guarded-json-function>'' \<and> 1 \<le> l \<and> l \<le> 400) frames of
        [] \<Rightarrow> None | fs \<Rightarrow> Some (snd (last fs)))"

definition observation_of :: "py_lib \<Rightarrow> pyval \<Rightarrow> pydict" where
  "observation_of lib v =
     (let encoded = dumps_of lib True v in
      if 512 < length encoded
      then [(''kind'', PStr ''value''), (''type'', PStr (type_name v)), (''truncated'', PBool True),
            (''bytes'', PInt (int (length encoded))), (''sha256'', PStr (sha256_hex encoded))]
      else [(''kind'', PStr ''value''), (''type'', PStr (type_name v)), (''value'', v)])"

definition make_observation :: "py_lib \<Rightarrow> pyval \<Rightarrow> pydict checked" where
  "make_observation lib v = bindE (bounded_json 0 v) (\<lambda>_. Inr (observation_of lib v))"

definition exception_observation_ok :: "pydict \<Rightarrow> bool" where
  "exception_observation_ok d \<longleftrightarrow>
     (let has_line = (''candidate_line'' \<in> keys d) in
      keys d = (if has_line then {''kind'', ''type'', ''candidate_line''} else {''kind'', ''type''}) \<and>
      text_with (\<lambda>t. t \<in> set EXCEPTION_TYPES) (get d ''type'') \<and>
      (has_line \<longrightarrow> int_with (\<lambda>l. 1 \<le> l \<and> l \<le> 400) (get d ''candidate_line'')))"

definition digest_observation_ok :: "pydict \<Rightarrow> bool" where
  "digest_observation_ok d \<longleftrightarrow>
     keys d = {''kind'', ''type'', ''truncated'', ''bytes'', ''sha256''} \<and> get d ''truncated'' = PBool True \<and>
     int_with (\<lambda>b. 512 < b) (get d ''bytes'') \<and> text_with SHA64 (get d ''sha256'')"

definition validate_observation :: "py_lib \<Rightarrow> pyval \<Rightarrow> unit checked" where
  "validate_observation lib v =
     (let d = dict_in v in
      bindE (need_block (is_dict v) ''observation_schema'') (\<lambda>_.
      if get d ''kind'' = PStr ''exception'' then need_block (exception_observation_ok d) ''observation_exception''
      else bindE (need_block (get d ''kind'' = PStr ''value'' \<and> text_with (\<lambda>t. t \<in> set OBSERVATION_TYPES) (get d ''type'')) ''observation_type'') (\<lambda>_.
        if ''value'' \<in> keys d
        then bindE (need_block (keys d = {''kind'', ''type'', ''value''} \<and> PStr (type_name (get d ''value'')) = get d ''type'') ''observation_value'') (\<lambda>_.
             bindE (make_observation lib (get d ''value'')) (\<lambda>ob.
             need_block (deep_eq (PDict ob) v) ''observation_size''))
        else need_block (digest_observation_ok d) ''observation_digest'')))"

definition same_result :: "pyval \<Rightarrow> pyval \<Rightarrow> bool" where
  "same_result v w \<longleftrightarrow> type_name v = type_name w \<and> deep_eq v w"

definition int_at :: "pydict \<Rightarrow> string \<Rightarrow> int" where
  "int_at d k = (case get d k of PInt i \<Rightarrow> i | _ \<Rightarrow> 0)"

definition expected_of :: "pydict \<Rightarrow> nat \<Rightarrow> pyval" where
  "expected_of task i = get (dict_in (list_at task ''cases'' ! i)) ''expected''"

definition check_failure :: "py_lib \<Rightarrow> pydict \<Rightarrow> int \<Rightarrow> pyval \<Rightarrow> unit checked" where
  "check_failure lib task n_cases v =
     (let f = dict_in v; observed = dict_in (get f ''observed'') in
      bindE (need_block (is_dict v \<and> keys f = {''case_index'', ''observed''} \<and> int_with (\<lambda>i. 0 \<le> i \<and> i < n_cases) (get f ''case_index''))
               ''validator_case'') (\<lambda>_.
      bindE (validate_observation lib (get f ''observed'')) (\<lambda>_.
      if ''value'' \<in> keys observed
      then need_block (\<not> same_result (get observed ''value'') (expected_of task (nat (int_at f ''case_index'')))) ''validator_false_failure''
      else Inr ())))"

definition case_indices :: "pyval list \<Rightarrow> int list" where
  "case_indices failures = map (\<lambda>v. int_at (dict_in v) ''case_index'') failures"

definition is_exception :: "pyval \<Rightarrow> bool" where
  "is_exception v \<longleftrightarrow> get (dict_in (get (dict_in v) ''observed'')) ''kind'' = PStr ''exception''"

definition validate_report :: "py_lib \<Rightarrow> pyval \<Rightarrow> pydict \<Rightarrow> pydict checked" where
  "validate_report lib v task =
     (let e = dict_in v; n_cases = int_at e ''total''; passed = int_at e ''passed''; failures = list_at e ''failures'' in
      bindE (need_block (is_dict v \<and> keys e = {''passed'', ''total'', ''errors'', ''failures''}) ''validator_evidence'') (\<lambda>_.
      bindE (need_block (list_all (\<lambda>k. int_with (\<lambda>_. True) (get e k)) [''passed'', ''total'', ''errors''] \<and>
                   n_cases = int (length (list_at task ''cases'')) \<and> 0 \<le> passed \<and> passed \<le> n_cases \<and>
                   0 \<le> int_at e ''errors'' \<and> int_at e ''errors'' \<le> n_cases - passed) ''validator_counts'') (\<lambda>_.
      bindE (need_block (is_list (get e ''failures'') \<and> int (length failures) = n_cases - passed) ''validator_failures'') (\<lambda>_.
      bindE (each (check_failure lib task n_cases) failures) (\<lambda>_.
      bindE (need_block (sorted_wrt (<) (case_indices failures)) ''validator_case_order'') (\<lambda>_.
      bindE (need_block (int (length (filter is_exception failures)) = int_at e ''errors'') ''validator_error_count'') (\<lambda>_.
      Inr e)))))))"

section \<open>Feedback\<close>

definition candidate_fingerprint :: "py_lib \<Rightarrow> string \<Rightarrow> pydict \<Rightarrow> string checked" where
  "candidate_fingerprint lib source task = bindE (guarded lib source task) (\<lambda>tree. Inr (sha256_hex (dump lib tree)))"

definition feedback_case_ok :: "py_lib \<Rightarrow> pydict \<Rightarrow> pyval \<Rightarrow> unit checked" where
  "feedback_case_ok lib task v =
     (let f = dict_in v; cases = list_at task ''cases'' in
      bindE (need_block (is_dict v \<and> keys f = {''case_index'', ''args'', ''expected'', ''observed''} \<and>
                   int_with (\<lambda>i. 0 \<le> i \<and> i < int (length cases)) (get f ''case_index'')) ''feedback_case'') (\<lambda>_.
      bindE (need_block (dumps_of lib True (PDict [(''args'', get f ''args''), (''expected'', get f ''expected'')]) =
                   dumps_of lib True (cases ! nat (int_at f ''case_index''))) ''feedback_case_changed'') (\<lambda>_.
      validate_observation lib (get f ''observed''))))"

definition proposal_spec :: "py_lib \<Rightarrow> pyval \<Rightarrow> pydict checked" where
  "proposal_spec lib v =
     (let proposal = dict_in v; task = filter (\<lambda>(k, _). k \<noteq> ''feedback'') proposal;
          fv = get proposal ''feedback''; f = dict_in fv; failures = list_at f ''failures''; nfail = int_at f ''failed_count'' in
      bindE (need_block (is_dict v) ''proposal_schema'') (\<lambda>_.
      bindE (task_spec lib (PDict task)) (\<lambda>_.
      if ''feedback'' \<notin> keys proposal then Inr task
      else bindE (need_block (is_dict fv \<and> keys f = {''schema_version'', ''candidate_sha256'', ''failed_count'', ''failures''} \<and>
                        get f ''schema_version'' = PInt 1 \<and> text_with SHA64 (get f ''candidate_sha256'') \<and>
                        int_with (\<lambda>n. 1 \<le> n \<and> n \<le> int (length (list_at task ''cases''))) (get f ''failed_count'')) ''feedback_schema'') (\<lambda>_.
        bindE (need_block (is_list (get f ''failures'') \<and> 1 \<le> length failures \<and> int (length failures) \<le> min 8 nfail) ''feedback_failures'') (\<lambda>_.
        bindE (each (feedback_case_ok lib task) failures) (\<lambda>_.
        bindE (need_block (sorted_wrt (<) (case_indices failures)) ''feedback_case_order'') (\<lambda>_.
        bindE (need_block (length (dumps_of lib False fv) \<le> FEEDBACK_LIMIT) ''feedback_size'') (\<lambda>_.
        Inr task))))))))"

definition feedback_dict :: "string \<Rightarrow> int \<Rightarrow> pyval list \<Rightarrow> pyval" where
  "feedback_dict fingerprint nfail entries =
     PDict [(''schema_version'', PInt 1), (''candidate_sha256'', PStr fingerprint), (''failed_count'', PInt nfail),
            (''failures'', PList entries)]"

definition feedback_entry :: "pydict \<Rightarrow> pyval \<Rightarrow> pyval" where
  "feedback_entry task v =
     (let f = dict_in v in
      PDict ((''case_index'', get f ''case_index'') # dict_in (list_at task ''cases'' ! nat (int_at f ''case_index'')) @
             [(''observed'', get f ''observed'')]))"

text \<open>Entries are added while the whole still fits; the first that does not ends the loop.\<close>

fun fitting :: "py_lib \<Rightarrow> string \<Rightarrow> int \<Rightarrow> pyval list \<Rightarrow> pyval list \<Rightarrow> pyval list" where
  "fitting lib fingerprint nfail done [] = done"
| "fitting lib fingerprint nfail done (e # es) =
     (if FEEDBACK_LIMIT < length (dumps_of lib False (feedback_dict fingerprint nfail (done @ [e]))) then done
      else fitting lib fingerprint nfail (done @ [e]) es)"

definition semantic_feedback :: "py_lib \<Rightarrow> pydict \<Rightarrow> string \<Rightarrow> pyval \<Rightarrow> pyval checked" where
  "semantic_feedback lib task source report =
     bindE (validate_report lib report task) (\<lambda>e.
     let failures = list_at e ''failures''; nfail = int (length failures) in
     bindE (need_block (failures \<noteq> []) ''semantic_feedback_missing'') (\<lambda>_.
     bindE (candidate_fingerprint lib source task) (\<lambda>fingerprint.
     let feedback = feedback_dict fingerprint nfail
           (fitting lib fingerprint nfail [] (map (feedback_entry task) (take 8 failures))) in
     bindE (proposal_spec lib (PDict (task @ [(''feedback'', feedback)]))) (\<lambda>_.
     Inr feedback))))"

section \<open>The validator\<close>

text \<open>What a call of the candidate gives: a JSON value, something that is not one, or an exception with its class and traceback.\<close>

datatype call_result = Returned pyval | ReturnedOther | Raised string "(string \<times> int) list"

type_synonym runner = "ast \<Rightarrow> string \<Rightarrow> pyval list \<Rightarrow> call_result"

definition exception_observation :: "string \<Rightarrow> (string \<times> int) list \<Rightarrow> pydict" where
  "exception_observation category frames =
     [(''kind'', PStr ''exception''), (''type'', PStr (if category \<in> set EXCEPTION_TYPES then category else ''Exception''))] @
     (case candidate_exception_line frames of None \<Rightarrow> [] | Some l \<Rightarrow> [(''candidate_line'', PInt l)])"

text \<open>One case: \<open>None\<close> when it passes, else what was observed.\<close>

definition run_case :: "py_lib \<Rightarrow> call_result \<Rightarrow> pyval \<Rightarrow> pydict option" where
  "run_case lib r expected = (case r of
     Returned v \<Rightarrow>
       (case bounded_json 0 v of
          Inl _ \<Rightarrow> Some (exception_observation ''InvalidResult'' [])
        | Inr _ \<Rightarrow> if same_result v expected then None else Some (observation_of lib v))
   | ReturnedOther \<Rightarrow> Some (exception_observation ''InvalidResult'' [])
   | Raised category frames \<Rightarrow> Some (exception_observation category frames))"

fun run_cases :: "py_lib \<Rightarrow> (pyval list \<Rightarrow> call_result) \<Rightarrow> nat \<Rightarrow> pyval list \<Rightarrow> (nat \<times> pydict) list" where
  "run_cases lib call i [] = []"
| "run_cases lib call i (c # cs) =
     (case run_case lib (call (list_at (dict_in c) ''args'')) (get (dict_in c) ''expected'') of
        None \<Rightarrow> run_cases lib call (Suc i) cs
      | Some observed \<Rightarrow> (i, observed) # run_cases lib call (Suc i) cs)"

definition report_of :: "nat \<Rightarrow> (nat \<times> pydict) list \<Rightarrow> pyval" where
  "report_of n_cases failed =
     PDict [(''passed'', PInt (int n_cases - int (length failed))), (''total'', PInt (int n_cases)),
            (''errors'', PInt (int (length (filter (\<lambda>(_, ob). get ob ''kind'' = PStr ''exception'') failed)))),
            (''failures'', PList (map (\<lambda>(i, ob). PDict [(''case_index'', PInt (int i)), (''observed'', PDict ob)]) failed))]"

definition child_report :: "py_lib \<Rightarrow> runner \<Rightarrow> ast \<Rightarrow> pydict \<Rightarrow> pyval" where
  "child_report lib run tree task =
     (let cases = list_at task ''cases'' in
      report_of (length cases) (run_cases lib (run tree (text_at task ''function'')) 0 cases))"

definition validate_child :: "py_lib \<Rightarrow> runner \<Rightarrow> string \<Rightarrow> string checked" where
  "validate_child lib run payload =
     bindE (need_block (length payload \<le> 125000) ''validator_input_size'') (\<lambda>_.
     case loads lib payload of
       None \<Rightarrow> Inl (Uncaught ''ValueError'')
     | Some data \<Rightarrow>
         bindE (task_spec lib (get (dict_in data) ''task'')) (\<lambda>task.
         bindE (guarded lib (text_at (dict_in data) ''source'') task) (\<lambda>tree.
         Inr (dumps_of lib False (child_report lib run tree task) @ [newline]))))"

text \<open>The child process as its parent sees it: not started or killed for its time, or an exit code with the output. A child that
  raises prints a fixed line and exits with 2.\<close>

datatype child = ChildUnavailable | ChildExit int string

definition spawned :: "py_lib \<Rightarrow> runner \<Rightarrow> string \<Rightarrow> child" where
  "spawned lib run payload =
     (case validate_child lib run payload of Inl _ \<Rightarrow> ChildExit 2 ''{}'' | Inr out \<Rightarrow> ChildExit 0 out)"

definition validate :: "py_lib \<Rightarrow> (string \<Rightarrow> child) \<Rightarrow> string \<Rightarrow> pydict \<Rightarrow> pydict checked" where
  "validate lib process source task =
     bindE (task_spec lib (PDict task)) (\<lambda>_.
     bindE (guarded lib source task) (\<lambda>_.
     bindE (extracted lib source task) (\<lambda>text.
     case process (dumps_of lib False (PDict [(''source'', PStr text), (''task'', PDict task)])) of
       ChildUnavailable \<Rightarrow> Inl (StructuredBlocked ''validator_unavailable'')
     | ChildExit rc out \<Rightarrow>
         bindE (need_block (rc = 0 \<and> length out \<le> 131072) ''validator_process'') (\<lambda>_.
         case loads lib out of
           None \<Rightarrow> Inl (StructuredBlocked ''validator_json'')
         | Some evidence \<Rightarrow> validate_report lib evidence task))))"

end
