(* ===== verification/Structured_Guard.thy ===== *)
theory Structured_Guard
  imports Structured_Worker
begin

text \<open>
  What the syntax guard of the structured worker establishes: its work list ends and sees every node, and what it
  lets through calls only the listed functions and methods.
\<close>

section \<open>The work list\<close>

definition pending_nodes :: "(ast \<times> nat) list \<Rightarrow> (ast \<times> nat) set" where
  "pending_nodes pending = (\<Union>(n, d)\<in>set pending. set (nodes_from d n))"

definition allowed_node :: "string \<Rightarrow> ast \<times> nat \<Rightarrow> bool" where
  "allowed_node fname nd \<longleftrightarrow> snd nd \<le> 24 \<and> node_check fname (fst nd) = Inr ()"

lemma pending_step:
  assumes "pending \<noteq> []" "last pending = (n, d)"
  shows "pending_nodes pending = insert (n, d) (pending_nodes (butlast pending @ map (\<lambda>m. (m, Suc d)) (iter_child_nodes n)))"
proof -
  have "pending_nodes pending = pending_nodes (butlast pending) \<union> set (nodes_from d n)"
    using assms by (subst append_butlast_last_id [OF assms(1), symmetric]) (simp add: pending_nodes_def Un_commute del: append_butlast_last_id)
  then show ?thesis by (auto simp: pending_nodes_def nodes_from.simps [of d n])
qed

lemma pending_measure:
  assumes "pending \<noteq> []" "last pending = (n, d)"
  shows "sum_list (map (size \<circ> fst) (butlast pending @ map (\<lambda>m. (m, Suc d)) (iter_child_nodes n))) < sum_list (map (size \<circ> fst) pending)"
  using assms child_sizes [of n]
  by (subst (2) append_butlast_last_id [OF assms(1), symmetric]) (simp add: comp_def del: append_butlast_last_id)

lemma guard_loop_ends:
  "\<exists>r. guard_loop fname pending = Some r \<and> (r = Inr () \<longleftrightarrow> (\<forall>nd\<in>pending_nodes pending. allowed_node fname nd))"
proof (induction "sum_list (map (size \<circ> fst) pending)" arbitrary: pending rule: less_induct)
  case less
  show ?case
  proof (cases "pending = []")
    case True
    then show ?thesis by (subst guard_loop.simps) (simp add: pending_nodes_def)
  next
    case False
    obtain n d where nd: "last pending = (n, d)" by fastforce
    let ?next = "butlast pending @ map (\<lambda>m. (m, Suc d)) (iter_child_nodes n)"
    let ?one = "bindE (need_block (d \<le> 24) ''candidate_depth'') (\<lambda>_. node_check fname n)"
    obtain r where r: "guard_loop fname ?next = Some r"
      "r = Inr () \<longleftrightarrow> (\<forall>nd\<in>pending_nodes ?next. allowed_node fname nd)"
      using less [OF pending_measure [OF False nd]] by blast
    have one: "?one = Inr u \<longleftrightarrow> allowed_node fname (n, d)" for u
      by (auto simp: outcome_simps allowed_node_def)
    have run: "guard_loop fname pending = (case ?one of Inl e \<Rightarrow> Some (Inl e) | Inr _ \<Rightarrow> Some r)"
      by (subst guard_loop.simps) (simp add: False nd r(1) split: sum.split)
    show ?thesis
    proof (cases ?one)
      case (Inl e)
      with one have "\<not> allowed_node fname (n, d)" by auto
      then show ?thesis using run Inl pending_step [OF False nd] by auto
    next
      case (Inr u)
      with one have "allowed_node fname (n, d)" by auto
      then show ?thesis using run Inr r(2) pending_step [OF False nd] by auto
    qed
  qed
qed

lemma guard_loop_tree:
  "\<exists>r. guard_loop fname [(tree, 0)] = Some r \<and> (r = Inr () \<longleftrightarrow> (\<forall>nd\<in>set (nodes_from 0 tree). allowed_node fname nd))"
  using guard_loop_ends [of fname "[(tree, 0)]"] by (simp add: pending_nodes_def)

text \<open>C16: The syntax guard always ends, and it inspects the whole tree. Whatever tree it is given, the work list of the guard becomes
  empty or stops at a refused node, and it accepts exactly when every node of the tree, at its depth, passes the checks of one node.\<close>

theorem guard_loop_decides:
  "\<exists>r. guard_loop fname [(tree, 0)] = Some r \<and>
     (r = Inr () \<longleftrightarrow> (\<forall>(n, depth)\<in>set (nodes_from 0 tree). depth \<le> 24 \<and> node_check fname n = Inr ()))"
  using guard_loop_tree [of fname tree] by (simp add: allowed_node_def case_prod_beta)

section \<open>Accepted candidates\<close>

lemma loop_result_guard:
  "loop_result (guard_loop fname [(tree, 0)]) = Inr u \<longleftrightarrow> (\<forall>nd\<in>set (nodes_from 0 tree). allowed_node fname nd)"
  using guard_loop_tree [of fname tree] by (auto simp: loop_result_def)

lemma length_filter_walk: "length (filter P (ast_walk t)) = length (filter P (tree_nodes t))"
  by (metis mset_ast_walk mset_filter size_mset)

lemma guarded_Inr:
  "guarded lib source task = Inr tree \<longleftrightarrow>
     (\<exists>text. extracted lib source task = Inr text \<and> parse_module lib text = Inr tree) \<and>
     length (tree_nodes tree) \<le> 350 \<and> (\<forall>n\<in>set (tree_nodes tree). ty n \<in> set NODES) \<and>
     length (filter (\<lambda>n. ty n = ''FunctionDef'') (tree_nodes tree)) = 1 \<and>
     length (filter (\<lambda>n. ty n \<in> {''For'', ''comprehension''}) (tree_nodes tree)) \<le> 1 \<and>
     (\<forall>nd\<in>set (nodes_from 0 tree). allowed_node (text_at task ''function'') nd)"
  unfolding guarded_def
  by (auto simp: outcome_simps Let_def loop_result_guard length_filter_walk length_ast_walk list_all_iff)

text \<open>The checks of one node, by its class.\<close>

lemma node_check_Name:
  "node_check fname n = Inr () \<Longrightarrow> ty n = ''Name'' \<Longrightarrow>
   \<not> dunder (name_at n ''id'') \<and> (is_ty ''Store'' (node_at n ''ctx'') \<longrightarrow> name_at n ''id'' \<notin> set BUILTINS \<and> name_at n ''id'' \<noteq> fname)"
  by (auto simp: node_check_def outcome_simps split: if_splits)

lemma node_check_Call:
  "node_check fname n = Inr () \<Longrightarrow> ty n = ''Call'' \<Longrightarrow>
   call_listed n \<and> items_at n ''keywords'' = [] \<and> list_all (\<lambda>a. ty a \<noteq> ''Starred'') (nodes_at n ''args'')"
  by (auto simp: node_check_def outcome_simps split: if_splits)

lemma node_check_Attribute:
  "node_check fname n = Inr () \<Longrightarrow> ty n = ''Attribute'' \<Longrightarrow> name_at n ''attr'' \<in> set METHODS \<and> is_ty ''Load'' (node_at n ''ctx'')"
  by (auto simp: node_check_def outcome_simps split: if_splits)

lemma node_check_Assign:
  "node_check fname n = Inr () \<Longrightarrow> ty n = ''Assign'' \<Longrightarrow> \<exists>t. items_at n ''targets'' = [ANode t] \<and> ty t = ''Name''"
proof -
  assume a: "node_check fname n = Inr ()" "ty n = ''Assign''"
  have "(case items_at n ''targets'' of [ANode t] \<Rightarrow> ty t = ''Name'' | _ \<Rightarrow> False)"
    using a by (simp add: node_check_def outcome_simps)
  then show ?thesis
    by (cases "items_at n ''targets''"; cases "hd (items_at n ''targets'')"; cases "tl (items_at n ''targets'')") simp_all
qed

lemma node_check_Constant:
  "node_check fname n = Inr () \<Longrightarrow> ty n = ''Constant'' \<Longrightarrow> \<exists>v. attr n ''value'' = AVal v \<and> bounded_json 0 v = Inr ()"
  by (auto simp: node_check_def outcome_simps constant_ok_def split: if_splits afield.splits)

lemma nodes_with_depth: "n \<in> set (tree_nodes t) \<Longrightarrow> \<exists>d. (n, d) \<in> set (nodes_from 0 t)"
  by (auto simp: tree_nodes_def)

lemma guarded_node:
  assumes "guarded lib source task = Inr tree" and "n \<in> set (tree_nodes tree)"
  shows "ty n \<in> set NODES \<and> node_check (text_at task ''function'') n = Inr ()"
  using assms nodes_with_depth [OF assms(2)] by (fastforce simp: guarded_Inr allowed_node_def)

text \<open>C15: What the guard accepts is confined. In an accepted candidate every node has one of the listed classes; a call goes to one of the listed builtins
  by its name or to one of the listed methods, without expansion of arguments; no name starts with two underscores, and none that is assigned
  hides a builtin or the function itself; every constant is a bounded JSON value. The tree has at most 350 nodes, exactly one
  function and at most one loop.\<close>

theorem accepted_candidate_confined:
  assumes "guarded lib source task = Inr tree"
  shows "(\<forall>n\<in>set (tree_nodes tree). ty n \<in> set NODES \<and>
      (ty n = ''Call'' \<longrightarrow> items_at n ''keywords'' = [] \<and> (\<exists>f. node_at n ''func'' = Some f \<and>
         (ty f = ''Name'' \<and> name_at f ''id'' \<in> set BUILTINS \<or> ty f = ''Attribute'' \<and> name_at f ''attr'' \<in> set METHODS))) \<and>
      (ty n = ''Attribute'' \<longrightarrow> name_at n ''attr'' \<in> set METHODS \<and> is_ty ''Load'' (node_at n ''ctx'')) \<and>
      (ty n = ''Name'' \<longrightarrow> \<not> dunder (name_at n ''id'') \<and>
         (is_ty ''Store'' (node_at n ''ctx'') \<longrightarrow> name_at n ''id'' \<notin> set BUILTINS \<and> name_at n ''id'' \<noteq> text_at task ''function'')) \<and>
      (ty n = ''Constant'' \<longrightarrow> (\<exists>v. attr n ''value'' = AVal v \<and> bounded_json 0 v = Inr ()))) \<and>
    length (tree_nodes tree) \<le> 350 \<and> length (filter (\<lambda>n. ty n = ''FunctionDef'') (tree_nodes tree)) = 1 \<and>
    length (filter (\<lambda>n. ty n \<in> {''For'', ''comprehension''}) (tree_nodes tree)) \<le> 1"
proof -
  have call: "\<exists>f. node_at n ''func'' = Some f \<and>
      (ty f = ''Name'' \<and> name_at f ''id'' \<in> set BUILTINS \<or> ty f = ''Attribute'' \<and> name_at f ''attr'' \<in> set METHODS)"
    if "call_listed n" for n using that by (auto simp: call_listed_def split: option.splits)
  show ?thesis
    using assms guarded_node [OF assms] call node_check_Call node_check_Attribute node_check_Name node_check_Constant
    unfolding guarded_Inr by blast
qed

section \<open>An accepted candidate\<close>

text \<open>The function \<^verbatim>\<open>def f(x): return x.strip()\<close>; the library knows this text only.\<close>

definition sw_name :: "string \<Rightarrow> ast" where
  "sw_name s = Ast ''Name'' (Some (2, 2, 11)) [(''id'', AVal (PStr s)), (''ctx'', ANode (Ast ''Load'' None []))]"

definition sw_function :: ast where
  "sw_function =
     Ast ''FunctionDef'' (Some (1, 2, 0))
       [(''name'', AVal (PStr ''f'')),
        (''args'', ANode (Ast ''arguments'' None
           [(''posonlyargs'', AItems []), (''args'', AItems [ANode (Ast ''arg'' (Some (1, 1, 6))
               [(''arg'', AVal (PStr ''x'')), (''annotation'', AVal PNone), (''type_comment'', AVal PNone)])]),
            (''vararg'', AVal PNone), (''kwonlyargs'', AItems []), (''kw_defaults'', AItems []), (''kwarg'', AVal PNone),
            (''defaults'', AItems [])])),
        (''body'', AItems [ANode (Ast ''Return'' (Some (2, 2, 4))
           [(''value'', ANode (Ast ''Call'' (Some (2, 2, 11))
              [(''func'', ANode (Ast ''Attribute'' (Some (2, 2, 11))
                  [(''value'', ANode (sw_name ''x'')), (''attr'', AVal (PStr ''strip'')), (''ctx'', ANode (Ast ''Load'' None []))])),
               (''args'', AItems []), (''keywords'', AItems [])]))])]),
        (''decorator_list'', AItems []), (''returns'', AVal PNone), (''type_comment'', AVal PNone), (''type_params'', AItems [])]"

definition sw_module :: ast where
  "sw_module = Ast ''Module'' None [(''body'', AItems [ANode sw_function]), (''type_ignores'', AItems [])]"

definition sw_text :: string where
  "sw_text = ''def f(x):'' @ [newline] @ ''    return x.strip()''"

definition sw_lib :: py_lib where
  "sw_lib = \<lparr>parse_module = (\<lambda>s. if s = sw_text @ [newline] then Inr sw_module else Inl OtherParseError), parse_eval = (\<lambda>_. None),
     unparse = (\<lambda>_. sw_text), dump = (\<lambda>_. ''Module''), loads = (\<lambda>_. None), float_text = (\<lambda>_. [])\<rparr>"

definition sw_task :: pydict where
  "sw_task = [(''function'', PStr ''f''), (''parameters'', PList [PStr ''x''])]"

lemma sw_extracted: "extracted sw_lib (sw_text @ [newline]) sw_task = Inr (sw_text @ [newline])"
proof -
  have "parse_module sw_lib (sw_text @ [newline]) = Inr sw_module" "unparse sw_lib f = sw_text" "text_at sw_task ''function'' = ''f''" for f
    by (simp_all add: sw_lib_def sw_task_def text_at_def)
  moreover have "filter (\<lambda>n. ty n = ''FunctionDef'' \<and> name_at n ''name'' = ''f'') (nodes_at sw_module ''body'') = [sw_function]"
    "items_at sw_function ''decorator_list'' = []" "signature_ok sw_function sw_task" by code_simp+
  moreover have "length sw_text \<le> 200" by code_simp
  ultimately show ?thesis by (simp add: extracted_def function_tree_def parse_or_def)
qed

lemma sw_guarded: "guarded sw_lib (sw_text @ [newline]) sw_task = Inr sw_module"
proof -
  have "list_all (allowed_node ''f'') (nodes_from 0 sw_module)" "length (tree_nodes sw_module) \<le> 20"
    "list_all (\<lambda>n. ty n \<in> set NODES) (tree_nodes sw_module)"
    "length (filter (\<lambda>n. ty n = ''FunctionDef'') (tree_nodes sw_module)) = 1"
    "length (filter (\<lambda>n. ty n \<in> {''For'', ''comprehension''}) (tree_nodes sw_module)) \<le> 1" by code_simp+
  moreover have "parse_module sw_lib (sw_text @ [newline]) = Inr sw_module" "text_at sw_task ''function'' = ''f''"
    by (simp_all add: sw_lib_def sw_task_def text_at_def)
  ultimately show ?thesis by (simp add: guarded_Inr sw_extracted list_all_iff)
qed

theorem accepted_candidate_confined_witness:
  "guarded sw_lib (sw_text @ [newline]) sw_task = Inr sw_module \<and> length (tree_nodes sw_module) \<le> 350"
  using sw_guarded accepted_candidate_confined [OF sw_guarded] by blast

theorem guard_loop_decides_witness: "guard_loop ''f'' [(sw_module, 0)] = Some (Inr ())"
proof -
  have "\<forall>(n, depth)\<in>set (nodes_from 0 sw_module). depth \<le> 24 \<and> node_check ''f'' n = Inr ()"
    using sw_guarded by (auto simp: guarded_Inr allowed_node_def sw_task_def text_at_def)
  then show ?thesis using guard_loop_decides [of "''f''" sw_module] by blast
qed

end
