(* ===== verification/Structured_Report.thy ===== *)
theory Structured_Report
  imports Structured_Guard
begin

text \<open>
  The protocol of the validator: what the child process prints is a report the parent accepts, a full pass means
  that every case passed, and the feedback made from a report is one that the next proposal accepts.
\<close>

section \<open>Values with distinct keys\<close>

text \<open>A mapping of the language has every key once.\<close>

fun proper :: "pyval \<Rightarrow> bool" and proper_list :: "pyval list \<Rightarrow> bool" and proper_items :: "pydict \<Rightarrow> bool" where
  "proper (PList vs) = proper_list vs"
| "proper (PDict d) = (distinct (map fst d) \<and> proper_items d)"
| "proper _ = True"
| "proper_list [] = True"
| "proper_list (v # vs) = (proper v \<and> proper_list vs)"
| "proper_items [] = True"
| "proper_items ((_, v) # d) = (proper v \<and> proper_items d)"

lemma deep_eq_refl_all:
  "proper v \<Longrightarrow> deep_eq v v" "proper_list vs \<Longrightarrow> deep_eq_list vs vs"
  "proper_items d \<Longrightarrow> (\<And>e. \<forall>(k, v)\<in>set d. map_of e k = Some v \<Longrightarrow> deep_eq_items d e)"
proof (induction v and vs and d rule: proper_proper_list_proper_items.induct)
  case (2 d)
  then show ?case by (auto simp: map_of_is_SomeI)
qed auto

lemmas deep_eq_refl = deep_eq_refl_all(1)

lemma proper_items_get: "proper_items d \<Longrightarrow> proper (get d k)"
  by (induction d) auto

lemma proper_list_nth: "proper_list vs \<Longrightarrow> v \<in> set vs \<Longrightarrow> proper v"
  by (induction vs) auto

section \<open>Observations\<close>

lemma sha64_hex: "SHA64 (sha256_hex s)"
  by (auto simp: SHA64_def list_all_iff dest: sha256_hex_lower_hex)

lemma type_name_listed: "type_name v \<in> set OBSERVATION_TYPES"
  by (cases v) (simp_all add: OBSERVATION_TYPES_def)

lemma value_observation_valid:
  assumes "bounded_json 0 v = Inr ()" and "proper v"
  shows "validate_observation lib (PDict (observation_of lib v)) = Inr ()"
  using assms type_name_listed [of v] sha64_hex
  by (auto simp: validate_observation_def observation_of_def Let_def dict_in_def is_dict_def keys_def text_with_def int_with_def
      digest_observation_ok_def make_observation_def need_block_def deep_eq_refl)

lemma candidate_line_bounds: "candidate_exception_line fs = Some l \<Longrightarrow> 1 \<le> l \<and> l \<le> 400"
proof -
  let ?g = "filter (\<lambda>(file, l). file = ''<guarded-json-function>'' \<and> 1 \<le> l \<and> l \<le> 400) fs"
  assume "candidate_exception_line fs = Some l"
  then have "?g \<noteq> []" "l = snd (last ?g)" by (auto simp: candidate_exception_line_def split: list.splits)
  then show ?thesis using last_in_set [of ?g] by auto
qed

lemma exception_observation_valid: "validate_observation lib (PDict (exception_observation c fs)) = Inr ()"
  using candidate_line_bounds [of fs]
  by (auto simp: validate_observation_def exception_observation_def exception_observation_ok_def Let_def dict_in_def is_dict_def keys_def
      text_with_def int_with_def need_block_def EXCEPTION_TYPES_def split: option.split)

lemma run_case_valid:
  assumes "run_case lib r expected = Some ob" and "\<And>v. r = Returned v \<Longrightarrow> proper v"
  shows "validate_observation lib (PDict ob) = Inr () \<and>
    (''value'' \<in> keys ob \<longrightarrow> \<not> same_result (get ob ''value'') expected)"
proof -
  have e: "''value'' \<notin> keys (exception_observation c fs)" for c fs
    by (auto simp: exception_observation_def keys_def split: option.split)
  show ?thesis
  proof (cases "\<exists>v. r = Returned v \<and> bounded_json 0 v = Inr ()")
    case True
    then obtain v where v: "r = Returned v" "bounded_json 0 v = Inr ()" by blast
    with assms have ob: "ob = observation_of lib v" "\<not> same_result v expected"
      by (auto simp: run_case_def split: if_splits)
    moreover have "''value'' \<in> keys ob \<Longrightarrow> get ob ''value'' = v"
      by (auto simp: ob observation_of_def Let_def keys_def split: if_splits)
    ultimately show ?thesis using value_observation_valid [OF v(2) assms(2) [OF v(1)]] by simp
  next
    case False
    then obtain c fs where "ob = exception_observation c fs"
      using assms(1) by (auto simp: run_case_def split: call_result.splits sum.splits)
    then show ?thesis using e exception_observation_valid by simp
  qed
qed

section \<open>The report of the child\<close>

lemma run_cases_entries:
  "(i, ob) \<in> set (run_cases lib call s cs) \<Longrightarrow>
   s \<le> i \<and> i < s + length cs \<and>
   run_case lib (call (list_at (dict_in (cs ! (i - s))) ''args'')) (get (dict_in (cs ! (i - s))) ''expected'') = Some ob"
proof (induction cs arbitrary: s)
  case (Cons c cs)
  show ?case
  proof (cases "(i, ob) \<in> set (run_cases lib call (Suc s) cs)")
    case True
    from Cons.IH [OF this] show ?thesis by (auto simp: nth_Cons' Suc_diff_Suc [symmetric] simp del: Suc_diff_Suc)
  next
    case False
    with Cons.prems show ?thesis by (auto split: option.splits)
  qed
qed simp

lemma run_cases_sorted: "sorted_wrt (<) (map fst (run_cases lib call s cs))"
proof (induction cs arbitrary: s)
  case (Cons c cs)
  then show ?case by (auto split: option.splits dest!: run_cases_entries)
qed simp

lemma length_run_cases: "length (run_cases lib call s cs) \<le> length cs"
  by (induction cs arbitrary: s) (auto split: option.splits intro: le_SucI)

lemma run_cases_Nil:
  "run_cases lib call s cs = [] \<longleftrightarrow>
   (\<forall>c\<in>set cs. run_case lib (call (list_at (dict_in c) ''args'')) (get (dict_in c) ''expected'') = None)"
  by (induction cs arbitrary: s) (auto split: option.splits)

definition case_passes :: "runner \<Rightarrow> ast \<Rightarrow> string \<Rightarrow> pyval \<Rightarrow> bool" where
  "case_passes run tree fname c \<longleftrightarrow>
     (case run tree fname (list_at (dict_in c) ''args'') of
        Returned v \<Rightarrow> bounded_json 0 v = Inr () \<and> same_result v (get (dict_in c) ''expected'') | _ \<Rightarrow> False)"

lemma run_case_None: "run_case lib (run tree fname (list_at (dict_in c) ''args'')) (get (dict_in c) ''expected'') = None \<longleftrightarrow> case_passes run tree fname c"
  by (auto simp: run_case_def case_passes_def split: call_result.split sum.split)

lemma report_fields:
  "dict_in (report_of n failed) =
     [(''passed'', PInt (int n - int (length failed))), (''total'', PInt (int n)),
      (''errors'', PInt (int (length (filter (\<lambda>(_, ob). get ob ''kind'' = PStr ''exception'') failed)))),
      (''failures'', PList (map (\<lambda>(i, ob). PDict [(''case_index'', PInt (int i)), (''observed'', PDict ob)]) failed))]"
  "is_dict (report_of n failed)"
  by (simp_all add: report_of_def dict_in_def is_dict_def)

lemma report_accepted:
  assumes n: "n = length (list_at task ''cases'')" "length failed \<le> n" "sorted_wrt (<) (map fst failed)"
    and f: "\<And>i ob. (i, ob) \<in> set failed \<Longrightarrow> i < n \<and> validate_observation lib (PDict ob) = Inr () \<and>
      (''value'' \<in> keys ob \<longrightarrow> \<not> same_result (get ob ''value'') (expected_of task i))"
  shows "validate_report lib (report_of n failed) task = Inr (dict_in (report_of n failed))"
proof -
  let ?fs = "map (\<lambda>(i, ob). PDict [(''case_index'', PInt (int i)), (''observed'', PDict ob)]) failed"
  have "check_failure lib task (int n) (PDict [(''case_index'', PInt (int i)), (''observed'', PDict ob)]) = Inr ()"
    if "(i, ob) \<in> set failed" for i ob
    using f [OF that] by (auto simp: check_failure_def Let_def dict_in_def is_dict_def keys_def int_with_def int_at_def need_block_def)
  then have "check_failure lib task (int n) v = Inr ()" if "v \<in> set ?fs" for v using that by auto
  then have each_ok: "each (check_failure lib task (int n)) ?fs = Inr ()" by (simp add: outcome_simps)
  have "case_indices ?fs = map (int \<circ> fst) failed" by (auto simp: case_indices_def dict_in_def int_at_def)
  then have order: "sorted_wrt (<) (case_indices ?fs)" using n(3) by (simp add: sorted_wrt_map comp_def)
  have "length (filter is_exception ?fs) = length (filter (\<lambda>(_, ob). get ob ''kind'' = PStr ''exception'') failed)"
    by (simp add: filter_map comp_def is_exception_def dict_in_def case_prod_unfold)
  moreover have "length (filter (\<lambda>(_, ob). get ob ''kind'' = PStr ''exception'') failed) \<le> length failed" by simp
  ultimately show ?thesis
    unfolding validate_report_def Let_def report_fields
    using n(1,2) each_ok order
    by (simp add: need_block_def keys_def int_at_def list_at_def int_with_def is_list_def report_fields(2))
qed

lemma child_report_valid:
  assumes "\<And>args v. run tree (text_at task ''function'') args = Returned v \<Longrightarrow> proper v"
  shows "validate_report lib (child_report lib run tree task) task = Inr (dict_in (child_report lib run tree task))"
  unfolding child_report_def Let_def
proof (rule report_accepted)
  fix i ob
  assume "(i, ob) \<in> set (run_cases lib (run tree (text_at task ''function'')) 0 (list_at task ''cases''))"
  from run_cases_entries [OF this]
  have i: "i < length (list_at task ''cases'')" and
    r: "run_case lib (run tree (text_at task ''function'') (list_at (dict_in (list_at task ''cases'' ! i)) ''args'')) (expected_of task i) = Some ob"
    by (simp_all add: expected_of_def)
  from i run_case_valid [OF r assms]
  show "i < length (list_at task ''cases'') \<and> validate_observation lib (PDict ob) = Inr () \<and>
    (''value'' \<in> keys ob \<longrightarrow> \<not> same_result (get ob ''value'') (expected_of task i))" by simp
qed (simp_all add: length_run_cases run_cases_sorted)

text \<open>C21: The parent understands the child. Whatever the candidate does with the cases, returns values, returns what is not JSON, or
  raises, the report that the child process makes of it passes the validation of the parent: its counts agree, its failures are in the order of the cases,
  each observation has the shape its kind asks for and none claims a failure for an expected value.\<close>

theorem child_report_accepted:
  assumes "\<And>args v. run tree (text_at task ''function'') args = Returned v \<Longrightarrow> proper v"
  shows "validate_report lib (child_report lib run tree task) task = Inr (dict_in (child_report lib run tree task))"
  using assms by (rule child_report_valid)

text \<open>The candidate of the example, run: it strips blanks, and raises for anything but a text.\<close>

definition sw_run :: runner where
  "sw_run tree fname args = (case args of
     [PStr s] \<Rightarrow> Returned (PStr (py_strip s))
   | _ \<Rightarrow> Raised ''AttributeError'' [(''<guarded-json-function>'', 2)])"

definition sw_case :: "pyval \<Rightarrow> pyval \<Rightarrow> pyval" where
  "sw_case arg expected = PDict [(''args'', PList [arg]), (''expected'', expected)]"

definition sw_job :: pydict where
  "sw_job = [(''function'', PStr ''f''), (''parameters'', PList [PStr ''x'']),
     (''cases'', PList [sw_case (PStr '' a '') (PStr ''a''), sw_case (PInt 1) PNone, sw_case (PStr ''b'') (PStr ''c'')])]"

theorem child_report_accepted_witness:
  "validate_report sw_lib (child_report sw_lib sw_run sw_module sw_job) sw_job = Inr (dict_in (child_report sw_lib sw_run sw_module sw_job)) \<and>
   get (dict_in (child_report sw_lib sw_run sw_module sw_job)) ''passed'' = PInt 1"
proof -
  have p: "sw_run sw_module ''f'' args = Returned v \<Longrightarrow> proper v" for args v
    by (auto simp: sw_run_def split: list.splits pyval.splits)
  have f: "text_at sw_job ''function'' = ''f''" by (simp add: sw_job_def text_at_def)
  have "length (run_cases sw_lib (sw_run sw_module ''f'') 0 (list_at sw_job ''cases'')) = 2"
    "length (list_at sw_job ''cases'') = 3" by code_simp+
  then have "get (dict_in (child_report sw_lib sw_run sw_module sw_job)) ''passed'' = PInt 1"
    by (simp add: child_report_def report_fields f)
  then show ?thesis using p child_report_accepted [of sw_run sw_module sw_job sw_lib] f by simp
qed

section \<open>A full pass\<close>

lemma child_report_passed:
  "int_at (dict_in (child_report lib run tree task)) ''passed'' = int_at (dict_in (child_report lib run tree task)) ''total'' \<longleftrightarrow>
   (\<forall>c\<in>set (list_at task ''cases''). case_passes run tree (text_at task ''function'') c)"
  by (simp add: child_report_def Let_def report_fields int_at_def run_cases_Nil run_case_None)

lemma validate_report_Inr: "validate_report lib v task = Inr e \<Longrightarrow> e = dict_in v"
  by (simp add: validate_report_def outcome_simps Let_def)

lemma task_spec_Inr: "task_spec lib v = Inr task \<Longrightarrow> v = PDict task"
  by (cases v) (simp_all add: task_spec_def outcome_simps Let_def is_dict_def dict_in_def)

text \<open>The JSON reader gives back a value that was written, with or without a line end.\<close>

definition reads :: "py_lib \<Rightarrow> pyval \<Rightarrow> bool" where
  "reads lib v \<longleftrightarrow> loads lib (dumps_of lib False v) = Some v \<and> loads lib (dumps_of lib False v @ [newline]) = Some v"

definition child_payload :: "string \<Rightarrow> pydict \<Rightarrow> pyval" where
  "child_payload text task = PDict [(''source'', PStr text), (''task'', PDict task)]"

lemma spawned_Exit0:
  assumes "spawned lib run (dumps_of lib False (child_payload text task)) = ChildExit 0 out" and "reads lib (child_payload text task)"
  shows "\<exists>tree. guarded lib text task = Inr tree \<and> out = dumps_of lib False (child_report lib run tree task) @ [newline]"
proof -
  have "validate_child lib run (dumps_of lib False (child_payload text task)) = Inr out"
    using assms(1) by (simp add: spawned_def split: sum.splits)
  then show ?thesis using assms(2)
    by (auto simp: validate_child_def outcome_simps reads_def child_payload_def dict_in_def text_at_def dest: task_spec_Inr)
qed

lemma validated_cases:
  assumes "validate lib (spawned lib run) source task = Inr e"
    and "\<And>text. extracted lib source task = Inr text \<Longrightarrow> reads lib (child_payload text task)"
    and "\<And>tree. reads lib (child_report lib run tree task)"
  shows "\<exists>text tree. extracted lib source task = Inr text \<and> guarded lib text task = Inr tree \<and>
    (int_at e ''passed'' = int_at e ''total'' \<longleftrightarrow> (\<forall>c\<in>set (list_at task ''cases''). case_passes run tree (text_at task ''function'') c))"
proof -
  obtain body where t: "extracted lib source task = Inr body" and
    c: "(case spawned lib run (dumps_of lib False (child_payload body task)) of
       ChildUnavailable \<Rightarrow> Inl (StructuredBlocked ''validator_unavailable'')
     | ChildExit rc out \<Rightarrow>
         bindE (need_block (rc = 0 \<and> length out \<le> 131072) ''validator_process'') (\<lambda>_.
         case loads lib out of None \<Rightarrow> Inl (StructuredBlocked ''validator_json'') | Some v \<Rightarrow> validate_report lib v task)) = Inr e"
    using assms(1) by (auto simp: validate_def outcome_simps child_payload_def)
  obtain rc out where p: "spawned lib run (dumps_of lib False (child_payload body task)) = ChildExit rc out"
    using c by (cases "spawned lib run (dumps_of lib False (child_payload body task))") simp_all
  then obtain v where v: "loads lib out = Some v" "validate_report lib v task = Inr e" and "rc = 0"
    using c by (cases "loads lib out") (auto simp: outcome_simps)
  note p = p [unfolded \<open>rc = 0\<close>]
  obtain tree where g: "guarded lib body task = Inr tree" "out = dumps_of lib False (child_report lib run tree task) @ [newline]"
    using spawned_Exit0 [OF _ assms(2) [OF t]] p by blast
  have "v = child_report lib run tree task" using v(1) g(2) assms(3) by (simp add: reads_def)
  then have "e = dict_in (child_report lib run tree task)" using validate_report_Inr [OF v(2)] by simp
  then show ?thesis using t g(1) child_report_passed by blast
qed

text \<open>C17: A full pass means that every case passed. When the validator, with the child process it starts, returns evidence, then the child has
  guarded the extracted text once more, and the evidence counts all cases as passed exactly if calling the guarded
  function with the arguments of each case returned a bounded JSON value of the expected type and equal to the expected one.\<close>

theorem full_pass_means_every_case:
  assumes "validate lib (spawned lib run) source task = Inr e"
    and "\<And>text. extracted lib source task = Inr text \<Longrightarrow> reads lib (child_payload text task)"
    and "\<And>tree. reads lib (child_report lib run tree task)"
  shows "\<exists>text tree. extracted lib source task = Inr text \<and> guarded lib text task = Inr tree \<and>
    (int_at e ''passed'' = int_at e ''total'' \<longleftrightarrow> (\<forall>c\<in>set (list_at task ''cases''). case_passes run tree (text_at task ''function'') c))"
  using assms by (rule validated_cases)

definition sw_full :: pydict where
  "sw_full = [(''task_id'', PStr ''t1''), (''path'', PStr ''app/m.py''), (''function'', PStr ''f''), (''parameters'', PList [PStr ''x'']),
     (''instruction'', PStr ''strip''), (''base_sha'', PStr (replicate 40 (CHR ''a''))), (''before_sha256'', PStr (replicate 64 (CHR ''b''))),
     (''cases'', PList [sw_case (PStr '' a '') (PStr ''a''), sw_case (PStr ''b'') (PStr ''b'')])]"

definition sw_report :: pyval where
  "sw_report = report_of 2 []"

text \<open>The receipt of an earlier repair with this task, under the text \<^verbatim>\<open>r\<close>.\<close>

definition sw_receipt :: pydict where
  "sw_receipt = [(''task_hash'', PStr (sha256_hex (dumps (\<lambda>_. []) True (PDict sw_full)))), (''produced_sha'', PStr ''c''),
     (''after_sha256'', PStr (sha256_hex (sw_text @ [newline]))), (''patch_sha256'', PStr (sha256_hex ''p''))]"

definition sw_reader :: "string \<Rightarrow> pyval option" where
  "sw_reader s = (let p = child_payload (sw_text @ [newline]) sw_full in
     if s = dumps (\<lambda>_. []) False p \<or> s = dumps (\<lambda>_. []) False p @ [newline] then Some p
     else if s = dumps (\<lambda>_. []) False sw_report \<or> s = dumps (\<lambda>_. []) False sw_report @ [newline] then Some sw_report
     else if s = ''r'' then Some (PDict sw_receipt) else None)"

definition sw_lib2 :: py_lib where
  "sw_lib2 = sw_lib\<lparr>loads := sw_reader\<rparr>"

lemma sw_lib2_parts:
  "dumps_of sw_lib2 = dumps (\<lambda>_. [])" "loads sw_lib2 = sw_reader" "parse_module sw_lib2 = parse_module sw_lib" "unparse sw_lib2 = unparse sw_lib"
  by (auto simp: sw_lib2_def sw_lib_def dumps_of_def fun_eq_iff)

lemma guarded_cong: "parse_module lib = parse_module lib' \<Longrightarrow> unparse lib = unparse lib' \<Longrightarrow> guarded lib = guarded lib' \<and> extracted lib = extracted lib'"
  by (auto simp: fun_eq_iff guarded_def extracted_def function_tree_def parse_uncaught_def parse_or_def)

lemma extracted_fields:
  "text_at task ''function'' = text_at task' ''function'' \<Longrightarrow> list_at task ''parameters'' = list_at task' ''parameters'' \<Longrightarrow>
   guarded lib s task = guarded lib s task' \<and> extracted lib s task = extracted lib s task'"
  by (simp add: guarded_def extracted_def function_tree_def signature_ok_def Let_def)

lemma sw_full_guarded:
  "guarded sw_lib2 (sw_text @ [newline]) sw_full = Inr sw_module" "extracted sw_lib2 (sw_text @ [newline]) sw_full = Inr (sw_text @ [newline])"
  using guarded_cong [of sw_lib2 sw_lib] extracted_fields [of sw_full sw_task sw_lib "sw_text @ [newline]"] sw_guarded sw_extracted
  by (simp_all add: sw_lib2_parts sw_full_def sw_task_def text_at_def list_at_def)

lemma sw_full_spec: "task_spec sw_lib2 (PDict sw_full) = Inr sw_full"
proof -
  have b: "bounded_json 0 c = Inr ()" if "c \<in> set (list_at sw_full ''cases'')" for c
    using that by (auto simp: sw_full_def list_at_def sw_case_def bounded_json.simps)
  have "length (dumps (\<lambda>_. []) False (PDict sw_full)) \<le> 500" by code_simp
  then have l: "length (dumps_of sw_lib2 False (PDict sw_full)) \<le> 100000" by (simp add: sw_lib2_parts)
  have "each (task_case_ok (length (list_at sw_full ''parameters''))) (list_at sw_full ''cases'') = Inr ()"
    using b by (auto simp: outcome_simps task_case_ok_def sw_full_def list_at_def sw_case_def dict_in_def is_dict_def is_list_def keys_def)
  moreover have "TASK_NAME ''t1''" "MODULE_PATH ''app/m.py''" "FUNCTION_NAME ''f''" "parameters_ok [PStr ''x'']" "''f'' \<notin> set BUILTINS" by code_simp+
  moreover have "SHA40 (replicate 40 (CHR ''a''))" "SHA64 (replicate 64 (CHR ''b''))" by code_simp+
  moreover have "keys sw_full = set task_fields" by (auto simp: sw_full_def keys_def task_fields_def)
  ultimately show ?thesis using l
    by (simp add: task_spec_def Let_def dict_in_def is_dict_def need_block_def)
      (simp add: sw_full_def text_with_def text_at_def list_at_def is_list_def)
qed

lemma sw_reports: "child_report sw_lib2 sw_run tree sw_full = sw_report"
proof -
  have "run_cases sw_lib2 (sw_run tree ''f'') 0 (list_at sw_full ''cases'') = []"
    unfolding run_cases_Nil
    by (auto simp: sw_full_def list_at_def sw_case_def dict_in_def sw_run_def run_case_def bounded_json.simps same_result_def py_strip_def py_isspace_def)
  moreover have "text_at sw_full ''function'' = ''f''" "length (list_at sw_full ''cases'') = 2"
    by (simp_all add: sw_full_def text_at_def list_at_def)
  ultimately show ?thesis by (simp add: child_report_def sw_report_def)
qed

lemma sw_reads: "reads sw_lib2 (child_payload (sw_text @ [newline]) sw_full)" "reads sw_lib2 sw_report"
proof -
  have "take 3 (dumps (\<lambda>_. []) False (child_payload (sw_text @ [newline]) sw_full)) = ''{'' @ [CHR 0x22] @ ''s''"
    "take 3 (dumps (\<lambda>_. []) False sw_report) = ''{'' @ [CHR 0x22] @ ''p''" by code_simp+
  then have "dumps (\<lambda>_. []) False sw_report \<noteq> dumps (\<lambda>_. []) False (child_payload (sw_text @ [newline]) sw_full)"
    "dumps (\<lambda>_. []) False sw_report \<noteq> dumps (\<lambda>_. []) False (child_payload (sw_text @ [newline]) sw_full) @ [newline]"
    "dumps (\<lambda>_. []) False sw_report @ [newline] \<noteq> dumps (\<lambda>_. []) False (child_payload (sw_text @ [newline]) sw_full)"
    by (auto simp: newline_def dest: arg_cong [where f = "take 3"])
  then show "reads sw_lib2 (child_payload (sw_text @ [newline]) sw_full)" "reads sw_lib2 sw_report"
    by (auto simp: reads_def sw_lib2_parts sw_reader_def Let_def)
qed

lemma sw_validated: "validate sw_lib2 (spawned sw_lib2 sw_run) (sw_text @ [newline]) sw_full = Inr (dict_in sw_report)"
proof -
  have l: "length (dumps (\<lambda>_. []) False (child_payload (sw_text @ [newline]) sw_full)) \<le> 700" "length (dumps (\<lambda>_. []) False sw_report) \<le> 100"
    by code_simp+
  have "validate_child sw_lib2 sw_run (dumps_of sw_lib2 False (child_payload (sw_text @ [newline]) sw_full)) =
    Inr (dumps_of sw_lib2 False sw_report @ [newline])"
    using l sw_reads(1) sw_full_spec sw_full_guarded(1) sw_reports
    by (simp add: validate_child_def reads_def sw_lib2_parts) (simp add: child_payload_def dict_in_def text_at_def)
  then have s: "spawned sw_lib2 sw_run (dumps_of sw_lib2 False (child_payload (sw_text @ [newline]) sw_full)) =
    ChildExit 0 (dumps_of sw_lib2 False sw_report @ [newline])" by (simp add: spawned_def)
  have "\<And>args v. sw_run sw_module (text_at sw_full ''function'') args = Returned v \<Longrightarrow> proper v"
    by (auto simp: sw_run_def split: list.splits pyval.splits)
  then have r: "validate_report sw_lib2 sw_report sw_full = Inr (dict_in sw_report)"
    using child_report_valid [of sw_run sw_module sw_full sw_lib2] by (simp add: sw_reports)
  show ?thesis using sw_full_spec sw_full_guarded s r sw_reads(2) l(2)
    by (simp add: validate_def child_payload_def reads_def sw_lib2_parts)
qed

theorem full_pass_means_every_case_witness:
  "validate sw_lib2 (spawned sw_lib2 sw_run) (sw_text @ [newline]) sw_full = Inr (dict_in sw_report) \<and>
   (\<exists>tree. guarded sw_lib2 (sw_text @ [newline]) sw_full = Inr tree \<and>
     list_all (case_passes sw_run tree (text_at sw_full ''function'')) (list_at sw_full ''cases''))"
proof -
  have "reads sw_lib2 (child_payload body sw_full)" if "extracted sw_lib2 (sw_text @ [newline]) sw_full = Inr body" for body
    using that sw_full_guarded(2) sw_reads(1) by simp
  from full_pass_means_every_case [OF sw_validated this] sw_reports sw_reads(2) sw_full_guarded(2)
  show ?thesis using sw_validated by (auto simp: sw_report_def report_fields int_at_def list_all_iff)
qed

end
