(* ===== verification/Structured_Feedback.thy ===== *)
theory Structured_Feedback
  imports Structured_Report
begin

text \<open>
  The feedback that the structured worker gives to its second proposal: when it is made at all, it is accepted by the check
  of the proposal it goes into.
\<close>

lemma keys_two:
  assumes "keys d = {a, b}" "distinct (map fst d)" "a \<noteq> b"
  shows "(\<exists>x y. d = [(a, x), (b, y)]) \<or> (\<exists>x y. d = [(b, y), (a, x)])"
proof -
  have "card (fst ` set d) = 2" using assms by (simp add: keys_def)
  then have "length d = 2" using assms(2) distinct_card [of "map fst d"] by simp
  then obtain p q where "d = [p, q]" by (auto simp: numeral_2_eq_2 length_Suc_conv)
  then show ?thesis using assms by (cases p; cases q) (auto simp: keys_def doubleton_eq_iff)
qed

lemma sorted_two: "sort_key fst [(''args'', s), (''expected'', t)] = [(''args'', s), (''expected'', t)]"
  "sort_key fst [(''expected'', t), (''args'', s)] = [(''args'', s), (''expected'', t)]"
  for s t :: string
  by (simp_all add: insort_key_def less_list_code)

text \<open>The entry of a failure keeps the case, whatever the order of its two fields.\<close>

lemma entry_fields:
  assumes "keys d = {''args'', ''expected''}" "distinct (map fst d)"
  shows "keys ((''case_index'', i) # d @ [(''observed'', ob)]) = {''case_index'', ''args'', ''expected'', ''observed''}"
    "get ((''case_index'', i) # d @ [(''observed'', ob)]) ''observed'' = ob"
    "dumps_of lib True (PDict [(''args'', get ((''case_index'', i) # d @ [(''observed'', ob)]) ''args''),
       (''expected'', get ((''case_index'', i) # d @ [(''observed'', ob)]) ''expected'')]) = dumps_of lib True (PDict d)"
  using keys_two [OF assms] by (auto simp: keys_def dumps_of_def sorted_two)

lemma feedback_entry_ok:
  assumes t: "task_spec lib (PDict task) = Inr task" "proper (PDict task)"
    and c: "check_failure lib task (int (length (list_at task ''cases''))) v = Inr ()"
  shows "feedback_case_ok lib task (feedback_entry task v) = Inr ()"
    "int_at (dict_in (feedback_entry task v)) ''case_index'' = int_at (dict_in v) ''case_index''"
proof -
  obtain i where i: "get (dict_in v) ''case_index'' = PInt i" "0 \<le> i" "i < int (length (list_at task ''cases''))"
    and ob: "validate_observation lib (get (dict_in v) ''observed'') = Inr ()"
    using c by (auto simp: check_failure_def outcome_simps Let_def int_with_def split: pyval.splits)
  define c where "c = list_at task ''cases'' ! nat i"
  have c_in: "c \<in> set (list_at task ''cases'')" using i by (simp add: c_def)
  have "task_case_ok (length (list_at task ''parameters'')) c = Inr ()"
    using t(1) c_in by (simp add: task_spec_def outcome_simps Let_def dict_in_def)
  then obtain d where d: "c = PDict d" "keys d = {''args'', ''expected''}"
    by (auto simp: task_case_ok_def outcome_simps is_dict_def dict_in_def split: pyval.splits)
  have "proper_list (list_at task ''cases'')"
    using t(2) proper_items_get [of task "''cases''"] by (auto simp: list_at_def split: pyval.splits)
  then have "distinct (map fst d)" using proper_list_nth [OF _ c_in] d(1) by simp
  note e = entry_fields [OF d(2) this]
  have entry: "feedback_entry task v = PDict ((''case_index'', PInt i) # d @ [(''observed'', get (dict_in v) ''observed'')])"
    by (simp add: feedback_entry_def Let_def i(1) int_at_def d(1) [unfolded c_def])
  show "int_at (dict_in (feedback_entry task v)) ''case_index'' = int_at (dict_in v) ''case_index''"
    using i(1) by (simp add: entry int_at_def)
  show "feedback_case_ok lib task (feedback_entry task v) = Inr ()"
    unfolding entry feedback_case_ok_def
    using i ob d(1) [unfolded c_def] e
    by (simp add: is_dict_def Let_def int_with_def int_at_def need_block_def)
qed

lemma fitting_prefix: "\<exists>k. fitting lib h n done es = done @ take k es"
proof (induction lib h n "done" es rule: fitting.induct)
  case (2 lib h n "done" e es)
  show ?case
  proof (cases "FEEDBACK_LIMIT < length (dumps_of lib False (feedback_dict h n (done @ [e])))")
    case True
    then show ?thesis by (auto intro: exI [of _ 0])
  next
    case False
    then obtain k where "fitting lib h n (done @ [e]) es = (done @ [e]) @ take k es" using 2 by blast
    with False show ?thesis by (auto intro: exI [of _ "Suc k"])
  qed
qed simp

lemma fitting_fits:
  "length (dumps_of lib False (feedback_dict h n done)) \<le> FEEDBACK_LIMIT \<Longrightarrow>
   length (dumps_of lib False (feedback_dict h n (fitting lib h n done es))) \<le> FEEDBACK_LIMIT"
  by (induction lib h n "done" es rule: fitting.induct) (auto simp: not_less)

lemma proposal_fields:
  assumes "task_spec lib (PDict task) = Inr task"
  shows "filter (\<lambda>(k, _). k \<noteq> ''feedback'') (task @ [(''feedback'', v)]) = task" "get (task @ [(''feedback'', v)]) ''feedback'' = v"
    "''feedback'' \<in> keys (task @ [(''feedback'', v)])" "filter (\<lambda>(k, _). k \<noteq> ''feedback'') task = task"
proof -
  have "keys task = set task_fields" using assms by (simp add: task_spec_def outcome_simps Let_def)
  then have nf: "''feedback'' \<notin> fst ` set task" by (simp add: keys_def task_fields_def)
  then show "filter (\<lambda>(k, _). k \<noteq> ''feedback'') (task @ [(''feedback'', v)]) = task" "filter (\<lambda>(k, _). k \<noteq> ''feedback'') task = task"
    by (force intro: filter_True)+
  show "get (task @ [(''feedback'', v)]) ''feedback'' = v" using nf by (induction task) (auto simp: get_def)
  show "''feedback'' \<in> keys (task @ [(''feedback'', v)])" by (simp add: keys_def)
qed

lemma feedback_fields:
  "is_dict (feedback_dict h n es)" "keys (dict_in (feedback_dict h n es)) = {''schema_version'', ''candidate_sha256'', ''failed_count'', ''failures''}"
  "get (dict_in (feedback_dict h n es)) ''schema_version'' = PInt 1" "get (dict_in (feedback_dict h n es)) ''candidate_sha256'' = PStr h"
  "get (dict_in (feedback_dict h n es)) ''failed_count'' = PInt n" "get (dict_in (feedback_dict h n es)) ''failures'' = PList es"
  by (auto simp: feedback_dict_def keys_def)

lemma proposal_feedback:
  assumes t: "task_spec lib (PDict task) = Inr task" and h: "SHA64 h" and n: "1 \<le> n" "n \<le> int (length (list_at task ''cases''))"
  shows "proposal_spec lib (PDict (task @ [(''feedback'', feedback_dict h n es)])) =
     bindE (need_block (1 \<le> length es \<and> int (length es) \<le> min 8 n) ''feedback_failures'') (\<lambda>_.
     bindE (each (feedback_case_ok lib task) es) (\<lambda>_.
     bindE (need_block (sorted_wrt (<) (case_indices es)) ''feedback_case_order'') (\<lambda>_.
     bindE (need_block (length (dumps_of lib False (feedback_dict h n es)) \<le> FEEDBACK_LIMIT) ''feedback_size'') (\<lambda>_. Inr task))))"
  using assms by (simp add: proposal_spec_def Let_def proposal_fields [OF t] feedback_fields list_at_def [of "dict_in _"] int_at_def [of "dict_in _"])

lemma report_facts:
  assumes "validate_report lib v task = Inr e"
  shows "\<forall>f\<in>set (list_at e ''failures''). check_failure lib task (int (length (list_at task ''cases''))) f = Inr ()"
    "sorted_wrt (<) (case_indices (list_at e ''failures''))" "int (length (list_at e ''failures'')) \<le> int (length (list_at task ''cases''))"
proof -
  note e = validate_report_Inr [OF assms]
  have a: "each (check_failure lib task (int (length (list_at task ''cases'')))) (list_at e ''failures'') = Inr () \<and>
    sorted_wrt (<) (case_indices (list_at e ''failures'')) \<and>
    int (length (list_at e ''failures'')) = int (length (list_at task ''cases'')) - int_at e ''passed'' \<and> 0 \<le> int_at e ''passed''"
    using assms unfolding validate_report_def Let_def bindE_Inr need_block_Inr by (elim exE conjE) (simp add: e)
  then show "\<forall>f\<in>set (list_at e ''failures''). check_failure lib task (int (length (list_at task ''cases''))) f = Inr ()"
    by (simp add: each_Inr)
  show "sorted_wrt (<) (case_indices (list_at e ''failures''))" "int (length (list_at e ''failures'')) \<le> int (length (list_at task ''cases''))"
    using a by linarith+
qed

lemma fitting_entries:
  assumes t: "task_spec lib (PDict task) = Inr task" "proper (PDict task)"
    and r: "validate_report lib report task = Inr e"
    and es: "es = fitting lib h n [] (map (feedback_entry task) (take 8 (list_at e ''failures'')))"
  shows "length es \<le> 8" "length es \<le> length (list_at e ''failures'')" "each (feedback_case_ok lib task) es = Inr ()" "sorted_wrt (<) (case_indices es)"
proof -
  let ?fs = "list_at e ''failures''"
  note checks = report_facts [OF r]
  obtain k where "es = take k (map (feedback_entry task) (take 8 ?fs))"
    using fitting_prefix [of lib h n "[]" "map (feedback_entry task) (take 8 ?fs)"] es by auto
  then have k: "es = map (feedback_entry task) (take (min k 8) ?fs)" by (simp add: take_map)
  then show "length es \<le> 8" "length es \<le> length ?fs" by simp_all
  have "feedback_case_ok lib task x = Inr ()" if "x \<in> set es" for x
    using that checks(1) feedback_entry_ok(1) [OF t] by (auto simp: k dest: in_set_takeD)
  then show "each (feedback_case_ok lib task) es = Inr ()" by (simp add: each_Inr)
  have "case_indices es = take (min k 8) (case_indices ?fs)"
    using checks(1) feedback_entry_ok(2) [OF t] by (auto simp: k case_indices_def take_map dest: in_set_takeD)
  then show "sorted_wrt (<) (case_indices es)" using checks(2) by (simp add: sorted_wrt_take)
qed

text \<open>C22: Feedback is accepted whenever the first failure fits. For a report that validates and has failures, and a candidate that passes the guard,
  the worker makes feedback exactly if the entry of the first failure fits into the limit; then the proposal made with it passes its own
  check, else the worker stops with \<^verbatim>\<open>feedback_failures\<close>.\<close>

theorem feedback_iff_first_fits:
  assumes "task_spec lib (PDict task) = Inr task" "proper (PDict task)"
    and "validate_report lib report task = Inr e" "list_at e ''failures'' = v # vs"
    and "candidate_fingerprint lib source task = Inr h"
  shows "(if length (dumps_of lib False (feedback_dict h (int (length (v # vs))) [feedback_entry task v])) \<le> FEEDBACK_LIMIT
      then \<exists>es. semantic_feedback lib task source report = Inr (feedback_dict h (int (length (v # vs))) es) \<and>
        proposal_spec lib (PDict (task @ [(''feedback'', feedback_dict h (int (length (v # vs))) es)])) = Inr task
      else semantic_feedback lib task source report = Inl (StructuredBlocked ''feedback_failures''))"
proof -
  let ?n = "int (length (v # vs))" and ?fits = "\<lambda>es. length (dumps_of lib False (feedback_dict h (int (length (v # vs))) es)) \<le> FEEDBACK_LIMIT"
  define es where "es = fitting lib h ?n [] (map (feedback_entry task) (take 8 (v # vs)))"
  have step: "es = (if ?fits [feedback_entry task v] then fitting lib h ?n [feedback_entry task v] (map (feedback_entry task) (take 7 vs)) else [])"
    by (simp add: es_def not_less [symmetric])
  have "SHA64 h" using assms(5) sha64_hex by (auto simp: candidate_fingerprint_def bindE_Inr)
  moreover have "?n \<le> int (length (list_at task ''cases''))" using report_facts(3) [OF assms(3)] assms(4) by simp
  moreover note fitting_entries [OF assms(1-3), unfolded assms(4), OF es_def]
  ultimately have p: "proposal_spec lib (PDict (task @ [(''feedback'', feedback_dict h ?n es)])) =
      (if es = [] then Inl (StructuredBlocked ''feedback_failures'') else if ?fits es then Inr task else Inl (StructuredBlocked ''feedback_size''))"
    using proposal_feedback [OF assms(1), of h ?n es] by (auto simp: need_block_def Suc_le_eq)
  have f: "semantic_feedback lib task source report =
      bindE (proposal_spec lib (PDict (task @ [(''feedback'', feedback_dict h ?n es)]))) (\<lambda>_. Inr (feedback_dict h ?n es))"
    using assms(3-5) by (simp add: semantic_feedback_def Let_def es_def)
  show ?thesis
  proof (cases "?fits [feedback_entry task v]")
    case True
    then have es: "es = fitting lib h ?n [feedback_entry task v] (map (feedback_entry task) (take 7 vs))" by (simp add: step)
    then have "es \<noteq> []" using fitting_prefix [of lib h ?n "[feedback_entry task v]" "map (feedback_entry task) (take 7 vs)"] by auto
    moreover have "?fits es" unfolding es by (rule fitting_fits [OF True])
    ultimately show ?thesis using True p f by auto
  next
    case False
    then show ?thesis using p f by (simp add: step)
  qed
qed

text \<open>A candidate that always answers \<^verbatim>\<open>z\<close> fails both cases of the example.\<close>

definition sw_bad :: runner where
  "sw_bad tree fname args = Returned (PStr ''z'')"

definition sw_bad_report :: pyval where
  "sw_bad_report = child_report sw_lib2 sw_bad sw_module sw_full"

definition sw_failures :: "pyval list" where
  "sw_failures = list_at (dict_in sw_bad_report) ''failures''"

theorem feedback_iff_first_fits_witness:
  "sw_failures \<noteq> [] \<and>
   (if length (dumps_of sw_lib2 False (feedback_dict (sha256_hex ''Module'') (int (length sw_failures)) [feedback_entry sw_full (hd sw_failures)])) \<le> FEEDBACK_LIMIT
    then \<exists>es. semantic_feedback sw_lib2 sw_full (sw_text @ [newline]) sw_bad_report = Inr (feedback_dict (sha256_hex ''Module'') (int (length sw_failures)) es) \<and>
      proposal_spec sw_lib2 (PDict (sw_full @ [(''feedback'', feedback_dict (sha256_hex ''Module'') (int (length sw_failures)) es)])) = Inr sw_full
    else semantic_feedback sw_lib2 sw_full (sw_text @ [newline]) sw_bad_report = Inl (StructuredBlocked ''feedback_failures''))"
proof -
  have "run_cases sw_lib2 (sw_bad sw_module ''f'') 0 (list_at sw_full ''cases'') \<noteq> []"
    unfolding run_cases_Nil by (auto simp: sw_full_def list_at_def sw_case_def sw_bad_def run_case_def bounded_json.simps same_result_def)
  moreover have "text_at sw_full ''function'' = ''f''" by (simp add: sw_full_def text_at_def)
  ultimately have ne: "sw_failures \<noteq> []"
    by (simp add: sw_failures_def sw_bad_report_def child_report_def report_fields list_at_def [of "_ # _"] Let_def)
  have p: "proper (PDict sw_full)" by (simp add: sw_full_def sw_case_def)
  have r: "validate_report sw_lib2 sw_bad_report sw_full = Inr (dict_in sw_bad_report)"
    unfolding sw_bad_report_def by (rule child_report_valid) (auto simp: sw_bad_def)
  have h: "candidate_fingerprint sw_lib2 (sw_text @ [newline]) sw_full = Inr (sha256_hex ''Module'')"
    by (simp add: candidate_fingerprint_def sw_full_guarded) (simp add: sw_lib2_def sw_lib_def)
  have f: "list_at (dict_in sw_bad_report) ''failures'' = hd sw_failures # tl sw_failures" using ne by (simp add: sw_failures_def)
  have s: "hd sw_failures # tl sw_failures = sw_failures" using ne by simp
  show ?thesis using feedback_iff_first_fits [OF sw_full_spec p r f h] ne unfolding s by blast
qed

end
