(* ===== verification/Structured_Anchors.thy ===== *)
theory Structured_Anchors
  imports Structured_Worker
begin

text \<open>
  \<^verbatim>\<open>app/structured_anchors.py\<close>: revisions of a candidate by line. Every line of the function's text but the first has an anchor; a
  model replaces anchored lines or puts a guard with an early return in front of them. In the order of the source: the catalogue
  of lines, the schemas that are offered to the model, the literals and statements a guard may use, and the assembly of an answer.
\<close>

section \<open>The catalogue\<close>

definition require_anchor :: "bool \<Rightarrow> string \<Rightarrow> unit checked" where
  "require_anchor ok reason = (if ok then Inr () else Inl (AnchorRejected reason None))"

lemma require_anchor_Inr [outcome_simps]: "require_anchor ok reason = Inr u \<longleftrightarrow> ok"
  by (simp add: require_anchor_def)

definition blank :: "string \<Rightarrow> bool" where
  "blank l \<longleftrightarrow> py_strip l = []"

definition indented :: "string \<Rightarrow> bool" where
  "indented l \<longleftrightarrow> starts_with ''    '' l"

definition anchor_of :: "nat \<Rightarrow> string" where
  "anchor_of i = ''L'' @ show_nat (Suc i)"

type_synonym line_anchors = "(string \<times> nat) list"

definition line_catalog :: "string \<Rightarrow> line_anchors checked" where
  "line_catalog source =
     (let lines = splitlines_keep source in
      bindE (require_anchor (1 \<le> length source \<and> length source \<le> 20000) ''revision_size'') (\<lambda>_.
      bindE (require_anchor (2 \<le> length lines \<and> length lines \<le> 350) ''revision_anchor_source'') (\<lambda>_.
      bindE (require_anchor (starts_with ''def '' (lines ! 0) \<and> ends_with '':'' (rstrip (lines ! 0))) ''revision_anchor_source'') (\<lambda>_.
      bindE (require_anchor (list_all (\<lambda>l. blank l \<or> indented l) (tl lines)) ''revision_anchor_source'') (\<lambda>_.
      Inr (map (\<lambda>i. (anchor_of i, i)) (filter (\<lambda>i. \<not> blank (lines ! i)) [1..<length lines])))))))"

section \<open>Schemas\<close>

definition backslash :: char where
  "backslash = CHR 0x5C"

definition no_brackets :: string where
  "no_brackets = ''[^'' @ [backslash] @ ''['' @ [backslash] @ '']''"

definition NEW_PATTERN :: string where
  "NEW_PATTERN = ''^'' @ no_brackets @ '']*$''"

definition HEADER_NEW_PATTERN :: string where
  "HEADER_NEW_PATTERN = ''^'' @ no_brackets @ '']*:[ '' @ [backslash] @ ''n]*$''"

definition GUARD_EXPRESSION_PATTERN :: string where
  "GUARD_EXPRESSION_PATTERN =
     ''^'' @ no_brackets @ [backslash] @ ''r'' @ [backslash] @ ''n'' @ [backslash] @ ''t'' @ [backslash] @ ''x00]+$''"

definition strings :: "string list \<Rightarrow> pyval" where
  "strings xs = PList (map PStr xs)"

definition object_schema :: "pydict \<Rightarrow> string list \<Rightarrow> pyval" where
  "object_schema properties required =
     PDict [(''type'', PStr ''object''), (''properties'', PDict properties), (''required'', strings required), (''additionalProperties'', PBool False)]"

definition anchor_schema :: "string list \<Rightarrow> string \<times> pyval" where
  "anchor_schema permitted = (''anchor'', PDict [(''type'', PStr ''string''), (''enum'', strings permitted)])"

definition expression_schema :: pyval where
  "expression_schema = PDict [(''type'', PStr ''string''), (''minLength'', PInt 1), (''maxLength'', PInt 2000),
     (''pattern'', PStr GUARD_EXPRESSION_PATTERN)]"

definition new_schema :: "string \<Rightarrow> string \<times> pyval" where
  "new_schema pattern = (''new'', PDict [(''type'', PStr ''string''), (''maxLength'', PInt 6000), (''pattern'', PStr pattern)])"

definition array_schema :: "int \<Rightarrow> int \<Rightarrow> pyval \<Rightarrow> pyval" where
  "array_schema least most items =
     PDict [(''type'', PStr ''array''), (''minItems'', PInt least), (''maxItems'', PInt most), (''items'', items)]"

definition is_header :: "string \<Rightarrow> bool" where
  "is_header l \<longleftrightarrow> ends_with '':'' (rstrip l)"

definition is_if_header :: "string \<Rightarrow> bool" where
  "is_if_header l \<longleftrightarrow> starts_with ''if '' (lstrip l) \<and> is_header l"

definition anchored_schema :: "string \<Rightarrow> pyval checked" where
  "anchored_schema source =
     bindE (line_catalog source) (\<lambda>anchors.
     bindE (require_anchor (anchors \<noteq> []) ''revision_anchor_source'') (\<lambda>_.
     let lines = splitlines_keep source;
         headers = map fst (filter (\<lambda>(_, i). is_header (lines ! i)) anchors);
         ordinary = filter (\<lambda>a. a \<notin> set headers) (map fst anchors);
         guardable = map fst (filter (\<lambda>(_, i). is_if_header (lines ! i)) anchors);
         edits = concat (map (\<lambda>(permitted, pattern). if permitted = [] then []
           else [object_schema [anchor_schema permitted, new_schema pattern] [''anchor'', ''new'']])
           [(headers, HEADER_NEW_PATTERN), (ordinary, NEW_PATTERN)]);
         variants = edits @ (if guardable = [] then []
           else [object_schema [anchor_schema guardable, (''guard'', expression_schema), (''return_expression'', expression_schema)]
                   [''anchor'', ''guard'', ''return_expression'']]) in
     Inr (object_schema [(''edits'', array_schema 1 6 (if 1 < length variants then PDict [(''oneOf'', PList variants)] else hd variants))] [''edits''])))"

definition edits_schema :: "pydict \<Rightarrow> string list \<Rightarrow> pyval" where
  "edits_schema properties required = object_schema [(''edits'', array_schema 1 6 (object_schema properties required))] [''edits'']"

definition catalog_anchors :: "string \<Rightarrow> string list checked" where
  "catalog_anchors source =
     bindE (line_catalog source) (\<lambda>anchors.
     bindE (require_anchor (anchors \<noteq> []) ''revision_anchor_source'') (\<lambda>_. Inr (map fst anchors)))"

definition inference_schema :: "string \<Rightarrow> pyval checked" where
  "inference_schema source =
     bindE (catalog_anchors source) (\<lambda>anchors.
     Inr (edits_schema [anchor_schema anchors, new_schema NEW_PATTERN, (''guard'', expression_schema), (''return_expression'', expression_schema)] [''anchor'']))"

definition plain_string :: pyval where
  "plain_string = PDict [(''type'', PStr ''string'')]"

text \<open>The two functions below change the schema of the previous one in place: the constraints of three properties go, then two of the
  properties.\<close>

definition lightweight_anchor_schema :: "string \<Rightarrow> pyval checked" where
  "lightweight_anchor_schema source =
     bindE (catalog_anchors source) (\<lambda>anchors.
     Inr (edits_schema [anchor_schema anchors, (''new'', plain_string), (''guard'', plain_string), (''return_expression'', plain_string)] [''anchor'']))"

definition replacement_only_schema :: "string \<Rightarrow> pyval checked" where
  "replacement_only_schema source =
     bindE (catalog_anchors source) (\<lambda>anchors.
     Inr (edits_schema [anchor_schema anchors, (''new'', plain_string)] [''anchor'', ''new'']))"

section \<open>What a guard may use\<close>

definition source_error :: serror where
  "source_error = AnchorRejected ''revision_anchor_source'' None"

definition only_function :: "py_lib \<Rightarrow> string \<Rightarrow> ast checked" where
  "only_function lib source =
     bindE (parse_or lib source_error source) (\<lambda>tree.
     case items_at tree ''body'' of
       [ANode f] \<Rightarrow> if ty f = ''FunctionDef'' then Inr f else Inl source_error
     | _ \<Rightarrow> Inl source_error)"

definition is_scalar :: "afield \<Rightarrow> bool" where
  "is_scalar f \<longleftrightarrow> (case f of AVal (PList _) \<Rightarrow> False | AVal (PDict _) \<Rightarrow> False | AVal _ \<Rightarrow> True | AOther t \<Rightarrow> t = ''float'' | _ \<Rightarrow> False)"

definition literal_return :: "ast \<Rightarrow> ast option" where
  "literal_return n = (case node_at n ''value'' of
     Some v \<Rightarrow> if ty v = ''Constant'' \<and> is_scalar (attr v ''value'') then Some v else None | None \<Rightarrow> None)"

fun new_texts :: "string list \<Rightarrow> string list \<Rightarrow> string list" where
  "new_texts seen [] = seen"
| "new_texts seen (x # xs) = new_texts (if length x \<le> 128 \<and> x \<notin> set seen then seen @ [x] else seen) xs"

definition guard_return_literals :: "py_lib \<Rightarrow> string \<Rightarrow> string list checked" where
  "guard_return_literals lib source =
     bindE (line_catalog source) (\<lambda>_.
     bindE (only_function lib source) (\<lambda>f.
     let returns = sort_key (\<lambda>n. (lineno n, col_offset n)) (filter (\<lambda>n. ty n = ''Return'') (ast_walk f)) in
     Inr (take 16 (new_texts [] (map (unparse lib) (List.map_filter literal_return returns))))))"

definition STATEMENTS :: "string list" where
  "STATEMENTS = [''If'', ''For'', ''Assign'', ''Return'', ''Expr'']"

definition statement_at :: "line_anchors \<Rightarrow> string list \<Rightarrow> ast \<Rightarrow> bool" where
  "statement_at anchors lines n \<longleftrightarrow>
     ty n \<in> set STATEMENTS \<and> lineno n \<noteq> 0 \<and> anchor_of (lineno n - 1) \<in> fst ` set anchors \<and>
     (let l = lines ! (lineno n - 1) in
      col_offset n = length l - length (lstrip_of (CHR '' '') l) \<and>
      \<not> starts_with ''elif '' (lstrip l) \<and> \<not> starts_with ''elif('' (lstrip l))"

definition statement_anchors :: "py_lib \<Rightarrow> string \<Rightarrow> string list checked" where
  "statement_anchors lib source =
     bindE (line_catalog source) (\<lambda>anchors.
     bindE (only_function lib source) (\<lambda>f.
     let locations = map (\<lambda>n. anchor_of (lineno n - 1)) (filter (statement_at anchors (splitlines source)) (ast_walk f)) in
     Inr (filter (\<lambda>a. a \<in> set locations) (map fst anchors))))"

text \<open>The one or two forms of a guard: \<^verbatim>\<open>not isinstance(s, t)\<close>, and the same after \<^verbatim>\<open>s is not None and\<close> for the same \<open>s\<close>, where \<open>s\<close> is a name
  or \<^verbatim>\<open>name.get("key")\<close>.\<close>

definition subject :: "ast \<Rightarrow> bool" where
  "subject v \<longleftrightarrow>
     (if ty v = ''Name'' then \<not> dunder (name_at v ''id'')
      else if ty v \<noteq> ''Call'' then False
      else (case (node_at v ''func'', items_at v ''args'') of
        (Some f, [ANode k]) \<Rightarrow>
          ty f = ''Attribute'' \<and> name_at f ''attr'' = ''get'' \<and>
          (case node_at f ''value'' of None \<Rightarrow> False | Some d \<Rightarrow> ty d = ''Name'' \<and> \<not> dunder (name_at d ''id'')) \<and>
          items_at v ''keywords'' = [] \<and> ty k = ''Constant'' \<and>
          (case attr k ''value'' of AVal (PStr s) \<Rightarrow> length s \<le> 128 | _ \<Rightarrow> False)
      | _ \<Rightarrow> False))"

definition CHECKED_TYPES :: "string list" where
  "CHECKED_TYPES = [''str'', ''dict'', ''list'', ''bool'', ''int'', ''float'']"

definition negative_isinstance :: "ast \<Rightarrow> ast option" where
  "negative_isinstance v =
     (if ty v = ''UnaryOp'' \<and> is_ty ''Not'' (node_at v ''op'')
      then (case node_at v ''operand'' of
        None \<Rightarrow> None
      | Some c \<Rightarrow>
          (case (node_at c ''func'', items_at c ''args'') of
             (Some f, [ANode s, ANode t]) \<Rightarrow>
               if ty c = ''Call'' \<and> ty f = ''Name'' \<and> name_at f ''id'' = ''isinstance'' \<and> items_at c ''keywords'' = [] \<and>
                  ty t = ''Name'' \<and> name_at t ''id'' \<in> set CHECKED_TYPES \<and> subject s then Some s else None
           | _ \<Rightarrow> None))
      else None)"

definition none_check :: "ast \<Rightarrow> ast option" where
  "none_check c =
     (case (node_at c ''left'', items_at c ''ops'', items_at c ''comparators'') of
        (Some l, [ANode op], [ANode r]) \<Rightarrow>
          if ty c = ''Compare'' \<and> ty op = ''IsNot'' \<and> ty r = ''Constant'' \<and> attr r ''value'' = AVal PNone \<and> subject l then Some l else None
      | _ \<Rightarrow> None)"

definition validated_type_guard :: "py_lib \<Rightarrow> ast \<Rightarrow> string checked" where
  "validated_type_guard lib n =
     bindE (require_anchor
       (case (if ty n = ''BoolOp'' \<and> is_ty ''And'' (node_at n ''op'') then items_at n ''values'' else []) of
          [ANode c, ANode g] \<Rightarrow>
            (case (none_check c, negative_isinstance g) of (Some l, Some s) \<Rightarrow> dump lib l = dump lib s | _ \<Rightarrow> False)
        | _ \<Rightarrow> negative_isinstance n \<noteq> None) ''revision_guard_expression'') (\<lambda>_.
     Inr (unparse lib n))"

definition model_split_schema :: "py_lib \<Rightarrow> string \<Rightarrow> pyval checked" where
  "model_split_schema lib source =
     bindE (catalog_anchors source) (\<lambda>anchors.
     bindE (statement_anchors lib source) (\<lambda>guardable.
     bindE (guard_return_literals lib source) (\<lambda>literals.
     let choice = (\<lambda>xs. if xs = [] then plain_string else PDict [(''type'', PStr ''string''), (''enum'', strings xs)]) in
     Inr (object_schema
       [(''edits'', array_schema 0 6 (object_schema [anchor_schema anchors, (''new'', plain_string)] [''anchor'', ''new''])),
        (''guards'', array_schema 0 (if literals = [] then 0 else min 6 (int (length guardable)))
           (object_schema [(''anchor'', choice guardable), (''guard'', plain_string), (''return_expression'', choice literals)]
              [''anchor'', ''guard'', ''return_expression'']))]
       [''edits'', ''guards'']))))"

section \<open>Assembly\<close>

definition edit_list :: "bool \<Rightarrow> pyval \<Rightarrow> pyval list checked" where
  "edit_list model_split v =
     (let d = dict_in v; edits = list_at d ''edits''; guards = list_at d ''guards'' in
      bindE (require_anchor (is_dict v) ''revision_schema'') (\<lambda>_.
      if model_split
      then bindE (require_anchor (keys d = {''edits'', ''guards''} \<and> is_list (get d ''edits'') \<and> is_list (get d ''guards'') \<and>
                    1 \<le> length edits + length guards \<and> length edits + length guards \<le> 6) ''revision_schema'') (\<lambda>_.
           bindE (each (\<lambda>e. require_anchor (is_dict e \<and> keys (dict_in e) = {''anchor'', ''new''}) ''revision_edit_schema'') edits) (\<lambda>_.
           bindE (each (\<lambda>g. require_anchor (is_dict g \<and> keys (dict_in g) = {''anchor'', ''guard'', ''return_expression''}) ''revision_edit_schema'') guards) (\<lambda>_.
           Inr (edits @ guards))))
      else bindE (require_anchor (keys d = {''edits''} \<and> is_list (get d ''edits'') \<and> 1 \<le> length edits \<and> length edits \<le> 6) ''revision_schema'') (\<lambda>_.
           Inr edits)))"

record assembly =
  replacements :: "(nat \<times> string) list"
  guards :: "(nat \<times> string) list"

definition indent_of :: "string \<Rightarrow> string" where
  "indent_of l = takeWhile (\<lambda>c. c = CHR '' '') l"

definition anchor_index :: "line_anchors \<Rightarrow> string \<Rightarrow> nat checked" where
  "anchor_index anchors a =
     (case map_of anchors a of
        None \<Rightarrow> Inl (AnchorRejected ''revision_anchor_invalid'' (Some ''unknown_anchor'')) | Some i \<Rightarrow> Inr i)"

text \<open>The expressions of a guard: taken as they are, or in the split form only after parsing, with a literal of the source as the value.\<close>

definition guard_texts :: "py_lib \<Rightarrow> bool \<Rightarrow> string \<Rightarrow> string \<Rightarrow> string \<Rightarrow> (string \<times> string) checked" where
  "guard_texts lib model_split source condition result =
     (if model_split
      then (case (parse_eval lib condition, parse_eval lib result) of
        (Some g, Some r) \<Rightarrow>
          bindE (require_anchor (ty r = ''Constant'') ''revision_edit_schema'') (\<lambda>_.
          bindE (guard_return_literals lib source) (\<lambda>literals.
          bindE (require_anchor (unparse lib r \<in> set literals) ''revision_edit_schema'') (\<lambda>_.
          bindE (validated_type_guard lib g) (\<lambda>text. Inr (text, unparse lib r)))))
      | _ \<Rightarrow> Inl (AnchorRejected ''revision_edit_schema'' None))
      else Inr (condition, result))"

definition guardable_line :: "py_lib \<Rightarrow> bool \<Rightarrow> string \<Rightarrow> string \<Rightarrow> string \<Rightarrow> unit checked" where
  "guardable_line lib model_split source anchor original =
     (if is_if_header original then Inr ()
      else if \<not> model_split then Inl (AnchorRejected ''revision_anchor_invalid'' (Some ''guard_not_if_header''))
      else bindE (statement_anchors lib source) (\<lambda>allowed.
        if anchor \<in> set allowed then Inr () else Inl (AnchorRejected ''revision_anchor_invalid'' (Some ''guard_not_statement''))))"

definition guard_text :: "string \<Rightarrow> string \<Rightarrow> string \<Rightarrow> string" where
  "guard_text indent condition result =
     indent @ ''if '' @ condition @ '':'' @ [newline] @ indent @ ''    return '' @ result @ [newline]"

definition guard_edit :: "py_lib \<Rightarrow> bool \<Rightarrow> string \<Rightarrow> line_anchors \<Rightarrow> pydict \<Rightarrow> assembly \<Rightarrow> assembly checked" where
  "guard_edit lib model_split source anchors edit st =
     (let anchor = text_at edit ''anchor''; condition = text_at edit ''guard''; result = text_at edit ''return_expression'' in
      bindE (require_anchor (is_text (get edit ''anchor'') \<and>
               text_with (\<lambda>s. 1 \<le> length s \<and> length s \<le> 2000) (get edit ''guard'') \<and>
               text_with (\<lambda>s. 1 \<le> length s \<and> length s \<le> 2000) (get edit ''return_expression'')) ''revision_edit_schema'') (\<lambda>_.
      bindE (anchor_index anchors anchor) (\<lambda>i.
      bindE (require_anchor (i \<notin> fst ` set (guards st) \<and> (model_split \<or> i \<notin> fst ` set (replacements st))) ''revision_anchor_duplicate'') (\<lambda>_.
      let original = splitlines_keep source ! i in
      bindE (guardable_line lib model_split source anchor original) (\<lambda>_.
      bindE (require_anchor (list_all (\<lambda>c. code c \<notin> {13, 10, 9, 0, 91, 93}) (condition @ result)) ''revision_indentation'') (\<lambda>_.
      bindE (guard_texts lib model_split source condition result) (\<lambda>(c, r).
      Inr (st\<lparr>guards := guards st @ [(i, guard_text (indent_of original) c r)]\<rparr>))))))))"

definition replaced_text :: "string \<Rightarrow> string list \<Rightarrow> string" where
  "replaced_text indent added = concat (map (\<lambda>l. indent @ l @ [newline]) added)"

definition line_edit :: "bool \<Rightarrow> string \<Rightarrow> line_anchors \<Rightarrow> pydict \<Rightarrow> assembly \<Rightarrow> assembly checked" where
  "line_edit model_split source anchors edit st =
     (let anchor = text_at edit ''anchor''; new = text_at edit ''new''; added = splitlines new in
      bindE (require_anchor (keys edit = {''anchor'', ''new''} \<and> is_text (get edit ''anchor'') \<and>
               text_with (\<lambda>s. length s \<le> 6000) (get edit ''new'')) ''revision_edit_schema'') (\<lambda>_.
      bindE (anchor_index anchors anchor) (\<lambda>i.
      bindE (require_anchor (i \<notin> fst ` set (replacements st) \<and> (model_split \<or> i \<notin> fst ` set (guards st))) ''revision_anchor_duplicate'') (\<lambda>_.
      bindE (require_anchor (list_all (\<lambda>c. code c \<notin> {13, 9, 0}) new) ''revision_indentation'') (\<lambda>_.
      bindE (require_anchor (added = [] \<or> hd added \<noteq> [] \<and> \<not> py_isspace (hd (hd added))) ''revision_indentation'') (\<lambda>_.
      let original = splitlines_keep source ! i in
      bindE (require_anchor (is_header original \<longrightarrow> added \<noteq> [] \<and> is_header (last added)) ''revision_block_header'') (\<lambda>_.
      Inr (st\<lparr>replacements := replacements st @ [(i, replaced_text (indent_of original) added)]\<rparr>))))))))"

definition edit_step :: "py_lib \<Rightarrow> bool \<Rightarrow> string \<Rightarrow> line_anchors \<Rightarrow> pyval \<Rightarrow> assembly \<Rightarrow> assembly checked" where
  "edit_step lib model_split source anchors v st =
     bindE (require_anchor (is_dict v) ''revision_edit_schema'') (\<lambda>_.
     if keys (dict_in v) = {''anchor'', ''guard'', ''return_expression''}
     then guard_edit lib model_split source anchors (dict_in v) st
     else line_edit model_split source anchors (dict_in v) st)"

text \<open>First the replacements go in, then the guards in front of what is there.\<close>

definition apply_assembly :: "assembly \<Rightarrow> string list \<Rightarrow> string list" where
  "apply_assembly st lines =
     fold (\<lambda>(i, prefix) ls. ls[i := prefix @ ls ! i]) (guards st) (fold (\<lambda>(i, t) ls. ls[i := t]) (replacements st) lines)"

definition assemble_anchors :: "py_lib \<Rightarrow> bool \<Rightarrow> string \<Rightarrow> string \<Rightarrow> (string \<times> pyval list) checked" where
  "assemble_anchors lib model_split reply source =
     bindE (line_catalog source) (\<lambda>anchors.
     bindE (require_anchor (length reply \<le> 16384) ''revision_size'') (\<lambda>_.
     bindE (case loads lib reply of None \<Rightarrow> Inl (AnchorRejected ''revision_json'' None) | Some v \<Rightarrow> edit_list model_split v) (\<lambda>edits.
     bindE (foldE (edit_step lib model_split source anchors) edits \<lparr>replacements = [], guards = []\<rparr>) (\<lambda>st.
     let assembled = concat (apply_assembly st (splitlines_keep source)) in
     bindE (require_anchor (assembled \<noteq> source) ''candidate_repeated'') (\<lambda>_.
     bindE (require_anchor (length assembled \<le> 20000) ''revision_size'') (\<lambda>_.
     Inr (assembled, edits)))))))"

end
