(* ===== verification/Structured_Actions.thy ===== *)
theory Structured_Actions
  imports Py_Ast
begin

text \<open>
  Code of the structured worker that has effects: it takes a world (the record of a diagnosis, or the files and processes of a
  repair) and returns an exception or a value, with the world as it left it. And a dictionary updated at a key, which keeps the place of the key.
\<close>

type_synonym ('a, 'w) doing = "'w \<Rightarrow> 'a checked \<times> 'w"

definition tret :: "'a \<Rightarrow> ('a, 'w) doing" where
  "tret a t = (Inr a, t)"

definition tlift :: "'a checked \<Rightarrow> ('a, 'w) doing" where
  "tlift r t = (r, t)"

definition tbind :: "('a, 'w) doing \<Rightarrow> ('a \<Rightarrow> ('b, 'w) doing) \<Rightarrow> ('b, 'w) doing" where
  "tbind m f t = (case m t of (Inl e, t') \<Rightarrow> (Inl e, t') | (Inr a, t') \<Rightarrow> f a t')"

definition tneed :: "bool \<Rightarrow> string \<Rightarrow> (unit, 'w) doing" where
  "tneed ok reason = tlift (need_block ok reason)"

definition tread :: "('w \<Rightarrow> 'a) \<Rightarrow> ('a, 'w) doing" where
  "tread f t = (Inr (f t), t)"

text \<open>\<^verbatim>\<open>and\<close> of tests that look at the world: the first that fails ends it.\<close>

fun all_hold :: "(bool, 'w) doing list \<Rightarrow> (bool, 'w) doing" where
  "all_hold [] = tret True"
| "all_hold (m # ms) = tbind m (\<lambda>b. if b then all_hold ms else tret False)"

text \<open>\<^verbatim>\<open>except (AnchorRejected, StructuredBlocked)\<close> around a body with a result.\<close>

definition unless_rejected :: "('a, 'w) doing \<Rightarrow> ('a option, 'w) doing" where
  "unless_rejected m t = (case m t of
     (Inr a, t') \<Rightarrow> (Inr (Some a), t')
   | (Inl (StructuredBlocked _), t') \<Rightarrow> (Inr None, t')
   | (Inl (AnchorRejected _ _), t') \<Rightarrow> (Inr None, t')
   | (Inl e, t') \<Rightarrow> (Inl e, t'))"

text \<open>\<^verbatim>\<open>try ... finally\<close>.\<close>

definition lastly :: "('a, 'w) doing \<Rightarrow> ('w \<Rightarrow> 'w) \<Rightarrow> ('a, 'w) doing" where
  "lastly m cleanup t = (case m t of (r, t') \<Rightarrow> (r, cleanup t'))"

named_theorems doing_simps

lemma tret_Inr [doing_simps]: "tret a t = (Inr b, t') \<longleftrightarrow> b = a \<and> t' = t"
  by (auto simp: tret_def)

lemma tlift_Inr [doing_simps]: "tlift r t = (Inr b, t') \<longleftrightarrow> r = Inr b \<and> t' = t"
  by (auto simp: tlift_def)

lemma tneed_Inr [doing_simps]: "tneed ok reason t = (Inr b, t') \<longleftrightarrow> ok \<and> t' = t"
  by (auto simp: tneed_def doing_simps outcome_simps)

lemma tread_Inr [doing_simps]: "tread f t = (Inr b, t') \<longleftrightarrow> b = f t \<and> t' = t"
  by (auto simp: tread_def)

lemma tbind_Inr [doing_simps]: "tbind m f t = (Inr b, t') \<longleftrightarrow> (\<exists>a t1. m t = (Inr a, t1) \<and> f a t1 = (Inr b, t'))"
  by (auto simp: tbind_def split: prod.splits sum.splits)

lemma lastly_Inr [doing_simps]: "lastly m c t = (Inr b, t') \<longleftrightarrow> (\<exists>t1. m t = (Inr b, t1) \<and> t' = c t1)"
  by (auto simp: lastly_def split: prod.splits)

lemma unless_rejected_world [simp]: "snd (unless_rejected m t) = snd (m t)"
  by (simp add: unless_rejected_def split: prod.split sum.split serror.split)

lemma unless_rejected_Some [doing_simps]: "unless_rejected m t = (Inr (Some a), t') \<longleftrightarrow> m t = (Inr a, t')"
  by (auto simp: unless_rejected_def split: prod.splits sum.splits serror.splits)

fun put_key :: "string \<Rightarrow> pyval \<Rightarrow> pydict \<Rightarrow> pydict" where
  "put_key k v [] = [(k, v)]"
| "put_key k v ((k', w) # d) = (if k' = k then (k, v) # d else (k', w) # put_key k v d)"

definition put_all :: "pydict \<Rightarrow> pydict \<Rightarrow> pydict" where
  "put_all kvs d = fold (\<lambda>(k, v). put_key k v) kvs d"

lemma get_put_key: "get (put_key k v d) k' = (if k' = k then v else get d k')"
  by (induction k v d rule: put_key.induct) auto

section \<open>What an action costs and what it keeps\<close>

text \<open>A resource of the world that an action uses at most \<open>n\<close> of; a part of the world that it does not change.\<close>

definition uses :: "('w \<Rightarrow> nat) \<Rightarrow> nat \<Rightarrow> ('a, 'w) doing \<Rightarrow> bool" where
  "uses c n m \<longleftrightarrow> (\<forall>t. c (snd (m t)) \<le> c t + n)"

definition keeps_part :: "('w \<Rightarrow> 'f) \<Rightarrow> ('a, 'w) doing \<Rightarrow> bool" where
  "keeps_part f m \<longleftrightarrow> (\<forall>t. f (snd (m t)) = f t)"

lemma uses_mono: "uses c n m \<Longrightarrow> n \<le> k \<Longrightarrow> uses c k m"
  unfolding uses_def by (meson add_left_mono le_trans)

lemma uses_pure [simp]: "uses c n (tret a)" "uses c n (tlift r)" "uses c n (tneed b s)" "uses c n (tread f)"
  by (simp_all add: uses_def tret_def tlift_def tneed_def tread_def)

lemma uses_bind: "uses c n m \<Longrightarrow> (\<And>a. uses c k (f a)) \<Longrightarrow> uses c (n + k) (tbind m f)"
  unfolding uses_def
proof
  fix t
  assume m: "\<forall>t. c (snd (m t)) \<le> c t + n" and f: "\<And>a. \<forall>t. c (snd (f a t)) \<le> c t + k"
  obtain r t1 where r: "m t = (r, t1)" by fastforce
  with m have "c t1 \<le> c t + n" by (metis snd_conv)
  moreover have "c (snd (f a t1)) \<le> c t1 + k" for a using f by blast
  ultimately have "c (snd (f a t1)) \<le> c t + (n + k)" for a by (metis add.assoc add_le_mono1 le_trans)
  with \<open>c t1 \<le> c t + n\<close> show "c (snd (tbind m f t)) \<le> c t + (n + k)" by (auto simp: tbind_def r split: sum.split)
qed

lemma uses_free: "uses c 0 m \<Longrightarrow> (\<And>a. uses c n (f a)) \<Longrightarrow> uses c n (tbind m f)"
  using uses_bind [of c 0 m n f] by simp

lemma uses_lift: "(\<And>a. uses c n (f a)) \<Longrightarrow> uses c n (tbind (tlift r) f)"
  by (auto intro: uses_free)

lemma uses_need: "(\<And>a. uses c n (f a)) \<Longrightarrow> uses c n (tbind (tneed b s) f)"
  by (auto intro: uses_free)

lemma uses_read_world: "(\<And>a. uses c n (f a)) \<Longrightarrow> uses c n (tbind (tread g) f)"
  by (auto intro: uses_free)

lemma uses_if: "(b \<Longrightarrow> uses c n m) \<Longrightarrow> (\<not> b \<Longrightarrow> uses c n m') \<Longrightarrow> uses c n (if b then m else m')"
  by simp

lemmas uses_steps = uses_lift uses_need uses_read_world uses_if

lemma uses_pay: "uses c n m \<Longrightarrow> (\<And>a. uses c 0 (f a)) \<Longrightarrow> uses c n (tbind m f)"
  using uses_bind [of c n m 0 f] by simp

lemma uses_all_hold: "(\<And>m. m \<in> set ms \<Longrightarrow> uses c 0 m) \<Longrightarrow> uses c 0 (all_hold ms)"
  by (induction ms) (auto intro!: uses_free)

lemma uses_unless: "uses c n m \<Longrightarrow> uses c n (unless_rejected m)"
  by (simp add: uses_def)

lemma keeps_part_pure [simp]: "keeps_part f (tret a)" "keeps_part f (tlift r)" "keeps_part f (tneed b s)" "keeps_part f (tread g)"
  by (simp_all add: keeps_part_def tret_def tlift_def tneed_def tread_def)

lemma keeps_part_bind: "keeps_part f m \<Longrightarrow> (\<And>a. keeps_part f (g a)) \<Longrightarrow> keeps_part f (tbind m g)"
  unfolding keeps_part_def tbind_def by (simp split: prod.split sum.split) (metis snd_conv)

lemma keeps_part_all_hold: "(\<And>m. m \<in> set ms \<Longrightarrow> keeps_part f m) \<Longrightarrow> keeps_part f (all_hold ms)"
  by (induction ms) (auto intro!: keeps_part_bind)

lemma keeps_part_unless: "keeps_part f m \<Longrightarrow> keeps_part f (unless_rejected m)"
  by (simp add: keeps_part_def)

lemma keeps_part_run: "keeps_part f m \<Longrightarrow> m t = (r, t') \<Longrightarrow> f t' = f t"
  unfolding keeps_part_def by (metis snd_conv)

text \<open>A part that an action leaves as it was or sets to something with \<open>P\<close>, unless it fails with an error and a content as \<open>B\<close> says.\<close>

definition lands :: "('w \<Rightarrow> 'f) \<Rightarrow> ('f \<Rightarrow> bool) \<Rightarrow> (serror \<Rightarrow> 'f \<Rightarrow> bool) \<Rightarrow> ('a, 'w) doing \<Rightarrow> bool" where
  "lands f P B m \<longleftrightarrow>
     (\<forall>w. f (snd (m w)) = f w \<or> P (f (snd (m w))) \<or> (\<exists>e. fst (m w) = Inl e \<and> B e (f (snd (m w)))))"

lemma lands_keeps: "keeps_part f m \<Longrightarrow> lands f P B m"
  by (simp add: lands_def keeps_part_def)

lemma lands_bind:
  assumes "lands f P B m" "\<And>a w w'. m w = (Inr a, w') \<Longrightarrow> lands f P B (g a)"
  shows "lands f P B (tbind m g)"
  unfolding lands_def
proof
  fix w
  obtain r w1 where r: "m w = (r, w1)" by fastforce
  with assms(1) have one: "f w1 = f w \<or> P (f w1) \<or> (\<exists>e. r = Inl e \<and> B e (f w1))" unfolding lands_def by (metis fst_conv snd_conv)
  show "f (snd (tbind m g w)) = f w \<or> P (f (snd (tbind m g w))) \<or> (\<exists>e. fst (tbind m g w) = Inl e \<and> B e (f (snd (tbind m g w))))"
  proof (cases r)
    case (Inr a)
    then have "lands f P B (g a)" using assms(2) r by blast
    then have "f (snd (g a w1)) = f w1 \<or> P (f (snd (g a w1))) \<or> (\<exists>e. fst (g a w1) = Inl e \<and> B e (f (snd (g a w1))))" by (simp add: lands_def)
    with one show ?thesis by (auto simp: tbind_def r Inr)
  qed (use one in \<open>simp add: tbind_def r\<close>)
qed

lemma lands_step: "keeps_part f m \<Longrightarrow> (\<And>a w w'. m w = (Inr a, w') \<Longrightarrow> lands f P B (g a)) \<Longrightarrow> lands f P B (tbind m g)"
  by (blast intro: lands_bind lands_keeps)

lemma lands_mono: "lands f P B m \<Longrightarrow> (\<And>x. P x \<Longrightarrow> Q x) \<Longrightarrow> (\<And>e x. B e x \<Longrightarrow> C e x) \<Longrightarrow> lands f Q C m"
  unfolding lands_def by blast

lemma lands_lastly: "lands f P B m \<Longrightarrow> (\<And>w. f (c w) = f w) \<Longrightarrow> lands f P B (lastly m c)"
  unfolding lands_def lastly_def by (simp add: case_prod_unfold)

end
