(* ===== verification/Structured_Revision.thy ===== *)
theory Structured_Revision
  imports Structured_Anchors Structured_Actions
begin

text \<open>
  \<^verbatim>\<open>app/structured_diagnostics.py\<close> and \<^verbatim>\<open>app/structured_revision.py\<close>, with \<^verbatim>\<open>apply_anchored_edits\<close> of \<^verbatim>\<open>app/structured_anchors.py\<close>: the three ways in which a second
  proposal is turned into a candidate (edits of text, edits by anchor, the whole function), and the metadata about it that goes to an observer. The trace is the record
  so far with what the observer has been given; the observer itself is an argument that says whether it took a record.
\<close>

section \<open>Diagnostics\<close>

definition REASONS :: "string list" where
  "REASONS = [''revision_feedback_missing'', ''feedback_candidate_mismatch'', ''revision_size'', ''revision_json'', ''revision_schema'',
     ''revision_edit_schema'', ''revision_edit_not_unique'', ''revision_signature_edit'', ''revision_edits_overlap'', ''revision_anchor_source'',
     ''revision_anchor_invalid'', ''revision_anchor_duplicate'', ''revision_indentation'', ''revision_block_header'', ''revision_guard_expression'',
     ''candidate_repeated'', ''candidate_grammar'', ''candidate_function_only'', ''candidate_syntax'', ''candidate_loops'', ''candidate_depth'',
     ''candidate_name'', ''candidate_call'', ''candidate_attribute'', ''nested_function'', ''reserved_assignment'', ''assignment_target'',
     ''loop_target'', ''generator_target'', ''call_expansion'', ''dictionary_expansion'', ''function_identity'', ''function_signature'',
     ''function_decorator'', ''reply_size'', ''reply_json'', ''reply_schema'', ''module_size'', ''module_syntax'',
     ''multiline_signature_not_supported'', ''json_depth'', ''json_object'', ''json_array'', ''json_type'', ''json_string'', ''json_number'']"

definition quote :: char where
  "quote = CHR 0x27"

definition SYNTAX_KINDS :: "(string \<times> string) list" where
  "SYNTAX_KINDS = [(''expected an indented block'', ''missing_block''), (''unexpected indent'', ''unexpected_indent''),
     (''unindent does not match'', ''bad_unindent''), (''inconsistent use of tabs and spaces'', ''tabs_spaces''),
     (''expected '' @ [quote] @ '':'' @ [quote], ''missing_colon''), (''invalid syntax'', ''invalid_syntax''),
     ([quote] @ ''return'' @ [quote] @ '' outside function'', ''return_outside''), ([quote] @ ''break'' @ [quote] @ '' outside loop'', ''break_outside''),
     (''unterminated string'', ''unterminated_string''), ([quote] @ ''('' @ [quote] @ '' was never closed'', ''open_parenthesis''),
     ([quote] @ ''['' @ [quote] @ '' was never closed'', ''open_bracket''), ([quote] @ ''{'' @ [quote] @ '' was never closed'', ''open_brace'')]"

definition syntax_kind :: "pyval \<Rightarrow> string" where
  "syntax_kind message = (case message of
     PStr s \<Rightarrow> (case find (\<lambda>(prefix, _). starts_with prefix s) SYNTAX_KINDS of None \<Rightarrow> ''other'' | Some (_, category) \<Rightarrow> category)
   | _ \<Rightarrow> ''other'')"

definition ANCHOR_FAILURE_KINDS :: "string list" where
  "ANCHOR_FAILURE_KINDS = [''unknown_anchor'', ''guard_not_if_header'', ''guard_not_statement'']"

record trace =
  tr_record :: pydict
  tr_emitted :: "pydict list"

type_synonym 'a traced = "('a, trace) doing"
type_synonym observer = "(pydict \<Rightarrow> bool) option"

definition trecord :: "(pydict \<Rightarrow> pydict) \<Rightarrow> unit traced" where
  "trecord f t = (Inr (), t\<lparr>tr_record := f (tr_record t)\<rparr>)"

definition emit :: "observer \<Rightarrow> unit traced" where
  "emit ob t = (case ob of None \<Rightarrow> (Inr (), t)
     | Some takes \<Rightarrow> (if takes (tr_record t) then Inr () else Inl (DiagnosticWriteError ''revision_diagnostic_write_failed''),
                      t\<lparr>tr_emitted := tr_emitted t @ [tr_record t]\<rparr>))"

definition new_record :: "string \<Rightarrow> pydict" where
  "new_record reply =
     [(''schema_version'', PInt 1), (''stage'', PStr ''received''), (''response_characters'', PInt (int (length reply)))] @
     (if length reply \<le> 16384 then [(''response_sha256'', PStr (sha256_hex reply))] else [])"

definition start_trace :: "observer \<Rightarrow> string \<Rightarrow> unit traced" where
  "start_trace ob reply = tbind (trecord (\<lambda>_. new_record reply)) (\<lambda>_. emit ob)"

definition spaces_before :: "string \<Rightarrow> int" where
  "spaces_before l = int (length l) - int (length (lstrip_of (CHR '' '') l))"

definition int_within :: "int \<Rightarrow> int \<Rightarrow> pyval \<Rightarrow> bool" where
  "int_within lo hi v \<longleftrightarrow> int_with (\<lambda>i. lo \<le> i \<and> i \<le> hi) v"

definition syntax_fields :: "string \<Rightarrow> pyval \<Rightarrow> pyval \<Rightarrow> pyval \<Rightarrow> pydict" where
  "syntax_fields source message line offset =
     (let lines = splitlines source in
      [(''ast_parse'', PStr ''invalid''), (''syntax_kind'', PStr (syntax_kind message))] @
      (case line of PInt n \<Rightarrow>
         if 1 \<le> n \<and> n \<le> int (length lines) \<and> n \<le> 400
         then (let content = lines ! nat (n - 1) in
           [(''syntax_line'', PInt n), (''syntax_line_sha256'', PStr (sha256_hex content)), (''syntax_line_indent'', PInt (spaces_before content)),
            (''syntax_line_characters'', PInt (int (length content)))] @
           (if int_within 1 (int (length content) + 1) offset then [(''syntax_column'', offset)] else []) @
           (if 1 < n then (let previous = lines ! nat (n - 2) in
              [(''syntax_prior_line_colon'', PBool (is_header previous)), (''syntax_prior_line_indent'', PInt (spaces_before previous))]) else []))
         else []
       | _ \<Rightarrow> []))"

definition forbidden_node :: "ast \<Rightarrow> pyval" where
  "forbidden_node n = PDict [(''type'', PStr (ty n)), (''line'', PInt (int (lineno n))), (''column'', PInt (int (col_offset n)))]"

definition scan_fields :: "string list \<Rightarrow> ast \<Rightarrow> pydict" where
  "scan_fields allowed tree =
     (let scanned = take 4096 (ast_walk tree); forbidden = take 16 (filter (\<lambda>n. ty n \<notin> set allowed) scanned) in
      [(''ast_parse'', PStr ''valid''), (''ast_node_count'', PInt (int (length scanned))), (''ast_scan_truncated'', PBool (4096 \<le> length scanned)),
       (''rejected_ast_nodes'', PList (map forbidden_node forbidden)),
       (''rejected_ast_types'', strings (sort (remdups (map ty forbidden))))])"

definition guard_fields :: "py_lib \<Rightarrow> string \<Rightarrow> string list \<Rightarrow> pydict" where
  "guard_fields lib source allowed =
     [(''stage'', PStr ''guard''), (''assembly_characters'', PInt (int (length source)))] @
     (if 65536 < length source then [(''ast_parse'', PStr ''size_blocked'')]
      else (''assembly_sha256'', PStr (sha256_hex source)) #
        (case parse_module lib source of
           Inl (SyntaxErr message line offset) \<Rightarrow> syntax_fields source message line offset
         | Inl OtherParseError \<Rightarrow> [(''ast_parse'', PStr ''invalid'')]
         | Inr tree \<Rightarrow> scan_fields allowed tree))"

definition before_guard :: "py_lib \<Rightarrow> observer \<Rightarrow> string \<Rightarrow> string list \<Rightarrow> unit traced" where
  "before_guard lib ob source allowed = tbind (trecord (put_all (guard_fields lib source allowed))) (\<lambda>_. emit ob)"

definition rejected_fields :: "string \<Rightarrow> string option \<Rightarrow> pydict \<Rightarrow> pydict" where
  "rejected_fields reason kind d =
     put_all ((case kind of None \<Rightarrow> [] | Some k \<Rightarrow> [(''anchor_failure_kind'', PStr k)]) @
       [(''failed_stage'', get d ''stage''), (''stage'', PStr ''rejected''),
        (''reason_code'', PStr (if reason \<in> set REASONS then reason else ''structured_rejection''))]) d"

definition rejected :: "observer \<Rightarrow> string \<Rightarrow> string option \<Rightarrow> unit traced" where
  "rejected ob reason kind =
     tbind (tlift (case kind of
       None \<Rightarrow> Inr ()
     | Some k \<Rightarrow> if reason \<noteq> ''revision_anchor_invalid'' \<or> k \<notin> set ANCHOR_FAILURE_KINDS
         then Inl (DiagnosticWriteError ''revision_diagnostic_kind_invalid'') else Inr ())) (\<lambda>_.
     tbind (trecord (rejected_fields reason kind)) (\<lambda>_. emit ob))"

definition accepted :: "observer \<Rightarrow> unit traced" where
  "accepted ob = tbind (trecord (put_key ''stage'' (PStr ''accepted''))) (\<lambda>_. emit ob)"

text \<open>The handlers around a revision: a rejection is traced and raised again, a rejected anchor as a block of the worker; other exceptions pass.\<close>

definition with_rejection :: "observer \<Rightarrow> 'a traced \<Rightarrow> 'a traced" where
  "with_rejection ob m t = (case m t of
     (Inl (StructuredBlocked reason), t') \<Rightarrow> tbind (rejected ob reason None) (\<lambda>_. tlift (Inl (StructuredBlocked reason))) t'
   | (Inl (AnchorRejected reason kind), t') \<Rightarrow> tbind (rejected ob reason kind) (\<lambda>_. tlift (Inl (StructuredBlocked reason))) t'
   | r \<Rightarrow> r)"

text \<open>The frame of the three: the answer is traced, the revision made under the handlers, its acceptance traced, its result returned.\<close>

definition revision_run :: "observer \<Rightarrow> string \<Rightarrow> 'a traced \<Rightarrow> ('a \<Rightarrow> 'b checked) \<Rightarrow> 'b traced" where
  "revision_run ob reply m g =
     tbind (start_trace ob reply) (\<lambda>_. tbind (with_rejection ob m) (\<lambda>a. tbind (accepted ob) (\<lambda>_. tlift (g a))))"

section \<open>Edits of text\<close>

definition REVISION_SCHEMA :: pyval where
  "REVISION_SCHEMA =
     object_schema [(''edits'', array_schema 1 6 (object_schema
       [(''old'', PDict [(''type'', PStr ''string''), (''minLength'', PInt 1), (''maxLength'', PInt 3000)]), new_schema NEW_PATTERN]
       [''old'', ''new'']))] [''edits'']"

type_synonym span = "nat \<times> nat \<times> string"

definition edit_span :: "string \<Rightarrow> pyval \<Rightarrow> span checked" where
  "edit_span source v =
     (let edit = dict_in v; old = text_at edit ''old''; new = text_at edit ''new'' in
      bindE (need_block (is_dict v \<and> keys edit = {''old'', ''new''} \<and> text_with (\<lambda>s. 1 \<le> length s \<and> length s \<le> 3000) (get edit ''old'') \<and>
                         text_with (\<lambda>s. length s \<le> 6000) (get edit ''new'')) ''revision_edit_schema'') (\<lambda>_.
      bindE (need_block (old \<noteq> new) ''candidate_repeated'') (\<lambda>_.
      bindE (need_block (count_sub old source = 1) ''revision_edit_not_unique'') (\<lambda>_.
      case (find_text old source, find_text [newline] source) of
        (Some start, Some line) \<Rightarrow> bindE (need_block (line + 1 \<le> start) ''revision_signature_edit'') (\<lambda>_. Inr (start, start + length old, new))
      | _ \<Rightarrow> Inl (Uncaught ''ValueError'')))))"

fun edit_spans :: "string \<Rightarrow> pyval list \<Rightarrow> span list checked" where
  "edit_spans source [] = Inr []"
| "edit_spans source (v # vs) = bindE (edit_span source v) (\<lambda>s. bindE (edit_spans source vs) (\<lambda>ss. Inr (s # ss)))"

fun no_overlap :: "span list \<Rightarrow> bool" where
  "no_overlap ((_, e, _) # (s, e', n) # ss) \<longleftrightarrow> e \<le> s \<and> no_overlap ((s, e', n) # ss)"
| "no_overlap _ \<longleftrightarrow> True"

definition apply_span :: "span \<Rightarrow> string \<Rightarrow> string" where
  "apply_span sp source = (case sp of (start, final, new) \<Rightarrow> take start source @ new @ drop final source)"

definition apply_spans :: "span list \<Rightarrow> string \<Rightarrow> string" where
  "apply_spans spans source = fold apply_span (rev spans) source"

definition revise_text :: "string \<Rightarrow> pyval list \<Rightarrow> string checked" where
  "revise_text source edits =
     bindE (edit_spans source edits) (\<lambda>found.
     let spans = sort found in
     bindE (need_block (no_overlap spans) ''revision_edits_overlap'') (\<lambda>_.
     Inr (apply_spans spans source)))"

definition bound_task :: "py_lib \<Rightarrow> string \<Rightarrow> pyval \<Rightarrow> (pydict \<times> string) checked" where
  "bound_task lib before proposal =
     bindE (proposal_spec lib proposal) (\<lambda>task.
     bindE (need_block (''feedback'' \<in> keys (dict_in proposal)) ''revision_feedback_missing'') (\<lambda>_.
     bindE (candidate_fingerprint lib before task) (\<lambda>print.
     let expected = text_at (dict_in (get (dict_in proposal) ''feedback'')) ''candidate_sha256'' in
     bindE (need_block (print = expected) ''feedback_candidate_mismatch'') (\<lambda>_.
     Inr (task, expected)))))"

definition reply_edits :: "py_lib \<Rightarrow> string \<Rightarrow> pyval list checked" where
  "reply_edits lib reply =
     bindE (need_block (length reply \<le> 16384) ''revision_size'') (\<lambda>_.
     case loads lib reply of
       None \<Rightarrow> Inl (StructuredBlocked ''revision_json'')
     | Some v \<Rightarrow>
         bindE (need_block (is_dict v \<and> keys (dict_in v) = {''edits''} \<and> is_list (get (dict_in v) ''edits'') \<and>
                            1 \<le> length (list_at (dict_in v) ''edits'') \<and> length (list_at (dict_in v) ''edits'') \<le> 6) ''revision_schema'') (\<lambda>_.
         Inr (list_at (dict_in v) ''edits'')))"

definition function_reply :: "py_lib \<Rightarrow> string \<Rightarrow> string" where
  "function_reply lib text = dumps_of lib False (PDict [(''function'', PStr text)])"

text \<open>The candidate of a revised text: rendered with every check of a first proposal, and not the one that failed.\<close>

definition revised_candidate :: "py_lib \<Rightarrow> string \<Rightarrow> pydict \<Rightarrow> string \<Rightarrow> string \<Rightarrow> string checked" where
  "revised_candidate lib before task expected reply =
     bindE (render lib before task reply) (\<lambda>candidate.
     bindE (candidate_fingerprint lib candidate task) (\<lambda>print.
     bindE (need_block (print \<noteq> expected) ''candidate_repeated'') (\<lambda>_. Inr candidate)))"

definition apply_local_edits :: "py_lib \<Rightarrow> observer \<Rightarrow> string \<Rightarrow> string \<Rightarrow> pyval \<Rightarrow> (string \<times> pyval list) traced" where
  "apply_local_edits lib ob reply before proposal =
     revision_run ob reply
       (tbind (tlift (bound_task lib before proposal)) (\<lambda>(task, expected).
        tbind (tlift (reply_edits lib reply)) (\<lambda>edits.
        tbind (tlift (extracted lib before task)) (\<lambda>source.
        tbind (tlift (revise_text source edits)) (\<lambda>revised.
        tbind (before_guard lib ob revised NODES) (\<lambda>_.
        tbind (tlift (revised_candidate lib before task expected (function_reply lib revised))) (\<lambda>candidate.
        tbind (tlift (extracted lib candidate task)) (\<lambda>text.
        tret (function_reply lib text, edits))))))))) Inr"

section \<open>The whole function, and edits by anchor\<close>

definition apply_full_function_revision :: "py_lib \<Rightarrow> observer \<Rightarrow> string \<Rightarrow> string \<Rightarrow> pyval \<Rightarrow> string traced" where
  "apply_full_function_revision lib ob reply before proposal =
     revision_run ob reply
       (tbind (tlift (bound_task lib before proposal)) (\<lambda>(task, expected).
        tbind (tlift (need_block (length reply \<le> 16384) ''revision_size'')) (\<lambda>_.
        tbind (tlift (case loads lib reply of None \<Rightarrow> Inl (StructuredBlocked ''reply_json'') | Some v \<Rightarrow> Inr v)) (\<lambda>v.
        tbind (tlift (need_block (is_dict v \<and> keys (dict_in v) = {''function''} \<and> is_text (get (dict_in v) ''function'')) ''reply_schema'')) (\<lambda>_.
        tbind (before_guard lib ob (text_at (dict_in v) ''function'') NODES) (\<lambda>_.
        tlift (revised_candidate lib before task expected reply))))))) (\<lambda>_. Inr reply)"

definition strict_edit :: "string \<Rightarrow> line_anchors \<Rightarrow> pyval \<Rightarrow> unit checked" where
  "strict_edit source anchors v =
     (let edit = dict_in v; new = text_at edit ''new'' in
      if keys edit = {''anchor'', ''new''}
      then (case map_of anchors (text_at edit ''anchor'') of
        None \<Rightarrow> Inl (Uncaught ''KeyError'')
      | Some i \<Rightarrow> require_anchor (length (splitlines new) = 1 \<and> \<not> blank new \<and> (is_header new \<longleftrightarrow> is_header (splitlines source ! i))) ''revision_block_header'')
      else Inr ())"

definition apply_anchored_edits ::
  "py_lib \<Rightarrow> observer \<Rightarrow> bool \<Rightarrow> bool \<Rightarrow> string \<Rightarrow> string \<Rightarrow> pyval \<Rightarrow> (string \<times> pyval list) traced" where
  "apply_anchored_edits lib ob model_strict model_split reply before proposal =
     revision_run ob reply
       (tbind (tlift (bound_task lib before proposal)) (\<lambda>(task, expected).
        tbind (tlift (extracted lib before task)) (\<lambda>source.
        tbind (tlift (assemble_anchors lib model_split reply source)) (\<lambda>(assembled, edits).
        tbind (tlift (need_block (model_split \<longrightarrow> model_strict) ''revision_edit_schema'')) (\<lambda>_.
        tbind (tlift (if model_strict then bindE (line_catalog source) (\<lambda>anchors. each (strict_edit source anchors) edits) else Inr ())) (\<lambda>_.
        tbind (before_guard lib ob assembled NODES) (\<lambda>_.
        tbind (tlift (revised_candidate lib before task expected (function_reply lib assembled))) (\<lambda>candidate.
        tret (candidate, task, edits)))))))))
       (\<lambda>(candidate, task, edits). bindE (extracted lib candidate task) (\<lambda>body. Inr (function_reply lib body, edits)))"

end
