(* ===== verification/Structured_Edits.thy ===== *)
theory Structured_Edits
  imports Structured_Revision Structured_Guard "HOL-Library.Multiset"
begin

text \<open>
  Revisions by text: replacing the found places from the last to the first is the same as replacing all of them at once, in
  whatever order the answer lists them. And the diagnostics of any revision hold no text of the source or of the answer.
\<close>

section \<open>Replacing several places\<close>

text \<open>The text from \<open>p\<close> on with every place replaced, in one pass.\<close>

fun substituted :: "nat \<Rightarrow> span list \<Rightarrow> string \<Rightarrow> string" where
  "substituted p [] s = drop p s"
| "substituted p ((a, b, new) # sp) s = take (a - p) (drop p s) @ new @ substituted b sp s"

fun ordered :: "nat \<Rightarrow> nat \<Rightarrow> span list \<Rightarrow> bool" where
  "ordered p n [] \<longleftrightarrow> p \<le> n"
| "ordered p n ((a, b, _) # sp) \<longleftrightarrow> p \<le> a \<and> a \<le> b \<and> ordered b n sp"

lemma ordered_le: "ordered p n sp \<Longrightarrow> p \<le> n"
  by (induction p n sp rule: ordered.induct) auto

lemma ordered_mono: "ordered p n sp \<Longrightarrow> q \<le> p \<Longrightarrow> ordered q n sp"
  by (cases sp) (auto split: prod.splits)

lemma take_drop_part: "p \<le> a \<Longrightarrow> take a s = take p s @ take (a - p) (drop p s)" for p a :: nat
  by (metis le_add_diff_inverse take_add)

lemma apply_spans_once: "ordered p (length s) sp \<Longrightarrow> apply_spans sp s = take p s @ substituted p sp s"
proof (induction p sp s rule: substituted.induct)
  case (2 p a b new sp s)
  then have o: "p \<le> a" "a \<le> b" "ordered b (length s) sp" and b: "b \<le> length s" by (auto dest: ordered_le)
  from 2 o(3) have "apply_spans sp s = take b s @ substituted b sp s" by blast
  then have "apply_spans ((a, b, new) # sp) s = take a s @ new @ substituted b sp s"
    using o(2) b by (simp add: apply_spans_def apply_span_def)
  then show ?case using take_drop_part [OF o(1), of s] by simp
qed (simp add: apply_spans_def)

lemma no_overlap_ordered:
  assumes "no_overlap sp" "\<forall>(a, b, n)\<in>set sp. p \<le> a \<and> a \<le> b \<and> b \<le> len" "p \<le> len"
  shows "ordered p len sp"
  using assms
proof (induction sp arbitrary: p)
  case (Cons x sp)
  obtain a b n where x: "x = (a, b, n)" by (cases x)
  have "no_overlap sp" using Cons.prems(1) by (cases sp) (auto simp: x)
  moreover have "\<forall>(c, d, m)\<in>set sp. b \<le> c"
    using Cons.prems(1,2) unfolding x
  proof (induction sp arbitrary: a b n)
    case (Cons y sp)
    obtain c d m where y: "y = (c, d, m)" by (cases y)
    have "no_overlap ((c, d, m) # sp)" "b \<le> c" "c \<le> d" using Cons.prems by (auto simp: y)
    with Cons.IH [of c d m] Cons.prems(2) show ?case by (fastforce simp: y)
  qed simp
  ultimately show ?case using Cons.IH [of b] Cons.prems(2) by (fastforce simp: x)
qed simp

lemma find_text_least: "find_text [newline] s = Some k \<Longrightarrow> take (Suc k) s = takeWhile (\<lambda>c. c \<noteq> newline) s @ [newline]"
  by (induction s arbitrary: k) (auto simp: starts_with_def split: if_splits)

definition names_span :: "string \<Rightarrow> pyval \<Rightarrow> span \<Rightarrow> bool" where
  "names_span source v sp \<longleftrightarrow> (case sp of (a, b, new) \<Rightarrow>
     new = text_at (dict_in v) ''new'' \<and> b = a + length (text_at (dict_in v) ''old'') \<and>
     b \<le> length source \<and> take (b - a) (drop a source) = text_at (dict_in v) ''old'' \<and>
     length (takeWhile (\<lambda>c. c \<noteq> newline) source) < a)"

lemma edit_span_names:
  assumes "edit_span source v = Inr sp"
  shows "names_span source v sp"
proof -
  let ?old = "text_at (dict_in v) ''old''"
  obtain a l where a: "find_text ?old source = Some a" and l: "find_text [newline] source = Some l" "l + 1 \<le> a"
    and sp: "sp = (a, a + length ?old, text_at (dict_in v) ''new'')"
    using assms by (auto simp: edit_span_def outcome_simps Let_def split: option.splits)
  have "length (take (Suc l) source) = length (takeWhile (\<lambda>c. c \<noteq> newline) source @ [newline])" using find_text_least [OF l(1)] by simp
  moreover have "l + 1 \<le> length source" using find_text_Some [OF l(1)] by simp
  ultimately show ?thesis using find_text_Some [OF a] l(2) by (simp add: names_span_def sp)
qed

lemma edit_spans_list: "edit_spans source vs = Inr sps \<longleftrightarrow> list_all2 (\<lambda>v sp. edit_span source v = Inr sp) vs sps"
  by (induction vs arbitrary: sps) (auto simp: outcome_simps list_all2_Cons1)

lemma edit_spans_perm:
  assumes "edit_spans source vs = Inr sps" "mset vs' = mset vs"
  shows "\<exists>sps'. edit_spans source vs' = Inr sps' \<and> mset sps' = mset sps"
proof -
  let ?sp = "\<lambda>v. projr (edit_span source v)"
  have l: "list_all2 (\<lambda>v sp. edit_span source v = Inr sp) vs sps" using assms(1) edit_spans_list by blast
  have "sps = map ?sp vs" "\<forall>v\<in>set vs. edit_span source v = Inr (?sp v)"
    using l by (induction rule: list_all2_induct) auto
  moreover from this have "list_all2 (\<lambda>v sp. edit_span source v = Inr sp) vs' (map ?sp vs')"
    using mset_eq_setD [OF assms(2)] by (auto simp: list_all2_conv_all_nth)
  ultimately show ?thesis using assms(2) edit_spans_list by (metis mset_map)
qed

lemma prefix_kept: "ordered p (length s) sp \<Longrightarrow> k \<le> p \<Longrightarrow> take k (apply_spans sp s) = take k s"
  using apply_spans_once [of p s sp] ordered_le [of p "length s" sp] by simp

text \<open>C19: The edits of a text are made at once, and their order does not matter. An accepted list of edits names places of the source that
  hold its old texts, lie behind the line of the signature and do not overlap; the result is the source with all of them replaced in one
  pass, keeps that first line, and is the same for every order of the edits.\<close>

theorem local_edits_simultaneous:
  assumes "revise_text source edits = Inr revised"
  shows "(\<exists>spans found. mset spans = mset found \<and> list_all2 (names_span source) edits found \<and> no_overlap spans \<and>
      revised = substituted 0 spans source) \<and>
    takeWhile (\<lambda>c. c \<noteq> newline) revised = takeWhile (\<lambda>c. c \<noteq> newline) source \<and>
    (\<forall>edits'. mset edits' = mset edits \<longrightarrow> revise_text source edits' = Inr revised)"
proof -
  obtain found where f: "edit_spans source edits = Inr found" "no_overlap (sort found)" "revised = apply_spans (sort found) source"
    using assms by (auto simp: revise_text_def outcome_simps Let_def)
  let ?k = "length (takeWhile (\<lambda>c. c \<noteq> newline) source)"
  have names: "list_all2 (names_span source) edits found"
    using f(1) unfolding edit_spans_list by (rule list_all2_mono) (rule edit_span_names)
  have "\<forall>(a, b, n)\<in>set found. Suc ?k \<le> a \<and> a \<le> b \<and> b \<le> length source"
    using names by (induction rule: list_all2_induct) (auto simp: names_span_def)
  then have all: "\<forall>(a, b, n)\<in>set (sort found). Suc ?k \<le> a \<and> a \<le> b \<and> b \<le> length source" by simp
  then have "\<forall>(a, b, n)\<in>set (sort found). 0 \<le> a \<and> a \<le> b \<and> b \<le> length source" by fastforce
  from apply_spans_once [OF no_overlap_ordered [OF f(2) this]] have once: "revised = substituted 0 (sort found) source"
    by (simp add: f(3))
  have first: "takeWhile (\<lambda>c. c \<noteq> newline) revised = takeWhile (\<lambda>c. c \<noteq> newline) source"
  proof (cases "found = []")
    case True
    then show ?thesis using f(3) by (simp add: apply_spans_def)
  next
    case False
    then have "hd found \<in> set (sort found)" by simp
    with all have "Suc ?k \<le> length source" by fastforce
    then have o: "ordered (Suc ?k) (length source) (sort found)" using no_overlap_ordered [OF f(2) all] by blast
    have "take (Suc ?k) source = take ?k source @ [source ! ?k]" using \<open>Suc ?k \<le> length source\<close> by (simp add: take_Suc_conv_app_nth)
    then have t: "take (Suc ?k) source = takeWhile (\<lambda>c. c \<noteq> newline) source @ [newline]"
      using nth_length_takeWhile [of "\<lambda>c. c \<noteq> newline" source] \<open>Suc ?k \<le> length source\<close> takeWhile_eq_take [of "\<lambda>c. c \<noteq> newline" source]
      by (metis Suc_le_eq)
    have "take (Suc ?k) revised = take (Suc ?k) source" unfolding f(3) by (rule prefix_kept [OF o order_refl])
    then obtain r where "revised = (takeWhile (\<lambda>c. c \<noteq> newline) source @ [newline]) @ r" using t by (metis append_take_drop_id)
    moreover have "takeWhile (\<lambda>c. c \<noteq> newline) ((takeWhile (\<lambda>c. c \<noteq> newline) source @ [newline]) @ r) = takeWhile (\<lambda>c. c \<noteq> newline) source" for r
      by (subst append_assoc, subst takeWhile_append2) (auto dest: set_takeWhileD)
    ultimately show ?thesis by simp
  qed
  have "revise_text source edits' = Inr revised" if m: "mset edits' = mset edits" for edits'
  proof -
    obtain found' where g: "edit_spans source edits' = Inr found'" "mset found' = mset found" using edit_spans_perm [OF f(1) m] by blast
    then have "sort found' = sort found" by (intro properties_for_sort) simp_all
    then show ?thesis using g f(2,3) by (simp add: revise_text_def)
  qed
  then show ?thesis using names f(2) once first by (intro conjI exI [of _ "sort found"] exI [of _ found]) simp_all
qed

text \<open>A function of two lines, with two edits given from the last to the first.\<close>

definition se_source :: string where
  "se_source = ''def f(x):'' @ [newline] @ ''    return x + y''"

definition se_edit :: "string \<Rightarrow> string \<Rightarrow> pyval" where
  "se_edit old new = PDict [(''old'', PStr old), (''new'', PStr new)]"

lemma se_revised: "revise_text se_source [se_edit ''y'' ''1'', se_edit ''return x'' ''return z''] =
   Inr (''def f(x):'' @ [newline] @ ''    return z + 1'')"
proof -
  have "find_text ''y'' se_source = Some 25" "count_sub ''y'' se_source = 1" "find_text ''return x'' se_source = Some 14"
    "count_sub ''return x'' se_source = 1" "find_text [newline] se_source = Some 9" by code_simp+
  then have "edit_span se_source (se_edit ''y'' ''1'') = Inr (25, 26, ''1'')"
    "edit_span se_source (se_edit ''return x'' ''return z'') = Inr (14, 22, ''return z'')"
    by (simp_all add: edit_span_def se_edit_def Let_def need_block_def keys_def text_at_def)
  moreover have "sort [(25, 26, ''1''), (14, 22, ''return z'')] = ([(14, 22, ''return z''), (25, 26, ''1'')] :: span list)"
    by (simp add: insort_key_def)
  moreover have "apply_spans [(14, 22, ''return z''), (25, 26, ''1'')] se_source = ''def f(x):'' @ [newline] @ ''    return z + 1''" by code_simp
  ultimately show ?thesis by (simp add: revise_text_def need_block_def)
qed

theorem local_edits_simultaneous_witness:
  "revise_text se_source [se_edit ''return x'' ''return z'', se_edit ''y'' ''1''] = Inr (''def f(x):'' @ [newline] @ ''    return z + 1'')"
  using local_edits_simultaneous [OF se_revised] by simp

section \<open>What the diagnostics hold\<close>

text \<open>The texts that the program itself writes into a record.\<close>

definition VOCABULARY :: "string set" where
  "VOCABULARY = {''received'', ''guard'', ''rejected'', ''accepted'', ''valid'', ''invalid'', ''size_blocked'', ''other'', ''structured_rejection''} \<union>
     set REASONS \<union> set ANCHOR_FAILURE_KINDS \<union> set (map snd SYNTAX_KINDS)"

text \<open>A value all of whose texts are of that vocabulary, digests, or names of classes of the parser.\<close>

fun plain :: "string set \<Rightarrow> pyval \<Rightarrow> bool" where
  "plain C (PStr s) \<longleftrightarrow> s \<in> VOCABULARY \<or> SHA64 s \<or> s \<in> C"
| "plain C (PList vs) \<longleftrightarrow> list_all (plain C) vs"
| "plain C (PDict d) \<longleftrightarrow> list_all (\<lambda>kv. plain C (snd kv)) d"
| "plain C _ \<longleftrightarrow> True"

definition plain_record :: "string set \<Rightarrow> pydict \<Rightarrow> bool" where
  "plain_record C d \<longleftrightarrow> list_all (\<lambda>kv. plain C (snd kv)) d \<and> (\<exists>s\<in>VOCABULARY. get d ''stage'' = PStr s)"

definition trace_plain :: "string set \<Rightarrow> trace \<Rightarrow> bool" where
  "trace_plain C t \<longleftrightarrow> plain_record C (tr_record t) \<and> list_all (plain_record C) (tr_emitted t)"

definition keeps_plain :: "string set \<Rightarrow> 'a traced \<Rightarrow> bool" where
  "keeps_plain C m \<longleftrightarrow> (\<forall>t. trace_plain C t \<longrightarrow> trace_plain C (snd (m t)))"

lemma keeps_plain_bind: "keeps_plain C m \<Longrightarrow> (\<And>a. keeps_plain C (f a)) \<Longrightarrow> keeps_plain C (tbind m f)"
  unfolding keeps_plain_def tbind_def by (auto split: prod.split sum.split)

lemma keeps_plain_simps [simp]: "keeps_plain C (tlift r)" "keeps_plain C (tret a)"
  by (simp_all add: keeps_plain_def tlift_def tret_def)

lemma keeps_plain_emit: "keeps_plain C (emit ob)"
  by (auto simp: keeps_plain_def emit_def trace_plain_def split: option.split)

lemma keeps_plain_record: "(\<And>d. plain_record C d \<Longrightarrow> plain_record C (f d)) \<Longrightarrow> keeps_plain C (trecord f)"
  by (simp add: keeps_plain_def trecord_def trace_plain_def)

lemma put_key_values: "list_all (\<lambda>kv. plain C (snd kv)) d \<Longrightarrow> plain C v \<Longrightarrow> list_all (\<lambda>kv. plain C (snd kv)) (put_key k v d)"
  by (induction k v d rule: put_key.induct) auto

definition plain_field :: "string set \<Rightarrow> string \<times> pyval \<Rightarrow> bool" where
  "plain_field C kv \<longleftrightarrow> plain C (snd kv) \<and> (fst kv = ''stage'' \<longrightarrow> (\<exists>s\<in>VOCABULARY. snd kv = PStr s))"

lemma put_all_plain: "list_all (plain_field C) kvs \<Longrightarrow> plain_record C d \<Longrightarrow> plain_record C (put_all kvs d)"
  unfolding put_all_def
proof (induction kvs arbitrary: d)
  case (Cons kv kvs)
  obtain k v where kv: "kv = (k, v)" by fastforce
  have "plain_record C (put_key k v d)"
    using Cons.prems by (auto simp: kv plain_record_def plain_field_def get_put_key intro: put_key_values)
  with Cons show ?case by (simp add: kv)
qed simp

lemma vocabulary_words [simp]:
  "''received'' \<in> VOCABULARY" "''guard'' \<in> VOCABULARY" "''rejected'' \<in> VOCABULARY" "''accepted'' \<in> VOCABULARY" "''valid'' \<in> VOCABULARY"
  "''invalid'' \<in> VOCABULARY" "''size_blocked'' \<in> VOCABULARY" "''structured_rejection'' \<in> VOCABULARY"
  "r \<in> set REASONS \<Longrightarrow> r \<in> VOCABULARY" "k \<in> set ANCHOR_FAILURE_KINDS \<Longrightarrow> k \<in> VOCABULARY"
  by (simp_all add: VOCABULARY_def)

lemma syntax_kind_word [simp]: "syntax_kind message \<in> VOCABULARY"
proof -
  have "find P kinds = Some kc \<Longrightarrow> kc \<in> set kinds" for P kinds and kc :: "string \<times> string"
    by (induction kinds) (auto split: if_splits)
  then have "find P SYNTAX_KINDS = Some kc \<Longrightarrow> snd kc \<in> VOCABULARY" for P kc by (auto simp: VOCABULARY_def)
  moreover have "''other'' \<in> VOCABULARY" by (simp add: VOCABULARY_def)
  ultimately show ?thesis by (auto simp: syntax_kind_def split: pyval.split option.split)
qed

lemma sha64_digest [simp]: "SHA64 (sha256_hex s)"
  by (auto simp: SHA64_def list_all_iff dest: sha256_hex_lower_hex)

lemma new_record_plain: "plain_record C (new_record reply)"
  by (simp add: plain_record_def new_record_def)

lemma syntax_fields_plain: "list_all (plain_field C) (syntax_fields source message line offset)"
proof -
  have "int_within a b offset \<Longrightarrow> plain C offset" for a b by (auto simp: int_within_def int_with_def split: pyval.splits)
  then show ?thesis by (auto simp: syntax_fields_def plain_field_def Let_def split: pyval.split)
qed

lemma scan_fields_plain:
  assumes "\<forall>n\<in>set (tree_nodes tree). ty n \<in> C"
  shows "list_all (plain_field C) (scan_fields allowed tree)"
  using assms
  by (auto simp: scan_fields_def plain_field_def Let_def list_all_iff forbidden_node_def strings_def dest!: in_set_takeD)

lemma guard_fields_plain:
  assumes "\<And>tree. parse_module lib source = Inr tree \<Longrightarrow> \<forall>n\<in>set (tree_nodes tree). ty n \<in> C"
  shows "list_all (plain_field C) (guard_fields lib source allowed)"
  using assms syntax_fields_plain scan_fields_plain
  by (auto simp: guard_fields_def plain_field_def split: sum.split parse_error.split)

lemma rejected_fields_plain:
  assumes "kind = None \<or> (\<exists>k\<in>set ANCHOR_FAILURE_KINDS. kind = Some k)" and "plain_record C d"
  shows "plain_record C (rejected_fields reason kind d)"
proof -
  have "plain C (get d ''stage'')" using assms(2) by (auto simp: plain_record_def)
  then have "list_all (plain_field C) ((case kind of None \<Rightarrow> [] | Some k \<Rightarrow> [(''anchor_failure_kind'', PStr k)]) @
       [(''failed_stage'', get d ''stage''), (''stage'', PStr ''rejected''),
        (''reason_code'', PStr (if reason \<in> set REASONS then reason else ''structured_rejection''))])"
    using assms(1) by (auto simp: plain_field_def)
  then show ?thesis unfolding rejected_fields_def by (rule put_all_plain) (rule assms(2))
qed

lemma keeps_plain_rejected: "keeps_plain C (rejected ob reason kind)"
proof (cases "kind = None \<or> (\<exists>k\<in>set ANCHOR_FAILURE_KINDS. kind = Some k)")
  case True
  then show ?thesis unfolding rejected_def
    by (intro keeps_plain_bind keeps_plain_emit keeps_plain_record keeps_plain_simps rejected_fields_plain) auto
next
  case False
  then obtain k where "kind = Some k" "k \<notin> set ANCHOR_FAILURE_KINDS" by auto
  then show ?thesis by (simp add: keeps_plain_def rejected_def tbind_def tlift_def)
qed

lemma keeps_plain_accepted: "keeps_plain C (accepted ob)"
  unfolding accepted_def using put_all_plain [of C "[(''stage'', PStr ''accepted'')]"]
  by (intro keeps_plain_bind keeps_plain_emit keeps_plain_record) (simp add: put_all_def plain_field_def)

lemma keeps_plain_rejection:
  assumes "keeps_plain C m"
  shows "keeps_plain C (with_rejection ob m)"
  unfolding keeps_plain_def
proof (intro allI impI)
  fix t
  assume "trace_plain C t"
  obtain r t' where m: "m t = (r, t')" by fastforce
  with assms \<open>trace_plain C t\<close> have t': "trace_plain C t'" unfolding keeps_plain_def by (metis snd_conv)
  have "trace_plain C (snd (tbind (rejected ob reason kind) (\<lambda>_. tlift x) t'))" for reason kind and x :: "'a checked"
    using keeps_plain_bind [OF keeps_plain_rejected keeps_plain_simps(1), of C ob reason kind "\<lambda>_. x"] t' unfolding keeps_plain_def by blast
  then show "trace_plain C (snd (with_rejection ob m t))"
    using t' by (simp add: with_rejection_def m split: sum.split serror.split)
qed

lemma keeps_plain_guard:
  assumes "\<And>source tree. parse_module lib source = Inr tree \<Longrightarrow> \<forall>n\<in>set (tree_nodes tree). ty n \<in> C"
  shows "keeps_plain C (before_guard lib ob source allowed)"
  unfolding before_guard_def using assms
  by (intro keeps_plain_bind keeps_plain_emit keeps_plain_record put_all_plain guard_fields_plain) auto

text \<open>What a trace tells of how a revision ended: nothing but plain records were given out, and the last one names the outcome.\<close>

definition told :: "string set \<Rightarrow> observer \<Rightarrow> 'a checked \<times> trace \<Rightarrow> bool" where
  "told C ob rt \<longleftrightarrow> list_all (plain_record C) (tr_emitted (snd rt)) \<and>
     (\<forall>a. fst rt = Inr a \<longrightarrow> get (tr_record (snd rt)) ''stage'' = PStr ''accepted'') \<and>
     (\<forall>reason. fst rt = Inl (StructuredBlocked reason) \<longrightarrow>
        get (tr_record (snd rt)) ''stage'' = PStr ''rejected'' \<and>
        get (tr_record (snd rt)) ''reason_code'' = PStr (if reason \<in> set REASONS then reason else ''structured_rejection'')) \<and>
     ((\<exists>a. fst rt = Inr a) \<or> (\<exists>reason. fst rt = Inl (StructuredBlocked reason)) \<longrightarrow>
        ob \<noteq> None \<longrightarrow> tr_emitted (snd rt) \<noteq> [] \<and> last (tr_emitted (snd rt)) = tr_record (snd rt))"

lemma emit_result:
  "emit ob t = (r, t') \<Longrightarrow> tr_record t' = tr_record t \<and> (ob \<noteq> None \<longrightarrow> tr_emitted t' = tr_emitted t @ [tr_record t]) \<and>
     (r = Inr () \<or> r = Inl (DiagnosticWriteError ''revision_diagnostic_write_failed''))"
  by (auto simp: emit_def split: option.splits if_splits)

lemma accepted_result:
  "accepted ob t = (r, t') \<Longrightarrow> get (tr_record t') ''stage'' = PStr ''accepted'' \<and>
     (ob \<noteq> None \<longrightarrow> tr_emitted t' \<noteq> [] \<and> last (tr_emitted t') = tr_record t') \<and> (r = Inr () \<or> (\<exists>w. r = Inl (DiagnosticWriteError w)))"
  by (auto simp: accepted_def tbind_def trecord_def get_put_key dest!: emit_result)

lemma rejected_result:
  "rejected ob reason kind t = (r, t') \<Longrightarrow> (\<exists>w. r = Inl (DiagnosticWriteError w)) \<or> r = Inr () \<and>
     get (tr_record t') ''stage'' = PStr ''rejected'' \<and>
     get (tr_record t') ''reason_code'' = PStr (if reason \<in> set REASONS then reason else ''structured_rejection'') \<and>
     (ob \<noteq> None \<longrightarrow> tr_emitted t' \<noteq> [] \<and> last (tr_emitted t') = tr_record t')"
  by (auto simp: rejected_def tbind_def tlift_def trecord_def rejected_fields_def put_all_def get_put_key
      split: option.splits if_splits dest!: emit_result)

lemma with_rejection_result:
  assumes "with_rejection ob m t = (Inl (StructuredBlocked reason), t')"
  shows "get (tr_record t') ''stage'' = PStr ''rejected'' \<and>
     get (tr_record t') ''reason_code'' = PStr (if reason \<in> set REASONS then reason else ''structured_rejection'') \<and>
     (ob \<noteq> None \<longrightarrow> tr_emitted t' \<noteq> [] \<and> last (tr_emitted t') = tr_record t')"
proof -
  have r: "tbind (rejected ob reason' kind) (\<lambda>_. tlift (Inl (StructuredBlocked reason'))) s = (Inl (StructuredBlocked reason) :: 'a checked, t') \<Longrightarrow> ?thesis"
    for reason' kind s
    by (cases "rejected ob reason' kind s") (auto simp: tbind_def tlift_def split: sum.splits dest!: rejected_result)
  show ?thesis using assms r unfolding with_rejection_def by (fastforce split: prod.splits sum.splits serror.splits)
qed

lemma revised_extracted: "revised_candidate lib before task expected reply = Inr candidate \<Longrightarrow> \<exists>body. extracted lib candidate task = Inr body"
  by (auto simp: revised_candidate_def candidate_fingerprint_def guarded_def outcome_simps)

lemma with_rejection_Inr: "with_rejection ob m t = (Inr a, t') \<longleftrightarrow> m t = (Inr a, t')"
  by (auto simp: with_rejection_def tbind_def tlift_def split: prod.splits sum.splits serror.splits)

lemma revision_run_told:
  assumes "keeps_plain C m" and g: "\<And>t a t'. m t = (Inr a, t') \<Longrightarrow> \<exists>b. g a = Inr b"
  shows "told C ob (revision_run ob reply m g \<lparr>tr_record = [], tr_emitted = []\<rparr>)"
proof -
  have start: "trace_plain C (snd (start_trace ob reply \<lparr>tr_record = [], tr_emitted = []\<rparr>))"
    using new_record_plain [of C reply]
    by (auto simp: start_trace_def tbind_def trecord_def trace_plain_def emit_def split: option.splits)
  have m: "keeps_plain C (tbind (with_rejection ob m) (\<lambda>a. tbind (accepted ob) (\<lambda>_. tlift (g a))))"
    by (intro keeps_plain_bind keeps_plain_rejection keeps_plain_accepted keeps_plain_simps assms)
  have plain: "trace_plain C (snd (revision_run ob reply m g \<lparr>tr_record = [], tr_emitted = []\<rparr>))"
    using start m unfolding revision_run_def keeps_plain_def by (auto simp: tbind_def [of "start_trace ob reply"] split: prod.splits sum.splits)
  have start_error: "start_trace ob reply t = (Inl e, t') \<Longrightarrow> \<exists>w. e = DiagnosticWriteError w" for e t t'
    by (auto simp: start_trace_def tbind_def trecord_def dest!: emit_result)
  obtain r t1 where run: "revision_run ob reply m g \<lparr>tr_record = [], tr_emitted = []\<rparr> = (r, t1)" by fastforce
  have ok: "get (tr_record t1) ''stage'' = PStr ''accepted'' \<and> (ob \<noteq> None \<longrightarrow> tr_emitted t1 \<noteq> [] \<and> last (tr_emitted t1) = tr_record t1)"
    if "r = Inr b" for b
    using run that unfolding revision_run_def by (auto simp: tbind_def tlift_def split: prod.splits sum.splits dest!: accepted_result)
  have bad: "get (tr_record t1) ''stage'' = PStr ''rejected'' \<and>
     get (tr_record t1) ''reason_code'' = PStr (if reason \<in> set REASONS then reason else ''structured_rejection'') \<and>
     (ob \<noteq> None \<longrightarrow> tr_emitted t1 \<noteq> [] \<and> last (tr_emitted t1) = tr_record t1)" if "r = Inl (StructuredBlocked reason)" for reason
    using run that unfolding revision_run_def
    by (auto simp: tbind_def tlift_def with_rejection_Inr split: prod.splits sum.splits dest!: accepted_result start_error with_rejection_result g)
  show ?thesis using plain ok bad by (auto simp: told_def run trace_plain_def)
qed

text \<open>C20: The diagnostics of a revision hold no text of the program or of the model. Whatever source and answer a revision is given, every record
  handed to the observer has only numbers, digests, words of a fixed vocabulary and the names of classes of the parser; and the last record
  says how the revision ended: accepted where it returns, rejected with the reason (or the general word for one that is not
  in the list) where it is refused.\<close>

theorem diagnostics_source_free:
  assumes "\<And>source tree n. parse_module lib source = Inr tree \<Longrightarrow> n \<in> set (tree_nodes tree) \<Longrightarrow> ty n \<in> C"
  shows "told C ob (apply_local_edits lib ob reply before proposal \<lparr>tr_record = [], tr_emitted = []\<rparr>) \<and>
    told C ob (apply_full_function_revision lib ob reply before proposal \<lparr>tr_record = [], tr_emitted = []\<rparr>) \<and>
    told C ob (apply_anchored_edits lib ob model_strict model_split reply before proposal \<lparr>tr_record = [], tr_emitted = []\<rparr>)"
proof (intro conjI)
  note plain = keeps_plain_bind keeps_plain_simps keeps_plain_guard assms
  show "told C ob (apply_local_edits lib ob reply before proposal \<lparr>tr_record = [], tr_emitted = []\<rparr>)"
    unfolding apply_local_edits_def by (rule revision_run_told) (auto intro!: plain split: prod.split)
  show "told C ob (apply_full_function_revision lib ob reply before proposal \<lparr>tr_record = [], tr_emitted = []\<rparr>)"
    unfolding apply_full_function_revision_def by (rule revision_run_told) (auto intro!: plain split: prod.split)
  show "told C ob (apply_anchored_edits lib ob model_strict model_split reply before proposal \<lparr>tr_record = [], tr_emitted = []\<rparr>)"
    unfolding apply_anchored_edits_def
  proof (rule revision_run_told, goal_cases)
    case 1
    then show ?case by (auto intro!: plain split: prod.split)
  next
    case (2 t a t')
    then show ?case
      by (auto simp: tbind_def tlift_def tret_def split: prod.splits sum.splits dest!: revised_extracted)
  qed
qed

theorem diagnostics_source_free_witness:
  "told (set NODES) (Some (\<lambda>_. True)) (apply_local_edits sw_lib (Some (\<lambda>_. True)) ''x'' sw_text PNone \<lparr>tr_record = [], tr_emitted = []\<rparr>) \<and>
   fst (apply_local_edits sw_lib (Some (\<lambda>_. True)) ''x'' sw_text PNone \<lparr>tr_record = [], tr_emitted = []\<rparr>) = Inl (StructuredBlocked ''proposal_schema'') \<and>
   length (tr_emitted (snd (apply_local_edits sw_lib (Some (\<lambda>_. True)) ''x'' sw_text PNone \<lparr>tr_record = [], tr_emitted = []\<rparr>))) = 2"
proof -
  let ?run = "apply_local_edits sw_lib (Some (\<lambda>_. True)) ''x'' sw_text PNone \<lparr>tr_record = [], tr_emitted = []\<rparr>"
  have all: "list_all (\<lambda>n. ty n \<in> set NODES) (tree_nodes sw_module)" using sw_guarded by (simp add: guarded_Inr list_all_iff)
  have "tree = sw_module" if "parse_module sw_lib source = Inr tree" for source tree
    using that by (simp add: sw_lib_def split: if_splits)
  with all have nodes: "parse_module sw_lib source = Inr tree \<Longrightarrow> n \<in> set (tree_nodes tree) \<Longrightarrow> ty n \<in> set NODES" for source tree n
    unfolding list_all_iff by blast
  have "bound_task sw_lib sw_text PNone = Inl (StructuredBlocked ''proposal_schema'')"
    by (simp add: bound_task_def proposal_spec_def need_block_def is_dict_def Let_def)
  then have "fst ?run = Inl (StructuredBlocked ''proposal_schema'')" "length (tr_emitted (snd ?run)) = 2"
    by (simp_all add: apply_local_edits_def revision_run_def start_trace_def emit_def tbind_def trecord_def with_rejection_def tlift_def
        rejected_def)
  moreover have "told (set NODES) (Some (\<lambda>_. True)) ?run" using nodes by (intro diagnostics_source_free [THEN conjunct1]) blast
  ultimately show ?thesis by blast
qed

end
