(* ===== verification/Py_Repr.thy ===== *)
theory Py_Repr
  imports Py_Value
begin

text \<open>
  \<^verbatim>\<open>repr\<close> and \<^verbatim>\<open>str\<close> of JSON values, the part of \<^verbatim>\<open>urllib.parse\<close> and of \<^verbatim>\<open>uuid\<close> that the program uses, on ASCII texts. The text of a float is
  an argument.
\<close>

section \<open>repr and str\<close>

definition QUOTE :: char where
  "QUOTE = CHR 0x27"

definition DOUBLE :: char where
  "DOUBLE = CHR 0x22"

definition repr_char :: "char \<Rightarrow> char \<Rightarrow> string" where
  "repr_char q c =
     (if c = q \<or> c = CHR 0x5C then [CHR 0x5C, c]
      else if c = CHR 0x0A then [CHR 0x5C, CHR ''n''] else if c = CHR 0x0D then [CHR 0x5C, CHR ''r'']
      else if c = CHR 0x09 then [CHR 0x5C, CHR ''t'']
      else if code c < 32 \<or> code c = 127 then [CHR 0x5C, CHR ''x'', hex_digit (code c div 16), hex_digit (code c mod 16)]
      else [c])"

definition py_repr :: "string \<Rightarrow> string" where
  "py_repr s = (let q = (if QUOTE \<in> set s \<and> DOUBLE \<notin> set s then DOUBLE else QUOTE) in q # concat (map (repr_char q) s) @ [q])"

fun listed :: "string list \<Rightarrow> string" where
  "listed [] = []"
| "listed [x] = x"
| "listed (x # y # xs) = x @ '', '' @ listed (y # xs)"

fun repr_value :: "(rat \<Rightarrow> string) \<Rightarrow> pyval \<Rightarrow> string" and repr_list :: "(rat \<Rightarrow> string) \<Rightarrow> pyval list \<Rightarrow> string list" and
    repr_items :: "(rat \<Rightarrow> string) \<Rightarrow> pydict \<Rightarrow> string list" where
  "repr_value ft PNone = ''None''"
| "repr_value ft (PBool b) = (if b then ''True'' else ''False'')"
| "repr_value ft (PInt i) = show_int i"
| "repr_value ft (PFloat r) = ft r"
| "repr_value ft (PStr s) = py_repr s"
| "repr_value ft (PList vs) = ''['' @ listed (repr_list ft vs) @ '']''"
| "repr_value ft (PDict d) = ''{'' @ listed (repr_items ft d) @ ''}''"
| "repr_list ft [] = []"
| "repr_list ft (v # vs) = repr_value ft v # repr_list ft vs"
| "repr_items ft [] = []"
| "repr_items ft ((k, v) # d) = (py_repr k @ '': '' @ repr_value ft v) # repr_items ft d"

definition str_value :: "(rat \<Rightarrow> string) \<Rightarrow> pyval \<Rightarrow> string" where
  "str_value ft v = (case v of PStr s \<Rightarrow> s | _ \<Rightarrow> repr_value ft v)"

section \<open>URLs\<close>

record url =
  u_scheme :: string
  u_netloc :: string
  u_path :: string
  u_query :: string
  u_fragment :: string

definition before_char :: "char \<Rightarrow> string \<Rightarrow> string" where
  "before_char c s = takeWhile (\<lambda>x. x \<noteq> c) s"

definition after_char :: "char \<Rightarrow> string \<Rightarrow> string" where
  "after_char c s = tl (dropWhile (\<lambda>x. x \<noteq> c) s)"

definition after_last :: "char \<Rightarrow> string \<Rightarrow> string" where
  "after_last c s = rev (takeWhile (\<lambda>x. x \<noteq> c) (rev s))"

text \<open>The parameters after a semicolon in the last segment of a path are cut off.\<close>

definition without_params :: "string \<Rightarrow> string" where
  "without_params p = take (length p - length (after_last (CHR ''/'') p)) p @ before_char (CHR '';'') (after_last (CHR ''/'') p)"

definition urlparse :: "string \<Rightarrow> url" where
  "urlparse text =
     (let s = filter (\<lambda>c. code c \<notin> {9, 10, 13}) (dropWhile (\<lambda>c. code c \<le> 32) text);
          a = before_char (CHR '':'') s;
          known = CHR '':'' \<in> set s \<and> a \<noteq> [] \<and> is_alnum (hd a) \<and> \<not> is_digit (hd a) \<and> list_all (\<lambda>c. is_alnum c \<or> c \<in> set ''+-.'') a;
          scheme = (if known then py_lower a else []); rest = (if known then after_char (CHR '':'') s else s);
          split = starts_with ''//'' rest; body = (if split then drop 2 rest else rest);
          netloc = (if split then takeWhile (\<lambda>c. c \<notin> set ''/?#'') body else []); tail = drop (length netloc) body;
          p = before_char (CHR ''#'') tail; path = before_char (CHR ''?'') p in
      \<lparr>u_scheme = scheme, u_netloc = netloc, u_path = (if scheme \<in> {''http'', ''https''} then without_params path else path),
       u_query = after_char (CHR ''?'') p, u_fragment = after_char (CHR ''#'') tail\<rparr>)"

text \<open>(Unbalanced brackets of a host, which \<^verbatim>\<open>urlparse\<close> refuses with a \<^verbatim>\<open>ValueError\<close>, are taken as characters of it.)
  The host in lower case, if any; hosts in brackets keep them. The port, where it is a number of 16 bits; else the access raises. The credentials.\<close>

definition host_part :: "url \<Rightarrow> string" where
  "host_part u = after_last (CHR ''@'') (u_netloc u)"

definition hostname :: "url \<Rightarrow> string option" where
  "hostname u = (let h = before_char (CHR '':'') (host_part u) in if h = [] then None else Some (py_lower h))"

definition decimal :: "string \<Rightarrow> int" where
  "decimal s = foldl (\<lambda>n c. 10 * n + (int (code c) - 48)) 0 s"

definition port :: "url \<Rightarrow> string + int option" where
  "port u = (let p = after_char (CHR '':'') (host_part u) in
     if p = [] then Inr None
     else if \<not> list_all is_digit p \<or> 65535 < decimal p then Inl ''ValueError'' else Inr (Some (decimal p)))"

definition userinfo :: "url \<Rightarrow> string" where
  "userinfo u = (if CHR ''@'' \<in> set (u_netloc u) then take (length (u_netloc u) - length (host_part u) - 1) (u_netloc u) else [])"

definition credentials :: "url \<Rightarrow> bool" where
  "credentials u \<longleftrightarrow> before_char (CHR '':'') (userinfo u) \<noteq> [] \<or> after_char (CHR '':'') (userinfo u) \<noteq> []"

definition upper_hex :: "nat \<Rightarrow> char" where
  "upper_hex d = char_of (if d < 10 then 48 + d else 55 + d)"

definition url_quote :: "string \<Rightarrow> string" where
  "url_quote s = concat (map (\<lambda>c. if is_alnum c \<or> c \<in> set ''_.-~/'' then [c] else [CHR ''%'', upper_hex (code c div 16), upper_hex (code c mod 16)]) s)"

section \<open>UUIDs\<close>

definition nibble_value :: "char \<Rightarrow> int option" where
  "nibble_value c = (if is_digit c then Some (int (code c) - 48) else if is_lower_hex c then Some (int (code c) - 87)
     else if is_lower_hex (lower_char c) then Some (int (code (lower_char c)) - 87) else None)"

text \<open>Hexadecimal digits with single underscores between them.\<close>

fun hex_number :: "int \<Rightarrow> bool \<Rightarrow> string \<Rightarrow> int option" where
  "hex_number n ready [] = (if ready then Some n else None)"
| "hex_number n ready (c # s) =
     (if c = CHR ''_'' then if ready then hex_number n False s else None
      else (case nibble_value c of None \<Rightarrow> None | Some d \<Rightarrow> hex_number (16 * n + d) True s))"

text \<open>\<^verbatim>\<open>int(text, 16)\<close>: blanks around, a sign, the prefix \<^verbatim>\<open>0x\<close>.\<close>

definition int16 :: "string \<Rightarrow> int option" where
  "int16 text =
     (let s = py_strip text; signed = s \<noteq> [] \<and> hd s \<in> set ''+-''; t = (if signed then tl s else s);
          prefixed = take 2 t \<in> {''0x'', ''0X''}; u = (if prefixed then drop 2 t else t);
          v = (if prefixed \<and> starts_with ''_'' u then tl u else u) in
      map_option (\<lambda>n. if signed \<and> hd s = CHR ''-'' then - n else n) (hex_number 0 False v))"

fun without_text :: "string \<Rightarrow> string \<Rightarrow> nat \<Rightarrow> string" where
  "without_text w [] n = []"
| "without_text w (c # s) (Suc n) = without_text w s n"
| "without_text w (c # s) 0 = (if starts_with w (c # s) then without_text w s (length w - 1) else c # without_text w s 0)"

definition uuid_hex :: "string \<Rightarrow> string" where
  "uuid_hex s =
     filter (\<lambda>c. c \<noteq> CHR ''-'')
       (let t = without_text ''uuid:'' (without_text ''urn:'' s 0) 0; brace = (\<lambda>c. c \<in> set ''{}'') in
        rev (dropWhile brace (rev (dropWhile brace t))))"

definition hex32 :: "int \<Rightarrow> string" where
  "hex32 n = map (\<lambda>i. hex_digit (nat (n div 16 ^ i mod 16))) (rev [0..<32])"

definition dashed :: "string \<Rightarrow> string" where
  "dashed h = take 8 h @ ''-'' @ take 4 (drop 8 h) @ ''-'' @ take 4 (drop 12 h) @ ''-'' @ take 4 (drop 16 h) @ ''-'' @ drop 20 h"

text \<open>\<^verbatim>\<open>str(uuid.UUID(text))\<close>, or \<^verbatim>\<open>ValueError\<close>.\<close>

definition uuid_text :: "string \<Rightarrow> string option" where
  "uuid_text s =
     (if length (uuid_hex s) \<noteq> 32 then None
      else (case int16 (uuid_hex s) of None \<Rightarrow> None | Some i \<Rightarrow> if 0 \<le> i then Some (dashed (hex32 i)) else None))"

end
