(* ===== verification/Structured_Repair.thy ===== *)
theory Structured_Repair
  imports Structured_Anchors Structured_Actions Py_Repr "HOL-Library.Sublist"
begin

text \<open>
  \<^verbatim>\<open>app/structured_type_guard_completion.py\<close> and the rest of \<^verbatim>\<open>app/structured_code_worker.py\<close>: the search for a type guard that makes a
  candidate pass, and \<^verbatim>\<open>repair\<close>, which asks a model for at most two proposals, validates them, and commits the one that passes every case. The
  file system, git, the child process and the model are ports of an arbitrary world.
\<close>

section \<open>Guards derived from the source\<close>

definition MAX_GUARD_TRIALS :: nat where
  "MAX_GUARD_TRIALS = 12"

definition default_ok :: "ast \<Rightarrow> bool" where
  "default_ok n \<longleftrightarrow> ty n = ''Constant'' \<and> (case attr n ''value'' of AVal PNone \<Rightarrow> True | AVal (PStr _) \<Rightarrow> True | _ \<Rightarrow> False)"

definition guard_target :: "ast \<Rightarrow> string option" where
  "guard_target v =
     (if ty v = ''Name'' then if \<not> dunder (name_at v ''id'') then Some (name_at v ''id'') else None
      else if ty v \<noteq> ''Call'' then None
      else (case node_at v ''func'' of
        None \<Rightarrow> None
      | Some f \<Rightarrow>
         (case node_at f ''value'' of
            None \<Rightarrow> None
          | Some d \<Rightarrow>
             (if ty f \<noteq> ''Attribute'' \<or> name_at f ''attr'' \<noteq> ''get'' \<or> ty d \<noteq> ''Name'' \<or> dunder (name_at d ''id'') \<or> items_at v ''keywords'' \<noteq> []
              then None
              else (case nodes_at v ''args'' of
                k # rest \<Rightarrow>
                  (case attr k ''value'' of
                     AVal (PStr s) \<Rightarrow>
                       if ty k = ''Constant'' \<and> length s \<le> 128 \<and> (case rest of [] \<Rightarrow> True | [n] \<Rightarrow> default_ok n | _ \<Rightarrow> False)
                       then Some (name_at d ''id'' @ ''.get('' @ py_repr s @ '')'') else None
                   | _ \<Rightarrow> None)
              | [] \<Rightarrow> None)))))"

definition not_text :: "string \<Rightarrow> string" where
  "not_text s = ''not isinstance('' @ s @ '', str)''"

text \<open>The subject of a call of \<^verbatim>\<open>strip\<close>, and of a test \<^verbatim>\<open>isinstance(s, str)\<close>.\<close>

definition strip_subject :: "ast \<Rightarrow> string option" where
  "strip_subject n =
     (case node_at n ''func'' of
        Some f \<Rightarrow>
          if ty n = ''Call'' \<and> ty f = ''Attribute'' \<and> name_at f ''attr'' = ''strip'' \<and> items_at n ''args'' = [] \<and> items_at n ''keywords'' = []
          then Option.bind (node_at f ''value'') guard_target else None
      | None \<Rightarrow> None)"

definition tested_subject :: "ast \<Rightarrow> string option" where
  "tested_subject n =
     (case (node_at n ''func'', nodes_at n ''args'') of
        (Some f, [s, t]) \<Rightarrow>
          if ty n = ''Call'' \<and> ty f = ''Name'' \<and> name_at f ''id'' = ''isinstance'' \<and> items_at n ''keywords'' = [] \<and>
             ty t = ''Name'' \<and> name_at t ''id'' = ''str''
          then guard_target s else None
      | _ \<Rightarrow> None)"

definition site_conditions :: "ast \<Rightarrow> string list" where
  "site_conditions n =
     (if ty n \<in> {''Assign'', ''Return'', ''Expr''}
      then map not_text (filter (\<lambda>s. s \<noteq> []) (List.map_filter strip_subject (ast_walk n)))
      else if ty n = ''If'' \<and> items_at n ''orelse'' \<noteq> []
      then map (\<lambda>s. s @ '' is not None and '' @ not_text s)
        (filter (\<lambda>s. find_text ''.get('' s \<noteq> None) (List.map_filter tested_subject (case node_at n ''test'' of None \<Rightarrow> [] | Some t \<Rightarrow> ast_walk t)))
      else [])"

definition distinct_first :: "'a list \<Rightarrow> 'a list" where
  "distinct_first xs = rev (remdups (rev xs))"

definition guard_sites :: "py_lib \<Rightarrow> string \<Rightarrow> (string \<times> string) list checked" where
  "guard_sites lib source =
     bindE (statement_anchors lib source) (\<lambda>allowed.
     bindE (parse_uncaught lib source) (\<lambda>tree.
     case nodes_at tree ''body'' of
       f # _ \<Rightarrow> Inr (take MAX_GUARD_TRIALS (distinct_first (filter (\<lambda>(a, _). a \<in> set allowed)
                 (concat (map (\<lambda>n. map (Pair (anchor_of (lineno n - 1))) (site_conditions n)) (ast_walk f))))))
     | [] \<Rightarrow> Inl (Uncaught ''IndexError'')))"

section \<open>Ports\<close>

text \<open>What is looked at of the target, and of the git folder of the copy: the sections of its configuration with their keys and values
  (none where the file cannot be read as such), and of its hooks whether each is a file, with its name.\<close>

record target_facts =
  tf_root :: bool
  tf_parent :: bool
  tf_file :: bool
  tf_links :: nat
  tf_inside :: bool

record git_folder =
  gf_dir :: bool
  gf_config :: bool
  gf_config_size :: nat
  gf_sections :: "(string \<times> (string \<times> string) list) list option"
  gf_hooks_link :: bool
  gf_hooks :: "(bool \<times> string) list option"
  gf_alternates :: bool

text \<open>Reading and writing may raise; \<open>rp_lock\<close> says whether the lock was created, \<open>rp_receipt\<close> reads a receipt that
  exists, \<open>rp_write_receipt\<close> puts the JSON text of a mapping in its place.\<close>

record 'w repair_ports =
  rp_lib :: py_lib
  rp_linked :: "'w \<Rightarrow> bool"
  rp_root :: "string list"
  rp_state :: "string list"
  rp_mkdir :: "(unit, 'w) doing"
  rp_lock :: "string \<Rightarrow> (bool, 'w) doing"
  rp_unlock :: "string \<Rightarrow> 'w \<Rightarrow> 'w"
  rp_target :: "string \<Rightarrow> 'w \<Rightarrow> target_facts"
  rp_git_folder :: "'w \<Rightarrow> git_folder"
  rp_git :: "string list \<Rightarrow> ((int \<times> string) option, 'w) doing"
  rp_read :: "string \<Rightarrow> (string, 'w) doing"
  rp_write :: "string \<Rightarrow> string \<Rightarrow> (unit, 'w) doing"
  rp_receipt :: "string \<Rightarrow> (string option, 'w) doing"
  rp_write_receipt :: "string \<Rightarrow> pydict \<Rightarrow> (unit, 'w) doing"
  rp_patch :: "(string, 'w) doing"
  rp_write_patch :: "string \<Rightarrow> (unit, 'w) doing"
  rp_child :: "string \<Rightarrow> (child, 'w) doing"

type_synonym 'w proposer = "pydict \<Rightarrow> string \<Rightarrow> (string, 'w) doing"

text \<open>\<^verbatim>\<open>validate\<close> with the child process of the world.\<close>

definition child_input :: "py_lib \<Rightarrow> string \<Rightarrow> pydict \<Rightarrow> string checked" where
  "child_input lib source task =
     bindE (task_spec lib (PDict task)) (\<lambda>_.
     bindE (guarded lib source task) (\<lambda>_.
     bindE (extracted lib source task) (\<lambda>body.
     Inr (dumps_of lib False (PDict [(''source'', PStr body), (''task'', PDict task)])))))"

definition validate_in :: "'w repair_ports \<Rightarrow> string \<Rightarrow> pydict \<Rightarrow> (pydict, 'w) doing" where
  "validate_in ports source task =
     tbind (tlift (child_input (rp_lib ports) source task)) (\<lambda>payload.
     tbind (rp_child ports payload) (\<lambda>c.
     tlift (validate (rp_lib ports) (\<lambda>_. c) source task)))"

definition all_passed :: "pydict \<Rightarrow> bool" where
  "all_passed e \<longleftrightarrow> int_at e ''passed'' = int_at e ''total'' \<and> int_at e ''errors'' = 0"

section \<open>The search for a guard\<close>

definition trial_reply :: "py_lib \<Rightarrow> string \<times> string \<times> string \<Rightarrow> string" where
  "trial_reply lib t = (case t of (anchor, condition, literal) \<Rightarrow>
     dumps_of lib False (PDict [(''edits'', PList []), (''guards'', PList [PDict
       [(''anchor'', PStr anchor), (''guard'', PStr condition), (''return_expression'', PStr literal)]])]))"

definition trial :: "'w repair_ports \<Rightarrow> string \<Rightarrow> pydict \<Rightarrow> string \<Rightarrow> string \<times> string \<times> string \<Rightarrow> ((string \<times> pydict) option, 'w) doing" where
  "trial ports candidate task source t =
     (let lib = rp_lib ports in
      tbind (unless_rejected
        (tbind (tlift (assemble_anchors lib True (trial_reply lib t) source)) (\<lambda>(assembled, _).
         tbind (tlift (render lib candidate task (dumps_of lib False (PDict [(''function'', PStr assembled)])))) (\<lambda>revised.
         tbind (validate_in ports revised task) (\<lambda>checked.
         tret (revised, checked)))))) (\<lambda>r.
      tret (case r of None \<Rightarrow> None
        | Some (revised, checked) \<Rightarrow>
            if all_passed checked \<and> get checked ''failures'' = PList [] \<and> revised \<noteq> candidate then Some (revised, checked) else None)))"

fun run_trials :: "('t \<Rightarrow> ('b option, 'w) doing) \<Rightarrow> nat \<Rightarrow> 't list \<Rightarrow> (('t \<times> nat \<times> 'b) option, 'w) doing" where
  "run_trials try_one n [] = tret None"
| "run_trials try_one n (t # ts) =
     tbind (try_one t) (\<lambda>r. case r of None \<Rightarrow> run_trials try_one (Suc n) ts | Some b \<Rightarrow> tret (Some (t, Suc n, b)))"

definition completion_proof :: "string \<Rightarrow> string \<Rightarrow> string \<Rightarrow> nat \<Rightarrow> pydict \<Rightarrow> pydict" where
  "completion_proof candidate revised condition n checked =
     [(''result'', PStr ''AST_GUARD_COMPLETED''), (''strategy'', PStr ''bounded_source_derived_type_guard''), (''trials'', PInt (int n)),
      (''before_sha256'', PStr (sha256_hex candidate)), (''after_sha256'', PStr (sha256_hex revised)),
      (''guard_sha256'', PStr (sha256_hex condition)), (''validated_cases'', get checked ''total'')]"

definition complete_checked_type_guard ::
  "'w repair_ports \<Rightarrow> string \<Rightarrow> pydict \<Rightarrow> pydict \<Rightarrow> ((string \<times> pydict \<times> pydict) option, 'w) doing" where
  "complete_checked_type_guard ports candidate task failed =
     (let lib = rp_lib ports in
      tbind (tlift (task_spec lib (PDict task))) (\<lambda>_.
      tbind (tlift (validate_report lib (PDict failed) task)) (\<lambda>_.
      if int_at failed ''passed'' = int_at failed ''total'' then tret None
      else
        tbind (tlift (extracted lib candidate task)) (\<lambda>source.
        tbind (tlift (guard_return_literals lib source)) (\<lambda>literals.
        if literals = [] then tret None
        else
          tbind (tlift (guard_sites lib source)) (\<lambda>sites.
          tbind (run_trials (trial ports candidate task source) 0
            (take MAX_GUARD_TRIALS (concat (map (\<lambda>(a, c). map (\<lambda>l. (a, c, l)) literals) sites)))) (\<lambda>found.
          tret (case found of None \<Rightarrow> None
            | Some ((_, condition, _), n, revised, checked) \<Rightarrow> Some (revised, checked, completion_proof candidate revised condition n checked)))))))))"

section \<open>The copy\<close>

definition git_out :: "'w repair_ports \<Rightarrow> string list \<Rightarrow> (string, 'w) doing" where
  "git_out ports args =
     tbind (rp_git ports args) (\<lambda>r. case r of
       None \<Rightarrow> tlift (Inl (StructuredBlocked ''git_unavailable''))
     | Some (rc, out) \<Rightarrow> tbind (tneed (rc = 0 \<and> length out \<le> 1048576) ''git_operation'') (\<lambda>_. tret (py_strip out)))"

definition git_is :: "'w repair_ports \<Rightarrow> string list \<Rightarrow> string \<Rightarrow> (bool, 'w) doing" where
  "git_is ports args expected = tbind (git_out ports args) (\<lambda>out. tret (out = expected))"

definition CONFIG_KEYS :: "string list" where
  "CONFIG_KEYS = [''repositoryformatversion'', ''filemode'', ''bare'', ''logallrefupdates'', ''ignorecase'', ''precomposeunicode'', ''symlinks'']"

definition off :: "(string \<times> string) list \<Rightarrow> string \<Rightarrow> bool" where
  "off items k \<longleftrightarrow> (case map_of items k of None \<Rightarrow> True | Some v \<Rightarrow> v = ''false'')"

definition section_safe :: "string \<times> (string \<times> string) list \<Rightarrow> unit checked" where
  "section_safe s = (case s of (name, items) \<Rightarrow>
     if name = ''core''
     then bindE (need_block (list_all (\<lambda>(k, _). k \<in> set CONFIG_KEYS) items) ''git_configuration_unsafe'') (\<lambda>_.
          bindE (need_block (off items ''bare'') ''bare_repository'') (\<lambda>_.
          need_block (off items ''symlinks'') ''git_configuration_unsafe''))
     else need_block (starts_with (''branch '' @ [DOUBLE]) name \<and> list_all (\<lambda>(k, _). k \<in> {''remote'', ''merge''}) items) ''git_configuration_unsafe'')"

definition clean_git_configuration :: "git_folder \<Rightarrow> unit checked" where
  "clean_git_configuration g =
     bindE (need_block (gf_dir g) ''isolated_git_directory'') (\<lambda>_.
     bindE (need_block (gf_config g \<and> gf_config_size g \<le> 16384) ''git_config_file'') (\<lambda>_.
     case gf_sections g of
       None \<Rightarrow> Inl (StructuredBlocked ''git_configuration_invalid'')
     | Some sections \<Rightarrow>
         bindE (each section_safe sections) (\<lambda>_.
         bindE (need_block (\<not> gf_hooks_link g \<and> (case gf_hooks g of None \<Rightarrow> True
             | Some items \<Rightarrow> list_all (\<lambda>(file, name). file \<and> ends_with ''.sample'' name) items)) ''active_git_hooks'') (\<lambda>_.
         need_block (\<not> gf_alternates g) ''shared_git_objects''))))"

definition regular :: "target_facts \<Rightarrow> unit checked" where
  "regular t = need_block (tf_root t \<and> tf_parent t \<and> tf_file t \<and> tf_links t = 1 \<and> tf_inside t) ''target_not_regular''"

definition path_text :: "string list \<Rightarrow> string" where
  "path_text ps = (if ps = [] then ''/'' else concat (map (\<lambda>p. ''/'' @ p) ps))"

text \<open>\<^verbatim>\<open>read_text\<close> turns every line end into a line feed.\<close>

fun universal :: "string \<Rightarrow> string" where
  "universal [] = []"
| "universal (c # s) =
     (if c \<noteq> CHR 0x0D then c # universal s else if take 1 s = [newline] then universal s else newline # universal s)"

section \<open>The repair\<close>

definition identity_of :: "'w repair_ports \<Rightarrow> string" where
  "identity_of ports = sha256_hex (path_text (rp_root ports))"

definition task_hash :: "'w repair_ports \<Rightarrow> pydict \<Rightarrow> string" where
  "task_hash ports task = sha256_hex (dumps_of (rp_lib ports) True (PDict task))"

definition file_is :: "'w repair_ports \<Rightarrow> pydict \<Rightarrow> string \<Rightarrow> (bool, 'w) doing" where
  "file_is ports task h = tbind (rp_read ports (text_at task ''path'')) (\<lambda>b. tret (sha256_hex b = h))"

definition HEAD_ARGS :: "string list" where
  "HEAD_ARGS = [''rev-parse'', ''HEAD'']"

definition STATUS_ARGS :: "string list" where
  "STATUS_ARGS = [''status'', ''--porcelain'', ''--untracked-files=all'']"

definition isolated_copy :: "'w repair_ports \<Rightarrow> pydict \<Rightarrow> (unit, 'w) doing" where
  "isolated_copy ports task =
     tbind (tread (rp_target ports (text_at task ''path''))) (\<lambda>t.
     tbind (tlift (regular t)) (\<lambda>_.
     tbind (tread (rp_git_folder ports)) (\<lambda>g.
     tbind (tlift (clean_git_configuration g)) (\<lambda>_.
     tbind (git_is ports [''remote''] []) (\<lambda>b.
     tbind (tneed b ''remote_repository'') (\<lambda>_.
     tbind (git_out ports [''branch'', ''--show-current'']) (\<lambda>current.
     tbind (tneed (starts_with ''worker/'' current) ''worker_branch'') (\<lambda>_.
     tbind (git_is ports STATUS_ARGS []) (\<lambda>clean.
     tneed clean ''dirty_worktree'')))))))))"

text \<open>A receipt of the same task: its commit, file, validation and patch are checked again, and it is given out as a replay.\<close>

definition replay_receipt :: "'w repair_ports \<Rightarrow> pydict \<Rightarrow> string \<Rightarrow> (pydict, 'w) doing" where
  "replay_receipt ports task receipt =
     (let lib = rp_lib ports; path = text_at task ''path'' in
      tbind (tlift (case loads lib receipt of Some (PDict d) \<Rightarrow> Inr d | Some _ \<Rightarrow> Inl (Uncaught ''AttributeError'') | None \<Rightarrow> Inl (Uncaught ''JSONDecodeError''))) (\<lambda>previous.
      tbind (all_hold [tret (get previous ''task_hash'' = PStr (task_hash ports task)),
               tbind (git_out ports HEAD_ARGS) (\<lambda>h. tret (get previous ''produced_sha'' = PStr h)),
               tbind (rp_read ports path) (\<lambda>b. tret (get previous ''after_sha256'' = PStr (sha256_hex b)))]) (\<lambda>same.
      tbind (tneed same ''replay_changed'') (\<lambda>_.
      tbind (rp_read ports path) (\<lambda>b.
      tbind (validate_in ports (universal b) task) (\<lambda>checked.
      tbind (tneed (int_at checked ''passed'' = int_at checked ''total'') ''replay_validation'') (\<lambda>_.
      tbind (rp_patch ports) (\<lambda>patch.
      tbind (tlift (if ''patch_sha256'' \<in> keys previous then Inr () else Inl (Uncaught ''KeyError''))) (\<lambda>_.
      tbind (tneed (get previous ''patch_sha256'' = PStr (sha256_hex patch)) ''replay_patch_changed'') (\<lambda>_.
      tret (put_all [(''replayed'', PBool True), (''model_calls'', PInt 0)] previous)))))))))))"

definition source_unchanged :: "'w repair_ports \<Rightarrow> pydict \<Rightarrow> (unit, 'w) doing" where
  "source_unchanged ports task =
     tbind (all_hold [git_is ports HEAD_ARGS (text_at task ''base_sha''), git_is ports STATUS_ARGS [], file_is ports task (text_at task ''before_sha256'')]) (\<lambda>same.
     tneed same ''concurrent_change'')"

record candidate =
  cd_after :: string
  cd_print :: string
  cd_checked :: pydict

definition propose_once ::
  "'w repair_ports \<Rightarrow> 'w proposer \<Rightarrow> pydict \<Rightarrow> string \<Rightarrow> pydict \<Rightarrow> string \<Rightarrow> string list \<Rightarrow> (candidate, 'w) doing" where
  "propose_once ports propose task before proposal source seen =
     (let lib = rp_lib ports in
      tbind (source_unchanged ports task) (\<lambda>_.
      tbind (propose proposal source) (\<lambda>reply.
      tbind (tlift (render lib before task reply)) (\<lambda>after.
      tbind (tneed (after \<noteq> before) ''no_change'') (\<lambda>_.
      tbind (tlift (candidate_fingerprint lib after task)) (\<lambda>print.
      tbind (tneed (print \<notin> set seen) ''candidate_repeated'') (\<lambda>_.
      tbind (validate_in ports after task) (\<lambda>checked.
      tret \<lparr>cd_after = after, cd_print = print, cd_checked = checked\<rparr>))))))))"

definition attempt_entry :: "int \<Rightarrow> candidate \<Rightarrow> pydict" where
  "attempt_entry n c =
     [(''attempt'', PInt n), (''candidate_sha256'', PStr (sha256_hex (cd_after c))), (''validation'', PDict (cd_checked c))]"

text \<open>The text to write, its validation, and the attempts that led there.\<close>

type_synonym proposal_outcome = "string \<times> pydict \<times> pydict list"

definition second_attempt ::
  "'w repair_ports \<Rightarrow> 'w proposer \<Rightarrow> pydict \<Rightarrow> string \<Rightarrow> candidate \<Rightarrow> (proposal_outcome, 'w) doing" where
  "second_attempt ports propose task before first =
     (let lib = rp_lib ports in
      tbind (tlift (semantic_feedback lib task (cd_after first) (PDict (cd_checked first)))) (\<lambda>feedback.
      tbind (tlift (extracted lib (cd_after first) task)) (\<lambda>source.
      tbind (propose_once ports propose task before (task @ [(''feedback'', feedback)]) source [cd_print first]) (\<lambda>c.
      if all_passed (cd_checked c)
      then tret (cd_after c, cd_checked c, [attempt_entry 1 first, attempt_entry 2 c])
      else tbind (complete_checked_type_guard ports (cd_after c) task (cd_checked c)) (\<lambda>found. case found of
          None \<Rightarrow> tlift (Inl (StructuredBlocked ''candidate_tests_failed''))
        | Some (revised, checked, proof) \<Rightarrow>
            tbind (tneed (all_passed checked) ''candidate_tests_failed'') (\<lambda>_.
            tret (revised, checked, [attempt_entry 1 first, attempt_entry 2 c @ [(''ast_guard_completion'', PDict proof)]])))))))"

definition attempts_for ::
  "'w repair_ports \<Rightarrow> 'w proposer \<Rightarrow> pydict \<Rightarrow> string \<Rightarrow> (proposal_outcome, 'w) doing" where
  "attempts_for ports propose task before =
     tbind (tlift (extracted (rp_lib ports) before task)) (\<lambda>source.
     tbind (propose_once ports propose task before task source []) (\<lambda>first.
     if all_passed (cd_checked first) then tret (cd_after first, cd_checked first, [attempt_entry 1 first])
     else second_attempt ports propose task before first))"

text \<open>Writing, committing and proving the commit.\<close>

definition commit_written :: "'w repair_ports \<Rightarrow> pydict \<Rightarrow> (string \<times> string, 'w) doing" where
  "commit_written ports task =
     (let path = text_at task ''path''; base = text_at task ''base_sha'' in
      tbind (git_is ports [''diff'', ''--name-only''] path) (\<lambda>b.
      tbind (tneed b ''change_scope'') (\<lambda>_.
      tbind (git_out ports [''diff'', ''--check'']) (\<lambda>_.
      tbind (git_out ports [''diff'', ''--'', path]) (\<lambda>diff.
      tbind (git_out ports [''add'', ''--'', path]) (\<lambda>_.
      tbind (git_is ports [''diff'', ''--cached'', ''--name-only''] path) (\<lambda>staged.
      tbind (tneed staged ''staged_scope'') (\<lambda>_.
      tbind (git_out ports [''-c'', ''user.name=Structured Code Worker'', ''-c'', ''user.email=worker@localhost'', ''commit'', ''-m'',
               ''fix: validated structured-function repair'']) (\<lambda>_.
      tbind (git_out ports HEAD_ARGS) (\<lambda>produced.
      tbind (all_hold [tret (produced \<noteq> base), git_is ports [''status'', ''--porcelain''] [],
               git_is ports [''diff'', ''--name-only'', base, produced] path]) (\<lambda>proved.
      tbind (tneed proved ''commit_not_proved'') (\<lambda>_.
      tret (diff @ [newline], produced)))))))))))))"

definition commit_candidate :: "'w repair_ports \<Rightarrow> pydict \<Rightarrow> string \<Rightarrow> (string \<times> string, 'w) doing" where
  "commit_candidate ports task after =
     tbind (rp_write ports (text_at task ''path'') after) (\<lambda>_. commit_written ports task)"

definition repair_result ::
  "'w repair_ports \<Rightarrow> pydict \<Rightarrow> string \<Rightarrow> pydict \<Rightarrow> proposal_outcome \<Rightarrow> string \<Rightarrow> string \<Rightarrow> string \<Rightarrow> pydict" where
  "repair_result ports task before baseline outcome patch produced final =
     (case outcome of (after, checked, attempts) \<Rightarrow>
       [(''result'', PStr ''STRUCTURED_CODE_REPAIRED''), (''task_id'', get task ''task_id''),
        (''task_hash'', PStr (task_hash ports task)), (''base_sha'', get task ''base_sha''), (''produced_sha'', PStr produced),
        (''path'', get task ''path''), (''function'', get task ''function''),
        (''before_sha256'', PStr (sha256_hex before)), (''after_sha256'', PStr (sha256_hex final)),
        (''baseline'', PDict baseline), (''validation'', PDict checked), (''patch_sha256'', PStr (sha256_hex patch)),
        (''replayed'', PBool False), (''model_calls'', PInt (int (length attempts))), (''attempts'', PList (map PDict attempts))])"

definition finish :: "'w repair_ports \<Rightarrow> pydict \<Rightarrow> string \<Rightarrow> pydict \<Rightarrow> proposal_outcome \<Rightarrow> (pydict, 'w) doing" where
  "finish ports task before baseline outcome =
     (let path = text_at task ''path''; checked = fst (snd outcome) in
      tbind (source_unchanged ports task) (\<lambda>_.
      tbind (tread (rp_target ports path)) (\<lambda>t.
      tbind (tlift (regular t)) (\<lambda>_.
      tbind (commit_candidate ports task (fst outcome)) (\<lambda>(patch, produced).
      tbind (rp_read ports path) (\<lambda>written.
      tbind (validate_in ports (universal written) task) (\<lambda>again.
      tbind (tneed (deep_eq (PDict again) (PDict checked)) ''post_commit_validation'') (\<lambda>_.
      tbind (rp_read ports path) (\<lambda>final.
      let result = repair_result ports task before baseline outcome patch produced final in
      tbind (rp_write_patch ports patch) (\<lambda>_.
      tbind (rp_write_receipt ports (identity_of ports @ ''.json'') result) (\<lambda>_.
      tret result)))))))))))"

definition repair_locked :: "'w repair_ports \<Rightarrow> pydict \<Rightarrow> 'w proposer \<Rightarrow> (pydict, 'w) doing" where
  "repair_locked ports task propose =
     tbind (isolated_copy ports task) (\<lambda>_.
     tbind (rp_receipt ports (identity_of ports @ ''.json'')) (\<lambda>receipt. case receipt of
       Some previous \<Rightarrow> replay_receipt ports task previous
     | None \<Rightarrow>
        tbind (rp_read ports (text_at task ''path'')) (\<lambda>before.
        tbind (all_hold [git_is ports HEAD_ARGS (text_at task ''base_sha''), tret (sha256_hex before = text_at task ''before_sha256'')]) (\<lambda>b.
        tbind (tneed b ''source_changed'') (\<lambda>_.
        tbind (validate_in ports before task) (\<lambda>baseline.
        tbind (tneed (int_at baseline ''passed'' < int_at baseline ''total'') ''no_failing_baseline'') (\<lambda>_.
        tbind (attempts_for ports propose task before) (\<lambda>outcome.
        finish ports task before baseline outcome))))))))"

definition repair :: "'w repair_ports \<Rightarrow> pydict \<Rightarrow> 'w proposer \<Rightarrow> (pydict, 'w) doing" where
  "repair ports task propose =
     tbind (tlift (task_spec (rp_lib ports) (PDict task))) (\<lambda>_.
     tbind (tread (rp_linked ports)) (\<lambda>linked.
     tbind (tneed (\<not> linked) ''symlink_root'') (\<lambda>_.
     tbind (tneed (\<not> prefix (rp_root ports) (rp_state ports) \<and> \<not> prefix (rp_state ports) (rp_root ports)) ''state_location'') (\<lambda>_.
     tbind (rp_mkdir ports) (\<lambda>_.
     tbind (rp_lock ports (identity_of ports @ ''.lock'')) (\<lambda>created.
     tbind (tneed created ''worker_busy'') (\<lambda>_.
     lastly (repair_locked ports task propose) (rp_unlock ports (identity_of ports @ ''.lock'')))))))))"

end
