(* ===== verification/Structured_Outcome.thy ===== *)
theory Structured_Outcome
  imports Structured_Repair Structured_Report
begin

text \<open>
  What a repair does: it asks the model at most twice and runs a bounded number of validations, it writes only a text that passed every
  case, and when it returns, the file is that text.
\<close>

section \<open>What it costs\<close>

text \<open>A resource that only proposals (\<open>a\<close> each) and validations (\<open>b\<close> each) use.\<close>

definition charged :: "('w \<Rightarrow> nat) \<Rightarrow> nat \<Rightarrow> nat \<Rightarrow> 'w repair_ports \<Rightarrow> 'w proposer \<Rightarrow> bool" where
  "charged c a b ports propose \<longleftrightarrow>
     uses c 0 (rp_mkdir ports) \<and> (\<forall>l. uses c 0 (rp_lock ports l)) \<and> (\<forall>l w. c (rp_unlock ports l w) \<le> c w) \<and> (\<forall>g. uses c 0 (rp_git ports g)) \<and>
     (\<forall>p. uses c 0 (rp_read ports p)) \<and> (\<forall>p s. uses c 0 (rp_write ports p s)) \<and> (\<forall>l. uses c 0 (rp_receipt ports l)) \<and>
     (\<forall>l d. uses c 0 (rp_write_receipt ports l d)) \<and> uses c 0 (rp_patch ports) \<and> (\<forall>s. uses c 0 (rp_write_patch ports s)) \<and>
     (\<forall>p. uses c b (rp_child ports p)) \<and> (\<forall>t s. uses c a (propose t s))"

lemma uses_git_out: "charged c a b ports propose \<Longrightarrow> uses c 0 (git_out ports args)"
  unfolding git_out_def charged_def by (auto intro!: uses_free split: option.split)

lemma uses_git_is: "charged c a b ports propose \<Longrightarrow> uses c 0 (git_is ports args e)"
  unfolding git_is_def by (auto intro!: uses_free uses_git_out)

lemma uses_read: "charged c a b ports propose \<Longrightarrow> uses c 0 (rp_read ports p)"
  by (simp add: charged_def)

lemma uses_unchanged:
  assumes "charged c a b ports propose"
  shows "uses c 0 (source_unchanged ports task)"
proof -
  have "uses c 0 (file_is ports task h)" for h unfolding file_is_def by (intro uses_free uses_read [OF assms] uses_pure)
  then show ?thesis
    unfolding source_unchanged_def using uses_git_is [OF assms] by (intro uses_free uses_all_hold uses_pure) auto
qed

lemma uses_isolated_copy: "charged c a b ports propose \<Longrightarrow> uses c 0 (isolated_copy ports task)"
  unfolding isolated_copy_def by (intro uses_free uses_pure) (auto intro: uses_git_is uses_git_out)

lemma uses_validate: "charged c a b ports propose \<Longrightarrow> uses c b (validate_in ports source task)"
  unfolding validate_in_def charged_def by (rule uses_steps, rule uses_pay) simp_all

lemma uses_trial:
  assumes "charged c a b ports propose"
  shows "uses c b (trial ports candidate task source t)"
  unfolding trial_def Let_def
  unfolding case_prod_unfold by (rule uses_pure uses_steps uses_validate [OF assms] uses_unless uses_pay)+

lemma uses_run_trials: "(\<And>t. uses c b (try_one t)) \<Longrightarrow> uses c (b * length ts) (run_trials try_one n ts)"
proof (induction ts arbitrary: n)
  case (Cons t ts)
  have "uses c (b + b * length ts) (run_trials try_one n (t # ts))"
    unfolding run_trials.simps by (rule uses_bind) (auto intro: Cons split: option.split)
  then show ?case by simp
qed simp

lemma uses_complete:
  assumes "charged c a b ports propose"
  shows "uses c (12 * b) (complete_checked_type_guard ports candidate task failed)"
proof -
  have t: "uses c (12 * b) (run_trials (trial ports candidate task source) 0 (take MAX_GUARD_TRIALS ts))" for source ts
    using uses_run_trials [of c b "trial ports candidate task source" "take MAX_GUARD_TRIALS ts" 0] uses_trial [OF assms]
    by (auto intro: uses_mono simp: MAX_GUARD_TRIALS_def min_def split: if_splits)
  show ?thesis
    unfolding complete_checked_type_guard_def Let_def by (rule uses_pure uses_steps t uses_pay)+
qed

lemma uses_propose_once:
  assumes "charged c a b ports propose"
  shows "uses c (a + b) (propose_once ports propose task before proposal source seen)"
  unfolding propose_once_def Let_def
proof (rule uses_free [OF uses_unchanged [OF assms]], rule uses_bind)
  show "uses c a (propose proposal source)" using assms by (simp add: charged_def)
  show "uses c b (tbind (tlift (render (rp_lib ports) before task reply)) (\<lambda>after. tbind (tneed (after \<noteq> before) ''no_change'') (\<lambda>_.
      tbind (tlift (candidate_fingerprint (rp_lib ports) after task)) (\<lambda>print. tbind (tneed (print \<notin> set seen) ''candidate_repeated'') (\<lambda>_.
      tbind (validate_in ports after task) (\<lambda>checked. tret \<lparr>cd_after = after, cd_print = print, cd_checked = checked\<rparr>))))))" for reply
    by (rule uses_pure uses_steps uses_validate [OF assms] uses_pay)+
qed

lemma uses_attempts:
  assumes "charged c a b ports propose"
  shows "uses c (2 * a + 14 * b) (attempts_for ports propose task before)"
proof -
  have "uses c (12 * b) (tbind (complete_checked_type_guard ports (cd_after x) task (cd_checked x)) (\<lambda>found. case found of
      None \<Rightarrow> tlift (Inl (StructuredBlocked ''candidate_tests_failed''))
    | Some (revised, checked, proof) \<Rightarrow> tbind (tneed (all_passed checked) ''candidate_tests_failed'') (\<lambda>_. tret (f revised checked proof))))"
    for x and f :: "string \<Rightarrow> pydict \<Rightarrow> pydict \<Rightarrow> proposal_outcome"
    by (rule uses_pay [OF uses_complete [OF assms]]) (auto intro: uses_steps split: option.split)
  note done_by = this
  have "uses c (a + b + 12 * b) (second_attempt ports propose task before first)" for first
    unfolding second_attempt_def Let_def by (rule done_by uses_pure uses_steps uses_propose_once [OF assms] uses_bind)+
  then have s: "uses c (a + 13 * b) (second_attempt ports propose task before first)" for first
    by (rule uses_mono) simp
  have "uses c (a + b + (a + 13 * b)) (attempts_for ports propose task before)"
    unfolding attempts_for_def by (rule s uses_pure uses_steps uses_propose_once [OF assms] uses_bind)+
  then show ?thesis by (rule uses_mono) simp
qed

lemma uses_commit:
  assumes "charged c a b ports propose"
  shows "uses c 0 (commit_candidate ports task after)"
  unfolding commit_candidate_def commit_written_def Let_def using uses_git_is [OF assms] uses_git_out [OF assms] assms
  by (intro uses_free uses_all_hold uses_pure) (auto simp: charged_def)

lemma uses_finish:
  assumes "charged c a b ports propose"
  shows "uses c b (finish ports task before baseline outcome)"
proof -
  have w: "uses c 0 (rp_write_patch ports s)" "uses c 0 (rp_write_receipt ports l d)" for s l d using assms by (simp_all add: charged_def)
  have "uses c b (tbind (validate_in ports (universal written) task) (\<lambda>again.
      tbind (tneed (deep_eq (PDict again) (PDict checked)) ''post_commit_validation'') (\<lambda>_.
      tbind (rp_read ports path) (\<lambda>final.
      tbind (rp_write_patch ports patch) (\<lambda>_.
      tbind (rp_write_receipt ports l (r final)) (\<lambda>_.
      tret (r final)))))))" for written checked path patch l and r :: "string \<Rightarrow> pydict"
    by (rule uses_pure uses_steps uses_validate [OF assms] uses_free [OF uses_read [OF assms]] uses_free [OF w(1)] uses_free [OF w(2)] uses_pay)+
  note tail = this
  show ?thesis
    unfolding finish_def Let_def case_prod_unfold
    by (rule uses_steps tail uses_free [OF uses_unchanged [OF assms]] uses_free [OF uses_commit [OF assms]] uses_free [OF uses_read [OF assms]])+
qed

lemma uses_replay:
  assumes "charged c a b ports propose"
  shows "uses c b (replay_receipt ports task receipt)"
proof -
  have h: "uses c 0 (tbind (git_out ports x) (\<lambda>h. tret (f h)))" "uses c 0 (tbind (rp_read ports p) (\<lambda>h. tret (f h)))" for x p and f :: "string \<Rightarrow> bool"
    by (intro uses_free uses_git_out [OF assms] uses_read [OF assms] uses_pure)+
  have p: "uses c 0 (rp_patch ports)" using assms by (simp add: charged_def)
  show ?thesis
    unfolding replay_receipt_def Let_def
    by (rule uses_steps, rule uses_free [OF uses_all_hold], use h in force, intro uses_steps, rule uses_free [OF uses_read [OF assms]],
        rule uses_pay [OF uses_validate [OF assms]]) (rule uses_pure uses_steps uses_free [OF p])+
qed

text \<open>C14: A repair is bounded. Whatever the model answers and whatever the validations show, one repair asks the model at most twice and starts at most
  sixteen validations: any resource of which a proposal uses \<open>a\<close>, a validation \<open>b\<close> and nothing else anything grows by at most \<open>2 a + 16 b\<close>.\<close>

theorem repair_bounded:
  assumes "charged c a b ports propose"
  shows "c (snd (repair ports task propose w)) \<le> c w + (2 * a + 16 * b)"
proof -
  have free: "uses c 0 (rp_mkdir ports)" "uses c 0 (rp_lock ports l)" "c (rp_unlock ports l w) \<le> c w" "uses c 0 (rp_receipt ports l)" for l w
    using assms by (simp_all add: charged_def)
  have fin: "uses c (2 * a + 15 * b) (tbind (attempts_for ports propose task before) (finish ports task before baseline))" for before baseline
    using uses_bind [OF uses_attempts [OF assms] uses_finish [OF assms]] by (rule uses_mono) simp
  have hold: "uses c 0 (all_hold [git_is ports HEAD_ARGS x, tret y])" for x y
    using uses_git_is [OF assms] by (intro uses_all_hold) auto
  have "uses c (b + (2 * a + 15 * b)) (tbind (validate_in ports before task) (\<lambda>baseline.
      tbind (tneed (int_at baseline ''passed'' < int_at baseline ''total'') ''no_failing_baseline'') (\<lambda>_.
      tbind (attempts_for ports propose task before) (\<lambda>outcome. finish ports task before baseline outcome))))" for before
    by (rule uses_steps uses_validate [OF assms] fin uses_bind)+
  then have new: "uses c (2 * a + 16 * b) (tbind (validate_in ports before task) (\<lambda>baseline.
      tbind (tneed (int_at baseline ''passed'' < int_at baseline ''total'') ''no_failing_baseline'') (\<lambda>_.
      tbind (attempts_for ports propose task before) (\<lambda>outcome. finish ports task before baseline outcome))))" for before
    by (rule uses_mono) simp
  have old: "uses c (2 * a + 16 * b) (replay_receipt ports task receipt)" for receipt
    using uses_replay [OF assms] by (rule uses_mono) simp
  have "uses c (2 * a + 16 * b) (repair_locked ports task propose)"
    unfolding repair_locked_def
    by (rule uses_free [OF uses_isolated_copy [OF assms]], rule uses_free [OF free(4)])
      (auto intro!: old uses_free [OF uses_read [OF assms]] uses_free [OF hold] uses_need new simp del: all_hold.simps split: option.split)
  then have "uses c (2 * a + 16 * b) (lastly (repair_locked ports task propose) (rp_unlock ports l))" for l
    unfolding uses_def lastly_def using free(3) by (auto split: prod.split) (metis le_trans snd_conv)
  note locked = this
  have "uses c (2 * a + 16 * b) (repair ports task propose)"
    unfolding repair_def by (rule locked uses_steps uses_free [OF free(1)] uses_free [OF free(2)])+
  then show ?thesis by (simp add: uses_def)
qed

section \<open>What is written\<close>

text \<open>A part of the world that only writing changes, the content of the target file. A write that returns has put the text there; a write that
  raises may leave anything, for it empties the file first.\<close>

definition only_write_changes :: "('w \<Rightarrow> string) \<Rightarrow> 'w repair_ports \<Rightarrow> pydict \<Rightarrow> 'w proposer \<Rightarrow> bool" where
  "only_write_changes f ports task propose \<longleftrightarrow>
     keeps_part f (rp_mkdir ports) \<and> (\<forall>l. keeps_part f (rp_lock ports l)) \<and> (\<forall>l w. f (rp_unlock ports l w) = f w) \<and> (\<forall>g. keeps_part f (rp_git ports g)) \<and>
     (\<forall>p. keeps_part f (rp_read ports p)) \<and> (\<forall>s w w'. rp_write ports (text_at task ''path'') s w = (Inr (), w') \<longrightarrow> f w' = s) \<and> (\<forall>l. keeps_part f (rp_receipt ports l)) \<and>
     (\<forall>l d. keeps_part f (rp_write_receipt ports l d)) \<and> keeps_part f (rp_patch ports) \<and> (\<forall>s. keeps_part f (rp_write_patch ports s)) \<and>
     (\<forall>p. keeps_part f (rp_child ports p)) \<and> (\<forall>t s. keeps_part f (propose t s))"

text \<open>The child of a validation is the modelled validator, and the JSON reader reads what was written to it and by it.\<close>

definition true_validator :: "runner \<Rightarrow> 'w repair_ports \<Rightarrow> pydict \<Rightarrow> bool" where
  "true_validator run ports task \<longleftrightarrow>
     (\<forall>p w c. fst (rp_child ports p w) = Inr c \<longrightarrow> c = spawned (rp_lib ports) run p) \<and>
     (\<forall>source body. extracted (rp_lib ports) source task = Inr body \<longrightarrow> reads (rp_lib ports) (child_payload body task)) \<and>
     (\<forall>tree. reads (rp_lib ports) (child_report (rp_lib ports) run tree task))"

text \<open>The function of a text passes every case of the task.\<close>

definition passes_all :: "runner \<Rightarrow> py_lib \<Rightarrow> pydict \<Rightarrow> string \<Rightarrow> bool" where
  "passes_all run lib task source \<longleftrightarrow>
     (\<exists>body tree. extracted lib source task = Inr body \<and> guarded lib body task = Inr tree \<and>
        (\<forall>c\<in>set (list_at task ''cases''). case_passes run tree (text_at task ''function'') c))"

lemma validate_payload:
  "child_input lib source task = Inr payload \<Longrightarrow> validate lib (\<lambda>_. process payload) source task = validate lib process source task"
  by (auto simp: child_input_def validate_def outcome_simps)

lemma validate_in_Inr:
  assumes "validate_in ports source task w = (Inr e, w')" "true_validator run ports task" "int_at e ''passed'' = int_at e ''total''"
  shows "passes_all run (rp_lib ports) task source"
proof -
  obtain payload c where p: "child_input (rp_lib ports) source task = Inr payload" "validate (rp_lib ports) (\<lambda>_. c) source task = Inr e"
    and "\<exists>v w. fst (rp_child ports v w) = Inr c \<and> v = payload"
    using assms(1) by (auto simp: validate_in_def doing_simps) (metis fst_conv)
  then have "c = spawned (rp_lib ports) run payload" using assms(2) by (auto simp: true_validator_def)
  then have "validate (rp_lib ports) (spawned (rp_lib ports) run) source task = Inr e" using p validate_payload by metis
  with validated_cases [OF this] assms(2,3) show ?thesis unfolding passes_all_def true_validator_def by metis
qed

lemma run_trials_Some: "run_trials try_one n ts w = (Inr (Some (t, k, b)), w') \<Longrightarrow> \<exists>w1 w2. try_one t w1 = (Inr (Some b), w2)"
  by (induction ts arbitrary: n w) (fastforce simp: doing_simps split: option.splits)+

text \<open>A text with its validation, which is a full pass.\<close>

definition judged :: "'w repair_ports \<Rightarrow> pydict \<Rightarrow> string \<Rightarrow> pydict \<Rightarrow> bool" where
  "judged ports task source e \<longleftrightarrow> all_passed e \<and> (\<exists>w w'. validate_in ports source task w = (Inr e, w'))"

lemma judged_passes: "judged ports task source e \<Longrightarrow> true_validator run ports task \<Longrightarrow> passes_all run (rp_lib ports) task source"
  by (auto simp: judged_def all_passed_def dest: validate_in_Inr)

lemma trial_judged: "trial ports cand task source t w = (Inr (Some (revised, checked)), w') \<Longrightarrow> judged ports task revised checked"
  by (auto simp: trial_def judged_def doing_simps Let_def case_prod_unfold split: option.splits if_splits)

lemma complete_judged:
  "complete_checked_type_guard ports cand task failed w = (Inr (Some (revised, checked, pr)), w') \<Longrightarrow> judged ports task revised checked"
  by (auto simp: complete_checked_type_guard_def doing_simps Let_def split: if_splits option.splits prod.splits
      dest!: run_trials_Some trial_judged)

lemma propose_once_judged:
  "propose_once ports propose task before proposal source seen w = (Inr c, w') \<Longrightarrow> all_passed (cd_checked c) \<Longrightarrow>
   judged ports task (cd_after c) (cd_checked c)"
  unfolding propose_once_def judged_def by (fastforce simp: doing_simps Let_def)

lemma attempts_judged:
  "attempts_for ports propose task before w = (Inr outcome, w') \<Longrightarrow> judged ports task (fst outcome) (fst (snd outcome))"
  by (auto simp: attempts_for_def second_attempt_def doing_simps Let_def split: if_splits option.splits prod.splits
      dest!: propose_once_judged complete_judged)

lemma kept_ports:
  assumes "only_write_changes f ports task propose"
  shows "keeps_part f (rp_mkdir ports)" "keeps_part f (rp_lock ports l)" "f (rp_unlock ports l w) = f w" "keeps_part f (rp_git ports g)"
    "keeps_part f (rp_read ports p)" "keeps_part f (rp_receipt ports l)" "keeps_part f (rp_write_receipt ports l d)"
    "keeps_part f (rp_patch ports)" "keeps_part f (rp_write_patch ports s)" "keeps_part f (rp_child ports p)" "keeps_part f (propose t s)"
  using assms by (simp_all add: only_write_changes_def)

lemma kept_git:
  assumes "only_write_changes f ports task propose"
  shows "keeps_part f (git_out ports args)" "keeps_part f (git_is ports args e)"
  unfolding git_is_def git_out_def using kept_ports [OF assms] by (auto intro!: keeps_part_bind split: option.split)

lemma kept_checks:
  assumes "only_write_changes f ports task propose"
  shows "keeps_part f (source_unchanged ports task)" "keeps_part f (isolated_copy ports task)" "keeps_part f (validate_in ports source task)"
    "keeps_part f (replay_receipt ports task receipt)"
proof -
  have content: "keeps_part f (file_is ports task h)" for h
    unfolding file_is_def using kept_ports [OF assms] by (intro keeps_part_bind) auto
  show "keeps_part f (source_unchanged ports task)"
    unfolding source_unchanged_def using kept_git [OF assms] content by (intro keeps_part_bind keeps_part_all_hold) auto
  show "keeps_part f (isolated_copy ports task)"
    unfolding isolated_copy_def using kept_git [OF assms] by (intro keeps_part_bind) auto
  show v: "keeps_part f (validate_in ports source task)" for source
    unfolding validate_in_def using kept_ports [OF assms] by (intro keeps_part_bind) auto
  have "keeps_part f (tbind (git_out ports x) (\<lambda>h. tret (q h)))" "keeps_part f (tbind (rp_read ports p) (\<lambda>h. tret (q h)))"
    for x p and q :: "string \<Rightarrow> bool"
    using kept_git [OF assms] kept_ports [OF assms] by (auto intro!: keeps_part_bind)
  then show "keeps_part f (replay_receipt ports task receipt)"
    unfolding replay_receipt_def Let_def using kept_ports [OF assms] v by (intro keeps_part_bind keeps_part_all_hold) auto
qed

lemma kept_run_trials: "(\<And>t. keeps_part f (try_one t)) \<Longrightarrow> keeps_part f (run_trials try_one n ts)"
  by (induction ts arbitrary: n) (auto intro!: keeps_part_bind split: option.split)

lemma kept_attempts:
  assumes "only_write_changes f ports task propose"
  shows "keeps_part f (attempts_for ports propose task before)"
proof -
  note kept = kept_checks [OF assms] kept_ports [OF assms]
  have "keeps_part f (trial ports cand task source t)" for cand source t
    unfolding trial_def Let_def using kept by (auto intro!: keeps_part_bind keeps_part_unless split: prod.split)
  then have "keeps_part f (complete_checked_type_guard ports cand task failed)" for cand failed
    unfolding complete_checked_type_guard_def Let_def by (auto intro!: keeps_part_bind kept_run_trials)
  moreover have "keeps_part f (propose_once ports propose task before proposal source seen)" for proposal source seen
    unfolding propose_once_def Let_def using kept by (intro keeps_part_bind) auto
  ultimately show ?thesis
    unfolding attempts_for_def second_attempt_def Let_def by (auto intro!: keeps_part_bind split: option.split)
qed

text \<open>The write of a text with \<open>P\<close> raised \<open>e\<close> and left the content \<open>c\<close>.\<close>

definition failed_write :: "('w \<Rightarrow> string) \<Rightarrow> 'w repair_ports \<Rightarrow> pydict \<Rightarrow> (string \<Rightarrow> bool) \<Rightarrow> serror \<Rightarrow> string \<Rightarrow> bool" where
  "failed_write f ports task P e c \<longleftrightarrow> (\<exists>s w w'. P s \<and> rp_write ports (text_at task ''path'') s w = (Inl e, w') \<and> f w' = c)"

lemma finish_lands:
  assumes "only_write_changes f ports task propose"
  shows "lands f (\<lambda>s. s = fst outcome) (failed_write f ports task (\<lambda>s. s = fst outcome)) (finish ports task before baseline outcome)"
proof -
  have written: "keeps_part f (commit_written ports task)"
    unfolding commit_written_def Let_def using kept_git [OF assms] by (intro keeps_part_bind keeps_part_all_hold) auto
  let ?B = "failed_write f ports task (\<lambda>s. s = fst outcome)"
  have "lands f (\<lambda>s. s = fst outcome) ?B (rp_write ports (text_at task ''path'') (fst outcome))"
    unfolding lands_def
  proof
    fix w
    obtain r w' where r: "rp_write ports (text_at task ''path'') (fst outcome) w = (r, w')" by fastforce
    then show "f (snd (rp_write ports (text_at task ''path'') (fst outcome) w)) = f w \<or>
        f (snd (rp_write ports (text_at task ''path'') (fst outcome) w)) = fst outcome \<or>
        (\<exists>e. fst (rp_write ports (text_at task ''path'') (fst outcome) w) = Inl e \<and>
          ?B e (f (snd (rp_write ports (text_at task ''path'') (fst outcome) w))))"
      using assms by (cases r) (auto simp: only_write_changes_def failed_write_def)
  qed
  then have "lands f (\<lambda>s. s = fst outcome) ?B (commit_candidate ports task (fst outcome))"
    unfolding commit_candidate_def by (rule lands_bind) (rule lands_keeps [OF written])
  note commit = lands_bind [OF this]
  note steps = kept_ports(5,7,9) [OF assms, THEN lands_step] kept_checks(1,3) [OF assms, THEN lands_step] keeps_part_pure [THEN lands_step]
  show ?thesis
    unfolding finish_def Let_def case_prod_unfold by (rule steps commit lands_keeps [OF keeps_part_pure(1)])+
qed

lemma repair_lands:
  assumes "only_write_changes f ports task propose" "true_validator run ports task"
  shows "lands f (passes_all run (rp_lib ports) task) (failed_write f ports task (passes_all run (rp_lib ports) task)) (repair ports task propose)"
proof -
  let ?P = "passes_all run (rp_lib ports) task"
  note kept = kept_ports(1,2,4-11) [OF assms(1)] kept_checks [OF assms(1)] kept_git [OF assms(1)] kept_attempts [OF assms(1)]
  note steps = kept [THEN lands_step] keeps_part_pure [THEN lands_step]
  have fin: "lands f ?P (failed_write f ports task ?P) (finish ports task before baseline outcome)"
    if "attempts_for ports propose task before w = (Inr outcome, w')" for before baseline outcome w w'
    using finish_lands [OF assms(1)] by (rule lands_mono) (use judged_passes [OF attempts_judged [OF that] assms(2)] in \<open>auto simp: failed_write_def\<close>)
  have hold: "keeps_part f (all_hold [git_is ports a x, tret y])" for a x y
    using kept by (intro keeps_part_all_hold) auto
  have fresh: "lands f ?P (failed_write f ports task ?P) (tbind (rp_read ports (text_at task ''path'')) (\<lambda>before.
        tbind (all_hold [git_is ports HEAD_ARGS (text_at task ''base_sha''), tret (sha256_hex before = text_at task ''before_sha256'')]) (\<lambda>b.
        tbind (tneed b ''source_changed'') (\<lambda>_.
        tbind (validate_in ports before task) (\<lambda>baseline.
        tbind (tneed (int_at baseline ''passed'' < int_at baseline ''total'') ''no_failing_baseline'') (\<lambda>_.
        tbind (attempts_for ports propose task before) (\<lambda>outcome.
        finish ports task before baseline outcome)))))))"
    by (rule steps hold [THEN lands_step] | erule fin)+
  have "lands f ?P (failed_write f ports task ?P) (repair_locked ports task propose)"
    unfolding repair_locked_def by (rule steps, rule steps) (auto intro: lands_keeps kept fresh simp del: all_hold.simps split: option.split)
  then have locked: "lands f ?P (failed_write f ports task ?P) (lastly (repair_locked ports task propose) (rp_unlock ports l))" for l
    by (rule lands_lastly) (rule kept_ports(3) [OF assms(1)])
  show ?thesis unfolding repair_def by (rule locked steps)+
qed

section \<open>What a receipt says\<close>

lemma deep_eq_items_get: "deep_eq_items d e \<Longrightarrow> map_of d k = Some v \<Longrightarrow> \<exists>u. map_of e k = Some u \<and> deep_eq v u"
  by (induction d) (auto split: option.splits if_splits)

lemma validate_in_counts:
  assumes "validate_in ports source task w = (Inr e, w')"
  shows "\<exists>a b. map_of e ''passed'' = Some (PInt a) \<and> map_of e ''total'' = Some (PInt b)"
proof -
  obtain c where "validate (rp_lib ports) c source task = Inr e" using assms by (auto simp: validate_in_def doing_simps)
  then obtain payload where "(case c payload of ChildUnavailable \<Rightarrow> Inl (StructuredBlocked ''validator_unavailable'')
     | ChildExit rc out \<Rightarrow> bindE (need_block (rc = 0 \<and> length out \<le> 131072) ''validator_process'') (\<lambda>_.
         case loads (rp_lib ports) out of None \<Rightarrow> Inl (StructuredBlocked ''validator_json'')
         | Some evidence \<Rightarrow> validate_report (rp_lib ports) evidence task)) = Inr e"
    by (auto simp: validate_def outcome_simps)
  then obtain v where v: "validate_report (rp_lib ports) v task = Inr e"
    by (cases "c payload") (auto simp: outcome_simps split: option.splits)
  have "int_with (\<lambda>_. True) (get e k)" if "k \<in> {''passed'', ''total''}" for k
    using v that validate_report_Inr [OF v] unfolding validate_report_def Let_def by (auto simp: outcome_simps)
  then have "int_with (\<lambda>_. True) (get e ''passed'')" "int_with (\<lambda>_. True) (get e ''total'')" by blast+
  then show ?thesis by (auto simp: int_with_def get_def split: pyval.splits option.splits)
qed

text \<open>Evidence that equals a full pass is a full pass.\<close>

lemma equal_evidence:
  assumes "validate_in ports s task w = (Inr again, w')" "judged ports task t checked" "deep_eq (PDict again) (PDict checked)"
  shows "int_at again ''passed'' = int_at again ''total''"
proof -
  obtain a b where a: "map_of again ''passed'' = Some (PInt a)" "map_of again ''total'' = Some (PInt b)" using validate_in_counts [OF assms(1)] by blast
  obtain c d where c: "map_of checked ''passed'' = Some (PInt c)" "map_of checked ''total'' = Some (PInt d)"
    using assms(2) unfolding judged_def by (metis validate_in_counts)
  have "deep_eq (PInt a) (PInt c)" "deep_eq (PInt b) (PInt d)"
    using assms(3) deep_eq_items_get [OF _ a(1)] deep_eq_items_get [OF _ a(2)] c by fastforce+
  then have "a = c" "b = d" by simp_all
  then show ?thesis using assms(2) a c by (simp add: judged_def all_passed_def int_at_def get_def)
qed

text \<open>Reading the target gives its content and changes nothing.\<close>

definition reads_target :: "('w \<Rightarrow> string) \<Rightarrow> 'w repair_ports \<Rightarrow> pydict \<Rightarrow> bool" where
  "reads_target f ports task \<longleftrightarrow> (\<forall>w. rp_read ports (text_at task ''path'') w = (Inr (f w), w))"

definition vouched :: "runner \<Rightarrow> 'w repair_ports \<Rightarrow> pydict \<Rightarrow> pydict \<Rightarrow> string \<Rightarrow> bool" where
  "vouched run ports task result content \<longleftrightarrow>
     get result ''after_sha256'' = PStr (sha256_hex content) \<and> passes_all run (rp_lib ports) task (universal content)"

lemma all_hold_Inr:
  "all_hold [] w = (Inr b, w') \<longleftrightarrow> b \<and> w' = w"
  "all_hold (m # ms) w = (Inr True, w') \<longleftrightarrow> (\<exists>w1. m w = (Inr True, w1) \<and> all_hold ms w1 = (Inr True, w'))"
  by (auto simp: doing_simps split: if_splits)

lemma replay_vouched:
  assumes "only_write_changes f ports task propose" "true_validator run ports task" "reads_target f ports task"
    "replay_receipt ports task receipt w = (Inr result, w')"
  shows "vouched run ports task result (f w')"
proof -
  note read = assms(3) [unfolded reads_target_def, rule_format]
  obtain previous w1 w2 checked where p: "get previous ''after_sha256'' = PStr (sha256_hex (f w1))"
    and v: "validate_in ports (universal (f w1)) task w1 = (Inr checked, w2)" "int_at checked ''passed'' = int_at checked ''total''"
    and last: "tbind (rp_patch ports) (\<lambda>_. tret ()) w2 = (Inr (), w')" and result: "result = put_all [(''replayed'', PBool True), (''model_calls'', PInt 0)] previous"
    using assms(4) unfolding replay_receipt_def Let_def
    by (auto simp: doing_simps all_hold_Inr read simp del: all_hold.simps split: option.splits pyval.splits)
  have "f w2 = f w1" using kept_checks(3) [OF assms(1)] v(1) by (rule keeps_part_run)
  moreover have "keeps_part f (tbind (rp_patch ports) (\<lambda>_. tret ()))" using kept_ports [OF assms(1)] by (intro keeps_part_bind) auto
  then have "f w' = f w2" using last by (rule keeps_part_run)
  ultimately show ?thesis using p validate_in_Inr [OF v(1) assms(2) v(2)] by (simp add: vouched_def result put_all_def get_put_key)
qed

lemma finish_vouched:
  assumes "only_write_changes f ports task propose" "true_validator run ports task" "reads_target f ports task"
    "finish ports task before baseline outcome w = (Inr result, w')" "judged ports task (fst outcome) (fst (snd outcome))"
  shows "vouched run ports task result (f w')"
proof -
  note read = assms(3) [unfolded reads_target_def, rule_format]
  obtain patch produced w1 again w2 where v: "validate_in ports (universal (f w1)) task w1 = (Inr again, w2)"
      "deep_eq (PDict again) (PDict (fst (snd outcome)))"
    and result: "result = repair_result ports task before baseline outcome patch produced (f w2)"
    and last: "tbind (rp_write_patch ports patch) (\<lambda>_. rp_write_receipt ports (identity_of ports @ ''.json'') result) w2 = (Inr (), w')"
    using assms(4) unfolding finish_def Let_def
    by (auto simp: doing_simps read simp del: deep_eq.simps)
  have "f w2 = f w1" using kept_checks(3) [OF assms(1)] v(1) by (rule keeps_part_run)
  moreover have "keeps_part f (tbind (rp_write_patch ports patch) (\<lambda>_. rp_write_receipt ports l result))" for l
    using kept_ports [OF assms(1)] by (intro keeps_part_bind) auto
  then have "f w' = f w2" using last by (rule keeps_part_run)
  ultimately show ?thesis
    using validate_in_Inr [OF v(1) assms(2) equal_evidence [OF v(1) assms(5) v(2)]]
    by (simp add: vouched_def result repair_result_def case_prod_unfold)
qed

text \<open>C12: A receipt is true of the file. When a repair returns, freshly done or replayed from its receipt, the receipt names the digest of the file as it is
  now, and the function of that file passes every case of the task when the guarded function is run.\<close>

theorem repaired_file_passes:
  assumes "only_write_changes f ports task propose" "true_validator run ports task" "reads_target f ports task"
    and "repair ports task propose w = (Inr result, w')"
  shows "get result ''after_sha256'' = PStr (sha256_hex (f w')) \<and> passes_all run (rp_lib ports) task (universal (f w'))"
proof -
  obtain l w1 w2 where r: "repair_locked ports task propose w1 = (Inr result, w2)" "w' = rp_unlock ports l w2"
    using assms(4) by (auto simp: repair_def doing_simps)
  have "vouched run ports task result (f w2)"
    using r(1) unfolding repair_locked_def
    by (auto simp: doing_simps simp del: all_hold.simps split: option.splits
        intro: replay_vouched [OF assms(1-3)] finish_vouched [OF assms(1-3)] attempts_judged)
  then show ?thesis by (simp add: r(2) kept_ports(3) [OF assms(1)] vouched_def)
qed

section \<open>An example\<close>

text \<open>A world with the file and the number of validations started so far; it holds the receipt of an earlier repair.\<close>

definition sr_git :: "string list \<Rightarrow> ((int \<times> string) option, string \<times> nat) doing" where
  "sr_git args = tret (Some (0, if args = HEAD_ARGS then ''c'' else if args = [''branch'', ''--show-current''] then ''worker/w'' else []))"

definition sr_ports :: "(string \<times> nat) repair_ports" where
  "sr_ports = \<lparr>rp_lib = sw_lib2, rp_linked = (\<lambda>_. False), rp_root = [''copy''], rp_state = [''state''], rp_mkdir = tret (), rp_lock = (\<lambda>_. tret True),
     rp_unlock = (\<lambda>_ w. w), rp_target = (\<lambda>_ _. \<lparr>tf_root = True, tf_parent = True, tf_file = True, tf_links = 1, tf_inside = True\<rparr>),
     rp_git_folder = (\<lambda>_. \<lparr>gf_dir = True, gf_config = True, gf_config_size = 10, gf_sections = Some [(''core'', [(''bare'', ''false'')])],
       gf_hooks_link = False, gf_hooks = None, gf_alternates = False\<rparr>),
     rp_git = sr_git, rp_read = (\<lambda>_. tread fst), rp_write = (\<lambda>_ s w. (Inr (), (s, snd w))), rp_receipt = (\<lambda>_. tret (Some ''r'')),
     rp_write_receipt = (\<lambda>_ _. tret ()), rp_patch = tret ''p'', rp_write_patch = (\<lambda>_. tret ()),
     rp_child = (\<lambda>p w. (Inr (spawned sw_lib2 sw_run p), (fst w, snd w + 1)))\<rparr>"

definition sr_propose :: "(string \<times> nat) proposer" where
  "sr_propose proposal source = tret ''no''"

definition sr_file :: string where
  "sr_file = sw_text @ [newline]"

lemma sr_hypotheses:
  "charged snd 0 1 sr_ports sr_propose" "only_write_changes fst sr_ports sw_full sr_propose" "true_validator sw_run sr_ports sw_full"
  "reads_target fst sr_ports sw_full"
proof -
  show "charged snd 0 1 sr_ports sr_propose" "only_write_changes fst sr_ports sw_full sr_propose" "reads_target fst sr_ports sw_full"
    by (simp_all add: charged_def only_write_changes_def reads_target_def sr_ports_def sr_propose_def sr_git_def uses_def keeps_part_def tret_def tread_def)
  have "body = sw_text @ [newline]" if "extracted sw_lib2 source sw_full = Inr body" for source body
    using that by (auto simp: extracted_def outcome_simps) (simp add: sw_lib2_def sw_lib_def)
  then show "true_validator sw_run sr_ports sw_full"
    using sw_reads sw_reports by (auto simp: true_validator_def sr_ports_def)
qed

lemma sr_replayed: "repair sr_ports sw_full sr_propose (sr_file, 0) =
  (Inr (put_all [(''replayed'', PBool True), (''model_calls'', PInt 0)] sw_receipt), (sr_file, 1))"
proof -
  have "take 1 (dumps (\<lambda>_. []) False (child_payload (sw_text @ [newline]) sw_full)) = ''{''" "take 1 (dumps (\<lambda>_. []) False sw_report) = ''{''" by code_simp+
  then have "loads sw_lib2 ''r'' = Some (PDict sw_receipt)" by (auto simp: sw_lib2_parts sw_reader_def Let_def dest: arg_cong [where f = "take 1"])
  note reader = this
  note run = tbind_def tret_def tlift_def tread_def tneed_def
  have spec: "task_spec sw_lib2 (PDict sw_full) = Inr sw_full" by (rule sw_full_spec)
  have parts: "rp_lib sr_ports = sw_lib2" "rp_child sr_ports = (\<lambda>p w. (Inr (spawned sw_lib2 sw_run p), (fst w, snd w + 1)))"
    "rp_read sr_ports = (\<lambda>_. tread fst)" "rp_patch sr_ports = tret ''p''" "rp_receipt sr_ports = (\<lambda>_. tret (Some ''r''))" "rp_git sr_ports = sr_git"
    "rp_mkdir sr_ports = tret ()" "rp_lock sr_ports = (\<lambda>_. tret True)" "rp_unlock sr_ports = (\<lambda>_ w. w)" "rp_linked sr_ports = (\<lambda>_. False)"
    "rp_root sr_ports = [''copy'']" "rp_state sr_ports = [''state'']"
    by (simp_all add: sr_ports_def)
  obtain payload where p: "child_input sw_lib2 sr_file sw_full = Inr payload"
    using spec sw_full_guarded by (simp add: child_input_def sr_file_def)
  have val: "validate sw_lib2 (spawned sw_lib2 sw_run) sr_file sw_full = Inr (dict_in sw_report)" using sw_validated by (simp add: sr_file_def)
  have v: "validate_in sr_ports sr_file sw_full (sr_file, 0) = (Inr (dict_in sw_report), (sr_file, 1))"
    using validate_payload [OF p, of "spawned sw_lib2 sw_run"] val by (simp add: validate_in_def parts run p)
  have u: "universal sr_file = sr_file" unfolding sr_file_def by code_simp
  have g: "git_out sr_ports HEAD_ARGS w = (Inr ''c'', w)" "git_out sr_ports [''branch'', ''--show-current''] w = (Inr ''worker/w'', w)"
    "git_out sr_ports [''remote''] w = (Inr [], w)" "git_out sr_ports STATUS_ARGS w = (Inr [], w)" for w
  proof -
    have "py_strip ''c'' = ''c''" "py_strip ''worker/w'' = ''worker/w''" "py_strip [] = []" by code_simp+
    then show "git_out sr_ports HEAD_ARGS w = (Inr ''c'', w)" "git_out sr_ports [''branch'', ''--show-current''] w = (Inr ''worker/w'', w)"
      "git_out sr_ports [''remote''] w = (Inr [], w)" "git_out sr_ports STATUS_ARGS w = (Inr [], w)"
      by (simp_all add: git_out_def parts run sr_git_def HEAD_ARGS_def STATUS_ARGS_def)
  qed
  have clean: "regular (rp_target sr_ports t w) = Inr ()" "clean_git_configuration (rp_git_folder sr_ports w) = Inr ()" for t w
    by (simp_all add: sr_ports_def regular_def clean_git_configuration_def section_safe_def CONFIG_KEYS_def off_def need_block_def)
  have iso: "isolated_copy sr_ports sw_full w = (Inr (), w)" for w
    by (simp add: isolated_copy_def run git_is_def g clean starts_with_def)
  have keys: "''patch_sha256'' \<in> keys sw_receipt" "get sw_receipt ''patch_sha256'' = PStr (sha256_hex ''p'')" "get sw_receipt ''produced_sha'' = PStr ''c''"
    "get sw_receipt ''after_sha256'' = PStr (sha256_hex sr_file)" "get sw_receipt ''task_hash'' = PStr (task_hash sr_ports sw_full)"
    by (simp_all add: sw_receipt_def keys_def sr_file_def task_hash_def parts sw_lib2_parts)
  have full: "int_at (dict_in sw_report) ''passed'' = int_at (dict_in sw_report) ''total''" by (simp add: sw_report_def report_fields int_at_def)
  have "replay_receipt sr_ports sw_full ''r'' (sr_file, 0) = (Inr (put_all [(''replayed'', PBool True), (''model_calls'', PInt 0)] sw_receipt), (sr_file, 1))"
    unfolding replay_receipt_def by (simp add: run parts reader keys g u v full)
  then have l: "repair_locked sr_ports sw_full sr_propose (sr_file, 0) = (Inr (put_all [(''replayed'', PBool True), (''model_calls'', PInt 0)] sw_receipt), (sr_file, 1))"
    unfolding repair_locked_def by (simp add: run iso parts)
  show ?thesis
    unfolding repair_def by (simp add: run parts spec lastly_def l)
qed

theorem repair_bounded_witness: "snd (snd (repair sr_ports sw_full sr_propose (sr_file, 3))) \<le> 3 + 16"
  using repair_bounded [OF sr_hypotheses(1), of sw_full "(sr_file, 3)"] by simp

theorem repaired_file_passes_witness:
  "get (put_all [(''replayed'', PBool True), (''model_calls'', PInt 0)] sw_receipt) ''after_sha256'' = PStr (sha256_hex sr_file) \<and>
   passes_all sw_run sw_lib2 sw_full (universal sr_file)"
  using repaired_file_passes [OF sr_hypotheses(2-4) sr_replayed] by (simp add: sr_ports_def)

end
