(* ===== verification/Structured_Scenario.thy ===== *)
theory Structured_Scenario
  imports Structured_Outcome
begin

text \<open>
  A repair executed in the logic: a function that forgets to strip its text fails one of two cases, the model answers with a
  function that strips, and the repair validates, writes and commits it.
\<close>

section \<open>Texts and trees\<close>

definition fr_bad_body :: ast where
  "fr_bad_body = Ast ''Return'' (Some (2, 2, 4)) [(''value'', ANode (sw_name ''x''))]"

definition fr_bad_function :: ast where
  "fr_bad_function = set_attr ''body'' (AItems [ANode fr_bad_body]) sw_function"

definition fr_bad_module :: ast where
  "fr_bad_module = Ast ''Module'' None [(''body'', AItems [ANode fr_bad_function]), (''type_ignores'', AItems [])]"

definition fr_bad :: string where
  "fr_bad = ''def f(x):'' @ [newline] @ ''    return x''"

definition fr_old :: string where
  "fr_old = fr_bad @ [newline]"

definition fr_new :: string where
  "fr_new = sw_text @ [newline]"

definition has_call :: "ast \<Rightarrow> bool" where
  "has_call n \<longleftrightarrow> list_ex (\<lambda>m. ty m = ''Call'') (tree_nodes n)"

definition fr_task_with :: "string \<Rightarrow> pydict" where
  "fr_task_with h = [(''task_id'', PStr ''t1''), (''path'', PStr ''app/m.py''), (''function'', PStr ''f''), (''parameters'', PList [PStr ''x'']),
     (''instruction'', PStr ''strip''), (''base_sha'', PStr (replicate 40 (CHR ''a''))), (''before_sha256'', PStr h),
     (''cases'', PList [sw_case (PStr '' a '') (PStr ''a''), sw_case (PStr ''b'') (PStr ''b'')])]"

definition fr_task :: pydict where
  "fr_task = fr_task_with (sha256_hex fr_old)"

definition fr_reply :: pyval where
  "fr_reply = PDict [(''function'', PStr fr_new)]"

definition fr_run :: runner where
  "fr_run tree fname args = (case args of
     [PStr s] \<Rightarrow> Returned (PStr (if has_call tree then py_strip s else s))
   | _ \<Rightarrow> Raised ''AttributeError'' [])"

definition fr_bad_report :: pyval where
  "fr_bad_report = report_of 2 [(0, [(''kind'', PStr ''value''), (''type'', PStr ''str''), (''value'', PStr '' a '')])]"

definition fr_docs :: "pyval list" where
  "fr_docs = [child_payload fr_old fr_task, child_payload fr_new fr_task, fr_bad_report, sw_report, fr_reply]"

abbreviation fr_dumps :: "pyval \<Rightarrow> string" where
  "fr_dumps \<equiv> dumps (\<lambda>_. []) False"

definition fr_lib :: py_lib where
  "fr_lib = \<lparr>parse_module = (\<lambda>s. if s = fr_new then Inr sw_module else if s = fr_old then Inr fr_bad_module else Inl OtherParseError),
     parse_eval = (\<lambda>_. None), unparse = (\<lambda>n. if has_call n then sw_text else fr_bad), dump = (\<lambda>_. ''Module''),
     loads = (\<lambda>s. find (\<lambda>v. s = fr_dumps v \<or> s = fr_dumps v @ [newline]) fr_docs), float_text = (\<lambda>_. [])\<rparr>"

lemma fr_parts:
  "dumps_of fr_lib = dumps (\<lambda>_. [])" "loads fr_lib s = find (\<lambda>v. s = fr_dumps v \<or> s = fr_dumps v @ [newline]) fr_docs"
  "dump fr_lib t = ''Module''" "unparse fr_lib t = (if has_call t then sw_text else fr_bad)"
  by (auto simp: fr_lib_def dumps_of_def fun_eq_iff)

lemma fr_neq: "fr_old \<noteq> fr_new"
  unfolding fr_old_def fr_new_def by code_simp

lemma fr_parse: "parse_module fr_lib fr_new = Inr sw_module" "parse_module fr_lib fr_old = Inr fr_bad_module"
  using fr_neq by (simp_all add: fr_lib_def)

lemma fr_fields:
  "text_at fr_task ''function'' = ''f''" "list_at fr_task ''parameters'' = [PStr ''x'']" "text_at fr_task ''path'' = ''app/m.py''"
  "text_at fr_task ''base_sha'' = replicate 40 (CHR ''a'')" "text_at fr_task ''before_sha256'' = sha256_hex fr_old"
  "list_at fr_task ''cases'' = [sw_case (PStr '' a '') (PStr ''a''), sw_case (PStr ''b'') (PStr ''b'')]"
  by (simp_all add: fr_task_def fr_task_with_def text_at_def list_at_def)

section \<open>Guard\<close>

lemma fr_function_tree:
  "function_tree fr_lib fr_new ''f'' = Inr sw_function" "function_tree fr_lib fr_old ''f'' = Inr fr_bad_function"
proof -
  have "filter (\<lambda>n. ty n = ''FunctionDef'' \<and> name_at n ''name'' = ''f'') (nodes_at sw_module ''body'') = [sw_function]"
    "filter (\<lambda>n. ty n = ''FunctionDef'' \<and> name_at n ''name'' = ''f'') (nodes_at fr_bad_module ''body'') = [fr_bad_function]"
    "items_at sw_function ''decorator_list'' = []" "items_at fr_bad_function ''decorator_list'' = []"
    by code_simp+
  moreover have "length fr_new \<le> 100" "length fr_old \<le> 100" unfolding fr_new_def fr_old_def by code_simp+
  ultimately show "function_tree fr_lib fr_new ''f'' = Inr sw_function" "function_tree fr_lib fr_old ''f'' = Inr fr_bad_function"
    by (simp_all add: function_tree_def parse_or_def fr_parse)
qed

lemma fr_extracted: "extracted fr_lib fr_new fr_task = Inr fr_new" "extracted fr_lib fr_old fr_task = Inr fr_old"
proof -
  have "signature_ok sw_function sw_task" "signature_ok fr_bad_function sw_task" by code_simp+
  then have "signature_ok sw_function fr_task" "signature_ok fr_bad_function fr_task"
    by (simp_all add: signature_ok_def fr_fields) (simp_all add: sw_task_def list_at_def)
  moreover have "has_call (without_annotations sw_function)" "\<not> has_call (without_annotations fr_bad_function)" by code_simp+
  ultimately show "extracted fr_lib fr_new fr_task = Inr fr_new" "extracted fr_lib fr_old fr_task = Inr fr_old"
    by (simp_all add: extracted_def fr_fields fr_function_tree fr_parts) (simp_all add: fr_new_def fr_old_def)
qed

lemma fr_guarded: "guarded fr_lib fr_new fr_task = Inr sw_module" "guarded fr_lib fr_old fr_task = Inr fr_bad_module"
proof -
  have "list_all (allowed_node ''f'') (nodes_from 0 sw_module)" "length (tree_nodes sw_module) \<le> 20"
    "list_all (\<lambda>n. ty n \<in> set NODES) (tree_nodes sw_module)"
    "length (filter (\<lambda>n. ty n = ''FunctionDef'') (tree_nodes sw_module)) = 1"
    "length (filter (\<lambda>n. ty n \<in> {''For'', ''comprehension''}) (tree_nodes sw_module)) \<le> 1"
    "list_all (allowed_node ''f'') (nodes_from 0 fr_bad_module)" "length (tree_nodes fr_bad_module) \<le> 20"
    "list_all (\<lambda>n. ty n \<in> set NODES) (tree_nodes fr_bad_module)"
    "length (filter (\<lambda>n. ty n = ''FunctionDef'') (tree_nodes fr_bad_module)) = 1"
    "length (filter (\<lambda>n. ty n \<in> {''For'', ''comprehension''}) (tree_nodes fr_bad_module)) \<le> 1" by code_simp+
  then show "guarded fr_lib fr_new fr_task = Inr sw_module" "guarded fr_lib fr_old fr_task = Inr fr_bad_module"
    by (simp_all add: guarded_Inr fr_extracted fr_parse fr_fields list_all_iff)
qed

section \<open>JSON\<close>

lemma json_quote_hex: "length (json_quote (sha256_hex s)) = 66"
proof -
  have "length (concat (map json_escape_char h)) = length h" if "\<forall>c\<in>set h. is_lower_hex c" for h
    using that by (induction h) (auto simp: json_escape_char_def is_lower_hex_def Let_def)
  from this [of "sha256_hex s"] show ?thesis by (simp add: json_quote_def sha256_hex_lower_hex)
qed

lemma fr_task_length: "length (fr_dumps (PDict fr_task)) \<le> 500"
proof -
  have "length (fr_dumps (PDict (fr_task_with h))) = length (fr_dumps (PDict (fr_task_with h')))" if "length (json_quote h) = length (json_quote h')" for h h'
    using that by (simp add: fr_task_with_def)
  moreover have "length (json_quote (replicate 64 (CHR ''b''))) = 66" by code_simp
  moreover have "length (fr_dumps (PDict (fr_task_with (replicate 64 (CHR ''b''))))) \<le> 500" by code_simp
  ultimately show ?thesis unfolding fr_task_def by (metis json_quote_hex)
qed

lemma payload_text:
  "fr_dumps (child_payload b T) = (''{'' @ json_quote ''source'' @ '': '' @ json_quote b) @ '', '' @ json_quote ''task'' @ '': '' @ fr_dumps (PDict T) @ ''}''"
  by (simp add: child_payload_def del: dumps.simps(7)) (simp add: Let_def)

definition head37 :: "pyval \<Rightarrow> string" where
  "head37 v = take 37 (fr_dumps v)"

lemma find_distinct: "v \<in> set vs \<Longrightarrow> P v \<Longrightarrow> (\<And>u. u \<in> set vs \<Longrightarrow> P u \<Longrightarrow> u = v) \<Longrightarrow> find P vs = Some v"
proof (induction vs)
  case (Cons x vs)
  show ?case
  proof (cases "P x")
    case True
    then have "x = v" using Cons.prems(3) [of x] by simp
    with True show ?thesis by simp
  next
    case False
    then have "v \<in> set vs" using Cons.prems(1,2) by (metis set_ConsD)
    then have "find P vs = Some v" using Cons.IH [OF _ Cons.prems(2)] Cons.prems(3) by (meson list.set_intros(2))
    with False show ?thesis by simp
  qed
qed simp

lemma fr_heads: "inj_on head37 (set fr_docs)" "v \<in> set fr_docs \<Longrightarrow> 37 \<le> length (fr_dumps v)"
proof -
  define po where "po = ''{'' @ json_quote ''source'' @ '': '' @ json_quote fr_old"
  define pn where "pn = ''{'' @ json_quote ''source'' @ '': '' @ json_quote fr_new"
  have p: "fr_dumps (child_payload fr_old fr_task) = po @ '', '' @ json_quote ''task'' @ '': '' @ fr_dumps (PDict fr_task) @ ''}''"
    "fr_dumps (child_payload fr_new fr_task) = pn @ '', '' @ json_quote ''task'' @ '': '' @ fr_dumps (PDict fr_task) @ ''}''"
    using payload_text [of fr_old fr_task] payload_text [of fr_new fr_task] unfolding po_def pn_def by simp_all
  have l: "37 \<le> length po" "37 \<le> length pn" "37 \<le> length (fr_dumps fr_bad_report)" "37 \<le> length (fr_dumps sw_report)" "37 \<le> length (fr_dumps fr_reply)"
    unfolding po_def pn_def fr_old_def fr_new_def fr_reply_def by code_simp+
  have h: "head37 (child_payload fr_old fr_task) = take 37 po" "head37 (child_payload fr_new fr_task) = take 37 pn"
    using l by (simp_all add: head37_def p)
  have "distinct [take 37 po, take 37 pn, take 37 (fr_dumps fr_bad_report), take 37 (fr_dumps sw_report), take 37 (fr_dumps fr_reply)]"
    unfolding po_def pn_def fr_old_def fr_new_def fr_reply_def by code_simp
  then have "distinct (map head37 fr_docs)" by (simp add: fr_docs_def h) (simp add: head37_def)
  then show "inj_on head37 (set fr_docs)" by (simp add: distinct_map)
  show "37 \<le> length (fr_dumps v)" if "v \<in> set fr_docs"
    using that l by (auto simp: fr_docs_def p)
qed

lemma fr_reads: "v \<in> set fr_docs \<Longrightarrow> reads fr_lib v"
proof -
  assume v: "v \<in> set fr_docs"
  have "u = v" if u: "u \<in> set fr_docs" and s: "s = fr_dumps v \<or> s = fr_dumps v @ [newline]" "s = fr_dumps u \<or> s = fr_dumps u @ [newline]" for u s
  proof -
    have "take 37 s = take 37 t" if "37 \<le> length t" "s = t \<or> s = t @ [newline]" for t using that by auto
    then have "take 37 s = head37 v" "take 37 s = head37 u" using s fr_heads(2) [OF v] fr_heads(2) [OF u] unfolding head37_def by blast+
    then show "u = v" using fr_heads(1) u v by (auto dest: inj_onD)
  qed
  then show "reads fr_lib v"
    unfolding reads_def fr_parts by (intro conjI find_distinct [OF v]) blast+
qed

section \<open>Validation\<close>

lemma fr_spec: "task_spec fr_lib (PDict fr_task) = Inr fr_task"
proof -
  have "task_case_ok 1 (sw_case (PStr a) (PStr b)) = Inr ()" if "length a \<le> 10" "length b \<le> 10" for a b
    using that by (simp add: task_case_ok_def sw_case_def bounded_json.simps keys_def list_at_def)
  then have "each (task_case_ok (length (list_at fr_task ''parameters''))) (list_at fr_task ''cases'') = Inr ()" by (simp add: fr_fields)
  moreover have "TASK_NAME ''t1''" "MODULE_PATH ''app/m.py''" "FUNCTION_NAME ''f''" "parameters_ok [PStr ''x'']" "''f'' \<notin> set BUILTINS" by code_simp+
  moreover have "SHA40 (replicate 40 (CHR ''a''))" by code_simp
  moreover have "SHA64 (sha256_hex fr_old)" by (rule sha64_hex)
  moreover have "keys fr_task = set task_fields" by (auto simp: fr_task_def fr_task_with_def keys_def task_fields_def)
  moreover have "length (dumps_of fr_lib False (PDict fr_task)) \<le> 100000" using fr_task_length by (simp add: fr_parts)
  ultimately show ?thesis
    by (simp add: task_spec_def Let_def dict_in_def is_dict_def need_block_def)
      (simp add: fr_task_def fr_task_with_def text_with_def text_at_def list_at_def is_list_def)
qed

lemma fr_reports: "child_report fr_lib fr_run tree fr_task = (if has_call tree then sw_report else fr_bad_report)"
proof -
  have "py_strip '' a '' = ''a''" "py_strip ''b'' = ''b''" "length (dumps (\<lambda>_. []) True (PStr '' a '')) \<le> 100" by code_simp+
  then have "run_case fr_lib (fr_run tree ''f'' [PStr '' a '']) (PStr ''a'') =
      (if has_call tree then None else Some [(''kind'', PStr ''value''), (''type'', PStr ''str''), (''value'', PStr '' a '')])"
    "run_case fr_lib (fr_run tree ''f'' [PStr ''b'']) (PStr ''b'') = None"
    by (simp_all add: fr_run_def run_case_def bounded_json.simps same_result_def observation_of_def Let_def fr_parts(1) del: dumps.simps)
  moreover have "list_at (dict_in (sw_case (PStr a) (PStr b))) ''args'' = [PStr a]" "get (dict_in (sw_case (PStr a) (PStr b))) ''expected'' = PStr b" for a b
    by (simp_all add: sw_case_def list_at_def)
  ultimately have "run_cases fr_lib (fr_run tree ''f'') 0 (list_at fr_task ''cases'') =
    (if has_call tree then [] else [(0, [(''kind'', PStr ''value''), (''type'', PStr ''str''), (''value'', PStr '' a '')])])"
    by (simp add: fr_fields)
  then show ?thesis by (simp add: child_report_def fr_fields sw_report_def fr_bad_report_def numeral_2_eq_2 del: run_cases.simps)
qed

lemma fr_validated:
  assumes "(source, tree) = (fr_new, sw_module) \<or> (source, tree) = (fr_old, fr_bad_module)"
  shows "validate fr_lib (spawned fr_lib fr_run) source fr_task = Inr (dict_in (child_report fr_lib fr_run tree fr_task))"
proof -
  have g: "guarded fr_lib source fr_task = Inr tree" "extracted fr_lib source fr_task = Inr source"
    using assms fr_guarded fr_extracted by auto
  have "length (fr_dumps sw_report) \<le> 200" "length (fr_dumps fr_bad_report) \<le> 200" by code_simp+
  then have rl: "length (fr_dumps (child_report fr_lib fr_run tree fr_task)) \<le> 200" by (simp add: fr_reports)
  have "length (json_quote fr_old) \<le> 100" "length (json_quote fr_new) \<le> 100" "length (json_quote ''source'') \<le> 20" "length (json_quote ''task'') \<le> 20"
    unfolding fr_old_def fr_new_def by code_simp+
  then have pl: "length (fr_dumps (child_payload source fr_task)) \<le> 1000"
    using assms fr_task_length unfolding payload_text by auto
  have reads: "reads fr_lib (child_payload source fr_task)" "reads fr_lib (child_report fr_lib fr_run tree fr_task)"
    using assms by (auto intro!: fr_reads simp: fr_docs_def fr_reports)
  have "validate_child fr_lib fr_run (dumps_of fr_lib False (child_payload source fr_task)) =
    Inr (dumps_of fr_lib False (child_report fr_lib fr_run tree fr_task) @ [newline])"
    using pl reads(1) fr_spec g(1) by (simp add: validate_child_def reads_def fr_parts(1)) (simp add: child_payload_def dict_in_def text_at_def)
  then have s: "spawned fr_lib fr_run (dumps_of fr_lib False (child_payload source fr_task)) =
    ChildExit 0 (dumps_of fr_lib False (child_report fr_lib fr_run tree fr_task) @ [newline])" by (simp add: spawned_def)
  have r: "validate_report fr_lib (child_report fr_lib fr_run tree fr_task) fr_task = Inr (dict_in (child_report fr_lib fr_run tree fr_task))"
    by (rule child_report_valid) (auto simp: fr_run_def split: list.splits pyval.splits)
  show ?thesis using fr_spec g s r reads(2) rl
    by (simp add: validate_def child_payload_def reads_def fr_parts(1))
qed

section \<open>The repair\<close>

text \<open>A world with the content of the file and whether it has been committed.\<close>

definition fr_answer :: "string list \<Rightarrow> bool \<Rightarrow> string" where
  "fr_answer args committed =
     (if args = HEAD_ARGS then if committed then ''p'' else replicate 40 (CHR ''a'')
      else if args = [''branch'', ''--show-current''] then ''worker/w''
      else if args \<in> {[''diff'', ''--name-only''], [''diff'', ''--cached'', ''--name-only''], [''diff'', ''--name-only'', replicate 40 (CHR ''a''), ''p'']}
      then ''app/m.py'' else [])"

definition fr_git :: "string list \<Rightarrow> ((int \<times> string) option, string \<times> bool) doing" where
  "fr_git args w = (Inr (Some (0, fr_answer args (snd w))), if hd args = ''-c'' then (fst w, True) else w)"

definition fr_ports :: "(string \<times> bool) repair_ports" where
  "fr_ports = \<lparr>rp_lib = fr_lib, rp_linked = (\<lambda>_. False), rp_root = [''copy''], rp_state = [''state''], rp_mkdir = tret (), rp_lock = (\<lambda>_. tret True),
     rp_unlock = (\<lambda>_ w. w), rp_target = (\<lambda>_ _. \<lparr>tf_root = True, tf_parent = True, tf_file = True, tf_links = 1, tf_inside = True\<rparr>),
     rp_git_folder = (\<lambda>_. \<lparr>gf_dir = True, gf_config = True, gf_config_size = 10, gf_sections = Some [(''core'', [(''bare'', ''false'')])],
       gf_hooks_link = False, gf_hooks = None, gf_alternates = False\<rparr>),
     rp_git = fr_git, rp_read = (\<lambda>_. tread fst), rp_write = (\<lambda>_ s w. (Inr (), (s, snd w))), rp_receipt = (\<lambda>_. tret None),
     rp_write_receipt = (\<lambda>_ _. tret ()), rp_patch = tret [], rp_write_patch = (\<lambda>_. tret ()), rp_child = (\<lambda>p. tret (spawned fr_lib fr_run p))\<rparr>"

definition fr_propose :: "(string \<times> bool) proposer" where
  "fr_propose proposal source = tret (fr_dumps fr_reply)"

lemma fr_hypotheses: "only_write_changes fst fr_ports fr_task fr_propose" "true_validator fr_run fr_ports fr_task"
proof -
  show "only_write_changes fst fr_ports fr_task fr_propose"
    by (simp add: only_write_changes_def fr_ports_def fr_propose_def fr_git_def keeps_part_def tret_def tread_def)
  have bodies: "body = fr_new \<or> body = fr_old" if "extracted fr_lib source fr_task = Inr body" for source body
    using that by (auto simp: extracted_def outcome_simps fr_parts fr_new_def fr_old_def)
  have "reads fr_lib (child_payload body fr_task)" if "extracted fr_lib source fr_task = Inr body" for source body
    using bodies [OF that] fr_reads by (auto simp: fr_docs_def)
  moreover have "reads fr_lib (child_report fr_lib fr_run tree fr_task)" for tree
    by (auto intro!: fr_reads simp: fr_docs_def fr_reports)
  ultimately show "true_validator fr_run fr_ports fr_task" by (auto simp: true_validator_def fr_ports_def tret_def)
qed

lemma fr_ports_parts:
  "rp_lib fr_ports = fr_lib" "rp_child fr_ports = (\<lambda>p. tret (spawned fr_lib fr_run p))" "rp_read fr_ports = (\<lambda>_. tread fst)" "rp_receipt fr_ports = (\<lambda>_. tret None)"
  "rp_git fr_ports = fr_git" "rp_mkdir fr_ports = tret ()" "rp_lock fr_ports = (\<lambda>_. tret True)" "rp_unlock fr_ports = (\<lambda>_ w. w)" "rp_linked fr_ports = (\<lambda>_. False)"
  "rp_root fr_ports = [''copy'']" "rp_state fr_ports = [''state'']" "rp_write fr_ports = (\<lambda>_ s w. (Inr (), (s, snd w)))"
  "rp_write_receipt fr_ports = (\<lambda>_ _. tret ())" "rp_write_patch fr_ports = (\<lambda>_. tret ())"
  "regular (rp_target fr_ports t w) = Inr ()" "clean_git_configuration (rp_git_folder fr_ports w) = Inr ()"
  by (simp_all add: fr_ports_def regular_def clean_git_configuration_def section_safe_def CONFIG_KEYS_def off_def need_block_def)

lemmas fr_steps = tbind_def tret_def tlift_def tread_def tneed_def

lemma fr_validate_in:
  "validate_in fr_ports fr_new fr_task w = (Inr (dict_in sw_report), w)" "validate_in fr_ports fr_old fr_task w = (Inr (dict_in fr_bad_report), w)"
proof -
  have c: "has_call sw_module" "\<not> has_call fr_bad_module" by code_simp+
  have p: "\<exists>p. child_input fr_lib fr_new fr_task = Inr p" "\<exists>p. child_input fr_lib fr_old fr_task = Inr p"
    using fr_spec fr_guarded fr_extracted by (simp_all add: child_input_def)
  have "validate_in fr_ports s fr_task w = (Inr (dict_in r), w)"
    if "\<exists>p. child_input fr_lib s fr_task = Inr p" "validate fr_lib (spawned fr_lib fr_run) s fr_task = Inr (dict_in r)" for s r
    using that validate_payload [of fr_lib s fr_task _ "spawned fr_lib fr_run"] by (auto simp: validate_in_def fr_ports_parts fr_steps)
  then show "validate_in fr_ports fr_new fr_task w = (Inr (dict_in sw_report), w)" "validate_in fr_ports fr_old fr_task w = (Inr (dict_in fr_bad_report), w)"
    using p fr_validated [of fr_new sw_module] fr_validated [of fr_old fr_bad_module] c by (simp_all add: fr_reports)
qed

lemma fr_git_out:
  "git_out fr_ports args w = (Inr (fr_answer args (snd w)), if hd args = ''-c'' then (fst w, True) else w)"
proof -
  have "py_strip ''app/m.py'' = ''app/m.py''" "py_strip (replicate 40 (CHR ''a'')) = replicate 40 (CHR ''a'')" "py_strip ''p'' = ''p''"
    "py_strip ''worker/w'' = ''worker/w''" "py_strip [] = []" by code_simp+
  then have "py_strip (fr_answer args b) = fr_answer args b" "length (fr_answer args b) \<le> 1048576" for b
    by (simp_all add: fr_answer_def)
  then show ?thesis by (simp add: git_out_def fr_ports_parts fr_git_def tbind_def tneed_def tlift_def tret_def)
qed

lemma fr_rendered: "render fr_lib fr_old fr_task (fr_dumps fr_reply) = Inr fr_new"
proof -
  have "loads fr_lib (fr_dumps fr_reply) = Some fr_reply" using fr_reads [of fr_reply] by (simp add: fr_docs_def reads_def fr_parts)
  moreover have "length (fr_dumps fr_reply) \<le> 100" unfolding fr_reply_def fr_new_def by code_simp
  ultimately have reply: "reply_function fr_lib (fr_dumps fr_reply) = Inr fr_new"
    by (simp add: reply_function_def) (simp add: fr_reply_def keys_def text_at_def)
  have shape: "items_at sw_module ''body'' = [ANode sw_function]" "ty sw_function = ''FunctionDef''" "nodes_at sw_module ''body'' = [sw_function]"
    "lineno fr_bad_function = 1" "end_lineno fr_bad_function = 2" "has_call sw_function" by code_simp+
  have lines: "splitlines_keep fr_old = [''def f(x):'' @ [newline], ''    return x'' @ [newline]]"
    "ends_with '':'' (rstrip (''def f(x):'' @ [newline]))" "starts_with ''def '' (lstrip (''def f(x):'' @ [newline]))"
    unfolding fr_old_def by code_simp+
  have body: "(''def f(x):'' @ [newline]) @ rstrip_of newline (concat (tl (splitlines_keep sw_text))) @ [newline] = fr_new"
    unfolding fr_new_def by code_simp
  show ?thesis
    using fr_spec reply shape lines body
    by (simp add: render_def parse_or_def parse_uncaught_def fr_parse fr_guarded fr_fields fr_function_tree fr_extracted body_of_def splice_def fr_parts(4) Let_def)
qed

lemma fr_unchanged: "source_unchanged fr_ports fr_task (fr_old, False) = (Inr (), (fr_old, False))"
  by (simp add: source_unchanged_def file_is_def git_is_def fr_git_out fr_answer_def fr_steps fr_fields fr_ports_parts HEAD_ARGS_def STATUS_ARGS_def)

lemma fr_attempts:
  "attempts_for fr_ports fr_propose fr_task fr_old (fr_old, False) =
     (Inr (fr_new, dict_in sw_report, [attempt_entry 1 \<lparr>cd_after = fr_new, cd_print = sha256_hex ''Module'', cd_checked = dict_in sw_report\<rparr>]), (fr_old, False))"
proof -
  have "candidate_fingerprint fr_lib fr_new fr_task = Inr (sha256_hex ''Module'')" by (simp add: candidate_fingerprint_def fr_guarded fr_parts)
  then have "propose_once fr_ports fr_propose fr_task fr_old fr_task fr_old [] (fr_old, False) =
    (Inr \<lparr>cd_after = fr_new, cd_print = sha256_hex ''Module'', cd_checked = dict_in sw_report\<rparr>, (fr_old, False))"
    using fr_neq by (simp add: propose_once_def fr_steps fr_unchanged fr_propose_def fr_rendered fr_validate_in fr_ports_parts)
  moreover have "all_passed (dict_in sw_report)" by (simp add: all_passed_def sw_report_def report_fields int_at_def)
  ultimately show ?thesis by (simp add: attempts_for_def fr_steps fr_ports_parts fr_extracted)
qed

lemma fr_finished: "\<exists>result. finish fr_ports fr_task fr_old baseline (fr_new, dict_in sw_report, attempts) (fr_old, False) = (Inr result, (fr_new, True))"
proof -
  have "''p'' \<noteq> replicate 40 (CHR ''a'')" by code_simp
  then have "commit_candidate fr_ports fr_task fr_new (fr_old, False) = (Inr ([newline], ''p''), (fr_new, True))"
    by (simp add: commit_candidate_def commit_written_def git_is_def fr_steps fr_ports_parts fr_git_out fr_answer_def fr_fields HEAD_ARGS_def Let_def)
  moreover have "universal fr_new = fr_new" unfolding fr_new_def by code_simp
  moreover have "deep_eq (PDict (dict_in sw_report)) (PDict (dict_in sw_report))" by (simp add: sw_report_def report_of_def)
  ultimately show ?thesis
    by (simp add: finish_def fr_steps fr_unchanged fr_ports_parts fr_validate_in Let_def del: deep_eq.simps)
qed

lemma fr_repaired: "\<exists>result. repair fr_ports fr_task fr_propose (fr_old, False) = (Inr result, (fr_new, True))"
proof -
  have "isolated_copy fr_ports fr_task w = (Inr (), w)" if "\<not> snd w" for w
    using that by (simp add: isolated_copy_def fr_steps git_is_def fr_git_out fr_answer_def HEAD_ARGS_def STATUS_ARGS_def fr_ports_parts starts_with_def)
  then have iso: "isolated_copy fr_ports fr_task (fr_old, False) = (Inr (), (fr_old, False))" by simp
  have source: "all_hold [git_is fr_ports HEAD_ARGS (text_at fr_task ''base_sha''), tret (sha256_hex fr_old = text_at fr_task ''before_sha256'')] (fr_old, False) =
      (Inr True, (fr_old, False))"
    by (simp add: fr_steps git_is_def fr_git_out fr_answer_def fr_fields HEAD_ARGS_def)
  have low: "int_at (dict_in fr_bad_report) ''passed'' < int_at (dict_in fr_bad_report) ''total''"
    by (simp add: fr_bad_report_def report_fields int_at_def)
  obtain result where "repair_locked fr_ports fr_task fr_propose (fr_old, False) = (Inr result, (fr_new, True))"
    using fr_finished [of "dict_in fr_bad_report" "[attempt_entry 1 \<lparr>cd_after = fr_new, cd_print = sha256_hex ''Module'', cd_checked = dict_in sw_report\<rparr>]"] low
    by (auto simp: repair_locked_def fr_steps iso fr_ports_parts source fr_validate_in fr_attempts simp del: all_hold.simps)
  then show ?thesis by (simp add: repair_def fr_steps fr_ports_parts fr_spec lastly_def)
qed

section \<open>Only a passing text is written\<close>

text \<open>C13: Only a passing text is ever written. However a repair ends, with a receipt, with a refusal or with an exception, the file is as it
  was, or it holds a text whose function passes every case of the task when the guarded function is run; the one exception is a write that itself
  raised: then the repair ends with that error, the text it was writing passes every case, and the file is as the failed write left it.\<close>

theorem repair_writes_only_passing:
  assumes "only_write_changes f ports task propose" "true_validator run ports task" and "repair ports task propose w = (res, w')"
  shows "f w' = f w \<or> passes_all run (rp_lib ports) task (f w') \<or>
    (\<exists>e s v v'. res = Inl e \<and> passes_all run (rp_lib ports) task s \<and>
       rp_write ports (text_at task ''path'') s v = (Inl e, v') \<and> f w' = f v')"
  using repair_lands [OF assms(1,2), unfolded lands_def failed_write_def, rule_format, of w] unfolding assms(3) fst_conv snd_conv by metis

theorem repair_writes_only_passing_witness:
  "fst (snd (repair fr_ports fr_task fr_propose (fr_old, False))) = fr_new \<and> fr_new \<noteq> fr_old \<and> passes_all fr_run fr_lib fr_task fr_new"
proof -
  obtain result where r: "repair fr_ports fr_task fr_propose (fr_old, False) = (Inr result, (fr_new, True))" using fr_repaired by blast
  show ?thesis
    using repair_writes_only_passing [OF fr_hypotheses r] fr_neq by (auto simp: r fr_ports_parts)
qed

end
