(* ===== verification/Structured_Assembly.thy ===== *)
theory Structured_Assembly
  imports Structured_Anchors
begin

text \<open>
  What an anchored revision does to a text: it changes the lines it names and no other, it does not depend on the order
  in which the answer lists its edits, and its result is again a text whose lines can be anchored.
\<close>

section \<open>Updates at distinct lines\<close>

lemma fold_replace:
  assumes "distinct (map fst rs)" "\<forall>i\<in>fst ` set rs. i < length ls"
  shows "length (fold (\<lambda>(i, t) ls. ls[i := t]) rs ls) = length ls \<and>
    (\<forall>j<length ls. fold (\<lambda>(i, t) ls. ls[i := t]) rs ls ! j = (case map_of rs j of None \<Rightarrow> ls ! j | Some t \<Rightarrow> t))"
  using assms
proof (induction rs arbitrary: ls)
  case (Cons r rs)
  obtain i t where r: "r = (i, t)" by fastforce
  have i: "i \<notin> dom (map_of rs)" using Cons.prems(1) by (simp add: r dom_map_of_conv_image_fst)
  then have "map_of rs i = None" by blast
  with Cons.IH [of "ls[i := t]"] Cons.prems show ?case by (auto simp: r nth_list_update split: option.splits)
qed simp

lemma fold_prefix:
  assumes "distinct (map fst gs)" "\<forall>i\<in>fst ` set gs. i < length ls"
  shows "length (fold (\<lambda>(i, p) ls. ls[i := p @ ls ! i]) gs ls) = length ls \<and>
    (\<forall>j<length ls. fold (\<lambda>(i, p) ls. ls[i := p @ ls ! i]) gs ls ! j = (case map_of gs j of None \<Rightarrow> [] | Some p \<Rightarrow> p) @ ls ! j)"
  using assms
proof (induction gs arbitrary: ls)
  case (Cons g gs)
  obtain i p where g: "g = (i, p)" by fastforce
  have "i \<notin> dom (map_of gs)" using Cons.prems(1) by (simp add: g dom_map_of_conv_image_fst)
  then have "map_of gs i = None" by blast
  with Cons.IH [of "ls[i := p @ ls ! i]"] Cons.prems show ?case by (auto simp: g nth_list_update split: option.splits)
qed simp

definition line_after :: "assembly \<Rightarrow> string list \<Rightarrow> nat \<Rightarrow> string" where
  "line_after st lines i =
     (case map_of (guards st) i of None \<Rightarrow> [] | Some p \<Rightarrow> p) @
     (case map_of (replacements st) i of None \<Rightarrow> lines ! i | Some t \<Rightarrow> t)"

definition assembly_ok :: "nat \<Rightarrow> assembly \<Rightarrow> bool" where
  "assembly_ok n st \<longleftrightarrow> distinct (map fst (guards st)) \<and> distinct (map fst (replacements st)) \<and>
     (\<forall>i\<in>fst ` set (guards st) \<union> fst ` set (replacements st). i < n)"

lemma apply_assembly_lines:
  assumes "assembly_ok (length lines) st"
  shows "apply_assembly st lines = map (line_after st lines) [0..<length lines]"
proof -
  let ?r = "fold (\<lambda>(i, t) ls. ls[i := t]) (replacements st) lines"
  have r: "length ?r = length lines" "\<forall>j<length lines. ?r ! j = (case map_of (replacements st) j of None \<Rightarrow> lines ! j | Some t \<Rightarrow> t)"
    using fold_replace [of "replacements st" lines] assms by (auto simp: assembly_ok_def)
  have g: "length (apply_assembly st lines) = length lines"
    "\<forall>j<length lines. apply_assembly st lines ! j = (case map_of (guards st) j of None \<Rightarrow> [] | Some p \<Rightarrow> p) @ ?r ! j"
    using fold_prefix [of "guards st" ?r] assms by (auto simp: assembly_ok_def apply_assembly_def r(1))
  show ?thesis using g r by (intro nth_equalityI) (auto simp: line_after_def)
qed

section \<open>What one edit contributes\<close>

text \<open>An edit adds one entry to the assembly, which does not depend on what is there; only a duplicate is refused.\<close>

definition no_edits :: assembly where
  "no_edits = \<lparr>replacements = [], guards = []\<rparr>"

definition compatible :: "bool \<Rightarrow> assembly \<Rightarrow> assembly \<Rightarrow> bool" where
  "compatible model_split st add \<longleftrightarrow>
     (\<forall>i\<in>fst ` set (guards add). i \<notin> fst ` set (guards st) \<and> (model_split \<or> i \<notin> fst ` set (replacements st))) \<and>
     (\<forall>i\<in>fst ` set (replacements add). i \<notin> fst ` set (replacements st) \<and> (model_split \<or> i \<notin> fst ` set (guards st)))"

definition joined :: "assembly \<Rightarrow> assembly \<Rightarrow> assembly" where
  "joined st add = \<lparr>replacements = replacements st @ replacements add, guards = guards st @ guards add\<rparr>"

lemma guard_edit_Inr:
  "guard_edit lib ms source anchors e st = Inr st' \<longleftrightarrow>
     (\<exists>i t. guard_edit lib ms source anchors e no_edits = Inr \<lparr>replacements = [], guards = [(i, t)]\<rparr> \<and>
        i \<notin> fst ` set (guards st) \<and> (ms \<or> i \<notin> fst ` set (replacements st)) \<and> st' = st\<lparr>guards := guards st @ [(i, t)]\<rparr>)"
  by (auto simp: guard_edit_def outcome_simps Let_def no_edits_def)

lemma line_edit_Inr:
  "line_edit ms source anchors e st = Inr st' \<longleftrightarrow>
     (\<exists>i t. line_edit ms source anchors e no_edits = Inr \<lparr>replacements = [(i, t)], guards = []\<rparr> \<and>
        i \<notin> fst ` set (replacements st) \<and> (ms \<or> i \<notin> fst ` set (guards st)) \<and> st' = st\<lparr>replacements := replacements st @ [(i, t)]\<rparr>)"
  by (auto simp: line_edit_def outcome_simps Let_def no_edits_def)

lemma guard_edit_shape:
  "guard_edit lib ms source anchors e no_edits = Inr add \<Longrightarrow> \<exists>i t. add = \<lparr>replacements = [], guards = [(i, t)]\<rparr>"
  using guard_edit_Inr [of lib ms source anchors e no_edits add] by (auto simp: no_edits_def)

lemma line_edit_shape:
  "line_edit ms source anchors e no_edits = Inr add \<Longrightarrow> \<exists>i t. add = \<lparr>replacements = [(i, t)], guards = []\<rparr>"
  using line_edit_Inr [of ms source anchors e no_edits add] by (auto simp: no_edits_def)

lemma edit_step_Inr:
  "edit_step lib ms source anchors v st = Inr st' \<longleftrightarrow>
     (\<exists>add. edit_step lib ms source anchors v no_edits = Inr add \<and> compatible ms st add \<and> st' = joined st add)"
proof (cases "keys (dict_in v) = {''anchor'', ''guard'', ''return_expression''}")
  case True
  have "guard_edit lib ms source anchors (dict_in v) st = Inr st' \<longleftrightarrow>
      (\<exists>add. guard_edit lib ms source anchors (dict_in v) no_edits = Inr add \<and> compatible ms st add \<and> st' = joined st add)"
  proof (cases "guard_edit lib ms source anchors (dict_in v) no_edits")
    case (Inr add)
    then obtain i t where "add = \<lparr>replacements = [], guards = [(i, t)]\<rparr>" using guard_edit_shape by blast
    with Inr show ?thesis unfolding guard_edit_Inr [of _ _ _ _ _ st] by (cases st) (auto simp: compatible_def joined_def)
  qed (simp add: guard_edit_Inr [of _ _ _ _ _ st])
  with True show ?thesis by (auto simp: edit_step_def outcome_simps)
next
  case False
  have "line_edit ms source anchors (dict_in v) st = Inr st' \<longleftrightarrow>
      (\<exists>add. line_edit ms source anchors (dict_in v) no_edits = Inr add \<and> compatible ms st add \<and> st' = joined st add)"
  proof (cases "line_edit ms source anchors (dict_in v) no_edits")
    case (Inr add)
    then obtain i t where "add = \<lparr>replacements = [(i, t)], guards = []\<rparr>" using line_edit_shape by blast
    with Inr show ?thesis unfolding line_edit_Inr [of _ _ _ _ st] by (cases st) (auto simp: compatible_def joined_def)
  qed (simp add: line_edit_Inr [of _ _ _ _ st])
  with False show ?thesis by (auto simp: edit_step_def outcome_simps)
qed

text \<open>The assembly of a whole answer joins the contributions of its edits, which must not meet.\<close>

fun all_joined :: "assembly \<Rightarrow> assembly list \<Rightarrow> assembly" where
  "all_joined st [] = st"
| "all_joined st (a # as) = all_joined (joined st a) as"

fun meetings_ok :: "bool \<Rightarrow> assembly \<Rightarrow> assembly list \<Rightarrow> bool" where
  "meetings_ok ms st [] \<longleftrightarrow> True"
| "meetings_ok ms st (a # as) \<longleftrightarrow> compatible ms st a \<and> meetings_ok ms (joined st a) as"

lemma fold_edits_Inr:
  "foldE (edit_step lib ms source anchors) edits st = Inr st' \<longleftrightarrow>
     (\<exists>adds. list_all2 (\<lambda>v add. edit_step lib ms source anchors v no_edits = Inr add) edits adds \<and>
        meetings_ok ms st adds \<and> st' = all_joined st adds)"
proof (induction edits arbitrary: st)
  case (Cons v edits)
  show ?case
    by (auto simp: outcome_simps edit_step_Inr [of _ _ _ _ _ st] Cons.IH list_all2_Cons1)
      (metis meetings_ok.simps(2) all_joined.simps(2))+
qed auto

lemma all_joined_parts:
  "replacements (all_joined st as) = replacements st @ concat (map replacements as)"
  "guards (all_joined st as) = guards st @ concat (map guards as)"
  by (induction st as rule: all_joined.induct) (simp_all add: joined_def)

text \<open>The contributions meet nowhere, whatever their order, if the indices of the guards are distinct, those of the replacements too, and unless guards and
  replacements may be paired, no index is in both.\<close>

definition apart :: "bool \<Rightarrow> assembly \<Rightarrow> bool" where
  "apart ms st \<longleftrightarrow> distinct (map fst (guards st)) \<and> distinct (map fst (replacements st)) \<and>
     (ms \<or> fst ` set (guards st) \<inter> fst ` set (replacements st) = {})"

definition single :: "assembly \<Rightarrow> bool" where
  "single add \<longleftrightarrow> (\<exists>i t. add = \<lparr>replacements = [], guards = [(i, t)]\<rparr> \<or> add = \<lparr>replacements = [(i, t)], guards = []\<rparr>)"

lemma apart_joined: "single add \<Longrightarrow> apart ms (joined st add) \<longleftrightarrow> apart ms st \<and> compatible ms st add"
  by (auto simp: single_def apart_def joined_def compatible_def) (metis fst_conv image_eqI)+

lemma meetings_apart: "list_all single as \<Longrightarrow> apart ms st \<Longrightarrow> meetings_ok ms st as \<longleftrightarrow> apart ms (all_joined st as)"
proof (induction ms st as rule: meetings_ok.induct)
  case (2 ms st a as)
  have mono: "apart ms (all_joined st' bs) \<Longrightarrow> apart ms st'" for st' bs
    by (auto simp: apart_def all_joined_parts)
  show ?case using 2 apart_joined [of a ms st] mono [of "joined st a" as] by auto
qed simp

lemma edit_step_single: "edit_step lib ms source anchors v no_edits = Inr add \<Longrightarrow> single add"
  by (auto simp: edit_step_def outcome_simps single_def split: if_splits dest!: guard_edit_shape line_edit_shape)

lemma fold_edits:
  "foldE (edit_step lib ms source anchors) edits no_edits = Inr st \<longleftrightarrow>
     (\<exists>adds. list_all2 (\<lambda>v add. edit_step lib ms source anchors v no_edits = Inr add) edits adds \<and>
        apart ms (all_joined no_edits adds) \<and> st = all_joined no_edits adds)"
proof -
  have "list_all single adds" if "list_all2 (\<lambda>v add. edit_step lib ms source anchors v no_edits = Inr add) edits adds" for adds
    using that by (induction rule: list_all2_induct) (auto dest: edit_step_single)
  moreover have "apart ms no_edits" by (simp add: apart_def no_edits_def)
  ultimately show ?thesis unfolding fold_edits_Inr using meetings_apart by blast
qed

section \<open>Revisions\<close>

lemma catalog_Inr:
  assumes "line_catalog source = Inr anchors"
  shows "(a, i) \<in> set anchors \<longleftrightarrow> a = anchor_of i \<and> 1 \<le> i \<and> i < length (splitlines_keep source) \<and> \<not> blank (splitlines_keep source ! i)"
  using assms by (auto simp: line_catalog_def outcome_simps Let_def)

lemma catalog_lines:
  assumes "line_catalog source = Inr anchors" and "1 \<le> i" "i < length (splitlines_keep source)"
  shows "blank (splitlines_keep source ! i) \<or> indented (splitlines_keep source ! i)"
proof -
  have "splitlines_keep source ! i \<in> set (tl (splitlines_keep source))"
    using assms(2,3) by (cases "splitlines_keep source"; cases i) auto
  moreover have "list_all (\<lambda>l. blank l \<or> indented l) (tl (splitlines_keep source))"
    using assms(1) by (simp add: line_catalog_def outcome_simps Let_def)
  ultimately show ?thesis by (auto simp: list_all_iff)
qed

lemma guard_edit_index:
  "guard_edit lib ms source anchors e no_edits = Inr \<lparr>replacements = [], guards = [(i, t)]\<rparr> \<Longrightarrow> map_of anchors (text_at e ''anchor'') = Some i"
  by (auto simp: guard_edit_def outcome_simps Let_def anchor_index_def no_edits_def split: option.splits)

lemma line_edit_index:
  "line_edit ms source anchors e no_edits = Inr \<lparr>replacements = [(i, t)], guards = []\<rparr> \<Longrightarrow> map_of anchors (text_at e ''anchor'') = Some i"
  by (auto simp: line_edit_def outcome_simps Let_def anchor_index_def no_edits_def split: option.splits)

lemma edit_step_index:
  assumes "edit_step lib ms source anchors v no_edits = Inr add" and "i \<in> fst ` set (guards add) \<union> fst ` set (replacements add)"
  shows "map_of anchors (text_at (dict_in v) ''anchor'') = Some i"
proof (cases "keys (dict_in v) = {''anchor'', ''guard'', ''return_expression''}")
  case True
  with assms(1) have g: "guard_edit lib ms source anchors (dict_in v) no_edits = Inr add" by (simp add: edit_step_def outcome_simps)
  then show ?thesis using guard_edit_shape [OF g] guard_edit_index assms(2) by fastforce
next
  case False
  with assms(1) have g: "line_edit ms source anchors (dict_in v) no_edits = Inr add" by (simp add: edit_step_def outcome_simps)
  then show ?thesis using line_edit_shape [OF g] line_edit_index assms(2) by fastforce
qed

definition named_anchors :: "pyval list \<Rightarrow> string set" where
  "named_anchors edits = (\<lambda>v. text_at (dict_in v) ''anchor'') ` set edits"

lemma fold_edits_indices:
  assumes f: "foldE (edit_step lib ms source anchors) edits no_edits = Inr st"
    and i: "i \<in> fst ` set (guards st) \<union> fst ` set (replacements st)"
  shows "\<exists>a\<in>named_anchors edits. (a, i) \<in> set anchors"
proof -
  obtain adds where a: "list_all2 (\<lambda>v add. edit_step lib ms source anchors v no_edits = Inr add) edits adds" "st = all_joined no_edits adds"
    using f unfolding fold_edits by blast
  have "\<exists>add\<in>set adds. i \<in> fst ` set (guards add) \<union> fst ` set (replacements add)"
    using i unfolding a(2) all_joined_parts by (auto simp: no_edits_def)
  then obtain k where k: "k < length adds" "i \<in> fst ` set (guards (adds ! k)) \<union> fst ` set (replacements (adds ! k))"
    by (metis in_set_conv_nth)
  have e: "k < length edits" "edit_step lib ms source anchors (edits ! k) no_edits = Inr (adds ! k)"
    using a(1) k(1) by (auto simp: list_all2_conv_all_nth)
  from edit_step_index [OF e(2) k(2)] have "(text_at (dict_in (edits ! k)) ''anchor'', i) \<in> set anchors" by (rule map_of_SomeD)
  then show ?thesis using e(1) by (auto simp: named_anchors_def)
qed

lemma assemble_parts:
  assumes "assemble_anchors lib ms reply source = Inr (assembled, edits)"
  obtains anchors st where "line_catalog source = Inr anchors"
    "foldE (edit_step lib ms source anchors) edits no_edits = Inr st" "assembly_ok (length (splitlines_keep source)) st"
    "assembled = concat (map (line_after st (splitlines_keep source)) [0..<length (splitlines_keep source)])" "assembled \<noteq> source"
proof -
  let ?ls = "splitlines_keep source"
  obtain anchors st where c: "line_catalog source = Inr anchors" and f: "foldE (edit_step lib ms source anchors) edits no_edits = Inr st"
    and a: "assembled = concat (apply_assembly st ?ls)" "assembled \<noteq> source"
    using assms by (auto simp: assemble_anchors_def outcome_simps Let_def no_edits_def)
  have "apart ms st" using f unfolding fold_edits by blast
  moreover have "i < length ?ls" if "i \<in> fst ` set (guards st) \<union> fst ` set (replacements st)" for i
    using fold_edits_indices [OF f that] catalog_Inr [OF c] by blast
  ultimately have ok: "assembly_ok (length ?ls) st" by (auto simp: assembly_ok_def apart_def)
  show ?thesis by (rule that [OF c f ok _ a(2)]) (simp add: a(1) apply_assembly_lines [OF ok])
qed

text \<open>C18: A revision by anchors changes only the lines it names. The assembled text is line by line what the source was, the line of the signature always
  included, except for lines whose anchor one of the edits names; and it differs from the source.\<close>

theorem anchored_revision_is_local:
  assumes "assemble_anchors lib model_split reply source = Inr (assembled, edits)"
  shows "\<exists>parts. assembled = concat parts \<and> length parts = length (splitlines_keep source) \<and> parts ! 0 = splitlines_keep source ! 0 \<and>
    (\<forall>i<length parts. anchor_of i \<notin> named_anchors edits \<longrightarrow> parts ! i = splitlines_keep source ! i) \<and> assembled \<noteq> source"
proof -
  let ?ls = "splitlines_keep source"
  obtain anchors st where p: "line_catalog source = Inr anchors" "foldE (edit_step lib model_split source anchors) edits no_edits = Inr st"
    "assembled = concat (map (line_after st ?ls) [0..<length ?ls])" "assembled \<noteq> source"
    using assemble_parts [OF assms] by metis
  have same: "line_after st ?ls i = ?ls ! i" if "i = 0 \<or> anchor_of i \<notin> named_anchors edits" for i
  proof -
    have "i \<notin> fst ` set (guards st) \<union> fst ` set (replacements st)"
      using that fold_edits_indices [OF p(2), of i] catalog_Inr [OF p(1)] by auto
    then have "map_of (guards st) i = None" "map_of (replacements st) i = None" by (auto simp: map_of_eq_None_iff)
    then show ?thesis by (simp add: line_after_def)
  qed
  have "?ls \<noteq> []" using p(1) by (auto simp: line_catalog_def outcome_simps Let_def)
  then show ?thesis using p(3,4) same by (intro exI [of _ "map (line_after st ?ls) [0..<length ?ls]"]) auto
qed

section \<open>The order of the edits\<close>

lemma mset_concat_cong: "mset xs = mset ys \<Longrightarrow> mset (concat (map f xs)) = mset (concat (map f ys))"
  by (simp add: mset_concat flip: sum_mset_sum_list)

lemma all_joined_mset:
  assumes "mset as = mset bs"
  shows "mset (guards (all_joined no_edits as)) = mset (guards (all_joined no_edits bs))"
    "mset (replacements (all_joined no_edits as)) = mset (replacements (all_joined no_edits bs))"
  using mset_concat_cong [OF assms] by (simp_all add: all_joined_parts no_edits_def)

definition same_entries :: "assembly \<Rightarrow> assembly \<Rightarrow> bool" where
  "same_entries s t \<longleftrightarrow> mset (guards s) = mset (guards t) \<and> mset (replacements s) = mset (replacements t)"

lemma same_entries_apart: "same_entries s t \<Longrightarrow> apart ms s \<longleftrightarrow> apart ms t"
proof -
  assume a: "same_entries s t"
  then have "distinct (map fst (guards s)) \<longleftrightarrow> distinct (map fst (guards t))"
    "distinct (map fst (replacements s)) \<longleftrightarrow> distinct (map fst (replacements t))"
    by (auto simp: same_entries_def intro!: mset_eq_imp_distinct_iff)
  moreover have "set (guards s) = set (guards t)" "set (replacements s) = set (replacements t)"
    using a by (auto simp: same_entries_def dest: mset_eq_setD)
  ultimately show ?thesis by (simp add: apart_def)
qed

lemma same_entries_line: "same_entries s t \<Longrightarrow> apart ms s \<Longrightarrow> line_after s lines i = line_after t lines i"
proof -
  assume a: "same_entries s t" "apart ms s"
  then have "apart ms t" using same_entries_apart by blast
  with a have "map_of (guards s) = map_of (guards t)" "map_of (replacements s) = map_of (replacements t)"
    by (auto simp: same_entries_def apart_def map_of_inject_set dest: mset_eq_setD)
  then show ?thesis by (simp add: line_after_def)
qed

lemma fold_edits_perm:
  assumes f: "foldE (edit_step lib ms source anchors) es no_edits = Inr st" and m: "mset es' = mset es"
  shows "\<exists>st'. foldE (edit_step lib ms source anchors) es' no_edits = Inr st' \<and> same_entries st' st"
proof -
  let ?add = "\<lambda>v. projr (edit_step lib ms source anchors v no_edits)"
  obtain adds where a: "list_all2 (\<lambda>v add. edit_step lib ms source anchors v no_edits = Inr add) es adds"
    "apart ms (all_joined no_edits adds)" "st = all_joined no_edits adds"
    using f unfolding fold_edits by blast
  have adds: "adds = map ?add es" and all: "\<forall>v\<in>set es. edit_step lib ms source anchors v no_edits = Inr (?add v)"
    using a(1) by (induction rule: list_all2_induct) auto
  have "list_all2 (\<lambda>v add. edit_step lib ms source anchors v no_edits = Inr add) es' (map ?add es')"
    using all mset_eq_setD [OF m] by (auto simp: list_all2_conv_all_nth)
  moreover have "mset (map ?add es') = mset adds" using m by (simp add: adds)
  then have s: "same_entries (all_joined no_edits (map ?add es')) st"
    using all_joined_mset [of "map ?add es'" adds] by (simp add: same_entries_def a(3))
  moreover have "apart ms (all_joined no_edits (map ?add es'))" using same_entries_apart [OF s] a(2,3) by simp
  ultimately show ?thesis unfolding fold_edits by blast
qed

text \<open>The order of the edits does not matter. If an answer is assembled, then an answer with the same edits in another order is
  assembled to the same text.\<close>

theorem edits_order_irrelevant:
  assumes "assemble_anchors lib model_split reply source = Inr (assembled, edits)"
    and "loads lib reply' = Some v'" "edit_list model_split v' = Inr edits'" "mset edits' = mset edits" "length reply' \<le> 16384"
  shows "assemble_anchors lib model_split reply' source = Inr (assembled, edits')"
proof -
  let ?ls = "splitlines_keep source"
  obtain anchors st where p: "line_catalog source = Inr anchors" "foldE (edit_step lib model_split source anchors) edits no_edits = Inr st"
    "assembly_ok (length ?ls) st" "assembled = concat (map (line_after st ?ls) [0..<length ?ls])" "assembled \<noteq> source"
    using assemble_parts [OF assms(1)] by metis
  have l: "length assembled \<le> 20000" using assms(1) by (auto simp: assemble_anchors_def outcome_simps Let_def)
  obtain st' where s: "foldE (edit_step lib model_split source anchors) edits' no_edits = Inr st'" "same_entries st' st"
    using fold_edits_perm [OF p(2) assms(4)] by blast
  have ap: "apart model_split st'" using s(1) unfolding fold_edits by blast
  have "set (guards st') = set (guards st)" "set (replacements st') = set (replacements st)"
    using s(2) by (auto simp: same_entries_def dest: mset_eq_setD)
  then have "assembly_ok (length ?ls) st'" using p(3) ap by (simp add: assembly_ok_def apart_def)
  then have "apply_assembly st' ?ls = map (line_after st ?ls) [0..<length ?ls]"
    using same_entries_line [OF s(2) ap] by (simp add: apply_assembly_lines)
  then have "assembled = concat (apply_assembly st' ?ls)" by (simp add: p(4))
  then show ?thesis
    using assms(2,3,5) p(1,5) s(1) l by (simp add: assemble_anchors_def require_anchor_def no_edits_def [symmetric])
qed

section \<open>The result can be anchored again\<close>

definition good_line :: "string \<Rightarrow> bool" where
  "good_line l \<longleftrightarrow> l \<noteq> [] \<and> last l = newline \<and> list_all (\<lambda>c. \<not> line_end c) (butlast l)"

lemma good_line_snoc [simp]: "good_line (b @ [newline]) \<longleftrightarrow> list_all (\<lambda>c. \<not> line_end c) b"
  by (simp add: good_line_def)

lemma good_line_Cons: "\<not> line_end c \<Longrightarrow> good_line l \<Longrightarrow> good_line (c # l)"
  by (simp add: good_line_def)

lemma splitlines_good: "list_all good_line ls \<Longrightarrow> splitlines_keep (concat ls @ s) = ls @ splitlines_keep s"
proof (induction ls)
  case (Cons l ls)
  then have l: "l = butlast l @ [newline]" "list_all (\<lambda>c. \<not> line_end c) (butlast l)"
    by (auto simp: good_line_def) (metis append_butlast_last_id)
  from Cons splitlines_keep_line [OF l(2), of "concat ls @ s"] l(1) show ?case by (metis append.assoc append_Cons append_Nil concat.simps(2) list.pred_inject(2))
qed simp

text \<open>A text that ends its lines with line feeds only, as the unparser makes it.\<close>

definition plain_lines :: "string \<Rightarrow> bool" where
  "plain_lines s \<longleftrightarrow> list_all (\<lambda>c. line_end c \<longrightarrow> c = newline) s \<and> (s \<noteq> [] \<longrightarrow> last s = newline)"

lemma plain_lines_good: "plain_lines s \<Longrightarrow> list_all good_line (splitlines_keep s)"
proof (induction s rule: splitlines_keep.induct)
  case (3 c d s)
  then have p: "plain_lines (d # s)" "line_end c \<Longrightarrow> c = newline" by (auto simp: plain_lines_def)
  have nl: "c \<noteq> CHR 0x0D" using p(2) by (auto simp: newline_def line_end_def)
  show ?case
  proof (cases "line_end c")
    case True
    with p 3 nl show ?thesis by (simp add: good_line_def)
  next
    case False
    obtain l ls where l: "splitlines_keep (d # s) = l # ls" by (cases "splitlines_keep (d # s)") auto
    with 3 p False nl have "list_all good_line (l # ls)" by simp
    with False l nl show ?thesis by (simp add: good_line_Cons)
  qed
qed (auto simp: plain_lines_def good_line_def)

definition body_line :: "string \<Rightarrow> bool" where
  "body_line l \<longleftrightarrow> good_line l \<and> (blank l \<or> indented l)"

definition body_text :: "string \<Rightarrow> bool" where
  "body_text t \<longleftrightarrow> (\<exists>ls. t = concat ls \<and> list_all body_line ls)"

lemma body_text_append: "body_text s \<Longrightarrow> body_text t \<Longrightarrow> body_text (s @ t)"
  unfolding body_text_def by (metis concat_append list_all_append)

lemma body_text_Nil: "body_text []"
  unfolding body_text_def by (intro exI [of _ "[]"]) simp

lemma body_text_concat: "\<forall>t\<in>set ts. body_text t \<Longrightarrow> body_text (concat ts)"
  by (induction ts) (auto simp: body_text_Nil body_text_append)

lemma body_text_line: "body_line l \<Longrightarrow> body_text l"
  unfolding body_text_def by (intro exI [of _ "[l]"]) simp

text \<open>The indentation of an anchored line.\<close>

lemma indent_spaces: "list_all (\<lambda>c. c = CHR '' '') (indent_of l)"
  by (auto simp: indent_of_def list_all_iff dest: set_takeWhileD)

lemma indent_indented: "indented l \<Longrightarrow> indented (indent_of l @ t)"
proof -
  assume "indented l"
  then have "take 4 l = ''    ''" by (simp add: indented_def starts_with_def eval_nat_numeral)
  then have l: "l = ''    '' @ drop 4 l" by (metis append_take_drop_id)
  show ?thesis by (subst l) (simp add: indented_def indent_of_def starts_with_def)
qed

lemma body_line_indent:
  assumes "indented l" "list_all (\<lambda>c. \<not> line_end c) b"
  shows "body_line (indent_of l @ b @ [newline])"
proof -
  have "list_all (\<lambda>c. \<not> line_end c) (indent_of l)" by (rule list.pred_mono_strong [OF indent_spaces]) (simp add: line_end_def)
  then have "good_line ((indent_of l @ b) @ [newline])" using assms(2) by (simp only: good_line_snoc list_all_append)
  then show ?thesis using indent_indented [OF assms(1)] by (simp add: body_line_def)
qed

lemma replaced_body: "indented l \<Longrightarrow> body_text (replaced_text (indent_of l) (splitlines new))"
  unfolding replaced_text_def splitlines_def
  by (rule body_text_concat) (auto intro!: body_text_line body_line_indent simp: list_all_iff dest: set_takeWhileD)

lemma guard_body:
  assumes "indented l" "list_all (\<lambda>c. \<not> line_end c) (condition @ result)"
  shows "body_text (guard_text (indent_of l) condition result)"
proof -
  have "list_all (\<lambda>c. \<not> line_end c) (''if '' @ condition @ '':'')" "list_all (\<lambda>c. \<not> line_end c) (''    return '' @ result)"
    using assms(2) by (simp_all add: line_end_def)
  note this [THEN body_line_indent [OF assms(1)]]
  from body_text_append [OF this [THEN body_text_line]] show ?thesis by (simp add: guard_text_def)
qed

text \<open>What a guard or a replacement contributes is a text of such lines.\<close>

lemma line_edit_text:
  "line_edit ms source anchors e no_edits = Inr \<lparr>replacements = [(i, t)], guards = []\<rparr> \<Longrightarrow>
   t = replaced_text (indent_of (splitlines_keep source ! i)) (splitlines (text_at e ''new''))"
  by (auto simp: line_edit_def outcome_simps Let_def no_edits_def)

lemma guard_edit_text:
  "guard_edit lib ms source anchors e no_edits = Inr \<lparr>replacements = [], guards = [(i, t)]\<rparr> \<Longrightarrow>
   \<exists>c r. guard_texts lib ms source (text_at e ''guard'') (text_at e ''return_expression'') = Inr (c, r) \<and>
     t = guard_text (indent_of (splitlines_keep source ! i)) c r"
  by (auto simp: guard_edit_def outcome_simps Let_def no_edits_def)

text \<open>The expressions of every guard are without line ends.\<close>

definition guards_on_one_line :: "py_lib \<Rightarrow> bool \<Rightarrow> string \<Rightarrow> pyval list \<Rightarrow> bool" where
  "guards_on_one_line lib ms source edits \<longleftrightarrow>
     (\<forall>v\<in>set edits. \<forall>c r. guard_texts lib ms source (text_at (dict_in v) ''guard'') (text_at (dict_in v) ''return_expression'') = Inr (c, r) \<longrightarrow>
        list_all (\<lambda>x. \<not> line_end x) (c @ r))"

lemma edit_step_text:
  assumes e: "edit_step lib ms source anchors v no_edits = Inr add" and g: "guards_on_one_line lib ms source [v]"
    and c: "line_catalog source = Inr anchors" and i: "(i, t) \<in> set (guards add) \<union> set (replacements add)"
  shows "body_text t"
proof -
  have "map_of anchors (text_at (dict_in v) ''anchor'') = Some i"
    using i by (intro edit_step_index [OF e]) (auto intro: rev_image_eqI)
  then have "1 \<le> i" "i < length (splitlines_keep source)" "\<not> blank (splitlines_keep source ! i)"
    using catalog_Inr [OF c] by (auto dest: map_of_SomeD)
  then have l: "indented (splitlines_keep source ! i)"
    using catalog_lines [OF c] by blast
  show ?thesis
  proof (cases "keys (dict_in v) = {''anchor'', ''guard'', ''return_expression''}")
    case True
    with e have ge: "guard_edit lib ms source anchors (dict_in v) no_edits = Inr add" by (simp add: edit_step_def outcome_simps)
    with i have "add = \<lparr>replacements = [], guards = [(i, t)]\<rparr>" using guard_edit_shape by fastforce
    with ge guard_edit_text obtain c r where
      "guard_texts lib ms source (text_at (dict_in v) ''guard'') (text_at (dict_in v) ''return_expression'') = Inr (c, r)"
      "t = guard_text (indent_of (splitlines_keep source ! i)) c r" by blast
    with g l show ?thesis by (auto simp: guards_on_one_line_def intro!: guard_body)
  next
    case False
    with e have ge: "line_edit ms source anchors (dict_in v) no_edits = Inr add" by (simp add: edit_step_def outcome_simps)
    with i have "add = \<lparr>replacements = [(i, t)], guards = []\<rparr>" using line_edit_shape by fastforce
    with ge line_edit_text l replaced_body show ?thesis by blast
  qed
qed

lemma fold_edits_texts:
  assumes f: "foldE (edit_step lib ms source anchors) edits no_edits = Inr st" and g: "guards_on_one_line lib ms source edits"
    and c: "line_catalog source = Inr anchors" and i: "(i, t) \<in> set (guards st) \<union> set (replacements st)"
  shows "body_text t"
proof -
  obtain adds where a: "list_all2 (\<lambda>v add. edit_step lib ms source anchors v no_edits = Inr add) edits adds" "st = all_joined no_edits adds"
    using f unfolding fold_edits by blast
  have "\<exists>add\<in>set adds. (i, t) \<in> set (guards add) \<union> set (replacements add)"
    using i unfolding a(2) all_joined_parts by (auto simp: no_edits_def)
  then obtain k where k: "k < length adds" "(i, t) \<in> set (guards (adds ! k)) \<union> set (replacements (adds ! k))"
    by (metis in_set_conv_nth)
  have e: "k < length edits" "edit_step lib ms source anchors (edits ! k) no_edits = Inr (adds ! k)"
    using a(1) k(1) by (auto simp: list_all2_conv_all_nth)
  have "edits ! k \<in> set edits" using e(1) by simp
  then have "guards_on_one_line lib ms source [edits ! k]" using g unfolding guards_on_one_line_def by fastforce
  from edit_step_text [OF e(2) this c k(2)] show ?thesis .
qed

text \<open>A revised text can be revised again. For a source whose lines end with line feeds, and guards whose expressions have no line end, the
  lines of the assembled text are the line of the signature and lines that are blank or indented by four blanks; so it has a catalogue of
  anchors again, as long as it has between 2 and 350 lines.\<close>

theorem assembled_can_be_anchored:
  assumes "assemble_anchors lib model_split reply source = Inr (assembled, edits)"
    and "plain_lines source" "guards_on_one_line lib model_split source edits"
    and "2 \<le> length (splitlines_keep assembled)" "length (splitlines_keep assembled) \<le> 350"
  shows "hd (splitlines_keep assembled) = hd (splitlines_keep source) \<and> list_all body_line (tl (splitlines_keep assembled)) \<and>
    (\<exists>anchors. line_catalog assembled = Inr anchors)"
proof -
  let ?ls = "splitlines_keep source"
  obtain anchors st where p: "line_catalog source = Inr anchors" "foldE (edit_step lib model_split source anchors) edits no_edits = Inr st"
    "assembly_ok (length ?ls) st" "assembled = concat (map (line_after st ?ls) [0..<length ?ls])"
    using assemble_parts [OF assms(1)] by metis
  have len: "length assembled \<le> 20000" using assms(1) by (auto simp: assemble_anchors_def outcome_simps Let_def)
  obtain l ls where l: "?ls = l # ls" using p(1) by (cases ?ls) (auto simp: line_catalog_def outcome_simps Let_def)
  have good: "list_all good_line ?ls" by (rule plain_lines_good [OF assms(2)])
  have header: "starts_with ''def '' l" "ends_with '':'' (rstrip l)" using p(1) l by (auto simp: line_catalog_def outcome_simps Let_def)
  have zero: "line_after st ?ls 0 = l"
  proof -
    have "0 \<notin> fst ` set (guards st) \<union> fst ` set (replacements st)"
      using fold_edits_indices [OF p(2), of 0] catalog_Inr [OF p(1)] by auto
    then show ?thesis by (auto simp: line_after_def l map_of_eq_None_iff split: option.split dest: map_of_SomeD intro: rev_image_eqI)
  qed
  have rest: "body_text (line_after st ?ls i)" if "1 \<le> i" "i < length ?ls" for i
  proof -
    have "body_line (?ls ! i)" using catalog_lines [OF p(1) that] good that(2) by (auto simp: body_line_def list_all_length)
    moreover have "body_text t" if "map_of (guards st) i = Some t \<or> map_of (replacements st) i = Some t" for t
      using that fold_edits_texts [OF p(2) assms(3) p(1)] by (blast dest: map_of_SomeD)
    ultimately show ?thesis unfolding line_after_def
      by (cases "map_of (guards st) i"; cases "map_of (replacements st) i") (simp_all add: body_text_append body_text_line)
  qed
  have "assembled = l @ concat (map (line_after st ?ls) [1..<length ?ls])"
    unfolding p(4) by (subst upt_conv_Cons) (simp_all add: l zero [unfolded l])
  moreover have "body_text (concat (map (line_after st ?ls) [1..<length ?ls]))" using rest by (intro body_text_concat) auto
  ultimately obtain ms where ms: "assembled = concat (l # ms)" "list_all body_line ms" by (auto simp: body_text_def)
  have "list_all good_line (l # ms)" using good ms(2) l by (auto simp: list_all_iff body_line_def)
  then have s: "splitlines_keep assembled = l # ms" using splitlines_good [of "l # ms" "[]"] by (simp add: ms(1))
  have "assembled \<noteq> []" using s by (metis splitlines_keep.simps(1) list.distinct(1))
  then have "line_catalog assembled = Inr (map (\<lambda>i. (anchor_of i, i)) (filter (\<lambda>i. \<not> blank ((l # ms) ! i)) [1..<length (l # ms)]))"
    using assms(4,5) len header ms(2) s
    by (simp add: line_catalog_def Let_def require_anchor_def list_all_iff body_line_def Suc_le_eq)
  then show ?thesis using s ms(2) l by simp
qed

section \<open>An example\<close>

text \<open>A function of three lines; the answer replaces its last line and puts a guard in front of the second, in either order.\<close>

definition sa_source :: string where
  "sa_source = ''def f(x):'' @ [newline] @ ''    if x:'' @ [newline] @ ''        return x'' @ [newline]"

definition sa_guard :: pyval where
  "sa_guard = PDict [(''anchor'', PStr ''L2''), (''guard'', PStr ''not isinstance(x, str)''), (''return_expression'', PStr ''None'')]"

definition sa_line :: pyval where
  "sa_line = PDict [(''anchor'', PStr ''L3''), (''new'', PStr ''return x.strip()'')]"

definition sa_result :: string where
  "sa_result = ''def f(x):'' @ [newline] @ ''    if not isinstance(x, str):'' @ [newline] @ ''        return None'' @ [newline] @
     ''    if x:'' @ [newline] @ ''        return x.strip()'' @ [newline]"

definition sa_lib :: py_lib where
  "sa_lib = \<lparr>parse_module = (\<lambda>_. Inl OtherParseError), parse_eval = (\<lambda>_. None), unparse = (\<lambda>_. []), dump = (\<lambda>_. []),
     loads = (\<lambda>s. if s = ''a'' then Some (PDict [(''edits'', PList [sa_guard, sa_line])])
        else if s = ''b'' then Some (PDict [(''edits'', PList [sa_line, sa_guard])]) else None), float_text = (\<lambda>_. [])\<rparr>"

lemma sa_assembled: "assemble_anchors sa_lib False ''a'' sa_source = Inr (sa_result, [sa_guard, sa_line])"
proof -
  have lines: "splitlines_keep sa_source = [''def f(x):'' @ [newline], ''    if x:'' @ [newline], ''        return x'' @ [newline]]" by code_simp
  have "length sa_source \<le> 100" "1 \<le> length sa_source" "starts_with ''def '' (''def f(x):'' @ [newline])" "ends_with '':'' (rstrip (''def f(x):'' @ [newline]))"
    "list_all (\<lambda>l. blank l \<or> indented l) [''    if x:'' @ [newline], ''        return x'' @ [newline]]"
    "\<not> blank (''    if x:'' @ [newline])" "\<not> blank (''        return x'' @ [newline])" "anchor_of (Suc 0) = ''L2''" "anchor_of (Suc (Suc 0)) = ''L3''"
    by code_simp+
  then have c: "line_catalog sa_source = Inr [(''L2'', 1), (''L3'', 2)]"
    by (simp add: line_catalog_def Let_def require_anchor_def lines)
  define gt where "gt = guard_text ''    '' ''not isinstance(x, str)'' ''None''"
  define rt where "rt = ''        return x.strip()'' @ [newline]"
  have "list_all (\<lambda>c. code c \<notin> {13, 10, 9, 0, 91, 93}) (''not isinstance(x, str)'' @ ''None'')" "is_if_header (''    if x:'' @ [newline])"
    "indent_of (''    if x:'' @ [newline]) = ''    ''" "length ''not isinstance(x, str)'' \<le> 100" by code_simp+
  then have g: "guard_edit sa_lib False sa_source [(''L2'', 1), (''L3'', 2)] (dict_in sa_guard) no_edits = Inr \<lparr>replacements = [], guards = [(1, gt)]\<rparr>"
    by (simp add: guard_edit_def Let_def require_anchor_def sa_guard_def text_at_def anchor_index_def no_edits_def lines guardable_line_def guard_texts_def gt_def)
  have "list_all (\<lambda>c. code c \<notin> {13, 9, 0}) ''return x.strip()''" "splitlines ''return x.strip()'' = [''return x.strip()'']" "\<not> py_isspace (CHR ''r'')"
    "\<not> is_header (''        return x'' @ [newline])" "replaced_text (indent_of (''        return x'' @ [newline])) [''return x.strip()''] = rt"
    "length ''return x.strip()'' \<le> 100" unfolding rt_def by code_simp+
  then have l: "line_edit False sa_source [(''L2'', 1), (''L3'', 2)] (dict_in sa_line) \<lparr>replacements = [], guards = [(1, gt)]\<rparr> =
      Inr \<lparr>replacements = [(2, rt)], guards = [(1, gt)]\<rparr>"
    by (simp add: line_edit_def Let_def require_anchor_def sa_line_def text_at_def anchor_index_def lines keys_def)
  have "''guard'' \<notin> keys (dict_in sa_line)" by (simp add: keys_def sa_line_def)
  then have "keys (dict_in sa_line) \<noteq> {''anchor'', ''guard'', ''return_expression''}" by blast
  moreover have "keys (dict_in sa_guard) = {''anchor'', ''guard'', ''return_expression''}" "is_dict sa_guard" "is_dict sa_line"
    by (simp_all add: keys_def sa_guard_def sa_line_def)
  ultimately
  have f: "foldE (edit_step sa_lib False sa_source [(''L2'', 1), (''L3'', 2)]) [sa_guard, sa_line] no_edits = Inr \<lparr>replacements = [(2, rt)], guards = [(1, gt)]\<rparr>"
    using g l by (simp add: edit_step_def require_anchor_def)
  have r: "concat (apply_assembly \<lparr>replacements = [(2, rt)], guards = [(1, gt)]\<rparr> (splitlines_keep sa_source)) = sa_result"
    by (simp add: apply_assembly_def lines gt_def rt_def guard_text_def sa_result_def)
  have "sa_result \<noteq> sa_source" "length sa_result \<le> 200" by code_simp+
  moreover have "edit_list False (PDict [(''edits'', PList [sa_guard, sa_line])]) = Inr [sa_guard, sa_line]"
    by (simp add: edit_list_def Let_def require_anchor_def keys_def list_at_def)
  moreover have "loads sa_lib ''a'' = Some (PDict [(''edits'', PList [sa_guard, sa_line])])" by (simp add: sa_lib_def)
  ultimately show ?thesis
    using c f r by (simp add: assemble_anchors_def require_anchor_def no_edits_def [symmetric])
qed

theorem anchored_revision_is_local_witness:
  "assemble_anchors sa_lib False ''a'' sa_source = Inr (sa_result, [sa_guard, sa_line]) \<and>
   (\<exists>parts. sa_result = concat parts \<and> parts ! 0 = ''def f(x):'' @ [newline])"
proof -
  have "splitlines_keep sa_source ! 0 = ''def f(x):'' @ [newline]" by code_simp
  then show ?thesis using sa_assembled anchored_revision_is_local [OF sa_assembled] by metis
qed

theorem edits_order_irrelevant_witness:
  "assemble_anchors sa_lib False ''b'' sa_source = Inr (sa_result, [sa_line, sa_guard])"
proof -
  have "loads sa_lib ''b'' = Some (PDict [(''edits'', PList [sa_line, sa_guard])])" by (simp add: sa_lib_def)
  moreover have "edit_list False (PDict [(''edits'', PList [sa_line, sa_guard])]) = Inr [sa_line, sa_guard]"
    by (simp add: edit_list_def Let_def require_anchor_def keys_def list_at_def)
  ultimately show ?thesis using edits_order_irrelevant [OF sa_assembled] by (simp add: add_mset_commute)
qed

theorem assembled_can_be_anchored_witness:
  "assemble_anchors sa_lib False ''a'' sa_source = Inr (sa_result, [sa_guard, sa_line]) \<and> (\<exists>anchors. line_catalog sa_result = Inr anchors)"
proof -
  have "plain_lines sa_source" "2 \<le> length (splitlines_keep sa_result)" "length (splitlines_keep sa_result) \<le> 10" by code_simp+
  moreover have "guards_on_one_line sa_lib False sa_source [sa_guard, sa_line]"
    unfolding guards_on_one_line_def by (auto simp: guard_texts_def sa_guard_def sa_line_def text_at_def line_end_def)
  ultimately show ?thesis using sa_assembled assembled_can_be_anchored [OF sa_assembled] by simp
qed

end
