(* ===== verification/Effect_Properties.thy ===== *)
theory Effect_Properties
  imports Pool_Safety
begin

text \<open>
  Effects and admission: a task blocked for reconciliation can always be reconciled and then
  requeued; a checkpoint that was recorded is the one that is read back; submissions with the
  same identity are one task.
\<close>

definition reconcile_call :: "string \<Rightarrow> string \<Rightarrow> checkpoint_row \<Rightarrow> pool_call" where
  "reconcile_call ref cor c =
     ReconcileEffect (c_task_id c) (opt_text (c_effect_id c)) (c_lease_generation c) ''confirmed'' ref cor"

definition open_effects :: "pool_db \<Rightarrow> string \<Rightarrow> checkpoint_row list" where
  "open_effects db tid = filter (\<lambda>c. c_task_id c = tid \<and> unresolved_checkpoint db c) (task_checkpoints db)"

section \<open>Reconciling one effect\<close>

lemma later_total:
  "(c_lease_generation c, c_sequence c) \<noteq> (c_lease_generation d, c_sequence d) \<Longrightarrow> later_checkpoint c d \<or> later_checkpoint d c"
  by (auto simp: later_checkpoint_def)

lemma newest_first_later:
  "newest_first c \<le> newest_first d \<Longrightarrow> \<not> later_checkpoint d c"
  by (auto simp: newest_first_def later_checkpoint_def less_eq_prod_def split: if_splits)

lemma open_is_latest:
  assumes "reachable cfg db" "t \<in> set (tasks db)" "c \<in> set (open_effects db (t_task_id t))"
  obtains e where "c_effect_id c = Some e" "latest_effect_checkpoint (t_task_id t) e db = Some c"
    "c_effect_state c \<in> {EffPending, EffUnknown}" "SAFE_ID e" "1 \<le> c_lease_generation c" "c_task_id c = t_task_id t"
    "\<not> reconciled db c"
proof -
  have c: "c \<in> set (task_checkpoints db)" "c_task_id c = t_task_id t" "unresolved_checkpoint db c"
    using assms(3) by (auto simp: open_effects_def)
  then obtain e where e: "c_effect_id c = Some e" and st: "c_effect_state c \<in> {EffPending, EffUnknown}"
    and nr: "\<not> reconciled db c" by (auto simp: unresolved_checkpoint_def)
  have ord: "checkpoint_order (life_of db t)" using orders.always [OF assms(1,2)] .
  have mem: "c \<in> set (lf_checkpoints (life_of db t))" using c by simp
  have "checkpoint_inv (life_of db t)" using reachable_life [OF assms(1,2)] by (simp add: life_inv_def)
  then have ns: "\<not> superseded db c"
    using c mem e st nr by (auto simp: unresolved_checkpoint_def checkpoint_inv_def lf_reconciled_iff lf_superseded_iff)
  let ?cs = "filter (\<lambda>c. c_task_id c = t_task_id t \<and> c_effect_id c = Some e) (task_checkpoints db)"
  have inc: "c \<in> set ?cs" using c e by simp
  then obtain x where x: "latest_effect_checkpoint (t_task_id t) e db = Some x"
    by (cases "first_min newest_first ?cs") (auto simp: latest_effect_checkpoint_def filter_empty_conv)
  then have "first_min newest_first ?cs = Some x" by (simp add: latest_effect_checkpoint_def)
  from first_min_Some [OF this] inc have xs: "x \<in> set ?cs" "newest_first x \<le> newest_first c" by simp_all
  have "x = c"
  proof (rule ccontr)
    assume "x \<noteq> c"
    then have "(c_lease_generation x, c_sequence x) \<noteq> (c_lease_generation c, c_sequence c)"
      using ord xs(1) mem unfolding checkpoint_order_def distinct_map inj_on_def by auto
    then have "later_checkpoint x c" using later_total newest_first_later [OF xs(2)] by blast
    with ns xs(1) e c show False by (auto simp: superseded_def list_ex_iff)
  qed
  moreover have "SAFE_ID e" "1 \<le> c_lease_generation c"
    using ord mem e by (auto simp: checkpoint_order_def opt_all_def)
  ultimately show thesis using that e x st c(2) nr by blast
qed

lemma reconcile_open_effect:
  assumes r: "reachable cfg db" and t: "t \<in> set (tasks db)" "t_fencing_required t" "t_state t = Blocked"
      "t_blocked_reason t = Some effect_reason"
    and c: "c \<in> set (open_effects db (t_task_id t))"
    and ref: "sanitize (py_strip ref) \<noteq> []" "py_strip cor \<noteq> []"
  obtains e where "exec_call cfg now (reconcile_call ref cor c) db =
      db\<lparr>effect_reconciliations := effect_reconciliations db @ [e]\<rparr>"
    "e_task_id e = c_task_id c" "Some (e_effect_id e) = c_effect_id c" "e_lease_generation e = c_lease_generation c"
    "e_outcome e = OutConfirmed"
proof -
  obtain x where x: "c_effect_id c = Some x" "latest_effect_checkpoint (t_task_id t) x db = Some c"
    "c_effect_state c \<in> {EffPending, EffUnknown}" "SAFE_ID x" "1 \<le> c_lease_generation c" "c_task_id c = t_task_id t"
    "\<not> reconciled db c"
    using open_is_latest [OF r t(1) c] .
  define e where "e = \<lparr>e_task_id = t_task_id t, e_effect_id = x, e_lease_generation = c_lease_generation c,
    e_outcome = OutConfirmed, e_readback_ref = sanitize (py_strip ref),
    e_content_digest = reconciliation_digest x (c_lease_generation c) ''confirmed'' (sanitize (py_strip ref)),
    e_correlation_id = py_strip cor, e_created_at = now\<rparr>"
  have none: "find_reconciliation (t_task_id t) x (c_lease_generation c) db = None"
    using x(1,6,7) by (auto simp: find_reconciliation_def reconciled_def find_None_iff list_ex_iff)
  then have fresh: "(t_task_id t, x, c_lease_generation c)
      \<notin> (\<lambda>x. (e_task_id x, e_effect_id x, e_lease_generation x)) ` set (effect_reconciliations db)"
    by (auto simp: find_reconciliation_def find_None_iff)
  have "sql_insert_reconciliation e db = Inr (db\<lparr>effect_reconciliations := effect_reconciliations db @ [e]\<rparr>)"
    using x(5) fresh t(1) by (simp add: sql_insert_reconciliation_def e_def)
  then have "reconcile_effect_tx e db = Inr ((e, True), db\<lparr>effect_reconciliations := effect_reconciliations db @ [e]\<rparr>)"
    using reachable_find [OF r t(1)] none t(2-4) x(2,3)
    by (simp add: reconcile_effect_tx_def e_def)
  then have "exec_call cfg now (reconcile_call ref cor c) db = db\<lparr>effect_reconciliations := effect_reconciliations db @ [e]\<rparr>"
    using x(1,4,5,6) ref
    by (simp add: reconcile_call_def reconcile_effect_def opt_text_def parse_outcome_def Let_def run_tx_def e_def)
  then show thesis using that x(1,6) by (simp add: e_def)
qed

lemma open_effects_shrink:
  assumes "db' = db\<lparr>effect_reconciliations := effect_reconciliations db @ [e]\<rparr>"
    and "e_task_id e = c_task_id c" "Some (e_effect_id e) = c_effect_id c" "e_lease_generation e = c_lease_generation c"
    and "c \<in> set (open_effects db tid)"
  shows "length (open_effects db' tid) < length (open_effects db tid)"
proof -
  have mono: "unresolved_checkpoint db x" if "unresolved_checkpoint db' x" for x
    using that by (auto simp: unresolved_checkpoint_def reconciled_def superseded_def assms(1))
  have gone: "\<not> unresolved_checkpoint db' c"
    using assms(2-4) by (auto simp: unresolved_checkpoint_def reconciled_def assms(1))
  have eq: "open_effects db' tid = filter (unresolved_checkpoint db') (open_effects db tid)"
    using mono by (auto simp: open_effects_def assms(1) intro!: filter_cong)
  show ?thesis unfolding eq using assms(5) gone by (intro length_filter_less [of c]) auto
qed

section \<open>Requeue\<close>

lemma requeue_total:
  assumes r: "reachable cfg db" and t: "t \<in> set (tasks db)" "t_state t = Blocked"
    and res: "\<not> (t_fencing_required t \<and> has_unresolved_effect db (t_task_id t))"
    and own: "\<forall>u\<in>set (tasks db). t_repository u = t_repository t \<and> t_workspace_key u = t_workspace_key t \<longrightarrow> u = t"
  shows "\<exists>db'. requeue_blocked now (t_task_id t) cor db = (Inr (requeue_update now cor t), db')"
proof -
  let ?f = "requeue_update now cor"
  have wf: "tables_wf db" using reachable_wf [OF r] .
  have uniq: "u = t" if "u \<in> set (tasks db)" "t_task_id u = t_task_id t" for u
    using that t(1) wf by (auto simp: tables_wf_def distinct_map inj_on_def)
  have free: "t_leased_by t = None"
    using reachable_life [OF r t(1)] t(2) by (auto simp: life_inv_def lease_inv_def active_state_def)
  have "distinct (map t_leased_by (filter (\<lambda>t. t_leased_by t \<noteq> None \<and> is_active t) (tbl_upd t_task_id (t_task_id t) ?f (tasks db))))"
  proof -
    have "filter (\<lambda>t. t_leased_by t \<noteq> None \<and> is_active t) (tbl_upd t_task_id (t_task_id t) ?f (tasks db)) =
        filter (\<lambda>t. t_leased_by t \<noteq> None \<and> is_active t) (tasks db)"
      by (rule filter_tbl_upd_other) (use uniq free in \<open>simp add: requeue_update_def, metis\<close>)
    then show ?thesis using wf by (simp add: tables_wf_def idx_worker_active_def)
  qed
  moreover have "distinct (map (\<lambda>t. (t_repository t, t_workspace_key t)) (filter is_active (tbl_upd t_task_id (t_task_id t) ?f (tasks db))))"
    using wf own t(1) by (intro distinct_upd) (auto simp: tables_wf_def idx_workspace_active_def requeue_update_def)
  moreover have "\<not> guard_fenced_claim u (?f u)" for u by (auto simp: guard_fenced_claim_def requeue_update_def)
  ultimately have "sql_update_task (t_task_id t) ?f db = Inr (put_task (t_task_id t) ?f db)"
    by (simp add: sql_update_task_def Let_def list_ex_iff idx_worker_active_def idx_workspace_active_def)
  moreover have "find_task (t_task_id t) (put_task (t_task_id t) ?f db) = Some (?f t)"
    using reachable_find [OF r t(1)] by (simp add: tasks_tbl.get_upd requeue_update_def)
  ultimately show ?thesis
    using reachable_find [OF r t(1)] t(2) res
    by (auto simp: requeue_blocked_def tx_then_get_def requeue_tx_def get_task_def)
qed

lemma unresolved_iff_open: "has_unresolved_effect db tid \<longleftrightarrow> open_effects db tid \<noteq> []"
  by (auto simp: has_unresolved_effect_def open_effects_def list_ex_iff filter_empty_conv)

text \<open>A blocked task is never stuck. For a fenced task that is blocked for reconciliation there is a
  finite sequence of calls of the reconciliation authority, each naming an open checkpoint of the
  task, after which the requeue of the task succeeds and puts it back in the queue, or in
  validation when its commit exists. (The workspace of the task must be its own: its key is a
  truncated hash.)\<close>

theorem blocked_task_can_be_released:
  assumes "reachable cfg db" and "t \<in> set (tasks db)" and "t_fencing_required t" and "t_state t = Blocked"
    and "t_blocked_reason t = Some effect_reason"
    and "\<forall>u\<in>set (tasks db). t_repository u = t_repository t \<and> t_workspace_key u = t_workspace_key t \<longrightarrow> u = t"
    and "sanitize (py_strip ref) \<noteq> []" and "py_strip cor \<noteq> []"
  shows "\<exists>cs db'. set cs \<subseteq> set (open_effects db (t_task_id t)) \<and>
    requeue_blocked now (t_task_id t) cor (run_calls cfg (map (\<lambda>c. (now, reconcile_call ref cor c)) cs) db) =
      (Inr (requeue_update now cor t), db')"
  using assms
proof (induction "length (open_effects db (t_task_id t))" arbitrary: db rule: less_induct)
  case less
  note prems = less.prems
  show ?case
  proof (cases "open_effects db (t_task_id t)")
    case Nil
    then show ?thesis
      using requeue_total [OF prems(1,2,4) _ prems(6), of now cor] by (intro exI [of _ "[]"]) (simp add: unresolved_iff_open)
  next
    case (Cons c cs0)
    then have c: "c \<in> set (open_effects db (t_task_id t))" by simp
    define d where "d = exec_call cfg now (reconcile_call ref cor c) db"
    obtain e where e: "d = db\<lparr>effect_reconciliations := effect_reconciliations db @ [e]\<rparr>"
      "e_task_id e = c_task_id c" "Some (e_effect_id e) = c_effect_id c" "e_lease_generation e = c_lease_generation c"
      using reconcile_open_effect [OF prems(1-5) c prems(7,8), of now] unfolding d_def by blast
    have "reachable cfg d"
      unfolding d_def by (rule reachable.stepped [OF prems(1) pool_step.call]) (simp add: reconcile_call_def)
    then obtain cs db' where cs: "set cs \<subseteq> set (open_effects d (t_task_id t))"
      "requeue_blocked now (t_task_id t) cor (run_calls cfg (map (\<lambda>c. (now, reconcile_call ref cor c)) cs) d) =
        (Inr (requeue_update now cor t), db')"
      using less.hyps [OF open_effects_shrink [OF e c]] prems e(1) by auto
    have "set (open_effects d (t_task_id t)) \<subseteq> set (open_effects db (t_task_id t))"
      by (auto simp: open_effects_def e(1) unresolved_checkpoint_def reconciled_def superseded_def)
    with cs c show ?thesis by (intro exI [of _ "c # cs"] exI [of _ db']) (auto simp: d_def)
  qed
qed

theorem blocked_task_can_be_released_witness:
  "\<exists>cs db'. set cs \<subseteq> set (open_effects demo_blocked demo_id) \<and>
    requeue_blocked 9 demo_id ''c'' (run_calls demo_cfg (map (\<lambda>c. (9, reconcile_call ''n'' ''c'' c)) cs) demo_blocked) =
      (Inr (requeue_update 9 ''c'' (hd (tasks demo_blocked))), db')"
  using blocked_task_can_be_released [OF demo_reachable(8), of "hd (tasks demo_blocked)" "''n''" "''c''" 9]
  by (simp add: demo_blocked_eq demo_effect_eq demo_running_eq demo_row_def demo_id_def new_task_def demo_task_def
      block_update_def checkpoint_update_def start_update_def claim_update_def demo_text)

section \<open>Checkpoints\<close>

lemma first_min_unique:
  assumes "r \<in> set rs" and "\<And>x. x \<in> set rs \<Longrightarrow> x \<noteq> r \<Longrightarrow> key r < key x"
  shows "first_min key rs = Some r"
proof (cases "first_min key rs")
  case None
  with assms(1) show ?thesis by auto
next
  case (Some m)
  from first_min_Some [OF Some] assms show ?thesis using Some by force
qed

lemma record_checkpoint_new:
  assumes "record_checkpoint now i db = (Inr (c, True), db')"
  obtains row where "checkpoint_row_of now i = Inr c" "lease_check now (checkpoint_proof i) ACTIVE db = Inr row"
    "t_fencing_required row" "c_sequence c = last_sequence (c_task_id c) (c_lease_generation c) db + 1"
    "db' = put_task (c_task_id c) (checkpoint_update now (c_correlation_id c))
       (db\<lparr>task_checkpoints := task_checkpoints db @ [c]\<rparr>)"
proof -
  from assms obtain c0 where c0: "checkpoint_row_of now i = Inr c0"
    and tx: "checkpoint_tx now (checkpoint_proof i) c0 db = Inr ((c, True), db')"
    by (auto simp: record_checkpoint_def outcome_simps split: sum.splits)
  from tx obtain row db1 where row: "lease_check now (checkpoint_proof i) ACTIVE db = Inr row" "t_fencing_required row"
    and "c0 = c" and seq: "c_sequence c = last_sequence (c_task_id c) (c_lease_generation c) db + 1"
    and ins: "sql_insert_checkpoint c db = Inr db1"
    and upd: "sql_update_task (c_task_id c) (checkpoint_update now (c_correlation_id c)) db1 = Inr db'"
    unfolding checkpoint_tx_def by (auto simp: outcome_simps split: if_splits option.splits)
  from sql_insert_checkpoint_Inr [OF ins] sql_update_task_Inr [OF upd]
  have "db' = put_task (c_task_id c) (checkpoint_update now (c_correlation_id c))
       (db\<lparr>task_checkpoints := task_checkpoints db @ [c]\<rparr>)" by blast
  with that c0 row \<open>c0 = c\<close> seq show thesis by blast
qed

text \<open>A recorded checkpoint is read back. After a checkpoint has been recorded on a reachable
  database, the latest checkpoint of the task is that one, and the task's row counts it as
  material progress.\<close>

theorem checkpoint_read_back:
  assumes "reachable cfg db" and "record_checkpoint now i db = (Inr (c, True), db')"
  shows "get_latest_checkpoint (i_task_id i) db' = Inr (Some (c, reconciliation_of db c)) \<and>
    (\<exists>t. find_task (i_task_id i) db' = Some t \<and> t_last_material_progress_at t = now)"
proof -
  obtain row where c: "checkpoint_row_of now i = Inr c" and lc: "lease_check now (checkpoint_proof i) ACTIVE db = Inr row"
    and seq: "c_sequence c = last_sequence (c_task_id c) (c_lease_generation c) db + 1"
    and db': "db' = put_task (c_task_id c) (checkpoint_update now (c_correlation_id c))
       (db\<lparr>task_checkpoints := task_checkpoints db @ [c]\<rparr>)"
    using record_checkpoint_new [OF assms(2)] .
  have ids: "c_task_id c = i_task_id i" "c_lease_generation c = i_lease_generation i"
    using checkpoint_row_of_ids [OF c] by simp_all
  note chk = lease_check_Inr [OF lc]
  have row: "find_task (i_task_id i) db = Some row" using chk(1) by (simp add: checkpoint_proof_def)
  have gen: "t_lease_generation row = c_lease_generation c" using chk(6) ids by (simp add: checkpoint_proof_def)
  have found: "find_task (i_task_id i) db' = Some (checkpoint_update now (c_correlation_id c) row)"
    using row ids by (simp add: db' find_task_def tbl_get_upd checkpoint_update_def)
  have inv: "checkpoint_inv (life_of db row)"
    using reachable_life [OF assms(1) tasks_tbl.get_mem [OF row]] by (simp add: life_inv_def)
  have less: "newest_first c < newest_first x"
    if "x \<in> set (task_checkpoints db)" "c_task_id x = i_task_id i" for x
  proof -
    have "c_lease_generation x \<le> c_lease_generation c"
      using inv that gen tasks_tbl.get_key [OF row] by (auto simp: checkpoint_inv_def)
    moreover have "c_sequence x < c_sequence c" if "c_lease_generation x = c_lease_generation c"
      using last_sequence_bound [of x db "c_task_id c" "c_lease_generation c"] that seq ids
        \<open>x \<in> set (task_checkpoints db)\<close> \<open>c_task_id x = i_task_id i\<close> by simp
    ultimately show ?thesis
      by (cases "c_lease_generation x = c_lease_generation c") (simp_all add: newest_first_def less_prod_def)
  qed
  have "first_min newest_first (filter (\<lambda>x. c_task_id x = i_task_id i) (task_checkpoints db')) = Some c"
    by (rule first_min_unique) (use ids less in \<open>auto simp: db'\<close>)
  moreover have "reconciliation_of db' c = reconciliation_of db c" by (simp add: reconciliation_of_def db')
  ultimately show ?thesis using found
    by (simp add: get_latest_checkpoint_def checkpoint_update_def)
qed

theorem checkpoint_read_back_witness:
  "get_latest_checkpoint demo_id demo_effect = Inr (Some (demo_checkpoint_row, None))"
proof -
  have "record_checkpoint 3 demo_checkpoint demo_running = (Inr (demo_checkpoint_row, True), demo_effect)"
    by (simp add: demo_eqs demo_exec Let_def)
  from checkpoint_read_back [OF demo_reachable(3) this] show ?thesis
    by (simp add: demo_checkpoint_def reconciliation_of_def demo_running_eq demo_leased_eq demo_queued_eq)
qed

section \<open>Admission\<close>

text \<open>Submissions are idempotent. When a task with the identity of a valid submission exists, the
  submission creates nothing: it returns that task as it is now, or it is refused because it
  asks for another branch or another fencing mode; the task table stays as it was.\<close>

theorem enqueue_replay:
  assumes "reachable cfg db" and "t \<in> set (tasks db)"
    and "t_idempotency_key t = identity (n_repository n) (n_issue_number n) (n_request_id n)"
    and "enqueue_task cfg now n db = (res, db')"
  shows "tasks db' = tasks db \<and>
    (\<forall>r b. res = Inr (r, b) \<longrightarrow> r = t \<and> \<not> b \<and> t_fencing_required t = n_fencing_required n)"
proof -
  let ?d = "ensure_repository_lane (py_strip (n_repository n)) now db"
  have "distinct (map t_idempotency_key (tasks db))" using reachable_wf [OF assms(1)] by (simp add: tables_wf_def)
  then have "tbl_get t_idempotency_key (t_idempotency_key t) (tasks db) = Some t"
    using assms(2) tbl_get_iff by metis
  then have found: "find (\<lambda>x. t_idempotency_key x = identity (n_repository n) (n_issue_number n) (n_request_id n)) (tasks ?d) = Some t"
    using assms(3) by (simp add: tbl_get_def)
  then show ?thesis
    using assms(4) unfolding enqueue_task_def enqueue_tx_def
    by (auto simp: run_tx_def Let_def split: if_splits sum.splits)
qed

theorem enqueue_replay_witness:
  "tasks (snd (enqueue_task demo_cfg 8 demo_task demo_completed)) = tasks demo_completed"
  using enqueue_replay [OF demo_reachable(6), of "hd (tasks demo_completed)" demo_task 8
      "fst (enqueue_task demo_cfg 8 demo_task demo_completed)" "snd (enqueue_task demo_cfg 8 demo_task demo_completed)"]
  by (simp add: demo_completed_eq demo_reviewed_eq demo_validating_eq complete_update_def claim_update_def
      submit_update_def start_update_def demo_row_def new_task_def demo_task_def)

text \<open>A submission that is accepted and new is in the queue. It appears at the end of the task table
  as a queued task without lease, commit, attempts or effects, under the id derived from its
  identity, and nothing else in the task table changes; a fenced task is admitted only after
  the cut-over.\<close>

theorem enqueue_creates:
  assumes "enqueue_task cfg now n db = (Inr (r, True), db')"
  shows "tasks db' = tasks db @ [r] \<and> t_state r = Queued \<and> t_leased_by r = None \<and> t_produced_sha r = None \<and>
    t_lease_generation r = 0 \<and> t_attempt_count r = 0 \<and> 1 \<le> t_max_attempts r \<and>
    t_task_id r = task_id (identity (n_repository n) (n_issue_number n) (n_request_id n)) \<and>
    t_task_id r \<notin> t_task_id ` set (tasks db) \<and> find_lane (t_repository r) db' \<noteq> None \<and>
    (n_fencing_required n \<longrightarrow> (\<exists>k. pool_control db = Some k \<and> k_enabled k))"
proof -
  let ?d = "ensure_repository_lane (py_strip (n_repository n)) now db"
  from assms obtain b att where br: "enqueue_branch n = Inr b" and att: "att = int_or (n_max_attempts n) (default_max_attempts cfg)" "1 \<le> att"
    and tx: "enqueue_tx now n (identity (n_repository n) (n_issue_number n) (n_request_id n)) b att db = Inr ((r, True), db')"
    by (auto simp: enqueue_task_def Let_def outcome_simps split: if_splits sum.splits)
  let ?r = "new_task now n (identity (n_repository n) (n_issue_number n) (n_request_id n)) b att"
  from tx have r: "r = ?r" and ins: "sql_insert_task ?r ?d = Inr db'"
    and ctl: "n_fencing_required n \<longrightarrow> (\<exists>k. pool_control db = Some k \<and> k_enabled k)"
    unfolding enqueue_tx_def by (auto simp: outcome_simps Let_def split: if_splits option.splits)
  note i = sql_insert_task_Inr [OF ins]
  have "find_lane (py_strip (n_repository n)) db' = find_lane (py_strip (n_repository n)) ?d"
    using i by (simp add: find_lane_def)
  then have "find_lane (t_repository r) db' \<noteq> None" by (simp add: r new_task_def find_lane_ensure)
  with i att ctl show ?thesis by (simp add: r) (simp add: new_task_def)
qed

theorem enqueue_creates_witness:
  "\<exists>db0 r db'. enqueue_task demo_cfg 0 demo_task db0 = (Inr (r, True), db') \<and> tasks db' = tasks db0 @ [r]"
proof -
  let ?db = "demo_queued\<lparr>tasks := []\<rparr>"
  have "\<exists>r db'. enqueue_task demo_cfg 0 demo_task ?db = (Inr (r, True), db')"
    by (simp add: demo_eqs demo_exec Let_def)
  then obtain r db' where e: "enqueue_task demo_cfg 0 demo_task ?db = (Inr (r, True), db')" by blast
  with enqueue_creates [OF e] show ?thesis by blast
qed

end
