(* ===== verification/Pool_Edges.thy ===== *)
theory Pool_Edges
  imports Effect_Properties Recovery_Properties Claim_Properties
begin

text \<open>
  Where the store's behaviour is finer than its documentation: the precision of lease recovery,
  what a failed task means, registration under a padded id, and requeue against the lane limit.
\<close>

definition demo_rejected :: pool_db where
  "demo_rejected = exec_call demo_cfg 5 (BlockTask (demo_proof ''v'' ''k2'' 2 ''a2'') ''c'' ''n'') demo_reviewed"

definition demo_cfg1 :: pool_config where
  "demo_cfg1 = demo_cfg\<lparr>default_max_attempts := 1\<rparr>"

definition demo_failed :: pool_db where
  "demo_failed = run_calls demo_cfg1
     [(0, EnableCutover ''c'' True True), (0, RegisterWorker (demo_worker ''b'' ''builder'')), (0, EnqueueTask demo_task),
      (1, ClaimTask demo_builder_claim), (2, FailTask (demo_proof ''b'' ''k1'' 1 ''a1'') ''c'' ''n'')] demo_created"

text \<open>A failed task has used up its attempts.\<close>

definition exhausted :: "life \<Rightarrow> bool" where
  "exhausted l \<longleftrightarrow> (lf_state l = Failed \<longrightarrow> lf_max l \<le> lf_count l)"

interpretation exhaustion: life_property exhausted
proof unfold_locales
  fix l l' :: life
  show "life_init l \<Longrightarrow> exhausted l" by (simp add: life_init_def exhausted_def)
  assume "life_step l l'" "life_inv l" "exhausted l"
  then show "exhausted l'"
    by (induction rule: life_step.induct) (auto simp: exhausted_def back_to_queue_def)
qed

text \<open>Failure means exhaustion. A task is failed only when its attempts have reached its limit.\<close>

theorem failed_means_exhausted:
  assumes "reachable cfg db" and "t \<in> set (tasks db)" and "t_state t = Failed"
  shows "t_max_attempts t \<le> t_attempt_count t"
  using exhaustion.always [OF assms(1,2)] assms(3) by (simp add: exhausted_def)

theorem failed_means_exhausted_witness:
  "t_state (hd (tasks demo_failed)) = Failed \<and> t_max_attempts (hd (tasks demo_failed)) \<le> t_attempt_count (hd (tasks demo_failed))"
proof -
  have r: "reachable demo_cfg1 demo_failed"
    unfolding demo_failed_def demo_created_def
    by (rule reachable_run_calls) (simp_all add: reachable.created demo_builder_claim_def demo_claim_def)
  have t: "hd (tasks demo_failed) \<in> set (tasks demo_failed) \<and> t_state (hd (tasks demo_failed)) = Failed"
    by (simp add: demo_failed_def demo_cfg1_def demo_created_def demo_register demo_worker_row_def demo_id_def fail_task_def
        fail_tx_def fail_update_def do_quarantine_def demo_exec Let_def)
  with failed_means_exhausted [OF r] show ?thesis by blast
qed

text \<open>Recovery is right to the second. A task that recovery takes back has a lease that expires less
  than one second after the instant of recovery, and a lease that expired one second ago or
  more is always taken back: the comparison is made on the ISO text of the instants.\<close>

theorem recovery_precision:
  assumes "t \<in> set (tasks db)" and "is_active t" and "t_lease_expires_at t = Some e"
  shows "(t \<in> set (expired_rows now db) \<longrightarrow> e < now + usec) \<and> (e + usec \<le> now \<longrightarrow> t \<in> set (expired_rows now db))"
  using assms text_le_within_second [of e now] text_le_if_second_earlier [of e now] by (auto simp: expired_rows_mem)

theorem recovery_precision_witness:
  "99000000 - 60000001 \<ge> usec \<and> hd (tasks demo_running) \<in> set (expired_rows 99000000 demo_running)"
  using recovery_precision [of "hd (tasks demo_running)" demo_running 60000001 99000000]
  by (simp add: demo_eqs demo_exec)

text \<open>C40: When recovery takes a live lease. On a reachable database let a lease pass the lease check at some instant. Recovery at that same
  instant takes it away exactly when the instant is on a whole second and the lease ends within that second; the lease is then refused from there on,
  as its holder is no longer the one in the row. In all other cases recovery leaves the task as it is.\<close>

theorem recovery_takes_live_lease:
  assumes "reachable cfg db" and "lease_check now p ACTIVE db = Inr t" and "t_lease_expires_at t = Some e"
  shows "if now mod usec = 0 \<and> e < now + usec
    then (\<exists>t'. find_task (t_task_id t) (snd (recover_expired_leases now db)) = Some t' \<and> t_leased_by t' = None \<and> t_lease_token t' = None) \<and>
      (\<exists>msg. lease_check later p ACTIVE (snd (recover_expired_leases now db)) = Inl (ConflictError msg))
    else find_task (t_task_id t) (snd (recover_expired_leases now db)) = Some t"
proof -
  have t: "find_task (p_task_id p) db = Some t" "is_active t" "now < e"
    using assms(2,3) by (auto simp: lease_check_def is_active_def split: option.splits if_splits)
  have id: "t_task_id t = p_task_id p" using t(1) tasks_tbl.get_key by auto
  have mem: "t \<in> set (tasks db)" using t(1) tasks_tbl.get_mem by blast
  have over: "overdue now e \<longleftrightarrow> now mod usec = 0 \<and> e < now + usec"
    using t(3) usec_split [of e] usec_split [of now] by (auto simp: overdue_def usec_def)
  have exp: "t \<in> set (expired_rows now db) \<longleftrightarrow> now mod usec = 0 \<and> e < now + usec"
    using mem t(2) assms(3) by (simp add: expired_rows_mem overdue_iff over)
  from reachable_pool_ok [OF assms(1)] obtain d where d: "recover now db = Inr (length (expired_rows now db), d)"
    "t \<in> set (expired_rows now db) \<Longrightarrow> find_task (t_task_id t) d = Some (recovery_outcome now db t)"
    "t_task_id t \<notin> t_task_id ` set (expired_rows now db) \<Longrightarrow> find_task (t_task_id t) d = find_task (t_task_id t) db"
    by (rule recover_total) blast
  have d': "snd (recover_expired_leases now db) = d" using d(1) by (simp add: recover_expired_leases_def run_tx_def)
  have gone: "t_leased_by (recovery_outcome now db t) = None" "t_lease_token (recovery_outcome now db t) = None"
    by (simp_all add: recovery_outcome_def release_lease_def)
  show ?thesis
  proof (cases "t \<in> set (expired_rows now db)")
    case True
    have found: "find_task (p_task_id p) d = Some (recovery_outcome now db t)" using d(2) [OF True] id by simp
    then have "\<exists>msg. lease_check later p ACTIVE d = Inl (ConflictError msg)" using gone by (simp add: lease_check_def)
    with found gone True show ?thesis by (simp add: exp d' id)
  next
    case False
    have "x = t" if "x \<in> set (tasks db)" "t_task_id x = t_task_id t" for x
      using that mem reachable_wf [OF assms(1)] by (auto simp: tables_wf_def distinct_map inj_on_def)
    then have "t_task_id t \<notin> t_task_id ` set (expired_rows now db)" using False by (auto simp: expired_rows_mem)
    then have "find_task (t_task_id t) d = Some t" using d(3) t(1) id by simp
    moreover have "\<not> (now mod usec = 0 \<and> e < now + usec)" using False exp by simp
    ultimately show ?thesis by (auto simp: d')
  qed
qed

theorem recovery_takes_live_lease_witness:
  "(\<exists>t. lease_check 60000000 (demo_proof ''b'' ''k1'' 1 ''a1'') ACTIVE demo_leased = Inr t \<and> t_lease_expires_at t = Some 60000001) \<and>
   (\<exists>t'. find_task demo_id (snd (recover_expired_leases 60000000 demo_leased)) = Some t' \<and> t_leased_by t' = None) \<and>
   find_task demo_id (snd (recover_expired_leases 59000000 demo_leased)) = find_task demo_id demo_leased"
proof -
  let ?p = "demo_proof ''b'' ''k1'' 1 ''a1''" and ?t = "hd (tasks demo_leased)"
  have c: "lease_check 60000000 ?p ACTIVE demo_leased = Inr ?t" "lease_check 59000000 ?p ACTIVE demo_leased = Inr ?t"
    and e: "t_lease_expires_at ?t = Some 60000001" and id: "t_task_id ?t = demo_id" and f: "find_task demo_id demo_leased = Some ?t"
    by (simp_all add: demo_eqs demo_exec)
  show ?thesis
    using recovery_takes_live_lease [OF demo_reachable(2) c(1) e, of 0] recovery_takes_live_lease [OF demo_reachable(2) c(2) e, of 0] c(1) e
    by (auto simp: id f usec_def)
qed

section \<open>Registration\<close>

lemma find_upsert: "find_worker (w_worker_id w) (upsert_worker w db) \<noteq> None"
  by (cases "find_worker (w_worker_id w) db")
    (simp_all add: upsert_worker_def find_worker_def tbl_get_append tbl_get_upd)

lemma find_upsert_other: "k \<noteq> w_worker_id w \<Longrightarrow> find_worker k (upsert_worker w db) = find_worker k db"
  by (cases "find_worker (w_worker_id w) db")
    (auto simp: upsert_worker_def find_worker_def tbl_get_append tbl_get_upd split: option.splits)

lemma register_accepted:
  assumes "py_strip (g_worker_id g) \<noteq> []" "py_strip (g_host g) \<noteq> []" "py_strip (g_correlation_id g) \<noteq> []"
    and "parse_role (py_lower (g_role g)) = Some role" "parse_profile (py_upper (g_profile g)) = Some profile"
    and "opt_text (g_rules_sha g) = []"
  obtains w where "w_worker_id w = py_strip (g_worker_id g)" "w_role w = role" "w_last_heartbeat_at w = now"
    "register_worker now g db = (get_worker (g_worker_id g) (upsert_worker w db), upsert_worker w db)"
proof -
  have "py_strip [] = []" "py_lower [] = []" by (simp_all add: py_strip_def py_lower_def)
  then show thesis
    using assms that [of "\<lparr>w_worker_id = py_strip (g_worker_id g), w_host = py_strip (g_host g), w_role = role,
                    w_profile = profile, w_capacity_score = g_capacity_score g,
                    w_controller_version = g_controller_version g, w_rules_sha = None,
                    w_gateway_ok = g_gateway_ok g, w_state_validated = g_state_validated g,
                    w_worktree_root = g_worktree_root g, w_registered_at = now,
                    w_last_heartbeat_at = now, w_cpu_percent = None, w_memory_percent = None,
                    w_correlation_id = py_strip (g_correlation_id g)\<rparr>"]
    by (simp add: register_worker_def Let_def text_or_none_def)
qed

text \<open>Registration under a padded id reports failure after it has succeeded. A valid registration
  whose id has surrounding blanks, and is not itself the id of a worker, raises a not-found
  error although the worker is now registered under the stripped id.\<close>

theorem padded_registration_raises:
  assumes "py_strip (g_worker_id g) \<noteq> []" "py_strip (g_host g) \<noteq> []" "py_strip (g_correlation_id g) \<noteq> []"
    and "parse_role (py_lower (g_role g)) = Some role" "parse_profile (py_upper (g_profile g)) = Some profile"
    and "opt_text (g_rules_sha g) = []"
    and "py_strip (g_worker_id g) \<noteq> g_worker_id g" and "find_worker (g_worker_id g) db = None"
  shows "\<exists>db'. register_worker now g db = (Inl (NotFoundError ''registro nao encontrado''), db') \<and>
    find_worker (py_strip (g_worker_id g)) db' \<noteq> None"
proof -
  obtain w where w: "w_worker_id w = py_strip (g_worker_id g)"
    "register_worker now g db = (get_worker (g_worker_id g) (upsert_worker w db), upsert_worker w db)"
    using register_accepted [OF assms(1-6)] by metis
  have "find_worker (g_worker_id g) (upsert_worker w db) = None"
    using find_upsert_other [of "g_worker_id g" w db] assms(7,8) w(1) by metis
  then show ?thesis using w find_upsert [of w db] by (simp add: get_worker_def)
qed

theorem padded_registration_raises_witness:
  "\<exists>db'. register_worker 0 ((demo_worker ''b'' ''builder'')\<lparr>g_worker_id := '' b''\<rparr>) empty_db =
     (Inl (NotFoundError ''registro nao encontrado''), db') \<and> find_worker ''b'' db' \<noteq> None"
proof -
  have s: "py_strip '' b'' = ''b''" by code_simp
  show ?thesis
    using padded_registration_raises [of "(demo_worker ''b'' ''builder'')\<lparr>g_worker_id := '' b''\<rparr>" Builder NORMAL empty_db 0]
    by (simp add: s demo_worker_def demo_text opt_text_def find_worker_def empty_db_def)
qed

section \<open>Requeue and the lane limit\<close>

text \<open>Requeue does not ask the lane. A blocked task that already has its commit goes back to
  validation, which counts as active, and the number of active tasks of its repository grows
  by one whatever the limit of the lane is.\<close>

theorem requeue_ignores_capacity:
  assumes "reachable cfg db" and "t \<in> set (tasks db)" and "t_state t = Blocked" and "t_produced_sha t \<noteq> None"
    and "\<not> (t_fencing_required t \<and> has_unresolved_effect db (t_task_id t))"
    and "\<forall>u\<in>set (tasks db). t_repository u = t_repository t \<and> t_workspace_key u = t_workspace_key t \<longrightarrow> u = t"
  shows "\<exists>r db'. requeue_blocked now (t_task_id t) cor db = (Inr r, db') \<and> t_state r = Validating \<and>
    active_count (t_repository t) db' = active_count (t_repository t) db + 1"
proof -
  let ?f = "requeue_update now cor"
  obtain db' where db': "requeue_blocked now (t_task_id t) cor db = (Inr (?f t), db')"
    using requeue_total [OF assms(1,2,3,5,6)] by blast
  have "opt_text (t_produced_sha t) \<noteq> []"
    using reachable_life [OF assms(1,2)] assms(4) by (auto simp: life_inv_def duty_inv_def opt_text_def split: option.splits)
  then have v: "t_state (?f t) = Validating" by (simp add: requeue_update_def requeue_state_def)
  have "tasks db' = tbl_upd t_task_id (t_task_id t) ?f (tasks db)"
    using db' by (auto simp: requeue_blocked_def tx_then_get_def requeue_tx_def dest!: sql_update_task_Inr
        split: sum.splits option.splits if_splits)
  moreover have "length (filter (\<lambda>u. t_repository u = t_repository t \<and> is_active u) (tbl_upd t_task_id (t_task_id t) ?f (tasks db))) =
      Suc (length (filter (\<lambda>u. t_repository u = t_repository t \<and> is_active u) (tasks db)))"
    using reachable_wf [OF assms(1)] assms(2,3) v
    by (intro count_upd_one) (auto simp: tables_wf_def is_active_def ACTIVE_def requeue_update_def)
  ultimately show ?thesis using db' v by (auto simp: active_count_def)
qed

theorem requeue_ignores_capacity_witness:
  "\<exists>r db'. requeue_blocked 6 demo_id ''c'' demo_rejected = (Inr r, db') \<and> t_state r = Validating \<and>
     active_count ''o/r'' db' = active_count ''o/r'' demo_rejected + 1"
proof -
  have r: "reachable demo_cfg demo_rejected"
    unfolding demo_rejected_def by (rule reachable.stepped [OF demo_reachable(5) pool_step.call]) simp
  have "tasks demo_rejected = [block_update 5 ''n'' ''c'' (hd (tasks demo_reviewed))] \<and> task_checkpoints demo_rejected = []"
    by (simp add: demo_rejected_def demo_eqs demo_exec Let_def)
  then show ?thesis
    using requeue_ignores_capacity [OF r, of "hd (tasks demo_rejected)" 6 "''c''"]
    by (simp add: demo_eqs demo_exec)
qed

end
