(* ===== verification/Pool_Sql.thy ===== *)
theory Pool_Sql
  imports Py_Text Pool_Prelude
begin

text \<open>
  The statement adapter of \<^verbatim>\<open>app/postgres_authority.py\<close>: \<^verbatim>\<open>compile_pool_sql\<close> turns the question-mark
  SQL of the store into the driver's format. The scanner works on the rest of the statement and
  the character before it; quoted text, comments and dollar strings are copied.
\<close>

section \<open>Scanning\<close>

text \<open>An \<open>AuthorityUnavailable\<close> is its code.\<close>

type_synonym 'a pg_result = "string + 'a"

definition need :: "bool \<Rightarrow> string \<Rightarrow> unit pg_result" where
  "need condition c = (if condition then Inr () else Inl c)"

text \<open>The rest of a quoted text, after the opening quote; a doubled quote stands for one.\<close>

fun quoted :: "char \<Rightarrow> string \<Rightarrow> (string \<times> string) option" where
  "quoted q [] = None"
| "quoted q [c] = (if c = q then Some ([c], []) else None)"
| "quoted q (c # d # s) =
     (if c = q
      then if d = q then map_option (\<lambda>(f, r). (c # d # f, r)) (quoted q s) else Some ([c], d # s)
      else map_option (\<lambda>(f, r). (c # f, r)) (quoted q (d # s)))"

text \<open>The text up to the end of the first occurrence, and the rest.\<close>

fun find_sub :: "string \<Rightarrow> string \<Rightarrow> (string \<times> string) option" where
  "find_sub p [] = (if p = [] then Some ([], []) else None)"
| "find_sub p (c # s) =
     (if starts_with p (c # s) then Some (p, drop (length p) (c # s))
      else map_option (\<lambda>(f, r). (c # f, r)) (find_sub p s))"

definition dollar_tag :: "string \<Rightarrow> string option" where
  "dollar_tag s =
     (let name = takeWhile is_word (tl s); rest = dropWhile is_word (tl s) in
      if starts_with ''$'' s \<and> starts_with ''$'' rest \<and> (name = [] \<or> \<not> is_digit (hd name))
      then Some (''$'' @ name @ ''$'') else None)"

definition invalid :: string where
  "invalid = ''authority_statement_invalid''"

definition fragment :: "string \<Rightarrow> (string \<times> string) option pg_result" where
  "fragment s =
     (if starts_with [CHR 39] s \<or> starts_with [CHR 34] s
      then (case quoted (hd s) (tl s) of None \<Rightarrow> Inl invalid | Some (f, r) \<Rightarrow> Inr (Some (hd s # f, r)))
      else if starts_with ''--'' s
      then Inr (Some (case find_sub [CHR 10] s of None \<Rightarrow> (s, []) | Some fr \<Rightarrow> fr))
      else if starts_with ''/*'' s
      then (case find_sub ''*/'' (drop 2 s) of None \<Rightarrow> Inl invalid | Some (f, r) \<Rightarrow> Inr (Some (''/*'' @ f, r)))
      else case dollar_tag s of
        None \<Rightarrow> Inr None
      | Some tag \<Rightarrow> (case find_sub tag (drop (length tag) s) of
            None \<Rightarrow> Inl invalid | Some (f, r) \<Rightarrow> Inr (Some (tag @ f, r))))"

lemma starts_with_append: "starts_with p s \<Longrightarrow> p @ drop (length p) s = s"
  by (metis append_take_drop_id starts_with_def)

lemma quoted_split: "quoted q s = Some (f, r) \<Longrightarrow> f @ r = s"
  by (induction q s arbitrary: f rule: quoted.induct) (auto split: if_splits)

lemma find_sub_split: "find_sub p s = Some (f, r) \<Longrightarrow> f @ r = s"
  by (induction p s arbitrary: f rule: find_sub.induct)
    (auto split: if_splits simp del: drop.simps dest: starts_with_append)

lemma dollar_tag_split:
  assumes "dollar_tag s = Some tag"
  shows "tag @ drop (length tag) s = s" "tag \<noteq> []"
proof -
  obtain t where s: "s = CHR ''$'' # t" and r: "starts_with ''$'' (dropWhile is_word t)"
    and tag: "tag = ''$'' @ takeWhile is_word t @ ''$''"
    using assms by (cases s) (auto simp: dollar_tag_def starts_with_def Let_def split: if_splits)
  have "takeWhile is_word t @ ''$'' @ drop 1 (dropWhile is_word t) = t"
    using starts_with_append [OF r] by simp
  then have t: "t = takeWhile is_word t @ CHR ''$'' # tl (dropWhile is_word t)" by (simp add: drop_Suc)
  have "starts_with tag s" unfolding tag s starts_with_def by (subst (2) t) simp
  then show "tag @ drop (length tag) s = s" by (rule starts_with_append)
  show "tag \<noteq> []" using tag by simp
qed

lemma fragment_split:
  assumes "fragment s = Inr (Some (f, r))"
  shows "f @ r = s \<and> f \<noteq> []"
proof (cases "starts_with [CHR 39] s \<or> starts_with [CHR 34] s")
  case True
  then have "s \<noteq> []" by (auto simp: starts_with_def)
  then show ?thesis using True assms by (auto simp: fragment_def dest!: quoted_split split: option.splits)
next
  case False
  consider "starts_with ''--'' s" | "\<not> starts_with ''--'' s" "starts_with ''/*'' s"
    | "\<not> starts_with ''--'' s" "\<not> starts_with ''/*'' s" by blast
  then show ?thesis
  proof cases
    case 1
    then have "s \<noteq> []" by (auto simp: starts_with_def)
    with 1 False assms show ?thesis
      by (cases s) (auto simp: fragment_def starts_with_def dest!: find_sub_split split: option.splits if_splits)
  next
    case 2
    with False assms starts_with_append [of "''/*''" s] show ?thesis
      by (auto simp: fragment_def numeral_2_eq_2 dest!: find_sub_split split: option.splits)
  next
    case 3
    with False assms show ?thesis
      using dollar_tag_split [of s]
      by (auto simp: fragment_def dest!: find_sub_split split: option.splits)
  qed
qed

lemma fragment_shorter: "fragment s = Inr (Some (f, r)) \<Longrightarrow> length r < length s"
  using fragment_split by fastforce

section \<open>Compilation\<close>

definition escape_percent :: "nat \<Rightarrow> string \<Rightarrow> string" where
  "escape_percent n f = (if n = 0 then f else concat (map (\<lambda>c. if c = CHR ''%'' then ''%%'' else [c]) f))"

definition word_at :: "char option \<Rightarrow> bool" where
  "word_at c \<longleftrightarrow> (case c of None \<Rightarrow> False | Some d \<Rightarrow> is_word d)"

definition head_of :: "string \<Rightarrow> char option" where
  "head_of s = (case s of [] \<Rightarrow> None | c # _ \<Rightarrow> Some c)"

definition rowid_at :: "char option \<Rightarrow> string \<Rightarrow> bool" where
  "rowid_at prev s \<longleftrightarrow>
     starts_with ''t.rowid'' s \<and> \<not> word_at prev \<and> \<not> word_at (head_of (drop 7 s))"

function compile_loop :: "nat \<Rightarrow> char option \<Rightarrow> nat \<Rightarrow> string \<Rightarrow> string pg_result" where
  "compile_loop n prev count s =
     (if s = [] then (if count = n then Inr [] else Inl ''authority_parameter_count_invalid'')
      else case fragment s of
        Inl e \<Rightarrow> Inl e
      | Inr (Some (f, r)) \<Rightarrow> bindE (compile_loop n (Some (last f)) count r) (\<lambda>x. Inr (escape_percent n f @ x))
      | Inr None \<Rightarrow>
          if rowid_at prev s
          then bindE (compile_loop n (Some (CHR ''d'')) count (drop 7 s)) (\<lambda>x. Inr (''t.__pool_fifo'' @ x))
          else if hd s = CHR ''?''
          then bindE (compile_loop n (Some (hd s)) (Suc count) (tl s)) (\<lambda>x. Inr (''%s'' @ x))
          else if hd s = CHR ''%''
          then bindE (compile_loop n (Some (hd s)) count (tl s)) (\<lambda>x. Inr (escape_percent n ''%'' @ x))
          else if hd s = CHR '';'' \<and> py_strip (tl s) \<noteq> []
          then Inl ''authority_multiple_statements_rejected''
          else bindE (compile_loop n (Some (hd s)) count (tl s)) (\<lambda>x. Inr (hd s # x)))"
  by pat_completeness auto
termination
  by (relation "measure (\<lambda>(n, prev, count, s). length s)") (auto dest: fragment_shorter simp: rowid_at_def)

declare compile_loop.simps [simp del]

text \<open>The leading white space and the text after \<^verbatim>\<open>IGNORE\<close> of a statement that starts with
  \<^verbatim>\<open>INSERT OR IGNORE INTO\<close>, in any case.\<close>

definition after_gap :: "string \<Rightarrow> string \<Rightarrow> string option" where
  "after_gap w s =
     (if takeWhile py_isspace s = [] then None else map_option snd (match_ci w (dropWhile py_isspace s)))"

definition insert_or_ignore :: "string \<Rightarrow> (string \<times> string) option" where
  "insert_or_ignore s =
     Option.bind (match_ci ''insert'' (dropWhile py_isspace s)) (\<lambda>(_, s1).
     Option.bind (after_gap ''or'' s1) (\<lambda>s2.
     Option.bind (after_gap ''ignore'' s2) (\<lambda>s3.
     Option.bind (after_gap ''into'' s3) (\<lambda>s4.
     if word_at (head_of s4) then None else Some (takeWhile py_isspace s, s3)))))"

definition py_rstrip :: "string \<Rightarrow> string" where
  "py_rstrip s = rev (dropWhile py_isspace (rev s))"

definition removesuffix :: "string \<Rightarrow> string \<Rightarrow> string" where
  "removesuffix p s = (if ends_with p s then take (length s - length p) s else s)"

definition rewrite_ignore :: "string \<Rightarrow> string" where
  "rewrite_ignore s =
     (case insert_or_ignore s of
        None \<Rightarrow> s
      | Some (ws, r) \<Rightarrow> removesuffix '';'' (py_rstrip (ws @ ''INSERT'' @ r)) @ '' ON CONFLICT DO NOTHING'')"

definition compile_pool_sql :: "string \<Rightarrow> nat \<Rightarrow> string pg_result" where
  "compile_pool_sql statement parameter_count =
     (if py_strip statement = [] then Inl invalid
      else compile_loop parameter_count None 0 (rewrite_ignore statement))"

end
