(* ===== verification/Pg_Authority.thy ===== *)
theory Pg_Authority
  imports Pool_Sql
begin

text \<open>
  The rest of \<^verbatim>\<open>app/postgres_authority.py\<close>: how a lost connection is classified, the rules for the
  credentials file and the connection parameters, the connection wrapper with its transaction
  state, the check and the creation of the schema. The database driver is third-party code: what
  a driver call returns is an argument of the operation that makes it.
\<close>

section \<open>Classification of connection failures\<close>

definition says :: "string list \<Rightarrow> string \<Rightarrow> bool" where
  "says markers message \<longleftrightarrow> list_ex (\<lambda>p. has_infix p message) markers"

definition connection_failure_kind :: "string \<Rightarrow> string option \<Rightarrow> string" where
  "connection_failure_kind text sqlstate =
     (let message = py_lower text in
      if says [''unsupported startup parameter'', ''invalid startup parameter'', ''invalid connection option'',
               ''unrecognized configuration parameter'', ''unrecognized connection option''] message
      then ''unsupported_startup''
      else if says [''channel binding'', ''channel_binding''] message then ''channel_binding''
      else if (\<exists>st\<in>set_option sqlstate. starts_with ''28'' st) \<or>
              says [''password authentication failed'', ''authentication failed'', ''no password supplied'',
                    ''no pg_hba.conf entry'', ''fe_sendauth''] message
      then ''authentication''
      else if says [''could not translate host name'', ''failed to resolve host'', ''name or service not known'',
                    ''temporary failure in name resolution'', ''nodename nor servname provided'', ''getaddrinfo''] message
      then ''dns''
      else if says [''timeout expired'', ''connection timeout'', ''connection timed out'', ''operation timed out'',
                    ''connect timeout''] message
      then ''timeout''
      else if says [''certificate'', ''sslrootcert''] message then ''tls_certificate''
      else if says [''ssl error'', ''tls error'', ''ssl connection'', ''sslmode'', ''server does not support ssl'',
                    ''could not establish ssl''] message
      then ''tls''
      else ''unknown'')"

section \<open>The credentials file\<close>

record file_stat =
  fs_dev :: int
  fs_ino :: int
  fs_size :: int
  fs_mtime_ns :: int
  fs_ctime_ns :: int
  fs_uid :: int
  fs_mode :: int
  fs_nlink :: int

text \<open>What the system calls return: the four \<^verbatim>\<open>stat\<close> results (\<open>None\<close> when one of the calls fails), the
  number of bytes read and their text (\<open>None\<close> when it is not UTF-8).\<close>

record file_read =
  fr_posix :: bool
  fr_absolute :: bool
  fr_uid :: int
  fr_stats :: "(file_stat \<times> file_stat \<times> file_stat \<times> file_stat) option"
  fr_bytes :: nat
  fr_text :: "string option"

definition regular_mode :: "int \<Rightarrow> bool" where
  "regular_mode m \<longleftrightarrow> (m div 4096) mod 16 = 8"

definition read_private_connection_file :: "file_read \<Rightarrow> string pg_result" where
  "read_private_connection_file q =
     bindE (need (fr_posix q) ''authority_credentials_acl_unverified'') (\<lambda>_.
     bindE (need (fr_absolute q) ''authority_credentials_file_invalid'') (\<lambda>_.
     case fr_stats q of
       None \<Rightarrow> Inl ''authority_credentials_file_invalid''
     | Some (before, opened, after, final) \<Rightarrow>
         bindE (need (regular_mode (fs_mode before) \<and> fs_nlink before = 1 \<and> fs_uid before = fr_uid q \<and>
                  fs_mode before mod 64 = 0) ''authority_credentials_file_invalid'') (\<lambda>_.
         bindE (need (before = opened \<and> opened = after \<and> after = final \<and> 0 < fr_bytes q \<and> fr_bytes q \<le> 8192)
                  ''authority_credentials_file_changed'') (\<lambda>_.
         case fr_text q of
           None \<Rightarrow> Inl ''authority_credentials_file_invalid''
         | Some t \<Rightarrow>
             (let value = py_strip t in
              bindE (need (value \<noteq> [] \<and> CHR 0x00 \<notin> set value \<and> CHR 10 \<notin> set value \<and> CHR 13 \<notin> set value)
                      ''authority_credentials_file_invalid'') (\<lambda>_. Inr value))))))"

section \<open>Rows\<close>

definition cursor_row :: "(string \<times> 'v) list option \<Rightarrow> (string \<times> 'v) list option" where
  "cursor_row row = map_option (filter (\<lambda>(k, _). k \<noteq> ''__pool_fifo'')) row"

section \<open>Connection parameters\<close>

definition SCHEMA :: "string \<Rightarrow> bool" where
  "SCHEMA s \<longleftrightarrow> s \<noteq> [] \<and> length s \<le> 48 \<and> is_lower (hd s) \<and>
     list_all (\<lambda>c. is_lower c \<or> is_digit c \<or> c = CHR ''_'') s"

definition HOST :: "string \<Rightarrow> bool" where
  "HOST s \<longleftrightarrow> s \<noteq> [] \<and> length s \<le> 253 \<and> is_alnum (hd s) \<and> is_alnum (last s) \<and>
     list_all (\<lambda>c. is_alnum c \<or> c = CHR ''.'' \<or> c = CHR ''-'') s"

text \<open>\<^verbatim>\<open>str(uuid.UUID(x)) == x\<close>: the canonical form, in lower case with hyphens.\<close>

definition canonical_uuid :: "string \<Rightarrow> bool" where
  "canonical_uuid s \<longleftrightarrow> length s = 36 \<and>
     list_all (\<lambda>i. if i \<in> {8, 13, 18, 23} then s ! i = CHR ''-'' else is_lower_hex (s ! i)) [0..<36]"

text \<open>\<^verbatim>\<open>int(text)\<close>: a sign, digits, and single underscores between digits, with white space around.\<close>

fun py_digits :: "int \<Rightarrow> bool \<Rightarrow> string \<Rightarrow> int option" where
  "py_digits acc after_digit [] = (if after_digit then Some acc else None)"
| "py_digits acc after_digit (c # s) =
     (if is_digit c then py_digits (acc * 10 + int (of_char c) - 48) True s
      else if c = CHR ''_'' \<and> after_digit then py_digits acc False s else None)"

definition py_int :: "string \<Rightarrow> int option" where
  "py_int s =
     (case py_strip s of
        [] \<Rightarrow> None
      | c # t \<Rightarrow> if c = CHR ''-'' then map_option uminus (py_digits 0 False t)
                  else if c = CHR ''+'' then py_digits 0 False t else py_digits 0 False (c # t))"

record authority =
  au_schema :: string
  au_authority_id :: string
  au_parameters :: "(string \<times> string) list"
  au_connect_timeout :: int
  au_lock_key :: int
  au_schema_sha256 :: string

definition ALLOWED :: "string list" where
  "ALLOWED = [''host'', ''port'', ''dbname'', ''user'', ''password'', ''sslmode'', ''sslrootcert'',
     ''channel_binding'', ''connect_timeout'']"

definition option_or :: "(string \<times> string) list \<Rightarrow> string \<Rightarrow> string \<Rightarrow> string" where
  "option_or ps k d = (case map_of ps k of None \<Rightarrow> d | Some v \<Rightarrow> v)"

definition hex_value :: "char \<Rightarrow> int" where
  "hex_value c = (if is_digit c then int (of_char c) - 48 else int (of_char c) - 87)"

text \<open>The first eight bytes of the digest, big endian, signed.\<close>

definition lock_key :: "string \<Rightarrow> int" where
  "lock_key schema =
     (let n = fold (\<lambda>c v. v * 16 + hex_value c) (take 16 (sha256_hex (''engineering-worker-pool/v1:'' @ schema))) 0
      in if n < 2 ^ 63 then n else n - 2 ^ 64)"

definition make_authority ::
  "bool \<Rightarrow> string \<Rightarrow> (string \<times> string) list \<Rightarrow> string \<Rightarrow> string \<Rightarrow> bool \<Rightarrow> authority pg_result" where
  "make_authority driver schema_sha ps schema authority_id allow_insecure_loopback =
     bindE (need driver ''postgres_driver_not_installed'') (\<lambda>_.
     bindE (need (SCHEMA schema \<and> schema \<notin> {''public'', ''information_schema''} \<and> \<not> starts_with ''pg_'' schema)
              ''authority_schema_invalid'') (\<lambda>_.
     bindE (need (canonical_uuid authority_id) ''authority_identity_invalid'') (\<lambda>_.
     bindE (need (set (map fst ps) \<subseteq> set ALLOWED \<and> list_all (\<lambda>(_, v). CHR 0x00 \<notin> set v) ps)
              ''authority_connection_invalid'') (\<lambda>_.
     let host = option_or ps ''host'' [] in
     bindE (need (HOST host \<and> \<not> has_infix ''..'' host \<and> option_or ps ''dbname'' [] \<noteq> [] \<and> option_or ps ''user'' [] \<noteq> [])
              ''authority_connection_invalid'') (\<lambda>_.
     bindE (need (\<exists>p\<in>set_option (py_int (option_or ps ''port'' ''5432'')). 1 \<le> p \<and> p \<le> 65535)
              ''authority_connection_invalid'') (\<lambda>_.
     let insecure_fixture = (allow_insecure_loopback \<and> host = ''127.0.0.1'') in
     bindE (need (insecure_fixture \<or> map_of ps ''sslmode'' = Some ''verify-full'') ''authority_tls_identity_unverified'') (\<lambda>_.
     bindE (need (insecure_fixture \<or> option_or ps ''password'' [] \<noteq> [] \<and> option_or ps ''sslrootcert'' [] \<noteq> [])
              ''authority_connection_invalid'') (\<lambda>_.
     bindE (need (option_or ps ''channel_binding'' ''prefer'' \<in> {''prefer'', ''require''}) ''authority_connection_invalid'') (\<lambda>_.
     case py_int (option_or ps ''connect_timeout'' ''8'') of
       None \<Rightarrow> Inl ''authority_connection_invalid''
     | Some t \<Rightarrow>
         bindE (need (1 \<le> t \<and> t \<le> 30) ''authority_connection_invalid'') (\<lambda>_.
         Inr \<lparr>au_schema = schema, au_authority_id = authority_id,
              au_parameters = filter (\<lambda>(k, _). k \<noteq> ''connect_timeout'') ps, au_connect_timeout = t,
              au_lock_key = lock_key schema, au_schema_sha256 = schema_sha\<rparr>))))))))))"

text \<open>\<^verbatim>\<open>from_file\<close>; \<open>conninfo\<close> is the driver's parser of connection strings.\<close>

definition from_file ::
  "(string \<Rightarrow> (string \<times> string) list option) \<Rightarrow> bool \<Rightarrow> string \<Rightarrow> file_read \<Rightarrow> string \<Rightarrow> string \<Rightarrow> authority pg_result" where
  "from_file conninfo driver schema_sha q schema authority_id =
     bindE (need driver ''postgres_driver_not_installed'') (\<lambda>_.
     bindE (read_private_connection_file q) (\<lambda>value.
     case conninfo value of
       None \<Rightarrow> Inl ''authority_connection_invalid''
     | Some ps \<Rightarrow> make_authority driver schema_sha ps schema authority_id False))"

section \<open>Identity of the authority\<close>

record meta_row =
  mt_authority_id :: string
  mt_schema_version :: int
  mt_schema_sha256 :: string

definition SCHEMA_VERSION :: int where
  "SCHEMA_VERSION = 1"

definition verify_identity :: "authority \<Rightarrow> meta_row option \<Rightarrow> unit pg_result" where
  "verify_identity au row =
     (case row of
        None \<Rightarrow> Inl ''authority_identity_mismatch''
      | Some m \<Rightarrow>
          bindE (need (mt_authority_id m = au_authority_id au) ''authority_identity_mismatch'') (\<lambda>_.
          need (mt_schema_version m = SCHEMA_VERSION \<and> mt_schema_sha256 m = au_schema_sha256 au)
            ''authority_schema_version_mismatch''))"

section \<open>Connections\<close>

text \<open>A connection, and with it the thread's slot that names the connection of its write transaction.\<close>

record pg_conn =
  cn_id :: nat
  cn_read_only :: bool
  cn_started :: bool
  cn_write :: bool
  cn_closed :: bool

type_synonym pg_local = "nat option \<times> pg_conn"

datatype pg_failure = AuthorityUnavailable string | PgConflict string

text \<open>What the driver does during \<^verbatim>\<open>_begin\<close>: \<^verbatim>\<open>BEGIN\<close> and the three settings work, the advisory lock is
  granted in time, and the identity row (\<open>None\<close> when the query fails).\<close>

record begin_outcome =
  bo_setup :: bool
  bo_lock :: bool
  bo_meta :: "meta_row option option"

definition new_connection :: "nat \<Rightarrow> bool \<Rightarrow> pg_conn" where
  "new_connection i read_only =
     \<lparr>cn_id = i, cn_read_only = read_only, cn_started = False, cn_write = False, cn_closed = False\<rparr>"

definition release_local :: "pg_conn \<Rightarrow> nat option \<Rightarrow> nat option" where
  "release_local c w = (if w = Some (cn_id c) then None else w)"

definition rollback :: "pg_local \<Rightarrow> pg_local" where
  "rollback s = (case s of (w, c) \<Rightarrow> (release_local c w, c\<lparr>cn_started := False\<rparr>))"

definition commit :: "bool \<Rightarrow> pg_local \<Rightarrow> (pg_failure + unit) \<times> pg_local" where
  "commit works s = (if works then Inr () else Inl (AuthorityUnavailable ''authority_commit_unverified''), rollback s)"

definition close :: "pg_local \<Rightarrow> pg_local" where
  "close s = (if cn_closed (snd s) then s else case rollback s of (w, c) \<Rightarrow> (w, c\<lparr>cn_closed := True\<rparr>))"

definition begin_tx :: "authority \<Rightarrow> begin_outcome \<Rightarrow> bool \<Rightarrow> pg_local \<Rightarrow> (pg_failure + unit) \<times> pg_local" where
  "begin_tx au b write s =
     (case s of (w, c) \<Rightarrow>
        if cn_started c \<or> cn_closed c then (Inl (AuthorityUnavailable ''authority_transaction_state_invalid''), s)
        else if write \<and> cn_read_only c then (Inl (AuthorityUnavailable ''authority_read_only''), s)
        else if \<not> bo_setup b then (Inl (AuthorityUnavailable ''authority_transaction_unavailable''), rollback s)
        else if write \<and> w \<noteq> None then (Inl (AuthorityUnavailable ''authority_nested_write_rejected''), rollback s)
        else if write \<and> \<not> bo_lock b then (Inl (AuthorityUnavailable ''authority_transaction_unavailable''), rollback s)
        else case bo_meta b of
          None \<Rightarrow> (Inl (AuthorityUnavailable ''authority_transaction_unavailable''), rollback s)
        | Some row \<Rightarrow>
            (case verify_identity au row of
               Inl e \<Rightarrow> (Inl (AuthorityUnavailable e), rollback s)
             | Inr _ \<Rightarrow> (Inr (), (if write then Some (cn_id c) else w, c\<lparr>cn_started := True, cn_write := write\<rparr>))))"

datatype run_outcome = RunOk | RunIntegrity | RunError

text \<open>One call of \<^verbatim>\<open>execute\<close>: the statement, the number of values and what the driver does. The result is the
  text sent to the server, \<open>None\<close> for the two transaction commands.\<close>

record pg_call =
  pc_statement :: string
  pc_values :: nat
  pc_begin :: begin_outcome
  pc_run :: run_outcome

definition send :: "pg_call \<Rightarrow> pg_local \<Rightarrow> (pg_failure + string option) \<times> pg_local" where
  "send p s =
     (case compile_pool_sql (pc_statement p) (pc_values p) of
        Inl e \<Rightarrow> (Inl (AuthorityUnavailable e), s)
      | Inr compiled \<Rightarrow>
          (case pc_run p of
             RunOk \<Rightarrow> Inr (Some compiled)
           | RunIntegrity \<Rightarrow> Inl (PgConflict ''authority_integrity_conflict'')
           | RunError \<Rightarrow> Inl (AuthorityUnavailable ''authority_database_operation_failed''), s))"

definition execute :: "authority \<Rightarrow> pg_call \<Rightarrow> pg_local \<Rightarrow> (pg_failure + string option) \<times> pg_local" where
  "execute au p s =
     (let normalized = py_upper (py_strip (pc_statement p)) in
      if normalized = ''BEGIN IMMEDIATE''
      then (case begin_tx au (pc_begin p) True s of (Inl e, s') \<Rightarrow> (Inl e, s') | (Inr _, s') \<Rightarrow> (Inr None, s'))
      else if normalized = ''BEGIN''
      then (case begin_tx au (pc_begin p) False s of (Inl e, s') \<Rightarrow> (Inl e, s') | (Inr _, s') \<Rightarrow> (Inr None, s'))
      else if cn_started (snd s) then send p s
      else (case begin_tx au (pc_begin p) False s of (Inl e, s') \<Rightarrow> (Inl e, s') | (Inr _, s') \<Rightarrow> send p s'))"

definition server_time :: "'t option \<Rightarrow> pg_local \<Rightarrow> 't pg_result" where
  "server_time t s =
     bindE (need (cn_started (snd s) \<and> \<not> cn_closed (snd s)) ''authority_transaction_state_invalid'')
       (\<lambda>_. case t of None \<Rightarrow> Inl ''authority_clock_unavailable'' | Some x \<Rightarrow> Inr x)"

fun execute_all :: "authority \<Rightarrow> pg_call list \<Rightarrow> pg_local \<Rightarrow> (pg_failure + unit) \<times> pg_local" where
  "execute_all au [] s = (Inr (), s)"
| "execute_all au (p # ps) s =
     (case execute au p s of (Inl e, s') \<Rightarrow> (Inl e, s') | (Inr _, s') \<Rightarrow> execute_all au ps s')"

text \<open>\<^verbatim>\<open>transaction()\<close> around a body of statements on a new connection \<open>i\<close>, and the thread's slot afterwards.\<close>

definition transaction ::
  "authority \<Rightarrow> nat \<Rightarrow> begin_outcome \<Rightarrow> pg_call list \<Rightarrow> bool \<Rightarrow> nat option \<Rightarrow> (pg_failure + unit) \<times> nat option" where
  "transaction au i b body works w =
     (let opening = \<lparr>pc_statement = ''BEGIN IMMEDIATE'', pc_values = 0, pc_begin = b, pc_run = RunOk\<rparr>;
          (res, s) = (case execute au opening (w, new_connection i False) of
              (Inl e, s) \<Rightarrow> (Inl e, s)
            | (Inr _, s) \<Rightarrow>
                (case execute_all au body s of (Inl e, s') \<Rightarrow> (Inl e, s') | (Inr _, s') \<Rightarrow> commit works s'))
      in (res, fst (close (case res of Inl _ \<Rightarrow> rollback s | Inr _ \<Rightarrow> s))))"

section \<open>The schema\<close>

record catalog =
  ct_tables :: "string list"
  ct_indexes :: "(string \<times> string) list"
  ct_triggers :: "(string \<times> string \<times> string list option) list"
  ct_fifo :: "string option"
  ct_meta :: "meta_row option"

definition REQUIRED_TABLES :: "string list" where
  "REQUIRED_TABLES = [''authority_meta'', ''workers'', ''repository_lanes'', ''worker_repository_affinity'', ''tasks'',
     ''quarantine'', ''pool_control'', ''task_attempts'', ''task_checkpoints'', ''effect_reconciliations'', ''work_runs'']"

definition REQUIRED_INDEXES :: "string list" where
  "REQUIRED_INDEXES = [''idx_worker_active'', ''idx_workspace_active'', ''idx_task_checkpoints_generation'',
     ''idx_task_checkpoints_effect'']"

definition REQUIRED_TRIGGERS :: "string list" where
  "REQUIRED_TRIGGERS = [''guard_fenced_task_admission'', ''guard_fenced_claim'']"

definition trigger_enabled :: "authority \<Rightarrow> string \<times> string \<times> string list option \<Rightarrow> bool" where
  "trigger_enabled au t =
     (case t of (_, enabled, config) \<Rightarrow>
        enabled = ''O'' \<and>
        ''search_path='' @ au_schema au @ '', pg_catalog''
          \<in> set (map (filter (\<lambda>c. c \<noteq> CHR 34)) (case config of None \<Rightarrow> [] | Some xs \<Rightarrow> xs)))"

definition verify_schema :: "authority \<Rightarrow> catalog \<Rightarrow> unit pg_result" where
  "verify_schema au cat =
     bindE (verify_identity au (ct_meta cat)) (\<lambda>_.
     bindE (need (set REQUIRED_TABLES \<subseteq> set (ct_tables cat)) ''authority_schema_incomplete'') (\<lambda>_.
     bindE (need (set REQUIRED_INDEXES \<subseteq> fst ` set (ct_indexes cat) \<and>
              list_all (\<lambda>n. \<exists>d\<in>set_option (map_of (rev (ct_indexes cat)) n). has_infix ''UNIQUE INDEX'' d)
                [''idx_worker_active'', ''idx_workspace_active'']) ''authority_indexes_unverified'') (\<lambda>_.
     bindE (need (set REQUIRED_TRIGGERS \<subseteq> fst ` set (filter (trigger_enabled au) (ct_triggers cat)))
              ''authority_fence_guards_unverified'') (\<lambda>_.
     need (ct_fifo cat = Some ''YES'') ''authority_queue_order_unverified''))))"

text \<open>\<^verbatim>\<open>initialize\<close>, when the driver's calls work: an empty schema gets the migration and its identity row, a schema
  that is not empty is only checked. \<open>migrated\<close> is the catalog the migration script leaves.\<close>

definition initialize :: "catalog \<Rightarrow> authority \<Rightarrow> catalog \<Rightarrow> unit pg_result \<times> catalog" where
  "initialize migrated au cat =
     (if ct_tables cat \<noteq> []
      then (bindE (need (''authority_meta'' \<in> set (ct_tables cat)) ''authority_schema_not_empty'') (\<lambda>_.
            bindE (verify_identity au (ct_meta cat)) (\<lambda>_. verify_schema au cat)), cat)
      else (let cat' = migrated\<lparr>ct_meta := Some \<lparr>mt_authority_id = au_authority_id au,
                        mt_schema_version = SCHEMA_VERSION, mt_schema_sha256 = au_schema_sha256 au\<rparr>\<rparr>
            in (verify_schema au cat', cat')))"

section \<open>One transaction\<close>

text \<open>A statement that goes through inside a transaction.\<close>

definition goes_through :: "pg_call \<Rightarrow> bool" where
  "goes_through p \<longleftrightarrow>
     py_upper (py_strip (pc_statement p)) \<notin> {''BEGIN'', ''BEGIN IMMEDIATE''} \<and>
     (\<exists>c. compile_pool_sql (pc_statement p) (pc_values p) = Inr c) \<and> pc_run p = RunOk"

definition admitted :: "authority \<Rightarrow> begin_outcome \<Rightarrow> bool" where
  "admitted au b \<longleftrightarrow> bo_setup b \<and> bo_lock b \<and> (\<exists>row. bo_meta b = Some row \<and> verify_identity au row = Inr ())"

lemma execute_started:
  assumes "cn_started c"
  shows "snd (execute au p (w, c)) = (w, c)" "(\<exists>x. fst (execute au p (w, c)) = Inr x) \<longleftrightarrow> goes_through p"
  using assms
  by (auto simp: execute_def begin_tx_def send_def goes_through_def Let_def split: sum.splits run_outcome.splits)

lemma execute_all_started:
  assumes "cn_started c"
  shows "snd (execute_all au ps (w, c)) = (w, c) \<and>
    (fst (execute_all au ps (w, c)) = Inr () \<longleftrightarrow> list_all goes_through ps)"
proof (induction ps)
  case (Cons p ps)
  obtain r s where e: "execute au p (w, c) = (r, s)" by (rule prod.exhaust)
  then have "s = (w, c)" "(\<exists>x. r = Inr x) \<longleftrightarrow> goes_through p"
    using execute_started [OF assms, of au p w] by auto
  then show ?case using Cons e by (cases r) auto
qed simp

lemma begin_immediate:
  "execute au \<lparr>pc_statement = ''BEGIN IMMEDIATE'', pc_values = 0, pc_begin = b, pc_run = RunOk\<rparr> s =
     (case begin_tx au b True s of (Inl e, s') \<Rightarrow> (Inl e, s') | (Inr _, s') \<Rightarrow> (Inr None, s'))"
proof -
  have "py_upper (py_strip ''BEGIN IMMEDIATE'') = ''BEGIN IMMEDIATE''" by code_simp
  then show ?thesis by (simp add: execute_def)
qed

lemma begin_tx_new:
  assumes "w \<noteq> Some i"
  shows "admitted au b \<and> w = None \<Longrightarrow> begin_tx au b True (w, new_connection i False) =
      (Inr (), (Some i, (new_connection i False)\<lparr>cn_started := True, cn_write := True\<rparr>))"
    and "\<not> (admitted au b \<and> w = None) \<Longrightarrow> \<exists>e. begin_tx au b True (w, new_connection i False) =
      (Inl e, (w, new_connection i False))"
  using assms
  by (auto simp: begin_tx_def admitted_def new_connection_def rollback_def release_local_def
      split: option.splits sum.splits)

lemma leave_other: "w \<noteq> Some (cn_id c) \<Longrightarrow> fst (rollback (w, c)) = w \<and> fst (close (w, c)) = w \<and> fst (close (rollback (w, c))) = w"
  by (auto simp: rollback_def close_def release_local_def)

lemma leave_own: "fst (rollback (Some (cn_id c), c)) = None \<and> fst (close (rollback (Some (cn_id c), c))) = None"
  by (auto simp: rollback_def close_def release_local_def)

text \<open>What a transaction of the authority does. It succeeds exactly when the driver opens it, no other write
  transaction of the thread is open, the lock is granted, the database is the expected one,
  every statement goes through and the commit is confirmed; and in every case, also when the
  driver fails at any point, the thread's writer slot is afterwards what it was.\<close>

theorem transaction_outcome:
  assumes "w \<noteq> Some i"
  shows "snd (transaction au i b body works w) = w \<and>
    (fst (transaction au i b body works w) = Inr () \<longleftrightarrow>
       admitted au b \<and> w = None \<and> list_all goes_through body \<and> works)"
proof (cases "admitted au b \<and> w = None")
  case True
  let ?c = "(new_connection i False)\<lparr>cn_started := True, cn_write := True\<rparr>"
  have i: "cn_id ?c = i" "cn_started ?c" by (simp_all add: new_connection_def)
  obtain r where r: "execute_all au body (Some i, ?c) = (r, (Some i, ?c))" "r = Inr () \<longleftrightarrow> list_all goes_through body"
    using execute_all_started [OF i(2), of au body "Some i"] by (metis prod.collapse)
  have "fst (close (rollback (Some i, ?c))) = None" "fst (rollback (Some i, ?c)) = None"
    using leave_own [of ?c] i by simp_all
  moreover obtain c' where c': "rollback (Some i, ?c) = (None, c')" using calculation(2) by (metis prod.collapse)
  moreover have "fst (close (rollback (None, c'))) = None" "fst (close (None, c')) = None"
    using leave_other [of None c'] by simp_all
  ultimately show ?thesis
    using True begin_tx_new(1) [OF assms True] r
    by (cases r; cases works) (auto simp: transaction_def begin_immediate commit_def Let_def)
next
  case False
  then obtain e where e: "begin_tx au b True (w, new_connection i False) = (Inl e, (w, new_connection i False))"
    using begin_tx_new(2) [OF assms] by blast
  have "fst (close (rollback (w, new_connection i False))) = w"
    using leave_other [of w "new_connection i False"] assms by (simp add: new_connection_def)
  then show ?thesis using False e by (auto simp: transaction_def begin_immediate Let_def)
qed

definition demo_authority :: authority where
  "demo_authority = \<lparr>au_schema = ''worker_pool'', au_authority_id = ''a'', au_parameters = [], au_connect_timeout = 8,
     au_lock_key = 1, au_schema_sha256 = ''s''\<rparr>"

definition demo_meta :: meta_row where
  "demo_meta = \<lparr>mt_authority_id = ''a'', mt_schema_version = 1, mt_schema_sha256 = ''s''\<rparr>"

definition demo_begin :: begin_outcome where
  "demo_begin = \<lparr>bo_setup = True, bo_lock = True, bo_meta = Some (Some demo_meta)\<rparr>"

definition demo_call :: pg_call where
  "demo_call = \<lparr>pc_statement = ''UPDATE tasks SET state=?'', pc_values = 1, pc_begin = demo_begin, pc_run = RunOk\<rparr>"

lemma demo_goes_through: "admitted demo_authority demo_begin" "goes_through demo_call"
proof -
  show "admitted demo_authority demo_begin"
    by (simp add: admitted_def demo_begin_def demo_authority_def verify_identity_def demo_meta_def need_def
        SCHEMA_VERSION_def bindE_def)
  have "compile_pool_sql ''UPDATE tasks SET state=?'' 1 = Inr ''UPDATE tasks SET state=%s''" by code_simp
  moreover have "py_upper (py_strip ''UPDATE tasks SET state=?'') = ''UPDATE TASKS SET STATE=?''" by code_simp
  ultimately show "goes_through demo_call" by (simp add: goes_through_def demo_call_def)
qed

theorem transaction_outcome_witness:
  "transaction demo_authority 1 demo_begin [demo_call] True None = (Inr (), None) \<and>
   snd (transaction demo_authority 2 demo_begin [demo_call] True (Some 1)) = Some 1 \<and>
   fst (transaction demo_authority 2 demo_begin [demo_call] True (Some 1)) \<noteq> Inr ()"
  using transaction_outcome [of None 1 demo_authority demo_begin "[demo_call]" True]
    transaction_outcome [of "Some 1" 2 demo_authority demo_begin "[demo_call]" True] demo_goes_through
  by (simp add: prod_eq_iff)

section \<open>All connections of the database\<close>






























section \<open>Initialisation\<close>

text \<open>Initialisation never takes over a database. A schema that holds anything keeps its contents, and it is
  accepted only when its identity row is this authority's; an empty one is bound to this
  authority, so that a second initialisation changes nothing and any other authority is refused.\<close>

theorem initialize_never_overwrites:
  assumes "''authority_meta'' \<in> set (ct_tables migrated)" and "initialize migrated au cat = (res, cat')"
  shows "(ct_tables cat \<noteq> [] \<longrightarrow> cat' = cat) \<and>
    (res = Inr () \<longrightarrow> verify_schema au cat' = Inr () \<and>
       initialize migrated' au cat' = (Inr (), cat') \<and>
       (\<forall>other. au_authority_id other \<noteq> au_authority_id au \<longrightarrow>
          initialize migrated' other cat' = (Inl ''authority_identity_mismatch'', cat')))"
  using assms
  by (auto simp: initialize_def need_def bindE_def Let_def verify_identity_def
      split: if_splits sum.splits option.splits)

definition demo_migrated :: catalog where
  "demo_migrated = \<lparr>ct_tables = REQUIRED_TABLES,
     ct_indexes = map (\<lambda>n. (n, ''CREATE UNIQUE INDEX'')) REQUIRED_INDEXES,
     ct_triggers = map (\<lambda>n. (n, ''O'', Some [''search_path=worker_pool, pg_catalog''])) REQUIRED_TRIGGERS,
     ct_fifo = Some ''YES'', ct_meta = None\<rparr>"

definition demo_empty :: catalog where
  "demo_empty = \<lparr>ct_tables = [], ct_indexes = [], ct_triggers = [], ct_fifo = None, ct_meta = None\<rparr>"

theorem initialize_never_overwrites_witness:
  "initialize demo_migrated demo_authority demo_empty = (Inr (), demo_migrated\<lparr>ct_meta := Some demo_meta\<rparr>) \<and>
   initialize demo_migrated (demo_authority\<lparr>au_authority_id := ''b''\<rparr>) (demo_migrated\<lparr>ct_meta := Some demo_meta\<rparr>) =
     (Inl ''authority_identity_mismatch'', demo_migrated\<lparr>ct_meta := Some demo_meta\<rparr>)"
proof -
  have i: "initialize demo_migrated demo_authority demo_empty = (Inr (), demo_migrated\<lparr>ct_meta := Some demo_meta\<rparr>)"
    by code_simp
  moreover have "''authority_meta'' \<in> set (ct_tables demo_migrated)"
    by (simp add: demo_migrated_def REQUIRED_TABLES_def)
  ultimately show ?thesis
    using initialize_never_overwrites [OF _ i, of demo_migrated] by (simp add: demo_authority_def)
qed

end
