(* ===== verification/Sql_Reading.thy ===== *)
theory Sql_Reading
  imports Pool_Sql
begin

text \<open>
  What \<^verbatim>\<open>compile_pool_sql\<close> does to a statement, against the lexical rules of SQL: which question marks stand for values, and that
  the driver, reading the compiled text, finds the same values at the same places and the same text around them.
\<close>

section \<open>The lexical rules\<close>

text \<open>A statement as the server receives it: characters, and places for values.\<close>

datatype piece = Text char | Param

text \<open>The inside of a quoted text: the quote occurs doubled only.\<close>

inductive inside :: "char \<Rightarrow> string \<Rightarrow> bool" for q where
  empty: "inside q []"
| other: "c \<noteq> q \<Longrightarrow> inside q s \<Longrightarrow> inside q (c # s)"
| doubled: "inside q s \<Longrightarrow> inside q (q # q # s)"

text \<open>The first occurrence of \<open>p\<close> in \<open>body @ p\<close> is at its end.\<close>

definition first_at :: "string \<Rightarrow> string \<Rightarrow> bool" where
  "first_at p body \<longleftrightarrow> (\<forall>i<length body. \<not> starts_with p (drop i (body @ p)))"

definition tag_name :: "string \<Rightarrow> bool" where
  "tag_name name \<longleftrightarrow> list_all is_word name \<and> (name = [] \<or> \<not> is_digit (hd name))"

text \<open>The parts that are no SQL text, each with what follows it: quoted text, the two kinds of comments, dollar strings.\<close>

inductive region :: "string \<Rightarrow> string \<Rightarrow> bool" where
  quote: "q \<in> {CHR 39, CHR 34} \<Longrightarrow> inside q body \<Longrightarrow> r = [] \<or> hd r \<noteq> q \<Longrightarrow> region (q # body @ [q]) r"
| line_comment: "CHR 10 \<notin> set body \<Longrightarrow> region (''--'' @ body @ [CHR 10]) r"
| last_line: "CHR 10 \<notin> set body \<Longrightarrow> region (''--'' @ body) []"
| block: "first_at ''*/'' body \<Longrightarrow> region (''/*'' @ body @ ''*/'') r"
| dollar: "tag_name name \<Longrightarrow> first_at (''$'' @ name @ ''$'') body \<Longrightarrow>
    region ((''$'' @ name @ ''$'') @ body @ ''$'' @ name @ ''$'') r"

text \<open>A text that begins like one of them.\<close>

definition opens :: "string \<Rightarrow> bool" where
  "opens s \<longleftrightarrow> (\<exists>t. s = CHR 39 # t \<or> s = CHR 34 # t \<or> s = ''--'' @ t \<or> s = ''/*'' @ t \<or>
     (\<exists>name. tag_name name \<and> s = ''$'' @ name @ ''$'' @ t))"

text \<open>The name \<^verbatim>\<open>t.rowid\<close>, after the character \<open>prev\<close>, and what follows it.\<close>

definition names_rowid :: "char option \<Rightarrow> string \<Rightarrow> string \<Rightarrow> bool" where
  "names_rowid prev s r \<longleftrightarrow> s = ''t.rowid'' @ r \<and> (\<forall>c. prev = Some c \<longrightarrow> \<not> is_word c) \<and> (r = [] \<or> \<not> is_word (hd r))"

text \<open>The reading of a statement: in SQL text a question mark is a value, the row id is the ordering column, and a semicolon ends the
  statement; everything else is copied.\<close>

inductive lexed :: "char option \<Rightarrow> string \<Rightarrow> piece list \<Rightarrow> bool" where
  empty: "lexed prev [] []"
| copied: "region f r \<Longrightarrow> lexed (Some (last f)) r ps \<Longrightarrow> lexed prev (f @ r) (map Text f @ ps)"
| rowid: "names_rowid prev s r \<Longrightarrow> lexed (Some (CHR ''d'')) r ps \<Longrightarrow> lexed prev s (map Text ''t.__pool_fifo'' @ ps)"
| mark: "lexed (Some (CHR ''?'')) r ps \<Longrightarrow> lexed prev (CHR ''?'' # r) (Param # ps)"
| plain: "c \<noteq> CHR ''?'' \<Longrightarrow> \<not> opens (c # r) \<Longrightarrow> \<forall>t. \<not> names_rowid prev (c # r) t \<Longrightarrow> (c = CHR '';'' \<Longrightarrow> py_strip r = []) \<Longrightarrow>
    lexed (Some c) r ps \<Longrightarrow> lexed prev (c # r) (Text c # ps)"

text \<open>An insertion that ignores conflicts: the blanks before it, and the text after the word \<^verbatim>\<open>IGNORE\<close>.\<close>

definition blanks :: "string \<Rightarrow> bool" where
  "blanks s \<longleftrightarrow> list_all py_isspace s"

definition ignored_insert :: "string \<Rightarrow> string \<Rightarrow> string \<Rightarrow> bool" where
  "ignored_insert stmt ws rest \<longleftrightarrow>
     (\<exists>a g1 b g2 c g3 d t. stmt = ws @ a @ g1 @ b @ g2 @ c @ rest \<and> rest = g3 @ d @ t \<and> blanks ws \<and>
        blanks g1 \<and> g1 \<noteq> [] \<and> blanks g2 \<and> g2 \<noteq> [] \<and> blanks g3 \<and> g3 \<noteq> [] \<and>
        py_lower a = ''insert'' \<and> py_lower b = ''or'' \<and> py_lower c = ''ignore'' \<and> py_lower d = ''into'' \<and> (t = [] \<or> \<not> is_word (hd t)))"

definition rewritten :: "string \<Rightarrow> string \<Rightarrow> bool" where
  "rewritten stmt text \<longleftrightarrow>
     (\<exists>ws rest. ignored_insert stmt ws rest \<and> text = removesuffix '';'' (py_rstrip (ws @ ''INSERT'' @ rest)) @ '' ON CONFLICT DO NOTHING'') \<or>
     (\<nexists>ws rest. ignored_insert stmt ws rest) \<and> text = stmt"

text \<open>The driver's format, when values are given: \<^verbatim>\<open>%s\<close> is a value, \<^verbatim>\<open>%%\<close> a percent sign, and any other use of \<^verbatim>\<open>%\<close> is refused.\<close>

fun driver_reads :: "string \<Rightarrow> piece list option" where
  "driver_reads [] = Some []"
| "driver_reads (c # s) =
     (if c = CHR ''%''
      then (case s of
          [] \<Rightarrow> None
        | d # t \<Rightarrow>
            if d = CHR ''%'' then map_option ((#) (Text (CHR ''%''))) (driver_reads t)
            else if d = CHR ''s'' then map_option ((#) Param) (driver_reads t)
            else None)
      else map_option ((#) (Text c)) (driver_reads s))"

section \<open>The scanner finds the regions\<close>

lemma starts_with_prefix: "starts_with p s \<longleftrightarrow> (\<exists>t. s = p @ t)"
  unfolding starts_with_def by (metis append_eq_conv_conj append_take_drop_id)

lemma starts_with_Cons [simp]: "starts_with (c # p) (d # s) \<longleftrightarrow> c = d \<and> starts_with p s" "starts_with [] s" "\<not> starts_with (c # p) []"
  by (auto simp: starts_with_def)

lemma quoted_closes: "inside q body \<Longrightarrow> r = [] \<or> hd r \<noteq> q \<Longrightarrow> quoted q (body @ q # r) = Some (body @ [q], r)"
proof (induction rule: inside.induct)
  case empty
  then show ?case by (cases r) auto
next
  case (other c s)
  then show ?case by (cases "s @ q # r") auto
qed simp

lemma quoted_iff: "quoted q s = Some (f, r) \<longleftrightarrow> (\<exists>body. f = body @ [q] \<and> s = f @ r \<and> inside q body \<and> (r = [] \<or> hd r \<noteq> q))"
proof
  show "quoted q s = Some (f, r) \<Longrightarrow> \<exists>body. f = body @ [q] \<and> s = f @ r \<and> inside q body \<and> (r = [] \<or> hd r \<noteq> q)"
  proof (induction q s arbitrary: f rule: quoted.induct)
    case (3 q c d s)
    show ?case
    proof (cases "c = q \<and> d \<noteq> q")
      case True
      with 3 show ?thesis by (auto intro!: inside.empty)
    next
      case False
      then obtain f' where f': "c = q \<and> d = q \<and> quoted q s = Some (f', r) \<and> f = c # d # f' \<or> c \<noteq> q \<and> quoted q (d # s) = Some (f', r) \<and> f = c # f'"
        using "3.prems" by (auto split: if_splits)
      then show ?thesis
      proof (elim disjE conjE)
        assume *: "c = q" "d = q" "quoted q s = Some (f', r)" "f = c # d # f'"
        then obtain body where "f' = body @ [q]" "s = f' @ r" "inside q body" "r = [] \<or> hd r \<noteq> q" using "3.IH"(1) by blast
        with * show ?thesis by (intro exI [of _ "q # q # body"]) (auto intro: inside.doubled)
      next
        assume *: "c \<noteq> q" "quoted q (d # s) = Some (f', r)" "f = c # f'"
        then obtain body where "f' = body @ [q]" "d # s = f' @ r" "inside q body" "r = [] \<or> hd r \<noteq> q" using "3.IH"(2) by blast
        with * show ?thesis by (intro exI [of _ "c # body"]) (auto intro: inside.other)
      qed
    qed
  qed (auto intro!: inside.empty split: if_splits)
qed (auto intro: quoted_closes)

lemma first_at_Cons: "first_at p (c # body) \<longleftrightarrow> \<not> starts_with p (c # body @ p) \<and> first_at p body"
  by (simp add: first_at_def All_less_Suc2)

lemma starts_with_longer: "starts_with p (x @ p @ r) \<longleftrightarrow> starts_with p (x @ p)"
  by (simp add: starts_with_def)

lemma find_sub_iff:
  assumes "p \<noteq> []"
  shows "find_sub p s = Some (f, r) \<longleftrightarrow> (\<exists>body. f = body @ p \<and> s = f @ r \<and> first_at p body)"
proof
  show "find_sub p s = Some (f, r) \<Longrightarrow> \<exists>body. f = body @ p \<and> s = f @ r \<and> first_at p body"
    using assms
  proof (induction p s arbitrary: f rule: find_sub.induct)
    case (2 p c s)
    show ?case
    proof (cases "starts_with p (c # s)")
      case True
      with 2 show ?thesis using starts_with_append [OF True] by (intro exI [of _ "[]"]) (auto simp: first_at_def)
    next
      case False
      with "2.prems" obtain f' where f': "find_sub p s = Some (f', r)" "f = c # f'" by auto
      with "2.IH" False "2.prems"(2) obtain body where b: "f' = body @ p" "s = f' @ r" "first_at p body" by blast
      then have "\<not> starts_with p (c # body @ p)" using False starts_with_longer [of p "c # body" r] by simp
      then show ?thesis using b f' by (intro exI [of _ "c # body"]) (simp add: first_at_Cons)
    qed
  qed auto
next
  have "find_sub p (body @ p @ r) = Some (body @ p, r)" if "first_at p body" for body
    using that
  proof (induction body)
    case Nil
    obtain c p' where p: "p = c # p'" using assms by (cases p) auto
    have "starts_with p (p @ r)" by (simp add: starts_with_def)
    then show ?case by (simp add: p)
  next
    case (Cons c body)
    then show ?case using starts_with_longer [of p "c # body" r] by (simp add: first_at_Cons)
  qed
  then show "\<exists>body. f = body @ p \<and> s = f @ r \<and> first_at p body \<Longrightarrow> find_sub p s = Some (f, r)" by auto
qed

lemma dollar_tag_iff: "dollar_tag s = Some tag \<longleftrightarrow> (\<exists>name t. tag_name name \<and> tag = ''$'' @ name @ ''$'' \<and> s = tag @ t)"
proof
  assume "dollar_tag s = Some tag"
  then obtain u where u: "s = CHR ''$'' # u" "starts_with ''$'' (dropWhile is_word u)" "tag = ''$'' @ takeWhile is_word u @ ''$''"
    and n: "takeWhile is_word u = [] \<or> \<not> is_digit (hd (takeWhile is_word u))"
    by (cases s) (auto simp: dollar_tag_def Let_def split: if_splits)
  then obtain t where "dropWhile is_word u = CHR ''$'' # t" by (cases "dropWhile is_word u") auto
  then have "u = takeWhile is_word u @ CHR ''$'' # t" by (metis takeWhile_dropWhile_id)
  moreover have "tag_name (takeWhile is_word u)" using n by (auto simp: tag_name_def list_all_iff dest: set_takeWhileD)
  ultimately show "\<exists>name t. tag_name name \<and> tag = ''$'' @ name @ ''$'' \<and> s = tag @ t"
    using u by (intro exI [of _ "takeWhile is_word u"] exI [of _ t]) auto
next
  assume "\<exists>name t. tag_name name \<and> tag = ''$'' @ name @ ''$'' \<and> s = tag @ t"
  then obtain name t where n: "tag_name name" "tag = ''$'' @ name @ ''$''" "s = tag @ t" by blast
  have "\<not> is_word (CHR ''$'')" by code_simp
  then have "takeWhile is_word (name @ CHR ''$'' # t) = name" "dropWhile is_word (name @ CHR ''$'' # t) = CHR ''$'' # t"
    using n(1) by (auto simp: tag_name_def list_all_iff takeWhile_append2 dropWhile_append2)
  then show "dollar_tag s = Some tag" using n by (simp add: dollar_tag_def tag_name_def)
qed

lemma fragment_None: "fragment s = Inr None \<longleftrightarrow> \<not> opens s"
proof -
  have "dollar_tag s = None \<longleftrightarrow> \<not> (\<exists>name t. tag_name name \<and> s = ''$'' @ name @ ''$'' @ t)"
    using dollar_tag_iff [of s "the (dollar_tag s)"] dollar_tag_iff [of s] by (cases "dollar_tag s") auto
  then show ?thesis
    unfolding fragment_def opens_def by (auto simp: starts_with_prefix split: option.splits)
qed

lemma find_sub_char: "find_sub [c] s = None \<longleftrightarrow> c \<notin> set s"
  by (induction s) auto

lemma first_at_char: "first_at [c] body \<longleftrightarrow> c \<notin> set body"
  by (induction body) (auto simp: first_at_Cons, simp add: first_at_def)

lemma fragment_line:
  "starts_with ''--'' s \<Longrightarrow> fragment s = Inr (Some (f, r)) \<longleftrightarrow>
     (\<exists>body. CHR 10 \<notin> set body \<and> (s = ''--'' @ body \<and> f = s \<and> r = [] \<or> f = ''--'' @ body @ [CHR 10] \<and> s = f @ r))"
proof -
  assume dash: "starts_with ''--'' s"
  then obtain t where t: "s = ''--'' @ t" by (auto simp: starts_with_prefix)
  then have "\<not> starts_with [CHR 39] s" "\<not> starts_with [CHR 34] s" by simp_all
  then have eq: "fragment s = Inr (Some (case find_sub [CHR 10] s of None \<Rightarrow> (s, []) | Some fr \<Rightarrow> fr))"
    using dash by (simp add: fragment_def)
  have two: "(\<exists>body. f = body @ [CHR 10] \<and> s = f @ r \<and> CHR 10 \<notin> set body) \<longleftrightarrow>
      (\<exists>body. CHR 10 \<notin> set body \<and> f = ''--'' @ body @ [CHR 10] \<and> s = f @ r)"
  proof (intro iffI; elim exE conjE)
    fix body assume b: "f = body @ [CHR 10]" "s = f @ r" "CHR 10 \<notin> set body"
    then obtain x y b' where "body = x # y # b'" using t by (cases body; cases "tl body") auto
    with b t show "\<exists>body. CHR 10 \<notin> set body \<and> f = ''--'' @ body @ [CHR 10] \<and> s = f @ r" by auto
  next
    fix body assume "CHR 10 \<notin> set body" "f = ''--'' @ body @ [CHR 10]" "s = f @ r"
    then show "\<exists>body. f = body @ [CHR 10] \<and> s = f @ r \<and> CHR 10 \<notin> set body" by (intro exI [of _ "''--'' @ body"]) simp
  qed
  show ?thesis
  proof (cases "find_sub [CHR 10] s")
    case None
    then have n: "CHR 10 \<notin> set s" by (simp add: find_sub_char)
    then show ?thesis unfolding eq None using t by auto
  next
    case (Some fr)
    obtain f' r' where fr: "fr = (f', r')" by (rule prod.exhaust)
    have "CHR 10 \<in> set s" using Some find_sub_char [of "CHR 10" s] by (metis option.distinct(1))
    moreover have "fragment s = Inr (Some (f, r)) \<longleftrightarrow> find_sub [CHR 10] s = Some (f, r)" unfolding eq Some by auto
    ultimately show ?thesis using t two by (auto simp: find_sub_iff first_at_char)
  qed
qed

lemma fragment_other:
  "s = q # t \<Longrightarrow> q \<in> {CHR 39, CHR 34} \<Longrightarrow> fragment s = Inr (Some (f, r)) \<longleftrightarrow> (\<exists>g. f = q # g \<and> quoted q t = Some (g, r))"
  "s = ''/*'' @ t \<Longrightarrow> fragment s = Inr (Some (f, r)) \<longleftrightarrow> (\<exists>g. f = ''/*'' @ g \<and> find_sub ''*/'' t = Some (g, r))"
  "s = (''$'' @ name @ ''$'') @ t \<Longrightarrow> tag_name name \<Longrightarrow>
    fragment s = Inr (Some (f, r)) \<longleftrightarrow> (\<exists>g. f = (''$'' @ name @ ''$'') @ g \<and> find_sub (''$'' @ name @ ''$'') t = Some (g, r))"
proof -
  show "s = (''$'' @ name @ ''$'') @ t \<Longrightarrow> tag_name name \<Longrightarrow>
    fragment s = Inr (Some (f, r)) \<longleftrightarrow> (\<exists>g. f = (''$'' @ name @ ''$'') @ g \<and> find_sub (''$'' @ name @ ''$'') t = Some (g, r))"
    using dollar_tag_iff [of s "''$'' @ name @ ''$''"] by (auto simp: fragment_def split: option.splits)
qed (auto simp: fragment_def split: option.splits)

lemma region_opens: "region f r \<Longrightarrow> opens (f @ r)"
  by (induction rule: region.induct) (auto simp: opens_def)

lemma fragment_region: "region f r \<Longrightarrow> fragment (f @ r) = Inr (Some (f, r))"
proof (induction rule: region.induct)
  case (quote q body r)
  then show ?case using fragment_other(1) [of "(q # body @ [q]) @ r" q] by (auto simp: quoted_closes)
next
  case (line_comment body r)
  then show ?case by (subst fragment_line) auto
next
  case (last_line body)
  then show ?case by (subst fragment_line) auto
next
  case (block body r)
  then show ?case using fragment_other(2) [of "(''/*'' @ body @ ''*/'') @ r" "body @ ''*/'' @ r"] by (auto simp: find_sub_iff)
next
  case (dollar name body r)
  then show ?case
    using fragment_other(3) [of "((''$'' @ name @ ''$'') @ body @ ''$'' @ name @ ''$'') @ r" name "body @ (''$'' @ name @ ''$'') @ r"]
    by (auto simp: find_sub_iff)
qed

lemma fragment_Some: "fragment s = Inr (Some (f, r)) \<longleftrightarrow> s = f @ r \<and> region f r"
proof
  assume fr: "fragment s = Inr (Some (f, r))"
  then have "opens s" using fragment_None [of s] by auto
  then consider q t where "s = q # t" "q \<in> {CHR 39, CHR 34}" | "starts_with ''--'' s" | t where "s = ''/*'' @ t"
    | name t where "s = (''$'' @ name @ ''$'') @ t" "tag_name name"
    unfolding opens_def by (auto simp: starts_with_prefix)
  then show "s = f @ r \<and> region f r"
  proof cases
    case 1
    with fr obtain body where "f = q # body @ [q]" "t = (body @ [q]) @ r" "inside q body" "r = [] \<or> hd r \<noteq> q"
      by (auto simp: fragment_other(1) quoted_iff)
    with 1 show ?thesis by (auto intro: region.quote)
  next
    case 2
    with fr obtain body where "CHR 10 \<notin> set body"
      "s = ''--'' @ body \<and> f = s \<and> r = [] \<or> f = ''--'' @ body @ [CHR 10] \<and> s = f @ r" by (auto simp: fragment_line)
    then show ?thesis by (auto intro: region.line_comment [simplified] region.last_line [simplified])
  next
    case 3
    with fr obtain body where "f = ''/*'' @ body @ ''*/''" "t = (body @ ''*/'') @ r" "first_at ''*/'' body"
      by (auto simp: fragment_other(2) find_sub_iff)
    with 3 show ?thesis by (auto intro: region.block [simplified])
  next
    case 4
    with fr obtain body where "f = (''$'' @ name @ ''$'') @ body @ ''$'' @ name @ ''$''" "t = (body @ ''$'' @ name @ ''$'') @ r"
      "first_at (''$'' @ name @ ''$'') body"
      unfolding fragment_other(3) [OF 4] by (auto simp: find_sub_iff)
    with 4 show ?thesis using region.dollar [OF 4(2)] by auto
  qed
qed (auto intro: fragment_region)

section \<open>The compilation is the reading, printed\<close>

definition params :: "piece list \<Rightarrow> nat" where
  "params ps = length (filter (\<lambda>p. p = Param) ps)"

definition printed :: "nat \<Rightarrow> piece list \<Rightarrow> string" where
  "printed n ps = concat (map (\<lambda>p. case p of Param \<Rightarrow> ''%s'' | Text c \<Rightarrow> escape_percent n [c]) ps)"

lemma params_simps [simp]: "params [] = 0" "params (Text c # ps) = params ps" "params (Param # ps) = Suc (params ps)"
  "params (map Text f @ ps) = params ps"
  by (simp_all add: params_def)

lemma escape_append: "escape_percent n (c # f) = escape_percent n [c] @ escape_percent n f"
  by (simp add: escape_percent_def)

lemma printed_simps [simp]: "printed n [] = []" "printed n (Param # ps) = ''%s'' @ printed n ps"
  "printed n (Text c # ps) = escape_percent n [c] @ printed n ps" "printed n (map Text f @ ps) = escape_percent n f @ printed n ps"
proof -
  show "printed n (map Text f @ ps) = escape_percent n f @ printed n ps"
  proof (induction f)
    case (Cons c f)
    then show ?case by (subst escape_append) (simp add: printed_def)
  qed (simp add: escape_percent_def)
qed (simp_all add: printed_def)

lemma rowid_at_iff: "rowid_at prev s \<longleftrightarrow> names_rowid prev s (drop 7 s)" "names_rowid prev s r \<Longrightarrow> r = drop 7 s"
proof -
  have "starts_with ''t.rowid'' s \<longleftrightarrow> s = ''t.rowid'' @ drop 7 s"
  proof
    assume "starts_with ''t.rowid'' s"
    then obtain t where "s = ''t.rowid'' @ t" by (auto simp: starts_with_prefix)
    then show "s = ''t.rowid'' @ drop 7 s" by simp
  qed (simp add: starts_with_prefix, blast)
  then show "rowid_at prev s \<longleftrightarrow> names_rowid prev s (drop 7 s)"
    by (auto simp: rowid_at_def names_rowid_def word_at_def head_of_def split: option.splits list.splits)
qed (auto simp: names_rowid_def eval_nat_numeral)

lemma compile_loop_lexed:
  "compile_loop n prev count s = Inr out \<Longrightarrow> \<exists>ps. lexed prev s ps \<and> count + params ps = n \<and> out = printed n ps"
proof (induction n prev count s arbitrary: out rule: compile_loop.induct)
  case (1 n prev count s)
  note step = "1.prems" [unfolded compile_loop.simps [of n prev count s]]
  show ?case
  proof (cases "s = []")
    case True
    then show ?thesis using step by (auto intro!: exI [of _ "[]"] lexed.empty split: if_splits)
  next
    case ne: False
    show ?thesis
    proof (cases "\<exists>f r. fragment s = Inr (Some (f, r))")
      case True
      then obtain f r where fr: "fragment s = Inr (Some (f, r))" by blast
      then obtain x where "compile_loop n (Some (last f)) count r = Inr x" "out = escape_percent n f @ x"
        using step ne by (auto simp: outcome_simps)
      moreover from this "1.IH"(5) [OF ne fr HOL.refl HOL.refl] obtain ps where "lexed (Some (last f)) r ps" "count + params ps = n" "x = printed n ps"
        by blast
      ultimately show ?thesis using fr by (intro exI [of _ "map Text f @ ps"]) (auto simp: fragment_Some intro: lexed.copied)
    next
      case False
      then have fr: "fragment s = Inr None" using step ne by (cases "fragment s") (auto split: option.splits prod.splits)
      show ?thesis
      proof (cases "rowid_at prev s")
        case True
        then obtain x where x: "compile_loop n (Some (CHR ''d'')) count (drop 7 s) = Inr x" "out = ''t.__pool_fifo'' @ x"
          using step ne fr by (auto simp: outcome_simps)
        from "1.IH"(1) [OF ne fr HOL.refl True x(1)] obtain ps where "lexed (Some (CHR ''d'')) (drop 7 s) ps" "count + params ps = n" "x = printed n ps"
          by blast
        moreover have "escape_percent n ''t.__pool_fifo'' = ''t.__pool_fifo''" by (simp add: escape_percent_def)
        ultimately show ?thesis
          using True x(2) lexed.rowid [of prev s "drop 7 s" ps]
          by (intro exI [of _ "map Text ''t.__pool_fifo'' @ ps"]) (simp only: rowid_at_iff(1) params_simps printed_simps simp_thms)
      next
        case nr: False
        note step = step [unfolded fr, simplified ne nr if_False sum.case option.case]
        obtain c r where s: "s = c # r" using ne by (cases s) auto
        have plain: "c \<noteq> CHR ''?'' \<Longrightarrow> (c = CHR '';'' \<Longrightarrow> py_strip r = []) \<Longrightarrow> lexed (Some c) r ps \<Longrightarrow> lexed prev s (Text c # ps)" for ps
          unfolding s using fr nr rowid_at_iff [of prev s] unfolding fragment_None s by (intro lexed.plain) auto
        consider "c = CHR ''?''" | "c = CHR ''%''" | "c \<noteq> CHR ''?''" "c \<noteq> CHR ''%''" by blast
        then show ?thesis
        proof cases
          case 1
          then obtain x where "compile_loop n (Some (hd s)) (Suc count) (tl s) = Inr x" "out = ''%s'' @ x" using step s by (auto simp: outcome_simps)
          moreover from this "1.IH"(2) [OF ne fr HOL.refl nr] obtain ps where "lexed (Some c) r ps" "Suc count + params ps = n" "x = printed n ps"
            using 1 s by auto
          ultimately show ?thesis using 1 by (intro exI [of _ "Param # ps"]) (auto simp: s intro: lexed.mark)
        next
          case 2
          then obtain x where "compile_loop n (Some (hd s)) count (tl s) = Inr x" "out = escape_percent n ''%'' @ x" using step s by (auto simp: outcome_simps)
          moreover from this "1.IH"(3) [OF ne fr HOL.refl nr] obtain ps where "lexed (Some c) r ps" "count + params ps = n" "x = printed n ps"
            using 2 s by auto
          ultimately show ?thesis using 2 plain [of ps] by (intro exI [of _ "Text c # ps"]) auto
        next
          case 3
          then obtain x where x: "compile_loop n (Some (hd s)) count (tl s) = Inr x" "out = c # x" "\<not> (hd s = CHR '';'' \<and> py_strip (tl s) \<noteq> [])"
            using step s by (auto simp: outcome_simps split: if_splits)
          then obtain ps where "lexed (Some c) r ps" "count + params ps = n" "x = printed n ps"
            using "1.IH"(4) [OF ne fr HOL.refl nr _ _ x(3) x(1)] 3 s by auto
          moreover have "escape_percent n [c] = [c]" using 3 by (simp add: escape_percent_def)
          ultimately show ?thesis using 3 plain [of ps] x s by (intro exI [of _ "Text c # ps"]) auto
        qed
      qed
    qed
  qed
qed

lemma lexed_compile_loop: "lexed prev s ps \<Longrightarrow> compile_loop (count + params ps) prev count s = Inr (printed (count + params ps) ps)"
proof (induction arbitrary: count rule: lexed.induct)
  case (empty prev)
  then show ?case by (simp add: compile_loop.simps)
next
  case (copied f r ps prev)
  have "f \<noteq> []" using fragment_split [of "f @ r" f r] fragment_region [OF copied.hyps(1)] by simp
  then show ?case using copied fragment_region [OF copied.hyps(1)] by (subst compile_loop.simps) simp
next
  case (rowid prev s r ps)
  then have s: "rowid_at prev s" "r = drop 7 s" "s = ''t.rowid'' @ r" using rowid_at_iff [of prev s] by (auto simp: names_rowid_def)
  have "\<not> opens s" unfolding s(3) by (auto simp: opens_def)
  then have "fragment s = Inr None" by (simp add: fragment_None)
  moreover have "escape_percent n ''t.__pool_fifo'' = ''t.__pool_fifo''" for n by (simp add: escape_percent_def)
  moreover have "s \<noteq> []" unfolding s(3) by simp
  ultimately show ?case
    using rowid.IH [of count] s(1,2) by (subst compile_loop.simps) (simp only: params_simps printed_simps simp_thms if_True if_False sum.case option.case bindE_simps)
next
  case (mark r ps prev)
  have "\<not> opens (CHR ''?'' # r)" "\<not> rowid_at prev (CHR ''?'' # r)" by (auto simp: opens_def rowid_at_def)
  then have "fragment (CHR ''?'' # r) = Inr None" by (simp add: fragment_None)
  then show ?case using mark.IH [of "Suc count"] \<open>\<not> rowid_at prev (CHR ''?'' # r)\<close> by (subst compile_loop.simps) simp
next
  case (plain c r prev ps)
  then have "fragment (c # r) = Inr None" "\<not> rowid_at prev (c # r)" by (simp_all add: fragment_None rowid_at_iff)
  moreover have "escape_percent n [c] = (if c = CHR ''%'' then escape_percent n ''%'' else [c])" for n by (simp add: escape_percent_def)
  ultimately show ?case using plain by (subst compile_loop.simps) auto
qed

lemma compile_loop_iff:
  "compile_loop n prev count s = Inr out \<longleftrightarrow> (\<exists>ps. lexed prev s ps \<and> count + params ps = n \<and> out = printed n ps)"
  using compile_loop_lexed lexed_compile_loop by metis

lemma driver_reads_printed: "n \<noteq> 0 \<Longrightarrow> driver_reads (printed n ps) = Some ps"
proof (induction ps)
  case (Cons p ps)
  then show ?case by (cases p) (simp_all add: escape_percent_def)
qed simp

lemma driver_reads_Some: "driver_reads out = Some ps \<Longrightarrow> n \<noteq> 0 \<Longrightarrow> out = printed n ps"
proof (induction out arbitrary: ps rule: driver_reads.induct)
  case (2 c s)
  show ?case
  proof (cases "c = CHR ''%''")
    case True
    with "2.prems" obtain d t where s: "s = d # t" by (cases s) simp_all
    with True "2.prems" obtain ps' where "driver_reads t = Some ps'" "d = CHR ''%'' \<and> ps = Text (CHR ''%'') # ps' \<or> d = CHR ''s'' \<and> ps = Param # ps'"
      by (simp split: if_splits) auto
    with "2.IH"(1,2) [OF True s] "2.prems"(2) show ?thesis unfolding True s by (auto simp: escape_percent_def)
  next
    case False
    with "2.prems" obtain ps' where "driver_reads s = Some ps'" "ps = Text c # ps'" by auto
    with "2.IH"(3) [OF False] "2.prems"(2) False show ?thesis by (simp add: escape_percent_def)
  qed
qed simp

lemma printed_plain: "params ps = 0 \<Longrightarrow> out = printed 0 ps \<longleftrightarrow> map Text out = ps"
proof (induction ps arbitrary: out)
  case (Cons p ps)
  then show ?case by (cases p; cases out) (auto simp: escape_percent_def)
qed auto

section \<open>The rewriting of an ignored insertion\<close>

lemma match_ci_iff: "match_ci lit s = Some (a, r) \<longleftrightarrow> s = a @ r \<and> py_lower a = lit"
proof -
  have "length (py_lower x) = length x" for x by (simp add: py_lower_def)
  then show ?thesis by (auto simp: match_ci_def split: if_splits)
qed

lemma blanks_before:
  assumes "blanks g" "py_lower a = c # w" "\<not> py_isspace c"
  shows "takeWhile py_isspace (g @ a @ r) = g" "dropWhile py_isspace (g @ a @ r) = a @ r"
proof -
  obtain d a' where d: "a = d # a'" "lower_char d = c" using assms(2) by (cases a) (auto simp: py_lower_def)
  have "\<not> py_isspace d" using assms(3) d(2) by (auto simp: py_isspace_def lower_char_def is_upper_def)
  then show "takeWhile py_isspace (g @ a @ r) = g" "dropWhile py_isspace (g @ a @ r) = a @ r"
    using assms(1) d(1) by (auto simp: blanks_def list_all_iff takeWhile_append2 dropWhile_append2)
qed

lemma after_gap_iff:
  assumes "w = c # w'" "\<not> py_isspace c"
  shows "after_gap w s = Some r \<longleftrightarrow> (\<exists>g a. s = g @ a @ r \<and> blanks g \<and> g \<noteq> [] \<and> py_lower a = w)"
proof
  assume a: "after_gap w s = Some r"
  define g where "g = takeWhile py_isspace s"
  define t where "t = dropWhile py_isspace s"
  have s: "s = g @ t" "blanks g" unfolding g_def t_def blanks_def by (auto simp: list_all_iff dest: set_takeWhileD)
  from a obtain x where "g \<noteq> []" "match_ci w t = Some (x, r)"
    by (auto simp: after_gap_def g_def t_def split: if_splits)
  with s show "\<exists>g a. s = g @ a @ r \<and> blanks g \<and> g \<noteq> [] \<and> py_lower a = w" by (auto simp: match_ci_iff)
next
  assume "\<exists>g a. s = g @ a @ r \<and> blanks g \<and> g \<noteq> [] \<and> py_lower a = w"
  then obtain g a where s: "s = g @ a @ r" "blanks g" "g \<noteq> []" "py_lower a = w" by blast
  then have "takeWhile py_isspace s = g" "dropWhile py_isspace s = a @ r"
    using blanks_before [OF s(2) _ assms(2)] s(1,4) assms(1) by simp_all
  moreover have "match_ci w (a @ r) = Some (a, r)" using s(4) by (simp add: match_ci_iff)
  ultimately show "after_gap w s = Some r" using s(3) by (simp add: after_gap_def)
qed

lemma insert_or_ignore_iff: "insert_or_ignore s = Some (ws, r) \<longleftrightarrow> ignored_insert s ws r"
proof -
  have sp: "\<not> py_isspace (CHR ''i'')" "\<not> py_isspace (CHR ''o'')" by code_simp+
  note gaps = after_gap_iff [OF HOL.refl sp(2), of "''r''"] after_gap_iff [OF HOL.refl sp(1), of "''gnore''"] after_gap_iff [OF HOL.refl sp(1), of "''nto''"]
  have word: "word_at (head_of t) \<longleftrightarrow> \<not> (t = [] \<or> \<not> is_word (hd t))" for t by (cases t) (simp_all add: word_at_def head_of_def)
  have bind: "insert_or_ignore s = Some (ws, r) \<longleftrightarrow> ws = takeWhile py_isspace s \<and>
      (\<exists>a s1 s2 s4. match_ci ''insert'' (dropWhile py_isspace s) = Some (a, s1) \<and> after_gap ''or'' s1 = Some s2 \<and>
         after_gap ''ignore'' s2 = Some r \<and> after_gap ''into'' r = Some s4 \<and> (s4 = [] \<or> \<not> is_word (hd s4)))"
    by (auto simp: insert_or_ignore_def word bind_eq_Some_conv split: if_splits)
  show ?thesis
  proof
    assume "insert_or_ignore s = Some (ws, r)"
    then obtain a s1 s2 s4 where w: "ws = takeWhile py_isspace s" "dropWhile py_isspace s = a @ s1" "py_lower a = ''insert''"
      and g: "after_gap ''or'' s1 = Some s2" "after_gap ''ignore'' s2 = Some r" "after_gap ''into'' r = Some s4" "s4 = [] \<or> \<not> is_word (hd s4)"
      unfolding bind match_ci_iff by blast
    obtain g1 b g2 c g3 d where p: "s1 = g1 @ b @ s2" "blanks g1" "g1 \<noteq> []" "py_lower b = ''or''" "s2 = g2 @ c @ r" "blanks g2" "g2 \<noteq> []"
      "py_lower c = ''ignore''" "r = g3 @ d @ s4" "blanks g3" "g3 \<noteq> []" "py_lower d = ''into''"
      using g(1-3) unfolding gaps by blast
    have "s = ws @ a @ s1" unfolding w(1) w(2) [symmetric] by simp
    then have s: "s = ws @ a @ g1 @ b @ g2 @ c @ r" by (simp only: p(1,5) append_assoc)
    have ws: "blanks ws" unfolding w(1) blanks_def by (auto simp: list_all_iff dest: set_takeWhileD)
    show "ignored_insert s ws r" unfolding ignored_insert_def
      by (rule exI [of _ a], rule exI [of _ g1], rule exI [of _ b], rule exI [of _ g2], rule exI [of _ c], rule exI [of _ g3], rule exI [of _ d],
          rule exI [of _ s4], intro conjI) (rule s ws p w(3) g(4))+
  next
    assume "ignored_insert s ws r"
    then obtain a g1 b g2 c g3 d t where s: "s = ws @ a @ g1 @ b @ g2 @ c @ r" "r = g3 @ d @ t" "blanks ws" "blanks g1" "g1 \<noteq> []"
        "blanks g2" "g2 \<noteq> []" "blanks g3" "g3 \<noteq> []" "py_lower a = ''insert''" "py_lower b = ''or''" "py_lower c = ''ignore''" "py_lower d = ''into''"
        "t = [] \<or> \<not> is_word (hd t)"
      unfolding ignored_insert_def by blast
    have "takeWhile py_isspace s = ws" "dropWhile py_isspace s = a @ g1 @ b @ g2 @ c @ r"
      using blanks_before [OF s(3,10) sp(1), of "g1 @ b @ g2 @ c @ r"] s(1) by simp_all
    moreover have "after_gap ''or'' (g1 @ b @ g2 @ c @ r) = Some (g2 @ c @ r)" "after_gap ''ignore'' (g2 @ c @ r) = Some r" "after_gap ''into'' r = Some t"
      using s(2,4-9,11-13) by (auto simp: gaps)
    ultimately show "insert_or_ignore s = Some (ws, r)" unfolding bind match_ci_iff using s(10,14) by metis
  qed
qed

lemma rewritten_iff: "rewritten stmt t \<longleftrightarrow> t = rewrite_ignore stmt"
proof (cases "insert_or_ignore stmt")
  case None
  then have "\<nexists>ws rest. ignored_insert stmt ws rest" using insert_or_ignore_iff [of stmt] by auto
  then show ?thesis using None by (simp add: rewritten_def rewrite_ignore_def)
next
  case (Some wr)
  obtain ws r where wr: "wr = (ws, r)" by (rule prod.exhaust)
  then have "ignored_insert stmt a b \<longleftrightarrow> a = ws \<and> b = r" for a b using insert_or_ignore_iff [of stmt a b] Some by auto
  then show ?thesis using Some wr by (auto simp: rewritten_def rewrite_ignore_def)
qed

section \<open>The adapter\<close>

text \<open>C38: The SQL adapter turns exactly the question marks of the SQL text into values. A statement with \<open>n\<close> values compiles to a text if and only if the
  statement, with an \<^verbatim>\<open>INSERT OR IGNORE\<close> rewritten to its \<^verbatim>\<open>ON CONFLICT\<close> form, reads by the lexical rules as one statement with \<open>n\<close> question marks outside quoted text, comments
  and dollar strings, and the driver reads the compiled text as the same characters with its values at the places of these question
  marks and nowhere else; the name \<^verbatim>\<open>t.rowid\<close> alone becomes the ordering column. Without values the driver takes the text as it is.\<close>

theorem compile_preserves_statement:
  "compile_pool_sql stmt n = Inr out \<longleftrightarrow>
     py_strip stmt \<noteq> [] \<and>
     (\<exists>text ps. rewritten stmt text \<and> lexed None text ps \<and> length (filter (\<lambda>p. p = Param) ps) = n \<and>
        (if n = 0 then map Text out = ps else driver_reads out = Some ps))"
proof -
  have "out = printed n ps \<longleftrightarrow> (if n = 0 then map Text out = ps else driver_reads out = Some ps)" if "params ps = n" for ps
    using that printed_plain [of ps out] driver_reads_printed [of n ps] driver_reads_Some [of out ps n] by auto
  then have "(\<exists>ps. lexed None t ps \<and> params ps = n \<and> out = printed n ps) \<longleftrightarrow>
      (\<exists>ps. lexed None t ps \<and> params ps = n \<and> (if n = 0 then map Text out = ps else driver_reads out = Some ps))" for t
    by blast
  then show ?thesis
    unfolding compile_pool_sql_def rewritten_iff params_def [symmetric] by (simp add: compile_loop_iff)
qed

text \<open>A value, a question mark and a percent sign in a quoted text, and a question mark in a comment.\<close>

definition demo_insert :: string where
  "demo_insert = ''INSERT OR IGNORE INTO lanes(a,b) VALUES(?,'' @ [CHR 39] @ ''1%?'' @ [CHR 39] @ '') /* a? */''"

theorem compile_preserves_statement_witness:
  "\<exists>text ps. rewritten demo_insert text \<and> lexed None text ps \<and> length (filter (\<lambda>p. p = Param) ps) = 1 \<and>
     driver_reads (''INSERT INTO lanes(a,b) VALUES(%s,'' @ [CHR 39] @ ''1%%?'' @ [CHR 39] @ '') /* a? */ ON CONFLICT DO NOTHING'') = Some ps"
proof -
  have "compile_pool_sql demo_insert 1 =
      Inr (''INSERT INTO lanes(a,b) VALUES(%s,'' @ [CHR 39] @ ''1%%?'' @ [CHR 39] @ '') /* a? */ ON CONFLICT DO NOTHING'')" by code_simp
  then show ?thesis unfolding compile_preserves_statement by simp
qed

end
