(* ===== verification/Portfolio_Todo.thy ===== *)
theory Portfolio_Todo
  imports Pool_Api Py_Value Iso_Text
begin

text \<open>
  \<^verbatim>\<open>app/portfolio_todo.py\<close>: the admission of a portfolio item, together with a fresh observation
  of its GitHub issue, as a task of the pool. Accents are dropped from keys and values.
\<close>

section \<open>Portfolio admission\<close>

definition string_of :: "pydict \<Rightarrow> string \<Rightarrow> string" where
  "string_of data key = (case get data key of PStr s \<Rightarrow> py_strip s | _ \<Rightarrow> [])"

definition observed_at :: "observation \<Rightarrow> string + timestamp" where
  "observed_at v = (case v of
     NotIso \<Rightarrow> Inl ''github_observation_invalid''
   | NoTimezone \<Rightarrow> Inl ''github_observation_timezone_missing''
   | At t \<Rightarrow> Inr t)"

definition priority_of :: "string \<Rightarrow> int option" where
  "priority_of = map_of [(''P0'', 0), (''P1'', 10), (''P2'', 20), (''P3'', 30)]"

definition todo_types :: "string list" where
  "todo_types = [''Implementacao'', ''Correcao'', ''Validacao'', ''Automacao'']"

definition repo_char :: "char \<Rightarrow> bool" where
  "repo_char c \<longleftrightarrow> is_alnum c \<or> c \<in> set ''_.-''"

text \<open>\<^verbatim>\<open>[A-Za-z0-9_.-]+/[A-Za-z0-9_.-]+\<close>\<close>

definition REPO_NAME :: "string \<Rightarrow> bool" where
  "REPO_NAME s \<longleftrightarrow>
     (let owner = takeWhile repo_char s; rest = dropWhile repo_char s in
      owner \<noteq> [] \<and> starts_with ''/'' rest \<and> tl rest \<noteq> [] \<and> list_all repo_char (tl rest))"

definition SHA40_any_case :: "string \<Rightarrow> bool" where
  "SHA40_any_case s \<longleftrightarrow> length s = 40 \<and> list_all hex_char s"

text \<open>The checks in the order of the code, in four groups: the item, the issue and its links to the item, the
  verified head, the age of the observation with the item's keys.\<close>

definition todo_priority :: "pydict \<Rightarrow> string + int" where
  "todo_priority todo =
     bindE (require (string_of todo ''Fonte'' = ''GitHub'') ''source_not_github'') (\<lambda>_.
     bindE (require (string_of todo ''Status'' = ''PENDENTE'') ''todo_not_pending'') (\<lambda>_.
     bindE (require (string_of todo ''Tipo'' \<in> set todo_types) ''todo_type_not_executable'') (\<lambda>_.
     case priority_of (string_of todo ''Prioridade'') of None \<Rightarrow> Inl ''todo_priority_invalid'' | Some p \<Rightarrow> Inr p)))"

definition issue_identity :: "pydict \<Rightarrow> pydict \<Rightarrow> string + (string \<times> int)" where
  "issue_identity todo issue =
     (let repository = string_of issue ''repository''; repository_url = ''https://github.com/'' @ repository in
      bindE (require (REPO_NAME repository) ''github_repository_invalid'') (\<lambda>_.
      case int_of (get issue ''issue_number'') of
        None \<Rightarrow> Inl ''github_issue_number_invalid''
      | Some number \<Rightarrow>
          (let issue_url = repository_url @ ''/issues/'' @ show_int number in
           bindE (require (0 < number) ''github_issue_number_invalid'') (\<lambda>_.
           bindE (require (string_of issue ''state'' = ''open'') ''github_issue_not_open'') (\<lambda>_.
           bindE (require (get issue ''is_pull_request'' = PBool False) ''github_pull_request_not_issue'') (\<lambda>_.
           bindE (require (string_of issue ''issue_url'' = issue_url) ''github_issue_url_mismatch'') (\<lambda>_.
           bindE (require (string_of todo ''Origem URL'' \<in> {repository_url, issue_url}) ''todo_origin_repository_mismatch'') (\<lambda>_.
           bindE (require (string_of todo ''Identificador externo'' = ''github:'' @ repository @ ''#'' @ show_int number)
                    ''todo_external_issue_id_mismatch'') (\<lambda>_.
           Inr (repository, number))))))))))"

definition verified_base :: "pydict \<Rightarrow> string + string" where
  "verified_base issue =
     (let branch = string_of issue ''default_branch''; main_sha = string_of issue ''verified_head_sha'';
          base_sha = string_of issue ''base_sha'' in
      bindE (require (branch \<noteq> [] \<and> string_of issue ''verified_ref'' = branch) ''github_default_branch_not_verified'') (\<lambda>_.
      bindE (require (SHA40_any_case base_sha \<and> SHA40_any_case main_sha) ''github_sha_invalid'') (\<lambda>_.
      bindE (require (py_lower base_sha = py_lower main_sha) ''github_head_mismatch'') (\<lambda>_.
      Inr (py_lower base_sha)))))"

definition todo_keys :: "pydict \<Rightarrow> string + (string \<times> string)" where
  "todo_keys todo =
     (let correlation_id = string_of todo ''Correlation ID''; logical_key = string_of todo ''Chave de idempotencia'' in
      bindE (require (0 < length correlation_id \<and> length correlation_id \<le> 128) ''todo_correlation_invalid'') (\<lambda>_.
      bindE (require (0 < length logical_key \<and> length logical_key \<le> 512) ''todo_idempotency_key_invalid'') (\<lambda>_.
      Inr (correlation_id, ''todo-'' @ sha256_hex logical_key))))"

definition prepare_portfolio_task :: "pydict \<Rightarrow> pydict \<Rightarrow> observation \<Rightarrow> timestamp \<Rightarrow> string + task_create" where
  "prepare_portfolio_task todo issue observation now =
     bindE (todo_priority todo) (\<lambda>priority.
     bindE (issue_identity todo issue) (\<lambda>(repository, number).
     bindE (verified_base issue) (\<lambda>base_sha.
     bindE (observed_at observation) (\<lambda>observed.
     bindE (require (0 \<le> now - observed \<and> now - observed \<le> seconds 300) ''github_observation_stale_or_future'') (\<lambda>_.
     bindE (todo_keys todo) (\<lambda>(correlation_id, request_id).
     Inr \<lparr>n_repository = repository, n_issue_number = number, n_request_id = request_id,
          n_correlation_id = correlation_id, n_priority = priority, n_base_sha = Some base_sha,
          n_max_attempts = None, n_target_branch = None, n_fencing_required = False\<rparr>))))))"

section \<open>What is admitted\<close>

lemma lower_hex_char: "hex_char c \<Longrightarrow> is_lower_hex (lower_char c)"
  by (auto simp: hex_char_def is_lower_hex_def lower_char_def is_upper_def is_digit_def)

lemma lower_SHA40: "SHA40_any_case s \<Longrightarrow> SHA40 (py_lower s)"
  by (auto simp: SHA40_any_case_def SHA40_def py_lower_def list_all_iff lower_hex_char)

lemma REPO_NAME_slash: "REPO_NAME s \<Longrightarrow> CHR ''/'' \<in> set s \<and> 3 \<le> length s"
proof -
  assume a: "REPO_NAME s"
  define o1 r1 where "o1 = takeWhile repo_char s" and "r1 = dropWhile repo_char s"
  have s: "s = o1 @ r1" by (simp add: o1_def r1_def)
  have "o1 \<noteq> []" "starts_with ''/'' r1" "tl r1 \<noteq> []"
    using a by (auto simp: REPO_NAME_def Let_def o1_def r1_def)
  then show ?thesis unfolding s by (cases o1; cases r1; cases "tl r1") (auto simp: starts_with_def)
qed

lemma todo_priority_Inr: "todo_priority todo = Inr p \<Longrightarrow> p \<in> {0, 10, 20, 30}"
  by (auto simp: todo_priority_def outcome_simps priority_of_def split: option.splits if_splits)

lemma issue_identity_Inr: "issue_identity todo issue = Inr (r, k) \<Longrightarrow> REPO_NAME r \<and> 0 < k"
  by (auto simp: issue_identity_def outcome_simps Let_def split: option.splits)

lemma verified_base_Inr: "verified_base issue = Inr b \<Longrightarrow> SHA40 b \<and> py_lower b = b"
  by (auto simp: verified_base_def outcome_simps Let_def lower_SHA40)

lemma dropWhile_none: "list_all (\<lambda>c. \<not> P c) s \<Longrightarrow> dropWhile P s = s"
  by (cases s) simp_all

lemma strip_no_space: "list_all (\<lambda>c. \<not> py_isspace c) s \<Longrightarrow> py_strip s = s"
  by (simp add: py_strip_def dropWhile_none)

lemma todo_keys_Inr:
  assumes "todo_keys todo = Inr (c, q)"
  shows "len_in 1 128 c \<and> py_strip c = c \<and> len_in 1 256 q \<and> py_strip q = q"
proof -
  have c: "c = string_of todo ''Correlation ID''" "0 < length c" "length c \<le> 128"
    and q: "q = ''todo-'' @ sha256_hex (string_of todo ''Chave de idempotencia'')"
    using assms by (auto simp: todo_keys_def outcome_simps Let_def)
  have "py_strip c = c" unfolding c(1) string_of_def by (auto simp: py_strip_idem strip_no_space split: pyval.split)
  moreover have "list_all (\<lambda>x. \<not> py_isspace x) q"
    unfolding q by (auto simp: list_all_iff py_isspace_def dest!: sha256_hex_lower_hex) (auto simp: is_lower_hex_def)
  moreover have "1 \<le> length c" using c(2) by linarith
  ultimately show ?thesis using c(3) q by (simp add: len_in_def strip_no_space)
qed

text \<open>C39: A prepared item is a task the pool takes, up to the length of the repository's name. Whatever the observation, a payload
  that the adapter returns passes the bounds of the task route exactly when the name of its repository has at most 256
  characters, which the adapter does not check; a store that allows at least one attempt never refuses it as a bad value; it carries a
  lower-case base commit, and the observation behind it is at most five minutes old and not in the future.\<close>

theorem portfolio_task_accepted:
  assumes "prepare_portfolio_task todo issue ob now = Inr n"
  shows "(ok_TaskCreate n \<longleftrightarrow> length (n_repository n) \<le> 256) \<and>
    (1 \<le> default_max_attempts cfg \<longrightarrow> (\<forall>msg. fst (enqueue_task cfg stamp n db) \<noteq> Inl (ValueError msg))) \<and>
    SHA40 (opt_text (n_base_sha n)) \<and> (\<exists>t. ob = At t \<and> t \<le> now \<and> now \<le> t + seconds 300)"
proof -
  obtain p r k b t c q where
    parts: "todo_priority todo = Inr p" "issue_identity todo issue = Inr (r, k)" "verified_base issue = Inr b"
      "todo_keys todo = Inr (c, q)" and t: "ob = At t" "0 \<le> now - t" "now - t \<le> seconds 300"
    and n: "n = \<lparr>n_repository = r, n_issue_number = k, n_request_id = q, n_correlation_id = c, n_priority = p,
      n_base_sha = Some b, n_max_attempts = None, n_target_branch = None, n_fencing_required = False\<rparr>"
    using assms(1) by (auto simp: prepare_portfolio_task_def outcome_simps observed_at_def split: observation.splits)
  note f = todo_priority_Inr [OF parts(1)] issue_identity_Inr [OF parts(2)] verified_base_Inr [OF parts(3)]
    todo_keys_Inr [OF parts(4)]
  have s: "CHR ''/'' \<in> set r \<and> 3 \<le> length r" using f(2) REPO_NAME_slash by blast
  have b: "length b = 40" "b \<noteq> []" "SHA40 (py_lower b)" using f(3) by (auto simp: SHA40_def)
  have "ok_TaskCreate n \<longleftrightarrow> length (n_repository n) \<le> 256"
    using f s b by (auto simp: ok_TaskCreate_def n len_in_def int_in_def opt_all_def)
  moreover have "fst (enqueue_task cfg stamp n db) \<noteq> Inl (ValueError msg)" if "1 \<le> default_max_attempts cfg" for msg
    using f s b that
    by (auto simp: n enqueue_task_def enqueue_branch_def enqueue_tx_def run_tx_def sql_insert_task_def int_or_def
        len_in_def opt_text_def Let_def bindE_def split: if_splits sum.splits option.splits)
  ultimately show ?thesis using f(3) t by (simp add: n opt_text_def)
qed

definition demo_sha40 :: string where
  "demo_sha40 = replicate 40 (CHR ''A'')"

definition demo_todo :: pydict where
  "demo_todo = [(''Fonte'', PStr ''GitHub''), (''Status'', PStr ''PENDENTE''), (''Tipo'', PStr ''Correcao''),
     (''Prioridade'', PStr ''P1''), (''Origem URL'', PStr ''https://github.com/o/r''),
     (''Identificador externo'', PStr ''github:o/r#7''), (''Correlation ID'', PStr ''c''),
     (''Chave de idempotencia'', PStr ''k'')]"

definition demo_issue :: pydict where
  "demo_issue = [(''repository'', PStr ''o/r''), (''issue_number'', PInt 7), (''state'', PStr ''open''),
     (''is_pull_request'', PBool False), (''issue_url'', PStr ''https://github.com/o/r/issues/7''),
     (''default_branch'', PStr ''main''), (''verified_ref'', PStr ''main''),
     (''verified_head_sha'', PStr demo_sha40), (''base_sha'', PStr demo_sha40)]"

definition demo_payload :: task_create where
  "demo_payload = \<lparr>n_repository = ''o/r'', n_issue_number = 7, n_request_id = ''todo-'' @ sha256_hex ''k'',
     n_correlation_id = ''c'', n_priority = 10, n_base_sha = Some (replicate 40 (CHR ''a'')), n_max_attempts = None,
     n_target_branch = None, n_fencing_required = False\<rparr>"

lemma demo_prepared: "prepare_portfolio_task demo_todo demo_issue (At 5) 9 = Inr demo_payload"
proof -
  have "todo_priority demo_todo = Inr 10" "issue_identity demo_todo demo_issue = Inr (''o/r'', 7)"
    "verified_base demo_issue = Inr (replicate 40 (CHR ''a''))"
    "string_of demo_todo ''Correlation ID'' = ''c''" "string_of demo_todo ''Chave de idempotencia'' = ''k''"
    "(0::int) \<le> 9 - 5 \<and> (9::int) - 5 \<le> seconds 300"
    by code_simp+
  then show ?thesis
    by (simp add: prepare_portfolio_task_def observed_at_def require_def bindE_def todo_keys_def demo_payload_def)
qed

definition demo_long :: string where
  "demo_long = ''o/'' @ replicate 255 (CHR ''r'')"

definition demo_long_todo :: pydict where
  "demo_long_todo = [(''Fonte'', PStr ''GitHub''), (''Status'', PStr ''PENDENTE''), (''Tipo'', PStr ''Correcao''),
     (''Prioridade'', PStr ''P1''), (''Origem URL'', PStr (''https://github.com/'' @ demo_long)),
     (''Identificador externo'', PStr (''github:'' @ demo_long @ ''#7'')), (''Correlation ID'', PStr ''c''),
     (''Chave de idempotencia'', PStr ''k'')]"

definition demo_long_issue :: pydict where
  "demo_long_issue = [(''repository'', PStr demo_long), (''issue_number'', PInt 7), (''state'', PStr ''open''),
     (''is_pull_request'', PBool False), (''issue_url'', PStr (''https://github.com/'' @ demo_long @ ''/issues/7'')),
     (''default_branch'', PStr ''main''), (''verified_ref'', PStr ''main''),
     (''verified_head_sha'', PStr demo_sha40), (''base_sha'', PStr demo_sha40)]"

lemma demo_long_prepared:
  "prepare_portfolio_task demo_long_todo demo_long_issue (At 5) 9 = Inr (demo_payload\<lparr>n_repository := demo_long\<rparr>)"
proof -
  have "todo_priority demo_long_todo = Inr 10" "issue_identity demo_long_todo demo_long_issue = Inr (demo_long, 7)"
    "verified_base demo_long_issue = Inr (replicate 40 (CHR ''a''))"
    "string_of demo_long_todo ''Correlation ID'' = ''c''" "string_of demo_long_todo ''Chave de idempotencia'' = ''k''"
    "(0::int) \<le> 9 - 5 \<and> (9::int) - 5 \<le> seconds 300"
    by code_simp+
  then show ?thesis
    by (simp add: prepare_portfolio_task_def observed_at_def require_def bindE_def todo_keys_def demo_payload_def)
qed

text \<open>An item with a short name, and one with a name that the adapter lets through and the route refuses.\<close>

theorem portfolio_task_accepted_witness:
  "prepare_portfolio_task demo_todo demo_issue (At 5) 9 = Inr demo_payload \<and> ok_TaskCreate demo_payload \<and>
   (\<forall>msg. fst (enqueue_task demo_cfg 10 demo_payload empty_db) \<noteq> Inl (ValueError msg)) \<and>
   prepare_portfolio_task demo_long_todo demo_long_issue (At 5) 9 = Inr (demo_payload\<lparr>n_repository := demo_long\<rparr>) \<and>
   \<not> ok_TaskCreate (demo_payload\<lparr>n_repository := demo_long\<rparr>)"
  using demo_prepared portfolio_task_accepted [OF demo_prepared, of demo_cfg 10 empty_db]
    demo_long_prepared portfolio_task_accepted [OF demo_long_prepared, of demo_cfg 10 empty_db]
  by (simp add: demo_payload_def demo_cfg_def demo_long_def)

end
