(* ===== verification/Portfolio_Bridge.thy ===== *)
theory Portfolio_Bridge
  imports Portfolio_Todo Py_Effect Py_Repr
begin

text \<open>
  \<^verbatim>\<open>app/portfolio_bridge.py\<close>: the bridge that reads an item of the portfolio (Notion) and its GitHub issue, prepares the task with
  \<open>prepare_portfolio_task\<close> and, when it is asked to execute in the development environment, submits it to the pool on the
  loopback interface and reads it back. What opens a URL is an argument. A rejection and an exception that nobody catches are both errors of an
  action; the latter by the name of its class. Accents are dropped from keys.
\<close>

section \<open>Transport\<close>

record http_call =
  hc_service :: string
  hc_method :: string
  hc_url :: string
  hc_token :: string
  hc_body :: "task_create option"

text \<open>What opening a URL gives: an HTTP error hs, no answer, or a hs with the bytes read and their JSON, if they are JSON.\<close>

datatype http_outcome = HttpFailure int | Unreachable | HttpAnswer int string "pyval option"

definition BRIDGE_RESPONSE_BYTES :: nat where
  "BRIDGE_RESPONSE_BYTES = 262144"

definition loopback_host :: "url \<Rightarrow> bool" where
  "loopback_host u \<longleftrightarrow> hostname u \<in> {Some ''127.0.0.1'', Some ''localhost''}"

definition endpoint_check :: "string \<Rightarrow> string \<Rightarrow> string + unit" where
  "endpoint_check service address =
     (let u = urlparse address in
      if service = ''notion'' \<and> u_scheme u = ''https'' \<and> u_netloc u = ''api.notion.com'' \<or>
         service = ''github'' \<and> u_scheme u = ''https'' \<and> u_netloc u = ''api.github.com'' then Inr ()
      else if service = ''worker'' \<and> u_scheme u = ''http'' \<and> loopback_host u
      then bindE (port u) (\<lambda>p. require (p \<noteq> None) ''endpoint_not_allowed'')
      else Inl ''endpoint_not_allowed'')"

text \<open>The rejection of an oversized answer is itself a \<^verbatim>\<open>ValueError\<close> inside the block that turns those into one reason.\<close>

definition answer_of :: "string \<Rightarrow> http_outcome \<Rightarrow> string + (int \<times> pyval)" where
  "answer_of service outcome =
     (let broken = Inl (service @ ''_unavailable_or_invalid_json'') in
      case outcome of
        HttpFailure hs \<Rightarrow> Inl (service @ ''_http_'' @ show_int hs)
      | Unreachable \<Rightarrow> broken
      | HttpAnswer hs raw parsed \<Rightarrow>
          (if BRIDGE_RESPONSE_BYTES < length raw then broken
           else (case parsed of None \<Rightarrow> broken | Some v \<Rightarrow> Inr (hs, v))))"

type_synonym 'w opener = "http_call \<Rightarrow> (http_outcome, 'w) act"

definition transport_request ::
  "'w opener \<Rightarrow> string \<Rightarrow> string \<Rightarrow> string \<Rightarrow> string \<Rightarrow> task_create option \<Rightarrow> (int \<times> pyval, 'w) act" where
  "transport_request op service method address key data =
     andthen (lift (endpoint_check service address)) (\<lambda>_.
     andthen (check (method \<in> {''GET'', ''POST''}) ''method_not_allowed'') (\<lambda>_.
     andthen (op \<lparr>hc_service = service, hc_method = method, hc_url = address, hc_token = key, hc_body = data\<rparr>) (\<lambda>outcome.
     lift (answer_of service outcome))))"

definition bridge_get :: "'w opener \<Rightarrow> string \<Rightarrow> string \<Rightarrow> string \<Rightarrow> (pyval, 'w) act" where
  "bridge_get op service address key =
     andthen (transport_request op service ''GET'' address key None) (\<lambda>(hs, data).
     andthen (check (hs = 200) (service @ ''_get_failed'')) (\<lambda>_. ret data))"

section \<open>The page\<close>

definition attribute_error :: string where
  "attribute_error = ''AttributeError''"

text \<open>\<^verbatim>\<open>(value or {}).get(key)\<close>.\<close>

definition inner_get :: "pyval \<Rightarrow> string \<Rightarrow> string + pyval" where
  "inner_get v key = (if \<not> truthy v then Inr PNone else case v of PDict d \<Rightarrow> Inr (get d key) | _ \<Rightarrow> Inl attribute_error)"

definition or_value :: "pyval \<Rightarrow> pyval \<Rightarrow> pyval" where
  "or_value a b = (if truthy a then a else b)"

text \<open>\<^verbatim>\<open>str(value or "").strip()\<close>.\<close>

definition text_or_empty :: "(rat \<Rightarrow> string) \<Rightarrow> pyval \<Rightarrow> string" where
  "text_or_empty ft v = (if truthy v then str_value ft v else [])"

fun rich_parts :: "(rat \<Rightarrow> string) \<Rightarrow> pyval list \<Rightarrow> string + string" where
  "rich_parts ft [] = Inr []"
| "rich_parts ft (v # vs) = (case v of
     PDict d \<Rightarrow>
       bindE (if truthy (get d ''plain_text'') then Inr (get d ''plain_text'') else inner_get (get d ''text'') ''content'') (\<lambda>x.
       bindE (rich_parts ft vs) (\<lambda>rest. Inr (text_or_empty ft x @ rest)))
   | _ \<Rightarrow> rich_parts ft vs)"

text \<open>What a loop over a value sees of mappings: the elements of a list; nothing of a text or of the keys of a mapping; other values raise.\<close>

definition looped :: "pyval \<Rightarrow> string + pyval list" where
  "looped v = (case v of PList vs \<Rightarrow> Inr vs | PStr _ \<Rightarrow> Inr [] | PDict _ \<Rightarrow> Inr [] | _ \<Rightarrow> Inl ''TypeError'')"

definition property_of :: "(rat \<Rightarrow> string) \<Rightarrow> pydict \<Rightarrow> string \<Rightarrow> string + string" where
  "property_of ft properties name =
     (case get properties name of
        PDict data \<Rightarrow>
          (if get data ''type'' = PStr ''select''
           then bindE (inner_get (get data ''select'') ''name'') (\<lambda>v. Inr (py_strip (text_or_empty ft v)))
           else if get data ''type'' = PStr ''url'' then Inr (py_strip (text_or_empty ft (get data ''url'')))
           else if get data ''type'' = PStr ''rich_text''
           then bindE (if ''rich_text'' \<in> fst ` set data then looped (get data ''rich_text'') else Inr []) (\<lambda>vs.
                bindE (rich_parts ft vs) (\<lambda>s. Inr (py_strip s)))
           else Inr [])
      | _ \<Rightarrow> Inr [])"

definition FIELDS :: "string list" where
  "FIELDS = [''Fonte'', ''Status'', ''Tipo'', ''Prioridade'', ''Origem URL'', ''Identificador externo'', ''Chave de idempotencia'', ''Correlation ID'']"

fun properties_of :: "(rat \<Rightarrow> string) \<Rightarrow> pydict \<Rightarrow> string list \<Rightarrow> string + pydict" where
  "properties_of ft d [] = Inr []"
| "properties_of ft d (k # ks) =
     bindE (property_of ft d k) (\<lambda>s. bindE (properties_of ft d ks) (\<lambda>rest. Inr ((k, PStr s) # rest)))"

definition plain_id :: "string \<Rightarrow> string" where
  "plain_id s = py_lower (filter (\<lambda>c. c \<noteq> CHR ''-'') s)"

definition validated_notion_page :: "(rat \<Rightarrow> string) \<Rightarrow> pydict \<Rightarrow> string \<Rightarrow> string + pydict" where
  "validated_notion_page ft page source =
     bindE (require (get page ''object'' = PStr ''page'') ''notion_page_invalid'') (\<lambda>_.
     bindE (require (case get page ''parent'' of
              PDict parent \<Rightarrow> get parent ''type'' = PStr ''data_source_id'' \<and>
                (case get parent ''data_source_id'' of PStr s \<Rightarrow> plain_id s = plain_id source | _ \<Rightarrow> False)
            | _ \<Rightarrow> False) ''notion_source_mismatch'') (\<lambda>_.
     case get page ''properties'' of
       PDict properties \<Rightarrow> properties_of ft properties FIELDS
     | _ \<Rightarrow> Inl ''notion_properties_invalid''))"

definition read_notion :: "(rat \<Rightarrow> string) \<Rightarrow> 'w opener \<Rightarrow> string \<Rightarrow> string \<Rightarrow> string \<Rightarrow> (pydict, 'w) act" where
  "read_notion ft op page_id source key =
     andthen (bridge_get op ''notion'' (''https://api.notion.com/v1/pages/'' @ page_id) key) (\<lambda>v. case v of
       PDict page \<Rightarrow>
         andthen (lift (case (if ''id'' \<in> fst ` set page then get page ''id'' else PStr []) of
           PStr s \<Rightarrow> (case uuid_text s of None \<Rightarrow> Inl ''notion_page_id_invalid'' | Some i \<Rightarrow> Inr i)
         | _ \<Rightarrow> Inl ''notion_page_id_invalid'')) (\<lambda>returned.
         andthen (check (returned = page_id) ''notion_page_id_mismatch'') (\<lambda>_.
         andthen (check (get page ''archived'' = PBool False \<and> get page ''in_trash'' = PBool False) ''notion_page_not_active'') (\<lambda>_.
         lift (validated_notion_page ft page source))))
     | _ \<Rightarrow> raise ''notion_page_invalid'')"

section \<open>The issue\<close>

text \<open>\<^verbatim>\<open>^github:([A-Za-z0-9_.-]+/[A-Za-z0-9_.-]+)#([1-9][0-9]*)$\<close>: repository and number.\<close>

definition external_id :: "string \<Rightarrow> (string \<times> string) option" where
  "external_id s =
     (let rest = drop 7 s; repo = before_char (CHR ''#'') rest; number_text = after_char (CHR ''#'') rest in
      if starts_with ''github:'' s \<and> CHR ''#'' \<in> set rest \<and> REPO_NAME repo \<and>
         number_text \<noteq> [] \<and> list_all is_digit number_text \<and> hd number_text \<noteq> CHR ''0''
      then Some (repo, number_text) else None)"

record github_snapshot =
  gs_issue :: pydict
  gs_branch :: string
  gs_sha :: string

definition snapshot_issue :: "string \<Rightarrow> int \<Rightarrow> string \<Rightarrow> string \<Rightarrow> pydict" where
  "snapshot_issue repo nr br sha =
     [(''repository'', PStr repo), (''issue_number'', PInt nr), (''issue_url'', PStr (''https://github.com/'' @ repo @ ''/issues/'' @ show_int nr)),
      (''state'', PStr ''open''), (''is_pull_request'', PBool False), (''default_branch'', PStr br), (''verified_ref'', PStr br),
      (''verified_head_sha'', PStr sha), (''base_sha'', PStr sha)]"

definition open_issue_answer :: "string \<Rightarrow> int \<Rightarrow> pyval \<Rightarrow> bool" where
  "open_issue_answer repo nr v \<longleftrightarrow> (case v of
     PDict issue \<Rightarrow> get issue ''number'' = PInt nr \<and> get issue ''state'' = PStr ''open'' \<and> ''pull_request'' \<notin> fst ` set issue \<and>
       get issue ''html_url'' = PStr (''https://github.com/'' @ repo @ ''/issues/'' @ show_int nr)
   | _ \<Rightarrow> False)"

definition ref_commit :: "string \<Rightarrow> pyval \<Rightarrow> string + string" where
  "ref_commit br v =
     bindE (case v of PDict r \<Rightarrow> if get r ''ref'' = PStr (''refs/heads/'' @ br) then Inr r else Inl ''github_ref_identity_mismatch''
       | _ \<Rightarrow> Inl ''github_ref_identity_mismatch'') (\<lambda>r.
     case get r ''object'' of
       PDict obj \<Rightarrow>
         bindE (case get obj ''sha'' of PStr sha \<Rightarrow> if SHA40 sha then Inr sha else Inl ''github_ref_missing'' | _ \<Rightarrow> Inl ''github_ref_missing'') (\<lambda>sha.
         bindE (require (get obj ''type'' = PStr ''commit'') ''github_ref_not_commit'') (\<lambda>_. Inr sha))
     | _ \<Rightarrow> Inl ''github_ref_missing'')"

definition read_github :: "(rat \<Rightarrow> string) \<Rightarrow> 'w opener \<Rightarrow> string \<Rightarrow> string \<Rightarrow> (github_snapshot, 'w) act" where
  "read_github ft op ext key =
     (case external_id ext of
        None \<Rightarrow> raise ''github_external_id_invalid''
      | Some (repo, number_text) \<Rightarrow>
          (let root = ''https://api.github.com/repos/'' @ url_quote (before_char (CHR ''/'') repo) @ ''/'' @ url_quote (after_char (CHR ''/'') repo);
               nr = decimal number_text in
           andthen (bridge_get op ''github'' root key) (\<lambda>v.
           andthen (lift (case v of PDict d \<Rightarrow> if get d ''full_name'' = PStr repo then Inr d else Inl ''github_repo_mismatch''
                    | _ \<Rightarrow> Inl ''github_repo_mismatch'')) (\<lambda>metadata.
           let br = py_strip (text_or_empty ft (get metadata ''default_branch'')) in
           andthen (check (br \<noteq> [] \<and> length br \<le> 200) ''github_default_branch_missing'') (\<lambda>_.
           andthen (check (length number_text \<le> 4300) ''ValueError'') (\<lambda>_.
           andthen (bridge_get op ''github'' (root @ ''/issues/'' @ show_int nr) key) (\<lambda>issue.
           andthen (check (open_issue_answer repo nr issue) ''github_issue_not_open_or_mismatch'') (\<lambda>_.
           andthen (bridge_get op ''github'' (root @ ''/git/ref/heads/'' @ url_quote br) key) (\<lambda>reference.
           andthen (lift (ref_commit br reference)) (\<lambda>sha.
           ret \<lparr>gs_issue = snapshot_issue repo nr br sha, gs_branch = br, gs_sha = sha\<rparr>))))))))))"

section \<open>The run\<close>

text \<open>\<^verbatim>\<open>rstrip("/")\<close>.\<close>

definition without_slashes :: "string \<Rightarrow> string" where
  "without_slashes s = rev (dropWhile (\<lambda>c. c = CHR ''/'') (rev s))"

definition allowed_worker_url :: "string \<Rightarrow> string + string" where
  "allowed_worker_url base =
     (let u = urlparse (without_slashes base) in
      if u_scheme u = ''http'' \<and> loopback_host u
      then bindE (port u) (\<lambda>p.
           bindE (require (p \<noteq> None \<and> \<not> (credentials u \<or> u_query u \<noteq> [] \<or> u_fragment u \<noteq> []) \<and> u_path u \<in> {[], ''/''}) ''worker_must_be_loopback'') (\<lambda>_.
           Inr (without_slashes base)))
      else Inl ''worker_must_be_loopback'')"

record bridge_options =
  bo_page_id :: string
  bo_source_id :: string
  bo_notion_token :: string
  bo_github_token :: string
  bo_worker_token :: string
  bo_worker_url :: string
  bo_execute :: bool
  bo_environment :: string

definition lane_admitted :: "string \<Rightarrow> pyval list \<Rightarrow> bool" where
  "lane_admitted repository lanes \<longleftrightarrow>
     (case find (\<lambda>v. case v of PDict d \<Rightarrow> get d ''repository'' = PStr repository | _ \<Rightarrow> False) lanes of
        Some (PDict lane) \<Rightarrow> get lane ''enabled'' = PBool True \<and> py_eq (get lane ''max_in_flight'') (PInt 1)
      | _ \<Rightarrow> False)"

definition ready_state :: "task_create \<Rightarrow> pydict" where
  "ready_state n =
     [(''state'', PStr ''ready_for_dispatch''), (''repository'', PStr (n_repository n)), (''issue_number'', PInt (n_issue_number n)),
      (''base_sha'', opt_str (n_base_sha n)), (''request_id'', PStr (n_request_id n)), (''dispatched'', PBool False)]"

definition verified_state :: "task_create \<Rightarrow> string \<Rightarrow> pyval \<Rightarrow> pydict" where
  "verified_state n tid created =
     [(''state'', PStr ''enqueued_verified''), (''repository'', PStr (n_repository n)), (''issue_number'', PInt (n_issue_number n)),
      (''base_sha'', opt_str (n_base_sha n)), (''request_id'', PStr (n_request_id n)), (''dispatched'', PBool True),
      (''task_id'', PStr tid), (''created'', created)]"

definition enqueue_answer :: "int \<Rightarrow> pyval \<Rightarrow> string + (string \<times> pyval option)" where
  "enqueue_answer hs v =
     bindE (case v of PDict d \<Rightarrow> if hs \<in> {200, 201} then Inr d else Inl ''worker_enqueue_not_confirmed'' | _ \<Rightarrow> Inl ''worker_enqueue_not_confirmed'') (\<lambda>d.
     bindE (inner_get (get d ''task'') ''task_id'') (\<lambda>t. case t of
       PStr tid \<Rightarrow>
         bindE (require (0 < length tid \<and> length tid < 256) ''worker_task_id_missing'') (\<lambda>_.
         bindE (require (hs = 201 \<longleftrightarrow> get d ''created'' = PBool True) ''worker_created_state_invalid'') (\<lambda>_.
         Inr (tid, map_of d ''created'')))
     | _ \<Rightarrow> Inl ''worker_task_id_missing''))"

definition bridge_readback :: "task_create \<Rightarrow> string \<Rightarrow> pyval \<Rightarrow> string + unit" where
  "bridge_readback n tid v = (case v of
     PDict d \<Rightarrow>
       bindE (require (py_eq (get d ''repository'') (PStr (n_repository n)) \<and> py_eq (get d ''issue_number'') (PInt (n_issue_number n)) \<and>
              py_eq (get d ''base_sha'') (opt_str (n_base_sha n)) \<and> py_eq (get d ''request_id'') (PStr (n_request_id n)) \<and>
              py_eq (get d ''correlation_id'') (PStr (n_correlation_id n))) ''worker_readback_mismatch'') (\<lambda>_.
       require (get d ''task_id'' = PStr tid \<and> ''lease_token'' \<notin> fst ` set d) ''worker_readback_invalid'')
   | _ \<Rightarrow> Inl attribute_error)"

text \<open>The part that only an execution reaches: the lane, the second reading, the submission and the readback.\<close>

definition dispatch ::
  "(rat \<Rightarrow> string) \<Rightarrow> 'w opener \<Rightarrow> bridge_options \<Rightarrow> string \<Rightarrow> string \<Rightarrow> pydict \<Rightarrow> github_snapshot \<Rightarrow> task_create \<Rightarrow> (pydict, 'w) act" where
  "dispatch ft op bo page_id source todo snap n =
     andthen (check (bo_environment bo = ''dev'') ''execute_dev_only'') (\<lambda>_.
     andthen (check (bo_worker_token bo \<noteq> [] \<and> bo_worker_url bo \<noteq> []) ''worker_credentials_missing'') (\<lambda>_.
     andthen (lift (allowed_worker_url (bo_worker_url bo))) (\<lambda>base.
     andthen (bridge_get op ''worker'' (base @ ''/v1/repositories'') (bo_worker_token bo)) (\<lambda>v.
     andthen (lift (case v of PList lanes \<Rightarrow> Inr lanes | _ \<Rightarrow> Inl ''worker_lanes_invalid'')) (\<lambda>lanes.
     andthen (check (lane_admitted (n_repository n) lanes) ''worker_lane_not_admitted'') (\<lambda>_.
     andthen (read_notion ft op page_id source (bo_notion_token bo)) (\<lambda>reread.
     andthen (check (reread = todo) ''todo_changed_before_dispatch'') (\<lambda>_.
     andthen (read_github ft op (string_of todo ''Identificador externo'') (bo_github_token bo)) (\<lambda>latest.
     andthen (check (gs_branch latest = gs_branch snap) ''github_default_branch_changed_before_dispatch'') (\<lambda>_.
     andthen (check (Some (gs_sha latest) = n_base_sha n) ''github_head_changed_before_dispatch'') (\<lambda>_.
     andthen (transport_request op ''worker'' ''POST'' (base @ ''/v1/tasks'') (bo_worker_token bo) (Some n)) (\<lambda>(hs, v).
     andthen (lift (enqueue_answer hs v)) (\<lambda>(tid, created).
     andthen (bridge_get op ''worker'' (base @ ''/v1/tasks/'' @ url_quote tid) (bo_worker_token bo)) (\<lambda>readback.
     andthen (lift (bridge_readback n tid readback)) (\<lambda>_.
     lift (case created of None \<Rightarrow> Inl ''KeyError'' | Some c \<Rightarrow> Inr (verified_state n tid c)))))))))))))))))"

definition run_page :: "(rat \<Rightarrow> string) \<Rightarrow> 'w opener \<Rightarrow> bridge_options \<Rightarrow> timestamp option \<Rightarrow> (pydict, 'w) act" where
  "run_page ft op bo clock =
     andthen (lift (case (uuid_text (bo_page_id bo), uuid_text (bo_source_id bo)) of
       (Some p, Some s) \<Rightarrow> Inr (p, s) | _ \<Rightarrow> Inl ''notion_id_invalid'')) (\<lambda>(page_id, source).
     andthen (check (bo_notion_token bo \<noteq> [] \<and> bo_github_token bo \<noteq> []) ''source_tokens_missing'') (\<lambda>_.
     andthen (lift (case clock of None \<Rightarrow> Inl ''clock_timezone_missing'' | Some t \<Rightarrow> Inr t)) (\<lambda>now.
     andthen (read_notion ft op page_id source (bo_notion_token bo)) (\<lambda>todo.
     andthen (check (get todo ''Status'' = PStr ''PENDENTE'') ''todo_not_pending'') (\<lambda>_.
     andthen (check (get todo ''Fonte'' = PStr ''GitHub'') ''todo_source_invalid'') (\<lambda>_.
     andthen (read_github ft op (string_of todo ''Identificador externo'') (bo_github_token bo)) (\<lambda>snap.
     andthen (lift (prepare_portfolio_task todo (gs_issue snap) (At now) now)) (\<lambda>n.
     if \<not> bo_execute bo then ret (ready_state n)
     else dispatch ft op bo page_id source todo snap n))))))))"

text \<open>A token file: its text, unless it cannot be read.\<close>

definition token_from_file :: "string \<Rightarrow> string option \<Rightarrow> string + string" where
  "token_from_file path content =
     bindE (require (path \<noteq> []) ''token_file_path_missing'') (\<lambda>_.
     case content of
       None \<Rightarrow> Inl ''token_file_unavailable''
     | Some raw \<Rightarrow> bindE (require (1 \<le> length (py_strip raw) \<and> length (py_strip raw) \<le> 4096) ''token_file_invalid'') (\<lambda>_. Inr (py_strip raw)))"

end
