(* ===== verification/Bridge_Calls.thy ===== *)
theory Bridge_Calls
  imports Portfolio_Bridge
begin

text \<open>
  The calls that the portfolio bridge makes: where each credential goes, and what is written, whatever the three services answer.
\<close>

section \<open>Calls of an action\<close>

text \<open>A world that keeps a list of the calls made.\<close>

definition recording :: "('w \<Rightarrow> http_call list) \<Rightarrow> 'w opener \<Rightarrow> bool" where
  "recording calls op \<longleftrightarrow> (\<forall>c w. calls (snd (op c w)) = calls w @ [c])"

definition posted :: "http_call \<Rightarrow> bool" where
  "posted c \<longleftrightarrow> hc_method c = ''POST''"

definition makes :: "('w \<Rightarrow> http_call list) \<Rightarrow> (http_call \<Rightarrow> bool) \<Rightarrow> nat \<Rightarrow> ('a, 'w) act \<Rightarrow> bool" where
  "makes calls P n m \<longleftrightarrow>
     (\<forall>w. \<exists>new. calls (snd (m w)) = calls w @ new \<and> (\<forall>c\<in>set new. P c) \<and> length (filter posted new) \<le> n)"

lemma makes_mono: "makes calls P n m \<Longrightarrow> n \<le> k \<Longrightarrow> makes calls P k m"
  unfolding makes_def by (meson le_trans)

lemma makes_pure [simp]: "makes calls P n (ret a)" "makes calls P n (raise e)" "makes calls P n (lift r)" "makes calls P n (check b e)"
  by (auto simp: makes_def ret_def raise_def lift_def check_def)

lemma makes_andthen:
  assumes "makes calls P n m" "\<And>a. makes calls P k (f a)"
  shows "makes calls P (n + k) (andthen m f)"
  unfolding makes_def
proof
  fix w
  obtain r w1 where r: "m w = (r, w1)" by fastforce
  obtain new where new: "calls w1 = calls w @ new" "\<forall>c\<in>set new. P c" "length (filter posted new) \<le> n"
    using assms(1) r unfolding makes_def by (metis snd_conv)
  show "\<exists>new. calls (snd (andthen m f w)) = calls w @ new \<and> (\<forall>c\<in>set new. P c) \<and> length (filter posted new) \<le> n + k"
  proof (cases r)
    case (Inl e)
    then show ?thesis using new by (auto simp: andthen_def r intro!: exI [of _ new])
  next
    case (Inr a)
    obtain more where "calls (snd (f a w1)) = calls w1 @ more" "\<forall>c\<in>set more. P c" "length (filter posted more) \<le> k"
      using assms(2) [of a] unfolding makes_def by blast
    then show ?thesis using new by (auto simp: andthen_def r Inr intro!: exI [of _ "new @ more"])
  qed
qed

lemma makes_free: "makes calls P 0 m \<Longrightarrow> (\<And>a. makes calls P n (f a)) \<Longrightarrow> makes calls P n (andthen m f)"
  using makes_andthen [of calls P 0 m n f] by simp

lemma makes_pay: "makes calls P n m \<Longrightarrow> (\<And>a. makes calls P 0 (f a)) \<Longrightarrow> makes calls P n (andthen m f)"
  using makes_andthen [of calls P n m 0 f] by simp

lemma makes_check: "(b \<Longrightarrow> makes calls P n (f ())) \<Longrightarrow> makes calls P n (andthen (check b e) f)"
  by (cases b) (auto simp: makes_def andthen_def check_def ret_def raise_def)

lemma makes_lift: "(\<And>a. r = Inr a \<Longrightarrow> makes calls P n (f a)) \<Longrightarrow> makes calls P n (andthen (lift r) f)"
  by (cases r) (auto simp: makes_def andthen_def lift_def)

section \<open>Where the bridge calls\<close>

definition origin_ok :: "bridge_options \<Rightarrow> http_call \<Rightarrow> bool" where
  "origin_ok bo c \<longleftrightarrow>
     (let u = urlparse (hc_url c) in
      hc_service c = ''notion'' \<and> hc_token c = bo_notion_token bo \<and> u_scheme u = ''https'' \<and> u_netloc u = ''api.notion.com'' \<and> hc_method c = ''GET'' \<or>
      hc_service c = ''github'' \<and> hc_token c = bo_github_token bo \<and> u_scheme u = ''https'' \<and> u_netloc u = ''api.github.com'' \<and> hc_method c = ''GET'' \<or>
      hc_service c = ''worker'' \<and> hc_token c = bo_worker_token bo \<and> u_scheme u = ''http'' \<and> loopback_host u \<and> bo_execute bo \<and> bo_environment bo = ''dev'')"

text \<open>What a write carries: a task prepared from an item and its issue, sent to the task route of the configured pool.\<close>

definition write_ok :: "bridge_options \<Rightarrow> timestamp option \<Rightarrow> http_call \<Rightarrow> bool" where
  "write_ok bo clock c \<longleftrightarrow>
     hc_service c = ''worker'' \<and> hc_url c = without_slashes (bo_worker_url bo) @ ''/v1/tasks'' \<and>
     (\<exists>n now todo issue. hc_body c = Some n \<and> clock = Some now \<and> prepare_portfolio_task todo issue (At now) now = Inr n)"

definition confined :: "bridge_options \<Rightarrow> timestamp option \<Rightarrow> http_call \<Rightarrow> bool" where
  "confined bo clock c \<longleftrightarrow> origin_ok bo c \<and> (posted c \<longrightarrow> write_ok bo clock c)"

lemma makes_request:
  assumes "recording calls op"
    and "endpoint_check service address = Inr () \<Longrightarrow> P \<lparr>hc_service = service, hc_method = method, hc_url = address, hc_token = key, hc_body = data\<rparr>"
    and "method = ''POST'' \<Longrightarrow> n = Suc k"
  shows "makes calls P n (transport_request op service method address key data)"
proof -
  have "makes calls P n (op \<lparr>hc_service = service, hc_method = method, hc_url = address, hc_token = key, hc_body = data\<rparr>)"
    if "endpoint_check service address = Inr ()"
    unfolding makes_def
  proof
    fix w
    show "\<exists>new. calls (snd (op \<lparr>hc_service = service, hc_method = method, hc_url = address, hc_token = key, hc_body = data\<rparr> w)) = calls w @ new \<and>
      (\<forall>c\<in>set new. P c) \<and> length (filter posted new) \<le> n"
      using assms that unfolding recording_def
      by (intro exI [of _ "[\<lparr>hc_service = service, hc_method = method, hc_url = address, hc_token = key, hc_body = data\<rparr>]"])
        (auto simp: posted_def)
  qed
  then show ?thesis
    unfolding transport_request_def by (intro makes_lift makes_check makes_pay makes_pure) simp
qed

lemma makes_get:
  assumes "recording calls op"
    and "endpoint_check service address = Inr () \<Longrightarrow> P \<lparr>hc_service = service, hc_method = ''GET'', hc_url = address, hc_token = key, hc_body = None\<rparr>"
  shows "makes calls P 0 (bridge_get op service address key)"
  unfolding bridge_get_def using assms
  by (intro makes_pay makes_request) (auto intro: makes_check split: prod.split)

lemma endpoints:
  "endpoint_check ''notion'' a = Inr () \<longleftrightarrow> u_scheme (urlparse a) = ''https'' \<and> u_netloc (urlparse a) = ''api.notion.com''"
  "endpoint_check ''github'' a = Inr () \<longleftrightarrow> u_scheme (urlparse a) = ''https'' \<and> u_netloc (urlparse a) = ''api.github.com''"
  "endpoint_check ''worker'' a = Inr () \<Longrightarrow> u_scheme (urlparse a) = ''http'' \<and> loopback_host (urlparse a)"
  by (auto simp: endpoint_check_def Let_def outcome_simps split: if_splits)

lemma get_confined:
  assumes "recording calls op"
  shows "makes calls (confined bo clock) 0 (bridge_get op ''notion'' a (bo_notion_token bo))"
    "makes calls (confined bo clock) 0 (bridge_get op ''github'' a (bo_github_token bo))"
    "bo_execute bo \<Longrightarrow> bo_environment bo = ''dev'' \<Longrightarrow> makes calls (confined bo clock) 0 (bridge_get op ''worker'' a (bo_worker_token bo))"
  by (auto intro!: makes_get [OF assms] simp: confined_def origin_ok_def posted_def endpoints Let_def dest: endpoints(3))

lemma read_notion_confined:
  assumes "recording calls op"
  shows "makes calls (confined bo clock) 0 (read_notion ft op page_id source (bo_notion_token bo))"
  unfolding read_notion_def using get_confined [OF assms]
  by (intro makes_free) (auto intro!: makes_lift makes_check split: pyval.split)

lemma read_github_confined:
  assumes "recording calls op"
  shows "makes calls (confined bo clock) 0 (read_github ft op ext (bo_github_token bo))"
  unfolding read_github_def Let_def
  by (auto intro!: makes_free [OF get_confined(2) [OF assms]] makes_lift makes_check split: option.split)

lemma dispatch_confined:
  assumes "recording calls op" "bo_execute bo" "clock = Some now" "prepare_portfolio_task todo issue (At now) now = Inr n"
  shows "makes calls (confined bo clock) 1 (dispatch ft op bo page_id source todo snap n)"
proof -
  have post: "makes calls (confined bo clock) 1 (transport_request op ''worker'' ''POST'' (base @ ''/v1/tasks'') (bo_worker_token bo) (Some n))"
    if "bo_environment bo = ''dev''" "allowed_worker_url (bo_worker_url bo) = Inr base" for base
  proof (rule makes_request [OF assms(1)])
    have "base = without_slashes (bo_worker_url bo)" using that(2) by (auto simp: allowed_worker_url_def Let_def outcome_simps split: if_splits)
    then show "confined bo clock \<lparr>hc_service = ''worker'', hc_method = ''POST'', hc_url = base @ ''/v1/tasks'', hc_token = bo_worker_token bo, hc_body = Some n\<rparr>"
      if "endpoint_check ''worker'' (base @ ''/v1/tasks'') = Inr ()"
      using endpoints(3) [OF that] assms(2-4) \<open>bo_environment bo = ''dev''\<close>
      by (auto simp: confined_def origin_ok_def write_ok_def posted_def Let_def)
  qed simp
  show ?thesis
    unfolding dispatch_def case_prod_unfold
    by (rule makes_check, rule makes_check, rule makes_lift, rule makes_free [OF get_confined(3) [OF assms(1,2)]], assumption,
        rule makes_lift, rule makes_check, rule makes_free [OF read_notion_confined [OF assms(1)]], rule makes_check,
        rule makes_free [OF read_github_confined [OF assms(1)]], rule makes_check, rule makes_check, rule makes_pay [OF post], assumption, assumption,
        rule makes_lift, rule makes_free [OF get_confined(3) [OF assms(1,2)]], assumption, rule makes_lift, rule makes_pure)
qed

lemma run_page_confined:
  assumes "recording calls op"
  shows "makes calls (confined bo clock) 1 (run_page ft op bo clock)"
  unfolding run_page_def
  by (rule makes_lift, split prod.split, intro allI impI, rule makes_check, rule makes_lift, rule makes_free [OF read_notion_confined [OF assms]],
      rule makes_check, rule makes_check, rule makes_free [OF read_github_confined [OF assms]], rule makes_lift)
    (auto simp del: One_nat_def intro!: dispatch_confined [OF assms] split: option.splits)

end
