(* ===== verification/Bridge_Scenario.thy ===== *)
theory Bridge_Scenario
  imports Bridge_Calls
begin

text \<open>
  A run of the portfolio bridge, executed in the logic, against services that answer as an open item of the portfolio, its issue and an open
  lane require. The hash in the request id stays symbolic.
\<close>

definition br_id :: string where
  "br_id = ''00112233-4455-6677-8899-aabbccddeeff''"

definition br_sha :: string where
  "br_sha = replicate 40 (CHR ''a'')"

definition br_field :: "string \<Rightarrow> pyval" where
  "br_field s = PDict [(''type'', PStr ''url''), (''url'', PStr s)]"

definition br_page :: pyval where
  "br_page = PDict [(''object'', PStr ''page''), (''id'', PStr br_id), (''archived'', PBool False), (''in_trash'', PBool False),
     (''parent'', PDict [(''type'', PStr ''data_source_id''), (''data_source_id'', PStr br_id)]),
     (''properties'', PDict [(''Fonte'', br_field ''GitHub''), (''Status'', br_field ''PENDENTE''), (''Tipo'', br_field ''Correcao''),
        (''Prioridade'', br_field ''P1''), (''Origem URL'', br_field ''https://github.com/o/r''),
        (''Identificador externo'', br_field ''github:o/r#7''), (''Chave de idempotencia'', br_field ''k''), (''Correlation ID'', br_field ''c'')])]"

definition br_todo :: pydict where
  "br_todo = [(''Fonte'', PStr ''GitHub''), (''Status'', PStr ''PENDENTE''), (''Tipo'', PStr ''Correcao''),
     (''Prioridade'', PStr ''P1''), (''Origem URL'', PStr ''https://github.com/o/r''),
     (''Identificador externo'', PStr ''github:o/r#7''), (''Chave de idempotencia'', PStr ''k''), (''Correlation ID'', PStr ''c'')]"

definition br_task :: pydict where
  "br_task = [(''task_id'', PStr ''t''), (''repository'', PStr ''o/r''), (''issue_number'', PInt 7), (''base_sha'', PStr br_sha),
     (''request_id'', PStr (''todo-'' @ sha256_hex ''k'')), (''correlation_id'', PStr ''c'')]"

definition br_answers :: "(string \<times> string \<times> int \<times> pyval) list" where
  "br_answers =
     [(''GET'', ''https://api.notion.com/v1/pages/'' @ br_id, 200, br_page),
      (''GET'', ''https://api.github.com/repos/o/r'', 200, PDict [(''full_name'', PStr ''o/r''), (''default_branch'', PStr ''main'')]),
      (''GET'', ''https://api.github.com/repos/o/r/issues/7'', 200,
        PDict [(''number'', PInt 7), (''state'', PStr ''open''), (''html_url'', PStr ''https://github.com/o/r/issues/7'')]),
      (''GET'', ''https://api.github.com/repos/o/r/git/ref/heads/main'', 200,
        PDict [(''ref'', PStr ''refs/heads/main''), (''object'', PDict [(''sha'', PStr br_sha), (''type'', PStr ''commit'')])]),
      (''GET'', ''http://localhost:8080/v1/repositories'', 200,
        PList [PDict [(''repository'', PStr ''o/r''), (''enabled'', PBool True), (''max_in_flight'', PInt 1)]]),
      (''POST'', ''http://localhost:8080/v1/tasks'', 201, PDict [(''task'', PDict br_task), (''created'', PBool True)]),
      (''GET'', ''http://localhost:8080/v1/tasks/t'', 200, PDict br_task)]"

definition br_answer :: "http_call \<Rightarrow> http_outcome" where
  "br_answer c =
     (case find (\<lambda>(m, u, _). m = hc_method c \<and> u = hc_url c) br_answers of
        None \<Rightarrow> HttpFailure 404 | Some (_, _, hs, v) \<Rightarrow> HttpAnswer hs [] (Some v))"

definition br_open :: "http_call list opener" where
  "br_open c w = (Inr (br_answer c), w @ [c])"

definition br_options :: bridge_options where
  "br_options = \<lparr>bo_page_id = br_id, bo_source_id = br_id, bo_notion_token = ''n'', bo_github_token = ''g'', bo_worker_token = ''w'',
     bo_worker_url = ''http://localhost:8080/'', bo_execute = True, bo_environment = ''dev''\<rparr>"

definition br_call :: "string \<Rightarrow> string \<Rightarrow> string \<Rightarrow> string \<Rightarrow> task_create option \<Rightarrow> http_call" where
  "br_call service method address key data = \<lparr>hc_service = service, hc_method = method, hc_url = address, hc_token = key, hc_body = data\<rparr>"

lemma br_request:
  assumes "endpoint_check service address = Inr ()" "m \<in> {''GET'', ''POST''}" "br_answer (br_call service m address key data) = HttpAnswer hs [] (Some v)"
  shows "transport_request br_open service m address key data w = (Inr (hs, v), w @ [br_call service m address key data])"
  using assms by (auto simp: transport_request_def andthen_def lift_def check_def ret_def br_open_def br_call_def answer_of_def)

lemma br_get:
  assumes "endpoint_check service address = Inr ()" "br_answer (br_call service ''GET'' address key None) = HttpAnswer 200 [] (Some v)"
  shows "bridge_get br_open service address key w = (Inr v, w @ [br_call service ''GET'' address key None])"
  using br_request [OF assms(1) _ assms(2)] by (simp add: bridge_get_def andthen_def check_def ret_def)

lemma br_endpoints:
  "endpoint_check ''notion'' (''https://api.notion.com/v1/pages/'' @ br_id) = Inr ()" "endpoint_check ''github'' ''https://api.github.com/repos/o/r'' = Inr ()"
  "endpoint_check ''github'' ''https://api.github.com/repos/o/r/issues/7'' = Inr ()"
  "endpoint_check ''github'' ''https://api.github.com/repos/o/r/git/ref/heads/main'' = Inr ()"
  "endpoint_check ''worker'' ''http://localhost:8080/v1/repositories'' = Inr ()" "endpoint_check ''worker'' ''http://localhost:8080/v1/tasks'' = Inr ()"
  "endpoint_check ''worker'' ''http://localhost:8080/v1/tasks/t'' = Inr ()"
  by code_simp+

lemma br_answered:
  "br_answer (br_call s ''GET'' (''https://api.notion.com/v1/pages/'' @ br_id) k d) = HttpAnswer 200 [] (Some br_page)"
  "br_answer (br_call s ''GET'' ''https://api.github.com/repos/o/r'' k d) =
     HttpAnswer 200 [] (Some (PDict [(''full_name'', PStr ''o/r''), (''default_branch'', PStr ''main'')]))"
  "br_answer (br_call s ''GET'' ''https://api.github.com/repos/o/r/issues/7'' k d) = HttpAnswer 200 [] (Some (
        PDict [(''number'', PInt 7), (''state'', PStr ''open''), (''html_url'', PStr ''https://github.com/o/r/issues/7'')]))"
  "br_answer (br_call s ''GET'' ''https://api.github.com/repos/o/r/git/ref/heads/main'' k d) = HttpAnswer 200 [] (Some (
        PDict [(''ref'', PStr ''refs/heads/main''), (''object'', PDict [(''sha'', PStr br_sha), (''type'', PStr ''commit'')])]))"
  "br_answer (br_call s ''GET'' ''http://localhost:8080/v1/repositories'' k d) = HttpAnswer 200 [] (Some (
        PList [PDict [(''repository'', PStr ''o/r''), (''enabled'', PBool True), (''max_in_flight'', PInt 1)]]))"
  "br_answer (br_call s ''POST'' ''http://localhost:8080/v1/tasks'' k d) =
     HttpAnswer 201 [] (Some (PDict [(''task'', PDict br_task), (''created'', PBool True)]))"
  "br_answer (br_call s ''GET'' ''http://localhost:8080/v1/tasks/t'' k d) = HttpAnswer 200 [] (Some (PDict br_task))"
  by (simp_all add: br_answer_def br_answers_def br_call_def)

lemmas br_gets = br_get [OF br_endpoints(1) br_answered(1), simplified] br_get [OF br_endpoints(2) br_answered(2)] br_get [OF br_endpoints(3) br_answered(3)]
  br_get [OF br_endpoints(4) br_answered(4)] br_get [OF br_endpoints(5) br_answered(5)] br_get [OF br_endpoints(7) br_answered(7)]

lemma br_fields: "properties_of ft [(''Fonte'', br_field ''GitHub''), (''Status'', br_field ''PENDENTE''), (''Tipo'', br_field ''Correcao''),
        (''Prioridade'', br_field ''P1''), (''Origem URL'', br_field ''https://github.com/o/r''),
        (''Identificador externo'', br_field ''github:o/r#7''), (''Chave de idempotencia'', br_field ''k''), (''Correlation ID'', br_field ''c'')] FIELDS = Inr br_todo"
proof -
  have "property_of ft d k = Inr (py_strip v)" if "get d k = br_field v" for d k v
    using that by (simp add: property_of_def br_field_def text_or_empty_def str_value_def get_def)
  note field = this
  have "py_strip ''GitHub'' = ''GitHub''" "py_strip ''PENDENTE'' = ''PENDENTE''" "py_strip ''Correcao'' = ''Correcao''" "py_strip ''P1'' = ''P1''"
    "py_strip ''https://github.com/o/r'' = ''https://github.com/o/r''" "py_strip ''github:o/r#7'' = ''github:o/r#7''" "py_strip ''k'' = ''k''" "py_strip ''c'' = ''c''"
    by code_simp+
  then show ?thesis by (simp add: FIELDS_def field get_def br_todo_def)
qed

lemma br_texts:
  "uuid_text br_id = Some br_id" "external_id ''github:o/r#7'' = Some (''o/r'', ''7'')" "url_quote ''o'' = ''o''" "url_quote ''r'' = ''r''"
  "url_quote ''main'' = ''main''" "url_quote ''t'' = ''t''" "before_char (CHR ''/'') ''o/r'' = ''o''" "after_char (CHR ''/'') ''o/r'' = ''r''"
  "decimal ''7'' = 7" "show_int 7 = ''7''" "py_strip ''main'' = ''main''" "string_of br_todo ''Identificador externo'' = ''github:o/r#7''" "SHA40 br_sha"
  "allowed_worker_url ''http://localhost:8080/'' = Inr ''http://localhost:8080''"
  by code_simp+

abbreviation br_notion :: http_call where
  "br_notion \<equiv> br_call ''notion'' ''GET'' (''https://api.notion.com/v1/pages/'' @ br_id) ''n'' None"

abbreviation br_hub :: "http_call list" where
  "br_hub \<equiv> [br_call ''github'' ''GET'' ''https://api.github.com/repos/o/r'' ''g'' None, br_call ''github'' ''GET'' ''https://api.github.com/repos/o/r/issues/7'' ''g'' None,
     br_call ''github'' ''GET'' ''https://api.github.com/repos/o/r/git/ref/heads/main'' ''g'' None]"

lemmas br_run = andthen_def lift_def check_def ret_def raise_def

lemma br_read_notion: "read_notion ft br_open br_id br_id ''n'' w = (Inr br_todo, w @ [br_notion])"
  by (simp add: read_notion_def br_run br_gets) (simp add: br_page_def br_texts validated_notion_page_def require_def br_fields get_def br_run)

lemma br_read_github: "read_github ft br_open ''github:o/r#7'' ''g'' w =
  (Inr \<lparr>gs_issue = snapshot_issue ''o/r'' 7 ''main'' br_sha, gs_branch = ''main'', gs_sha = br_sha\<rparr>, w @ br_hub)"
  by (simp add: read_github_def Let_def br_run br_gets br_texts text_or_empty_def str_value_def get_def open_issue_answer_def ref_commit_def require_def)

lemma br_prepared: "prepare_portfolio_task br_todo (snapshot_issue ''o/r'' 7 ''main'' br_sha) (At 9) 9 = Inr demo_payload"
proof -
  have "todo_priority br_todo = Inr 10" "issue_identity br_todo (snapshot_issue ''o/r'' 7 ''main'' br_sha) = Inr (''o/r'', 7)"
    "verified_base (snapshot_issue ''o/r'' 7 ''main'' br_sha) = Inr (replicate 40 (CHR ''a''))"
    "string_of br_todo ''Correlation ID'' = ''c''" "string_of br_todo ''Chave de idempotencia'' = ''k''"
    "(0::int) \<le> 9 - 9 \<and> (9::int) - 9 \<le> seconds 300"
    by code_simp+
  then show ?thesis
    by (simp add: prepare_portfolio_task_def observed_at_def require_def bindE_def todo_keys_def demo_payload_def)
qed

lemma br_options_parts: "bo_page_id br_options = br_id" "bo_source_id br_options = br_id" "bo_notion_token br_options = ''n''" "bo_github_token br_options = ''g''"
  "bo_worker_token br_options = ''w''" "bo_worker_url br_options = ''http://localhost:8080/''" "bo_execute br_options" "bo_environment br_options = ''dev''"
  by (simp_all add: br_options_def)

lemma br_dispatched: "run_page ft br_open br_options (Some 9) [] =
  (Inr (verified_state demo_payload ''t'' (PBool True)),
   br_notion # br_hub @ [br_call ''worker'' ''GET'' ''http://localhost:8080/v1/repositories'' ''w'' None, br_notion] @ br_hub @
     [br_call ''worker'' ''POST'' ''http://localhost:8080/v1/tasks'' ''w'' (Some demo_payload), br_call ''worker'' ''GET'' ''http://localhost:8080/v1/tasks/t'' ''w'' None])"
proof -
  have lane: "lane_admitted ''o/r'' [PDict [(''repository'', PStr ''o/r''), (''enabled'', PBool True), (''max_in_flight'', PInt 1)]]"
    by (simp add: lane_admitted_def get_def)
  have payload: "n_repository demo_payload = ''o/r''" "n_base_sha demo_payload = Some br_sha" by (simp_all add: demo_payload_def br_sha_def)
  have post: "transport_request br_open ''worker'' ''POST'' ''http://localhost:8080/v1/tasks'' ''w'' (Some demo_payload) w =
    (Inr (201, PDict [(''task'', PDict br_task), (''created'', PBool True)]), w @ [br_call ''worker'' ''POST'' ''http://localhost:8080/v1/tasks'' ''w'' (Some demo_payload)])" for w
    by (rule br_request [OF br_endpoints(6) _ br_answered(6)]) simp
  have answer: "enqueue_answer 201 (PDict [(''task'', PDict br_task), (''created'', PBool True)]) = Inr (''t'', Some (PBool True))"
    by (simp add: enqueue_answer_def inner_get_def br_task_def get_def require_def)
  have readback: "bridge_readback demo_payload ''t'' (PDict br_task) = Inr ()"
    by (simp add: bridge_readback_def br_task_def demo_payload_def br_sha_def get_def require_def opt_str_def)
  have todo: "get br_todo ''Status'' = PStr ''PENDENTE''" "get br_todo ''Fonte'' = PStr ''GitHub''" by (simp_all add: br_todo_def get_def)
  have d: "dispatch ft br_open br_options br_id br_id br_todo \<lparr>gs_issue = i, gs_branch = ''main'', gs_sha = s\<rparr> demo_payload w =
    (Inr (verified_state demo_payload ''t'' (PBool True)),
      w @ [br_call ''worker'' ''GET'' ''http://localhost:8080/v1/repositories'' ''w'' None, br_notion] @ br_hub @
       [br_call ''worker'' ''POST'' ''http://localhost:8080/v1/tasks'' ''w'' (Some demo_payload), br_call ''worker'' ''GET'' ''http://localhost:8080/v1/tasks/t'' ''w'' None])" for i s w
    unfolding dispatch_def
    by (simp add: br_run br_options_parts br_texts br_gets lane payload br_read_notion br_read_github post answer readback)
  show ?thesis
    using br_options_parts unfolding run_page_def by (simp add: br_run br_texts br_read_notion br_read_github todo br_prepared d)
qed

text \<open>Credentials stay with their origin, and at most one task is written. Whatever the services answer, every call of a run carries the token of its own
  service to that service's address: the portfolio's and GitHub's over HTTPS and for reading only, the pool's to the loopback interface and only when
  execution in the development environment was asked for. A run writes at most once, and what it writes is a task prepared from an
  item and its issue, sent to the task route of the configured pool.\<close>

theorem bridge_calls_confined:
  assumes "recording calls op"
  shows "\<exists>new. calls (snd (run_page ft op bo clock w)) = calls w @ new \<and> (\<forall>c\<in>set new. confined bo clock c) \<and> length (filter posted new) \<le> 1"
  using run_page_confined [OF assms, of bo clock ft] unfolding makes_def by blast

theorem bridge_calls_confined_witness:
  "\<exists>new. snd (run_page (\<lambda>_. []) br_open br_options (Some 9) []) = new \<and> list_all (confined br_options (Some 9)) new \<and>
     length new = 11 \<and> length (filter posted new) = 1"
proof -
  have "recording id br_open" by (simp add: recording_def br_open_def)
  from bridge_calls_confined [OF this, of "\<lambda>_. []" br_options "Some 9" "[]"]
  have "list_all (confined br_options (Some 9)) (snd (run_page (\<lambda>_. []) br_open br_options (Some 9) []))" by (auto simp: list_all_iff)
  then show ?thesis by (simp add: br_dispatched posted_def br_call_def)
qed

end
