(* ===== verification/Cutover_Readiness.thy ===== *)
theory Cutover_Readiness
  imports Py_Value
begin

text \<open>
  \<^verbatim>\<open>scripts/evaluate_cutover_readiness.py\<close>: the decision whether the pool may take over from the
  legacy service, from a policy file and an evidence file.
\<close>

section \<open>The evaluation\<close>

text \<open>\<^verbatim>\<open>str(v or "")\<close>. The text of a list or a dictionary starts with a bracket or a brace, which is all
  that matters for the tests it is put to.\<close>

definition str_or_empty :: "pyval \<Rightarrow> string" where
  "str_or_empty v =
     (if \<not> truthy v then []
      else case v of PNone \<Rightarrow> [] | PBool _ \<Rightarrow> ''True'' | PInt i \<Rightarrow> show_int i | PStr s \<Rightarrow> s
        | PList _ \<Rightarrow> ''['' | PDict _ \<Rightarrow> ''{'')"

text \<open>The names in a list of the policy; the policy names its fields by strings.\<close>

definition names_in :: "pyval \<Rightarrow> string list" where
  "names_in v = (case v of PList fs \<Rightarrow> concat (map (\<lambda>f. case f of PStr s \<Rightarrow> [s] | _ \<Rightarrow> []) fs) | _ \<Rightarrow> [])"

definition named :: "pyval \<Rightarrow> bool" where
  "named v \<longleftrightarrow> (case v of PStr s \<Rightarrow> py_strip s \<noteq> [] | _ \<Rightarrow> False)"

definition sha_ok :: "pyval \<Rightarrow> bool" where
  "sha_ok v \<longleftrightarrow> (let value = py_lower (py_strip (str_or_empty v)) in value = [] \<or> SHA40 value)"

definition identity_blockers :: "pydict \<Rightarrow> pydict \<Rightarrow> string list" where
  "identity_blockers policy evidence =
     concat (map (\<lambda>field. if named (get evidence field) then [] else [''identity_missing:'' @ field])
       (names_in (get policy ''identity_fields''))) @
     concat (map (\<lambda>field. if sha_ok (get evidence field) then [] else [''identity_invalid:'' @ field])
       [''reqsys_sha'', ''worker_pool_sha'']) @
     (if get evidence ''contract_version'' = PStr (str_or_empty (get policy ''expected_contract_version'')) then []
      else [''contract_version_mismatch''])"

text \<open>\<^verbatim>\<open>a is b\<close> for values read from two files: \<open>same\<close> is the interpreter's object identity, which is
  equality on \<^verbatim>\<open>None\<close> and the booleans.\<close>

definition evidence_blockers :: "(pyval \<Rightarrow> pyval \<Rightarrow> bool) \<Rightarrow> pydict \<Rightarrow> pydict \<Rightarrow> string list" where
  "evidence_blockers same required evidence =
     concat (map (\<lambda>(key, expected).
         if key \<notin> fst ` set evidence then [''evidence_missing:'' @ key]
         else if \<not> same (get evidence key) expected then [''evidence_mismatch:'' @ key] else []) required)"

record cutover_result =
  cu_ready :: bool
  cu_blockers :: "string list"
  cu_legacy_removal_allowed :: bool
  cu_rollback_available :: bool

definition evaluate :: "(pyval \<Rightarrow> pyval \<Rightarrow> bool) \<Rightarrow> pydict \<Rightarrow> pydict \<Rightarrow> string + cutover_result" where
  "evaluate same policy evidence =
     bindE (require (get policy ''schema_version'' = PStr ''1.0.0'') ''unsupported_policy_schema'') (\<lambda>_.
     bindE (require (get policy ''decision_mode'' = PStr ''fail_closed'') ''policy_must_fail_closed'') (\<lambda>_.
     case get policy ''required_evidence'' of
       PDict required \<Rightarrow>
         bindE (require (required \<noteq> []) ''required_evidence_missing'') (\<lambda>_.
           let blockers = sort (remdups (identity_blockers policy evidence @ evidence_blockers same required evidence));
               ready = (blockers = []);
               rollback = (case get policy ''rollback'' of PDict d \<Rightarrow> d | _ \<Rightarrow> []) in
           Inr \<lparr>cu_ready = ready, cu_blockers = blockers, cu_legacy_removal_allowed = ready,
                cu_rollback_available =
                  (get rollback ''available_while_legacy_present'' = PBool True \<and>
                   get evidence ''legacy_reqsys_present'' = PBool True)\<rparr>)
     | _ \<Rightarrow> Inl ''required_evidence_missing''))"

text \<open>The decision of the script: an error of any kind is a blocked cutover.\<close>

definition cutover_decision :: "string + cutover_result \<Rightarrow> cutover_result" where
  "cutover_decision r =
     (case r of
        Inr x \<Rightarrow> x
      | Inl _ \<Rightarrow> \<lparr>cu_ready = False, cu_blockers = [''policy_evaluation_error:CutoverPolicyError''],
                   cu_legacy_removal_allowed = False, cu_rollback_available = False\<rparr>)"

section \<open>When the answer is yes\<close>

text \<open>The cutover decision fails closed. With a policy that asks for boolean evidence, the answer is ready
  exactly when every identity field is a non-empty text, both commits are well formed, the
  contract version is the expected one, and every single piece of required evidence is present
  with exactly the required value; otherwise the cutover is blocked and removal is not allowed.\<close>

theorem cutover_fails_closed:
  assumes "get policy ''required_evidence'' = PDict required"
    and "\<forall>(k, v)\<in>set required. v = PBool True \<or> v = PBool False"
    and "\<forall>v b. same v (PBool b) \<longleftrightarrow> v = PBool b"
  shows "cu_legacy_removal_allowed (cutover_decision (evaluate same policy evidence)) \<longleftrightarrow>
    get policy ''schema_version'' = PStr ''1.0.0'' \<and> get policy ''decision_mode'' = PStr ''fail_closed'' \<and> required \<noteq> [] \<and>
    (\<forall>f\<in>set (names_in (get policy ''identity_fields'')). named (get evidence f)) \<and>
    sha_ok (get evidence ''reqsys_sha'') \<and> sha_ok (get evidence ''worker_pool_sha'') \<and>
    get evidence ''contract_version'' = PStr (str_or_empty (get policy ''expected_contract_version'')) \<and>
    (\<forall>(k, v)\<in>set required. map_of evidence k = Some v)"
proof -
  have ev: "evidence_blockers same required evidence = [] \<longleftrightarrow> (\<forall>(k, v)\<in>set required. map_of evidence k = Some v)"
  proof -
    have "(if k \<notin> fst ` set evidence then [''evidence_missing:'' @ k]
        else if \<not> same (get evidence k) v then [''evidence_mismatch:'' @ k] else []) = [] \<longleftrightarrow> map_of evidence k = Some v"
      if "(k, v) \<in> set required" for k v
      using assms(2,3) that by (auto simp: get_def map_of_eq_None_iff split: option.splits) (metis fst_conv image_eqI map_of_SomeD)+
    then show ?thesis by (fastforce simp: evidence_blockers_def)
  qed
  have idb: "identity_blockers policy evidence = [] \<longleftrightarrow>
    (\<forall>f\<in>set (names_in (get policy ''identity_fields'')). named (get evidence f)) \<and>
    sha_ok (get evidence ''reqsys_sha'') \<and> sha_ok (get evidence ''worker_pool_sha'') \<and>
    get evidence ''contract_version'' = PStr (str_or_empty (get policy ''expected_contract_version''))"
    by (auto simp: identity_blockers_def)
  have "sort (remdups (xs @ ys)) = [] \<longleftrightarrow> xs = [] \<and> ys = []" for xs ys :: "string list"
    by (metis append_is_Nil_conv length_0_conv length_sort remdups_eq_nil_iff)
  then show ?thesis
    using ev idb assms(1)
    by (auto simp: evaluate_def cutover_decision_def require_def bindE_def Let_def)
qed

definition demo_policy :: pydict where
  "demo_policy = [(''schema_version'', PStr ''1.0.0''), (''decision_mode'', PStr ''fail_closed''),
     (''expected_contract_version'', PStr ''v1''), (''identity_fields'', PList [PStr ''correlation_id'']),
     (''required_evidence'', PDict [(''replay_idempotent'', PBool True), (''secrets_migrated_to_git'', PBool False)])]"

definition demo_evidence_file :: "bool \<Rightarrow> pydict" where
  "demo_evidence_file b = [(''contract_version'', PStr ''v1''), (''correlation_id'', PStr ''c''),
     (''replay_idempotent'', PBool True), (''secrets_migrated_to_git'', PBool b)]"

definition same_bool :: "pyval \<Rightarrow> pyval \<Rightarrow> bool" where
  "same_bool v w \<longleftrightarrow> (case v of PBool b \<Rightarrow> w = PBool b | PNone \<Rightarrow> w = PNone | _ \<Rightarrow> False)"

theorem cutover_fails_closed_witness:
  "cu_legacy_removal_allowed (cutover_decision (evaluate same_bool demo_policy (demo_evidence_file False))) \<and>
   \<not> cu_legacy_removal_allowed (cutover_decision (evaluate same_bool demo_policy (demo_evidence_file True)))"
proof -
  let ?req = "[(''replay_idempotent'', PBool True), (''secrets_migrated_to_git'', PBool False)]"
  have r: "get demo_policy ''required_evidence'' = PDict ?req" by (simp add: demo_policy_def get_def)
  have b: "\<forall>(k, v)\<in>set ?req. v = PBool True \<or> v = PBool False" by simp
  have s: "\<forall>v b. same_bool v (PBool b) \<longleftrightarrow> v = PBool b" by (auto simp: same_bool_def split: pyval.split)
  have "named (PStr ''c'')" "sha_ok PNone" "str_or_empty (PStr ''v1'') = ''v1''" "names_in (PList [PStr ''correlation_id'']) = [''correlation_id'']"
    by code_simp+
  then show ?thesis
    unfolding cutover_fails_closed [OF r b s]
    by (simp add: demo_policy_def demo_evidence_file_def get_def)
qed

end
