(* ===== verification/Spec2Isabelle.thy ===== *)
theory Spec2Isabelle
  imports
    Issue_Properties
    One_Shot_Properties
    Safe_Paths
    Structured_Feedback
    Structured_Edits
    Structured_Scenario
    Structured_Assembly
    Effect_Properties
    Pool_Edges
    Pg_Authority
    Sql_Reading
    Portfolio_Todo
    Bridge_Scenario
    Cutover_Readiness
begin

text \<open>
  A verification development of the engineering worker pool (\<^verbatim>\<open>src/app\<close>, \<^verbatim>\<open>src/scripts\<close>).

  \<^bold>\<open>The program.\<close> The pool is a queue of engineering tasks in one database. Builders claim a queued
  task, work under a lease, hand a commit over; an independent validator claims and completes it.
  Fenced tasks record checkpoints of external effects; an effect whose outcome is unknown blocks
  the task until a separate authority reconciles it. \<^verbatim>\<open>app/store.py\<close> is the queue,
  \<^verbatim>\<open>app/work.py\<close> records evidence and merge results on top of it, \<^verbatim>\<open>app/reconcile.py\<close> runs the
  recovery in the background, \<^verbatim>\<open>app/task_diagnostics.py\<close> explains why a task waits,
  \<^verbatim>\<open>app/main.py\<close> is the HTTP service, \<^verbatim>\<open>app/postgres_authority.py\<close> runs the store's statements on
  PostgreSQL instead of SQLite, \<^verbatim>\<open>app/portfolio_todo.py\<close> turns portfolio items into submissions,
  \<^verbatim>\<open>app/portfolio_bridge.py\<close> reads them from the portfolio and GitHub and submits them, and
  \<^verbatim>\<open>scripts/evaluate_cutover_readiness.py\<close> decides whether the predecessor may be removed. On the other side of
  the service stand its clients: \<^verbatim>\<open>app/native_pool_http.py\<close> is the client that trusts no answer,
  \<^verbatim>\<open>app/issue_pool_admission.py\<close> submits an issue that its owner authorized, and
  \<^verbatim>\<open>app/issue_publish_coordinator.py\<close> with \<^verbatim>\<open>app/issue_draft_pr.py\<close> publishes the commit of a completed task as a
  draft; \<^verbatim>\<open>app/native_one_shot.py\<close> is the worker itself: it runs one role of one task in a local workspace, with an
  adapter that does the work, and leaves a receipt. One such adapter is the structured code worker: \<^verbatim>\<open>app/structured_code_worker.py\<close> repairs one
  function of one file with texts that a language model proposes. It admits a candidate through a guard on its syntax tree, runs it on the task's cases in a
  child process, gives feedback, and writes and commits a candidate only after a full pass; \<^verbatim>\<open>app/structured_anchors.py\<close>,
  \<^verbatim>\<open>app/structured_revision.py\<close> and \<^verbatim>\<open>app/structured_diagnostics.py\<close> turn short answers of the model into revisions and record what happened, and
  \<^verbatim>\<open>app/structured_type_guard_completion.py\<close> searches for a missing type test.

  \<^bold>\<open>The theories.\<close>
  \<^item> \<open>Pool_Prelude\<close>: results of fallible code, tables as lists of rows (locale \<open>keyed_table\<close>),
    \<^verbatim>\<open>ORDER BY ... LIMIT 1\<close>. \<open>Sha256\<close>: the hash. \<open>Py_Text\<close>, \<open>Pool_Clock\<close>: the text functions,
    regular expressions and ISO instants of \<^verbatim>\<open>store.py\<close>; \<open>Iso_Text\<close>: \<^verbatim>\<open>iso\<close> and \<^verbatim>\<open>parse_iso\<close> on the
    calendar. \<open>Py_Value\<close>: JSON values of unknown type. \<open>Py_Effect\<close>: code that acts on an outside world.
  \<^item> \<open>Pool_Schema\<close>, \<open>Pool_Registry\<close>, \<open>Pool_Queue\<close>, \<open>Pool_Claim\<close>, \<open>Pool_Lease\<close>, \<open>Pool_Checkpoint\<close>:
    the tables, constraints and triggers of \<^verbatim>\<open>WorkerPoolStore\<close> and every operation of it, in the
    order of the source. A transaction body is a function from databases to an error or a result
    with a database (\<open>pool_tx\<close>); \<open>run_tx\<close> is \<^verbatim>\<open>_tx\<close>, which keeps the old database on an error.
  \<^item> \<open>Task_Lifecycle\<close>: the abstract specification, the life of one task as a step relation with
    its invariants. \<open>Pool_Refinement\<close> and \<open>Pool_System\<close>: every operation of the store moves every
    task by lifecycle steps; the locales \<open>life_property\<close> and \<open>life_relation\<close> lift invariants and
    stable relations of one life to all reachable databases. \<open>Pool_Scenario\<close>: a concrete history
    executed in the logic, the source of the witnesses.
  \<^item> \<open>Pool_Safety\<close>: what holds in every reachable database. \<open>Claim_Properties\<close>,
    \<open>Recovery_Properties\<close>, \<open>Effect_Properties\<close>: what the claim, the recovery cycle, the checkpoints
    and the admission do. \<open>Pool_Edges\<close>: where the behaviour is finer than the documentation.
  \<^item> \<open>Work_Orchestrator\<close> (\<^verbatim>\<open>work.py\<close>; locale \<open>task_source\<close> is what it needs of the pool),
    \<open>Reconciler\<close> (\<^verbatim>\<open>reconcile.py\<close>), \<open>Pool_View\<close> (\<^verbatim>\<open>WorkerPoolStore.snapshot\<close> and
    \<^verbatim>\<open>task_diagnostics.py\<close>), \<open>Pool_Api\<close> and \<open>Api_Properties\<close> (\<^verbatim>\<open>main.py\<close>: one definition per route,
    \<open>serve\<close> is a request with its credential).
  \<^item> \<open>Pool_Sql\<close> (\<^verbatim>\<open>compile_pool_sql\<close>), \<open>Sql_Reading\<close> (the lexical rules of SQL and of the driver's format, as relations, against which it is
    proved) and \<open>Pg_Authority\<close> (the rest of \<^verbatim>\<open>postgres_authority.py\<close>,
    with the connections, threads, lost sessions and the advisory lock as a transition system).
  \<^item> \<open>Portfolio_Todo\<close>, \<open>Cutover_Readiness\<close>: the two admission gates. \<open>Py_Repr\<close> (\<^verbatim>\<open>str\<close>, \<^verbatim>\<open>repr\<close>, URLs and UUIDs of Python's library),
    \<open>Portfolio_Bridge\<close>: the bridge as an action on a world that opens URLs. \<open>Bridge_Calls\<close>: a calculus of the calls an action makes.
    \<open>Bridge_Scenario\<close>: a dispatch executed in the logic.
  \<^item> \<open>Api_Json\<close>: the JSON of the service's answers. \<open>Native_Http\<close>: every method of the client
    \<^verbatim>\<open>LocalWorkerApi\<close> over an arbitrary transport, and the transport that is the modelled service.
    \<open>Client_Properties\<close>: the client over a line that may lose requests and answers (locale
    \<open>world_relation\<close> of \<open>Py_Effect\<close> says what an action can do to the world it sees).
  \<^item> \<open>Issue_Handoff\<close>: admission, submission, verification and publication of an issue over ports to GitHub, to
    the artifact store and to the verifiers. \<open>Issue_Scenario\<close>: a hand-off executed in the logic.
    \<open>Issue_Properties\<close>: the hand-off with the client and the service in the place of the pool.
  \<^item> \<open>One_Shot\<close>: the one-shot worker, from the manifest to the receipt, over ports to git, the files, the receipts, the adapter,
    the durable store and the worker API. \<open>Safe_Paths\<close>: the paths of a manifest. \<open>One_Shot_Scenario\<close>: a job built and
    validated in the logic. \<open>One_Shot_Properties\<close>: the worker with the client and the service in the place of its API, while
    other clients use the same service.
  \<^item> \<open>Py_Ast\<close>: syntax trees, and JSON values printed and compared. \<open>Structured_Worker\<close>: the checks of a task, the guard, the extraction and the rendering of a
    function, observations, reports, feedback and the validator. \<open>Structured_Guard\<close>, \<open>Structured_Report\<close>, \<open>Structured_Feedback\<close>: what the guard accepts and that it
    ends; what a report means; when feedback exists. \<open>Structured_Anchors\<close>, \<open>Structured_Revision\<close>: the revisions of \<^verbatim>\<open>structured_anchors.py\<close> and
    \<^verbatim>\<open>structured_revision.py\<close> with their diagnostics; \<open>Structured_Assembly\<close>, \<open>Structured_Edits\<close>: what they change.
    \<open>Structured_Actions\<close>: actions that may raise, with calculi for what they cost and what they leave as it was. \<open>Structured_Repair\<close>: the completion by a type
    test, the checks of the git copy and of its configuration, and the whole of \<^verbatim>\<open>repair\<close>. \<open>Structured_Outcome\<close>, \<open>Structured_Scenario\<close>: what a repair does, with a
    repair executed in the logic.

  \<^bold>\<open>What the theorems show.\<close> The store refines the lifecycle machine; hence in every history of
  calls leases are exclusive, an ended attempt is never accepted again, nobody validates their own
  work, an unresolved effect keeps its task out of the queue and out of the final states, the
  attempt log and the quarantine agree with the tasks, and final states stay. The claim is fair and
  within the lane's capacity, and the lease it returns is the one the lease check accepts. The
  recovery cycle always returns and clears all leases that expired in an earlier second; \<open>Pool_Edges\<close> says exactly when it takes one that is still accepted. A blocked task can always be
  released. Merged runs belong to completed, independently validated tasks. All this holds behind
  the HTTP service for arbitrary requests; the two credentials are separate, and a request that
  fails leaves no trace. On PostgreSQL only the holder of the advisory lock writes, also when sessions are lost at any moment, and the statement
  adapter turns exactly the question marks of the SQL text into values. The bridge sends each credential to its own service only, and writes at
  most one task, to the loopback interface. What the native client confirms has happened exactly once
  in the service's database, and a lease or a checkpoint it reports is there; an issue that was
  reported as submitted is one fenced task at the commit its owner authorized; exactly the completed tasks pass
  the coordinator's test, a publication writes to the issue's branch only, after every check, and
  repeating it changes nothing. A receipt of the one-shot worker is true of the service's database whatever other clients do, an artifact
  is published only while its effect stands as pending in the pool, and a job that has a receipt is not done twice. In the structured worker
  the guard ends on every tree and admits only listed syntax and calls, the parent accepts what the child reports, a full pass means that every case passed,
  a revision changes only the lines or places it names and its diagnostics hold no text, a repair asks the model at most twice and starts at most sixteen
  validations, its receipt is true of the file, and only passing texts are written. The theorems of \<open>Pool_Edges\<close>, and those on races of
  merge results, on paused lanes and on failures reported through the client, state behaviour that departs from what the documentation says.

  \<^bold>\<open>Conventions.\<close> Strings are ASCII and messages are the source's without accents, some shortened.
  An operation reads the clock once (\<open>now\<close>, in microseconds); the values of \<^verbatim>\<open>uuid4\<close> and
  \<^verbatim>\<open>token_urlsafe\<close> are arguments. Comparisons that SQL makes on ISO text are \<open>text_le\<close>, those Python
  makes on instants are \<open>\<le>\<close>. A \<^verbatim>\<open>SELECT\<close> without \<^verbatim>\<open>ORDER BY\<close> yields rowid order.
  \<^verbatim>\<open>BEGIN IMMEDIATE\<close>, or the advisory lock, makes transactions run one after the other; what a
  method does in two transactions is two definitions. Ages are rounded to milliseconds, half to
  even. Code that talks to the outside is an action on a state of the world (\<open>act\<close>); the network, GitHub, the
  artifact store, the git verifier and the judge of patches are arguments, and what a theorem needs of
  them is a named hypothesis (\<open>connected\<close>, \<open>online\<close>, \<open>elsewhere\<close>, \<open>logged\<close>, \<open>quiet_github\<close>, \<open>served\<close>, \<open>bystanders\<close>, \<open>recording\<close>, \<open>only_write_changes\<close>,
  \<open>true_validator\<close>, \<open>charged\<close>, \<open>reads_target\<close>). Python's parser and unparser, its reader of JSON and the printing of floats are the fields of \<open>py_lib\<close>; the call of a candidate
  (\<open>runner\<close>), the observer of the diagnostics, the language model (\<open>proposer\<close>) and the files, git and child processes of a repair (\<open>repair_ports\<close>) are arguments too. A
  write of a file that raises may leave anything in it. Every definition is total and executable; no fuel is used: the loops of the source run over
  lists, texts or trees, the work list of the guard is measured by the nodes left, and the search for a type test stops after twelve trials.

  \<^bold>\<open>Not modelled.\<close> The migration of databases of older versions (\<^verbatim>\<open>ALTER TABLE\<close> in
  \<^verbatim>\<open>WorkerPoolStore._init\<close>); I/O errors of SQLite; FastAPI's routing and JSON decoding (a request is
  a value of \<open>api_request\<close>) and psycopg (what the driver does is an argument). The resource limits of the validator's child and the Windows job object are calls
  of the operating system. \<^verbatim>\<open>structured_ollama.py\<close>, \<^verbatim>\<open>local_code_worker.py\<close>, \<^verbatim>\<open>native_structured_ollama.py\<close> and the retrieval clients \<^verbatim>\<open>issue_rag_*.py\<close> drive a language model or a
  search service over HTTP; the native runtimes, launchers and gateways drive processes, containers and SSH;
  \<^verbatim>\<open>github_draft_port.py\<close>, \<^verbatim>\<open>github_cas_transport.py\<close> and \<^verbatim>\<open>s3_git_bundle_artifact.py\<close> are HTTP transports behind the ports of the model, \<^verbatim>\<open>secure_file.py\<close> is Windows file
  security, \<^verbatim>\<open>ci_entrypoint.py\<close> starts the server, and the drivers under \<^verbatim>\<open>scripts\<close> start services and compare their answers: what they do is I/O
  against systems that are not in the repository, so they are outside the model. Printing and argument parsing of the command lines are left out throughout.
\<close>

end
